(* ===== verification/Prelude.thy ===== *)
theory Prelude
  imports Main "HOL-Library.Word" "HOL-Library.Char_ord" "HOL-Library.List_Lexorder"
    "HOL-Library.AList" "HOL-Library.Multiset" "HOL-Library.Monad_Syntax"
begin

text \<open>
  Shared vocabulary of the development: the collections of rewrite rules the component
  theories extend, the model of Go maps whose iteration order is unspecified, the comparator
  sort the stores use (\<open>slices.SortFunc\<close>), and generic facts on lists and maps.
\<close>

section \<open>Fact collections\<close>

named_theorems op_defs \<open>definitions of store operations, unfolded in branch proofs\<close>

section \<open>Results\<close>

text \<open>
  A Go function that returns \<open>(value, error)\<close> is a value of \<open>'e + 'a\<close>; one that returns
  \<open>(value, ok, error)\<close> is a value of \<open>'e + 'a option\<close>.
\<close>

abbreviation is_err :: "'e + 'a \<Rightarrow> bool" where
  "is_err r \<equiv> isl r"

abbreviation is_ok :: "'e + 'a \<Rightarrow> bool" where
  "is_ok r \<equiv> \<not> isl r"

text \<open>A guard of the option monad, for parsers.\<close>

definition require :: "bool \<Rightarrow> unit option" where
  "require b = (if b then Some () else None)"

lemma require_simps [simp]: "require True = Some ()" "require False = None"
  by (simp_all add: require_def)

lemma require_eq_Some [simp]: "require b = Some u \<longleftrightarrow> b"
  by (simp add: require_def)

section \<open>Handlers\<close>

text \<open>
  A handler is a function from a state to a result, or the error of an early return, and the
  state after it. \<open>and_then\<close> runs one after the other, \<open>check\<close> is a guard with its error,
  \<open>demand\<close> a lookup whose miss is an error.
\<close>

type_synonym ('s, 'e, 'a) handler = "'s \<Rightarrow> ('e + 'a) \<times> 's"

definition and_then :: "('s, 'e, 'a) handler \<Rightarrow> ('a \<Rightarrow> ('s, 'e, 'b) handler) \<Rightarrow> ('s, 'e, 'b) handler" where
  "and_then m f s = (case m s of (Inl e, s') \<Rightarrow> (Inl e, s') | (Inr x, s') \<Rightarrow> f x s')"

definition return_ok :: "'a \<Rightarrow> ('s, 'e, 'a) handler" where
  "return_ok x s = (Inr x, s)"

definition fail_with :: "'e \<Rightarrow> ('s, 'e, 'a) handler" where
  "fail_with e s = (Inl e, s)"

definition check :: "bool \<Rightarrow> 'e \<Rightarrow> ('s, 'e, unit) handler" where
  "check b e s = (if b then (Inr (), s) else (Inl e, s))"

definition demand :: "'a option \<Rightarrow> 'e \<Rightarrow> ('s, 'e, 'a) handler" where
  "demand x e s = (case x of None \<Rightarrow> (Inl e, s) | Some y \<Rightarrow> (Inr y, s))"

definition lift_result :: "'e + 'a \<Rightarrow> ('s, 'e, 'a) handler" where
  "lift_result r s = (r, s)"

text \<open>A step that depends on the state.\<close>

definition reading :: "('s \<Rightarrow> ('s, 'e, 'a) handler) \<Rightarrow> ('s, 'e, 'a) handler" where
  "reading f s = f s s"

lemma and_then_ok:
  "and_then m f s = (Inr y, s') \<longleftrightarrow> (\<exists>x s1. m s = (Inr x, s1) \<and> f x s1 = (Inr y, s'))"
  by (auto simp: and_then_def split: prod.splits sum.splits)

lemma and_then_err:
  "and_then m f s = (Inl e, s') \<longleftrightarrow>
     m s = (Inl e, s') \<or> (\<exists>x s1. m s = (Inr x, s1) \<and> f x s1 = (Inl e, s'))"
  by (auto simp: and_then_def split: prod.splits sum.splits)

lemma basic_handlers_ok:
  "return_ok x s = (Inr y, s') \<longleftrightarrow> y = x \<and> s' = s"
  "fail_with e s = (Inr y, s') \<longleftrightarrow> False"
  "check b e s = (Inr u, s') \<longleftrightarrow> b \<and> s' = s"
  "demand z e s = (Inr y, s') \<longleftrightarrow> z = Some y \<and> s' = s"
  "lift_result r s = (Inr y, s') \<longleftrightarrow> r = Inr y \<and> s' = s"
  by (auto simp: return_ok_def fail_with_def check_def demand_def lift_result_def split: option.splits)

lemma basic_handlers_err:
  "return_ok x s = (Inl d, s') \<longleftrightarrow> False"
  "fail_with e s = (Inl d, s') \<longleftrightarrow> d = e \<and> s' = s"
  "check b e s = (Inl d, s') \<longleftrightarrow> \<not> b \<and> d = e \<and> s' = s"
  "demand z e s = (Inl d, s') \<longleftrightarrow> z = None \<and> d = e \<and> s' = s"
  "lift_result r s = (Inl d, s') \<longleftrightarrow> r = Inl d \<and> s' = s"
  by (auto simp: return_ok_def fail_with_def check_def demand_def lift_result_def split: option.splits)

lemma basic_handlers_run:
  "and_then (return_ok x) f s = f x s"
  "and_then (check True e) g s = g () s"
  "and_then (check False e) g s = (Inl e, s)"
  "and_then (demand (Some x) e) f s = f x s"
  "and_then (demand None e) f s = (Inl e, s)"
  "and_then (lift_result (Inr x)) f s = f x s"
  "and_then (lift_result (Inl e)) f s = (Inl e, s)"
  by (simp_all add: and_then_def return_ok_def check_def demand_def lift_result_def)

lemmas handler_ok = and_then_ok basic_handlers_ok
lemmas handler_err = and_then_err basic_handlers_err

section \<open>Go maps with observable iteration\<close>

text \<open>
  A Go map that the code only looks up is a partial function. A map the code iterates over is
  an association list: the list order is one iteration order Go may choose, and facts that do
  not depend on it are stated for every permutation of the entries.
\<close>

type_synonym 'v gomap = "(string \<times> 'v) list"

abbreviation gm_get :: "'v gomap \<Rightarrow> string \<Rightarrow> 'v option" where
  "gm_get m k \<equiv> map_of m k"

abbreviation gm_put :: "string \<Rightarrow> 'v \<Rightarrow> 'v gomap \<Rightarrow> 'v gomap" where
  "gm_put k v m \<equiv> AList.update k v m"

abbreviation gm_values :: "'v gomap \<Rightarrow> 'v list" where
  "gm_values m \<equiv> map snd m"

abbreviation gm_keys :: "'v gomap \<Rightarrow> string list" where
  "gm_keys m \<equiv> map fst m"

abbreviation gm_ok :: "'v gomap \<Rightarrow> bool" where
  "gm_ok m \<equiv> distinct (gm_keys m)"

lemma gm_get_put [simp]: "gm_get (gm_put k v m) j = (if j = k then Some v else gm_get m j)"
  by (simp add: update_conv')

lemma gm_ok_put [simp]: "gm_ok m \<Longrightarrow> gm_ok (gm_put k v m)"
  by (rule distinct_update)

lemma gm_values_get:
  assumes "gm_ok m"
  shows "v \<in> set (gm_values m) \<longleftrightarrow> (\<exists>k. gm_get m k = Some v)"
  using assms by (auto simp: map_of_eq_Some_iff image_iff) force

lemma gm_values_put:
  assumes "gm_ok m"
  shows "w \<in> set (gm_values (gm_put k v m)) \<longleftrightarrow> w = v \<or> (\<exists>j. j \<noteq> k \<and> gm_get m j = Some w)"
proof -
  have "w \<in> set (gm_values (gm_put k v m)) \<longleftrightarrow> (\<exists>j. gm_get (gm_put k v m) j = Some w)"
    using assms by (intro gm_values_get) simp
  then show ?thesis by auto
qed

section \<open>First match and best match in a loop\<close>

text \<open>
  The result of a loop that keeps the best element seen so far: \<open>better x y\<close> says that the
  candidate \<open>x\<close> replaces the current best \<open>y\<close>.
\<close>

fun pick_best :: "('a \<Rightarrow> 'a \<Rightarrow> bool) \<Rightarrow> 'a option \<Rightarrow> 'a list \<Rightarrow> 'a option" where
  "pick_best better acc [] = acc"
| "pick_best better acc (x # xs) =
     pick_best better
       (case acc of None \<Rightarrow> Some x | Some y \<Rightarrow> if better x y then Some x else Some y) xs"

lemma pick_best_Some_acc: "\<exists>y. pick_best better (Some a) xs = Some y"
  by (induction xs arbitrary: a) auto

lemma pick_best_None [simp]: "pick_best better None xs = None \<longleftrightarrow> xs = []"
  by (cases xs) (simp_all, metis option.distinct(1) pick_best_Some_acc)

lemma pick_best_in:
  "pick_best better acc xs = Some y \<Longrightarrow> acc = Some y \<or> y \<in> set xs"
  by (induction xs arbitrary: acc) (auto split: option.splits if_splits)

text \<open>Where \<open>better\<close> is a strict linear order on the elements, the result is the maximum.\<close>

lemma pick_best_max:
  assumes key: "\<And>x y. better x y \<longleftrightarrow> (key y :: 'b :: linorder) < key x"
    and "pick_best better acc xs = Some y"
  shows "(\<forall>x \<in> set xs. key x \<le> key y) \<and> (\<forall>a. acc = Some a \<longrightarrow> key a \<le> key y)"
  using assms(2)
proof (induction xs arbitrary: acc)
  case Nil
  then show ?case by simp
next
  case (Cons x xs)
  show ?case
  proof (cases acc)
    case None
    with Cons show ?thesis by fastforce
  next
    case (Some a)
    with Cons.prems have "pick_best better (if better x a then Some x else Some a) xs = Some y"
      by (simp split: if_splits)
    from Cons.IH [OF this] show ?thesis using Some
      by (auto simp: key split: if_splits)
  qed
qed

lemma pick_best_perm:
  assumes key: "\<And>x y. better x y \<longleftrightarrow> (key y :: 'b :: linorder) < key x"
    and inj: "inj_on key (set xs)" and "set xs = set ys"
  shows "pick_best better None xs = pick_best better None ys"
proof (cases "xs = []")
  case True
  with assms(3) show ?thesis by simp
next
  case False
  with assms(3) have "ys \<noteq> []" by auto
  with False obtain a b where a: "pick_best better None xs = Some a"
    and b: "pick_best better None ys = Some b"
    by (metis not_Some_eq pick_best_None)
  have "a \<in> set xs" "b \<in> set xs"
    using pick_best_in [OF a] pick_best_in [OF b] assms(3) by auto
  moreover have "key a = key b"
    using pick_best_max [OF key a] pick_best_max [OF key b] calculation assms(3)
    by (simp add: order.antisym)
  ultimately show ?thesis using inj a b by (metis inj_onD)
qed

section \<open>Comparator sort\<close>

text \<open>
  \<open>slices.SortFunc\<close> with a comparison function, as a stable insertion sort over
  \<open>le x y\<close> (the comparator does not return a positive number). The Go sort is not stable, so
  the order of elements that compare equal is one of those Go may produce.
\<close>

fun insert_by :: "('a \<Rightarrow> 'a \<Rightarrow> bool) \<Rightarrow> 'a \<Rightarrow> 'a list \<Rightarrow> 'a list" where
  "insert_by le x [] = [x]"
| "insert_by le x (y # ys) = (if le x y then x # y # ys else y # insert_by le x ys)"

fun sort_by :: "('a \<Rightarrow> 'a \<Rightarrow> bool) \<Rightarrow> 'a list \<Rightarrow> 'a list" where
  "sort_by le [] = []"
| "sort_by le (x # xs) = insert_by le x (sort_by le xs)"

lemma mset_insert_by [simp]: "mset (insert_by le x xs) = add_mset x (mset xs)"
  by (induction xs) auto

lemma mset_sort_by [simp]: "mset (sort_by le xs) = mset xs"
  by (induction xs) auto

lemma set_sort_by [simp]: "set (sort_by le xs) = set xs"
  by (metis mset_sort_by set_mset_mset)

lemma length_sort_by [simp]: "length (sort_by le xs) = length xs"
  by (metis mset_sort_by size_mset)

lemma set_insert_by [simp]: "set (insert_by le x xs) = insert x (set xs)"
  by (metis mset_insert_by set_mset_add_mset_insert set_mset_mset)

lemma sorted_insert_by:
  assumes "\<And>x y. le x y \<or> le y x" and "\<And>x y z. le x y \<Longrightarrow> le y z \<Longrightarrow> le x z"
  shows "sorted_wrt le xs \<Longrightarrow> sorted_wrt le (insert_by le x xs)"
proof (induction xs)
  case Nil
  then show ?case by simp
next
  case (Cons a xs)
  show ?case
  proof (cases "le x a")
    case True
    with Cons.prems show ?thesis using assms(2) by auto
  next
    case False
    with assms(1) have "le a x" by blast
    with Cons False show ?thesis by auto
  qed
qed

lemma sorted_sort_by:
  assumes "\<And>x y. le x y \<or> le y x" and "\<And>x y z. le x y \<Longrightarrow> le y z \<Longrightarrow> le x z"
  shows "sorted_wrt le (sort_by le xs)"
  using assms by (induction xs) (simp_all add: sorted_insert_by)

lemma distinct_map_sort_by [simp]: "distinct (map f (sort_by le xs)) \<longleftrightarrow> distinct (map f xs)"
  by (metis mset_eq_imp_distinct_iff mset_map mset_sort_by)

section \<open>Lookup of the first list element with a key\<close>

text \<open>The loops \<open>for _, x := range xs { if x.Ref == ref { return x, true } }\<close>.\<close>

lemma find_Some_in: "find P xs = Some x \<Longrightarrow> x \<in> set xs \<and> P x"
  by (auto simp: find_Some_iff)

lemma find_distinct_key:
  assumes "distinct (map key xs)" and "x \<in> set xs"
  shows "find (\<lambda>y. key y = key x) xs = Some x"
  using assms by (induction xs) (auto simp: image_iff)

lemma find_key_perm:
  assumes "distinct (map key xs)" and "mset xs = mset ys"
  shows "find (\<lambda>y. key y = k) xs = find (\<lambda>y. key y = k) ys"
proof -
  have d: "distinct (map key ys)" and s: "set xs = set ys"
    using assms by (metis mset_eq_imp_distinct_iff mset_map, metis mset_eq_setD)
  show ?thesis
  proof (cases "\<exists>x \<in> set xs. key x = k")
    case True
    then obtain x where x: "x \<in> set xs" "key x = k" by blast
    then show ?thesis
      using find_distinct_key [OF assms(1) x(1)] find_distinct_key [OF d, of x] s by simp
  next
    case False
    then have "find (\<lambda>y. key y = k) xs = None" "find (\<lambda>y. key y = k) ys = None"
      using s by (auto simp: find_None_iff)
    then show ?thesis by simp
  qed
qed

end
