(* ===== verification/GoStrings.thy ===== *)
theory GoStrings
  imports Prelude
begin

text \<open>
  The Go string primitives the backend uses. A Go string is a sequence of bytes and a HOL
  \<open>char\<close> is an 8-bit value, so \<open>string\<close> is the same data: \<open>length\<close> counts bytes, and the order
  of \<open>HOL-Library.List_Lexorder\<close> over \<open>HOL-Library.Char_ord\<close> is Go's \<open><\<close> on strings.
\<close>

section \<open>Characters and digits\<close>

abbreviation byte :: "nat \<Rightarrow> char" where
  "byte n \<equiv> char_of n"

definition is_digit :: "char \<Rightarrow> bool" where
  "is_digit c = (48 \<le> (of_char c :: nat) \<and> (of_char c :: nat) \<le> 57)"

definition digit_val :: "char \<Rightarrow> int" where
  "digit_val c = of_char c - 48"

definition digit :: "int \<Rightarrow> char" where
  "digit n = char_of (nat n + 48)"

lemma of_char_digit [simp]:
  "0 \<le> n \<Longrightarrow> n < 10 \<Longrightarrow> (of_char (digit n) :: nat) = nat n + 48"
  by (simp add: digit_def of_char_of)

lemma is_digit_digit [simp]: "0 \<le> n \<Longrightarrow> n < 10 \<Longrightarrow> is_digit (digit n)"
  by (simp add: is_digit_def)

lemma digit_val_digit [simp]: "0 \<le> n \<Longrightarrow> n < 10 \<Longrightarrow> digit_val (digit n) = n"
proof -
  assume n: "0 \<le> n" "n < 10"
  have "(of_char (digit n) :: int) = int (of_char (digit n) :: nat)"
    by (simp add: of_nat_of_char)
  with n show ?thesis by (simp add: digit_val_def)
qed

lemma digit_less: "0 \<le> a \<Longrightarrow> a < 10 \<Longrightarrow> 0 \<le> b \<Longrightarrow> b < 10 \<Longrightarrow> digit a < digit b \<longleftrightarrow> a < b"
  by (auto simp: less_char_def)

lemma digit_eq: "0 \<le> a \<Longrightarrow> a < 10 \<Longrightarrow> 0 \<le> b \<Longrightarrow> b < 10 \<Longrightarrow> digit a = digit b \<longleftrightarrow> a = b"
  by (metis digit_val_digit)

text \<open>The fixed-width decimal form of a number: its last \<open>w\<close> digits.\<close>

fun pad :: "nat \<Rightarrow> int \<Rightarrow> string" where
  "pad 0 n = []"
| "pad (Suc w) n = pad w (n div 10) @ [digit (n mod 10)]"

lemma length_pad [simp]: "length (pad w n) = w"
  by (induction w arbitrary: n) auto

text \<open>\<open>strconv.Itoa\<close> / \<open>%d\<close>.\<close>

fun show_nat :: "nat \<Rightarrow> string" where
  "show_nat n = (if n < 10 then [digit (int n)] else show_nat (n div 10) @ [digit (int (n mod 10))])"

declare show_nat.simps [simp del]

definition show_int :: "int \<Rightarrow> string" where
  "show_int n = (if n < 0 then CHR ''-'' # show_nat (nat (- n)) else show_nat (nat n))"

text \<open>The value of a digit sequence.\<close>

definition num_of :: "string \<Rightarrow> int" where
  "num_of ds = foldl (\<lambda>a c. 10 * a + digit_val c) 0 ds"

lemma num_of_snoc [simp]: "num_of (ds @ [c]) = 10 * num_of ds + digit_val c"
  by (simp add: num_of_def)

lemma num_of_Nil [simp]: "num_of [] = 0"
  by (simp add: num_of_def)

lemma num_of_pad: "num_of (pad w n) = n mod 10 ^ w"
proof (induction w arbitrary: n)
  case 0
  show ?case by simp
next
  case (Suc w)
  have "num_of (pad (Suc w) n) = 10 * (n div 10 mod 10 ^ w) + n mod 10"
    by (simp add: Suc.IH)
  also have "\<dots> = n mod (10 * 10 ^ w)"
    by (simp add: zmod_zmult2_eq)
  finally show ?case by simp
qed

lemma pad_digits [simp]: "list_all is_digit (pad w n)"
  by (induction w arbitrary: n) auto

lemma num_of_pad_id [simp]: "0 \<le> n \<Longrightarrow> n < 10 ^ w \<Longrightarrow> num_of (pad w n) = n"
  by (simp add: num_of_pad)

text \<open>Fixed-width decimal forms compare like the numbers, whatever follows them.\<close>

lemma append_less_same_length:
  assumes "length (xs :: string) = length ys"
  shows "xs @ us < ys @ vs \<longleftrightarrow> xs < ys \<or> xs = ys \<and> us < vs"
  using assms by (induction xs ys rule: list_induct2) auto

lemma divmod_ten_less:
  fixes p q r s :: int
  assumes "0 \<le> r" "r < 10" "0 \<le> s" "s < 10"
  shows "q < p \<or> q = p \<and> r < s \<longleftrightarrow> 10 * q + r < 10 * p + s"
  using assms by auto

lemma pad_less:
  assumes "0 \<le> a" "a < 10 ^ w" "0 \<le> b" "b < 10 ^ w"
  shows "pad w a < pad w b \<longleftrightarrow> a < b"
  using assms
proof (induction w arbitrary: a b)
  case 0
  then show ?case by simp
next
  case (Suc w)
  have lt: "a div 10 < 10 ^ w" "b div 10 < 10 ^ w" using Suc.prems by simp_all
  have eq: "pad w (a div 10) = pad w (b div 10) \<longleftrightarrow> a div 10 = b div 10"
    using lt Suc.prems by (metis num_of_pad_id pos_imp_zdiv_nonneg_iff zero_less_numeral)
  have "pad (Suc w) a < pad (Suc w) b
      \<longleftrightarrow> a div 10 < b div 10 \<or> a div 10 = b div 10 \<and> a mod 10 < b mod 10"
    using Suc.IH [of "a div 10" "b div 10"] lt Suc.prems eq
    by (simp add: append_less_same_length digit_less)
  also have "\<dots> \<longleftrightarrow> a < b"
    using divmod_ten_less [of "a mod 10" "b mod 10" "a div 10" "b div 10"] by simp
  finally show ?case .
qed

lemma pad_eq: "0 \<le> a \<Longrightarrow> a < 10 ^ w \<Longrightarrow> 0 \<le> b \<Longrightarrow> b < 10 ^ w \<Longrightarrow> pad w a = pad w b \<longleftrightarrow> a = b"
  by (metis num_of_pad_id)

section \<open>\<open>strings.HasPrefix\<close>, \<open>strings.TrimPrefix\<close>, \<open>strings.Join\<close>\<close>

fun has_prefix :: "string \<Rightarrow> string \<Rightarrow> bool" where
  "has_prefix s [] = True"
| "has_prefix [] (p # ps) = False"
| "has_prefix (c # s) (p # ps) = (c = p \<and> has_prefix s ps)"

definition trim_prefix :: "string \<Rightarrow> string \<Rightarrow> string" where
  "trim_prefix s p = (if has_prefix s p then drop (length p) s else s)"

lemma has_prefix_iff: "has_prefix s p \<longleftrightarrow> (\<exists>r. s = p @ r)"
  by (induction s p rule: has_prefix.induct) auto

lemma has_prefix_append [simp]: "has_prefix (p @ r) p"
  by (simp add: has_prefix_iff)

lemma trim_prefix_append [simp]: "trim_prefix (p @ r) p = r"
  by (simp add: trim_prefix_def)

fun join :: "string list \<Rightarrow> string \<Rightarrow> string" where
  "join [] sep = []"
| "join [x] sep = x"
| "join (x # y # xs) sep = x @ sep @ join (y # xs) sep"

section \<open>\<open>strings.TrimSpace\<close>\<close>

text \<open>
  The runes with the Unicode property White_Space, as their UTF-8 encodings: the ASCII blanks,
  U+0085, U+00A0, U+1680, U+2000 to U+200A, U+2028, U+2029, U+202F, U+205F and U+3000. UTF-8 is
  self-synchronising, so a string starts (ends) with such a rune exactly when it starts (ends)
  with its bytes.
\<close>

definition space_runes :: "string list" where
  "space_runes =
     [[byte 9], [byte 10], [byte 11], [byte 12], [byte 13], [byte 32],
      [byte 194, byte 133], [byte 194, byte 160], [byte 225, byte 154, byte 128],
      [byte 226, byte 128, byte 128], [byte 226, byte 128, byte 129], [byte 226, byte 128, byte 130],
      [byte 226, byte 128, byte 131], [byte 226, byte 128, byte 132], [byte 226, byte 128, byte 133],
      [byte 226, byte 128, byte 134], [byte 226, byte 128, byte 135], [byte 226, byte 128, byte 136],
      [byte 226, byte 128, byte 137], [byte 226, byte 128, byte 138], [byte 226, byte 128, byte 168],
      [byte 226, byte 128, byte 169], [byte 226, byte 128, byte 175], [byte 226, byte 129, byte 159],
      [byte 227, byte 128, byte 128]]"

lemma space_runes_nonempty: "p \<in> set space_runes \<Longrightarrow> p \<noteq> []"
  by (auto simp: space_runes_def)

text \<open>Drops the leading runes of a list, each given by its bytes; \<open>runes\<close> holds no empty one.\<close>

function trim_left_runes :: "string list \<Rightarrow> string \<Rightarrow> string" where
  "trim_left_runes runes s =
     (case find (\<lambda>p. p \<noteq> [] \<and> has_prefix s p) runes of
        None \<Rightarrow> s
      | Some p \<Rightarrow> trim_left_runes runes (drop (length p) s))"
  by pat_completeness auto
termination
proof (relation "measure (\<lambda>(runes, s). length s)")
  show "wf (measure (\<lambda>(runes :: string list, s :: string). length s))" by simp
next
  fix runes s p assume "find (\<lambda>p. p \<noteq> [] \<and> has_prefix s p) runes = Some (p :: string)"
  then have "p \<noteq> []" "has_prefix s p" by (auto simp: find_Some_iff)
  then show "((runes, drop (length p) s), (runes, s)) \<in> measure (\<lambda>(runes, s). length s)"
    by (auto simp: has_prefix_iff)
qed

declare trim_left_runes.simps [simp del]

definition trim_space :: "string \<Rightarrow> string" where
  "trim_space s =
     (let l = trim_left_runes space_runes s
      in rev (trim_left_runes (map rev space_runes) (rev l)))"

text \<open>A string is blank when nothing is left of it, the guard \<open>strings.TrimSpace(s) == ""\<close>.\<close>

abbreviation blank :: "string \<Rightarrow> bool" where
  "blank s \<equiv> trim_space s = []"

lemma trim_left_runes_Nil [simp]: "trim_left_runes runes [] = []"
proof -
  have "find (\<lambda>p. p \<noteq> [] \<and> has_prefix [] p) runes = None"
    by (auto simp: find_None_iff has_prefix_iff)
  then show ?thesis by (simp add: trim_left_runes.simps [of runes "[]"])
qed

lemma trim_space_Nil [simp]: "trim_space [] = []"
  by (simp add: trim_space_def)

lemma trim_left_runes_suffix: "\<exists>p. s = p @ trim_left_runes runes s"
proof (induction runes s rule: trim_left_runes.induct)
  case (1 runes s)
  show ?case
  proof (cases "find (\<lambda>p. p \<noteq> [] \<and> has_prefix s p) runes")
    case None
    then show ?thesis by (simp add: trim_left_runes.simps [of runes s])
  next
    case (Some p)
    then have "has_prefix s p" by (auto simp: find_Some_iff)
    then obtain r where r: "s = p @ r" by (auto simp: has_prefix_iff)
    with "1.IH" [OF Some] obtain q where "r = q @ trim_left_runes runes r" by auto
    moreover have "trim_left_runes runes s = trim_left_runes runes r"
      using Some r by (subst trim_left_runes.simps) simp
    ultimately have "s = (p @ q) @ trim_left_runes runes s" using r by simp
    then show ?thesis by blast
  qed
qed

lemma trim_left_runes_stop:
  "find (\<lambda>p. p \<noteq> [] \<and> has_prefix (trim_left_runes runes s) p) runes = None"
proof (induction runes s rule: trim_left_runes.induct)
  case (1 runes s)
  then show ?case
    by (cases "find (\<lambda>p. p \<noteq> [] \<and> has_prefix s p) runes")
      (simp_all add: trim_left_runes.simps [of runes s])
qed

lemma trim_left_runes_id:
  "find (\<lambda>p. p \<noteq> [] \<and> has_prefix s p) runes = None \<Longrightarrow> trim_left_runes runes s = s"
  by (simp add: trim_left_runes.simps)

text \<open>A trimmed string is a contiguous part of the original one.\<close>

lemma trim_space_infix: "\<exists>p q. s = p @ trim_space s @ q"
proof -
  let ?l = "trim_left_runes space_runes s"
  obtain p where p: "s = p @ ?l" using trim_left_runes_suffix by blast
  obtain q where "rev ?l = q @ trim_left_runes (map rev space_runes) (rev ?l)"
    using trim_left_runes_suffix by blast
  then have "?l = rev (q @ trim_left_runes (map rev space_runes) (rev ?l))"
    by (metis rev_rev_ident)
  then have "?l = trim_space s @ rev q" by (simp add: trim_space_def)
  with p show ?thesis by metis
qed

text \<open>Trimming twice is trimming once: stored references are already trimmed.\<close>

lemma trim_space_idem [simp]: "trim_space (trim_space s) = trim_space s"
proof -
  let ?l = "trim_left_runes space_runes s"
  let ?t = "trim_space s"
  obtain q where "rev ?l = q @ rev ?t"
    using trim_left_runes_suffix [of "rev ?l" "map rev space_runes"] by (auto simp: trim_space_def)
  then have l: "?l = ?t @ rev q" by (metis rev_append rev_rev_ident)
  have "find (\<lambda>p. p \<noteq> [] \<and> has_prefix ?t p) space_runes = None"
  proof (rule ccontr)
    assume "find (\<lambda>p. p \<noteq> [] \<and> has_prefix ?t p) space_runes \<noteq> None"
    then obtain p where "p \<in> set space_runes" "p \<noteq> []" "has_prefix ?t p"
      by (auto simp: find_None_iff)
    then have "has_prefix ?l p" by (subst l) (auto simp: has_prefix_iff)
    with trim_left_runes_stop [of space_runes s] \<open>p \<in> set space_runes\<close> \<open>p \<noteq> []\<close>
    show False by (auto simp: find_None_iff)
  qed
  then have "trim_left_runes space_runes ?t = ?t" by (rule trim_left_runes_id)
  moreover have "trim_left_runes (map rev space_runes) (rev ?t) = rev ?t"
    using trim_left_runes_id [OF trim_left_runes_stop, of "map rev space_runes" "rev ?l"]
    by (simp add: trim_space_def)
  ultimately show ?thesis by (simp add: trim_space_def [of ?t])
qed

text \<open>A string that starts and ends with a visible ASCII character is already trimmed.\<close>

definition visible :: "char \<Rightarrow> bool" where
  "visible c = (let n = (of_char c :: nat) in 33 \<le> n \<and> n \<le> 126)"

lemma visible_not_in_space_rune: "\<forall>p \<in> set space_runes. \<forall>c \<in> set p. \<not> visible c"
  by code_simp

lemma trim_left_runes_visible:
  assumes "\<forall>p \<in> set runes. \<forall>c \<in> set p. \<not> visible c" "visible c"
  shows "trim_left_runes runes (c # s) = c # s"
proof (rule trim_left_runes_id)
  have "\<not> (p \<noteq> [] \<and> has_prefix (c # s) p)" if "p \<in> set runes" for p
  proof -
    have "\<not> visible d" if "d \<in> set p" for d using assms(1) \<open>p \<in> set runes\<close> that by blast
    with assms(2) show ?thesis by (cases p) auto
  qed
  then show "find (\<lambda>p. p \<noteq> [] \<and> has_prefix (c # s) p) runes = None"
    by (auto simp: find_None_iff)
qed

lemma trim_space_visible:
  assumes "s \<noteq> []" "visible (hd s)" "visible (last s)"
  shows "trim_space s = s"
proof -
  obtain c cs where s: "s = c # cs" using assms(1) by (cases s) auto
  have "trim_left_runes space_runes s = s"
    using assms(2) visible_not_in_space_rune by (simp add: s trim_left_runes_visible)
  moreover obtain d ds where d: "rev s = d # ds" using assms(1) by (cases "rev s") auto
  then have "last s = d" by (metis hd_rev list.sel(1))
  then have "trim_left_runes (map rev space_runes) (rev s) = rev s"
    using assms(3) visible_not_in_space_rune by (simp add: d trim_left_runes_visible)
  ultimately show ?thesis by (simp add: trim_space_def)
qed

text \<open>A string with a visible character is not blank.\<close>

lemma trim_left_runes_keeps:
  "\<forall>p \<in> set runes. \<forall>d \<in> set p. \<not> visible d \<Longrightarrow> visible c \<Longrightarrow> c \<in> set s \<Longrightarrow>
   c \<in> set (trim_left_runes runes s)"
proof (induction runes s rule: trim_left_runes.induct)
  case (1 runes s)
  show ?case
  proof (cases "find (\<lambda>p. p \<noteq> [] \<and> has_prefix s p) runes")
    case None
    with "1.prems" show ?thesis by (simp add: trim_left_runes_id)
  next
    case (Some p)
    then have p: "p \<in> set runes" "has_prefix s p" by (auto simp: find_Some_iff)
    then obtain r where "s = p @ r" by (auto simp: has_prefix_iff)
    with p(1) "1.prems" have "c \<in> set (drop (length p) s)" by auto
    from "1.IH" [OF Some "1.prems"(1,2) this] Some show ?thesis
      by (simp add: trim_left_runes.simps [of runes s])
  qed
qed

lemma not_blank_visible:
  assumes "c \<in> set s" "visible c"
  shows "trim_space s \<noteq> []"
proof -
  have "c \<in> set (trim_left_runes space_runes s)"
    using visible_not_in_space_rune assms by (blast intro: trim_left_runes_keeps)
  then have "c \<in> set (trim_left_runes (map rev space_runes) (rev (trim_left_runes space_runes s)))"
    using visible_not_in_space_rune assms(2) by (intro trim_left_runes_keeps) auto
  then show ?thesis by (auto simp: trim_space_def)
qed

lemma trim_space_code [code]:
  "trim_space s =
     (if s = [] then []
      else if visible (hd s) \<and> visible (last s) then s
      else let l = trim_left_runes space_runes s
           in rev (trim_left_runes (map rev space_runes) (rev l)))"
  using trim_space_visible [of s] by (auto simp: trim_space_def)

section \<open>\<open>strings.ToLower\<close>, compared with ASCII strings\<close>

text \<open>
  The lower-case image of a string as far as a comparison with an ASCII string can see it: ASCII
  letters, and the only two other runes whose lower-case form is ASCII, U+0130 (to \<open>i\<close>) and
  U+212A (to \<open>k\<close>). Every other byte of 128 or more is kept, since it stays outside ASCII.
\<close>

fun to_lower_ascii :: "string \<Rightarrow> string" where
  "to_lower_ascii [] = []"
| "to_lower_ascii (c # cs) =
     (if (65 :: nat) \<le> of_char c \<and> of_char c \<le> (90 :: nat)
      then char_of ((of_char c :: nat) + 32) # to_lower_ascii cs
      else if has_prefix (c # cs) [byte 196, byte 176]
      then CHR ''i'' # to_lower_ascii (drop 1 cs)
      else if has_prefix (c # cs) [byte 226, byte 132, byte 170]
      then CHR ''k'' # to_lower_ascii (drop 2 cs)
      else c # to_lower_ascii cs)"

section \<open>Hexadecimal and random references\<close>

definition hex_digit :: "nat \<Rightarrow> char" where
  "hex_digit n = (if n < 10 then char_of (48 + n) else char_of (87 + n))"

definition hex_byte :: "8 word \<Rightarrow> string" where
  "hex_byte b = [hex_digit (unat b div 16), hex_digit (unat b mod 16)]"

text \<open>\<open>hex.EncodeToString\<close>.\<close>

definition hex_encode :: "8 word list \<Rightarrow> string" where
  "hex_encode bs = concat (map hex_byte bs)"

lemma hex_digit_inj: "a < 16 \<Longrightarrow> b < 16 \<Longrightarrow> hex_digit a = hex_digit b \<longleftrightarrow> a = b"
proof -
  assume ab: "a < 16" "b < 16"
  have of: "(of_char (hex_digit n) :: nat) = (if n < 10 then 48 + n else 87 + n)" if "n < 16" for n
    using that by (simp add: hex_digit_def of_char_of)
  show "hex_digit a = hex_digit b \<longleftrightarrow> a = b"
  proof
    assume "hex_digit a = hex_digit b"
    then have "(of_char (hex_digit a) :: nat) = of_char (hex_digit b)" by simp
    with of [OF ab(1)] of [OF ab(2)] show "a = b" by (auto split: if_splits)
  qed simp
qed

lemma hex_byte_inj: "hex_byte a = hex_byte b \<longleftrightarrow> a = b"
proof -
  have u: "unat w < 256" for w :: "8 word" using unsigned_less [of w] by simp
  have "hex_byte a = hex_byte b \<longleftrightarrow> unat a div 16 = unat b div 16 \<and> unat a mod 16 = unat b mod 16"
    using u [of a] u [of b] by (simp add: hex_byte_def hex_digit_inj less_mult_imp_div_less)
  also have "\<dots> \<longleftrightarrow> unat a = unat b" by (metis div_mult_mod_eq)
  also have "\<dots> \<longleftrightarrow> a = b" by (metis word_eq_iff_unsigned)
  finally show ?thesis .
qed

lemma length_hex_byte [simp]: "length (hex_byte b) = 2"
  by (simp add: hex_byte_def)

lemma hex_encode_inj: "length as = length bs \<Longrightarrow> hex_encode as = hex_encode bs \<longleftrightarrow> as = bs"
  by (induction as bs rule: list_induct2) (auto simp: hex_encode_def hex_byte_inj)

text \<open>
  What \<open>crypto/rand\<close> and the clock give a reference generator: the random bytes, or, where
  \<open>rand.Read\<close> fails, the Unix time in nanoseconds.
\<close>

datatype entropy = RandBytes "8 word list" | RandFailed int

definition random_ref :: "string \<Rightarrow> entropy \<Rightarrow> string" where
  "random_ref prefix e =
     (case e of RandBytes bs \<Rightarrow> prefix @ hex_encode bs | RandFailed nanos \<Rightarrow> prefix @ show_int nanos)"

lemma random_ref_inj:
  "length as = length bs \<Longrightarrow>
   random_ref p (RandBytes as) = random_ref p (RandBytes bs) \<longleftrightarrow> as = bs"
  by (simp add: random_ref_def hex_encode_inj)

lemma random_ref_nonempty [simp]: "p \<noteq> [] \<Longrightarrow> random_ref p e \<noteq> []"
  by (simp add: random_ref_def split: entropy.splits)

end
