(* ===== verification/GoCivil.thy ===== *)
theory GoCivil
  imports GoStrings
begin

text \<open>
  The proleptic Gregorian calendar behind Go's \<open>time.Date\<close> and \<open>Time.Format\<close>: day numbers since
  1970-01-01 from dates and back, with the two round trips and the order of dates.
\<close>

section \<open>The proleptic Gregorian calendar\<close>

definition leap :: "int \<Rightarrow> bool" where
  "leap y = (y mod 4 = 0 \<and> (y mod 100 \<noteq> 0 \<or> y mod 400 = 0))"

text \<open>Days from the start of year 0 to the start of year \<open>y\<close>.\<close>

definition days_before_year :: "int \<Rightarrow> int" where
  "days_before_year y = 365 * y + (y + 3) div 4 - (y + 99) div 100 + (y + 399) div 400"

definition year_length :: "int \<Rightarrow> int" where
  "year_length y = (if leap y then 366 else 365)"

lemma ceil_div_step:
  fixes y k j :: int
  assumes "0 < k" and j: "j = k - 1"
  shows "(y + 1 + j) div k = (y + j) div k + (if y mod k = 0 then 1 else 0)"
proof -
  define q r where "q = y div k" and "r = y mod k"
  have y: "y = q * k + r" and r: "0 \<le> r" "r < k"
    using assms by (simp_all add: q_def r_def)
  have "y + 1 + (k - 1) = r + (q + 1) * k" by (simp add: y algebra_simps)
  then have "(y + 1 + (k - 1)) div k = q + 1 + r div k"
    using assms by (simp only: div_mult_self1)
  then have "(y + 1 + (k - 1)) div k = q + 1" using r by simp
  moreover have "(y + (k - 1)) div k = (if r = 0 then q else q + 1)"
  proof (cases "r = 0")
    case True
    have "(q * k + (k - 1)) div k = q + (k - 1) div k" using assms by simp
    with True assms show ?thesis by (simp add: y)
  next
    case False
    have "(q * k + r + (k - 1)) div k = ((q + 1) * k + (r - 1)) div k"
      by (simp add: algebra_simps)
    also have "\<dots> = (q + 1) + (r - 1) div k" using assms by simp
    finally show ?thesis using False r by (simp add: y)
  qed
  ultimately show ?thesis by (simp add: r_def j)
qed

lemma leap_balance:
  fixes y a b c :: int
  assumes "r \<Longrightarrow> q" "q \<Longrightarrow> p"
  shows "365 * (y + 1) + (a + (if p then 1 else 0)) - (b + (if q then 1 else 0))
      + (c + (if r then 1 else 0))
    = 365 * y + a - b + c + (if p \<and> (\<not> q \<or> r) then 366 else 365)"
  using assms by auto

lemma days_before_year_Suc: "days_before_year (y + 1) = days_before_year y + year_length y"
proof -
  have "y mod 400 mod 100 = y mod 100" "y mod 100 mod 4 = y mod 4"
    by (rule mod_mod_cancel; simp)+
  then have d: "y mod 400 = 0 \<Longrightarrow> y mod 100 = 0" "y mod 100 = 0 \<Longrightarrow> y mod 4 = 0"
    by auto
  have "(y + 1 + 3) div 4 = (y + 3) div 4 + (if y mod 4 = 0 then 1 else 0)"
    "(y + 1 + 99) div 100 = (y + 99) div 100 + (if y mod 100 = 0 then 1 else 0)"
    "(y + 1 + 399) div 400 = (y + 399) div 400 + (if y mod 400 = 0 then 1 else 0)"
    by (rule ceil_div_step; simp)+
  then show ?thesis
    unfolding days_before_year_def year_length_def leap_def
    by (simp only: leap_balance [OF d])
qed

lemma year_length_bounds: "365 \<le> year_length y" "year_length y \<le> 366"
  by (simp_all add: year_length_def)

lemma days_before_year_bounds:
  "146097 * y - 396 \<le> 400 * days_before_year y" "400 * days_before_year y \<le> 146097 * y + 699"
proof -
  define a where "a = (y + 3) div 4"
  define b where "b = (y + 99) div 100"
  define c where "c = (y + 399) div 400"
  have "4 * a \<le> y + 3" "y \<le> 4 * a" "100 * b \<le> y + 99" "y \<le> 100 * b"
    "400 * c \<le> y + 399" "y \<le> 400 * c"
    unfolding a_def b_def c_def by linarith+
  moreover have "days_before_year y = 365 * y + a - b + c"
    by (simp add: days_before_year_def a_def b_def c_def)
  ultimately show "146097 * y - 396 \<le> 400 * days_before_year y"
    "400 * days_before_year y \<le> 146097 * y + 699"
    by linarith+
qed

lemma days_before_year_mono_step: "y < z \<Longrightarrow> days_before_year (y + 1) \<le> days_before_year z"
proof (induction "nat (z - (y + 1))" arbitrary: z)
  case 0
  then have "z = y + 1" by simp
  then show ?case by simp
next
  case (Suc n)
  then have "y < z - 1" "n = nat (z - 1 - (y + 1))" by auto
  with Suc.hyps(1) have "days_before_year (y + 1) \<le> days_before_year (z - 1)" by blast
  with days_before_year_Suc [of "z - 1"] year_length_bounds(1) [of "z - 1"] show ?case by simp
qed

text \<open>The year of a day number, from an estimate that is at most one off.\<close>

definition year_of_day :: "int \<Rightarrow> int" where
  "year_of_day k =
     (let e = (400 * k) div 146097
      in if k < days_before_year e then e - 1
         else if days_before_year (e + 1) \<le> k then e + 1 else e)"

lemma year_of_day_bounds:
  "days_before_year (year_of_day k) \<le> k" "k < days_before_year (year_of_day k + 1)"
proof -
  define e where "e = (400 * k) div 146097"
  have e: "146097 * e \<le> 400 * k" "400 * k < 146097 * e + 146097"
    unfolding e_def by linarith+
  have lo: "days_before_year (e - 1) \<le> k"
    using days_before_year_bounds(2) [of "e - 1"] e(1) by (simp add: algebra_simps)
  have hi: "k < days_before_year (e + 2)"
    using days_before_year_bounds(1) [of "e + 2"] e(2) by (simp add: algebra_simps)
  show "days_before_year (year_of_day k) \<le> k"
    using lo by (simp add: year_of_day_def Let_def flip: e_def)
  show "k < days_before_year (year_of_day k + 1)"
    using hi by (simp add: year_of_day_def Let_def add.commute flip: e_def)
qed

lemma year_of_day_unique:
  assumes "days_before_year y \<le> k" "k < days_before_year (y + 1)"
  shows "year_of_day k = y"
  using assms year_of_day_bounds [of k] days_before_year_mono_step [of y "year_of_day k"]
    days_before_year_mono_step [of "year_of_day k" y]
  by (cases rule: linorder_cases [of "year_of_day k" y]) auto

text \<open>Days from the start of year \<open>y\<close> to the start of month \<open>m\<close> (1 to 13).\<close>

definition days_before_month :: "int \<Rightarrow> int \<Rightarrow> int" where
  "days_before_month y m =
     [0, 31, 59, 90, 120, 151, 181, 212, 243, 273, 304, 334, 365] ! nat (m - 1)
       + (if 2 < m \<and> leap y then 1 else 0)"

definition days_in_month :: "int \<Rightarrow> int \<Rightarrow> int" where
  "days_in_month y m = days_before_month y (m + 1) - days_before_month y m"

definition month_of_yday :: "int \<Rightarrow> int \<Rightarrow> int" where
  "month_of_yday y d =
     int (length (filter (\<lambda>m. days_before_month y m \<le> d) [1, 2, 3, 4, 5, 6, 7, 8, 9, 10, 11, 12]))"

lemma month_cases:
  fixes m :: int
  assumes "1 \<le> m" "m \<le> 12"
  shows "m = 1 \<or> m = 2 \<or> m = 3 \<or> m = 4 \<or> m = 5 \<or> m = 6 \<or> m = 7 \<or> m = 8 \<or> m = 9
    \<or> m = 10 \<or> m = 11 \<or> m = 12"
  using assms by arith

lemma nth_numeral_table:
  "[a0, a1, a2, a3, a4, a5, a6, a7, a8, a9, a10, a11, a12 :: int] ! 2 = a2"
  "[a0, a1, a2, a3, a4, a5, a6, a7, a8, a9, a10, a11, a12 :: int] ! 3 = a3"
  "[a0, a1, a2, a3, a4, a5, a6, a7, a8, a9, a10, a11, a12 :: int] ! 4 = a4"
  "[a0, a1, a2, a3, a4, a5, a6, a7, a8, a9, a10, a11, a12 :: int] ! 5 = a5"
  "[a0, a1, a2, a3, a4, a5, a6, a7, a8, a9, a10, a11, a12 :: int] ! 6 = a6"
  "[a0, a1, a2, a3, a4, a5, a6, a7, a8, a9, a10, a11, a12 :: int] ! 7 = a7"
  "[a0, a1, a2, a3, a4, a5, a6, a7, a8, a9, a10, a11, a12 :: int] ! 8 = a8"
  "[a0, a1, a2, a3, a4, a5, a6, a7, a8, a9, a10, a11, a12 :: int] ! 9 = a9"
  "[a0, a1, a2, a3, a4, a5, a6, a7, a8, a9, a10, a11, a12 :: int] ! 10 = a10"
  "[a0, a1, a2, a3, a4, a5, a6, a7, a8, a9, a10, a11, a12 :: int] ! 11 = a11"
  "[a0, a1, a2, a3, a4, a5, a6, a7, a8, a9, a10, a11, a12 :: int] ! 12 = a12"
  by (simp_all add: numeral_eq_Suc)

lemma days_before_month_values [simp]:
  "days_before_month y 1 = 0" "days_before_month y 2 = 31"
  "days_before_month y 3 = 59 + (if leap y then 1 else 0)"
  "days_before_month y 4 = 90 + (if leap y then 1 else 0)"
  "days_before_month y 5 = 120 + (if leap y then 1 else 0)"
  "days_before_month y 6 = 151 + (if leap y then 1 else 0)"
  "days_before_month y 7 = 181 + (if leap y then 1 else 0)"
  "days_before_month y 8 = 212 + (if leap y then 1 else 0)"
  "days_before_month y 9 = 243 + (if leap y then 1 else 0)"
  "days_before_month y 10 = 273 + (if leap y then 1 else 0)"
  "days_before_month y 11 = 304 + (if leap y then 1 else 0)"
  "days_before_month y 12 = 334 + (if leap y then 1 else 0)"
  "days_before_month y 13 = 365 + (if leap y then 1 else 0)"
  by (simp_all add: days_before_month_def nth_numeral_table)

lemma days_before_month_step:
  "1 \<le> m \<Longrightarrow> m \<le> 12 \<Longrightarrow> days_before_month y m + 28 \<le> days_before_month y (m + 1)"
  by (drule (1) month_cases) (elim disjE; simp)

lemma days_before_month_mono:
  "1 \<le> m \<Longrightarrow> m < n \<Longrightarrow> n \<le> 13 \<Longrightarrow> days_before_month y (m + 1) \<le> days_before_month y n"
proof (induction "nat (n - (m + 1))" arbitrary: n)
  case 0
  then have "n = m + 1" by simp
  then show ?case by simp
next
  case (Suc k)
  then have "m < n - 1" "n - 1 \<le> 13" "k = nat (n - 1 - (m + 1))" by auto
  with Suc.hyps(1) Suc.prems(1) have "days_before_month y (m + 1) \<le> days_before_month y (n - 1)"
    by blast
  with days_before_month_step [of "n - 1" y] Suc.prems \<open>m < n - 1\<close> show ?case by simp
qed


lemma month_of_yday_unique:
  assumes "1 \<le> m" "m \<le> 12" "days_before_month y m \<le> d" "d < days_before_month y (m + 1)"
  shows "month_of_yday y d = m"
  using month_cases [OF assms(1,2)] assms(3,4)
  by (elim disjE; cases "leap y"; simp add: month_of_yday_def)

lemma month_of_yday_exists:
  assumes "0 \<le> d" "d < year_length y"
  obtains m where "1 \<le> m" "m \<le> 12" "days_before_month y m \<le> d" "d < days_before_month y (m + 1)"
proof -
  have "\<exists>m. 1 \<le> m \<and> m \<le> 12 \<and> days_before_month y m \<le> d \<and> d < days_before_month y (m + 1)"
  proof (rule ccontr)
    assume no: "\<not> ?thesis"
    have up: "days_before_month y (int k + 1) \<le> d" if "k \<le> 12" for k
      using that
    proof (induction k)
      case 0
      then show ?case using assms by simp
    next
      case (Suc k)
      then have "days_before_month y (int k + 1) \<le> d" by simp
      with no Suc.prems have "\<not> d < days_before_month y (int k + 1 + 1)" by auto
      then show ?case by (simp add: add.commute)
    qed
    from up [of 12] assms show False by (simp add: year_length_def split: if_splits)
  qed
  with that show ?thesis by blast
qed

definition valid_date :: "int \<Rightarrow> int \<Rightarrow> int \<Rightarrow> bool" where
  "valid_date y m d = (1 \<le> m \<and> m \<le> 12 \<and> 1 \<le> d \<and> d \<le> days_in_month y m)"

text \<open>Days since 1970-01-01, and back.\<close>

definition unix_days :: "int \<Rightarrow> int \<Rightarrow> int \<Rightarrow> int" where
  "unix_days y m d = days_before_year y + days_before_month y m + d - 1 - 719528"

definition civil_of_days :: "int \<Rightarrow> int \<times> int \<times> int" where
  "civil_of_days n =
     (let k = n + 719528; y = year_of_day k; yd = k - days_before_year y; m = month_of_yday y yd
      in (y, m, yd - days_before_month y m + 1))"

lemma valid_date_yday:
  assumes "valid_date y m d"
  shows "0 \<le> days_before_month y m + d - 1" "days_before_month y m + d - 1 < year_length y"
proof -
  have "0 \<le> days_before_month y m"
    using assms days_before_month_mono [of 1 m y] days_before_month_step [of 1 y]
    by (cases "m = 1") (auto simp: valid_date_def)
  with assms show "0 \<le> days_before_month y m + d - 1" by (simp add: valid_date_def)
  have "days_before_month y (m + 1) \<le> days_before_month y 13"
    using assms days_before_month_mono [of m 13 y] by (simp add: valid_date_def)
  then have "days_before_month y (m + 1) \<le> year_length y"
    by (simp add: year_length_def split: if_splits)
  with assms show "days_before_month y m + d - 1 < year_length y"
    by (simp add: valid_date_def days_in_month_def)
qed

lemma civil_of_unix_days:
  assumes "valid_date y m d"
  shows "civil_of_days (unix_days y m d) = (y, m, d)"
proof -
  let ?yd = "days_before_month y m + d - 1"
  let ?k = "days_before_year y + ?yd"
  have "year_of_day ?k = y"
    using valid_date_yday [OF assms] days_before_year_Suc [of y]
    by (intro year_of_day_unique) simp_all
  moreover have "month_of_yday y ?yd = m"
    using assms by (intro month_of_yday_unique) (simp_all add: valid_date_def days_in_month_def)
  moreover have "unix_days y m d + 719528 = ?k" "?k - days_before_year y = ?yd"
    by (simp_all add: unix_days_def)
  ultimately show ?thesis by (simp only: civil_of_days_def Let_def) simp
qed

lemma civil_of_days_valid:
  assumes "civil_of_days n = (y, m, d)"
  shows "valid_date y m d" "unix_days y m d = n"
proof -
  let ?k = "n + 719528"
  let ?y = "year_of_day ?k"
  let ?yd = "?k - days_before_year ?y"
  have yd: "0 \<le> ?yd" "?yd < year_length ?y"
    using year_of_day_bounds [of ?k] days_before_year_Suc [of ?y] by simp_all
  then obtain m' where m': "1 \<le> m'" "m' \<le> 12" "days_before_month ?y m' \<le> ?yd"
      "?yd < days_before_month ?y (m' + 1)"
    by (rule month_of_yday_exists)
  then have "month_of_yday ?y ?yd = m'" by (rule month_of_yday_unique)
  with assms have "?y = y" "m' = m" "d = ?yd - days_before_month ?y m' + 1"
    by (auto simp: civil_of_days_def Let_def)
  with m' show "valid_date y m d" "unix_days y m d = n"
    by (simp_all add: valid_date_def days_in_month_def unix_days_def)
qed

text \<open>Dates are ordered by year, then month, then day.\<close>

lemma unix_days_less:
  assumes v: "valid_date y m d" "valid_date y' m' d'"
    and "y < y' \<or> y = y' \<and> (m < m' \<or> m = m' \<and> d < d')"
  shows "unix_days y m d < unix_days y' m' d'"
proof -
  consider "y < y'" | "y = y'" "m < m'" | "y = y'" "m = m'" "d < d'" using assms(3) by blast
  then show ?thesis
  proof cases
    case 1
    with days_before_year_mono_step [of y y'] days_before_year_Suc [of y]
      valid_date_yday [OF v(1)] valid_date_yday [OF v(2)]
    show ?thesis by (simp add: unix_days_def)
  next
    case 2
    with days_before_month_mono [of m m' y] v
    show ?thesis by (simp add: unix_days_def valid_date_def days_in_month_def)
  next
    case 3
    then show ?thesis by (simp add: unix_days_def)
  qed
qed

lemma unix_days_less_iff:
  assumes "valid_date y m d" "valid_date y' m' d'"
  shows "unix_days y m d < unix_days y' m' d'
    \<longleftrightarrow> y < y' \<or> y = y' \<and> (m < m' \<or> m = m' \<and> d < d')"
  using unix_days_less [OF assms] unix_days_less [OF assms(2,1)]
  by (metis less_asym linorder_neqE order.irrefl)

end
