(* ===== verification/GoTime.thy ===== *)
theory GoTime
  imports GoCivil
begin

text \<open>
  What the backend uses of Go's \<open>time\<close> package (go 1.25): instants, \<open>Before\<close>/\<open>After\<close>,
  \<open>Add\<close>, and the layouts \<open>time.RFC3339Nano\<close>, the wire layout \<open>2006-01-02T15:04:05.000Z\<close>
  and the day \<open>2006-01-02\<close>, parsed with the leniencies of \<open>time.Parse\<close> (one-digit hour,
  comma as decimal separator, offsets up to 24:60). The process runs with the local zone UTC.
\<close>

section \<open>Instants\<close>

text \<open>A \<open>time.Time\<close>: nanoseconds since the Unix epoch and the zone offset in seconds.\<close>

record gotime =
  inst :: int
  zone :: int

definition before :: "gotime \<Rightarrow> gotime \<Rightarrow> bool" where
  "before t u = (inst t < inst u)"

definition after :: "gotime \<Rightarrow> gotime \<Rightarrow> bool" where
  "after t u = (inst u < inst t)"

definition add_ns :: "gotime \<Rightarrow> int \<Rightarrow> gotime" where
  "add_ns t d = t\<lparr>inst := inst t + d\<rparr>"

definition utc :: "gotime \<Rightarrow> gotime" where
  "utc t = t\<lparr>zone := 0\<rparr>"

abbreviation second :: int where "second \<equiv> 1000000000"
abbreviation minute :: int where "minute \<equiv> 60000000000"
abbreviation hour :: int where "hour \<equiv> 3600000000000"
abbreviation microsecond :: int where "microsecond \<equiv> 1000"
abbreviation millisecond :: int where "millisecond \<equiv> 1000000"

lemma inst_simps [simp]:
  "inst (add_ns t d) = inst t + d" "zone (add_ns t d) = zone t"
  "inst (utc t) = inst t" "zone (utc t) = 0"
  by (simp_all add: add_ns_def utc_def)

section \<open>Civil fields of an instant\<close>

record civil =
  c_year :: int
  c_month :: int
  c_day :: int
  c_hour :: int
  c_min :: int
  c_sec :: int
  c_nsec :: int

text \<open>The fields shown for \<open>n\<close> nanoseconds since the epoch, as seen in the time's zone.\<close>

definition civil_of :: "int \<Rightarrow> civil" where
  "civil_of n =
     (let sec = n div second; mins = sec div 60; hours = mins div 60;
          (y, m, d) = civil_of_days (hours div 24)
      in \<lparr>c_year = y, c_month = m, c_day = d, c_hour = hours mod 24, c_min = mins mod 60,
          c_sec = sec mod 60, c_nsec = n mod second\<rparr>)"

text \<open>\<open>time.Date\<close> for fields in range.\<close>

definition instant_of :: "civil \<Rightarrow> int" where
  "instant_of c =
     (((unix_days (c_year c) (c_month c) (c_day c) * 24 + c_hour c) * 60 + c_min c) * 60 + c_sec c)
       * second + c_nsec c"

definition valid_civil :: "civil \<Rightarrow> bool" where
  "valid_civil c =
     (valid_date (c_year c) (c_month c) (c_day c) \<and> 0 \<le> c_hour c \<and> c_hour c < 24 \<and>
      0 \<le> c_min c \<and> c_min c < 60 \<and> 0 \<le> c_sec c \<and> c_sec c < 60 \<and>
      0 \<le> c_nsec c \<and> c_nsec c < second)"

lemma civil_of_valid: "valid_civil (civil_of n)"
  using civil_of_days_valid(1) [of "n div second div 60 div 60 div 24"]
  by (auto simp: civil_of_def valid_civil_def Let_def split: prod.splits)

lemma instant_of_civil_of [simp]: "instant_of (civil_of n) = n"
proof -
  obtain y m d where c: "civil_of_days (n div second div 60 div 60 div 24) = (y, m, d)"
    by (cases "civil_of_days (n div second div 60 div 60 div 24)") auto
  show ?thesis
    using civil_of_days_valid(2) [OF c]
    by (simp add: civil_of_def instant_of_def c Let_def)
qed

lemma radix_div_mod:
  fixes q r k :: int
  assumes "0 \<le> r" "r < k"
  shows "(q * k + r) div k = q" "(q * k + r) mod k = r"
  using assms by simp_all

lemma civil_of_instant_of:
  assumes "valid_civil c"
  shows "civil_of (instant_of c) = c"
proof -
  let ?u = "unix_days (c_year c) (c_month c) (c_day c)"
  let ?h = "?u * 24 + c_hour c"
  let ?m = "?h * 60 + c_min c"
  let ?s = "?m * 60 + c_sec c"
  have r: "0 \<le> c_hour c" "c_hour c < 24" "0 \<le> c_min c" "c_min c < 60" "0 \<le> c_sec c"
    "c_sec c < 60" "0 \<le> c_nsec c" "c_nsec c < second"
    using assms unfolding valid_civil_def by blast+
  have f1: "instant_of c div second = ?s" "instant_of c mod second = c_nsec c"
    unfolding instant_of_def by (rule radix_div_mod [OF r(7,8)])+
  have f2: "?s div 60 = ?m" "?s mod 60 = c_sec c" by (rule radix_div_mod [OF r(5,6)])+
  have f3: "?m div 60 = ?h" "?m mod 60 = c_min c" by (rule radix_div_mod [OF r(3,4)])+
  have f4: "?h div 24 = ?u" "?h mod 24 = c_hour c" by (rule radix_div_mod [OF r(1,2)])+
  have f5: "civil_of_days ?u = (c_year c, c_month c, c_day c)"
    using assms by (intro civil_of_unix_days) (simp add: valid_civil_def)
  have "civil_of (instant_of c) = \<lparr>c_year = c_year c, c_month = c_month c, c_day = c_day c,
      c_hour = c_hour c, c_min = c_min c, c_sec = c_sec c, c_nsec = c_nsec c\<rparr>"
    unfolding civil_of_def Let_def f1 f2 f3 f4 f5 prod.case by (rule refl)
  then show ?thesis by simp
qed

text \<open>The number of whole milliseconds since the epoch, which the wire layout keeps.\<close>

definition floor_ms :: "int \<Rightarrow> int" where
  "floor_ms n = n - n mod millisecond"

lemma floor_ms_bounds: "floor_ms n \<le> n" "n < floor_ms n + millisecond"
  by (simp_all add: floor_ms_def)

lemma floor_ms_idem [simp]: "floor_ms (floor_ms n) = floor_ms n"
  by (simp add: floor_ms_def mod_diff_left_eq [symmetric])

section \<open>Formatting\<close>

text \<open>\<open>appendInt\<close> of the \<open>time\<close> package: at least \<open>w\<close> digits.\<close>

definition append_int :: "int \<Rightarrow> nat \<Rightarrow> string" where
  "append_int n w =
     (let a = \<bar>n\<bar>; ds = (if a < 10 ^ w then pad w a else show_nat (nat a))
      in if n < 0 then CHR ''-'' # ds else ds)"

lemma append_int_pad: "0 \<le> n \<Longrightarrow> n < 10 ^ w \<Longrightarrow> append_int n w = pad w n"
  by (simp add: append_int_def)

definition date_string :: "civil \<Rightarrow> string" where
  "date_string c =
     append_int (c_year c) 4 @ ''-'' @ append_int (c_month c) 2 @ ''-'' @ append_int (c_day c) 2"

definition clock_string :: "civil \<Rightarrow> string" where
  "clock_string c =
     append_int (c_hour c) 2 @ '':'' @ append_int (c_min c) 2 @ '':'' @ append_int (c_sec c) 2"

text \<open>\<open>t.UTC().Format("2006-01-02T15:04:05.000Z")\<close>.\<close>

definition wire_format :: "gotime \<Rightarrow> string" where
  "wire_format t =
     (let c = civil_of (inst t)
      in date_string c @ ''T'' @ clock_string c @ ''.'' @ pad 3 (c_nsec c div millisecond) @ ''Z'')"

text \<open>\<open>t.Format("2006-01-02")\<close>, in the time's own zone.\<close>

definition day_format :: "gotime \<Rightarrow> string" where
  "day_format t = date_string (civil_of (inst t + zone t * second))"

definition nano_fraction :: "int \<Rightarrow> string" where
  "nano_fraction ns =
     (let ds = rev (dropWhile (\<lambda>c. c = CHR ''0'') (rev (pad 9 ns)))
      in if ds = [] then [] else CHR ''.'' # ds)"

definition zone_string :: "int \<Rightarrow> string" where
  "zone_string off =
     (if off = 0 then ''Z''
      else let mins = \<bar>off\<bar> div 60
           in (if off < 0 then ''-'' else ''+'')
                @ append_int (mins div 60) 2 @ '':'' @ append_int (mins mod 60) 2)"

text \<open>\<open>t.Format(time.RFC3339Nano)\<close>, in the time's own zone.\<close>

definition rfc3339nano_format :: "gotime \<Rightarrow> string" where
  "rfc3339nano_format t =
     (let c = civil_of (inst t + zone t * second)
      in date_string c @ ''T'' @ clock_string c @ nano_fraction (c_nsec c) @ zone_string (zone t))"

section \<open>Parsing\<close>

text \<open>\<open>getnum\<close> of the \<open>time\<close> package: two digits, or one where the layout allows it.\<close>

fun getnum :: "bool \<Rightarrow> string \<Rightarrow> (int \<times> string) option" where
  "getnum fixed [] = None"
| "getnum fixed [c] = (if is_digit c \<and> \<not> fixed then Some (digit_val c, []) else None)"
| "getnum fixed (c # d # r) =
     (if \<not> is_digit c then None
      else if is_digit d then Some (10 * digit_val c + digit_val d, r)
      else if fixed then None else Some (digit_val c, d # r))"

fun skip_char :: "char \<Rightarrow> string \<Rightarrow> string option" where
  "skip_char c [] = None"
| "skip_char c (x # r) = (if x = c then Some r else None)"

definition take_year :: "string \<Rightarrow> (int \<times> string) option" where
  "take_year v =
     (if 4 \<le> length v \<and> list_all is_digit (take 4 v) then Some (num_of (take 4 v), drop 4 v)
      else None)"

text \<open>The part both layouts share, \<open>2006-01-02T15:04:05\<close>: the fields and the rest.\<close>

definition parse_date_clock :: "string \<Rightarrow> (civil \<times> string) option" where
  "parse_date_clock v = do {
     (y, v) \<leftarrow> take_year v;
     v \<leftarrow> skip_char CHR ''-'' v;
     (m, v) \<leftarrow> getnum True v;
     require (1 \<le> m \<and> m \<le> 12);
     v \<leftarrow> skip_char CHR ''-'' v;
     (d, v) \<leftarrow> getnum True v;
     v \<leftarrow> skip_char CHR ''T'' v;
     (h, v) \<leftarrow> getnum False v;
     require (h < 24);
     v \<leftarrow> skip_char CHR '':'' v;
     (mi, v) \<leftarrow> getnum True v;
     require (mi < 60);
     v \<leftarrow> skip_char CHR '':'' v;
     (s, v) \<leftarrow> getnum True v;
     require (s < 60);
     Some (\<lparr>c_year = y, c_month = m, c_day = d, c_hour = h, c_min = mi, c_sec = s, c_nsec = 0\<rparr>, v)
   }"

abbreviation comma_or_period :: "char \<Rightarrow> bool" where
  "comma_or_period c \<equiv> c = CHR ''.'' \<or> c = CHR '',''"

text \<open>The optional fraction of RFC3339Nano: digits after the ninth are dropped.\<close>

fun parse_fraction :: "string \<Rightarrow> int \<times> string" where
  "parse_fraction (c # d # r) =
     (if comma_or_period c \<and> is_digit d
      then let ds = takeWhile is_digit (d # r); n9 = take 9 ds
           in (num_of n9 * 10 ^ (9 - length n9), dropWhile is_digit (d # r))
      else (0, c # d # r))"
| "parse_fraction v = (0, v)"

text \<open>The zone \<open>Z07:00\<close>: the offset in seconds.\<close>

definition parse_zone :: "string \<Rightarrow> (int \<times> string) option" where
  "parse_zone v =
     (if v \<noteq> [] \<and> hd v = CHR ''Z'' then Some (0, tl v)
      else if length v < 6 \<or> v ! 3 \<noteq> CHR '':'' then None
      else do {
        (hr, _) \<leftarrow> getnum True (take 2 (drop 1 v));
        (mm, _) \<leftarrow> getnum True (take 2 (drop 4 v));
        require (hr \<le> 24 \<and> mm \<le> 60);
        (if hd v = CHR ''+'' then Some ((hr * 60 + mm) * 60, drop 6 v)
         else if hd v = CHR ''-'' then Some (- ((hr * 60 + mm) * 60), drop 6 v)
         else None)
      })"

definition day_in_range :: "civil \<Rightarrow> bool" where
  "day_in_range c = (1 \<le> c_day c \<and> c_day c \<le> days_in_month (c_year c) (c_month c))"

text \<open>\<open>time.Parse(time.RFC3339Nano, v)\<close>; \<open>None\<close> is a parse error.\<close>

definition parse_rfc3339 :: "string \<Rightarrow> gotime option" where
  "parse_rfc3339 v = do {
     (c, v) \<leftarrow> parse_date_clock v;
     let (ns, v) = parse_fraction v;
     (off, v) \<leftarrow> parse_zone v;
     require (v = []);
     require (day_in_range c);
     Some \<lparr>inst = instant_of (c\<lparr>c_nsec := ns\<rparr>) - off * second, zone = off\<rparr>
   }"

text \<open>\<open>atoi\<close> on the three characters after the decimal separator, with its optional sign.\<close>

definition atoi3 :: "string \<Rightarrow> int option" where
  "atoi3 s =
     (if list_all is_digit s then Some (num_of s)
      else if list_all is_digit (tl s) \<and> hd s = CHR ''+'' then Some (num_of (tl s))
      else if list_all is_digit (tl s) \<and> hd s = CHR ''-'' then Some (- num_of (tl s))
      else None)"

text \<open>\<open>time.Parse("2006-01-02T15:04:05.000Z", v)\<close>.\<close>

definition parse_wire :: "string \<Rightarrow> gotime option" where
  "parse_wire v = do {
     (c, v) \<leftarrow> parse_date_clock v;
     require (4 \<le> length v \<and> comma_or_period (hd v));
     ms \<leftarrow> atoi3 (take 3 (tl v));
     require (0 \<le> ms);
     v \<leftarrow> skip_char CHR ''Z'' (drop 4 v);
     require (v = []);
     require (day_in_range c);
     Some \<lparr>inst = instant_of (c\<lparr>c_nsec := ms * millisecond\<rparr>), zone = 0\<rparr>
   }"

section \<open>Round trips\<close>

lemma getnum_pad [simp]: "0 \<le> n \<Longrightarrow> n < 100 \<Longrightarrow> getnum f (pad 2 n @ r) = Some (n, r)"
  by (simp add: numeral_2_eq_2)

lemma take_year_pad [simp]: "0 \<le> n \<Longrightarrow> n < 10000 \<Longrightarrow> take_year (pad 4 n @ r) = Some (n, r)"
  by (simp add: take_year_def)

text \<open>A time the fixed-width formats print exactly: a four-digit year, fields in range.\<close>

definition printable :: "civil \<Rightarrow> bool" where
  "printable c = (0 \<le> c_year c \<and> c_year c \<le> 9999 \<and> valid_civil c)"

lemma days_in_month_le: "1 \<le> m \<Longrightarrow> m \<le> 12 \<Longrightarrow> days_in_month y m \<le> 31"
  by (drule (1) month_cases) (elim disjE; simp add: days_in_month_def)

lemma valid_civil_fields:
  assumes "valid_civil c"
  shows "1 \<le> c_month c" "c_month c \<le> 12" "1 \<le> c_day c" "c_day c \<le> 31"
    "0 \<le> c_hour c" "c_hour c < 24" "0 \<le> c_min c" "c_min c < 60" "0 \<le> c_sec c" "c_sec c < 60"
    "0 \<le> c_nsec c" "c_nsec c < second" "day_in_range c"
  using assms days_in_month_le [of "c_month c" "c_year c"]
  by (simp_all add: valid_civil_def valid_date_def day_in_range_def)

lemma parse_date_clock_print:
  assumes "printable c"
  shows "parse_date_clock (date_string c @ ''T'' @ clock_string c @ r) = Some (c\<lparr>c_nsec := 0\<rparr>, r)"
  using assms valid_civil_fields [of c]
  by (simp add: printable_def parse_date_clock_def date_string_def clock_string_def append_int_pad)

lemma civil_of_floor_ms:
  "instant_of ((civil_of n)\<lparr>c_nsec := c_nsec (civil_of n) div millisecond * millisecond\<rparr>) = floor_ms n"
proof -
  let ?c = "civil_of n"
  have ns: "c_nsec ?c = n mod second"
    by (simp add: civil_of_def Let_def split: prod.splits)
  have "instant_of (?c\<lparr>c_nsec := c_nsec ?c div millisecond * millisecond\<rparr>)
      = instant_of ?c - c_nsec ?c mod millisecond"
    by (simp add: instant_of_def minus_mod_eq_div_mult [symmetric])
  also have "c_nsec ?c mod millisecond = n mod millisecond"
    unfolding ns by (rule mod_mod_cancel) simp
  finally show ?thesis by (simp add: floor_ms_def)
qed

definition four_digit_year :: "int \<Rightarrow> bool" where
  "four_digit_year n = (0 \<le> c_year (civil_of n) \<and> c_year (civil_of n) \<le> 9999)"

lemma printable_civil_of: "four_digit_year n \<Longrightarrow> printable (civil_of n)"
  by (simp add: four_digit_year_def printable_def civil_of_valid)

lemma nsec_div_ms: "valid_civil c \<Longrightarrow> 0 \<le> c_nsec c div millisecond \<and> c_nsec c div millisecond < 1000"
  using valid_civil_fields [of c] by (simp add: pos_imp_zdiv_nonneg_iff div_less_iff_less_mult)

lemma day_in_range_nsec [simp]: "day_in_range (c\<lparr>c_nsec := x\<rparr>) = day_in_range c"
  by (simp add: day_in_range_def)

theorem parse_wire_format:
  assumes "four_digit_year (inst t)"
  shows "parse_wire (wire_format t) = Some \<lparr>inst = floor_ms (inst t), zone = 0\<rparr>"
proof -
  let ?c = "civil_of (inst t)"
  have c: "printable ?c" using assms by (rule printable_civil_of)
  then have v: "valid_civil ?c" by (simp add: printable_def)
  have k: "0 \<le> c_nsec ?c div millisecond" "c_nsec ?c div millisecond < 1000"
    using nsec_div_ms [OF v] by blast+
  let ?p = "pad 3 (c_nsec ?c div millisecond)"
  have "atoi3 ?p = Some (c_nsec ?c div millisecond)" using k by (simp add: atoi3_def)
  then show ?thesis
    using valid_civil_fields(13) [OF v] k(1) civil_of_floor_ms [of "inst t"]
    by (simp add: parse_wire_def wire_format_def Let_def parse_date_clock_print [OF c, simplified])
qed

lemma parse_fraction_pad3:
  "0 \<le> k \<Longrightarrow> k < 1000 \<Longrightarrow> \<not> is_digit z \<Longrightarrow>
   parse_fraction (CHR ''.'' # pad 3 k @ z # r) = (k * millisecond, z # r)"
  using num_of_pad_id [of k 3] by (simp add: numeral_3_eq_3)

theorem parse_rfc3339_wire_format:
  assumes "four_digit_year (inst t)"
  shows "parse_rfc3339 (wire_format t) = Some \<lparr>inst = floor_ms (inst t), zone = 0\<rparr>"
proof -
  let ?c = "civil_of (inst t)"
  have c: "printable ?c" using assms by (rule printable_civil_of)
  then have v: "valid_civil ?c" by (simp add: printable_def)
  have k: "0 \<le> c_nsec ?c div millisecond" "c_nsec ?c div millisecond < 1000"
    using nsec_div_ms [OF v] by blast+
  have "\<not> is_digit CHR ''Z''" by (simp add: is_digit_def)
  from parse_fraction_pad3 [OF k this, of "[]"] show ?thesis
    using valid_civil_fields(13) [OF v] civil_of_floor_ms [of "inst t"]
    by (simp add: parse_rfc3339_def wire_format_def Let_def parse_zone_def
        parse_date_clock_print [OF c, simplified])
qed

lemma num_of_append_zeros: "num_of (ds @ replicate j (CHR ''0'')) = num_of ds * 10 ^ j"
proof (induction j)
  case 0
  show ?case by simp
next
  case (Suc j)
  have "num_of (ds @ replicate (Suc j) CHR ''0'')
      = num_of ((ds @ replicate j CHR ''0'') @ [CHR ''0''])"
    by (simp add: replicate_append_same)
  also have "\<dots> = num_of ds * 10 ^ Suc j"
    by (simp only: num_of_snoc Suc.IH) (simp add: digit_val_def)
  finally show ?case .
qed

lemma strip_trailing:
  obtains j where "xs = rev (dropWhile (\<lambda>c. c = z) (rev xs)) @ replicate j z"
proof -
  have "takeWhile (\<lambda>c. c = z) (rev xs) = replicate (length (takeWhile (\<lambda>c. c = z) (rev xs))) z"
    by (rule replicate_length_same [symmetric]) (auto dest: set_takeWhileD)
  then obtain j where "rev xs = replicate j z @ dropWhile (\<lambda>c. c = z) (rev xs)"
    by (metis takeWhile_dropWhile_id)
  then have "xs = rev (replicate j z @ dropWhile (\<lambda>c. c = z) (rev xs))"
    by (metis rev_rev_ident)
  then show ?thesis using that by simp
qed

lemma parse_nano_fraction:
  assumes ns: "0 \<le> ns" "ns < second" and z: "\<not> is_digit z" "\<not> comma_or_period z"
  shows "parse_fraction (nano_fraction ns @ z # r) = (ns, z # r)"
proof -
  let ?ds = "rev (dropWhile (\<lambda>c. c = CHR ''0'') (rev (pad 9 ns)))"
  obtain j where j: "pad 9 ns = ?ds @ replicate j CHR ''0''" by (rule strip_trailing)
  have len: "9 = length ?ds + j" using arg_cong [OF j, of length] by simp
  have val: "num_of ?ds * 10 ^ (9 - length ?ds) = ns"
  proof -
    have "9 - length ?ds = j" using len by simp
    then show ?thesis
      using num_of_append_zeros [of ?ds j] num_of_pad_id [of ns 9] ns by (simp flip: j)
  qed
  have dig: "list_all is_digit ?ds"
    using pad_digits [of 9 ns] by (subst (asm) j) simp
  show ?thesis
  proof (cases ?ds)
    case Nil
    with val have "ns = 0" by simp
    with Nil z show ?thesis by (cases r) (simp_all add: nano_fraction_def)
  next
    case (Cons d ds)
    have tw: "takeWhile is_digit ((d # ds) @ z # r) = d # ds"
      "dropWhile is_digit ((d # ds) @ z # r) = z # r"
      using dig z(1) unfolding Cons by (simp_all add: takeWhile_append2 list_all_iff)
    have "length (d # ds) \<le> 9" using len Cons by simp
    moreover have "nano_fraction ns = CHR ''.'' # d # ds"
      using Cons by (simp add: nano_fraction_def Let_def)
    ultimately show ?thesis using tw val dig Cons by (simp add: Let_def)
  qed
qed

lemma parse_zone_string:
  assumes "off mod 60 = 0" "\<bar>off\<bar> \<le> 24 * 3600"
  shows "parse_zone (zone_string off) = Some (off, [])"
proof (cases "off = 0")
  case True
  then show ?thesis by (simp add: zone_string_def parse_zone_def)
next
  case False
  let ?m = "\<bar>off\<bar> div 60"
  have m: "0 \<le> ?m" "?m div 60 \<le> 24" "0 \<le> ?m div 60" "0 \<le> ?m mod 60" "?m mod 60 < 60"
    using assms(2) by linarith+
  have off: "\<bar>off\<bar> = (?m div 60 * 60 + ?m mod 60) * 60"
    using assms(1) by (simp add: mod_eq_0_iff_dvd)
  define h mi where "h = ?m div 60" and "mi = ?m mod 60"
  have b: "0 \<le> h" "h \<le> 24" "0 \<le> mi" "mi < 60" using m by (simp_all add: h_def mi_def)
  have g: "getnum True (pad 2 h) = Some (h, [])" "getnum True (pad 2 mi) = Some (mi, [])"
    using getnum_pad [of h True "[]"] getnum_pad [of mi True "[]"] b by simp_all
  have "(h * 60 + mi) * 60 = \<bar>off\<bar>" using off by (simp add: h_def mi_def)
  moreover have "zone_string off = (if off < 0 then ''-'' else ''+'') @ pad 2 h @ '':'' @ pad 2 mi"
    using False b by (simp add: zone_string_def Let_def append_int_pad h_def mi_def)
  moreover have "- (3600 * h) - mi * 60 = off" if "off < 0" using that calculation(1) by simp
  ultimately show ?thesis using b g
    by (simp add: parse_zone_def nth_append nth_Cons')
qed

lemma zone_string_hd: "\<exists>z r. zone_string off = z # r \<and> \<not> is_digit z \<and> \<not> comma_or_period z"
  by (auto simp: zone_string_def is_digit_def Let_def)

theorem parse_rfc3339nano_format:
  assumes y: "four_digit_year (inst t + zone t * second)"
    and z: "zone t mod 60 = 0" "\<bar>zone t\<bar> \<le> 24 * 3600"
  shows "parse_rfc3339 (rfc3339nano_format t) = Some t"
proof -
  let ?c = "civil_of (inst t + zone t * second)"
  have c: "printable ?c" using y by (rule printable_civil_of)
  then have v: "valid_civil ?c" by (simp add: printable_def)
  obtain x r where zs: "zone_string (zone t) = x # r" "\<not> is_digit x" "\<not> comma_or_period x"
    using zone_string_hd by blast
  have "parse_fraction (nano_fraction (c_nsec ?c) @ zone_string (zone t)) = (c_nsec ?c, zone_string (zone t))"
    unfolding zs(1) by (rule parse_nano_fraction) (use valid_civil_fields [OF v] zs in auto)
  moreover have "?c\<lparr>c_nsec := c_nsec ?c\<rparr> = ?c" by simp
  ultimately show ?thesis
    using valid_civil_fields(13) [OF v]
    by (simp add: parse_rfc3339_def rfc3339nano_format_def Let_def parse_zone_string [OF z]
        parse_date_clock_print [OF c, simplified])
qed

section \<open>Wire strings are ordered like the instants they stand for\<close>

lemma append_cong_less:
  assumes "length (xs :: string) = length ys" "xs = ys \<longleftrightarrow> a = b" "xs < ys \<longleftrightarrow> (a :: int) < b"
  shows "xs @ us < ys @ vs \<longleftrightarrow> a < b \<or> a = b \<and> us < vs"
  using assms by (simp add: append_less_same_length)

lemma append_pad_less:
  assumes "0 \<le> a" "a < 10 ^ w" "0 \<le> b" "b < 10 ^ w"
  shows "pad w a @ us < pad w b @ vs \<longleftrightarrow> a < b \<or> a = b \<and> us < vs"
  using assms by (intro append_cong_less) (simp_all add: pad_less pad_eq)

lemma radix_less_strict:
  fixes p q r s k :: int
  assumes "0 \<le> r" "r < k" "0 \<le> s" "s < k" "q < p"
  shows "q * k + r < p * k + s"
proof -
  have "(q + 1) * k \<le> p * k" using assms by (intro mult_right_mono) simp_all
  then have "q * k + k \<le> p * k" by (simp add: distrib_right)
  with assms show ?thesis by linarith
qed

lemma radix_less:
  fixes p q r s k :: int
  assumes "0 \<le> r" "r < k" "0 \<le> s" "s < k"
  shows "q * k + r < p * k + s \<longleftrightarrow> q < p \<or> q = p \<and> r < s"
  using radix_less_strict [OF assms, of q p] radix_less_strict [OF assms(3,4,1,2), of p q]
  by (cases q p rule: linorder_cases) auto

lemma radix_eq:
  fixes p q r s k :: int
  assumes "0 \<le> r" "r < k" "0 \<le> s" "s < k"
  shows "q * k + r = p * k + s \<longleftrightarrow> q = p \<and> r = s"
  using radix_div_mod [OF assms(1,2), of q] radix_div_mod [OF assms(3,4), of p] by auto

definition wire_number :: "civil \<Rightarrow> int" where
  "wire_number c =
     (((unix_days (c_year c) (c_month c) (c_day c) * 24 + c_hour c) * 60 + c_min c) * 60 + c_sec c)
       * 1000 + c_nsec c div millisecond"

lemma wire_number_floor: "wire_number (civil_of n) * millisecond = floor_ms n"
  using civil_of_floor_ms [of n] by (simp add: wire_number_def instant_of_def algebra_simps)

lemma wire_number_less:
  assumes v: "valid_civil c" "valid_civil c'"
  shows "wire_number c < wire_number c' \<longleftrightarrow>
    c_year c < c_year c' \<or> c_year c = c_year c' \<and> (c_month c < c_month c' \<or>
    c_month c = c_month c' \<and> (c_day c < c_day c' \<or> c_day c = c_day c' \<and>
    (c_hour c < c_hour c' \<or> c_hour c = c_hour c' \<and> (c_min c < c_min c' \<or> c_min c = c_min c' \<and>
    (c_sec c < c_sec c' \<or> c_sec c = c_sec c' \<and>
     c_nsec c div millisecond < c_nsec c' div millisecond)))))"
proof -
  have d: "valid_date (c_year c) (c_month c) (c_day c)" "valid_date (c_year c') (c_month c') (c_day c')"
    using v by (simp_all add: valid_civil_def)
  have e: "unix_days (c_year c) (c_month c) (c_day c) = unix_days (c_year c') (c_month c') (c_day c')
      \<longleftrightarrow> c_year c = c_year c' \<and> c_month c = c_month c' \<and> c_day c = c_day c'"
    using civil_of_unix_days [OF d(1)] civil_of_unix_days [OF d(2)] by (metis prod.inject)
  note f = valid_civil_fields [OF v(1)] valid_civil_fields [OF v(2)]
  show ?thesis
    unfolding wire_number_def
    using f nsec_div_ms [OF v(1)] nsec_div_ms [OF v(2)]
    by (simp only: radix_less radix_eq unix_days_less_iff [OF d] e) blast
qed

theorem wire_format_less:
  assumes "four_digit_year (inst t)" "four_digit_year (inst u)"
  shows "wire_format t < wire_format u \<longleftrightarrow> floor_ms (inst t) < floor_ms (inst u)"
proof -
  let ?c = "civil_of (inst t)" and ?d = "civil_of (inst u)"
  have v: "valid_civil ?c" "valid_civil ?d" by (simp_all add: civil_of_valid)
  note f = valid_civil_fields [OF v(1)] valid_civil_fields [OF v(2)]
  have y: "0 \<le> c_year ?c" "c_year ?c < 10 ^ 4" "0 \<le> c_year ?d" "c_year ?d < 10 ^ 4"
    using assms by (simp_all add: four_digit_year_def)
  have "wire_format t < wire_format u \<longleftrightarrow> wire_number ?c < wire_number ?d"
    using f y nsec_div_ms [OF v(1)] nsec_div_ms [OF v(2)]
    by (simp add: wire_format_def Let_def date_string_def clock_string_def append_int_pad
        append_pad_less wire_number_less [OF v])
  then show ?thesis by (simp flip: wire_number_floor)
qed

end
