(* ===== verification/Auth.thy ===== *)
theory Auth
  imports GoTime
begin

text \<open>
  The auth service (\<open>internal/auth/service.go\<close>): API-key principals, OAuth authorization codes,
  access and refresh tokens, platform clients. The service's mutex makes each method one step, so
  a method is a function from the service to its result and the service after it. The SHA-256
  digest is the parameter \<open>sha\<close> (in hexadecimal); the repositories of the options are functions
  over a database state \<open>'r\<close> of the caller's choice.
\<close>

section \<open>Data\<close>

record principal =
  p_id :: int
  p_uuid :: string
  p_type :: string
  p_username :: string
  p_email :: string
  p_permissions :: "string list"
  p_created_at :: string
  p_updated_at :: string

definition empty_principal :: principal where
  "empty_principal = \<lparr>p_id = 0, p_uuid = [], p_type = [], p_username = [], p_email = [],
     p_permissions = [], p_created_at = [], p_updated_at = []\<rparr>"

record oauth_client =
  oc_client_id :: string
  oc_name :: string
  oc_redirect_uris :: "string list"
  oc_created_at :: string
  oc_updated_at :: string

definition oauth_client_principal :: "oauth_client \<Rightarrow> principal" where
  "oauth_client_principal c = empty_principal\<lparr>p_type := ''oauth-client'',
     p_username := oc_client_id c, p_permissions := [''oauth-token:exchange'']\<rparr>"

record auth_code =
  ac_code :: string
  ac_client_id :: string
  ac_redirect_uri :: string
  ac_principal :: principal
  ac_scopes :: "string list"
  ac_expires_at :: string
  ac_created_at :: string

record token_request =
  tr_grant_type :: string
  tr_client_id :: string
  tr_code :: string
  tr_redirect_uri :: string
  tr_refresh_token :: string

record token_response =
  access_token :: string
  refresh_token :: string
  token_type :: string
  expires_in :: int
  scope :: string

record access_record =
  at_principal :: principal
  at_expires_at :: gotime

record refresh_record =
  rt_client_id :: string
  rt_access_token :: string
  rt_principal :: principal
  rt_scopes :: "string list"
  rt_expires_at :: gotime

record platform_client =
  pc_id :: string
  pc_name :: string
  pc_organization_id :: int
  pc_permissions :: "string list"
  pc_policy_permissions :: "string list"
  pc_created_at :: string
  pc_updated_at :: string

definition platform_client_principal :: "platform_client \<Rightarrow> principal" where
  "platform_client_principal c =
     empty_principal\<lparr>p_type := ''platform-client'', p_permissions := pc_policy_permissions c\<rparr>"

text \<open>The service's sentinel errors, parse errors, and errors of a repository.\<close>

datatype auth_error =
    ErrInvalidOAuthTokenRequest
  | ErrUnsupportedOAuthGrantType
  | ErrInvalidOAuthClient
  | ErrInvalidOAuthGrant
  | ErrOAuthGrantConsumed
  | ErrOAuthGrantExpired
  | ErrInvalidOAuthRedirectURI
  | ErrOAuthTokenGenerationFailed
  | ErrParseTime
  | ErrAuthRepository string

definition oauth_access_token_ttl :: int where
  "oauth_access_token_ttl = hour"

definition oauth_refresh_token_ttl :: int where
  "oauth_refresh_token_ttl = 30 * 24 * hour"

section \<open>Fixtures\<close>

definition fixture_api_key_principal :: principal where
  "fixture_api_key_principal =
     \<lparr>p_id = 123, p_uuid = ''00000000-0000-4000-8000-000000000123'', p_type = ''user'',
      p_username = ''fixture-user'', p_email = ''fixture-user@example.test'',
      p_permissions =
        [''me:read'', ''apps:read'', ''apps:install'', ''oauth-client:read'', ''booking:read'',
         ''booking:write'', ''booking:host-action'', ''slots:read'', ''selected-calendars:read'',
         ''selected-calendars:write'', ''destination-calendars:read'',
         ''destination-calendars:write'', ''calendar-connections:read'', ''calendars:read'',
         ''credentials:read''],
      p_created_at = ''2026-01-01T00:00:00.000Z'', p_updated_at = ''2026-01-01T00:00:00.000Z''\<rparr>"

definition fixture_wrong_owner_api_key_principal :: principal where
  "fixture_wrong_owner_api_key_principal = fixture_api_key_principal
     \<lparr>p_id := 999, p_uuid := ''00000000-0000-4000-8000-000000000999'',
      p_username := ''fixture-wrong-owner'', p_email := ''fixture-wrong-owner@example.test''\<rparr>"

definition fixture_wrong_owner_api_key :: string where
  "fixture_wrong_owner_api_key = ''cal_test_wrong_owner_mock''"

definition fixture_oauth_client :: "string \<Rightarrow> oauth_client" where
  "fixture_oauth_client client_id =
     \<lparr>oc_client_id = client_id, oc_name = ''Fixture OAuth Client'',
      oc_redirect_uris = [''https://fixture.example.test/callback''],
      oc_created_at = ''2026-01-01T00:00:00.000Z'', oc_updated_at = ''2026-01-01T00:00:00.000Z''\<rparr>"

definition fixture_auth_code_record :: "principal \<Rightarrow> string \<Rightarrow> auth_code" where
  "fixture_auth_code_record p client_id =
     (let client_id = (if client_id = [] then ''mock-oauth-client'' else client_id)
      in \<lparr>ac_code = ''mock-oauth-authorization-code'', ac_client_id = client_id,
          ac_redirect_uri = hd (oc_redirect_uris (fixture_oauth_client client_id)),
          ac_principal = p,
          ac_scopes = [''booking:read'', ''booking:write'', ''booking:host-action''],
          ac_expires_at = ''2026-12-31T00:00:00.000Z'',
          ac_created_at = ''2026-01-01T00:00:00.000Z''\<rparr>)"

definition fixture_platform_client :: "string \<Rightarrow> platform_client" where
  "fixture_platform_client client_id =
     \<lparr>pc_id = client_id, pc_name = ''Fixture Platform Client'', pc_organization_id = 456,
      pc_permissions = [''booking:read'', ''booking:write''],
      pc_policy_permissions = [''platform-client:read''],
      pc_created_at = ''2026-01-01T00:00:00.000Z'', pc_updated_at = ''2026-01-01T00:00:00.000Z''\<rparr>"

section \<open>Helpers\<close>

definition bearer_token :: "string \<Rightarrow> string" where
  "bearer_token authorization =
     (if \<not> has_prefix authorization ''Bearer '' then []
      else trim_prefix authorization ''Bearer '')"

definition secure_equal :: "(string \<Rightarrow> string) \<Rightarrow> string \<Rightarrow> string \<Rightarrow> bool" where
  "secure_equal sha left right =
     (if left = [] \<or> right = [] then False else sha left = sha right)"

definition is_lower_hex :: "char \<Rightarrow> bool" where
  "is_lower_hex c =
     (let n = (of_char c :: nat) in 48 \<le> n \<and> n \<le> 57 \<or> 97 \<le> n \<and> n \<le> 102)"

definition is_sha256_hex :: "string \<Rightarrow> bool" where
  "is_sha256_hex value = (length value = 64 \<and> list_all is_lower_hex value)"

definition zero_sha256_hash :: string where
  "zero_sha256_hash = replicate 64 CHR ''0''"

definition matches_sha256_hex :: "(string \<Rightarrow> string) \<Rightarrow> string \<Rightarrow> string \<Rightarrow> bool" where
  "matches_sha256_hex sha value expected =
     (let actual = sha value; valid = is_sha256_hex expected;
          expected' = (if \<not> valid then zero_sha256_hash else expected);
          matches = (actual = expected')
      in value \<noteq> [] \<and> valid \<and> matches)"

fun has_redirect_uri :: "string list \<Rightarrow> string \<Rightarrow> bool" where
  "has_redirect_uri [] uri = False"
| "has_redirect_uri (candidate # rest) uri =
     (if candidate = uri then True else has_redirect_uri rest uri)"

definition intersect_strings :: "string list \<Rightarrow> string list \<Rightarrow> string list" where
  "intersect_strings left right =
     (if left = [] \<or> right = [] then [] else filter (\<lambda>v. v \<in> set right) left)"

definition scoped_oauth_principal :: "principal \<Rightarrow> string list \<Rightarrow> principal" where
  "scoped_oauth_principal p scopes =
     p\<lparr>p_permissions := intersect_strings (p_permissions p) scopes\<rparr>"

text \<open>\<open>base64.RawURLEncoding\<close>: three bytes to four characters, a shorter last group unpadded.\<close>

definition base64_char :: "nat \<Rightarrow> char" where
  "base64_char n =
     (if n < 26 then char_of (65 + n) else if n < 52 then char_of (71 + n)
      else if n < 62 then char_of (n - 4) else if n = 62 then CHR ''-'' else CHR ''_'')"

fun base64url :: "8 word list \<Rightarrow> string" where
  "base64url [] = []"
| "base64url [a] =
     (let n = unat a * 16 in [base64_char (n div 64), base64_char (n mod 64)])"
| "base64url [a, b] =
     (let n = (unat a * 256 + unat b) * 4
      in [base64_char (n div 4096), base64_char (n div 64 mod 64), base64_char (n mod 64)])"
| "base64url (a # b # c # r) =
     (let n = (unat a * 256 + unat b) * 256 + unat c
      in base64_char (n div 262144) # base64_char (n div 4096 mod 64) #
         base64_char (n div 64 mod 64) # base64_char (n mod 64) # base64url r)"

text \<open>A draw of random bytes, \<open>None\<close> where \<open>rand.Read\<close> fails.\<close>

type_synonym draw = "8 word list option"

definition random_oauth_token :: "string \<Rightarrow> draw \<Rightarrow> auth_error + string" where
  "random_oauth_token prefix raw =
     (case raw of None \<Rightarrow> Inl ErrOAuthTokenGenerationFailed
      | Some bytes \<Rightarrow> Inr (prefix @ ''_'' @ base64url bytes))"

definition new_oauth_token_response ::
    "string list \<Rightarrow> draw \<Rightarrow> draw \<Rightarrow> auth_error + token_response" where
  "new_oauth_token_response scopes d1 d2 =
     (case random_oauth_token ''cal_at'' d1 of Inl e \<Rightarrow> Inl e
      | Inr at \<Rightarrow>
          (case random_oauth_token ''cal_rt'' d2 of Inl e \<Rightarrow> Inl e
           | Inr rt \<Rightarrow>
               Inr \<lparr>access_token = at, refresh_token = rt, token_type = ''Bearer'',
                    expires_in = oauth_access_token_ttl div second, scope = join scopes '' ''\<rparr>))"

section \<open>The service\<close>

text \<open>The interface \<open>OAuthTokenExchangeRepository\<close>; the draws are what the token generator reads.\<close>

record 'r oauth_repository =
  or_exchange_code ::
    "token_request \<Rightarrow> gotime \<Rightarrow> draw \<Rightarrow> draw \<Rightarrow> 'r \<Rightarrow> (auth_error + token_response) \<times> 'r"
  or_exchange_refresh ::
    "token_request \<Rightarrow> gotime \<Rightarrow> draw \<Rightarrow> draw \<Rightarrow> 'r \<Rightarrow> (auth_error + token_response) \<times> 'r"
  or_read_access :: "string \<Rightarrow> gotime \<Rightarrow> 'r \<Rightarrow> auth_error + principal option"

record platform_client_record =
  pcr_client :: platform_client
  pcr_secret_sha256 :: string

record 'r auth_service =
  as_api_key :: string
  as_oauth_client_id :: string
  as_platform_client_id :: string
  as_platform_client_secret :: string
  as_api_key_principals :: "(string \<Rightarrow> 'r \<Rightarrow> auth_error + principal option) option"
  as_oauth_clients :: "(string \<Rightarrow> 'r \<Rightarrow> auth_error + oauth_client option) option"
  as_oauth_tokens :: "'r oauth_repository option"
  as_platform_clients :: "(string \<Rightarrow> 'r \<Rightarrow> auth_error + platform_client_record option) option"
  as_codes :: "string \<rightharpoonup> auth_code"
  as_tokens :: "string \<rightharpoonup> access_record"
  as_refresh :: "string \<rightharpoonup> refresh_record"
  as_db :: 'r

record auth_config =
  cfg_api_key :: string
  cfg_oauth_client_id :: string
  cfg_platform_client_id :: string
  cfg_platform_client_secret :: string

text \<open>\<open>NewService\<close> without options; an option sets one of the repository fields.\<close>

definition new_auth_service :: "auth_config \<Rightarrow> 'r \<Rightarrow> 'r auth_service" where
  "new_auth_service cfg db =
     (let base =
        \<lparr>as_api_key = cfg_api_key cfg, as_oauth_client_id = cfg_oauth_client_id cfg,
         as_platform_client_id = cfg_platform_client_id cfg,
         as_platform_client_secret = cfg_platform_client_secret cfg,
         as_api_key_principals = None, as_oauth_clients = None, as_oauth_tokens = None,
         as_platform_clients = None, as_codes = Map.empty, as_tokens = Map.empty,
         as_refresh = Map.empty, as_db = db\<rparr>
      in if cfg_oauth_client_id cfg \<noteq> []
         then let code = fixture_auth_code_record fixture_api_key_principal (cfg_oauth_client_id cfg)
              in base\<lparr>as_codes := [ac_code code \<mapsto> code]\<rparr>
         else base)"

definition authenticate_api_key ::
    "(string \<Rightarrow> string) \<Rightarrow> 'r auth_service \<Rightarrow> string \<Rightarrow> auth_error + principal option" where
  "authenticate_api_key sha s authorization =
     (let token = bearer_token authorization
      in case as_api_key_principals s of
           Some read \<Rightarrow> if token = [] then Inr None else read token (as_db s)
         | None \<Rightarrow>
             if \<not> secure_equal sha token (as_api_key s)
             then if secure_equal sha token fixture_wrong_owner_api_key
                  then Inr (Some fixture_wrong_owner_api_key_principal)
                  else Inr None
             else Inr (Some fixture_api_key_principal))"

definition read_oauth_client ::
    "'r auth_service \<Rightarrow> string \<Rightarrow> auth_error + oauth_client option" where
  "read_oauth_client s client_id =
     (case as_oauth_clients s of
        Some read \<Rightarrow> if client_id = [] then Inr None else read client_id (as_db s)
      | None \<Rightarrow>
          if client_id \<noteq> as_oauth_client_id s then Inr None
          else Inr (Some (fixture_oauth_client client_id)))"

definition exchange_fixture_code ::
    "token_request \<Rightarrow> gotime \<Rightarrow> draw \<Rightarrow> draw \<Rightarrow> 'r auth_service
      \<Rightarrow> (auth_error + token_response) \<times> 'r auth_service" where
  "exchange_fixture_code req issued_at d1 d2 s =
     (case as_codes s (tr_code req) of
        None \<Rightarrow> (Inl ErrInvalidOAuthGrant, s)
      | Some code \<Rightarrow>
          if ac_client_id code \<noteq> tr_client_id req \<or> ac_redirect_uri code \<noteq> tr_redirect_uri req
          then (Inl ErrInvalidOAuthGrant, s)
          else case parse_rfc3339 (ac_expires_at code) of
            None \<Rightarrow> (Inl ErrParseTime, s)
          | Some expires_at \<Rightarrow>
              if \<not> before issued_at expires_at then (Inl ErrOAuthGrantExpired, s)
              else let s = s\<lparr>as_codes := (as_codes s)(tr_code req := None)\<rparr>
                in case new_oauth_token_response (ac_scopes code) d1 d2 of
                  Inl e \<Rightarrow> (Inl e, s)
                | Inr token \<Rightarrow>
                    let s = s\<lparr>as_tokens := (as_tokens s)(access_token token \<mapsto>
                          \<lparr>at_principal = scoped_oauth_principal (ac_principal code) (ac_scopes code),
                           at_expires_at = add_ns issued_at oauth_access_token_ttl\<rparr>)\<rparr>;
                        s = s\<lparr>as_refresh := (as_refresh s)(refresh_token token \<mapsto>
                          \<lparr>rt_client_id = ac_client_id code, rt_access_token = access_token token,
                           rt_principal = ac_principal code, rt_scopes = ac_scopes code,
                           rt_expires_at = add_ns issued_at oauth_refresh_token_ttl\<rparr>)\<rparr>
                    in (Inr token, s))"

definition exchange_fixture_refresh ::
    "token_request \<Rightarrow> gotime \<Rightarrow> draw \<Rightarrow> draw \<Rightarrow> 'r auth_service
      \<Rightarrow> (auth_error + token_response) \<times> 'r auth_service" where
  "exchange_fixture_refresh req issued_at d1 d2 s =
     (case as_refresh s (tr_refresh_token req) of
        None \<Rightarrow> (Inl ErrInvalidOAuthGrant, s)
      | Some r \<Rightarrow>
          if rt_client_id r \<noteq> tr_client_id req then (Inl ErrInvalidOAuthGrant, s)
          else if \<not> before issued_at (rt_expires_at r) then (Inl ErrOAuthGrantExpired, s)
          else let s = s\<lparr>as_refresh := (as_refresh s)(tr_refresh_token req := None)\<rparr>;
                   s = s\<lparr>as_tokens := (as_tokens s)(rt_access_token r := None)\<rparr>
            in case new_oauth_token_response (rt_scopes r) d1 d2 of
              Inl e \<Rightarrow> (Inl e, s)
            | Inr token \<Rightarrow>
                let s = s\<lparr>as_tokens := (as_tokens s)(access_token token \<mapsto>
                      \<lparr>at_principal = scoped_oauth_principal (rt_principal r) (rt_scopes r),
                       at_expires_at = add_ns issued_at oauth_access_token_ttl\<rparr>)\<rparr>;
                    s = s\<lparr>as_refresh := (as_refresh s)(refresh_token token \<mapsto>
                      \<lparr>rt_client_id = rt_client_id r, rt_access_token = access_token token,
                       rt_principal = rt_principal r, rt_scopes = rt_scopes r,
                       rt_expires_at = add_ns issued_at oauth_refresh_token_ttl\<rparr>)\<rparr>
                in (Inr token, s))"

definition authenticate_fixture_token ::
    "'r auth_service \<Rightarrow> string \<Rightarrow> gotime \<Rightarrow> auth_error + principal option" where
  "authenticate_fixture_token s token now =
     (case as_tokens s token of
        None \<Rightarrow> Inr None
      | Some r \<Rightarrow> if \<not> before now (at_expires_at r) then Inr None else Inr (Some (at_principal r)))"

definition trim_token_request :: "token_request \<Rightarrow> token_request" where
  "trim_token_request req =
     \<lparr>tr_grant_type = trim_space (tr_grant_type req), tr_client_id = trim_space (tr_client_id req),
      tr_code = trim_space (tr_code req), tr_redirect_uri = trim_space (tr_redirect_uri req),
      tr_refresh_token = trim_space (tr_refresh_token req)\<rparr>"

definition exchange_oauth_token ::
    "token_request \<Rightarrow> gotime \<Rightarrow> draw \<Rightarrow> draw \<Rightarrow> 'r auth_service
      \<Rightarrow> (auth_error + token_response) \<times> 'r auth_service" where
  "exchange_oauth_token req0 now d1 d2 s =
     (let req = trim_token_request req0
      in if tr_grant_type req = [] \<or> tr_client_id req = []
         then (Inl ErrInvalidOAuthTokenRequest, s)
         else if tr_grant_type req \<noteq> ''authorization_code'' \<and> tr_grant_type req \<noteq> ''refresh_token''
         then (Inl ErrUnsupportedOAuthGrantType, s)
         else case read_oauth_client s (tr_client_id req) of
           Inl e \<Rightarrow> (Inl e, s)
         | Inr None \<Rightarrow> (Inl ErrInvalidOAuthClient, s)
         | Inr (Some client) \<Rightarrow>
             if tr_grant_type req = ''authorization_code'' then
               (if tr_code req = [] \<or> tr_redirect_uri req = []
                then (Inl ErrInvalidOAuthTokenRequest, s)
                else if \<not> has_redirect_uri (oc_redirect_uris client) (tr_redirect_uri req)
                then (Inl ErrInvalidOAuthRedirectURI, s)
                else case as_oauth_tokens s of
                  Some repo \<Rightarrow>
                    let (res, db) = or_exchange_code repo req (utc now) d1 d2 (as_db s)
                    in (res, s\<lparr>as_db := db\<rparr>)
                | None \<Rightarrow> exchange_fixture_code req (utc now) d1 d2 s)
             else
               (if tr_refresh_token req = [] then (Inl ErrInvalidOAuthTokenRequest, s)
                else case as_oauth_tokens s of
                  Some repo \<Rightarrow>
                    let (res, db) = or_exchange_refresh repo req (utc now) d1 d2 (as_db s)
                    in (res, s\<lparr>as_db := db\<rparr>)
                | None \<Rightarrow> exchange_fixture_refresh req (utc now) d1 d2 s))"

definition authenticate_oauth_access_token ::
    "'r auth_service \<Rightarrow> string \<Rightarrow> gotime \<Rightarrow> auth_error + principal option" where
  "authenticate_oauth_access_token s authorization now =
     (let token = bearer_token authorization
      in if token = [] then Inr None
         else case as_oauth_tokens s of
           Some repo \<Rightarrow> or_read_access repo token (utc now) (as_db s)
         | None \<Rightarrow> authenticate_fixture_token s token (utc now))"

definition verify_platform_client ::
    "(string \<Rightarrow> string) \<Rightarrow> 'r auth_service \<Rightarrow> string \<Rightarrow> string \<Rightarrow> string
      \<Rightarrow> auth_error + platform_client option" where
  "verify_platform_client sha s path_id header_id secret =
     (if path_id = [] \<or> path_id \<noteq> header_id then Inr None
      else case as_platform_clients s of
        Some read \<Rightarrow>
          (case read path_id (as_db s) of
             Inl e \<Rightarrow> Inl e
           | Inr None \<Rightarrow> Inr None
           | Inr (Some r) \<Rightarrow>
               if \<not> matches_sha256_hex sha secret (pcr_secret_sha256 r) then Inr None
               else Inr (Some (pcr_client r)))
      | None \<Rightarrow>
          if path_id \<noteq> as_platform_client_id s
             \<or> \<not> secure_equal sha secret (as_platform_client_secret s)
          then Inr None
          else Inr (Some (fixture_platform_client (as_platform_client_id s))))"

end
