(* ===== verification/AuthGrants.thy ===== *)
theory AuthGrants
  imports Auth
begin

text \<open>
  Correctness of the in-memory OAuth grants of \<open>internal/auth/service.go\<close>: the contract of a
  one-time grant store as a locale, its interpretation on the fixture maps, the invariant of the
  service's runs, and the scope, expiry and rotation behaviour of the tokens.
\<close>

section \<open>Generated tokens\<close>

lemma new_oauth_token_response_ok:
  "new_oauth_token_response scopes d1 d2 = Inr tok \<longleftrightarrow>
   (\<exists>b1 b2. d1 = Some b1 \<and> d2 = Some b2 \<and>
     tok = \<lparr>access_token = ''cal_at_'' @ base64url b1, refresh_token = ''cal_rt_'' @ base64url b2,
            token_type = ''Bearer'', expires_in = 3600, scope = join scopes '' ''\<rparr>)"
  by (auto simp: new_oauth_token_response_def random_oauth_token_def oauth_access_token_ttl_def
      split: option.splits)

lemma new_oauth_token_response_err:
  "new_oauth_token_response scopes d1 d2 = Inl e \<Longrightarrow> e = ErrOAuthTokenGenerationFailed"
  by (auto simp: new_oauth_token_response_def random_oauth_token_def split: option.splits)

section \<open>One-time grants: the contract\<close>

datatype grant_op =
    RedeemCode token_request gotime draw draw
  | RedeemRefresh token_request gotime draw draw

text \<open>
  What a caller of a token store relies on: a code (refresh token) that is not open never
  succeeds, a successful redemption closes what it redeemed, and codes are never opened.
\<close>

locale one_time_grants =
  fixes xcode :: "token_request \<Rightarrow> gotime \<Rightarrow> draw \<Rightarrow> draw \<Rightarrow> 's \<Rightarrow> (auth_error + token_response) \<times> 's"
    and xrefresh :: "token_request \<Rightarrow> gotime \<Rightarrow> draw \<Rightarrow> draw \<Rightarrow> 's \<Rightarrow> (auth_error + token_response) \<times> 's"
    and open_codes :: "'s \<Rightarrow> string set"
    and open_refresh :: "'s \<Rightarrow> string set"
  assumes code_open: "xcode req t d1 d2 s = (Inr tok, s') \<Longrightarrow> tr_code req \<in> open_codes s"
    and code_closes: "xcode req t d1 d2 s = (Inr tok, s') \<Longrightarrow>
      open_codes s' \<subseteq> open_codes s - {tr_code req}"
    and code_keeps: "xcode req t d1 d2 s = (res, s') \<Longrightarrow> open_codes s' \<subseteq> open_codes s"
    and refresh_open: "xrefresh req t d1 d2 s = (Inr tok, s') \<Longrightarrow>
      tr_refresh_token req \<in> open_refresh s"
    and refresh_closes: "xrefresh req t d1 d2 s = (Inr tok, s') \<Longrightarrow>
      refresh_token tok \<noteq> tr_refresh_token req \<Longrightarrow> tr_refresh_token req \<notin> open_refresh s'"
    and refresh_keeps: "xrefresh req t d1 d2 s = (res, s') \<Longrightarrow> open_codes s' \<subseteq> open_codes s"

text \<open>A run of redemptions, with the results in order.\<close>

fun grant_step ::
    "(token_request \<Rightarrow> gotime \<Rightarrow> draw \<Rightarrow> draw \<Rightarrow> 's \<Rightarrow> (auth_error + token_response) \<times> 's) \<Rightarrow>
     (token_request \<Rightarrow> gotime \<Rightarrow> draw \<Rightarrow> draw \<Rightarrow> 's \<Rightarrow> (auth_error + token_response) \<times> 's) \<Rightarrow>
     grant_op \<Rightarrow> 's \<Rightarrow> (auth_error + token_response) \<times> 's" where
  "grant_step xc xr (RedeemCode req t d1 d2) s = xc req t d1 d2 s"
| "grant_step xc xr (RedeemRefresh req t d1 d2) s = xr req t d1 d2 s"

fun grant_run ::
    "(token_request \<Rightarrow> gotime \<Rightarrow> draw \<Rightarrow> draw \<Rightarrow> 's \<Rightarrow> (auth_error + token_response) \<times> 's) \<Rightarrow>
     (token_request \<Rightarrow> gotime \<Rightarrow> draw \<Rightarrow> draw \<Rightarrow> 's \<Rightarrow> (auth_error + token_response) \<times> 's) \<Rightarrow>
     grant_op list \<Rightarrow> 's \<Rightarrow> (auth_error + token_response) list \<times> 's" where
  "grant_run xc xr [] s = ([], s)"
| "grant_run xc xr (op # ops) s =
     (let (res, s1) = grant_step xc xr op s; (rs, s2) = grant_run xc xr ops s1
      in (res # rs, s2))"

text \<open>How often a run redeems the code \<open>c\<close>.\<close>

fun redeems_code :: "string \<Rightarrow> grant_op \<Rightarrow> auth_error + token_response \<Rightarrow> bool" where
  "redeems_code c (RedeemCode req t d1 d2) res = (tr_code req = c \<and> is_ok res)"
| "redeems_code c (RedeemRefresh req t d1 d2) res = False"

definition code_redemptions :: "string \<Rightarrow> grant_op list \<Rightarrow> (auth_error + token_response) list \<Rightarrow> nat" where
  "code_redemptions c ops rs = length (filter (\<lambda>(op, res). redeems_code c op res) (zip ops rs))"

context one_time_grants
begin

lemma step_keeps: "grant_step xcode xrefresh op s = (res, s') \<Longrightarrow> open_codes s' \<subseteq> open_codes s"
  by (cases op) (auto dest: code_keeps refresh_keeps)

lemma step_redeems:
  assumes "grant_step xcode xrefresh op s = (res, s')" "redeems_code c op res"
  shows "c \<in> open_codes s" "c \<notin> open_codes s'"
proof -
  obtain req t d1 d2 where op: "op = RedeemCode req t d1 d2" and c: "tr_code req = c" "is_ok res"
    using assms(2) by (cases op) auto
  then obtain tok where "xcode req t d1 d2 s = (Inr tok, s')"
    using assms(1) by (cases res) auto
  from code_open [OF this] code_closes [OF this] c
  show "c \<in> open_codes s" "c \<notin> open_codes s'" by auto
qed

lemma closed_code_never_redeemed:
  "c \<notin> open_codes s \<Longrightarrow> code_redemptions c ops (fst (grant_run xcode xrefresh ops s)) = 0"
proof (induction ops arbitrary: s)
  case Nil
  then show ?case by (simp add: code_redemptions_def)
next
  case (Cons op ops)
  obtain res s1 where s1: "grant_step xcode xrefresh op s = (res, s1)" by fastforce
  with Cons.prems have "c \<notin> open_codes s1" "\<not> redeems_code c op res"
    using step_keeps [OF s1] step_redeems(1) [OF s1] by auto
  with Cons.IH [of s1] show ?case
    by (cases "grant_run xcode xrefresh ops s1") (simp add: s1 code_redemptions_def)
qed

lemma code_redeemed_at_most_once:
  "code_redemptions c ops (fst (grant_run xcode xrefresh ops s)) \<le> 1"
proof (induction ops arbitrary: s)
  case Nil
  then show ?case by (simp add: code_redemptions_def)
next
  case (Cons op ops)
  obtain res s1 where s1: "grant_step xcode xrefresh op s = (res, s1)" by fastforce
  show ?case
  proof (cases "redeems_code c op res")
    case True
    then have "c \<notin> open_codes s1" using step_redeems(2) [OF s1] by simp
    then have "code_redemptions c ops (fst (grant_run xcode xrefresh ops s1)) = 0"
      by (rule closed_code_never_redeemed)
    with True show ?thesis
      by (cases "grant_run xcode xrefresh ops s1") (simp add: s1 code_redemptions_def)
  next
    case False
    with Cons.IH [of s1] show ?thesis
      by (cases "grant_run xcode xrefresh ops s1") (simp add: s1 code_redemptions_def)
  qed
qed

end

section \<open>The fixture maps keep the contract\<close>

lemma exchange_fixture_code_ok:
  assumes "exchange_fixture_code req t d1 d2 s = (Inr tok, s')"
  obtains code e where "as_codes s (tr_code req) = Some code"
    "ac_client_id code = tr_client_id req" "ac_redirect_uri code = tr_redirect_uri req"
    "parse_rfc3339 (ac_expires_at code) = Some e" "before t e"
    "new_oauth_token_response (ac_scopes code) d1 d2 = Inr tok"
    "s' = s\<lparr>as_codes := (as_codes s)(tr_code req := None),
            as_tokens := (as_tokens s)(access_token tok \<mapsto>
              \<lparr>at_principal = scoped_oauth_principal (ac_principal code) (ac_scopes code),
               at_expires_at = add_ns t oauth_access_token_ttl\<rparr>),
            as_refresh := (as_refresh s)(refresh_token tok \<mapsto>
              \<lparr>rt_client_id = ac_client_id code, rt_access_token = access_token tok,
               rt_principal = ac_principal code, rt_scopes = ac_scopes code,
               rt_expires_at = add_ns t oauth_refresh_token_ttl\<rparr>)\<rparr>"
  using assms
  by (auto simp: exchange_fixture_code_def Let_def split: option.splits if_splits sum.splits)

lemma exchange_fixture_refresh_ok:
  assumes "exchange_fixture_refresh req t d1 d2 s = (Inr tok, s')"
  obtains r where "as_refresh s (tr_refresh_token req) = Some r"
    "rt_client_id r = tr_client_id req" "before t (rt_expires_at r)"
    "new_oauth_token_response (rt_scopes r) d1 d2 = Inr tok"
    "s' = s\<lparr>as_refresh := (as_refresh s)(tr_refresh_token req := None, refresh_token tok \<mapsto>
              \<lparr>rt_client_id = rt_client_id r, rt_access_token = access_token tok,
               rt_principal = rt_principal r, rt_scopes = rt_scopes r,
               rt_expires_at = add_ns t oauth_refresh_token_ttl\<rparr>),
            as_tokens := (as_tokens s)(rt_access_token r := None, access_token tok \<mapsto>
              \<lparr>at_principal = scoped_oauth_principal (rt_principal r) (rt_scopes r),
               at_expires_at = add_ns t oauth_access_token_ttl\<rparr>)\<rparr>"
  using assms
  by (auto simp: exchange_fixture_refresh_def Let_def split: option.splits if_splits sum.splits)

lemma exchange_fixture_code_codes:
  "exchange_fixture_code req t d1 d2 s = (res, s') \<Longrightarrow> dom (as_codes s') \<subseteq> dom (as_codes s)"
  by (auto simp: exchange_fixture_code_def Let_def split: option.splits if_splits sum.splits)

lemma exchange_fixture_refresh_codes:
  "exchange_fixture_refresh req t d1 d2 s = (res, s') \<Longrightarrow> as_codes s' = as_codes s"
  by (auto simp: exchange_fixture_refresh_def Let_def split: option.splits if_splits sum.splits)

interpretation fixture_grants: one_time_grants exchange_fixture_code exchange_fixture_refresh
  "\<lambda>s. dom (as_codes s)" "\<lambda>s. dom (as_refresh s)"
proof unfold_locales
  fix req t d1 d2 s tok s' res
  show "tr_code req \<in> dom (as_codes s)" "dom (as_codes s') \<subseteq> dom (as_codes s) - {tr_code req}"
    if "exchange_fixture_code req t d1 d2 s = (Inr tok, s')"
    using that by (auto elim!: exchange_fixture_code_ok split: if_splits)
  show "dom (as_codes s') \<subseteq> dom (as_codes s)" if "exchange_fixture_code req t d1 d2 s = (res, s')"
    using that by (rule exchange_fixture_code_codes)
  show "tr_refresh_token req \<in> dom (as_refresh s)"
    if "exchange_fixture_refresh req t d1 d2 s = (Inr tok, s')"
    using that by (auto elim!: exchange_fixture_refresh_ok)
  show "tr_refresh_token req \<notin> dom (as_refresh s')"
    if "exchange_fixture_refresh req t d1 d2 s = (Inr tok, s')"
      "refresh_token tok \<noteq> tr_refresh_token req"
    using that by (auto elim!: exchange_fixture_refresh_ok)
  show "dom (as_codes s') \<subseteq> dom (as_codes s)" if "exchange_fixture_refresh req t d1 d2 s = (res, s')"
    using exchange_fixture_refresh_codes [OF that] by simp
qed


section \<open>Runs of the service\<close>

text \<open>
  The states a service without token repository goes through: token exchanges are the only
  operations that change it. The clock and the random draws are whatever the environment gives.
\<close>

inductive auth_reach :: "auth_config \<Rightarrow> 'r \<Rightarrow> 'r auth_service \<Rightarrow> bool" for cfg db where
  start: "auth_reach cfg db (new_auth_service cfg db)"
| exchange: "auth_reach cfg db s \<Longrightarrow> exchange_oauth_token req t d1 d2 s = (res, s') \<Longrightarrow>
    auth_reach cfg db s'"

lemma exchange_fixture_code_err:
  "exchange_fixture_code req t d1 d2 s = (Inl e, s') \<Longrightarrow>
   s' = s \<or> s' = s\<lparr>as_codes := (as_codes s)(tr_code req := None)\<rparr>"
  by (auto simp: exchange_fixture_code_def Let_def split: option.splits if_splits sum.splits)

lemma exchange_fixture_refresh_err:
  "exchange_fixture_refresh req t d1 d2 s = (Inl e, s') \<Longrightarrow>
   s' = s \<or> (\<exists>r. as_refresh s (tr_refresh_token req) = Some r \<and>
     s' = s\<lparr>as_refresh := (as_refresh s)(tr_refresh_token req := None),
             as_tokens := (as_tokens s)(rt_access_token r := None)\<rparr>)"
  by (auto simp: exchange_fixture_refresh_def Let_def split: option.splits if_splits sum.splits)

lemma exchange_oauth_token_cases:
  assumes "exchange_oauth_token req t d1 d2 s = (res, s')" "as_oauth_tokens s = None"
  shows "s' = s \<or> exchange_fixture_code (trim_token_request req) (utc t) d1 d2 s = (res, s')
    \<or> exchange_fixture_refresh (trim_token_request req) (utc t) d1 d2 s = (res, s')"
  using assms
  by (auto simp: exchange_oauth_token_def Let_def split: sum.splits option.splits if_splits)

definition booking_scopes :: "string list" where
  "booking_scopes = [''booking:read'', ''booking:write'', ''booking:host-action'']"

text \<open>
  The service's invariant: at most one grant is live (an unredeemed code or a refresh token), the
  live access tokens are exactly those of the refresh tokens, and every record belongs to the
  fixture user with the scopes of the authorization code.
\<close>

definition grants_inv :: "'r auth_service \<Rightarrow> bool" where
  "grants_inv s \<longleftrightarrow>
     as_oauth_tokens s = None \<and>
     finite (dom (as_codes s)) \<and> finite (dom (as_refresh s)) \<and>
     card (dom (as_codes s)) + card (dom (as_refresh s)) \<le> 1 \<and>
     dom (as_tokens s) = rt_access_token ` ran (as_refresh s) \<and>
     (\<forall>c \<in> ran (as_codes s). ac_principal c = fixture_api_key_principal \<and> ac_scopes c = booking_scopes) \<and>
     (\<forall>r \<in> ran (as_refresh s). rt_principal r = fixture_api_key_principal \<and> rt_scopes r = booking_scopes) \<and>
     (\<forall>a \<in> ran (as_tokens s).
        at_principal a = scoped_oauth_principal fixture_api_key_principal booking_scopes)"

text \<open>With at most one grant, a redeemed grant leaves nothing else behind.\<close>

lemma card_sum_le_1_left:
  fixes A B :: "string set"
  assumes "finite A" "finite B" "card A + card B \<le> 1" "x \<in> A"
  shows "A = {x}" "B = {}"
proof -
  have "card A \<noteq> 0" using assms by auto
  with assms(3) have "card A = 1" "card B = 0" by auto
  with assms show "A = {x}" "B = {}" by (auto simp: card_1_singleton_iff)
qed

lemma dom_eq_empty_iff [simp]: "dom m = {} \<longleftrightarrow> m = Map.empty"
  by auto

lemma dom_singleton_fun: "dom m = {k} \<Longrightarrow> m k = Some v \<Longrightarrow> m = [k \<mapsto> v]"
  by (rule ext) (metis domIff fun_upd_apply singletonD)

lemma grants_inv_code:
  assumes inv: "grants_inv s" and x: "exchange_fixture_code req t d1 d2 s = (res, s')"
  shows "grants_inv s'"
proof (cases "s' = s")
  case True
  with inv show ?thesis by simp
next
  case False
  then obtain code where code: "as_codes s (tr_code req) = Some code"
    using x by (auto simp: exchange_fixture_code_def split: option.splits)
  from inv have "dom (as_codes s) = {tr_code req}" "dom (as_refresh s) = {}"
    using card_sum_le_1_left [of "dom (as_codes s)" "dom (as_refresh s)" "tr_code req"] code
    by (auto simp: grants_inv_def)
  with code have c: "as_codes s = [tr_code req \<mapsto> code]" and r: "as_refresh s = Map.empty"
    by (auto intro: dom_singleton_fun)
  with inv have "as_tokens s = Map.empty" by (auto simp: grants_inv_def)
  then show ?thesis
    using inv c r x False
    by (cases res) (auto simp: grants_inv_def dest!: exchange_fixture_code_err
        elim!: exchange_fixture_code_ok split: if_splits)
qed

lemma grants_inv_refresh:
  assumes inv: "grants_inv s" and x: "exchange_fixture_refresh req t d1 d2 s = (res, s')"
  shows "grants_inv s'"
proof (cases "s' = s")
  case True
  with inv show ?thesis by simp
next
  case False
  then obtain r where r: "as_refresh s (tr_refresh_token req) = Some r"
    using x by (auto simp: exchange_fixture_refresh_def split: option.splits)
  from inv have "dom (as_refresh s) = {tr_refresh_token req}" "dom (as_codes s) = {}"
    using card_sum_le_1_left [of "dom (as_refresh s)" "dom (as_codes s)" "tr_refresh_token req"] r
    by (auto simp: grants_inv_def add.commute)
  with r have m: "as_refresh s = [tr_refresh_token req \<mapsto> r]" and c: "as_codes s = Map.empty"
    by (auto intro: dom_singleton_fun)
  with inv have d: "dom (as_tokens s) = {rt_access_token r}" by (auto simp: grants_inv_def)
  then obtain a where "as_tokens s = [rt_access_token r \<mapsto> a]"
    by (metis dom_singleton_fun domD insertI1)
  then show ?thesis
    using inv m c x False
    by (cases res) (auto simp: grants_inv_def dest!: exchange_fixture_refresh_err
        elim!: exchange_fixture_refresh_ok split: if_splits)
qed

lemma grants_inv_init: "grants_inv (new_auth_service cfg db)"
  by (simp add: grants_inv_def new_auth_service_def Let_def fixture_auth_code_record_def
      booking_scopes_def)

lemma auth_reach_inv: "auth_reach cfg db s \<Longrightarrow> grants_inv s"
proof (induction rule: auth_reach.induct)
  case start
  show ?case by (rule grants_inv_init)
next
  case (exchange s req t d1 d2 res s')
  then have "as_oauth_tokens s = None" by (simp add: grants_inv_def)
  from exchange_oauth_token_cases [OF exchange.hyps(2) this] exchange.IH show ?case
    by (auto intro: grants_inv_code grants_inv_refresh)
qed

section \<open>A concrete run\<close>

text \<open>
  The fixture service at noon of 2026-06-01 exchanges its code for a token pair; the examples
  below evaluate the operations on it.
\<close>

definition run_config :: auth_config where
  "run_config = \<lparr>cfg_api_key = ''cal_test_valid_mock'', cfg_oauth_client_id = ''mock-oauth-client'',
     cfg_platform_client_id = ''mock-platform-client'',
     cfg_platform_client_secret = ''mock-platform-secret''\<rparr>"

definition run_start :: "unit auth_service" where
  "run_start = new_auth_service run_config ()"

definition run_time :: gotime where
  "run_time = the (parse_rfc3339 ''2026-06-01T12:00:00Z'')"

definition run_code_request :: token_request where
  "run_code_request = \<lparr>tr_grant_type = '' authorization_code '', tr_client_id = ''mock-oauth-client'',
     tr_code = ''mock-oauth-authorization-code'',
     tr_redirect_uri = ''https://fixture.example.test/callback'', tr_refresh_token = []\<rparr>"

definition run_exchanged :: "(auth_error + token_response) \<times> unit auth_service" where
  "run_exchanged = exchange_oauth_token run_code_request run_time (Some [1, 2, 3]) (Some [4, 5, 6])
     run_start"

definition run_token :: token_response where
  "run_token = \<lparr>access_token = ''cal_at_AQID'', refresh_token = ''cal_rt_BAUG'',
     token_type = ''Bearer'', expires_in = 3600,
     scope = ''booking:read booking:write booking:host-action''\<rparr>"

lemma run_time_val: "run_time = \<lparr>inst = 1780315200000000000, zone = 0\<rparr>" by code_simp
lemma run_expires: "parse_rfc3339 ''2026-12-31T00:00:00.000Z'' = Some \<lparr>inst = 1798675200000000000, zone = 0\<rparr>" by code_simp
lemma run_trim: "trim_token_request run_code_request = \<lparr>tr_grant_type = ''authorization_code'', tr_client_id = ''mock-oauth-client'',
     tr_code = ''mock-oauth-authorization-code'',
     tr_redirect_uri = ''https://fixture.example.test/callback'', tr_refresh_token = []\<rparr>" by code_simp

definition run_code :: auth_code where
  "run_code = fixture_auth_code_record fixture_api_key_principal ''mock-oauth-client''"

lemma run_base64: "base64_char 0 = CHR ''A''" "base64_char 16 = CHR ''Q''" "base64_char 8 = CHR ''I''" "base64_char 3 = CHR ''D''"
  "base64_char (Suc 0) = CHR ''B''" "base64_char 20 = CHR ''U''" "base64_char 6 = CHR ''G''"
  by (simp_all add: base64_char_def char_of_def bit_0)

lemma run_response: "new_oauth_token_response (ac_scopes run_code) (Some [1, 2, 3]) (Some [4, 5, 6]) = Inr run_token"
  by (simp add: new_oauth_token_response_ok run_token_def run_base64 Let_def run_code_def fixture_auth_code_record_def)

lemma run_start_eq: "run_start =
        \<lparr>as_api_key = ''cal_test_valid_mock'', as_oauth_client_id = ''mock-oauth-client'',
         as_platform_client_id = ''mock-platform-client'',
         as_platform_client_secret = ''mock-platform-secret'',
         as_api_key_principals = None, as_oauth_clients = None, as_oauth_tokens = None,
         as_platform_clients = None, as_codes = [''mock-oauth-authorization-code'' \<mapsto> run_code], as_tokens = Map.empty,
         as_refresh = Map.empty, as_db = ()\<rparr>"
  by (simp add: run_start_def new_auth_service_def run_config_def Let_def run_code_def fixture_auth_code_record_def)

lemma run_exchanged_eq: "run_exchanged = (Inr run_token, run_start\<lparr>as_codes := Map.empty,
   as_tokens := [''cal_at_AQID'' \<mapsto> \<lparr>at_principal = scoped_oauth_principal fixture_api_key_principal booking_scopes,
     at_expires_at = \<lparr>inst = 1780315200000000000 + hour, zone = 0\<rparr>\<rparr>],
   as_refresh := [''cal_rt_BAUG'' \<mapsto> \<lparr>rt_client_id = ''mock-oauth-client'', rt_access_token = ''cal_at_AQID'',
      rt_principal = fixture_api_key_principal, rt_scopes = booking_scopes,
      rt_expires_at = \<lparr>inst = 1780315200000000000 + oauth_refresh_token_ttl, zone = 0\<rparr>\<rparr>]\<rparr>)"
proof -
  have code: "ac_client_id run_code = ''mock-oauth-client''" "ac_redirect_uri run_code = ''https://fixture.example.test/callback''"
    "ac_expires_at run_code = ''2026-12-31T00:00:00.000Z''" "ac_principal run_code = fixture_api_key_principal"
    "ac_scopes run_code = booking_scopes"
    by (simp_all add: run_code_def fixture_auth_code_record_def fixture_oauth_client_def booking_scopes_def)
  show ?thesis
    by (simp add: run_exchanged_def exchange_oauth_token_def run_trim run_start_eq read_oauth_client_def
      fixture_oauth_client_def exchange_fixture_code_def code run_expires run_time_val
      run_response [unfolded code] before_def utc_def add_ns_def oauth_access_token_ttl_def run_token_def Let_def)
qed

definition run_refresh_request :: token_request where
  "run_refresh_request = \<lparr>tr_grant_type = ''refresh_token'', tr_client_id = ''mock-oauth-client'',
     tr_code = [], tr_redirect_uri = [], tr_refresh_token = ''cal_rt_BAUG''\<rparr>"

definition run_refreshed :: "(auth_error + token_response) \<times> unit auth_service" where
  "run_refreshed = exchange_oauth_token run_refresh_request run_time (Some [4, 5, 6]) (Some [1, 2, 3])
     (snd run_exchanged)"

lemma run_trim_refresh: "trim_token_request run_refresh_request = \<lparr>tr_grant_type = ''refresh_token'', tr_client_id = ''mock-oauth-client'',
     tr_code = [], tr_redirect_uri = [], tr_refresh_token = ''cal_rt_BAUG''\<rparr>"
  by code_simp

definition run_token2 :: token_response where
  "run_token2 = \<lparr>access_token = ''cal_at_BAUG'', refresh_token = ''cal_rt_AQID'',
     token_type = ''Bearer'', expires_in = 3600,
     scope = ''booking:read booking:write booking:host-action''\<rparr>"

lemma run_response2: "new_oauth_token_response booking_scopes (Some [4, 5, 6]) (Some [1, 2, 3]) = Inr run_token2"
  by (simp add: new_oauth_token_response_ok run_token2_def run_base64 booking_scopes_def)

lemma run_refreshed_ok: "fst run_refreshed = Inr run_token2"
  by (simp add: run_refreshed_def exchange_oauth_token_def run_trim_refresh run_exchanged_eq run_start_eq
      read_oauth_client_def fixture_oauth_client_def exchange_fixture_refresh_def run_response2 run_time_val
      before_def utc_def Let_def oauth_refresh_token_ttl_def)

lemma run_exchanged_reach: "auth_reach run_config () (snd run_exchanged)"
  using auth_reach.exchange [OF auth_reach.start, of run_code_request run_time
      "Some [1, 2, 3]" "Some [4, 5, 6]" run_config "()" "fst run_exchanged" "snd run_exchanged"]
  by (simp add: run_exchanged_def run_start_def)

section \<open>What a bearer of a token may do\<close>

text \<open>The authorization header that bears a token.\<close>

definition bearer_header :: "string \<Rightarrow> string" where
  "bearer_header tok = ''Bearer '' @ tok"

lemma bearer_token_header [simp]: "bearer_token (bearer_header tok) = tok"
  by (simp add: bearer_token_def bearer_header_def trim_prefix_def)

lemma new_oauth_token_nonempty:
  "new_oauth_token_response scopes d1 d2 = Inr tok \<Longrightarrow> access_token tok \<noteq> []"
  by (auto simp: new_oauth_token_response_ok)

lemma auth_reach_no_repo: "auth_reach cfg db s \<Longrightarrow> as_oauth_tokens s = None"
  using auth_reach_inv [of cfg db s] by (simp add: grants_inv_def)

lemma scoped_fixture_permissions:
  "set (p_permissions (scoped_oauth_principal fixture_api_key_principal booking_scopes)) =
     {''booking:read'', ''booking:write'', ''booking:host-action''}"
  "p_id (scoped_oauth_principal fixture_api_key_principal booking_scopes) = 123"
  by (auto simp: scoped_oauth_principal_def intersect_strings_def fixture_api_key_principal_def
      booking_scopes_def)

text \<open>
  C34: the fixture authorization code store redeems a code at most once: in any sequence of code
  and refresh exchanges, whatever the requests, the clock and the random draws, at most one
  exchange of a given code succeeds.
\<close>
theorem code_redeemed_once:
  "code_redemptions c ops
     (fst (grant_run exchange_fixture_code exchange_fixture_refresh ops s)) \<le> 1"
  by (rule fixture_grants.code_redeemed_at_most_once)

text \<open>
  C33: no escalation through OAuth: in every state a service without token repository can reach, a
  principal authenticated by an access token is the fixture user, with exactly the booking scopes
  of the authorization code, so never with a permission the code did not carry.
\<close>
theorem oauth_no_escalation:
  assumes "auth_reach cfg db s"
    and "authenticate_oauth_access_token s authorization now = Inr (Some p)"
  shows "p_id p = 123 \<and>
    set (p_permissions p) = {''booking:read'', ''booking:write'', ''booking:host-action''}"
proof -
  from assms(2) auth_reach_no_repo [OF assms(1)] obtain k a
    where "as_tokens s k = Some a" "p = at_principal a"
    by (auto simp: authenticate_oauth_access_token_def authenticate_fixture_token_def Let_def
        split: if_splits option.splits)
  with auth_reach_inv [OF assms(1)] have
    "p = scoped_oauth_principal fixture_api_key_principal booking_scopes"
    by (auto simp: grants_inv_def ran_def)
  then show ?thesis using scoped_fixture_permissions by simp
qed

lemma oauth_no_escalation_witness:
  "\<exists>p. authenticate_oauth_access_token (snd run_exchanged) ''Bearer cal_at_AQID'' run_time =
       Inr (Some p) \<and> p_id p = 123 \<and>
     set (p_permissions p) = {''booking:read'', ''booking:write'', ''booking:host-action''}"
proof -
  have "bearer_token ''Bearer cal_at_AQID'' = ''cal_at_AQID''" by code_simp
  then have "authenticate_oauth_access_token (snd run_exchanged) ''Bearer cal_at_AQID'' run_time =
      Inr (Some (scoped_oauth_principal fixture_api_key_principal booking_scopes))"
    by (simp add: authenticate_oauth_access_token_def authenticate_fixture_token_def run_exchanged_eq
        run_start_eq run_time_val before_def utc_def)
  with oauth_no_escalation [OF run_exchanged_reach this] show ?thesis by blast
qed

text \<open>
  In every reachable state at most one grant can still be exchanged (the seeded code or one
  refresh token), and there is an access token exactly when there is a refresh token.
\<close>
theorem one_live_grant:
  assumes "auth_reach cfg db s"
  shows "card (dom (as_codes s)) + card (dom (as_refresh s)) \<le> 1 \<and>
    card (dom (as_tokens s)) = card (dom (as_refresh s))"
proof -
  have inv: "finite (dom (as_refresh s))"
      "card (dom (as_codes s)) + card (dom (as_refresh s)) \<le> 1"
      "dom (as_tokens s) = rt_access_token ` ran (as_refresh s)"
    using auth_reach_inv [OF assms] by (simp_all add: grants_inv_def)
  show ?thesis
  proof (cases "dom (as_refresh s) = {}")
    case True
    with inv show ?thesis by auto
  next
    case False
    then obtain k where "k \<in> dom (as_refresh s)" by blast
    then obtain r where r: "as_refresh s k = Some r" by blast
    then have "dom (as_refresh s) = {k}"
      using card_sum_le_1_left(1) [of "dom (as_refresh s)" "{}" k] inv by auto
    then have "as_refresh s = [k \<mapsto> r]" using r by (rule dom_singleton_fun)
    with inv show ?thesis by simp
  qed
qed

lemma one_live_grant_witness:
  "card (dom (as_codes (snd run_exchanged))) + card (dom (as_refresh (snd run_exchanged))) \<le> 1 \<and>
   card (dom (as_tokens (snd run_exchanged))) = card (dom (as_refresh (snd run_exchanged)))"
  by (rule one_live_grant [OF run_exchanged_reach])

text \<open>
  The code exchange succeeds exactly when the code is open, client and redirect URI are the
  code's, the code has not expired, and the token generator has random bytes; the response then
  carries the code's scopes.
\<close>
theorem exchange_code_iff:
  "(\<exists>s'. exchange_fixture_code req t d1 d2 s = (Inr tok, s')) \<longleftrightarrow>
   (\<exists>code e b1 b2. as_codes s (tr_code req) = Some code \<and>
      ac_client_id code = tr_client_id req \<and> ac_redirect_uri code = tr_redirect_uri req \<and>
      parse_rfc3339 (ac_expires_at code) = Some e \<and> before t e \<and>
      d1 = Some b1 \<and> d2 = Some b2 \<and>
      tok = \<lparr>access_token = ''cal_at_'' @ base64url b1, refresh_token = ''cal_rt_'' @ base64url b2,
             token_type = ''Bearer'', expires_in = 3600, scope = join (ac_scopes code) '' ''\<rparr>)"
  (is "?l \<longleftrightarrow> ?r")
proof
  assume ?l
  then show ?r
    by (auto elim!: exchange_fixture_code_ok simp: new_oauth_token_response_ok)
next
  assume ?r
  then show ?l
    by (auto simp: exchange_fixture_code_def new_oauth_token_response_def random_oauth_token_def
        oauth_access_token_ttl_def)
qed

lemma exchange_oauth_refresh_ok:
  assumes "exchange_oauth_token req t d1 d2 s = (Inr tok, s')" "as_oauth_tokens s = None"
    "trim_space (tr_grant_type req) = ''refresh_token''"
  shows "exchange_fixture_refresh (trim_token_request req) (utc t) d1 d2 s = (Inr tok, s')"
  using assms
  by (auto simp: exchange_oauth_token_def Let_def trim_token_request_def
      split: sum.splits option.splits if_splits)

text \<open>
  C35: refresh rotation: a successful refresh exchange at \<open>t\<close> closes the refresh token it used and
  the access token issued with it (when the new random tokens differ from the old ones), and the
  new access token authenticates its bearer before \<open>t\<close> plus one hour and never from then on.
\<close>
theorem refresh_rotates:
  assumes "exchange_oauth_token req t d1 d2 s = (Inr tok, s')" and "as_oauth_tokens s = None"
    and "trim_space (tr_grant_type req) = ''refresh_token''"
    and "as_refresh s (trim_space (tr_refresh_token req)) = Some r"
    and "refresh_token tok \<noteq> trim_space (tr_refresh_token req)"
    and "access_token tok \<noteq> rt_access_token r"
  shows "as_refresh s' (trim_space (tr_refresh_token req)) = None \<and>
    (\<forall>now. authenticate_oauth_access_token s' (bearer_header (rt_access_token r)) now = Inr None) \<and>
    (\<forall>now. authenticate_oauth_access_token s' (bearer_header (access_token tok)) now =
       Inr (if inst now < inst t + hour
            then Some (scoped_oauth_principal (rt_principal r) (rt_scopes r)) else None))"
proof -
  have x: "exchange_fixture_refresh (trim_token_request req) (utc t) d1 d2 s = (Inr tok, s')"
    using assms(1-3) by (rule exchange_oauth_refresh_ok)
  have tr: "tr_refresh_token (trim_token_request req) = trim_space (tr_refresh_token req)"
    by (simp add: trim_token_request_def)
  have ne: "access_token tok \<noteq> []"
    using x by (auto elim!: exchange_fixture_refresh_ok dest: new_oauth_token_nonempty)
  show ?thesis
    using x by (rule exchange_fixture_refresh_ok)
      (use assms(2,4-) ne in \<open>simp add: tr Let_def authenticate_oauth_access_token_def
        authenticate_fixture_token_def before_def add_ns_def utc_def oauth_access_token_ttl_def\<close>)
qed

lemma refresh_rotates_witness:
  "\<exists>old. as_refresh (snd run_exchanged) ''cal_rt_BAUG'' = Some old \<and>
     as_refresh (snd run_refreshed) ''cal_rt_BAUG'' = None \<and>
     authenticate_oauth_access_token (snd run_refreshed) (bearer_header ''cal_at_AQID'') run_time = Inr None \<and>
     authenticate_oauth_access_token (snd run_refreshed) (bearer_header ''cal_at_BAUG'') run_time =
       Inr (Some (scoped_oauth_principal (rt_principal old) (rt_scopes old)))"
proof -
  let ?old = "\<lparr>rt_client_id = ''mock-oauth-client'', rt_access_token = ''cal_at_AQID'',
      rt_principal = fixture_api_key_principal, rt_scopes = booking_scopes,
      rt_expires_at = \<lparr>inst = 1780315200000000000 + oauth_refresh_token_ttl, zone = 0\<rparr>\<rparr>"
  have x: "exchange_oauth_token run_refresh_request run_time (Some [4, 5, 6]) (Some [1, 2, 3])
      (snd run_exchanged) = (Inr run_token2, snd run_refreshed)"
    using run_refreshed_ok by (metis run_refreshed_def prod.collapse)
  have trim: "trim_space (tr_grant_type run_refresh_request) = ''refresh_token''"
      "trim_space (tr_refresh_token run_refresh_request) = ''cal_rt_BAUG''"
    by code_simp+
  have old: "as_refresh (snd run_exchanged) ''cal_rt_BAUG'' = Some ?old"
    by (simp add: run_exchanged_eq)
  have "as_oauth_tokens (snd run_exchanged) = None"
    by (simp add: run_exchanged_eq run_start_eq)
  from refresh_rotates [OF x this trim(1), unfolded trim(2), OF old] old show ?thesis
    by (simp add: run_token2_def)
qed

section \<open>API keys and platform clients\<close>

text \<open>
  Without an API-key repository, a request authenticates exactly when it bears the configured
  key (as the fixture user) or the wrong-owner test key (as user 999); an empty or malformed
  authorization header never authenticates. \<open>sha\<close> must tell the bearer token from the two keys.
\<close>
theorem api_key_principals:
  assumes "as_api_key_principals s = None"
    and "sha (bearer_token auth) = sha (as_api_key s) \<Longrightarrow> bearer_token auth = as_api_key s"
    and "sha (bearer_token auth) = sha fixture_wrong_owner_api_key \<Longrightarrow>
      bearer_token auth = fixture_wrong_owner_api_key"
  shows "authenticate_api_key sha s auth =
    (if bearer_token auth = [] then Inr None
     else if bearer_token auth = as_api_key s then Inr (Some fixture_api_key_principal)
     else if bearer_token auth = fixture_wrong_owner_api_key
          then Inr (Some fixture_wrong_owner_api_key_principal)
     else Inr None)"
  using assms
  by (simp add: authenticate_api_key_def secure_equal_def Let_def)
     (auto simp: fixture_wrong_owner_api_key_def)

text \<open>
  A platform client is verified only when the path and header client ids agree and are not
  empty and the secret is not empty; with a repository, the secret's digest is the stored one,
  which is 64 lower-case hexadecimal digits.
\<close>
theorem platform_client_verified:
  assumes "verify_platform_client sha s path_id header_id secret = Inr (Some c)"
  shows "path_id \<noteq> [] \<and> header_id = path_id \<and> secret \<noteq> [] \<and>
    (case as_platform_clients s of
       None \<Rightarrow> path_id = as_platform_client_id s \<and> sha secret = sha (as_platform_client_secret s) \<and>
         c = fixture_platform_client path_id
     | Some read \<Rightarrow> \<exists>r. read path_id (as_db s) = Inr (Some r) \<and> c = pcr_client r \<and>
         pcr_secret_sha256 r = sha secret \<and> is_sha256_hex (sha secret))"
  using assms
  by (auto simp: verify_platform_client_def secure_equal_def matches_sha256_hex_def Let_def
      split: if_splits option.splits sum.splits)

lemma api_key_principals_witness:
  "authenticate_api_key (\<lambda>x. x) run_start ''Bearer cal_test_valid_mock'' =
    Inr (Some fixture_api_key_principal) \<and>
   authenticate_api_key (\<lambda>x. x) run_start ''Bearer cal_test_wrong_owner_mock'' =
    Inr (Some fixture_wrong_owner_api_key_principal)"
proof -
  have "bearer_token ''Bearer cal_test_valid_mock'' = ''cal_test_valid_mock''"
    "bearer_token ''Bearer cal_test_wrong_owner_mock'' = ''cal_test_wrong_owner_mock''"
    by code_simp+
  then show ?thesis
    using api_key_principals [of run_start "\<lambda>x. x" "''Bearer cal_test_valid_mock''"]
      api_key_principals [of run_start "\<lambda>x. x" "''Bearer cal_test_wrong_owner_mock''"]
    by (simp add: run_start_eq fixture_wrong_owner_api_key_def)
qed

lemma platform_client_verified_witness:
  "''mock-platform-client'' \<noteq> [] \<and> ''mock-platform-secret'' \<noteq> [] \<and>
   verify_platform_client (\<lambda>x. x) run_start ''mock-platform-client'' ''mock-platform-client''
     ''mock-platform-secret'' = Inr (Some (fixture_platform_client ''mock-platform-client''))"
proof -
  have v: "verify_platform_client (\<lambda>x. x) run_start ''mock-platform-client'' ''mock-platform-client''
     ''mock-platform-secret'' = Inr (Some (fixture_platform_client ''mock-platform-client''))"
    by (simp add: verify_platform_client_def run_start_eq secure_equal_def)
  from platform_client_verified [OF v] v show ?thesis by blast
qed

end
