(* ===== verification/Postgres.thy ===== *)
theory Postgres
  imports GoTime
begin

text \<open>
  What the Postgres repositories share: the range of an \<open>integer\<close> column, the microseconds to which
  \<open>pgx\<close> truncates a time, and transactions.
\<close>

definition pg_instant :: "gotime \<Rightarrow> int" where
  "pg_instant t = inst t div 1000 * 1000"

definition fits_int4 :: "int \<Rightarrow> bool" where
  "fits_int4 n \<longleftrightarrow> - (2 ^ 31) \<le> n \<and> n < 2 ^ 31"

lemma pg_instant_bounds: "pg_instant t \<le> inst t" "inst t < pg_instant t + 1000"
  unfolding pg_instant_def by linarith+

lemma pg_instant_whole [simp]: "inst t mod 1000 = 0 \<Longrightarrow> pg_instant t = inst t"
  by (simp add: pg_instant_def mod_eq_0_iff_dvd)

text \<open>A transaction keeps nothing of a handler that fails.\<close>

definition with_tx :: "('s, 'e, 'a) handler \<Rightarrow> ('s, 'e, 'a) handler" where
  "with_tx h db = (case h db of (Inl e, _) \<Rightarrow> (Inl e, db) | (Inr x, db') \<Rightarrow> (Inr x, db'))"

lemma with_tx_ok: "with_tx h db = (Inr x, db') \<longleftrightarrow> h db = (Inr x, db')"
  by (auto simp: with_tx_def split: prod.splits sum.splits)

lemma with_tx_err: "with_tx h db = (Inl e, db') \<longleftrightarrow> db' = db \<and> (\<exists>db1. h db = (Inl e, db1))"
  by (auto simp: with_tx_def split: prod.splits sum.splits)

lemma reading_ok: "reading f db = (Inr y, db') \<longleftrightarrow> f db db = (Inr y, db')"
  by (simp add: reading_def)

lemma reading_err: "reading f db = (Inl e, db') \<longleftrightarrow> f db db = (Inl e, db')"
  by (simp add: reading_def)

end
