(* ===== verification/AuthRepo.thy ===== *)
theory AuthRepo
  imports AuthGrants Postgres
begin

text \<open>
  The Postgres repository of the auth service (\<open>internal/auth/postgres_repository.go\<close>): the tables of
  the migrations \<open>0002\<close> to \<open>0004\<close> and \<open>0022\<close> with their keys and checks. A statement fails by violating a
  constraint only, and a transaction that fails leaves the tables alone. Tokens are stored as their
  digest, the parameter \<open>sha\<close>, whose result has the form that the tables check.
\<close>

section \<open>The tables\<close>

text \<open>Times are instants in nanoseconds, as in \<^typ>\<open>gotime\<close>.\<close>

record api_key_row =
  kr_user_id :: int
  kr_user_uuid :: string
  kr_type :: string
  kr_username :: string
  kr_email :: string
  kr_permissions :: "string list"
  kr_created_at :: int
  kr_updated_at :: int

record oauth_client_row =
  cw_name :: string
  cw_redirect_uris :: "string list"
  cw_created_at :: int
  cw_updated_at :: int

record platform_client_row =
  pw_secret :: string
  pw_name :: string
  pw_organization_id :: int
  pw_permissions :: "string list"
  pw_policy_permissions :: "string list"
  pw_created_at :: int
  pw_updated_at :: int

text \<open>The columns that a code and a token have of their principal.\<close>

record grant_owner =
  go_user_id :: int
  go_user_uuid :: string
  go_type :: string
  go_username :: string
  go_email :: string
  go_permissions :: "string list"

record code_row =
  xw_client_id :: string
  xw_redirect_uri :: string
  xw_owner :: grant_owner
  xw_scopes :: "string list"
  xw_expires_at :: int
  xw_created_at :: int
  xw_consumed_at :: "int option"

record token_row =
  tw_access :: string
  tw_refresh :: string
  tw_client_id :: string
  tw_owner :: grant_owner
  tw_scopes :: "string list"
  tw_access_expires_at :: int
  tw_refresh_expires_at :: int
  tw_revoked_at :: "int option"
  tw_created_at :: int
  tw_updated_at :: int

text \<open>The tables with a primary key of text are maps from the key, at one instant \<open>now()\<close>.\<close>

record auth_db =
  ab_now :: int
  ab_api_keys :: "api_key_row gomap"
  ab_clients :: "oauth_client_row gomap"
  ab_platform_clients :: "platform_client_row gomap"
  ab_codes :: "code_row gomap"
  ab_tokens :: "token_row list"

type_synonym 'a auth_handler = "(auth_db, auth_error, 'a) handler"

definition parse_wire_time :: "string \<Rightarrow> auth_error + gotime" where
  "parse_wire_time s = (case parse_rfc3339 s of None \<Rightarrow> Inl ErrParseTime | Some t \<Rightarrow> Inr t)"

definition format_wire_time :: "int \<Rightarrow> string" where
  "format_wire_time i = wire_format \<lparr>inst = i, zone = 0\<rparr>"

definition parsed :: "string \<Rightarrow> gotime auth_handler" where
  "parsed s = lift_result (parse_wire_time s)"

section \<open>API keys\<close>

definition pg_read_api_key :: "(string \<Rightarrow> string) \<Rightarrow> string \<Rightarrow> auth_db \<Rightarrow> auth_error + principal option" where
  "pg_read_api_key sha token db =
     (if token = [] then Inr None
      else Inr (map_option (\<lambda>w. \<lparr>p_id = kr_user_id w, p_uuid = kr_user_uuid w, p_type = kr_type w,
          p_username = kr_username w, p_email = kr_email w, p_permissions = kr_permissions w,
          p_created_at = format_wire_time (kr_created_at w), p_updated_at = format_wire_time (kr_updated_at w)\<rparr>)
        (gm_get (ab_api_keys db) (sha token))))"

definition pg_save_api_key :: "(string \<Rightarrow> string) \<Rightarrow> string \<Rightarrow> principal \<Rightarrow> unit auth_handler" where
  "pg_save_api_key sha token p =
     and_then (check (token \<noteq> []) (ErrAuthRepository ''empty api key'')) (\<lambda>_.
     and_then (parsed (p_created_at p)) (\<lambda>created_at.
     and_then (parsed (p_updated_at p)) (\<lambda>updated_at.
     and_then (check (fits_int4 (p_id p)) (ErrAuthRepository ''save api key principal'')) (\<lambda>_ db.
     (Inr (), db\<lparr>ab_api_keys := gm_put (sha token)
        \<lparr>kr_user_id = p_id p, kr_user_uuid = p_uuid p, kr_type = p_type p, kr_username = p_username p,
         kr_email = p_email p, kr_permissions = p_permissions p, kr_created_at = pg_instant created_at,
         kr_updated_at = pg_instant updated_at\<rparr> (ab_api_keys db)\<rparr>)))))"

section \<open>OAuth clients\<close>

definition pg_read_oauth_client :: "string \<Rightarrow> auth_db \<Rightarrow> auth_error + oauth_client option" where
  "pg_read_oauth_client client_id db =
     (if client_id = [] then Inr None
      else Inr (map_option (\<lambda>w. \<lparr>oc_client_id = client_id, oc_name = cw_name w,
          oc_redirect_uris = cw_redirect_uris w, oc_created_at = format_wire_time (cw_created_at w),
          oc_updated_at = format_wire_time (cw_updated_at w)\<rparr>)
        (gm_get (ab_clients db) client_id)))"

definition pg_save_oauth_client :: "oauth_client \<Rightarrow> unit auth_handler" where
  "pg_save_oauth_client c =
     and_then (check (oc_client_id c \<noteq> []) (ErrAuthRepository ''empty oauth client id'')) (\<lambda>_.
     and_then (parsed (oc_created_at c)) (\<lambda>created_at.
     and_then (parsed (oc_updated_at c)) (\<lambda>updated_at.
     and_then (check (oc_name c \<noteq> []) (ErrAuthRepository ''save oauth client'')) (\<lambda>_ db.
     (Inr (), db\<lparr>ab_clients := gm_put (oc_client_id c)
        \<lparr>cw_name = oc_name c, cw_redirect_uris = oc_redirect_uris c, cw_created_at = pg_instant created_at,
         cw_updated_at = pg_instant updated_at\<rparr> (ab_clients db)\<rparr>)))))"

section \<open>Authorization codes and tokens\<close>

definition grant_owner_of :: "principal \<Rightarrow> grant_owner" where
  "grant_owner_of p = \<lparr>go_user_id = p_id p, go_user_uuid = p_uuid p, go_type = p_type p,
     go_username = p_username p, go_email = p_email p, go_permissions = p_permissions p\<rparr>"

definition client_known :: "string \<Rightarrow> auth_db \<Rightarrow> bool" where
  "client_known client_id db \<longleftrightarrow> gm_get (ab_clients db) client_id \<noteq> None"

text \<open>On a conflict every column is overwritten, also \<open>consumed_at\<close>.\<close>

definition pg_save_code :: "(string \<Rightarrow> string) \<Rightarrow> auth_code \<Rightarrow> unit auth_handler" where
  "pg_save_code sha c =
     and_then (check (ac_code c \<noteq> []) (ErrAuthRepository ''empty oauth authorization code'')) (\<lambda>_.
     and_then (check (ac_client_id c \<noteq> []) (ErrAuthRepository ''empty oauth client id'')) (\<lambda>_.
     and_then (check (\<not> (ac_redirect_uri c = [] \<or> p_id (ac_principal c) = 0 \<or> p_uuid (ac_principal c) = [] \<or>
         p_type (ac_principal c) = [])) ErrInvalidOAuthTokenRequest) (\<lambda>_.
     and_then (parsed (ac_expires_at c)) (\<lambda>expires_at.
     and_then (parsed (ac_created_at c)) (\<lambda>created_at.
     reading (\<lambda>db.
     and_then (check (client_known (ac_client_id c) db \<and> fits_int4 (p_id (ac_principal c)))
       (ErrAuthRepository ''save oauth authorization code'')) (\<lambda>_ db.
     (Inr (), db\<lparr>ab_codes := gm_put (sha (ac_code c))
        \<lparr>xw_client_id = ac_client_id c, xw_redirect_uri = ac_redirect_uri c,
         xw_owner = grant_owner_of (ac_principal c), xw_scopes = ac_scopes c,
         xw_expires_at = pg_instant expires_at, xw_created_at = pg_instant created_at,
         xw_consumed_at = None\<rparr> (ab_codes db)\<rparr>))))))))"

definition insert_token_row :: "string \<Rightarrow> token_row \<Rightarrow> unit auth_handler" where
  "insert_token_row failure w db =
     (if list_ex (\<lambda>v. tw_access v = tw_access w \<or> tw_refresh v = tw_refresh w) (ab_tokens db) \<or>
         \<not> client_known (tw_client_id w) db
      then (Inl (ErrAuthRepository failure), db)
      else (Inr (), db\<lparr>ab_tokens := ab_tokens db @ [w]\<rparr>))"

definition issued_row ::
    "(string \<Rightarrow> string) \<Rightarrow> token_response \<Rightarrow> string \<Rightarrow> grant_owner \<Rightarrow> string list \<Rightarrow> gotime \<Rightarrow> int \<Rightarrow> token_row" where
  "issued_row sha token client_id owner scopes issued_at now =
     \<lparr>tw_access = sha (access_token token), tw_refresh = sha (refresh_token token), tw_client_id = client_id,
      tw_owner = owner, tw_scopes = scopes,
      tw_access_expires_at = pg_instant (add_ns issued_at oauth_access_token_ttl),
      tw_refresh_expires_at = pg_instant (add_ns issued_at oauth_refresh_token_ttl),
      tw_revoked_at = None, tw_created_at = now, tw_updated_at = now\<rparr>"

definition read_code_tx :: "(string \<Rightarrow> string) \<Rightarrow> string \<Rightarrow> code_row auth_handler" where
  "read_code_tx sha code =
     (if code = [] then fail_with ErrInvalidOAuthGrant
      else reading (\<lambda>db. demand (gm_get (ab_codes db) (sha code)) ErrInvalidOAuthGrant))"

definition read_refresh_tx :: "(string \<Rightarrow> string) \<Rightarrow> string \<Rightarrow> token_row auth_handler" where
  "read_refresh_tx sha token =
     (if token = [] then fail_with ErrInvalidOAuthGrant
      else reading (\<lambda>db. demand (find (\<lambda>w. tw_refresh w = sha token) (ab_tokens db)) ErrInvalidOAuthGrant))"

definition consume_code_row :: "string \<Rightarrow> gotime \<Rightarrow> unit auth_handler" where
  "consume_code_row key issued_at db =
     (Inr (), case gm_get (ab_codes db) key of
        None \<Rightarrow> db
      | Some w \<Rightarrow> if xw_consumed_at w = None
          then db\<lparr>ab_codes := gm_put key (w\<lparr>xw_consumed_at := Some (pg_instant issued_at)\<rparr>) (ab_codes db)\<rparr> else db)"

definition pg_exchange_code ::
    "(string \<Rightarrow> string) \<Rightarrow> token_request \<Rightarrow> gotime \<Rightarrow> draw \<Rightarrow> draw \<Rightarrow> token_response auth_handler" where
  "pg_exchange_code sha req issued_at d1 d2 = with_tx
     (and_then (read_code_tx sha (tr_code req)) (\<lambda>code.
      and_then (check (\<not> (xw_client_id code \<noteq> tr_client_id req \<or> xw_redirect_uri code \<noteq> tr_redirect_uri req))
        ErrInvalidOAuthGrant) (\<lambda>_.
      and_then (check (xw_consumed_at code = None) ErrOAuthGrantConsumed) (\<lambda>_.
      and_then (check (inst issued_at < xw_expires_at code) ErrOAuthGrantExpired) (\<lambda>_.
      and_then (lift_result (new_oauth_token_response (xw_scopes code) d1 d2)) (\<lambda>token.
      and_then (consume_code_row (sha (tr_code req)) issued_at) (\<lambda>_.
      reading (\<lambda>db.
      and_then (insert_token_row ''persist oauth token hashes''
        (issued_row sha token (xw_client_id code) (xw_owner code) (xw_scopes code) issued_at (ab_now db))) (\<lambda>_.
      return_ok token)))))))))"

definition revoke_row :: "string \<Rightarrow> gotime \<Rightarrow> unit auth_handler" where
  "revoke_row key issued_at db =
     (Inr (), db\<lparr>ab_tokens := map (\<lambda>w. if tw_refresh w = key \<and> tw_revoked_at w = None
        then w\<lparr>tw_revoked_at := Some (pg_instant issued_at), tw_updated_at := ab_now db\<rparr> else w) (ab_tokens db)\<rparr>)"

definition pg_exchange_refresh ::
    "(string \<Rightarrow> string) \<Rightarrow> token_request \<Rightarrow> gotime \<Rightarrow> draw \<Rightarrow> draw \<Rightarrow> token_response auth_handler" where
  "pg_exchange_refresh sha req issued_at d1 d2 = with_tx
     (and_then (read_refresh_tx sha (tr_refresh_token req)) (\<lambda>r.
      and_then (check (\<not> tw_client_id r \<noteq> tr_client_id req) ErrInvalidOAuthGrant) (\<lambda>_.
      and_then (check (tw_revoked_at r = None) ErrOAuthGrantConsumed) (\<lambda>_.
      and_then (check (inst issued_at < tw_refresh_expires_at r) ErrOAuthGrantExpired) (\<lambda>_.
      and_then (lift_result (new_oauth_token_response (tw_scopes r) d1 d2)) (\<lambda>token.
      and_then (revoke_row (sha (tr_refresh_token req)) issued_at) (\<lambda>_.
      reading (\<lambda>db.
      and_then (insert_token_row ''persist rotated oauth token hashes''
        (issued_row sha token (tw_client_id r) (tw_owner r) (tw_scopes r) issued_at (ab_now db))) (\<lambda>_.
      return_ok token)))))))))"

definition pg_read_access_token ::
    "(string \<Rightarrow> string) \<Rightarrow> string \<Rightarrow> gotime \<Rightarrow> auth_db \<Rightarrow> auth_error + principal option" where
  "pg_read_access_token sha token now db =
     (if token = [] then Inr None
      else Inr (map_option (\<lambda>w. \<lparr>p_id = go_user_id (tw_owner w), p_uuid = go_user_uuid (tw_owner w),
          p_type = go_type (tw_owner w), p_username = go_username (tw_owner w), p_email = go_email (tw_owner w),
          p_permissions = intersect_strings (go_permissions (tw_owner w)) (tw_scopes w),
          p_created_at = format_wire_time (tw_created_at w), p_updated_at = format_wire_time (tw_updated_at w)\<rparr>)
        (find (\<lambda>w. tw_access w = sha token \<and> pg_instant now < tw_access_expires_at w \<and> tw_revoked_at w = None)
          (ab_tokens db))))"

section \<open>Platform clients\<close>

definition pg_read_platform_client :: "string \<Rightarrow> auth_db \<Rightarrow> auth_error + platform_client_record option" where
  "pg_read_platform_client client_id db =
     (if client_id = [] then Inr None
      else Inr (map_option (\<lambda>w. \<lparr>pcr_client = \<lparr>pc_id = client_id, pc_name = pw_name w,
            pc_organization_id = pw_organization_id w, pc_permissions = pw_permissions w,
            pc_policy_permissions = pw_policy_permissions w, pc_created_at = format_wire_time (pw_created_at w),
            pc_updated_at = format_wire_time (pw_updated_at w)\<rparr>,
          pcr_secret_sha256 = pw_secret w\<rparr>)
        (gm_get (ab_platform_clients db) client_id)))"

definition pg_save_platform_client :: "(string \<Rightarrow> string) \<Rightarrow> string \<Rightarrow> platform_client \<Rightarrow> unit auth_handler" where
  "pg_save_platform_client sha secret c =
     and_then (check (pc_id c \<noteq> []) (ErrAuthRepository ''empty platform client id'')) (\<lambda>_.
     and_then (check (secret \<noteq> []) (ErrAuthRepository ''empty platform client secret'')) (\<lambda>_.
     and_then (parsed (pc_created_at c)) (\<lambda>created_at.
     and_then (parsed (pc_updated_at c)) (\<lambda>updated_at.
     and_then (check (pc_name c \<noteq> [] \<and> fits_int4 (pc_organization_id c)) (ErrAuthRepository ''save platform client'')) (\<lambda>_ db.
     (Inr (), db\<lparr>ab_platform_clients := gm_put (pc_id c)
        \<lparr>pw_secret = sha secret, pw_name = pc_name c, pw_organization_id = pc_organization_id c,
         pw_permissions = pc_permissions c, pw_policy_permissions = pc_policy_permissions c,
         pw_created_at = pg_instant created_at, pw_updated_at = pg_instant updated_at\<rparr> (ab_platform_clients db)\<rparr>))))))"

text \<open>The repository as the service uses it.\<close>

definition pg_oauth_repository :: "(string \<Rightarrow> string) \<Rightarrow> auth_db oauth_repository" where
  "pg_oauth_repository sha = \<lparr>or_exchange_code = pg_exchange_code sha, or_exchange_refresh = pg_exchange_refresh sha,
     or_read_access = pg_read_access_token sha\<rparr>"

definition pg_auth_service :: "(string \<Rightarrow> string) \<Rightarrow> auth_config \<Rightarrow> auth_db \<Rightarrow> auth_db auth_service" where
  "pg_auth_service sha cfg db = (new_auth_service cfg db)
     \<lparr>as_api_key_principals := Some (pg_read_api_key sha), as_oauth_clients := Some pg_read_oauth_client,
      as_oauth_tokens := Some (pg_oauth_repository sha), as_platform_clients := Some pg_read_platform_client\<rparr>"

end
