(* ===== verification/AuthTables.thy ===== *)
theory AuthTables
  imports AuthRepo
begin

text \<open>
  Correctness of the auth service's Postgres repository: the code and token tables keep the contract
  of a one-time grant store (\<open>one_time_grants\<close>), as the maps of the in-memory service do, the token
  table keeps its keys, and a refresh rotates the tokens.
\<close>

section \<open>What a successful exchange did\<close>

definition consume_row :: "string \<Rightarrow> gotime \<Rightarrow> code_row \<Rightarrow> auth_db \<Rightarrow> auth_db" where
  "consume_row key t w db =
     db\<lparr>ab_codes := gm_put key (w\<lparr>xw_consumed_at := Some (pg_instant t)\<rparr>) (ab_codes db)\<rparr>"

definition revoke_key :: "string \<Rightarrow> gotime \<Rightarrow> auth_db \<Rightarrow> token_row \<Rightarrow> token_row" where
  "revoke_key key t db w = (if tw_refresh w = key \<and> tw_revoked_at w = None
     then w\<lparr>tw_revoked_at := Some (pg_instant t), tw_updated_at := ab_now db\<rparr> else w)"

definition tokens_keyed :: "auth_db \<Rightarrow> bool" where
  "tokens_keyed db \<longleftrightarrow> distinct (map tw_access (ab_tokens db)) \<and> distinct (map tw_refresh (ab_tokens db))"

lemma insert_token_row_ok:
  "insert_token_row failure w db = (Inr u, db') \<longleftrightarrow>
     (\<forall>v \<in> set (ab_tokens db). tw_access v \<noteq> tw_access w \<and> tw_refresh v \<noteq> tw_refresh w) \<and>
     client_known (tw_client_id w) db \<and> db' = db\<lparr>ab_tokens := ab_tokens db @ [w]\<rparr>"
  by (auto simp: insert_token_row_def list_ex_iff)

lemma read_refresh_tx_ok:
  "read_refresh_tx sha token db = (Inr w, db') \<longleftrightarrow>
     token \<noteq> [] \<and> find (\<lambda>w. tw_refresh w = sha token) (ab_tokens db) = Some w \<and> db' = db"
  by (auto simp: read_refresh_tx_def reading_def handler_ok)

lemma read_code_tx_ok:
  "read_code_tx sha code db = (Inr w, db') \<longleftrightarrow>
     code \<noteq> [] \<and> gm_get (ab_codes db) (sha code) = Some w \<and> db' = db"
  by (auto simp: read_code_tx_def reading_def handler_ok)

lemma pg_exchange_code_ok:
  assumes "pg_exchange_code sha req t d1 d2 db = (Inr tok, db')"
  obtains w db1 n where
    "tr_code req \<noteq> []" "gm_get (ab_codes db) (sha (tr_code req)) = Some w" "xw_consumed_at w = None"
    "xw_client_id w = tr_client_id req" "inst t < xw_expires_at w"
    "new_oauth_token_response (xw_scopes w) d1 d2 = Inr tok" "db1 = consume_row (sha (tr_code req)) t w db"
    "insert_token_row n (issued_row sha tok (xw_client_id w) (xw_owner w) (xw_scopes w) t (ab_now db1)) db1
       = (Inr (), db')"
  using assms
  by (auto simp: pg_exchange_code_def with_tx_ok handler_ok reading_ok read_code_tx_ok consume_code_row_def
      consume_row_def)

lemma pg_exchange_refresh_ok:
  assumes "pg_exchange_refresh sha req t d1 d2 db = (Inr tok, db')"
  obtains w db1 n where
    "tr_refresh_token req \<noteq> []" "find (\<lambda>w. tw_refresh w = sha (tr_refresh_token req)) (ab_tokens db) = Some w"
    "tw_client_id w = tr_client_id req" "tw_revoked_at w = None" "inst t < tw_refresh_expires_at w"
    "new_oauth_token_response (tw_scopes w) d1 d2 = Inr tok"
    "db1 = db\<lparr>ab_tokens := map (revoke_key (sha (tr_refresh_token req)) t db) (ab_tokens db)\<rparr>"
    "insert_token_row n (issued_row sha tok (tw_client_id w) (tw_owner w) (tw_scopes w) t (ab_now db1)) db1
       = (Inr (), db')"
  using assms
  by (auto simp: pg_exchange_refresh_def with_tx_ok handler_ok reading_ok read_refresh_tx_ok revoke_row_def
      revoke_key_def [abs_def])

lemma pg_exchange_code_fails: "pg_exchange_code sha req t d1 d2 db = (Inl e, db') \<Longrightarrow> db' = db"
  by (simp add: pg_exchange_code_def with_tx_err)

lemma pg_exchange_refresh_fails: "pg_exchange_refresh sha req t d1 d2 db = (Inl e, db') \<Longrightarrow> db' = db"
  by (simp add: pg_exchange_refresh_def with_tx_err)

section \<open>One-time grants\<close>

definition open_codes :: "(string \<Rightarrow> string) \<Rightarrow> auth_db \<Rightarrow> string set" where
  "open_codes sha db =
     {c. \<exists>w. gm_get (ab_codes db) (sha c) = Some w \<and> xw_consumed_at w = None}"

definition open_refresh :: "(string \<Rightarrow> string) \<Rightarrow> auth_db \<Rightarrow> string set" where
  "open_refresh sha db = {r. \<exists>w \<in> set (ab_tokens db). tw_refresh w = sha r \<and> tw_revoked_at w = None}"

lemma find_member: "find P xs = Some x \<Longrightarrow> x \<in> set xs \<and> P x"
  by (auto simp: find_Some_iff)

lemma revoke_key_keys [simp]:
  "tw_access (revoke_key key t db w) = tw_access w" "tw_refresh (revoke_key key t db w) = tw_refresh w"
  by (simp_all add: revoke_key_def)

lemma pg_code_closes:
  "pg_exchange_code sha req t d1 d2 db = (Inr tok, db') \<Longrightarrow>
     tr_code req \<in> open_codes sha db \<and> open_codes sha db' \<subseteq> open_codes sha db - {tr_code req}"
  by (erule pg_exchange_code_ok)
    (auto simp: insert_token_row_ok open_codes_def consume_row_def split: if_splits)

lemma pg_refresh_keeps_codes:
  "pg_exchange_refresh sha req t d1 d2 db = (Inr tok, db') \<Longrightarrow> open_codes sha db' = open_codes sha db"
  by (erule pg_exchange_refresh_ok) (auto simp: insert_token_row_ok open_codes_def)

lemma pg_refresh_open:
  "pg_exchange_refresh sha req t d1 d2 db = (Inr tok, db') \<Longrightarrow> tr_refresh_token req \<in> open_refresh sha db"
  by (erule pg_exchange_refresh_ok) (auto simp: open_refresh_def dest!: find_member)

lemma pg_refresh_closes:
  assumes "pg_exchange_refresh sha req t d1 d2 db = (Inr tok, db')"
  shows "tr_refresh_token req \<notin> open_refresh sha db'"
  using assms
proof (cases rule: pg_exchange_refresh_ok)
  case (1 w db1 n)
  then have "sha (refresh_token tok) \<noteq> sha (tr_refresh_token req)"
    by (auto simp: insert_token_row_ok issued_row_def dest!: find_member)
  with 1(7,8) show ?thesis
    by (auto simp: insert_token_row_ok open_refresh_def issued_row_def revoke_key_def split: if_splits)
qed

interpretation pg_grants: one_time_grants "pg_exchange_code sha" "pg_exchange_refresh sha"
  "open_codes sha" "open_refresh sha"
proof unfold_locales
  fix req t d1 d2 db tok db' res
  show "tr_code req \<in> open_codes sha db" "open_codes sha db' \<subseteq> open_codes sha db - {tr_code req}"
    if "pg_exchange_code sha req t d1 d2 db = (Inr tok, db')"
    using pg_code_closes [OF that] by auto
  show "open_codes sha db' \<subseteq> open_codes sha db" if "pg_exchange_code sha req t d1 d2 db = (res, db')"
    using that by (cases res) (auto dest!: pg_exchange_code_fails pg_code_closes)
  show "tr_refresh_token req \<in> open_refresh sha db"
    if "pg_exchange_refresh sha req t d1 d2 db = (Inr tok, db')"
    using that by (rule pg_refresh_open)
  show "tr_refresh_token req \<notin> open_refresh sha db'"
    if "pg_exchange_refresh sha req t d1 d2 db = (Inr tok, db')" "refresh_token tok \<noteq> tr_refresh_token req"
    using that(1) by (rule pg_refresh_closes)
  show "open_codes sha db' \<subseteq> open_codes sha db" if "pg_exchange_refresh sha req t d1 d2 db = (res, db')"
    using that by (cases res) (auto dest!: pg_exchange_refresh_fails pg_refresh_keeps_codes)
qed

text \<open>
  C31: Over Postgres an authorization code is redeemed at most once, however redemptions and refreshes
  are interleaved, at whatever times, with whatever random bytes and whatever the tables hold.
\<close>
theorem pg_code_redeemed_once:
  "code_redemptions c ops (fst (grant_run (pg_exchange_code sha) (pg_exchange_refresh sha) ops db)) \<le> 1"
  by (rule pg_grants.code_redeemed_at_most_once)

section \<open>Rotation\<close>

lemma tokens_keyed_insert:
  "insert_token_row n w db = (Inr u, db') \<Longrightarrow> tokens_keyed db \<Longrightarrow> tokens_keyed db'"
  by (auto simp: insert_token_row_ok tokens_keyed_def)

lemma consume_keyed: "tokens_keyed (consume_row key t w db) = tokens_keyed db"
  by (simp add: tokens_keyed_def consume_row_def)

lemma tokens_keyed_code:
  assumes "pg_exchange_code sha req t d1 d2 db = (res, db')" "tokens_keyed db"
  shows "tokens_keyed db'"
proof (cases res)
  case (Inl e)
  with assms show ?thesis by (auto dest: pg_exchange_code_fails)
next
  case (Inr tok)
  with assms(1) have "pg_exchange_code sha req t d1 d2 db = (Inr tok, db')" by simp
  then show ?thesis
    using assms(2)
    by (cases rule: pg_exchange_code_ok)
      (auto elim!: tokens_keyed_insert simp: consume_keyed)
qed

lemma tokens_keyed_refresh:
  assumes "pg_exchange_refresh sha req t d1 d2 db = (res, db')" "tokens_keyed db"
  shows "tokens_keyed db'"
proof (cases res)
  case (Inl e)
  with assms show ?thesis by (auto dest: pg_exchange_refresh_fails)
next
  case (Inr tok)
  with assms(1) have "pg_exchange_refresh sha req t d1 d2 db = (Inr tok, db')" by simp
  then show ?thesis
  proof (cases rule: pg_exchange_refresh_ok)
    case (1 w db1 n)
    from 1(7) assms(2) have "tokens_keyed db1" by (simp add: tokens_keyed_def comp_def)
    with 1(8) show ?thesis by (rule tokens_keyed_insert)
  qed
qed

lemma find_none_before: "(\<forall>x \<in> set xs. \<not> P x) \<Longrightarrow> find P (xs @ [y]) = (if P y then Some y else None)"
  by (induction xs) auto

lemma distinct_map_same: "distinct (map f xs) \<Longrightarrow> x \<in> set xs \<Longrightarrow> y \<in> set xs \<Longrightarrow> f x = f y \<Longrightarrow> x = y"
  by (auto simp: distinct_map inj_on_def)

text \<open>The access token of a row that has been refreshed.\<close>

lemma revoked_access_refused:
  assumes keyed: "tokens_keyed db" and w: "w \<in> set (ab_tokens db)" "tw_revoked_at w \<noteq> None"
    and a: "sha a = tw_access w"
  shows "pg_read_access_token sha a t db = Inr None"
proof -
  have "v = w" if "v \<in> set (ab_tokens db)" "tw_access v = sha a" for v
    using keyed that w(1) a distinct_map_same [of tw_access "ab_tokens db" v w] by (simp add: tokens_keyed_def)
  with w(2) have "find (\<lambda>w. tw_access w = sha a \<and> pg_instant t < tw_access_expires_at w \<and> tw_revoked_at w = None)
    (ab_tokens db) = None"
    by (auto simp: find_None_iff)
  then show ?thesis by (simp add: pg_read_access_token_def)
qed

lemma issued_token_nonempty: "new_oauth_token_response scopes d1 d2 = Inr tok \<Longrightarrow> access_token tok \<noteq> []"
  by (auto simp: new_oauth_token_response_ok)

text \<open>The access token that an exchange issued.\<close>

lemma issued_access_read:
  assumes "insert_token_row n (issued_row sha tok c own scopes t now) db = (Inr (), db')" "access_token tok \<noteq> []"
  shows "pg_read_access_token sha (access_token tok) t' db' = Inr
    (if pg_instant t' < pg_instant (add_ns t hour)
     then Some \<lparr>p_id = go_user_id own, p_uuid = go_user_uuid own, p_type = go_type own,
       p_username = go_username own, p_email = go_email own,
       p_permissions = intersect_strings (go_permissions own) scopes,
       p_created_at = format_wire_time now, p_updated_at = format_wire_time now\<rparr>
     else None)"
  using assms
  by (auto simp: insert_token_row_ok pg_read_access_token_def issued_row_def find_none_before
      oauth_access_token_ttl_def)

text \<open>
  C32: Over Postgres a refresh rotates the tokens: the access token that was issued with the refresh
  token does not authenticate any more, at no time; the new one authenticates the same user until an
  hour after the refresh and not later, with the user's permissions that the grant's scopes allow; and
  the refresh token is answered with \<open>ErrOAuthGrantConsumed\<close> from then on.
\<close>
theorem pg_refresh_rotates:
  assumes "pg_exchange_refresh sha req t d1 d2 db = (Inr tok, db')" "tokens_keyed db"
    and "w \<in> set (ab_tokens db)" "tw_refresh w = sha (tr_refresh_token req)" "tw_access w = sha old"
  shows "pg_read_access_token sha old t' db' = Inr None \<and>
    pg_read_access_token sha (access_token tok) t' db' = Inr
      (if pg_instant t' < pg_instant (add_ns t hour)
       then Some \<lparr>p_id = go_user_id (tw_owner w), p_uuid = go_user_uuid (tw_owner w),
         p_type = go_type (tw_owner w), p_username = go_username (tw_owner w), p_email = go_email (tw_owner w),
         p_permissions = intersect_strings (go_permissions (tw_owner w)) (tw_scopes w),
         p_created_at = format_wire_time (ab_now db), p_updated_at = format_wire_time (ab_now db)\<rparr>
       else None) \<and>
    pg_exchange_refresh sha req t2 e1 e2 db' = (Inl ErrOAuthGrantConsumed, db')"
proof -
  from assms(1) obtain v db1 n where 1:
    "tr_refresh_token req \<noteq> []" "find (\<lambda>w. tw_refresh w = sha (tr_refresh_token req)) (ab_tokens db) = Some v"
    "tw_client_id v = tr_client_id req" "tw_revoked_at v = None"
    "new_oauth_token_response (tw_scopes v) d1 d2 = Inr tok"
    "db1 = db\<lparr>ab_tokens := map (revoke_key (sha (tr_refresh_token req)) t db) (ab_tokens db)\<rparr>"
    "insert_token_row n (issued_row sha tok (tw_client_id v) (tw_owner v) (tw_scopes v) t (ab_now db1)) db1
       = (Inr (), db')"
    by (auto elim!: pg_exchange_refresh_ok)
  have keyed: "tokens_keyed db'" using assms(1,2) by (rule tokens_keyed_refresh)
  from find_member [OF 1(2)] assms(2-4) have v: "v = w"
    using distinct_map_same [of tw_refresh "ab_tokens db" v w] by (simp add: tokens_keyed_def)
  let ?w = "revoke_key (sha (tr_refresh_token req)) t db w"
  have rows: "ab_tokens db' = map (revoke_key (sha (tr_refresh_token req)) t db) (ab_tokens db) @
      [issued_row sha tok (tw_client_id v) (tw_owner v) (tw_scopes v) t (ab_now db)]"
    using 1(6,7) by (simp add: insert_token_row_ok)
  have w': "?w \<in> set (ab_tokens db')" "tw_revoked_at ?w = Some (pg_instant t)"
    using rows assms(3,4) 1(4) v by (auto simp: revoke_key_def)
  then have old_refused: "pg_read_access_token sha old t' db' = Inr None"
    using assms(5) by (intro revoked_access_refused [OF keyed w'(1)]) simp_all
  have new_read: "pg_read_access_token sha (access_token tok) t' db' = Inr
      (if pg_instant t' < pg_instant (add_ns t hour)
       then Some \<lparr>p_id = go_user_id (tw_owner w), p_uuid = go_user_uuid (tw_owner w),
         p_type = go_type (tw_owner w), p_username = go_username (tw_owner w), p_email = go_email (tw_owner w),
         p_permissions = intersect_strings (go_permissions (tw_owner w)) (tw_scopes w),
         p_created_at = format_wire_time (ab_now db), p_updated_at = format_wire_time (ab_now db)\<rparr>
       else None)"
    using issued_access_read [OF 1(7) issued_token_nonempty [OF 1(5)], of t'] 1(6) v by simp
  from w'(1) assms(4) have "find (\<lambda>w. tw_refresh w = sha (tr_refresh_token req)) (ab_tokens db') \<noteq> None"
    by (auto simp: find_None_iff)
  then obtain u where u: "find (\<lambda>w. tw_refresh w = sha (tr_refresh_token req)) (ab_tokens db') = Some u" by blast
  then have "u = ?w"
    using find_member [OF u] keyed w'(1) assms(4) distinct_map_same [of tw_refresh "ab_tokens db'" u ?w]
    by (simp add: tokens_keyed_def)
  with u w'(2) 1(1,3) v have "pg_exchange_refresh sha req t2 e1 e2 db' = (Inl ErrOAuthGrantConsumed, db')"
    by (simp add: pg_exchange_refresh_def with_tx_def read_refresh_tx_def reading_def basic_handlers_run
        revoke_key_def and_then_def demand_def check_def)
  with old_refused new_read show ?thesis by blast
qed

section \<open>A concrete run\<close>

definition demo_owner :: grant_owner where
  "demo_owner = \<lparr>go_user_id = 7, go_user_uuid = ''u'', go_type = ''user'', go_username = ''ann'',
     go_email = ''a@x'', go_permissions = [''booking:read'', ''booking:write'']\<rparr>"

definition demo_token_row :: token_row where
  "demo_token_row = \<lparr>tw_access = ''#old'', tw_refresh = ''#r'', tw_client_id = ''c'', tw_owner = demo_owner,
     tw_scopes = [''booking:read''], tw_access_expires_at = 5000, tw_refresh_expires_at = 9000,
     tw_revoked_at = None, tw_created_at = 0, tw_updated_at = 0\<rparr>"

definition demo_auth_db :: auth_db where
  "demo_auth_db = \<lparr>ab_now = 2000, ab_api_keys = [], ab_clients = [(''c'',
       \<lparr>cw_name = ''C'', cw_redirect_uris = [''https://x''], cw_created_at = 0, cw_updated_at = 0\<rparr>)],
     ab_platform_clients = [], ab_codes = [], ab_tokens = [demo_token_row]\<rparr>"

definition demo_refresh_request :: token_request where
  "demo_refresh_request = \<lparr>tr_grant_type = ''refresh_token'', tr_client_id = ''c'', tr_code = [],
     tr_redirect_uri = [], tr_refresh_token = ''r''\<rparr>"

definition demo_new_token :: token_response where
  "demo_new_token = \<lparr>access_token = ''cal_at_'', refresh_token = ''cal_rt_'', token_type = ''Bearer'',
     expires_in = 3600, scope = ''booking:read''\<rparr>"

lemma demo_refresh_run: "fst (pg_exchange_refresh (\<lambda>s. CHR ''#'' # s) demo_refresh_request \<lparr>inst = 3000, zone = 0\<rparr>
    (Some []) (Some []) demo_auth_db) = Inr demo_new_token"
  by code_simp

theorem pg_refresh_rotates_witness:
  "\<exists>db'. pg_exchange_refresh (\<lambda>s. CHR ''#'' # s) demo_refresh_request \<lparr>inst = 3000, zone = 0\<rparr>
      (Some []) (Some []) demo_auth_db = (Inr demo_new_token, db') \<and>
    pg_read_access_token (\<lambda>s. CHR ''#'' # s) ''old'' \<lparr>inst = 4000, zone = 0\<rparr> db' = Inr None \<and>
    pg_exchange_refresh (\<lambda>s. CHR ''#'' # s) demo_refresh_request \<lparr>inst = 4000, zone = 0\<rparr> None None db' =
      (Inl ErrOAuthGrantConsumed, db')"
proof -
  obtain db' where run: "pg_exchange_refresh (\<lambda>s. CHR ''#'' # s) demo_refresh_request \<lparr>inst = 3000, zone = 0\<rparr>
      (Some []) (Some []) demo_auth_db = (Inr demo_new_token, db')"
    using demo_refresh_run by (metis prod.collapse)
  have "tokens_keyed demo_auth_db" "demo_token_row \<in> set (ab_tokens demo_auth_db)"
    "tw_refresh demo_token_row = CHR ''#'' # tr_refresh_token demo_refresh_request"
    "tw_access demo_token_row = CHR ''#'' # ''old''"
    by (simp_all add: tokens_keyed_def demo_auth_db_def demo_token_row_def demo_refresh_request_def)
  from pg_refresh_rotates [OF run this, of "\<lparr>inst = 4000, zone = 0\<rparr>" "\<lparr>inst = 4000, zone = 0\<rparr>" None None] run
  show ?thesis by blast
qed

end
