(* ===== verification/Slots.thy ===== *)
theory Slots
  imports GoTime
begin

text \<open>
  The slots service (\<open>internal/slots/service.go\<close>): the fixture availability, the busy-time
  filter, the availability check used before a booking, and the request validation. A repository
  and a busy-time provider are functions the service is given; \<open>tz\<close> says which names
  \<open>time.LoadLocation\<close> accepts.
\<close>

section \<open>Data\<close>

abbreviation slot_fixture_event_type_id :: int where
  "slot_fixture_event_type_id \<equiv> 1001"

abbreviation slot_fixture_start :: string where
  "slot_fixture_start \<equiv> ''2026-05-01T00:00:00.000Z''"

abbreviation slot_fixture_end :: string where
  "slot_fixture_end \<equiv> ''2026-05-02T00:00:00.000Z''"

abbreviation slot_fixture_time_zone :: string where
  "slot_fixture_time_zone \<equiv> ''America/Chicago''"

abbreviation slot_fixture_time :: string where
  "slot_fixture_time \<equiv> ''2026-05-01T15:00:00.000Z''"

abbreviation slot_fixture_reschedule :: string where
  "slot_fixture_reschedule \<equiv> ''2026-05-02T15:00:00.000Z''"

abbreviation slot_fixture_duration :: int where
  "slot_fixture_duration \<equiv> 30"

record slot_request =
  sr_event_type_id :: int
  sr_start :: string
  sr_end :: string
  sr_time_zone :: string

record availability_request =
  ar_event_type_id :: int
  ar_start :: string
  ar_time_zone :: string

record busy_time =
  bt_start :: string
  bt_end :: string

record slot_event_type =
  et_id :: int
  et_title :: string
  et_duration :: int
  et_time_zone :: string

record availability_slot =
  avs_event_type_id :: int
  avs_time :: string
  avs_duration :: int
  avs_time_zone :: string

record slot =
  sl_time :: string
  sl_duration :: int

record slot_response =
  sp_event_type_id :: int
  sp_time_zone :: string
  sp_start :: string
  sp_end :: string
  sp_slots :: "slot list gomap"
  sp_request_id :: string

text \<open>An \<open>ErrorWithCode\<close>, a wrapped parse error, or an error of a repository or provider.\<close>

datatype slot_error =
    SlotValidation string string
  | SlotParse string
  | SlotUpstream string

record slot_service =
  ss_repo :: "(string \<Rightarrow> slot_request \<Rightarrow> slot_error + slot_response option) option"
  ss_busy_times :: "(slot_request \<Rightarrow> slot_error + busy_time list) option"

section \<open>Fixtures\<close>

definition fixture_slot_event_type :: slot_event_type where
  "fixture_slot_event_type = \<lparr>et_id = slot_fixture_event_type_id, et_title = ''Fixture Event'',
     et_duration = slot_fixture_duration, et_time_zone = slot_fixture_time_zone\<rparr>"

definition fixture_availability_slot :: availability_slot where
  "fixture_availability_slot = \<lparr>avs_event_type_id = slot_fixture_event_type_id,
     avs_time = slot_fixture_time, avs_duration = slot_fixture_duration,
     avs_time_zone = slot_fixture_time_zone\<rparr>"

definition fixture_availability_slots :: "availability_slot list" where
  "fixture_availability_slots =
     [fixture_availability_slot,
      \<lparr>avs_event_type_id = slot_fixture_event_type_id, avs_time = slot_fixture_reschedule,
       avs_duration = slot_fixture_duration, avs_time_zone = slot_fixture_time_zone\<rparr>]"

section \<open>Operations\<close>

definition slot_validate_timestamp :: "string \<Rightarrow> string \<Rightarrow> string \<Rightarrow> slot_error option" where
  "slot_validate_timestamp value code message =
     (if value = [] then None
      else if parse_rfc3339 value = None then Some (SlotValidation code message) else None)"

definition valid_time_zone :: "(string \<Rightarrow> bool) \<Rightarrow> string \<Rightarrow> bool" where
  "valid_time_zone tz value =
     (if value \<in> {''UTC'', ''Etc/UTC'', slot_fixture_time_zone} then True else tz value)"

definition validate_slot_request ::
    "(string \<Rightarrow> bool) \<Rightarrow> slot_request \<Rightarrow> slot_error option" where
  "validate_slot_request tz req =
     (if sr_event_type_id req = 0
      then Some (SlotValidation ''INVALID_EVENT_TYPE'' ''Event type is required'')
      else case slot_validate_timestamp (sr_start req) ''INVALID_START_TIME''
              ''Start time must be an RFC3339 timestamp'' of
        Some e \<Rightarrow> Some e
      | None \<Rightarrow>
          (case slot_validate_timestamp (sr_end req) ''INVALID_END_TIME''
              ''End time must be an RFC3339 timestamp'' of
             Some e \<Rightarrow> Some e
           | None \<Rightarrow>
               if sr_time_zone req \<noteq> [] \<and> \<not> valid_time_zone tz (sr_time_zone req)
               then Some (SlotValidation ''INVALID_TIME_ZONE'' ''Time zone is invalid'')
               else None))"

definition normalized_request :: "slot_request \<Rightarrow> slot_request" where
  "normalized_request req =
     req\<lparr>sr_time_zone := (if sr_time_zone req = [] then slot_fixture_time_zone else sr_time_zone req),
         sr_start := (if sr_start req = [] then slot_fixture_start else sr_start req),
         sr_end := (if sr_end req = [] then slot_fixture_end else sr_end req)\<rparr>"

text \<open>\<open>m[day] = append(m[day], slot)\<close>.\<close>

definition append_slot :: "string \<Rightarrow> slot \<Rightarrow> slot list gomap \<Rightarrow> slot list gomap" where
  "append_slot day sl m =
     gm_put day ((case gm_get m day of None \<Rightarrow> [] | Some ds \<Rightarrow> ds) @ [sl]) m"

fun collect_fixture_slots ::
    "gotime \<Rightarrow> gotime \<Rightarrow> availability_slot list \<Rightarrow> slot list gomap \<Rightarrow> slot list gomap" where
  "collect_fixture_slots start_at end_at [] m = m"
| "collect_fixture_slots start_at end_at (f # fs) m =
     (case parse_rfc3339 (avs_time f) of
        None \<Rightarrow> collect_fixture_slots start_at end_at fs m
      | Some slot_at \<Rightarrow>
          if before slot_at start_at \<or> \<not> before slot_at end_at
          then collect_fixture_slots start_at end_at fs m
          else collect_fixture_slots start_at end_at fs
            (append_slot (day_format slot_at)
              \<lparr>sl_time = avs_time f, sl_duration = avs_duration f\<rparr> m))"

definition fixture_slots_in_range :: "slot_request \<Rightarrow> slot list gomap" where
  "fixture_slots_in_range req =
     (case parse_rfc3339 (sr_start req) of None \<Rightarrow> []
      | Some start_at \<Rightarrow>
          (case parse_rfc3339 (sr_end req) of None \<Rightarrow> []
           | Some end_at \<Rightarrow> collect_fixture_slots start_at end_at fixture_availability_slots []))"

text \<open>\<open>time.Duration(minutes) * time.Minute\<close>, a product of two \<open>int64\<close>.\<close>

definition minutes_duration :: "int \<Rightarrow> int" where
  "minutes_duration minutes = sint (word_of_int minutes * word_of_int minute :: 64 word)"

fun overlaps_busy :: "gotime \<Rightarrow> gotime \<Rightarrow> busy_time list \<Rightarrow> slot_error + bool" where
  "overlaps_busy slot_start slot_end [] = Inr False"
| "overlaps_busy slot_start slot_end (b # bs) =
     (case parse_rfc3339 (bt_start b) of
        None \<Rightarrow> Inl (SlotParse ''parse busy start'')
      | Some busy_start \<Rightarrow>
          (case parse_rfc3339 (bt_end b) of
             None \<Rightarrow> Inl (SlotParse ''parse busy end'')
           | Some busy_end \<Rightarrow>
               if before slot_start busy_end \<and> before busy_start slot_end then Inr True
               else overlaps_busy slot_start slot_end bs))"

definition slot_overlaps_busy_time :: "slot \<Rightarrow> busy_time list \<Rightarrow> slot_error + bool" where
  "slot_overlaps_busy_time sl busy_times =
     (case parse_rfc3339 (sl_time sl) of
        None \<Rightarrow> Inl (SlotParse ''parse slot time'')
      | Some slot_start \<Rightarrow>
          overlaps_busy slot_start (add_ns slot_start (minutes_duration (sl_duration sl))) busy_times)"

fun filter_day ::
    "string \<Rightarrow> busy_time list \<Rightarrow> slot list \<Rightarrow> slot list gomap \<Rightarrow> slot_error + slot list gomap" where
  "filter_day day busy_times [] m = Inr m"
| "filter_day day busy_times (sl # sls) m =
     (case slot_overlaps_busy_time sl busy_times of
        Inl e \<Rightarrow> Inl e
      | Inr blocked \<Rightarrow>
          if blocked then filter_day day busy_times sls m
          else filter_day day busy_times sls (append_slot day sl m))"

fun filter_days ::
    "busy_time list \<Rightarrow> slot list gomap \<Rightarrow> slot list gomap \<Rightarrow> slot_error + slot list gomap" where
  "filter_days busy_times [] m = Inr m"
| "filter_days busy_times ((day, sls) # ds) m =
     (case filter_day day busy_times sls m of
        Inl e \<Rightarrow> Inl e
      | Inr m' \<Rightarrow> filter_days busy_times ds m')"

definition filter_busy_slots ::
    "slot_service \<Rightarrow> slot_request \<Rightarrow> slot_response \<Rightarrow> slot_error + slot_response option" where
  "filter_busy_slots s req response =
     (case ss_busy_times s of
        None \<Rightarrow> Inr (Some response)
      | Some busy \<Rightarrow>
          (case busy req of
             Inl e \<Rightarrow> Inl e
           | Inr busy_times \<Rightarrow>
               if busy_times = [] then Inr (Some response)
               else case filter_days busy_times (sp_slots response) [] of
                 Inl e \<Rightarrow> Inl e
               | Inr filtered \<Rightarrow> Inr (Some (response\<lparr>sp_slots := filtered\<rparr>))))"

definition read_available ::
    "(string \<Rightarrow> bool) \<Rightarrow> slot_service \<Rightarrow> string \<Rightarrow> slot_request
      \<Rightarrow> slot_error + slot_response option" where
  "read_available tz s request_id req =
     (case validate_slot_request tz req of
        Some e \<Rightarrow> Inl e
      | None \<Rightarrow>
          let req = normalized_request req
          in case ss_repo s of
            Some repo \<Rightarrow>
              (case repo request_id req of
                 Inl e \<Rightarrow> Inl e
               | Inr None \<Rightarrow> Inr None
               | Inr (Some response) \<Rightarrow> filter_busy_slots s req response)
          | None \<Rightarrow>
              if sr_event_type_id req \<noteq> slot_fixture_event_type_id then Inr None
              else filter_busy_slots s req
                \<lparr>sp_event_type_id = sr_event_type_id req, sp_time_zone = sr_time_zone req,
                 sp_start = sr_start req, sp_end = sr_end req,
                 sp_slots = fixture_slots_in_range req, sp_request_id = request_id\<rparr>)"

definition has_slot :: "slot_response \<Rightarrow> string \<Rightarrow> bool" where
  "has_slot response start =
     list_ex (\<lambda>(day, sls). list_ex (\<lambda>sl. sl_time sl = start) sls) (sp_slots response)"

definition is_available ::
    "(string \<Rightarrow> bool) \<Rightarrow> slot_service \<Rightarrow> string \<Rightarrow> availability_request \<Rightarrow> slot_error + bool" where
  "is_available tz s request_id req =
     (if ar_start req = [] then Inl (SlotValidation ''INVALID_START_TIME'' ''Start time is required'')
      else case parse_rfc3339 (ar_start req) of
        None \<Rightarrow>
          Inl (SlotValidation ''INVALID_START_TIME'' ''Start time must be an RFC3339 timestamp'')
      | Some start_at \<Rightarrow>
          (case read_available tz s request_id
             \<lparr>sr_event_type_id = ar_event_type_id req, sr_start = ar_start req,
              sr_end = rfc3339nano_format (add_ns start_at microsecond),
              sr_time_zone = ar_time_zone req\<rparr> of
             Inl e \<Rightarrow> Inl e
           | Inr None \<Rightarrow> Inr False
           | Inr (Some response) \<Rightarrow> Inr (has_slot response (ar_start req))))"

section \<open>An example\<close>

text \<open>The fixture with one busy interval, right after the first slot.\<close>

definition busy_fixture :: slot_service where
  "busy_fixture = \<lparr>ss_repo = None, ss_busy_times = Some (\<lambda>req. Inr
     [\<lparr>bt_start = ''2026-05-01T15:30:00.000Z'', bt_end = ''2026-05-01T16:00:00.000Z''\<rparr>])\<rparr>"

definition fixture_availability_request :: availability_request where
  "fixture_availability_request = \<lparr>ar_event_type_id = 1001, ar_start = slot_fixture_time,
     ar_time_zone = ''UTC''\<rparr>"

definition busy_fixture_response :: slot_response where
  "busy_fixture_response = \<lparr>sp_event_type_id = 1001, sp_time_zone = ''UTC'',
     sp_start = slot_fixture_start, sp_end = slot_fixture_end,
     sp_slots = [(''2026-05-01'', [\<lparr>sl_time = slot_fixture_time, sl_duration = 30\<rparr>,
        \<lparr>sl_time = ''2026-05-01T15:15:00.000Z'', sl_duration = 30\<rparr>])],
     sp_request_id = ''req''\<rparr>"

definition busy_fixture_filtered :: slot_response where
  "busy_fixture_filtered = busy_fixture_response
     \<lparr>sp_slots := [(''2026-05-01'', [\<lparr>sl_time = slot_fixture_time, sl_duration = 30\<rparr>])]\<rparr>"

lemma busy_fixture_filters:
  "filter_busy_slots busy_fixture (normalized_request \<lparr>sr_event_type_id = 1001, sr_start = [],
     sr_end = [], sr_time_zone = []\<rparr>) busy_fixture_response = Inr (Some busy_fixture_filtered)"
  by code_simp

lemma busy_fixture_available:
  "is_available (\<lambda>_. False) busy_fixture ''req'' fixture_availability_request = Inr True"
  by code_simp

section \<open>The busy filter\<close>

text \<open>The slots of a day-indexed map.\<close>

definition slots_on :: "slot list gomap \<Rightarrow> string \<Rightarrow> slot list" where
  "slots_on m day = (case gm_get m day of None \<Rightarrow> [] | Some ds \<Rightarrow> ds)"

lemma slots_on_append [simp]:
  "slots_on (append_slot d sl m) day = (if day = d then slots_on m day @ [sl] else slots_on m day)"
  by (simp add: slots_on_def append_slot_def)

lemma slots_on_empty [simp]: "slots_on [] day = []"
  by (simp add: slots_on_def)

lemma gm_ok_append_slot [simp]: "gm_ok m \<Longrightarrow> gm_ok (append_slot d sl m)"
  by (simp add: append_slot_def)

text \<open>When a slot is free: no busy interval meets it (both half open).\<close>

definition instant_or_zero :: "string \<Rightarrow> int" where
  "instant_or_zero value = (case parse_rfc3339 value of None \<Rightarrow> 0 | Some t \<Rightarrow> inst t)"

definition slot_free :: "busy_time list \<Rightarrow> slot \<Rightarrow> bool" where
  "slot_free busy_times sl =
     (let a = instant_or_zero (sl_time sl); b = a + minutes_duration (sl_duration sl)
      in list_all (\<lambda>t. instant_or_zero (bt_end t) \<le> a \<or> b \<le> instant_or_zero (bt_start t)) busy_times)"

lemma overlaps_busy_free:
  "overlaps_busy t u bs = Inr b \<Longrightarrow>
   b \<longleftrightarrow> \<not> list_all (\<lambda>x. instant_or_zero (bt_end x) \<le> inst t \<or> inst u \<le> instant_or_zero (bt_start x)) bs"
  by (induction bs)
    (auto simp: before_def instant_or_zero_def not_less split: option.splits if_splits)

lemma slot_overlaps_free:
  "slot_overlaps_busy_time sl bs = Inr b \<Longrightarrow> b \<longleftrightarrow> \<not> slot_free bs sl"
  using overlaps_busy_free
  by (fastforce simp: slot_overlaps_busy_time_def slot_free_def Let_def instant_or_zero_def
      split: option.splits)

lemma filter_day_slots:
  "filter_day d bs sls m = Inr m' \<Longrightarrow>
   slots_on m' day = (if day = d then slots_on m day @ filter (slot_free bs) sls else slots_on m day)"
  by (induction sls arbitrary: m)
    (auto split: sum.splits if_splits dest!: slot_overlaps_free)

lemma filter_days_slots:
  "filter_days bs ds m = Inr m' \<Longrightarrow> distinct (map fst ds) \<Longrightarrow>
   slots_on m' day = slots_on m day @ filter (slot_free bs) (slots_on ds day)"
proof (induction bs ds m rule: filter_days.induct)
  case (1 bs m)
  then show ?case by simp
next
  case (2 bs d sls ds m)
  from "2.prems"(1) obtain m1 where m1: "filter_day d bs sls m = Inr m1"
    "filter_days bs ds m1 = Inr m'" by (auto split: sum.splits)
  from "2.IH" [OF m1] "2.prems"(2)
  have "slots_on m' day = slots_on m1 day @ filter (slot_free bs) (slots_on ds day)" by simp
  moreover have "gm_get ds d = None" using "2.prems"(2) by (simp add: map_of_eq_None_iff)
  then have "slots_on ds d = []" by (simp add: slots_on_def)
  ultimately show ?case
    using filter_day_slots [OF m1(1), of day] by (auto simp: slots_on_def)
qed

lemma overlaps_busy_total:
  "list_all (\<lambda>x. parse_rfc3339 (bt_start x) \<noteq> None \<and> parse_rfc3339 (bt_end x) \<noteq> None) bs \<Longrightarrow>
   \<exists>b. overlaps_busy t u bs = Inr b"
  by (induction bs) auto


text \<open>
  The busy-time filter keeps, day by day and in order, exactly the slots no busy interval
  overlaps (half-open intervals, the slot's length in minutes), and changes nothing else of the
  response; it is the same for every order in which Go visits the days.
\<close>
theorem filter_busy_exact:
  assumes "filter_busy_slots s req response = Inr (Some result)"
    and "ss_busy_times s = Some busy" and "busy req = Inr busy_times"
    and "gm_ok (sp_slots response)"
  shows "slots_on (sp_slots result) day = filter (slot_free busy_times) (slots_on (sp_slots response) day)
    \<and> result = response\<lparr>sp_slots := sp_slots result\<rparr>"
proof (cases "busy_times = []")
  case True
  with assms have "result = response" by (simp add: filter_busy_slots_def)
  moreover have "filter (slot_free busy_times) xs = xs" for xs
    using True by (simp add: slot_free_def Let_def)
  ultimately show ?thesis by simp
next
  case False
  with assms obtain m where "filter_days busy_times (sp_slots response) [] = Inr m"
    "result = response\<lparr>sp_slots := m\<rparr>"
    by (auto simp: filter_busy_slots_def split: sum.splits)
  with filter_days_slots [of busy_times "sp_slots response" "[]" m day] assms(4)
  show ?thesis by simp
qed

lemma filter_busy_exact_witness:
  "slots_on (sp_slots busy_fixture_filtered) ''2026-05-01'' =
     filter (slot_free [\<lparr>bt_start = ''2026-05-01T15:30:00.000Z'', bt_end = ''2026-05-01T16:00:00.000Z''\<rparr>])
       (slots_on (sp_slots busy_fixture_response) ''2026-05-01'')"
  using filter_busy_exact [OF busy_fixture_filters, of _ _ "''2026-05-01''"]
  by (simp add: busy_fixture_def busy_fixture_response_def)

section \<open>The fixture slots\<close>

lemma fixture_instants [simp]:
  "parse_rfc3339 slot_fixture_time = Some \<lparr>inst = 1777647600000000000, zone = 0\<rparr>"
  "parse_rfc3339 slot_fixture_reschedule = Some \<lparr>inst = 1777734000000000000, zone = 0\<rparr>"
  "parse_rfc3339 slot_fixture_start = Some \<lparr>inst = 1777593600000000000, zone = 0\<rparr>"
  "parse_rfc3339 slot_fixture_end = Some \<lparr>inst = 1777680000000000000, zone = 0\<rparr>"
  by code_simp+

lemma fixture_days [simp]:
  "day_format \<lparr>inst = 1777647600000000000, zone = 0\<rparr> = ''2026-05-01''"
  "day_format \<lparr>inst = 1777734000000000000, zone = 0\<rparr> = ''2026-05-02''"
  by code_simp+

definition fixture_day_slots :: "string \<Rightarrow> slot list" where
  "fixture_day_slots day =
     (if day = ''2026-05-01'' then [\<lparr>sl_time = slot_fixture_time, sl_duration = 30\<rparr>]
      else if day = ''2026-05-02'' then [\<lparr>sl_time = slot_fixture_reschedule, sl_duration = 30\<rparr>]
      else [])"

lemma fixture_slots_ok: "gm_ok (fixture_slots_in_range req)"
  by (auto simp: fixture_slots_in_range_def fixture_availability_slots_def
      fixture_availability_slot_def split: option.splits)

lemma fixture_slots_on:
  assumes "parse_rfc3339 (sr_start req) = Some a" "parse_rfc3339 (sr_end req) = Some b"
  shows "slots_on (fixture_slots_in_range req) day =
    filter (\<lambda>sl. inst a \<le> instant_or_zero (sl_time sl) \<and> instant_or_zero (sl_time sl) < inst b)
      (fixture_day_slots day)"
  using assms
  by (auto simp: fixture_slots_in_range_def fixture_availability_slots_def before_def
      fixture_availability_slot_def fixture_day_slots_def instant_or_zero_def)


section \<open>Availability\<close>

definition all_slots :: "slot list gomap \<Rightarrow> slot set" where
  "all_slots m = (\<Union>(day, sls) \<in> set m. set sls)"

lemma has_slot_iff: "has_slot r start \<longleftrightarrow> (\<exists>sl \<in> all_slots (sp_slots r). sl_time sl = start)"
  by (fastforce simp: has_slot_def all_slots_def list_ex_iff)

lemma all_slots_append [simp]: "all_slots (append_slot d sl m) = insert sl (all_slots m)"
  by (induction m) (auto simp: append_slot_def all_slots_def split: option.splits)

lemma all_slots_filter_day:
  "filter_day d bs sls m = Inr m' \<Longrightarrow>
   all_slots m' = all_slots m \<union> {sl \<in> set sls. slot_free bs sl}"
  by (induction sls arbitrary: m) (auto split: sum.splits if_splits dest!: slot_overlaps_free)

lemma all_slots_filter_days:
  "filter_days bs ds m = Inr m' \<Longrightarrow>
   all_slots m' = all_slots m \<union> {sl \<in> all_slots ds. slot_free bs sl}"
proof (induction bs ds m rule: filter_days.induct)
  case (1 bs m)
  then show ?case by (simp add: all_slots_def)
next
  case (2 bs d sls ds m)
  from "2.prems"(1) obtain m1 where m1: "filter_day d bs sls m = Inr m1"
    "filter_days bs ds m1 = Inr m'" by (auto split: sum.splits)
  have "all_slots ((d, sls) # ds) = set sls \<union> all_slots ds" by (auto simp: all_slots_def)
  with "2.IH" [OF m1] all_slots_filter_day [OF m1(1)] show ?case by auto
qed

text \<open>The request that the availability check asks the slots for.\<close>

definition availability_slot_request :: "availability_request \<Rightarrow> slot_request" where
  "availability_slot_request req =
     normalized_request
       \<lparr>sr_event_type_id = ar_event_type_id req, sr_start = ar_start req,
        sr_end = (case parse_rfc3339 (ar_start req) of None \<Rightarrow> []
          | Some t \<Rightarrow> rfc3339nano_format (add_ns t microsecond)),
        sr_time_zone = ar_time_zone req\<rparr>"

lemma is_available_TrueE:
  assumes "is_available tz s rid req = Inr True"
  obtains t response result where "parse_rfc3339 (ar_start req) = Some t"
    "filter_busy_slots s (availability_slot_request req) response = Inr (Some result)"
    "has_slot result (ar_start req)" "ar_event_type_id req \<noteq> 0"
    "ar_time_zone req = [] \<or> valid_time_zone tz (ar_time_zone req)"
    "case ss_repo s of Some repo \<Rightarrow> repo rid (availability_slot_request req) = Inr (Some response)
     | None \<Rightarrow> ar_event_type_id req = slot_fixture_event_type_id \<and>
         sp_slots response = fixture_slots_in_range (availability_slot_request req)"
proof -
  from assms obtain t where t: "parse_rfc3339 (ar_start req) = Some t"
    by (auto simp: is_available_def split: if_splits option.splits)
  let ?q = "\<lparr>sr_event_type_id = ar_event_type_id req, sr_start = ar_start req,
      sr_end = rfc3339nano_format (add_ns t microsecond), sr_time_zone = ar_time_zone req\<rparr>"
  have q: "normalized_request ?q = availability_slot_request req"
    by (simp add: availability_slot_request_def t)
  from assms t obtain result where r: "read_available tz s rid ?q = Inr (Some result)"
    "has_slot result (ar_start req)"
    by (auto simp: is_available_def split: if_splits sum.splits option.splits)
  from r(1) have v: "validate_slot_request tz ?q = None"
    by (auto simp: read_available_def split: option.splits)
  then have "ar_event_type_id req \<noteq> 0" "ar_time_zone req = [] \<or> valid_time_zone tz (ar_time_zone req)"
    by (auto simp: validate_slot_request_def split: if_splits option.splits)
  moreover from r(1) v obtain response where
    "filter_busy_slots s (availability_slot_request req) response = Inr (Some result)"
    "case ss_repo s of Some repo \<Rightarrow> repo rid (availability_slot_request req) = Inr (Some response)
     | None \<Rightarrow> ar_event_type_id req = slot_fixture_event_type_id \<and>
         sp_slots response = fixture_slots_in_range (availability_slot_request req)"
    by (auto simp: read_available_def q Let_def availability_slot_request_def t normalized_request_def
        split: option.splits sum.splits if_splits)
  ultimately show thesis using that t r(2) by blast
qed

text \<open>
  C40: an available slot is a real one: when the availability check says yes, some slot the repository
  (or the fixture) offers starts at the start asked for, and none of the busy times the provider
  reports for the request overlaps it. The range of the request is the first microsecond of the slot:
  a busy time that begins later in the slot is not asked for, and nothing is said of it.
\<close>
theorem availability_sound:
  assumes "is_available tz s rid req = Inr True"
    and "ss_busy_times s = Some busy"
  shows "\<exists>busy_times sl. busy (availability_slot_request req) = Inr busy_times \<and>
    sl_time sl = ar_start req \<and> slot_free busy_times sl \<and>
    (case ss_repo s of
       None \<Rightarrow> sl \<in> all_slots (fixture_slots_in_range (availability_slot_request req))
     | Some repo \<Rightarrow> \<exists>response. repo rid (availability_slot_request req) = Inr (Some response) \<and>
         sl \<in> all_slots (sp_slots response))"
proof -
  from assms(1) obtain response result where
    f: "filter_busy_slots s (availability_slot_request req) response = Inr (Some result)"
    and h: "has_slot result (ar_start req)"
    and src: "case ss_repo s of Some repo \<Rightarrow> repo rid (availability_slot_request req) = Inr (Some response)
      | None \<Rightarrow> ar_event_type_id req = slot_fixture_event_type_id \<and>
         sp_slots response = fixture_slots_in_range (availability_slot_request req)"
    by (rule is_available_TrueE)
  from f assms(2) obtain bts where b: "busy (availability_slot_request req) = Inr bts"
    by (auto simp: filter_busy_slots_def split: sum.splits)
  have "all_slots (sp_slots result) = {sl \<in> all_slots (sp_slots response). slot_free bts sl}"
  proof (cases "bts = []")
    case True
    with f b assms(2) show ?thesis by (auto simp: filter_busy_slots_def slot_free_def Let_def)
  next
    case False
    with f b assms(2) obtain m where "filter_days bts (sp_slots response) [] = Inr m"
      "result = response\<lparr>sp_slots := m\<rparr>"
      by (auto simp: filter_busy_slots_def split: sum.splits)
    then show ?thesis using all_slots_filter_days by (fastforce simp: all_slots_def)
  qed
  with h b src show ?thesis by (auto simp: has_slot_iff split: option.splits)
qed

lemma availability_sound_witness:
  "\<exists>sl. sl_time sl = slot_fixture_time \<and>
     slot_free [\<lparr>bt_start = ''2026-05-01T15:30:00.000Z'', bt_end = ''2026-05-01T16:00:00.000Z''\<rparr>] sl"
  using availability_sound [OF busy_fixture_available]
  by (auto simp: busy_fixture_def fixture_availability_request_def)


lemma fixture_slots_subset:
  "sl \<in> all_slots (fixture_slots_in_range req) \<Longrightarrow>
   sl_time sl \<in> {slot_fixture_time, slot_fixture_reschedule}"
  by (auto simp: fixture_slots_in_range_def fixture_availability_slots_def
      fixture_availability_slot_def all_slots_def append_slot_def split: option.splits if_splits)

lemma fixture_next_microsecond:
  "rfc3339nano_format \<lparr>inst = 1777647600000001000, zone = 0\<rparr> = ''2026-05-01T15:00:00.000001Z''"
  "rfc3339nano_format \<lparr>inst = 1777734000000001000, zone = 0\<rparr> = ''2026-05-02T15:00:00.000001Z''"
  "parse_rfc3339 ''2026-05-01T15:00:00.000001Z'' = Some \<lparr>inst = 1777647600000001000, zone = 0\<rparr>"
  "parse_rfc3339 ''2026-05-02T15:00:00.000001Z'' = Some \<lparr>inst = 1777734000000001000, zone = 0\<rparr>"
  by code_simp+

lemma fixture_slot_available:
  assumes "ss_repo s = None" "ss_busy_times s = None"
    "ar_event_type_id req = slot_fixture_event_type_id"
    "ar_time_zone req = [] \<or> valid_time_zone tz (ar_time_zone req)"
    "ar_start req = slot_fixture_time \<or> ar_start req = slot_fixture_reschedule"
  shows "is_available tz s rid req = Inr True"
  using assms(5)
proof
  assume "ar_start req = slot_fixture_time"
  with assms(1-4) show ?thesis
    by (auto simp: is_available_def read_available_def validate_slot_request_def add_ns_def Let_def
        slot_validate_timestamp_def fixture_next_microsecond normalized_request_def has_slot_def
        filter_busy_slots_def fixture_slots_in_range_def fixture_availability_slots_def
        fixture_availability_slot_def before_def append_slot_def)
next
  assume "ar_start req = slot_fixture_reschedule"
  with assms(1-4) show ?thesis
    by (auto simp: is_available_def read_available_def validate_slot_request_def add_ns_def Let_def
        slot_validate_timestamp_def fixture_next_microsecond normalized_request_def has_slot_def
        filter_busy_slots_def fixture_slots_in_range_def fixture_availability_slots_def
        fixture_availability_slot_def before_def append_slot_def)
qed

text \<open>
  The fixture availability, decided completely: without repository and busy-time provider a
  slot is available exactly for event type 1001, at one of the two fixture instants (written as
  the fixture writes them), in no or a known time zone.
\<close>
theorem fixture_availability_iff:
  assumes "ss_repo s = None" and "ss_busy_times s = None"
  shows "is_available tz s rid req = Inr True \<longleftrightarrow>
    ar_event_type_id req = slot_fixture_event_type_id \<and>
    (ar_time_zone req = [] \<or> valid_time_zone tz (ar_time_zone req)) \<and>
    ar_start req \<in> {slot_fixture_time, slot_fixture_reschedule}"
    (is "?l \<longleftrightarrow> ?r")
proof
  assume ?l
  then obtain response result where
    f: "filter_busy_slots s (availability_slot_request req) response = Inr (Some result)"
    and h: "has_slot result (ar_start req)"
    and z: "ar_time_zone req = [] \<or> valid_time_zone tz (ar_time_zone req)"
    and src: "case ss_repo s of Some repo \<Rightarrow> repo rid (availability_slot_request req) = Inr (Some response)
      | None \<Rightarrow> ar_event_type_id req = slot_fixture_event_type_id \<and>
         sp_slots response = fixture_slots_in_range (availability_slot_request req)"
    by (rule is_available_TrueE)
  from f assms(2) have "result = response" by (simp add: filter_busy_slots_def)
  with h obtain sl where sl: "sl \<in> all_slots (sp_slots response)" "sl_time sl = ar_start req"
    by (auto simp: has_slot_iff)
  with src assms(1) have "ar_start req \<in> {slot_fixture_time, slot_fixture_reschedule}"
    using fixture_slots_subset [of sl "availability_slot_request req"] by simp
  with src assms(1) z show ?r by simp
next
  assume ?r
  with assms show ?l by (auto intro: fixture_slot_available)
qed

lemma fixture_availability_iff_witness:
  "is_available (\<lambda>_. False) \<lparr>ss_repo = None, ss_busy_times = None\<rparr> ''req''
     fixture_availability_request = Inr True"
  using fixture_availability_iff [of "\<lparr>ss_repo = None, ss_busy_times = None\<rparr>" "\<lambda>_. False" "''req''"
      fixture_availability_request]
  by (simp add: fixture_availability_request_def valid_time_zone_def)

section \<open>The port the booking service uses\<close>

text \<open>
  A slot availability port: it never answers yes for a start that is not a timestamp, and never
  for event type 0.
\<close>

locale slot_availability =
  fixes available :: "string \<Rightarrow> availability_request \<Rightarrow> 'e + bool"
  assumes available_start: "available rid req = Inr True \<Longrightarrow> parse_rfc3339 (ar_start req) \<noteq> None"
    and available_event_type: "available rid req = Inr True \<Longrightarrow> ar_event_type_id req \<noteq> 0"
begin

lemma available_nonempty: "available rid req = Inr True \<Longrightarrow> ar_start req \<noteq> []"
  using available_start [of rid req] by (auto simp: parse_rfc3339_def parse_date_clock_def take_year_def)

end

interpretation slot_port: slot_availability "is_available tz s" for tz s
  by unfold_locales (auto elim: is_available_TrueE)

lemmas available_start_parses = slot_port.available_start

end
