(* ===== verification/GoMail.thy ===== *)
theory GoMail
  imports GoStrings
begin

text \<open>
  When \<open>mail.ParseAddress(s)\<close> (go 1.25, \<open>net/mail\<close>) succeeds with \<open>Address == s\<close>. A display
  name, angle brackets, a comment, white space or a quoted local part all make the parsed
  address shorter than the input, so this is the case exactly for an addr-spec of a dot-atom, an
  at sign, and a dot-atom or an address literal. \<open>ip\<close> says which texts \<open>net.ParseIP\<close> accepts.
\<close>

section \<open>Runes\<close>

text \<open>The length of the valid UTF-8 rune a string starts with, 0 when there is none.\<close>

definition cont_byte :: "char \<Rightarrow> bool" where
  "cont_byte c = (let n = (of_char c :: nat) in 128 \<le> n \<and> n \<le> 191)"

definition byte_in :: "nat \<Rightarrow> nat \<Rightarrow> char \<Rightarrow> bool" where
  "byte_in lo hi c = (let n = (of_char c :: nat) in lo \<le> n \<and> n \<le> hi)"

fun rune_length :: "string \<Rightarrow> nat" where
  "rune_length [] = 0"
| "rune_length (a # r) =
     (if byte_in 0 127 a then 1
      else if byte_in 194 223 a then
        (case r of b # _ \<Rightarrow> if cont_byte b then 2 else 0 | _ \<Rightarrow> 0)
      else if byte_in 224 239 a then
        (case r of b # c # _ \<Rightarrow>
            if cont_byte b \<and> cont_byte c \<and> (byte_in 224 224 a \<longrightarrow> byte_in 160 191 b)
               \<and> (byte_in 237 237 a \<longrightarrow> byte_in 128 159 b)
            then 3 else 0
         | _ \<Rightarrow> 0)
      else if byte_in 240 244 a then
        (case r of b # c # d # _ \<Rightarrow>
            if cont_byte b \<and> cont_byte c \<and> cont_byte d \<and> (byte_in 240 240 a \<longrightarrow> byte_in 144 191 b)
               \<and> (byte_in 244 244 a \<longrightarrow> byte_in 128 143 b)
            then 4 else 0
         | _ \<Rightarrow> 0)
      else 0)"

section \<open>Atoms\<close>

text \<open>\<open>isAtext(r, dot)\<close> with dots: visible ASCII but the specials; every multi-byte rune.\<close>

definition is_atext :: "char \<Rightarrow> bool" where
  "is_atext c = (byte_in 128 255 c \<or> byte_in 33 126 c \<and> c \<notin> set ''()<>[]:;@,'' \<and>
      c \<noteq> CHR 0x22 \<and> c \<noteq> CHR 0x5C)"

text \<open>The loop of \<open>consumeAtom\<close>: \<open>None\<close> on invalid UTF-8, else the atom and the rest.\<close>

function take_atom :: "string \<Rightarrow> (string \<times> string) option" where
  "take_atom s =
     (if s = [] then Some ([], [])
      else let n = rune_length s
           in if n = 0 then None
              else if \<not> is_atext (hd s) then Some ([], s)
              else case take_atom (drop n s) of
                None \<Rightarrow> None
              | Some (a, r) \<Rightarrow> Some (take n s @ a, r))"
  by pat_completeness auto
termination by (relation "measure length") auto

declare take_atom.simps [simp del]

fun double_dot :: "string \<Rightarrow> bool" where
  "double_dot (a # b # r) = (a = CHR ''.'' \<and> b = CHR ''.'' \<or> double_dot (b # r))"
| "double_dot _ = False"

definition consume_dot_atom :: "string \<Rightarrow> (string \<times> string) option" where
  "consume_dot_atom s =
     (case take_atom s of
        None \<Rightarrow> None
      | Some (a, r) \<Rightarrow>
          if a = [] \<or> hd a = CHR ''.'' \<or> double_dot a \<or> last a = CHR ''.'' then None
          else Some (a, r))"

text \<open>The text of an address literal: visible ASCII or multi-byte runes but brackets and backslash.\<close>

function take_dtext :: "string \<Rightarrow> (string \<times> string) option" where
  "take_dtext s =
     (if s = [] then None
      else if hd s = CHR '']'' then Some ([], tl s)
      else let n = rune_length s
           in if n = 0 \<or> \<not> (byte_in 128 255 (hd s) \<or> byte_in 33 126 (hd s) \<and> hd s \<noteq> CHR ''['' \<and> hd s \<noteq> CHR 0x5C)
              then None
              else case take_dtext (drop n s) of
                None \<Rightarrow> None
              | Some (a, r) \<Rightarrow> Some (take n s @ a, r))"
  by pat_completeness auto
termination by (relation "measure length") auto

declare take_dtext.simps [simp del]

definition parses_to_itself :: "(string \<Rightarrow> bool) \<Rightarrow> string \<Rightarrow> bool" where
  "parses_to_itself ip s =
     (case consume_dot_atom s of
        None \<Rightarrow> False
      | Some (local, rest) \<Rightarrow>
          if rest = [] \<or> hd rest \<noteq> CHR ''@'' \<or> tl rest = [] then False
          else if hd (tl rest) = CHR ''['' then
            (case take_dtext (tl (tl rest)) of
               None \<Rightarrow> False
             | Some (d, r) \<Rightarrow> r = [] \<and> ip d)
          else
            (case consume_dot_atom (tl rest) of
               None \<Rightarrow> False
             | Some (d, r) \<Rightarrow> r = []))"

lemma take_atom_append: "take_atom s = Some (a, r) \<Longrightarrow> s = a @ r"
proof (induction s arbitrary: a r rule: take_atom.induct)
  case (1 s)
  show ?case
  proof (cases "s = [] \<or> rune_length s = 0 \<or> \<not> is_atext (hd s)")
    case True
    with "1.prems" show ?thesis
      by (simp add: take_atom.simps [of s] Let_def split: if_splits)
  next
    case False
    with "1.prems" obtain b where b: "take_atom (drop (rune_length s) s) = Some (b, r)"
      "a = take (rune_length s) s @ b"
      by (auto simp: take_atom.simps [of s] Let_def split: option.splits)
    from False have "s \<noteq> []" "rune_length s \<noteq> 0" "\<not> \<not> is_atext (hd s)" by auto
    from "1.IH" [OF this(1) refl this(2,3) b(1)] have "drop (rune_length s) s = b @ r" by blast
    with b(2) show ?thesis by (metis append.assoc append_take_drop_id)
  qed
qed

text \<open>An accepted address has a local part and a domain around an at sign.\<close>

lemma parses_to_itself_at:
  assumes "parses_to_itself ip s"
  shows "\<exists>local domain. s = local @ ''@'' @ domain \<and> local \<noteq> [] \<and> domain \<noteq> []"
proof -
  from assms obtain local rest where a: "consume_dot_atom s = Some (local, rest)"
    by (cases "consume_dot_atom s") (simp_all add: parses_to_itself_def, metis surj_pair)
  with assms have r: "rest \<noteq> []" "hd rest = CHR ''@''" "tl rest \<noteq> []"
    by (simp_all add: parses_to_itself_def split: if_split_asm)
  from a have "take_atom s = Some (local, rest)" "local \<noteq> []"
    by (auto simp: consume_dot_atom_def split: option.splits if_splits)
  moreover from r have "rest = ''@'' @ tl rest" by (cases rest) auto
  ultimately show ?thesis using take_atom_append r(3) by metis
qed

end
