(* ===== verification/BookingModel.thy ===== *)
theory BookingModel
  imports Slots GoMail
begin

text \<open>
  The booking data of \<open>internal/booking/store.go\<close>, the validator of \<open>validation.go\<close>, the slot
  port of \<open>availability.go\<close> and the side-effect planner of \<open>side_effects.go\<close>. A slice or map the
  code compares with \<open>nil\<close> is an option; a JSON object is its list of members.
\<close>

section \<open>Data\<close>

text \<open>What \<open>encoding/json\<close> decodes into \<open>any\<close>; a number is kept as its text.\<close>

datatype json =
    JNull
  | JBool bool
  | JNum string
  | JStr string
  | JArr "json list"
  | JObj "(string \<times> json) list"

type_synonym json_map = "(string \<times> json) list"

abbreviation primary_fixture_uid :: string where
  "primary_fixture_uid \<equiv> ''mock-booking-personal-basic''"

abbreviation rescheduled_fixture_uid :: string where
  "rescheduled_fixture_uid \<equiv> ''mock-booking-rescheduled''"

abbreviation pending_confirm_fixture_uid :: string where
  "pending_confirm_fixture_uid \<equiv> ''mock-booking-pending-confirm''"

abbreviation pending_decline_fixture_uid :: string where
  "pending_decline_fixture_uid \<equiv> ''mock-booking-pending-decline''"

abbreviation fixture_owner_user_id :: int where
  "fixture_owner_user_id \<equiv> 123"

abbreviation booking_fixture_event_type_id :: int where
  "booking_fixture_event_type_id \<equiv> slot_fixture_event_type_id"

abbreviation booking_fixture_end :: string where
  "booking_fixture_end \<equiv> ''2026-05-01T15:30:00.000Z''"

abbreviation selected_calendar_fixture :: string where
  "selected_calendar_fixture \<equiv> ''selected-calendar-fixture''"

abbreviation destination_calendar_fixture :: string where
  "destination_calendar_fixture \<equiv> ''destination-calendar-fixture''"

record attendee =
  att_id :: int
  att_name :: string
  att_email :: string
  att_time_zone :: string

record booking =
  b_uid :: string
  b_id :: int
  b_title :: string
  b_status :: string
  b_start :: string
  b_end :: string
  b_event_type_id :: int
  b_attendees :: "attendee list option"
  b_responses :: "json_map option"
  b_metadata :: "json_map option"
  b_created_at :: string
  b_updated_at :: string
  b_request_id :: string
  b_selected_calendar :: string
  b_destination_calendar :: string
  b_external_event :: string
  b_owner :: int
  b_hosts :: "int list option"

text \<open>The zero value \<open>Booking{}\<close>, the base of the overrides.\<close>

definition zero_booking :: booking where
  "zero_booking = \<lparr>b_uid = [], b_id = 0, b_title = [], b_status = [], b_start = [], b_end = [],
     b_event_type_id = 0, b_attendees = None, b_responses = None, b_metadata = None,
     b_created_at = [], b_updated_at = [], b_request_id = [], b_selected_calendar = [],
     b_destination_calendar = [], b_external_event = [], b_owner = 0, b_hosts = None\<rparr>"

record create_request =
  cr_event_type_id :: int
  cr_start :: string
  cr_attendee :: attendee
  cr_responses :: "json_map option"
  cr_metadata :: "json_map option"
  cr_idempotency_key :: string
  cr_owner :: int
  cr_hosts :: "int list option"

record cancel_request =
  ca_reason :: string

record reschedule_request =
  rr_start :: string
  rr_reason :: string

record decline_request =
  dr_reason :: string

datatype booking_error =
    BookingInvalid string string
  | BookingSlots slot_error
  | BookingSideEffects string
  | BookingRepository string

section \<open>Validation\<close>

text \<open>What the validator asks of the platform: address literals and time zone names.\<close>

record platform =
  pf_ip :: "string \<Rightarrow> bool"
  pf_tz :: "string \<Rightarrow> bool"

definition secret_echo_field :: "string \<Rightarrow> bool" where
  "secret_echo_field key = (key \<in> set
     [''authorization'', ''apikey'', ''key'', ''plaintextkey'', ''clientsecret'', ''client_secret'',
      ''access_token'', ''accesstoken'', ''refresh_token'', ''refreshtoken'', ''credential'',
      ''credentials'', ''providertoken'', ''webhooksecret'', ''password'', ''newpassword'',
      ''currentpassword'', ''secret''])"

fun has_secret_field :: "json \<Rightarrow> bool"
  and has_secret_member :: "json_map \<Rightarrow> bool"
  and has_secret_item :: "json list \<Rightarrow> bool" where
  "has_secret_field (JObj members) = has_secret_member members"
| "has_secret_field (JArr items) = has_secret_item items"
| "has_secret_field _ = False"
| "has_secret_member [] = False"
| "has_secret_member ((key, child) # rest) =
     (if secret_echo_field (to_lower_ascii key) \<or> has_secret_field child then True
      else has_secret_member rest)"
| "has_secret_item [] = False"
| "has_secret_item (child # rest) = (if has_secret_field child then True else has_secret_item rest)"

text \<open>A nil map has no members.\<close>

abbreviation secret_in :: "json_map option \<Rightarrow> bool" where
  "secret_in m \<equiv> (case m of None \<Rightarrow> False | Some members \<Rightarrow> has_secret_member members)"

definition booking_validate_timestamp :: "string \<Rightarrow> string \<Rightarrow> booking_error option" where
  "booking_validate_timestamp value code =
     (if value = [] then None
      else if parse_rfc3339 value = None
      then Some (BookingInvalid code ''Start time must be an RFC3339 timestamp'') else None)"

definition validate_attendee :: "platform \<Rightarrow> attendee \<Rightarrow> booking_error option" where
  "validate_attendee pf a =
     (if att_email a \<noteq> [] \<and> \<not> parses_to_itself (pf_ip pf) (att_email a)
      then Some (BookingInvalid ''INVALID_ATTENDEE_EMAIL'' ''Attendee email is invalid'')
      else if att_time_zone a \<noteq> [] \<and> \<not> valid_time_zone (pf_tz pf) (att_time_zone a)
      then Some (BookingInvalid ''INVALID_TIME_ZONE'' ''Attendee time zone is invalid'')
      else None)"

definition validate_create :: "platform \<Rightarrow> create_request \<Rightarrow> booking_error option" where
  "validate_create pf req =
     (if cr_event_type_id req \<noteq> 0 \<and> cr_event_type_id req \<noteq> booking_fixture_event_type_id
      then Some (BookingInvalid ''INVALID_EVENT_TYPE'' ''Event type is not available for booking'')
      else case booking_validate_timestamp (cr_start req) ''INVALID_START_TIME'' of
        Some e \<Rightarrow> Some e
      | None \<Rightarrow>
          (case validate_attendee pf (cr_attendee req) of
             Some e \<Rightarrow> Some e
           | None \<Rightarrow>
               if secret_in (cr_responses req) \<or> secret_in (cr_metadata req)
               then Some (BookingInvalid ''SECRET_FIELD_NOT_ALLOWED''
                 ''Secret-bearing fields are not allowed in booking responses or metadata'')
               else None))"

text \<open>Cancel, confirm and decline requests are always valid.\<close>

definition validate_reschedule :: "reschedule_request \<Rightarrow> booking_error option" where
  "validate_reschedule req = booking_validate_timestamp (rr_start req) ''INVALID_START_TIME''"

section \<open>Ports\<close>

record slot_availability_request =
  sa_request_id :: string
  sa_event_type_id :: int
  sa_start :: string
  sa_time_zone :: string

text \<open>\<open>SlotServiceAvailabilityPort.IsSlotAvailable\<close>; no service means a fresh fixture service.\<close>

definition is_slot_available ::
    "(string \<Rightarrow> bool) \<Rightarrow> slot_service option \<Rightarrow> slot_availability_request \<Rightarrow> booking_error + bool" where
  "is_slot_available tz service req =
     (let service = (case service of None \<Rightarrow> \<lparr>ss_repo = None, ss_busy_times = None\<rparr> | Some s \<Rightarrow> s)
      in case is_available tz service (sa_request_id req)
           \<lparr>ar_event_type_id = sa_event_type_id req, ar_start = sa_start req,
            ar_time_zone = sa_time_zone req\<rparr> of
        Inl e \<Rightarrow> Inl (BookingSlots e)
      | Inr b \<Rightarrow> Inr b)"

datatype side_effect_name =
    SideEffectCalendarCancelled
  | SideEffectEmailCancelled
  | SideEffectWebhookBookingCancelled
  | SideEffectCalendarRescheduled
  | SideEffectEmailRescheduled
  | SideEffectWebhookBookingRescheduled
  | SideEffectEmailConfirmed
  | SideEffectWebhookBookingConfirmed
  | SideEffectEmailDeclined
  | SideEffectWebhookBookingDeclined

fun side_effect_string :: "side_effect_name \<Rightarrow> string" where
  "side_effect_string SideEffectCalendarCancelled = ''calendar.cancelled''"
| "side_effect_string SideEffectEmailCancelled = ''email.cancelled''"
| "side_effect_string SideEffectWebhookBookingCancelled = ''webhook.booking.cancelled''"
| "side_effect_string SideEffectCalendarRescheduled = ''calendar.rescheduled''"
| "side_effect_string SideEffectEmailRescheduled = ''email.rescheduled''"
| "side_effect_string SideEffectWebhookBookingRescheduled = ''webhook.booking.rescheduled''"
| "side_effect_string SideEffectEmailConfirmed = ''email.confirmed''"
| "side_effect_string SideEffectWebhookBookingConfirmed = ''webhook.booking.confirmed''"
| "side_effect_string SideEffectEmailDeclined = ''email.declined''"
| "side_effect_string SideEffectWebhookBookingDeclined = ''webhook.booking.declined''"

record planned_side_effect =
  pe_name :: side_effect_name
  pe_booking_uid :: string
  pe_request_id :: string
  pe_payload :: json_map

record side_effect_snapshot =
  sn_uid :: string
  sn_status :: string
  sn_start :: string
  sn_end :: string
  sn_event_type_id :: int
  sn_request_id :: string
  sn_selected_calendar :: string
  sn_destination_calendar :: string
  sn_external_event :: string

record side_effect_port =
  pl_cancelled :: "side_effect_snapshot \<Rightarrow> string \<Rightarrow> booking_error + planned_side_effect list"
  pl_rescheduled ::
    "side_effect_snapshot \<Rightarrow> side_effect_snapshot \<Rightarrow> string \<Rightarrow> booking_error + planned_side_effect list"
  pl_confirmed :: "side_effect_snapshot \<Rightarrow> booking_error + planned_side_effect list"
  pl_declined :: "side_effect_snapshot \<Rightarrow> string \<Rightarrow> booking_error + planned_side_effect list"

definition snapshot_of :: "booking \<Rightarrow> side_effect_snapshot" where
  "snapshot_of b =
     \<lparr>sn_uid = b_uid b, sn_status = b_status b, sn_start = b_start b, sn_end = b_end b,
      sn_event_type_id = b_event_type_id b, sn_request_id = b_request_id b,
      sn_selected_calendar = b_selected_calendar b,
      sn_destination_calendar = b_destination_calendar b, sn_external_event = b_external_event b\<rparr>"

definition side_effect_names :: "planned_side_effect list \<Rightarrow> string list" where
  "side_effect_names effects = map (\<lambda>e. side_effect_string (pe_name e)) effects"

definition payload_hint :: "string \<Rightarrow> string \<Rightarrow> json_map \<Rightarrow> json_map" where
  "payload_hint key value m = (if value \<noteq> [] then gm_put key (JStr value) m else m)"

definition calendar_payload_hints :: "side_effect_snapshot \<Rightarrow> json_map" where
  "calendar_payload_hints sn =
     payload_hint ''externalEventId'' (sn_external_event sn)
       (payload_hint ''destinationCalendarRef'' (sn_destination_calendar sn)
         (payload_hint ''selectedCalendarRef'' (sn_selected_calendar sn) []))"

definition planned :: "side_effect_name \<Rightarrow> side_effect_snapshot \<Rightarrow> json_map \<Rightarrow> planned_side_effect" where
  "planned name sn payload =
     \<lparr>pe_name = name, pe_booking_uid = sn_uid sn, pe_request_id = sn_request_id sn,
      pe_payload = payload\<rparr>"

definition plan_booking_cancelled :: "side_effect_snapshot \<Rightarrow> string \<Rightarrow> planned_side_effect list" where
  "plan_booking_cancelled sn reason =
     [planned SideEffectCalendarCancelled sn (calendar_payload_hints sn),
      planned SideEffectEmailCancelled sn [(''cancellationReason'', JStr reason)],
      planned SideEffectWebhookBookingCancelled sn [(''cancellationReason'', JStr reason)]]"

definition plan_booking_rescheduled ::
    "side_effect_snapshot \<Rightarrow> side_effect_snapshot \<Rightarrow> string \<Rightarrow> planned_side_effect list" where
  "plan_booking_rescheduled old new reason =
     (let payload = gm_put ''rescheduleUid'' (JStr (sn_uid old)) (calendar_payload_hints new);
          payload = payload_hint ''previousExternalEventId'' (sn_external_event old) payload;
          note = [(''rescheduleUid'', JStr (sn_uid old)), (''reschedulingReason'', JStr reason)]
      in [planned SideEffectCalendarRescheduled new payload,
          planned SideEffectEmailRescheduled new note,
          planned SideEffectWebhookBookingRescheduled new note])"

definition plan_booking_confirmed :: "side_effect_snapshot \<Rightarrow> planned_side_effect list" where
  "plan_booking_confirmed sn =
     [planned SideEffectEmailConfirmed sn [], planned SideEffectWebhookBookingConfirmed sn []]"

definition plan_booking_declined :: "side_effect_snapshot \<Rightarrow> string \<Rightarrow> planned_side_effect list" where
  "plan_booking_declined sn reason =
     [planned SideEffectEmailDeclined sn [(''reason'', JStr reason)],
      planned SideEffectWebhookBookingDeclined sn [(''reason'', JStr reason)]]"

definition fixture_side_effect_port :: side_effect_port where
  "fixture_side_effect_port =
     \<lparr>pl_cancelled = (\<lambda>sn reason. Inr (plan_booking_cancelled sn reason)),
      pl_rescheduled = (\<lambda>old new reason. Inr (plan_booking_rescheduled old new reason)),
      pl_confirmed = (\<lambda>sn. Inr (plan_booking_confirmed sn)),
      pl_declined = (\<lambda>sn reason. Inr (plan_booking_declined sn reason))\<rparr>"

end
