(* ===== verification/BookingStore.thy ===== *)
theory BookingStore
  imports BookingModel
begin

text \<open>
  The booking store (\<open>internal/booking/store.go\<close>). Each method holds the store's mutex, so it is
  one step from the store to its result and the store after it. A repository is a set of
  functions over a database state \<open>'r\<close>; the slot and side-effect ports are functions.
\<close>

section \<open>The store\<close>

record 'r booking_repository =
  br_read_by_uid :: "string \<Rightarrow> 'r \<Rightarrow> booking_error + booking option"
  br_read_by_key :: "string \<Rightarrow> 'r \<Rightarrow> booking_error + booking option"
  br_save_created ::
    "booking \<Rightarrow> string \<Rightarrow> planned_side_effect list \<Rightarrow> 'r \<Rightarrow> (booking_error + booking \<times> bool) \<times> 'r"
  br_save :: "planned_side_effect list \<Rightarrow> booking list \<Rightarrow> 'r \<Rightarrow> booking_error option \<times> 'r"

record 'r booking_store =
  bs_repo :: "'r booking_repository option"
  bs_slots :: "slot_availability_request \<Rightarrow> booking_error + bool"
  bs_effects :: side_effect_port
  bs_bookings :: "string \<rightharpoonup> booking"
  bs_idempotency :: "string \<rightharpoonup> string"
  bs_db :: 'r

text \<open>\<open>NewStore\<close>: a missing port option leaves the fixture port.\<close>

definition new_booking_store ::
    "platform \<Rightarrow> 'r booking_repository option \<Rightarrow>
     (slot_availability_request \<Rightarrow> booking_error + bool) option \<Rightarrow> side_effect_port option \<Rightarrow> 'r \<Rightarrow>
     'r booking_store" where
  "new_booking_store pf repo slot_port effect_port db =
     \<lparr>bs_repo = repo,
      bs_slots = (case slot_port of None \<Rightarrow> is_slot_available (pf_tz pf) None | Some p \<Rightarrow> p),
      bs_effects = (case effect_port of None \<Rightarrow> fixture_side_effect_port | Some p \<Rightarrow> p),
      bs_bookings = Map.empty, bs_idempotency = Map.empty, bs_db = db\<rparr>"

section \<open>Booking values\<close>

definition override_text :: "string \<Rightarrow> string \<Rightarrow> string" where
  "override_text base new = (if new \<noteq> [] then new else base)"

definition override_int :: "int \<Rightarrow> int \<Rightarrow> int" where
  "override_int base new = (if new \<noteq> 0 then new else base)"

definition override_ref :: "'a option \<Rightarrow> 'a option \<Rightarrow> 'a option" where
  "override_ref base new = (case new of Some x \<Rightarrow> Some x | None \<Rightarrow> base)"

definition merge_booking :: "booking \<Rightarrow> booking \<Rightarrow> booking" where
  "merge_booking base ov =
     \<lparr>b_uid = override_text (b_uid base) (b_uid ov),
      b_id = override_int (b_id base) (b_id ov),
      b_title = override_text (b_title base) (b_title ov),
      b_status = override_text (b_status base) (b_status ov),
      b_start = override_text (b_start base) (b_start ov),
      b_end = override_text (b_end base) (b_end ov),
      b_event_type_id = override_int (b_event_type_id base) (b_event_type_id ov),
      b_attendees = override_ref (b_attendees base) (b_attendees ov),
      b_responses = override_ref (b_responses base) (b_responses ov),
      b_metadata = override_ref (b_metadata base) (b_metadata ov),
      b_created_at = override_text (b_created_at base) (b_created_at ov),
      b_updated_at = override_text (b_updated_at base) (b_updated_at ov),
      b_request_id = override_text (b_request_id base) (b_request_id ov),
      b_selected_calendar = override_text (b_selected_calendar base) (b_selected_calendar ov),
      b_destination_calendar =
        override_text (b_destination_calendar base) (b_destination_calendar ov),
      b_external_event = override_text (b_external_event base) (b_external_event ov),
      b_owner = override_int (b_owner base) (b_owner ov),
      b_hosts = override_ref (b_hosts base) (b_hosts ov)\<rparr>"

definition fixture_external_event :: "string \<Rightarrow> string" where
  "fixture_external_event uid = (if uid = [] then [] else ''google-event-'' @ uid)"

definition fixture_attendee :: attendee where
  "fixture_attendee = \<lparr>att_id = 321, att_name = ''Fixture Attendee'',
     att_email = ''fixture-attendee@example.test'', att_time_zone = slot_fixture_time_zone\<rparr>"

definition fixture_base :: "string \<Rightarrow> booking" where
  "fixture_base request_id =
     \<lparr>b_uid = primary_fixture_uid, b_id = 987, b_title = ''Fixture Event'', b_status = ''accepted'',
      b_start = slot_fixture_time, b_end = booking_fixture_end,
      b_event_type_id = booking_fixture_event_type_id, b_attendees = Some [fixture_attendee],
      b_responses = Some [(''name'', JStr ''Fixture Attendee''),
        (''email'', JStr ''fixture-attendee@example.test'')],
      b_metadata = Some [(''fixture'', JStr ''personal-basic'')],
      b_created_at = ''2026-01-01T00:00:00.000Z'', b_updated_at = ''2026-01-01T00:00:00.000Z'',
      b_request_id = request_id, b_selected_calendar = selected_calendar_fixture,
      b_destination_calendar = destination_calendar_fixture, b_external_event = [],
      b_owner = fixture_owner_user_id, b_hosts = Some [fixture_owner_user_id]\<rparr>"

definition fixture_booking :: "string \<Rightarrow> booking \<Rightarrow> booking" where
  "fixture_booking request_id overrides =
     (let merged = merge_booking (fixture_base request_id) overrides;
          merged = (if b_selected_calendar merged = []
            then merged\<lparr>b_selected_calendar := selected_calendar_fixture\<rparr> else merged);
          merged = (if b_destination_calendar merged = []
            then merged\<lparr>b_destination_calendar := destination_calendar_fixture\<rparr> else merged)
      in if b_external_event merged = []
         then merged\<lparr>b_external_event := fixture_external_event (b_uid merged)\<rparr> else merged)"

definition pending_fixture_id :: "string \<Rightarrow> int" where
  "pending_fixture_id uid = (if uid = pending_decline_fixture_uid then 989 else 988)"

definition pending_fixture_booking :: "string \<Rightarrow> string \<Rightarrow> booking" where
  "pending_fixture_booking request_id uid =
     fixture_booking request_id (zero_booking
       \<lparr>b_uid := uid, b_id := pending_fixture_id uid, b_status := ''pending'',
        b_start := ''2026-05-03T15:00:00.000Z'', b_end := ''2026-05-03T15:30:00.000Z'',
        b_metadata := Some [(''fixture'', JStr ''pending-host-action'')]\<rparr>)"

definition end_for_start :: "string \<Rightarrow> booking_error + string" where
  "end_for_start start =
     (case parse_rfc3339 start of
        None \<Rightarrow> Inl (BookingInvalid ''INVALID_START_TIME'' ''Start time must be an RFC3339 timestamp'')
      | Some parsed \<Rightarrow> Inr (wire_format (add_ns parsed (slot_fixture_duration * minute))))"

definition booking_time_zone :: "booking \<Rightarrow> string" where
  "booking_time_zone b =
     (case find (\<lambda>a. att_time_zone a \<noteq> []) (case b_attendees b of None \<Rightarrow> [] | Some as \<Rightarrow> as) of
        Some a \<Rightarrow> att_time_zone a
      | None \<Rightarrow> slot_fixture_time_zone)"

definition confirmable_status :: "string \<Rightarrow> bool" where
  "confirmable_status status = (status = ''pending'' \<or> status = ''awaiting_host'')"

section \<open>Lookup\<close>

definition put_booking :: "booking \<Rightarrow> 'r booking_store \<Rightarrow> 'r booking_store" where
  "put_booking b s = s\<lparr>bs_bookings := (bs_bookings s)(b_uid b \<mapsto> b)\<rparr>"

text \<open>The bookings that exist without having been created.\<close>

definition fixture_by_uid :: "string \<Rightarrow> string \<Rightarrow> booking option" where
  "fixture_by_uid request_id uid =
     (if uid = primary_fixture_uid then Some (fixture_booking request_id zero_booking)
      else if uid = pending_confirm_fixture_uid \<or> uid = pending_decline_fixture_uid
      then Some (pending_fixture_booking request_id uid)
      else None)"

definition find_booking ::
    "string \<Rightarrow> string \<Rightarrow> 'r booking_store \<Rightarrow> (booking_error + booking option) \<times> 'r booking_store" where
  "find_booking request_id uid s =
     (case bs_bookings s uid of
        Some b \<Rightarrow> (Inr (Some b), s)
      | None \<Rightarrow>
          let stored = (case bs_repo s of None \<Rightarrow> Inr None | Some repo \<Rightarrow> br_read_by_uid repo uid (bs_db s))
          in case stored of
            Inl e \<Rightarrow> (Inl e, s)
          | Inr (Some b) \<Rightarrow> (Inr (Some b), put_booking b s)
          | Inr None \<Rightarrow>
              (case fixture_by_uid request_id uid of
                 None \<Rightarrow> (Inr None, s)
               | Some created \<Rightarrow>
                   (case bs_repo s of
                      None \<Rightarrow> (Inr (Some created), put_booking created s)
                    | Some repo \<Rightarrow>
                        (case br_save_created repo created [] [] (bs_db s) of
                           (Inl e, db) \<Rightarrow> (Inl e, s\<lparr>bs_db := db\<rparr>)
                         | (Inr _, db) \<Rightarrow>
                             (Inr (Some created), put_booking created (s\<lparr>bs_db := db\<rparr>))))))"

definition read_booking ::
    "string \<Rightarrow> string \<Rightarrow> 'r booking_store \<Rightarrow> (booking_error + booking option) \<times> 'r booking_store" where
  "read_booking request_id uid s = find_booking request_id uid s"

section \<open>Create\<close>

text \<open>The first part of \<open>Create\<close>: a known idempotency key replays the booking it made.\<close>

definition cached_replay :: "string \<Rightarrow> 'r booking_store \<Rightarrow> booking option" where
  "cached_replay key s =
     (case bs_idempotency s key of None \<Rightarrow> None | Some uid \<Rightarrow> bs_bookings s uid)"

definition remember_key :: "string \<Rightarrow> string \<Rightarrow> 'r booking_store \<Rightarrow> 'r booking_store" where
  "remember_key key uid s =
     (if key \<noteq> [] then s\<lparr>bs_idempotency := (bs_idempotency s)(key \<mapsto> uid)\<rparr> else s)"

definition replay_created ::
    "string \<Rightarrow> 'r booking_store \<Rightarrow> (booking_error + booking option) \<times> 'r booking_store" where
  "replay_created key s =
     (if key = [] then (Inr None, s)
      else case cached_replay key s of
        Some b \<Rightarrow> (Inr (Some b), s)
      | None \<Rightarrow>
          (case bs_repo s of
             None \<Rightarrow> (Inr None, s)
           | Some repo \<Rightarrow>
               (case br_read_by_key repo key (bs_db s) of
                  Inl e \<Rightarrow> (Inl e, s)
                | Inr None \<Rightarrow> (Inr None, s)
                | Inr (Some b) \<Rightarrow> (Inr (Some b), remember_key key (b_uid b) (put_booking b s)))))"

definition complete_attendee :: "attendee \<Rightarrow> attendee" where
  "complete_attendee a =
     \<lparr>att_id = 321,
      att_name = (if att_name a = [] then ''Fixture Attendee'' else att_name a),
      att_email = (if att_email a = [] then ''fixture-attendee@example.test'' else att_email a),
      att_time_zone = (if att_time_zone a = [] then slot_fixture_time_zone else att_time_zone a)\<rparr>"

text \<open>The middle part of \<open>Create\<close>: validation, defaults, the slot, the booking to store.\<close>

definition prepare_created ::
    "platform \<Rightarrow> (slot_availability_request \<Rightarrow> booking_error + bool) \<Rightarrow> string \<Rightarrow> create_request
      \<Rightarrow> booking_error + booking" where
  "prepare_created pf available request_id req =
     (case validate_create pf req of
        Some e \<Rightarrow> Inl e
      | None \<Rightarrow>
          let attendee = complete_attendee (cr_attendee req);
              start = (if cr_start req = [] then slot_fixture_time else cr_start req);
              event_type = (if cr_event_type_id req = 0 then booking_fixture_event_type_id
                else cr_event_type_id req)
          in case available \<lparr>sa_request_id = request_id, sa_event_type_id = event_type,
                sa_start = start, sa_time_zone = att_time_zone attendee\<rparr> of
            Inl e \<Rightarrow> Inl e
          | Inr ok \<Rightarrow>
              if \<not> ok then Inl (BookingInvalid ''SLOT_UNAVAILABLE'' ''Requested slot is unavailable'')
              else case end_for_start start of
                Inl e \<Rightarrow> Inl e
              | Inr end_at \<Rightarrow>
                  Inr (fixture_booking request_id (zero_booking
                    \<lparr>b_start := start, b_end := end_at, b_owner := cr_owner req,
                     b_hosts := cr_hosts req, b_attendees := Some [attendee],
                     b_responses := Some (case cr_responses req of None \<Rightarrow> [] | Some m \<Rightarrow> m),
                     b_metadata := Some (case cr_metadata req of None \<Rightarrow> [] | Some m \<Rightarrow> m)\<rparr>)))"

definition create_booking ::
    "platform \<Rightarrow> string \<Rightarrow> create_request \<Rightarrow> 'r booking_store
      \<Rightarrow> (booking_error + booking \<times> bool) \<times> 'r booking_store" where
  "create_booking pf request_id req s =
     (case replay_created (cr_idempotency_key req) s of
        (Inl e, s) \<Rightarrow> (Inl e, s)
      | (Inr (Some b), s) \<Rightarrow> (Inr (b, True), s)
      | (Inr None, s) \<Rightarrow>
          (case prepare_created pf (bs_slots s) request_id req of
             Inl e \<Rightarrow> (Inl e, s)
           | Inr created \<Rightarrow>
               (case bs_repo s of
                  None \<Rightarrow>
                    (Inr (created, False),
                     remember_key (cr_idempotency_key req) (b_uid created) (put_booking created s))
                | Some repo \<Rightarrow>
                    (case br_save_created repo created (cr_idempotency_key req) [] (bs_db s) of
                       (Inl e, db) \<Rightarrow> (Inl e, s\<lparr>bs_db := db\<rparr>)
                     | (Inr (persisted, duplicate), db) \<Rightarrow>
                         let s = s\<lparr>bs_db := db\<rparr>; b = (if duplicate then persisted else created)
                         in (Inr (b, duplicate),
                             remember_key (cr_idempotency_key req) (b_uid b) (put_booking b s))))))"

section \<open>Lifecycle operations\<close>

text \<open>Saving what an operation planned; without repository nothing is saved.\<close>

definition save_bookings ::
    "planned_side_effect list \<Rightarrow> booking list \<Rightarrow> 'r booking_store
      \<Rightarrow> booking_error option \<times> 'r booking_store" where
  "save_bookings effects bs s =
     (case bs_repo s of
        None \<Rightarrow> (None, s)
      | Some repo \<Rightarrow> (case br_save repo effects bs (bs_db s) of (r, db) \<Rightarrow> (r, s\<lparr>bs_db := db\<rparr>)))"

record lifecycle_result =
  lr_booking :: booking
  lr_side_effects :: "string list"

record reschedule_result =
  rs_old :: booking
  rs_new :: booking
  rs_side_effects :: "string list"

definition cancel_booking ::
    "string \<Rightarrow> string \<Rightarrow> cancel_request \<Rightarrow> 'r booking_store
      \<Rightarrow> (booking_error + lifecycle_result option) \<times> 'r booking_store" where
  "cancel_booking request_id uid req s =
     (case find_booking request_id uid s of
        (Inl e, s) \<Rightarrow> (Inl e, s)
      | (Inr None, s) \<Rightarrow> (Inr None, s)
      | (Inr (Some existing), s) \<Rightarrow>
          let cancelled = fixture_booking request_id (merge_booking existing (zero_booking
                \<lparr>b_status := ''cancelled'', b_updated_at := ''2026-01-01T00:05:00.000Z''\<rparr>))
          in case pl_cancelled (bs_effects s) (snapshot_of cancelled) (ca_reason req) of
            Inl e \<Rightarrow> (Inl e, s)
          | Inr effects \<Rightarrow>
              (case save_bookings effects [cancelled] s of
                 (Some e, s) \<Rightarrow> (Inl e, s)
               | (None, s) \<Rightarrow>
                   (Inr (Some \<lparr>lr_booking = cancelled, lr_side_effects = side_effect_names effects\<rparr>),
                    s\<lparr>bs_bookings := (bs_bookings s)(uid \<mapsto> cancelled)\<rparr>)))"

definition reschedule_booking ::
    "string \<Rightarrow> string \<Rightarrow> reschedule_request \<Rightarrow> 'r booking_store
      \<Rightarrow> (booking_error + reschedule_result option) \<times> 'r booking_store" where
  "reschedule_booking request_id old_uid req s =
     (case find_booking request_id old_uid s of
        (Inl e, s) \<Rightarrow> (Inl e, s)
      | (Inr None, s) \<Rightarrow> (Inr None, s)
      | (Inr (Some existing), s) \<Rightarrow>
          (case validate_reschedule req of
             Some e \<Rightarrow> (Inl e, s)
           | None \<Rightarrow>
               let old = fixture_booking request_id (merge_booking existing (zero_booking
                     \<lparr>b_status := ''cancelled'', b_updated_at := ''2026-01-01T00:10:00.000Z''\<rparr>));
                   start = (if rr_start req = [] then ''2026-05-02T15:00:00.000Z'' else rr_start req);
                   event_type = (if b_event_type_id existing = 0 then booking_fixture_event_type_id
                     else b_event_type_id existing)
               in case bs_slots s \<lparr>sa_request_id = request_id, sa_event_type_id = event_type,
                     sa_start = start, sa_time_zone = booking_time_zone existing\<rparr> of
                 Inl e \<Rightarrow> (Inl e, s)
               | Inr ok \<Rightarrow>
                   if \<not> ok
                   then (Inl (BookingInvalid ''SLOT_UNAVAILABLE'' ''Requested slot is unavailable''), s)
                   else (case end_for_start start of
                     Inl e \<Rightarrow> (Inl e, s)
                   | Inr end_at \<Rightarrow>
                       let new = fixture_booking request_id (merge_booking existing (zero_booking
                             \<lparr>b_uid := rescheduled_fixture_uid, b_status := ''accepted'',
                              b_start := start, b_end := end_at,
                              b_updated_at := ''2026-01-01T00:10:00.000Z'',
                              b_external_event := fixture_external_event rescheduled_fixture_uid\<rparr>))
                       in case pl_rescheduled (bs_effects s) (snapshot_of old) (snapshot_of new)
                             (rr_reason req) of
                         Inl e \<Rightarrow> (Inl e, s)
                       | Inr effects \<Rightarrow>
                           (case save_bookings effects [old, new] s of
                              (Some e, s) \<Rightarrow> (Inl e, s)
                            | (None, s) \<Rightarrow>
                                (Inr (Some \<lparr>rs_old = old, rs_new = new,
                                   rs_side_effects = side_effect_names effects\<rparr>),
                                 s\<lparr>bs_bookings :=
                                   (bs_bookings s)(old_uid \<mapsto> old, b_uid new \<mapsto> new)\<rparr>)))))"

definition confirm_booking ::
    "string \<Rightarrow> string \<Rightarrow> 'r booking_store
      \<Rightarrow> (booking_error + lifecycle_result option) \<times> 'r booking_store" where
  "confirm_booking request_id uid s =
     (case find_booking request_id uid s of
        (Inl e, s) \<Rightarrow> (Inl e, s)
      | (Inr None, s) \<Rightarrow> (Inr None, s)
      | (Inr (Some existing), s) \<Rightarrow>
          if \<not> confirmable_status (b_status existing)
          then (Inl (BookingInvalid ''INVALID_BOOKING_STATUS'' ''Booking is not confirmable''), s)
          else
            let confirmed = fixture_booking request_id (merge_booking existing (zero_booking
                  \<lparr>b_status := ''accepted'', b_updated_at := ''2026-01-01T00:15:00.000Z''\<rparr>))
            in case pl_confirmed (bs_effects s) (snapshot_of confirmed) of
              Inl e \<Rightarrow> (Inl e, s)
            | Inr effects \<Rightarrow>
                (case save_bookings effects [confirmed] s of
                   (Some e, s) \<Rightarrow> (Inl e, s)
                 | (None, s) \<Rightarrow>
                     (Inr (Some \<lparr>lr_booking = confirmed, lr_side_effects = side_effect_names effects\<rparr>),
                      s\<lparr>bs_bookings := (bs_bookings s)(uid \<mapsto> confirmed)\<rparr>)))"

definition decline_booking ::
    "string \<Rightarrow> string \<Rightarrow> decline_request \<Rightarrow> 'r booking_store
      \<Rightarrow> (booking_error + lifecycle_result option) \<times> 'r booking_store" where
  "decline_booking request_id uid req s =
     (case find_booking request_id uid s of
        (Inl e, s) \<Rightarrow> (Inl e, s)
      | (Inr None, s) \<Rightarrow> (Inr None, s)
      | (Inr (Some existing), s) \<Rightarrow>
          if \<not> confirmable_status (b_status existing)
          then (Inl (BookingInvalid ''INVALID_BOOKING_STATUS'' ''Booking is not declinable''), s)
          else
            let declined = fixture_booking request_id (merge_booking existing (zero_booking
                  \<lparr>b_status := ''rejected'', b_updated_at := ''2026-01-01T00:20:00.000Z''\<rparr>))
            in case pl_declined (bs_effects s) (snapshot_of declined) (dr_reason req) of
              Inl e \<Rightarrow> (Inl e, s)
            | Inr effects \<Rightarrow>
                (case save_bookings effects [declined] s of
                   (Some e, s) \<Rightarrow> (Inl e, s)
                 | (None, s) \<Rightarrow>
                     (Inr (Some \<lparr>lr_booking = declined, lr_side_effects = side_effect_names effects\<rparr>),
                      s\<lparr>bs_bookings := (bs_bookings s)(uid \<mapsto> declined)\<rparr>)))"

end
