(* ===== verification/GoJson.thy ===== *)
theory GoJson
  imports BookingModel
begin

text \<open>
  What the program uses of \<open>encoding/json\<close>: how a JSON value is assigned to a Go value and which value
  a Go struct is encoded as. The text of a value is left to the library: where the code keeps or sends
  the text, the model has the value.
\<close>

section \<open>Decoding\<close>

text \<open>\<open>strconv.ParseInt\<close> in base 10 for 64 bits, which \<open>Atoi\<close> is.\<close>

definition parse_int :: "string \<Rightarrow> int option" where
  "parse_int s =
     (let negative = has_prefix s ''-'';
          digits = (if negative \<or> has_prefix s ''+'' then tl s else s);
          n = (if negative then - num_of digits else num_of digits)
      in if digits \<noteq> [] \<and> list_all is_digit digits \<and> - (2 ^ 63) \<le> n \<and> n < 2 ^ 63 then Some n else None)"

text \<open>
  The comparison of field names: simple case folding, as far as an ASCII name can tell. The runes
  outside ASCII that fold to a letter are U+017F (to \<open>s\<close>) and U+212A (to \<open>k\<close>).
\<close>

fun fold_name :: "string \<Rightarrow> string" where
  "fold_name [] = []"
| "fold_name (c # cs) =
     (if (65 :: nat) \<le> of_char c \<and> of_char c \<le> (90 :: nat)
      then char_of ((of_char c :: nat) + 32) # fold_name cs
      else if has_prefix (c # cs) [byte 197, byte 191] then CHR ''s'' # fold_name (drop 1 cs)
      else if has_prefix (c # cs) [byte 226, byte 132, byte 170] then CHR ''k'' # fold_name (drop 2 cs)
      else c # fold_name cs)"

text \<open>
  A value decoded into \<open>any\<close>: of the members with the same name the last one counts, and a number
  must be one that \<open>ParseFloat\<close> can represent.
\<close>

fun any_value :: "(string \<Rightarrow> bool) \<Rightarrow> json \<Rightarrow> json option"
  and any_members :: "(string \<Rightarrow> bool) \<Rightarrow> json_map \<Rightarrow> json_map \<Rightarrow> json_map option"
  and any_items :: "(string \<Rightarrow> bool) \<Rightarrow> json list \<Rightarrow> json list option" where
  "any_value float (JObj ms) = map_option JObj (any_members float ms [])"
| "any_value float (JArr xs) = map_option JArr (any_items float xs)"
| "any_value float (JNum t) = (if float t then Some (JNum t) else None)"
| "any_value float v = Some v"
| "any_members float [] acc = Some acc"
| "any_members float ((k, v) # ms) acc =
     (case any_value float v of None \<Rightarrow> None | Some w \<Rightarrow> any_members float ms (gm_put k w acc))"
| "any_items float [] = Some []"
| "any_items float (v # vs) =
     (case any_value float v of None \<Rightarrow> None
      | Some w \<Rightarrow> (case any_items float vs of None \<Rightarrow> None | Some ws \<Rightarrow> Some (w # ws)))"

text \<open>Into a string, an integer and a map; \<open>null\<close> leaves a scalar and clears a map.\<close>

fun decode_string :: "json \<Rightarrow> string \<Rightarrow> string option" where
  "decode_string JNull old = Some old"
| "decode_string (JStr s) old = Some s"
| "decode_string _ old = None"

fun decode_int :: "json \<Rightarrow> int \<Rightarrow> int option" where
  "decode_int JNull old = Some old"
| "decode_int (JNum t) old = parse_int t"
| "decode_int _ old = None"

fun decode_map :: "(string \<Rightarrow> bool) \<Rightarrow> json \<Rightarrow> json_map option \<Rightarrow> json_map option option" where
  "decode_map float JNull old = Some None"
| "decode_map float (JObj ms) old =
     map_option Some (any_members float ms (case old of None \<Rightarrow> [] | Some m \<Rightarrow> m))"
| "decode_map float _ old = None"

text \<open>Into a struct: the fields with what an assignment to each does.\<close>

type_synonym 'a struct_fields = "(string \<times> (json \<Rightarrow> 'a \<Rightarrow> 'a option)) list"

fun decode_members :: "bool \<Rightarrow> 'a struct_fields \<Rightarrow> json_map \<Rightarrow> 'a \<Rightarrow> 'a option" where
  "decode_members strict fs [] x = Some x"
| "decode_members strict fs ((k, v) # ms) x =
     (case find (\<lambda>(name, _). fold_name name = fold_name k) fs of
        None \<Rightarrow> if strict then None else decode_members strict fs ms x
      | Some (_, assign) \<Rightarrow>
          (case assign v x of None \<Rightarrow> None | Some y \<Rightarrow> decode_members strict fs ms y))"

fun decode_struct :: "bool \<Rightarrow> 'a struct_fields \<Rightarrow> json \<Rightarrow> 'a \<Rightarrow> 'a option" where
  "decode_struct strict fs JNull x = Some x"
| "decode_struct strict fs (JObj ms) x = decode_members strict fs ms x"
| "decode_struct strict fs _ x = None"

text \<open>Into a slice that is nil before.\<close>

fun decode_items :: "(json \<Rightarrow> 'a option) \<Rightarrow> json list \<Rightarrow> 'a list option" where
  "decode_items dec [] = Some []"
| "decode_items dec (v # vs) =
     (case dec v of None \<Rightarrow> None
      | Some x \<Rightarrow> (case decode_items dec vs of None \<Rightarrow> None | Some xs \<Rightarrow> Some (x # xs)))"

fun decode_slice :: "(json \<Rightarrow> 'a option) \<Rightarrow> json \<Rightarrow> 'a list option option" where
  "decode_slice dec JNull = Some None"
| "decode_slice dec (JArr vs) = map_option Some (decode_items dec vs)"
| "decode_slice dec _ = None"

definition string_field :: "string \<Rightarrow> ('a \<Rightarrow> string) \<Rightarrow> (string \<Rightarrow> 'a \<Rightarrow> 'a) \<Rightarrow>
    string \<times> (json \<Rightarrow> 'a \<Rightarrow> 'a option)" where
  "string_field name get put = (name, \<lambda>v x. map_option (\<lambda>s. put s x) (decode_string v (get x)))"

definition int_field :: "string \<Rightarrow> ('a \<Rightarrow> int) \<Rightarrow> (int \<Rightarrow> 'a \<Rightarrow> 'a) \<Rightarrow>
    string \<times> (json \<Rightarrow> 'a \<Rightarrow> 'a option)" where
  "int_field name get put = (name, \<lambda>v x. map_option (\<lambda>n. put n x) (decode_int v (get x)))"

section \<open>Encoding\<close>

text \<open>Members of an encoded struct; with \<open>omitempty\<close> an empty string leaves its member out.\<close>

abbreviation text_member :: "string \<Rightarrow> string \<Rightarrow> json_map" where
  "text_member key s \<equiv> [(key, JStr s)]"

abbreviation int_member :: "string \<Rightarrow> int \<Rightarrow> json_map" where
  "int_member key n \<equiv> [(key, JNum (show_int n))]"

definition optional_text :: "string \<Rightarrow> string \<Rightarrow> json_map" where
  "optional_text key s = (if s = [] then [] else [(key, JStr s)])"

definition json_object :: "json_map option \<Rightarrow> json" where
  "json_object m = (case m of None \<Rightarrow> JNull | Some ms \<Rightarrow> JObj ms)"

definition json_list :: "('a \<Rightarrow> json) \<Rightarrow> 'a list option \<Rightarrow> json" where
  "json_list enc xs = (case xs of None \<Rightarrow> JNull | Some ys \<Rightarrow> JArr (map enc ys))"

text \<open>The member of a map, as a string or the zero value (\<open>payload[key].(string)\<close>).\<close>

definition member_text :: "json_map \<Rightarrow> string \<Rightarrow> string" where
  "member_text m key = (case gm_get m key of Some (JStr s) \<Rightarrow> s | _ \<Rightarrow> [])"

section \<open>Field names and numbers\<close>

lemma fold_name_other [simp]:
  "fold_name (Char b0 b1 b2 b3 b4 True b6 False # cs) = Char b0 b1 b2 b3 b4 True b6 False # fold_name cs"
proof -
  have "digit7 (byte 197)" "digit7 (byte 226)" by code_simp+
  then have "Char b0 b1 b2 b3 b4 True b6 False \<noteq> byte 197" "Char b0 b1 b2 b3 b4 True b6 False \<noteq> byte 226"
    by (metis char.sel(8))+
  moreover have "\<not> ((65 :: nat) \<le> of_char (Char b0 b1 b2 b3 b4 True b6 False) \<and>
      of_char (Char b0 b1 b2 b3 b4 True b6 False) \<le> (90 :: nat))"
    by (cases b0; cases b1; cases b2; cases b3; cases b4; cases b6) (simp_all add: of_char_Char)
  ultimately show ?thesis by auto
qed

lemma fold_name_letter [simp]:
  "fold_name (Char b0 b1 b2 b3 b4 False True False # cs) =
     Char b0 b1 b2 b3 b4 ((b0 \<or> b1 \<or> b2 \<or> b3 \<or> b4) \<and> \<not> (b4 \<and> b3 \<and> (b2 \<or> b1 \<and> b0))) True False # fold_name cs"
proof -
  have "digit7 (byte 197)" "digit7 (byte 226)" by code_simp+
  then have "Char b0 b1 b2 b3 b4 False True False \<noteq> byte 197" "Char b0 b1 b2 b3 b4 False True False \<noteq> byte 226"
    by (metis char.sel(8))+
  then show ?thesis
    by (cases b0; cases b1; cases b2; cases b3; cases b4) (simp_all add: of_char_Char char_of_def bit_0)
qed

declare fold_name.simps(2) [simp del]

lemma show_nat_digits: "list_all is_digit (show_nat n)" "show_nat n \<noteq> []"
  by (induction n rule: show_nat.induct) (auto simp: show_nat.simps)

lemma num_of_show_nat: "num_of (show_nat n) = int n"
proof (induction n rule: show_nat.induct)
  case (1 n)
  then show ?case
    by (cases "n < 10") (simp_all add: show_nat.simps [of n] num_of_def, presburger)
qed

lemma parse_show_int [simp]:
  assumes "- (2 ^ 63) \<le> n" and "n < 2 ^ 63"
  shows "parse_int (show_int n) = Some n"
proof -
  have first: "hd (show_nat m) \<noteq> CHR ''-'' \<and> hd (show_nat m) \<noteq> CHR ''+''" for m
    using show_nat_digits [of m] by (cases "show_nat m") (auto simp: is_digit_def)
  have sign: "\<not> has_prefix (show_nat m) ''-''" "\<not> has_prefix (show_nat m) ''+''" for m
    using first [of m] show_nat_digits(2) [of m] by (cases "show_nat m"; simp)+
  show ?thesis
    using assms sign by (auto simp: parse_int_def show_int_def Let_def show_nat_digits num_of_show_nat)
qed

end
