(* ===== verification/BookingRepo.thy ===== *)
theory BookingRepo
  imports BookingStore GoJson
begin

text \<open>
  The Postgres repository of bookings (\<open>internal/booking/postgres_repository.go\<close>): its tables under
  the keys of the migrations \<open>0001\<close>, \<open>0005\<close>, \<open>0007\<close>, \<open>0008\<close>, \<open>0010\<close> and \<open>0016\<close>, the four
  methods the booking store calls, and the queue of planned side effects. A statement fails by
  violating a constraint only. The columns \<open>created_at\<close> and \<open>updated_at\<close> of the bookings, which nothing
  reads, are left out.
\<close>

section \<open>The tables\<close>

record booking_row =
  bw_uid :: string
  bw_id :: int
  bw_title :: string
  bw_status :: string
  bw_start :: string
  bw_end :: string
  bw_event_type_id :: int
  bw_responses :: json
  bw_metadata :: json
  bw_created_at :: string
  bw_updated_at :: string
  bw_request_id :: string
  bw_selected_calendar :: "string option"
  bw_destination_calendar :: "string option"
  bw_external_event :: "string option"

record attendee_row =
  aw_booking_uid :: string
  aw_position :: int
  aw_attendee :: attendee

text \<open>Times are instants in nanoseconds.\<close>

record side_effect_row =
  ew_id :: int
  ew_booking_uid :: string
  ew_name :: string
  ew_request_id :: string
  ew_payload :: json
  ew_status :: string
  ew_attempts :: int
  ew_locked_at :: "int option"
  ew_delivered_at :: "int option"
  ew_last_error :: "string option"
  ew_next_attempt_at :: int
  ew_created_at :: int

text \<open>The database at one instant, the time of \<open>now()\<close>, with the sequence of the side effects' ids.\<close>

record booking_db =
  bd_now :: int
  bd_bookings :: "booking_row list"
  bd_attendees :: "attendee_row list"
  bd_fixtures :: "json gomap"
  bd_keys :: "string gomap"
  bd_effects :: "side_effect_row list"
  bd_next_effect :: int

section \<open>Encoded bookings\<close>

definition attendee_json :: "attendee \<Rightarrow> json" where
  "attendee_json a = JObj ((if att_id a = 0 then [] else int_member ''id'' (att_id a)) @
     text_member ''name'' (att_name a) @ text_member ''email'' (att_email a) @
     text_member ''timeZone'' (att_time_zone a))"

definition booking_json :: "booking \<Rightarrow> json" where
  "booking_json b = JObj (text_member ''uid'' (b_uid b) @ int_member ''id'' (b_id b) @
     text_member ''title'' (b_title b) @ text_member ''status'' (b_status b) @
     text_member ''start'' (b_start b) @ text_member ''end'' (b_end b) @
     int_member ''eventTypeId'' (b_event_type_id b) @
     [(''attendees'', json_list attendee_json (b_attendees b)),
      (''responses'', json_object (b_responses b)), (''metadata'', json_object (b_metadata b))] @
     text_member ''createdAt'' (b_created_at b) @ text_member ''updatedAt'' (b_updated_at b) @
     text_member ''requestId'' (b_request_id b))"

definition stored_attendee_fields :: "attendee struct_fields" where
  "stored_attendee_fields =
     [int_field ''id'' att_id (\<lambda>n x. x\<lparr>att_id := n\<rparr>),
      string_field ''name'' att_name (\<lambda>s x. x\<lparr>att_name := s\<rparr>),
      string_field ''email'' att_email (\<lambda>s x. x\<lparr>att_email := s\<rparr>),
      string_field ''timeZone'' att_time_zone (\<lambda>s x. x\<lparr>att_time_zone := s\<rparr>)]"

definition zero_attendee :: attendee where
  "zero_attendee = \<lparr>att_id = 0, att_name = [], att_email = [], att_time_zone = []\<rparr>"

definition booking_fields :: "(string \<Rightarrow> bool) \<Rightarrow> booking struct_fields" where
  "booking_fields float =
     [string_field ''uid'' b_uid (\<lambda>s x. x\<lparr>b_uid := s\<rparr>),
      int_field ''id'' b_id (\<lambda>n x. x\<lparr>b_id := n\<rparr>),
      string_field ''title'' b_title (\<lambda>s x. x\<lparr>b_title := s\<rparr>),
      string_field ''status'' b_status (\<lambda>s x. x\<lparr>b_status := s\<rparr>),
      string_field ''start'' b_start (\<lambda>s x. x\<lparr>b_start := s\<rparr>),
      string_field ''end'' b_end (\<lambda>s x. x\<lparr>b_end := s\<rparr>),
      int_field ''eventTypeId'' b_event_type_id (\<lambda>n x. x\<lparr>b_event_type_id := n\<rparr>),
      (''attendees'', \<lambda>v x. map_option (\<lambda>as. x\<lparr>b_attendees := as\<rparr>)
         (decode_slice (\<lambda>w. decode_struct False stored_attendee_fields w zero_attendee) v)),
      (''responses'', \<lambda>v x. map_option (\<lambda>m. x\<lparr>b_responses := m\<rparr>) (decode_map float v (b_responses x))),
      (''metadata'', \<lambda>v x. map_option (\<lambda>m. x\<lparr>b_metadata := m\<rparr>) (decode_map float v (b_metadata x))),
      string_field ''createdAt'' b_created_at (\<lambda>s x. x\<lparr>b_created_at := s\<rparr>),
      string_field ''updatedAt'' b_updated_at (\<lambda>s x. x\<lparr>b_updated_at := s\<rparr>),
      string_field ''requestId'' b_request_id (\<lambda>s x. x\<lparr>b_request_id := s\<rparr>)]"

definition decode_booking :: "(string \<Rightarrow> bool) \<Rightarrow> json \<Rightarrow> booking_error + booking" where
  "decode_booking float raw =
     (case decode_struct False (booking_fields float) raw zero_booking of
        None \<Rightarrow> Inl (BookingRepository ''decode booking fixture'')
      | Some b \<Rightarrow> Inr b)"

definition decode_object :: "(string \<Rightarrow> bool) \<Rightarrow> json \<Rightarrow> string \<Rightarrow> booking_error + json_map option" where
  "decode_object float raw label =
     (case decode_map float raw (Some []) of
        None \<Rightarrow> Inl (BookingRepository (''decode '' @ label))
      | Some m \<Rightarrow> Inr m)"

definition object_or_empty :: "json_map option \<Rightarrow> json_map" where
  "object_or_empty m = (case m of None \<Rightarrow> [] | Some ms \<Rightarrow> ms)"

section \<open>Reading bookings\<close>

abbreviation coalesce :: "string option \<Rightarrow> string" where
  "coalesce c \<equiv> (case c of None \<Rightarrow> [] | Some s \<Rightarrow> s)"

definition attendees_of :: "string \<Rightarrow> attendee_row list \<Rightarrow> attendee list" where
  "attendees_of uid rows =
     map aw_attendee (sort_by (\<lambda>l r. aw_position l \<le> aw_position r) (filter (\<lambda>w. aw_booking_uid w = uid) rows))"

definition row_booking :: "booking_row \<Rightarrow> json_map option \<Rightarrow> json_map option \<Rightarrow> attendee list \<Rightarrow> booking" where
  "row_booking w responses metadata attendees =
     \<lparr>b_uid = bw_uid w, b_id = bw_id w, b_title = bw_title w, b_status = bw_status w,
      b_start = bw_start w, b_end = bw_end w, b_event_type_id = bw_event_type_id w,
      b_attendees = Some attendees, b_responses = responses, b_metadata = metadata,
      b_created_at = bw_created_at w, b_updated_at = bw_updated_at w, b_request_id = bw_request_id w,
      b_selected_calendar = coalesce (bw_selected_calendar w),
      b_destination_calendar = coalesce (bw_destination_calendar w),
      b_external_event = coalesce (bw_external_event w), b_owner = 0, b_hosts = None\<rparr>"

definition read_structured_booking ::
    "(string \<Rightarrow> bool) \<Rightarrow> string \<Rightarrow> 'z booking_db_scheme \<Rightarrow> booking_error + booking option" where
  "read_structured_booking float uid db =
     (case find (\<lambda>w. bw_uid w = uid) (bd_bookings db) of
        None \<Rightarrow> Inr None
      | Some w \<Rightarrow>
          (case decode_object float (bw_responses w) ''booking responses'' of
             Inl e \<Rightarrow> Inl e
           | Inr responses \<Rightarrow>
               (case decode_object float (bw_metadata w) ''booking metadata'' of
                  Inl e \<Rightarrow> Inl e
                | Inr metadata \<Rightarrow>
                    Inr (Some (row_booking w responses metadata (attendees_of uid (bd_attendees db)))))))"

definition read_fixture_booking ::
    "(string \<Rightarrow> bool) \<Rightarrow> string \<Rightarrow> 'z booking_db_scheme \<Rightarrow> booking_error + booking option" where
  "read_fixture_booking float uid db =
     (case gm_get (bd_fixtures db) uid of
        None \<Rightarrow> Inr None
      | Some raw \<Rightarrow> (case decode_booking float raw of Inl e \<Rightarrow> Inl e | Inr b \<Rightarrow> Inr (Some b)))"

definition pg_read_by_uid ::
    "(string \<Rightarrow> bool) \<Rightarrow> string \<Rightarrow> 'z booking_db_scheme \<Rightarrow> booking_error + booking option" where
  "pg_read_by_uid float uid db =
     (case read_structured_booking float uid db of
        Inl e \<Rightarrow> Inl e
      | Inr (Some b) \<Rightarrow> Inr (Some b)
      | Inr None \<Rightarrow> read_fixture_booking float uid db)"

definition pg_read_by_key ::
    "(string \<Rightarrow> bool) \<Rightarrow> string \<Rightarrow> 'z booking_db_scheme \<Rightarrow> booking_error + booking option" where
  "pg_read_by_key float key db =
     (case gm_get (bd_keys db) key of None \<Rightarrow> Inr None | Some uid \<Rightarrow> pg_read_by_uid float uid db)"

section \<open>Saving bookings\<close>

definition booking_row_of :: "booking \<Rightarrow> booking_row" where
  "booking_row_of b =
     \<lparr>bw_uid = b_uid b, bw_id = b_id b, bw_title = b_title b, bw_status = b_status b,
      bw_start = b_start b, bw_end = b_end b, bw_event_type_id = b_event_type_id b,
      bw_responses = JObj (object_or_empty (b_responses b)),
      bw_metadata = JObj (object_or_empty (b_metadata b)),
      bw_created_at = b_created_at b, bw_updated_at = b_updated_at b, bw_request_id = b_request_id b,
      bw_selected_calendar = Some (b_selected_calendar b),
      bw_destination_calendar = Some (b_destination_calendar b),
      bw_external_event = Some (b_external_event b)\<rparr>"

fun upsert_booking_row :: "booking_row \<Rightarrow> booking_row list \<Rightarrow> booking_row list" where
  "upsert_booking_row w [] = [w]"
| "upsert_booking_row w (v # vs) = (if bw_uid v = bw_uid w then w # vs else v # upsert_booking_row w vs)"

fun attendee_rows :: "string \<Rightarrow> int \<Rightarrow> attendee list \<Rightarrow> attendee_row list" where
  "attendee_rows uid position [] = []"
| "attendee_rows uid position (a # as) =
     \<lparr>aw_booking_uid = uid, aw_position = position, aw_attendee = a\<rparr> # attendee_rows uid (position + 1) as"

definition save_structured_booking :: "booking \<Rightarrow> 'z booking_db_scheme \<Rightarrow> 'z booking_db_scheme" where
  "save_structured_booking b db =
     (let attendees = (case b_attendees b of None \<Rightarrow> [] | Some as \<Rightarrow> as)
      in db\<lparr>bd_bookings := upsert_booking_row (booking_row_of b) (bd_bookings db),
            bd_attendees := filter (\<lambda>w. aw_booking_uid w \<noteq> b_uid b) (bd_attendees db) @
              attendee_rows (b_uid b) 0 attendees\<rparr>)"

definition save_fixture_booking :: "booking \<Rightarrow> 'z booking_db_scheme \<Rightarrow> 'z booking_db_scheme" where
  "save_fixture_booking b db = db\<lparr>bd_fixtures := gm_put (b_uid b) (booking_json b) (bd_fixtures db)\<rparr>"

definition save_booking_row :: "booking \<Rightarrow> 'z booking_db_scheme \<Rightarrow> 'z booking_db_scheme" where
  "save_booking_row b db = save_fixture_booking b (save_structured_booking b db)"

text \<open>
  One planned side effect: refused when it is incomplete or, by the foreign key, when its booking is
  not there; ignored when the booking has one of that name for that request already.
\<close>

definition insert_effect :: "planned_side_effect \<Rightarrow> 'z booking_db_scheme \<Rightarrow> 'z booking_db_scheme" where
  "insert_effect e db =
     (if list_ex (\<lambda>w. ew_booking_uid w = pe_booking_uid e \<and> ew_name w = side_effect_string (pe_name e) \<and>
           ew_request_id w = pe_request_id e) (bd_effects db)
      then db
      else db\<lparr>bd_effects := bd_effects db @
            [\<lparr>ew_id = bd_next_effect db, ew_booking_uid = pe_booking_uid e,
              ew_name = side_effect_string (pe_name e), ew_request_id = pe_request_id e,
              ew_payload = JObj (pe_payload e), ew_status = ''planned'', ew_attempts = 0,
              ew_locked_at = None, ew_delivered_at = None, ew_last_error = None,
              ew_next_attempt_at = bd_now db, ew_created_at = bd_now db\<rparr>],
          bd_next_effect := bd_next_effect db + 1\<rparr>)"

fun save_effects ::
    "planned_side_effect list \<Rightarrow> 'z booking_db_scheme \<Rightarrow> booking_error + 'z booking_db_scheme" where
  "save_effects [] db = Inr db"
| "save_effects (e # es) db =
     (if pe_booking_uid e = [] \<or> pe_request_id e = []
      then Inl (BookingRepository ''invalid planned side effect'')
      else if \<not> list_ex (\<lambda>w. bw_uid w = pe_booking_uid e) (bd_bookings db)
      then Inl (BookingRepository ''save planned side effect'')
      else save_effects es (insert_effect e db))"

definition pg_save_created ::
    "(string \<Rightarrow> bool) \<Rightarrow> booking \<Rightarrow> string \<Rightarrow> planned_side_effect list \<Rightarrow> 'z booking_db_scheme \<Rightarrow>
     (booking_error + booking \<times> bool) \<times> 'z booking_db_scheme" where
  "pg_save_created float b key effects db =
     (case if key = [] then None else gm_get (bd_keys db) key of
        Some duplicate \<Rightarrow>
          (if duplicate = [] then (Inr (b, False), db)
           else case pg_read_by_uid float duplicate db of
             Inl e \<Rightarrow> (Inl e, db)
           | Inr None \<Rightarrow> (Inl (BookingRepository ''read duplicate idempotency booking: not found''), db)
           | Inr (Some found) \<Rightarrow> (Inr (found, True), db))
      | None \<Rightarrow>
          (case save_effects effects (save_booking_row b db) of
             Inl e \<Rightarrow> (Inl e, db)
           | Inr saved \<Rightarrow>
               (Inr (b, False),
                if key = [] then saved else saved\<lparr>bd_keys := gm_put key (b_uid b) (bd_keys saved)\<rparr>)))"

definition pg_save ::
    "planned_side_effect list \<Rightarrow> booking list \<Rightarrow> 'z booking_db_scheme \<Rightarrow>
     booking_error option \<times> 'z booking_db_scheme" where
  "pg_save effects bs db =
     (case save_effects effects (fold save_booking_row bs db) of
        Inl e \<Rightarrow> (Some e, db)
      | Inr saved \<Rightarrow> (None, saved))"

definition pg_booking_repository :: "(string \<Rightarrow> bool) \<Rightarrow> 'z booking_db_scheme booking_repository" where
  "pg_booking_repository float =
     \<lparr>br_read_by_uid = pg_read_by_uid float, br_read_by_key = pg_read_by_key float,
      br_save_created = pg_save_created float, br_save = pg_save\<rparr>"

section \<open>The queue of planned side effects\<close>

record queued_effect =
  qe_id :: int
  qe_name :: string
  qe_booking_uid :: string
  qe_request_id :: string
  qe_payload :: "json_map option"
  qe_attempts :: int
  qe_status :: string

definition claimable :: "int \<Rightarrow> side_effect_row \<Rightarrow> bool" where
  "claimable now w \<longleftrightarrow> (ew_status w = ''planned'' \<or> ew_status w = ''failed'') \<and> ew_next_attempt_at w \<le> now"

definition claim_order :: "side_effect_row \<Rightarrow> side_effect_row \<Rightarrow> bool" where
  "claim_order l r \<longleftrightarrow> ew_created_at l < ew_created_at r \<or> ew_created_at l = ew_created_at r \<and> ew_id l \<le> ew_id r"

definition claim_row :: "int \<Rightarrow> side_effect_row \<Rightarrow> side_effect_row" where
  "claim_row now w =
     w\<lparr>ew_status := ''processing'', ew_locked_at := Some now, ew_attempts := ew_attempts w + 1,
       ew_last_error := None\<rparr>"

text \<open>The rows the \<open>update\<close> returns, in the order of the candidates.\<close>

fun scan_effects :: "(string \<Rightarrow> bool) \<Rightarrow> side_effect_row list \<Rightarrow> booking_error + queued_effect list" where
  "scan_effects float [] = Inr []"
| "scan_effects float (w # ws) =
     (case decode_object float (ew_payload w) ''planned side effect payload'' of
        Inl e \<Rightarrow> Inl e
      | Inr payload \<Rightarrow>
          (case scan_effects float ws of
             Inl e \<Rightarrow> Inl e
           | Inr es \<Rightarrow>
               Inr (\<lparr>qe_id = ew_id w, qe_name = ew_name w, qe_booking_uid = ew_booking_uid w,
                 qe_request_id = ew_request_id w, qe_payload = payload, qe_attempts = ew_attempts w,
                 qe_status = ew_status w\<rparr> # es)))"

definition claim_limit :: "int \<Rightarrow> nat" where
  "claim_limit limit = (if limit \<le> 0 then 25 else nat limit)"

definition claim_planned_effects ::
    "(string \<Rightarrow> bool) \<Rightarrow> int \<Rightarrow> ('z booking_db_scheme, booking_error, queued_effect list) handler" where
  "claim_planned_effects float limit db =
     (let candidates = take (claim_limit limit) (sort_by claim_order (filter (claimable (bd_now db)) (bd_effects db)));
          claimed = map (\<lambda>w. if ew_id w \<in> set (map ew_id candidates) then claim_row (bd_now db) w else w) (bd_effects db)
      in case scan_effects float (map (claim_row (bd_now db)) candidates) of
           Inl e \<Rightarrow> (Inl e, db)
         | Inr es \<Rightarrow> (Inr es, db\<lparr>bd_effects := claimed\<rparr>))"

text \<open>An \<open>update\<close> of the row with an id, if it is being processed; it must have met a row.\<close>

definition update_processing ::
    "int \<Rightarrow> string \<Rightarrow> (side_effect_row \<Rightarrow> side_effect_row) \<Rightarrow> ('z booking_db_scheme, booking_error, unit) handler" where
  "update_processing i failure f db =
     (if list_ex (\<lambda>w. ew_id w = i \<and> ew_status w = ''processing'') (bd_effects db)
      then (Inr (), db\<lparr>bd_effects := map (\<lambda>w. if ew_id w = i \<and> ew_status w = ''processing'' then f w else w)
                (bd_effects db)\<rparr>)
      else (Inl (BookingRepository failure), db))"

definition mark_effect_delivered :: "int \<Rightarrow> ('z booking_db_scheme, booking_error, unit) handler" where
  "mark_effect_delivered i =
     reading (\<lambda>db. update_processing i ''mark planned side effect delivered: side effect was not processing''
       (\<lambda>w. w\<lparr>ew_status := ''delivered'', ew_delivered_at := Some (bd_now db), ew_locked_at := None,
             ew_last_error := None\<rparr>))"

definition retry_delay :: "int \<Rightarrow> int" where
  "retry_delay attempts = min 60 (max attempts 1 * 5) * second"

definition mark_effect_failed :: "int \<Rightarrow> ('z booking_db_scheme, booking_error, unit) handler" where
  "mark_effect_failed i =
     reading (\<lambda>db. update_processing i ''mark planned side effect failed: side effect was not processing''
       (\<lambda>w. w\<lparr>ew_status := ''failed'', ew_locked_at := None, ew_last_error := Some ''dispatch failed'',
             ew_next_attempt_at := bd_now db + retry_delay (ew_attempts w)\<rparr>))"

end
