(* ===== verification/SlotsRepo.thy ===== *)
theory SlotsRepo
  imports Slots BookingRepo Postgres
begin

text \<open>
  The Postgres repository of the slots (\<open>internal/slots/postgres_repository.go\<close>): the event types and
  offered slots under the keys and checks of the migration \<open>0006\<close>, and the busy times it reads from the
  bookings. \<open>zones\<close> is the time zone database: the offset of a known zone at an instant, in seconds.
  \<open>cast\<close> is what Postgres makes of a text read as a \<open>timestamptz\<close>: an instant, or a failing query.
\<close>

record slot_row =
  sw_event_type_id :: int
  sw_time_zone :: string
  sw_time :: string
  sw_at :: int
  sw_duration :: int

record slots_db =
  sd_event_types :: "slot_event_type list"
  sd_slots :: "slot_row list"

type_synonym zone_table = "string \<Rightarrow> (int \<Rightarrow> int) option"

section \<open>Reading\<close>

definition slot_day :: "zone_table \<Rightarrow> string \<Rightarrow> string \<Rightarrow> slot_error + string" where
  "slot_day zones slot_time time_zone =
     (case parse_rfc3339 slot_time of
        None \<Rightarrow> Inl (SlotParse ''parse slot day'')
      | Some t \<Rightarrow>
          (case zones time_zone of
             None \<Rightarrow> Inl (SlotValidation ''INVALID_TIME_ZONE'' ''Time zone is invalid'')
           | Some offset \<Rightarrow> Inr (day_format (t\<lparr>zone := offset (inst t)\<rparr>))))"

fun slots_by_day ::
    "zone_table \<Rightarrow> string \<Rightarrow> slot_row list \<Rightarrow> slot list gomap \<Rightarrow> slot_error + slot list gomap" where
  "slots_by_day zones time_zone [] m = Inr m"
| "slots_by_day zones time_zone (w # ws) m =
     (case slot_day zones (sw_time w) time_zone of
        Inl e \<Rightarrow> Inl e
      | Inr day \<Rightarrow> slots_by_day zones time_zone ws
          (append_slot day \<lparr>sl_time = sw_time w, sl_duration = sw_duration w\<rparr> m))"

definition offered_rows :: "slot_request \<Rightarrow> gotime \<Rightarrow> gotime \<Rightarrow> slots_db \<Rightarrow> slot_row list" where
  "offered_rows req start_at end_at db =
     sort_by (\<lambda>l r. sw_at l \<le> sw_at r)
       (filter (\<lambda>w. sw_event_type_id w = sr_event_type_id req \<and> sw_time_zone w = sr_time_zone req \<and>
          pg_instant start_at \<le> sw_at w \<and> sw_at w < pg_instant end_at) (sd_slots db))"

definition pg_read_available ::
    "zone_table \<Rightarrow> string \<Rightarrow> slot_request \<Rightarrow> slots_db \<Rightarrow> slot_error + slot_response option" where
  "pg_read_available zones request_id req db =
     (if \<not> fits_int4 (sr_event_type_id req) then Inl (SlotUpstream ''read event type existence'')
      else if \<not> list_ex (\<lambda>e. et_id e = sr_event_type_id req) (sd_event_types db) then Inr None
      else case parse_rfc3339 (sr_start req) of
        None \<Rightarrow> Inl (SlotParse ''parse start time'')
      | Some start_at \<Rightarrow>
          (case parse_rfc3339 (sr_end req) of
             None \<Rightarrow> Inl (SlotParse ''parse end time'')
           | Some end_at \<Rightarrow>
               (case slots_by_day zones (sr_time_zone req) (offered_rows req start_at end_at db) [] of
                  Inl e \<Rightarrow> Inl e
                | Inr m \<Rightarrow> Inr (Some
                    \<lparr>sp_event_type_id = sr_event_type_id req, sp_time_zone = sr_time_zone req,
                     sp_start = sr_start req, sp_end = sr_end req, sp_slots = m,
                     sp_request_id = request_id\<rparr>))))"

text \<open>The start and end of a row as instants; \<open>None\<close> is a query that fails.\<close>

definition row_span :: "(string \<Rightarrow> int option) \<Rightarrow> booking_row \<Rightarrow> (int \<times> int \<times> booking_row) option" where
  "row_span cast w =
     Option.bind (cast (bw_start w)) (\<lambda>s. map_option (\<lambda>e. (s, e, w)) (cast (bw_end w)))"

definition accepted_rows :: "int \<Rightarrow> booking_row list \<Rightarrow> booking_row list" where
  "accepted_rows event_type_id rows =
     filter (\<lambda>w. bw_event_type_id w = event_type_id \<and> bw_status w = ''accepted'') rows"

definition pg_busy_times ::
    "(string \<Rightarrow> int option) \<Rightarrow> slot_request \<Rightarrow> booking_row list \<Rightarrow> slot_error + busy_time list" where
  "pg_busy_times cast req rows =
     (case parse_rfc3339 (sr_start req) of
        None \<Rightarrow> Inl (SlotParse ''parse busy start boundary'')
      | Some start_at \<Rightarrow>
          (case parse_rfc3339 (sr_end req) of
             None \<Rightarrow> Inl (SlotParse ''parse busy end boundary'')
           | Some end_at \<Rightarrow>
               if \<not> fits_int4 (sr_event_type_id req) then Inl (SlotUpstream ''read internal busy times'')
               else (case those (map (row_span cast) (accepted_rows (sr_event_type_id req) rows)) of
                  None \<Rightarrow> Inl (SlotUpstream ''read internal busy times'')
                | Some spans \<Rightarrow> Inr (map (\<lambda>(s, e, w). \<lparr>bt_start = bw_start w, bt_end = bw_end w\<rparr>)
                    (sort_by (\<lambda>(s, _) (s', _). s \<le> s')
                      (filter (\<lambda>(s, e, w). s < pg_instant end_at \<and> pg_instant start_at < e) spans))))))"

section \<open>Writing\<close>

fun upsert_slot_event_type :: "slot_event_type \<Rightarrow> slot_event_type list \<Rightarrow> slot_event_type list" where
  "upsert_slot_event_type t [] = [t]"
| "upsert_slot_event_type t (u # us) = (if et_id u = et_id t then t # us else u # upsert_slot_event_type t us)"

definition pg_save_event_type :: "slot_event_type \<Rightarrow> (slots_db, slot_error, unit) handler" where
  "pg_save_event_type t =
     and_then (check (fits_int4 (et_id t) \<and> et_title t \<noteq> [] \<and> 0 < et_duration t \<and> fits_int4 (et_duration t) \<and>
       et_time_zone t \<noteq> []) (SlotUpstream ''save event type'')) (\<lambda>_ db.
     (Inr (), db\<lparr>sd_event_types := upsert_slot_event_type t (sd_event_types db)\<rparr>))"

definition same_slot_key :: "slot_row \<Rightarrow> slot_row \<Rightarrow> bool" where
  "same_slot_key w v \<longleftrightarrow> sw_event_type_id w = sw_event_type_id v \<and> sw_time_zone w = sw_time_zone v \<and>
     sw_time w = sw_time v"

fun upsert_slot_row :: "slot_row \<Rightarrow> slot_row list \<Rightarrow> slot_row list" where
  "upsert_slot_row w [] = [w]"
| "upsert_slot_row w (v # vs) = (if same_slot_key v w then w # vs else v # upsert_slot_row w vs)"

definition pg_save_slot :: "availability_slot \<Rightarrow> (slots_db, slot_error, unit) handler" where
  "pg_save_slot s =
     and_then (demand (parse_rfc3339 (avs_time s)) (SlotParse ''parse slot time'')) (\<lambda>slot_at.
     reading (\<lambda>db.
     and_then (check (fits_int4 (avs_event_type_id s) \<and>
         list_ex (\<lambda>e. et_id e = avs_event_type_id s) (sd_event_types db) \<and> avs_time_zone s \<noteq> [] \<and>
         0 < avs_duration s \<and> fits_int4 (avs_duration s)) (SlotUpstream ''save availability slot'')) (\<lambda>_ db.
     (Inr (), db\<lparr>sd_slots := upsert_slot_row
        \<lparr>sw_event_type_id = avs_event_type_id s, sw_time_zone = avs_time_zone s, sw_time = avs_time s,
         sw_at = pg_instant slot_at, sw_duration = avs_duration s\<rparr> (sd_slots db)\<rparr>))))"

fun pg_save_slots :: "availability_slot list \<Rightarrow> (slots_db, slot_error, unit) handler" where
  "pg_save_slots [] = return_ok ()"
| "pg_save_slots (s # ss) = and_then (pg_save_slot s) (\<lambda>_. pg_save_slots ss)"

definition seed_fixture_availability :: "(slots_db, slot_error, unit) handler" where
  "seed_fixture_availability =
     and_then (pg_save_event_type fixture_slot_event_type) (\<lambda>_. pg_save_slots fixture_availability_slots)"

text \<open>The service over its tables and the bookings, as the server is started with.\<close>

definition pg_slot_service ::
    "zone_table \<Rightarrow> (string \<Rightarrow> int option) \<Rightarrow> slots_db \<Rightarrow> booking_row list \<Rightarrow> slot_service" where
  "pg_slot_service zones cast db rows =
     \<lparr>ss_repo = Some (\<lambda>request_id req. pg_read_available zones request_id req db),
      ss_busy_times = Some (\<lambda>req. pg_busy_times cast req rows)\<rparr>"

end
