(* ===== verification/SlotsTables.thy ===== *)
theory SlotsTables
  imports SlotsRepo
begin

text \<open>
  Correctness of the availability check over Postgres: the rows of offered slots stay what was saved, and
  a start is available exactly when a slot is offered there and no accepted booking is going on then.
\<close>

section \<open>The rows of offered slots\<close>

definition slot_row_ok :: "slot_row \<Rightarrow> bool" where
  "slot_row_ok w \<longleftrightarrow> (\<exists>t. parse_rfc3339 (sw_time w) = Some t \<and> sw_at w = pg_instant t) \<and>
     0 < sw_duration w \<and> fits_int4 (sw_duration w)"

definition slots_db_ok :: "slots_db \<Rightarrow> bool" where
  "slots_db_ok db \<longleftrightarrow> list_all slot_row_ok (sd_slots db) \<and>
     distinct (map (\<lambda>w. (sw_event_type_id w, sw_time_zone w, sw_time w)) (sd_slots db)) \<and>
     sw_event_type_id ` set (sd_slots db) \<subseteq> et_id ` set (sd_event_types db) \<and>
     distinct (map et_id (sd_event_types db))"

lemma upsert_event_type_ids:
  "set (map et_id (upsert_slot_event_type t ts)) = insert (et_id t) (set (map et_id ts))"
  "distinct (map et_id ts) \<Longrightarrow> distinct (map et_id (upsert_slot_event_type t ts))"
proof -
  show ids: "set (map et_id (upsert_slot_event_type t us)) = insert (et_id t) (set (map et_id us))" for us
    by (induction us) auto
  show "distinct (map et_id ts) \<Longrightarrow> distinct (map et_id (upsert_slot_event_type t ts))"
    by (induction ts) (use ids in auto)
qed

abbreviation slot_key :: "slot_row \<Rightarrow> int \<times> string \<times> string" where
  "slot_key w \<equiv> (sw_event_type_id w, sw_time_zone w, sw_time w)"

lemma same_slot_key_iff: "same_slot_key w v \<longleftrightarrow> slot_key w = slot_key v"
  by (auto simp: same_slot_key_def)

lemma upsert_slot_row_set: "set (upsert_slot_row w ws) \<subseteq> insert w (set ws)"
  by (induction ws) auto

lemma upsert_slot_row_keys: "slot_key ` set (upsert_slot_row w ws) = insert (slot_key w) (slot_key ` set ws)"
proof (induction ws)
  case Nil
  show ?case by simp
next
  case (Cons v vs)
  show ?case
  proof (cases "same_slot_key v w")
    case True
    then show ?thesis by (simp only: upsert_slot_row.simps if_True same_slot_key_iff) auto
  next
    case False
    with Cons.IH show ?thesis by auto
  qed
qed

lemma upsert_slot_row_distinct:
  "distinct (map slot_key ws) \<Longrightarrow> distinct (map slot_key (upsert_slot_row w ws))"
proof (induction ws)
  case Nil
  show ?case by simp
next
  case (Cons v vs)
  show ?case
  proof (cases "same_slot_key v w")
    case True
    with Cons.prems show ?thesis by (simp add: same_slot_key_iff)
  next
    case False
    then have "slot_key v \<noteq> slot_key w" by (simp add: same_slot_key_iff)
    with Cons.prems have "slot_key v \<notin> slot_key ` set (upsert_slot_row w vs)"
      by (subst upsert_slot_row_keys) auto
    with Cons False show ?thesis by simp
  qed
qed

lemma save_slot_ok:
  assumes "slots_db_ok db" "pg_save_slot s db = (res, db')"
  shows "slots_db_ok db'"
proof (cases res)
  case (Inl e)
  with assms show ?thesis
    by (auto simp: pg_save_slot_def handler_err handler_ok reading_err reading_ok)
next
  case (Inr u)
  with assms(2) obtain t where t: "parse_rfc3339 (avs_time s) = Some t"
    "list_ex (\<lambda>e. et_id e = avs_event_type_id s) (sd_event_types db)"
    "0 < avs_duration s" "fits_int4 (avs_duration s)"
    and db': "db' = db\<lparr>sd_slots := upsert_slot_row \<lparr>sw_event_type_id = avs_event_type_id s,
      sw_time_zone = avs_time_zone s, sw_time = avs_time s, sw_at = pg_instant t,
      sw_duration = avs_duration s\<rparr> (sd_slots db)\<rparr>"
    by (auto simp: pg_save_slot_def handler_ok reading_ok)
  let ?w = "\<lparr>sw_event_type_id = avs_event_type_id s, sw_time_zone = avs_time_zone s, sw_time = avs_time s,
    sw_at = pg_instant t, sw_duration = avs_duration s\<rparr>"
  have w: "slot_row_ok ?w" "sw_event_type_id ?w \<in> et_id ` set (sd_event_types db)"
  proof -
    from t(2) obtain e where "e \<in> set (sd_event_types db)" "et_id e = avs_event_type_id s"
      by (auto simp: list_ex_iff)
    then show "sw_event_type_id ?w \<in> et_id ` set (sd_event_types db)" by force
  qed (use t in \<open>simp add: slot_row_ok_def\<close>)
  from upsert_slot_row_set [of ?w "sd_slots db"] assms(1) w
  have "\<forall>v \<in> set (upsert_slot_row ?w (sd_slots db)). slot_row_ok v \<and>
    sw_event_type_id v \<in> et_id ` set (sd_event_types db)"
    unfolding slots_db_ok_def list_all_iff by blast
  with assms(1) upsert_slot_row_distinct [of "sd_slots db" ?w] show ?thesis
    unfolding slots_db_ok_def db' list_all_iff by (simp add: image_subset_iff)
qed

lemma save_event_type_ok:
  assumes "slots_db_ok db" "pg_save_event_type t db = (res, db')"
  shows "slots_db_ok db'"
proof (cases res)
  case (Inl e)
  with assms show ?thesis by (auto simp: pg_save_event_type_def handler_err handler_ok)
next
  case (Inr u)
  with assms(2) have db': "db' = db\<lparr>sd_event_types := upsert_slot_event_type t (sd_event_types db)\<rparr>"
    by (auto simp: pg_save_event_type_def handler_ok)
  have "et_id ` set (upsert_slot_event_type t (sd_event_types db)) = insert (et_id t) (et_id ` set (sd_event_types db))"
    using upsert_event_type_ids(1) [of t "sd_event_types db"] by simp
  with assms(1) upsert_event_type_ids(2) [of "sd_event_types db" t] show ?thesis
    by (auto simp: slots_db_ok_def db')
qed

section \<open>Availability\<close>

text \<open>
  A booking whose start and end are timestamps of whole microseconds, which Postgres reads as the
  instants they denote.
\<close>

definition span_ok :: "(string \<Rightarrow> int option) \<Rightarrow> booking_row \<Rightarrow> bool" where
  "span_ok cast w \<longleftrightarrow> (\<exists>a b. parse_rfc3339 (bw_start w) = Some a \<and> parse_rfc3339 (bw_end w) = Some b \<and>
     inst a mod 1000 = 0 \<and> inst b mod 1000 = 0 \<and>
     cast (bw_start w) = Some (inst a) \<and> cast (bw_end w) = Some (inst b))"

definition row_start :: "booking_row \<Rightarrow> int" where "row_start w = instant_or_zero (bw_start w)"
definition row_end :: "booking_row \<Rightarrow> int" where "row_end w = instant_or_zero (bw_end w)"

lemma span_okE:
  assumes "span_ok cast w"
  shows "row_span cast w = Some (row_start w, row_end w, w)"
    "parse_rfc3339 (bw_start w) \<noteq> None" "parse_rfc3339 (bw_end w) \<noteq> None"
    "row_start w mod 1000 = 0" "row_end w mod 1000 = 0"
  using assms by (auto simp: span_ok_def row_span_def row_start_def row_end_def instant_or_zero_def)

lemma those_map_Some: "\<forall>x \<in> set xs. f x = Some (g x) \<Longrightarrow> those (map f xs) = Some (map g xs)"
  by (induction xs) auto

definition busy_of :: "booking_row \<Rightarrow> busy_time" where
  "busy_of w = \<lparr>bt_start = bw_start w, bt_end = bw_end w\<rparr>"

lemma pg_busy_times_set:
  assumes "parse_rfc3339 (sr_start req) = Some a" "parse_rfc3339 (sr_end req) = Some b"
    "fits_int4 (sr_event_type_id req)"
    "\<forall>w \<in> set (accepted_rows (sr_event_type_id req) rows). span_ok cast w"
  shows "\<exists>bs. pg_busy_times cast req rows = Inr bs \<and>
    set bs = busy_of ` {w \<in> set (accepted_rows (sr_event_type_id req) rows).
      row_start w < pg_instant b \<and> pg_instant a < row_end w}"
proof -
  have "those (map (row_span cast) (accepted_rows (sr_event_type_id req) rows)) =
    Some (map (\<lambda>w. (row_start w, row_end w, w)) (accepted_rows (sr_event_type_id req) rows))"
    using assms(4) by (intro those_map_Some) (auto dest: span_okE(1))
  with assms(1-3) show ?thesis
    by (force simp: pg_busy_times_def busy_of_def)
qed

lemma slots_by_day_ok:
  assumes "zones z = Some f" "list_all slot_row_ok ws"
  shows "\<exists>m'. slots_by_day zones z ws m = Inr m' \<and> all_slots m' = all_slots m \<union>
    (\<lambda>w. \<lparr>sl_time = sw_time w, sl_duration = sw_duration w\<rparr>) ` set ws"
  using assms
proof (induction ws arbitrary: m)
  case Nil
  then show ?case by simp
next
  case (Cons w ws)
  then obtain t where "parse_rfc3339 (sw_time w) = Some t" by (auto simp: slot_row_ok_def)
  with Cons.prems(1) obtain day where "slot_day zones (sw_time w) z = Inr day" by (simp add: slot_day_def)
  with Cons.prems Cons.IH [of "append_slot day \<lparr>sl_time = sw_time w, sl_duration = sw_duration w\<rparr> m"]
  show ?case by auto
qed

lemma slot_overlaps_total:
  assumes "parse_rfc3339 (sl_time sl) \<noteq> None"
    "\<forall>x \<in> set bs. parse_rfc3339 (bt_start x) \<noteq> None \<and> parse_rfc3339 (bt_end x) \<noteq> None"
  shows "slot_overlaps_busy_time sl bs = Inr (\<not> slot_free bs sl)"
proof -
  obtain t where t: "parse_rfc3339 (sl_time sl) = Some t" using assms(1) by blast
  have "list_all (\<lambda>x. parse_rfc3339 (bt_start x) \<noteq> None \<and> parse_rfc3339 (bt_end x) \<noteq> None) bs"
    using assms(2) by (simp only: list_all_iff)
  from overlaps_busy_total [OF this] obtain b where
    "overlaps_busy t (add_ns t (minutes_duration (sl_duration sl))) bs = Inr b" by blast
  with t have "slot_overlaps_busy_time sl bs = Inr b" by (simp add: slot_overlaps_busy_time_def)
  with slot_overlaps_free [OF this] show ?thesis by simp
qed

lemma filter_day_total:
  assumes "\<forall>sl \<in> set sls. parse_rfc3339 (sl_time sl) \<noteq> None"
    "\<forall>x \<in> set bs. parse_rfc3339 (bt_start x) \<noteq> None \<and> parse_rfc3339 (bt_end x) \<noteq> None"
  shows "\<exists>m'. filter_day d bs sls m = Inr m'"
  using assms by (induction sls arbitrary: m) (auto simp: slot_overlaps_total)

lemma filter_days_total:
  assumes "\<forall>sl \<in> all_slots ds. parse_rfc3339 (sl_time sl) \<noteq> None"
    "\<forall>x \<in> set bs. parse_rfc3339 (bt_start x) \<noteq> None \<and> parse_rfc3339 (bt_end x) \<noteq> None"
  shows "\<exists>m'. filter_days bs ds m = Inr m'"
  using assms
proof (induction bs ds m rule: filter_days.induct)
  case (1 bs m)
  then show ?case by simp
next
  case (2 bs d sls ds m)
  then have "\<forall>sl \<in> set sls. parse_rfc3339 (sl_time sl) \<noteq> None" by (auto simp: all_slots_def)
  then obtain m1 where m1: "filter_day d bs sls m = Inr m1"
    using filter_day_total "2.prems"(2) by blast
  have "\<forall>sl \<in> all_slots ds. parse_rfc3339 (sl_time sl) \<noteq> None"
    using "2.prems"(1) by (auto simp: all_slots_def)
  from "2.IH" [OF m1 this "2.prems"(2)] m1 show ?case by simp
qed

lemma parse_rfc3339_zone: "parse_rfc3339 v = Some t \<Longrightarrow> zone t mod 60 = 0"
  by (auto simp: parse_rfc3339_def parse_zone_def Let_def split: prod.splits if_splits
      Option.bind_splits)

lemma minutes_duration_small:
  assumes "0 < n" "n < 2 ^ 27"
  shows "minutes_duration n = n * minute"
proof -
  have "- (2 ^ 63) \<le> n * minute" "n * minute < 2 ^ 63" using assms by simp_all
  then have "signed_take_bit 63 (n * minute) = n * minute" by (rule signed_take_bit_int_eq_self)
  then have "sint (word_of_int (n * minute) :: 64 word) = n * minute"
    by (simp only: signed_of_int) simp
  then show ?thesis by (simp only: minutes_duration_def of_int_mult)
qed

lemma whole_less:
  fixes x y :: int
  assumes "x mod 1000 = 0" "y mod 1000 = 0"
  shows "x < y + 1000 \<longleftrightarrow> x \<le> y"
proof -
  from assms obtain i j where "x = 1000 * i" "y = 1000 * j"
    by (auto simp: mod_eq_0_iff_dvd elim!: dvdE)
  then show ?thesis
    using mult_less_cancel_left_pos [of 1000 i "j + 1"] mult_le_cancel_left_pos [of 1000 i j]
    by (simp add: distrib_left)
qed

text \<open>The busy times of a slot's first microsecond, and when one of them blocks the slot.\<close>

lemma slot_free_iff:
  assumes "parse_rfc3339 (sl_time sl) = Some t" "0 < sl_duration sl" "sl_duration sl < 2 ^ 27"
  shows "slot_free bs sl \<longleftrightarrow> (\<forall>x \<in> set bs. instant_or_zero (bt_end x) \<le> inst t \<or>
    inst t + sl_duration sl * minute \<le> instant_or_zero (bt_start x))"
  unfolding slot_free_def Let_def list_all_iff minutes_duration_small [OF assms(2,3)]
  by (simp only: instant_or_zero_def [of "sl_time sl"] assms(1) option.case)

lemma slot_free_busy:
  assumes sl: "parse_rfc3339 (sl_time sl) = Some t" "0 < sl_duration sl" "sl_duration sl < 2 ^ 27"
    and t: "inst t mod 1000 = 0"
    and bs: "set bs = busy_of ` {w \<in> A. row_start w < inst t + 1000 \<and> inst t < row_end w}"
    and A: "\<forall>w \<in> A. row_start w mod 1000 = 0"
  shows "slot_free bs sl \<longleftrightarrow> \<not> (\<exists>w \<in> A. row_start w \<le> inst t \<and> inst t < row_end w)"
proof -
  have le: "row_start w < inst t + 1000 \<longleftrightarrow> row_start w \<le> inst t" if "w \<in> A" for w
    by (rule whole_less [OF bspec [OF A that] t])
  have pos: "inst t < inst t + sl_duration sl * minute" using sl(2) by simp
  have "slot_free bs sl \<longleftrightarrow> (\<forall>w \<in> {w \<in> A. row_start w < inst t + 1000 \<and> inst t < row_end w}.
      row_end w \<le> inst t \<or> inst t + sl_duration sl * minute \<le> row_start w)"
    unfolding slot_free_iff [OF sl] bs ball_simps(9) by (simp only: busy_of_def busy_time.simps row_start_def row_end_def)
  also have "\<dots> \<longleftrightarrow> \<not> (\<exists>w \<in> A. row_start w \<le> inst t \<and> inst t < row_end w)"
  proof
    assume free: "\<forall>w \<in> {w \<in> A. row_start w < inst t + 1000 \<and> inst t < row_end w}.
      row_end w \<le> inst t \<or> inst t + sl_duration sl * minute \<le> row_start w"
    show "\<not> (\<exists>w \<in> A. row_start w \<le> inst t \<and> inst t < row_end w)"
    proof
      assume "\<exists>w \<in> A. row_start w \<le> inst t \<and> inst t < row_end w"
      then obtain w where w: "w \<in> A" "row_start w \<le> inst t" "inst t < row_end w" by blast
      with free le have "row_end w \<le> inst t \<or> inst t + sl_duration sl * minute \<le> row_start w" by blast
      with w pos show False by linarith
    qed
  next
    assume "\<not> (\<exists>w \<in> A. row_start w \<le> inst t \<and> inst t < row_end w)"
    with le show "\<forall>w \<in> {w \<in> A. row_start w < inst t + 1000 \<and> inst t < row_end w}.
      row_end w \<le> inst t \<or> inst t + sl_duration sl * minute \<le> row_start w" by blast
  qed
  finally show ?thesis .
qed

definition time_zone_or_default :: "availability_request \<Rightarrow> string" where
  "time_zone_or_default req = (if ar_time_zone req = [] then slot_fixture_time_zone else ar_time_zone req)"

text \<open>What the check asks of the repository when its request is valid.\<close>

definition first_microsecond :: "availability_request \<Rightarrow> gotime \<Rightarrow> slot_request" where
  "first_microsecond req t = \<lparr>sr_event_type_id = ar_event_type_id req, sr_start = ar_start req,
     sr_end = rfc3339nano_format (add_ns t microsecond), sr_time_zone = time_zone_or_default req\<rparr>"

lemma first_microsecond_simps [simp]:
  "sr_event_type_id (first_microsecond req t) = ar_event_type_id req"
  "sr_start (first_microsecond req t) = ar_start req"
  "sr_time_zone (first_microsecond req t) = time_zone_or_default req"
  "sr_end (first_microsecond req t) = rfc3339nano_format (add_ns t microsecond)"
  by (simp_all add: first_microsecond_def)

lemma rfc3339_nonempty: "parse_rfc3339 v = Some t \<Longrightarrow> v \<noteq> []"
  by (auto simp: parse_rfc3339_def parse_date_clock_def take_year_def)

lemma is_available_repo:
  assumes "parse_rfc3339 (ar_start req) = Some t"
    "parse_rfc3339 (rfc3339nano_format (add_ns t microsecond)) = Some e"
    "ar_event_type_id req \<noteq> 0" "ar_time_zone req = [] \<or> valid_time_zone tz (ar_time_zone req)"
    "ss_repo s = Some repo"
  shows "is_available tz s rid req = (case repo rid (first_microsecond req t) of
      Inl er \<Rightarrow> Inl er
    | Inr None \<Rightarrow> Inr False
    | Inr (Some response) \<Rightarrow> (case filter_busy_slots s (first_microsecond req t) response of
        Inl er \<Rightarrow> Inl er
      | Inr None \<Rightarrow> Inr False
      | Inr (Some response) \<Rightarrow> Inr (has_slot response (ar_start req))))"
proof -
  let ?q = "\<lparr>sr_event_type_id = ar_event_type_id req, sr_start = ar_start req,
    sr_end = rfc3339nano_format (add_ns t microsecond), sr_time_zone = ar_time_zone req\<rparr>"
  note ne = rfc3339_nonempty [OF assms(1)] rfc3339_nonempty [OF assms(2)]
  have "validate_slot_request tz ?q = None"
    using assms(1-4) by (auto simp: validate_slot_request_def slot_validate_timestamp_def)
  moreover have "normalized_request ?q = first_microsecond req t"
    using ne by (simp add: normalized_request_def first_microsecond_def time_zone_or_default_def)
  ultimately show ?thesis
    using assms(1,5) ne(1)
    by (simp add: is_available_def read_available_def split: sum.splits option.splits)
qed

lemma offered_here:
  assumes ok: "list_all slot_row_ok (sd_slots db)"
    and t: "parse_rfc3339 (ar_start req) = Some t" "inst t mod 1000 = 0"
  shows "w \<in> set (offered_rows (first_microsecond req t) t (add_ns t microsecond) db) \<and> sw_time w = ar_start req
    \<longleftrightarrow> w \<in> set (sd_slots db) \<and> sw_event_type_id w = ar_event_type_id req \<and>
      sw_time_zone w = time_zone_or_default req \<and> sw_time w = ar_start req"
proof -
  have "sw_at w = inst t" if "w \<in> set (sd_slots db)" "sw_time w = ar_start req"
    using ok that t by (auto simp: list_all_iff slot_row_ok_def)
  with t(2) show ?thesis by (auto simp: offered_rows_def)
qed

text \<open>The slots that the repository offers in the first microsecond.\<close>

lemma offered_slots:
  assumes rows_ok: "list_all slot_row_ok (sd_slots db)" "\<forall>w \<in> set (sd_slots db). sw_duration w < 2 ^ 27"
    and zone: "zones (time_zone_or_default req) = Some offset"
    and t: "parse_rfc3339 (ar_start req) = Some t" "inst t mod 1000 = 0"
  shows "\<exists>m. slots_by_day zones (time_zone_or_default req)
      (offered_rows (first_microsecond req t) t (add_ns t microsecond) db) [] = Inr m \<and>
    (\<forall>sl \<in> all_slots m. parse_rfc3339 (sl_time sl) \<noteq> None \<and> 0 < sl_duration sl \<and> sl_duration sl < 2 ^ 27) \<and>
    ((\<exists>sl \<in> all_slots m. sl_time sl = ar_start req) \<longleftrightarrow> (\<exists>w \<in> set (sd_slots db).
      sw_event_type_id w = ar_event_type_id req \<and> sw_time_zone w = time_zone_or_default req \<and>
      sw_time w = ar_start req))"
proof -
  let ?ws = "offered_rows (first_microsecond req t) t (add_ns t microsecond) db"
  have ws: "set ?ws \<subseteq> set (sd_slots db)" by (auto simp: offered_rows_def)
  with rows_ok(1) have "list_all slot_row_ok ?ws" by (auto simp: list_all_iff)
  from slots_by_day_ok [of zones "time_zone_or_default req" offset ?ws "[]", OF zone this] obtain m where
    m: "slots_by_day zones (time_zone_or_default req) ?ws [] = Inr m"
      "all_slots m = (\<lambda>w. \<lparr>sl_time = sw_time w, sl_duration = sw_duration w\<rparr>) ` set ?ws"
    by (auto simp: all_slots_def)
  have times: "parse_rfc3339 (sl_time sl) \<noteq> None \<and> 0 < sl_duration sl \<and> sl_duration sl < 2 ^ 27"
    if "sl \<in> all_slots m" for sl
  proof -
    from that obtain w where w: "w \<in> set ?ws" "sl = \<lparr>sl_time = sw_time w, sl_duration = sw_duration w\<rparr>"
      unfolding m(2) by blast
    with ws have "w \<in> set (sd_slots db)" by blast
    with rows_ok have "slot_row_ok w" "sw_duration w < 2 ^ 27" unfolding list_all_iff by blast+
    with w(2) show ?thesis by (auto simp: slot_row_ok_def)
  qed
  have "(\<exists>sl \<in> all_slots m. sl_time sl = ar_start req) \<longleftrightarrow> (\<exists>w \<in> set ?ws. sw_time w = ar_start req)"
    by (simp add: m(2))
  also have "\<dots> \<longleftrightarrow> (\<exists>w \<in> set (sd_slots db). sw_event_type_id w = ar_event_type_id req \<and>
      sw_time_zone w = time_zone_or_default req \<and> sw_time w = ar_start req)"
    using offered_here [OF rows_ok(1) t] by blast
  finally show ?thesis using m(1) times by blast
qed

text \<open>The busy times of the first microsecond.\<close>

lemma busy_at_start:
  assumes t: "parse_rfc3339 (ar_start req) = Some t" "inst t mod 1000 = 0"
    and e: "parse_rfc3339 (rfc3339nano_format (add_ns t microsecond)) = Some (add_ns t microsecond)"
    and A: "fits_int4 (ar_event_type_id req)"
      "\<forall>w \<in> set (accepted_rows (ar_event_type_id req) rows). span_ok cast w"
  shows "\<exists>bs. pg_busy_times cast (first_microsecond req t) rows = Inr bs \<and>
    set bs = busy_of ` {w \<in> set (accepted_rows (ar_event_type_id req) rows).
      row_start w < inst t + 1000 \<and> inst t < row_end w} \<and>
    (\<forall>x \<in> set bs. parse_rfc3339 (bt_start x) \<noteq> None \<and> parse_rfc3339 (bt_end x) \<noteq> None)"
proof -
  let ?q = "first_microsecond req t"
  have "inst (add_ns t microsecond) mod 1000 = 0" using t(2) by simp
  then have pg: "pg_instant (add_ns t microsecond) = inst t + 1000" "pg_instant t = inst t"
    using t(2) by simp_all
  have "\<exists>bs. pg_busy_times cast ?q rows = Inr bs \<and> set bs = busy_of ` {w \<in> set (accepted_rows (sr_event_type_id ?q) rows).
      row_start w < pg_instant (add_ns t microsecond) \<and> pg_instant t < row_end w}"
    by (rule pg_busy_times_set) (unfold first_microsecond_simps, fact t(1), fact e, fact A(1), fact A(2))
  then obtain bs where bs: "pg_busy_times cast ?q rows = Inr bs"
      "set bs = busy_of ` {w \<in> set (accepted_rows (ar_event_type_id req) rows).
        row_start w < inst t + 1000 \<and> inst t < row_end w}"
    unfolding pg first_microsecond_simps by blast
  have "parse_rfc3339 (bt_start x) \<noteq> None \<and> parse_rfc3339 (bt_end x) \<noteq> None" if "x \<in> set bs" for x
  proof -
    from that obtain w where "w \<in> set (accepted_rows (ar_event_type_id req) rows)" "x = busy_of w"
      unfolding bs(2) by blast
    with A(2) span_okE(2,3) [of cast w] show ?thesis by (simp add: busy_of_def)
  qed
  with bs show ?thesis by blast
qed

text \<open>What the filter leaves at the start.\<close>

lemma filtered_has_slot:
  assumes t: "parse_rfc3339 start = Some t" "inst t mod 1000 = 0"
    and busy: "ss_busy_times s = Some f" "f q = Inr bs"
      "set bs = busy_of ` {w \<in> A. row_start w < inst t + 1000 \<and> inst t < row_end w}"
      "\<forall>x \<in> set bs. parse_rfc3339 (bt_start x) \<noteq> None \<and> parse_rfc3339 (bt_end x) \<noteq> None"
      "\<forall>w \<in> A. row_start w mod 1000 = 0"
    and slots: "\<forall>sl \<in> all_slots (sp_slots r).
      parse_rfc3339 (sl_time sl) \<noteq> None \<and> 0 < sl_duration sl \<and> sl_duration sl < 2 ^ 27"
  shows "\<exists>r'. filter_busy_slots s q r = Inr (Some r') \<and> (has_slot r' start \<longleftrightarrow>
    (\<exists>sl \<in> all_slots (sp_slots r). sl_time sl = start) \<and> \<not> (\<exists>w \<in> A. row_start w \<le> inst t \<and> inst t < row_end w))"
proof -
  obtain m' where m': "filter_days bs (sp_slots r) [] = Inr m'"
    using filter_days_total [of "sp_slots r" bs "[]"] busy(4) slots by blast
  have kept: "all_slots m' = {sl \<in> all_slots (sp_slots r). slot_free bs sl}"
    using all_slots_filter_days [OF m'] by (simp add: all_slots_def)
  let ?r = "r\<lparr>sp_slots := if bs = [] then sp_slots r else m'\<rparr>"
  have filtered: "filter_busy_slots s q r = Inr (Some ?r)"
    using busy(1,2) m' by (simp add: filter_busy_slots_def)
  have free: "slot_free bs sl \<longleftrightarrow> \<not> (\<exists>w \<in> A. row_start w \<le> inst t \<and> inst t < row_end w)"
    if "sl \<in> all_slots (sp_slots r)" "sl_time sl = start" for sl
    by (rule slot_free_busy [OF _ _ _ t(2) busy(3,5)]) (use that t(1) slots in simp_all)
  have "has_slot ?r start \<longleftrightarrow> (\<exists>sl \<in> all_slots (sp_slots r). sl_time sl = start \<and> slot_free bs sl)"
  proof (cases "bs = []")
    case True
    have "slot_free [] sl" for sl by (simp add: slot_free_def)
    with True show ?thesis by (simp add: has_slot_iff)
  next
    case False
    then show ?thesis unfolding has_slot_iff by (simp add: kept conj_commute) blast
  qed
  also have "\<dots> \<longleftrightarrow> (\<exists>sl \<in> all_slots (sp_slots r). sl_time sl = start) \<and>
      \<not> (\<exists>w \<in> A. row_start w \<le> inst t \<and> inst t < row_end w)"
    using free by blast
  finally show ?thesis using filtered by blast
qed

text \<open>
  C16: Over Postgres a start (of whole microseconds) is available exactly when its event type is stored, a
  slot is offered at that start in that time zone, and no accepted booking of the event type is going
  on at the start: the check looks at the start of the slot only, not at its length.
\<close>
theorem pg_available_iff:
  assumes start: "parse_rfc3339 (ar_start req) = Some t" "inst t mod 1000 = 0" "\<bar>zone t\<bar> \<le> 24 * 3600"
      "four_digit_year (inst t + microsecond + zone t * second)"
    and event_type: "ar_event_type_id req \<noteq> 0" "fits_int4 (ar_event_type_id req)"
    and time_zone: "ar_time_zone req = [] \<or> valid_time_zone tz (ar_time_zone req)"
      "zones (time_zone_or_default req) = Some offset"
    and db: "slots_db_ok db" "\<forall>w \<in> set (sd_slots db). sw_duration w < 2 ^ 27"
    and bookings: "\<forall>w \<in> set rows. bw_status w = ''accepted'' \<longrightarrow> span_ok cast w"
  shows "is_available tz (pg_slot_service zones cast db rows) rid req = Inr (
    (\<exists>e \<in> set (sd_event_types db). et_id e = ar_event_type_id req) \<and>
    (\<exists>w \<in> set (sd_slots db). sw_event_type_id w = ar_event_type_id req \<and>
      sw_time_zone w = time_zone_or_default req \<and> sw_time w = ar_start req) \<and>
    \<not> (\<exists>w \<in> set rows. bw_status w = ''accepted'' \<and> bw_event_type_id w = ar_event_type_id req \<and>
      row_start w \<le> inst t \<and> inst t < row_end w))"
proof -
  let ?s = "pg_slot_service zones cast db rows" and ?q = "first_microsecond req t"
  let ?A = "set (accepted_rows (ar_event_type_id req) rows)"
  have e: "parse_rfc3339 (rfc3339nano_format (add_ns t microsecond)) = Some (add_ns t microsecond)"
    using start parse_rfc3339_zone [OF start(1)] by (intro parse_rfc3339nano_format) simp_all
  have rows_ok: "list_all slot_row_ok (sd_slots db)" using db(1) by (simp add: slots_db_ok_def)
  have A: "\<forall>w \<in> ?A. span_ok cast w" using bookings by (auto simp: accepted_rows_def)
  then have whole: "\<forall>w \<in> ?A. row_start w mod 1000 = 0" using span_okE(4) by blast
  obtain m where m: "slots_by_day zones (time_zone_or_default req) (offered_rows ?q t (add_ns t microsecond) db) [] = Inr m"
      "\<forall>sl \<in> all_slots m. parse_rfc3339 (sl_time sl) \<noteq> None \<and> 0 < sl_duration sl \<and> sl_duration sl < 2 ^ 27"
      "(\<exists>sl \<in> all_slots m. sl_time sl = ar_start req) \<longleftrightarrow> (\<exists>w \<in> set (sd_slots db).
        sw_event_type_id w = ar_event_type_id req \<and> sw_time_zone w = time_zone_or_default req \<and>
        sw_time w = ar_start req)"
    using offered_slots [of db zones req offset t, OF rows_ok db(2) time_zone(2) start(1,2)] by blast
  obtain bs where bs: "pg_busy_times cast ?q rows = Inr bs"
      "set bs = busy_of ` {w \<in> ?A. row_start w < inst t + 1000 \<and> inst t < row_end w}"
      "\<forall>x \<in> set bs. parse_rfc3339 (bt_start x) \<noteq> None \<and> parse_rfc3339 (bt_end x) \<noteq> None"
    using busy_at_start [OF start(1,2) e event_type(2) A] by blast
  define r where "r = \<lparr>sp_event_type_id = ar_event_type_id req, sp_time_zone = time_zone_or_default req,
    sp_start = ar_start req, sp_end = sr_end ?q, sp_slots = m, sp_request_id = rid\<rparr>"
  have busy: "ss_busy_times ?s = Some (\<lambda>q. pg_busy_times cast q rows)" by (simp add: pg_slot_service_def)
  have rm: "sp_slots r = m" by (simp add: r_def)
  obtain r' where filtered: "filter_busy_slots ?s ?q r = Inr (Some r')"
    and has: "has_slot r' (ar_start req) \<longleftrightarrow> (\<exists>sl \<in> all_slots m. sl_time sl = ar_start req) \<and>
      \<not> (\<exists>w \<in> ?A. row_start w \<le> inst t \<and> inst t < row_end w)"
    using filtered_has_slot [of "ar_start req" t ?s, OF start(1,2) busy bs(1,2,3) whole, of r] m(2)
    unfolding rm by blast
  have read: "pg_read_available zones rid ?q db =
      (if list_ex (\<lambda>e. et_id e = ar_event_type_id req) (sd_event_types db) then Inr (Some r) else Inr None)"
    using start(1) e event_type(2) m(1) by (simp add: pg_read_available_def r_def)
  have repo: "ss_repo ?s = Some (\<lambda>rid req. pg_read_available zones rid req db)"
    by (simp add: pg_slot_service_def)
  note answer = is_available_repo [OF start(1) e event_type(1) time_zone(1) repo]
  have A_iff: "(\<exists>w \<in> ?A. row_start w \<le> inst t \<and> inst t < row_end w) \<longleftrightarrow> (\<exists>w \<in> set rows.
      bw_status w = ''accepted'' \<and> bw_event_type_id w = ar_event_type_id req \<and>
      row_start w \<le> inst t \<and> inst t < row_end w)"
    by (auto simp: accepted_rows_def)
  show ?thesis
  proof (cases "list_ex (\<lambda>e. et_id e = ar_event_type_id req) (sd_event_types db)")
    case True
    then have "\<exists>e \<in> set (sd_event_types db). et_id e = ar_event_type_id req" by (simp only: list_ex_iff)
    then show ?thesis
      unfolding answer read if_P [OF True] sum.case option.case filtered has m(3) A_iff by blast
  next
    case False
    then have "\<not> (\<exists>e \<in> set (sd_event_types db). et_id e = ar_event_type_id req)" by (simp only: list_ex_iff not_False_eq_True)
    then show ?thesis unfolding answer read if_not_P [OF False] sum.case option.case by blast
  qed
qed

section \<open>A booking inside the slot\<close>

definition demo_zones :: zone_table where
  "demo_zones z = (if z = slot_fixture_time_zone then Some (\<lambda>_. - 18000) else None)"

definition demo_cast :: "string \<Rightarrow> int option" where
  "demo_cast s = map_option inst (parse_rfc3339 s)"

definition seeded_slots :: slots_db where
  "seeded_slots = \<lparr>sd_event_types = [fixture_slot_event_type], sd_slots =
     [\<lparr>sw_event_type_id = 1001, sw_time_zone = slot_fixture_time_zone, sw_time = slot_fixture_time,
       sw_at = 1777647600000000000, sw_duration = 30\<rparr>,
      \<lparr>sw_event_type_id = 1001, sw_time_zone = slot_fixture_time_zone, sw_time = slot_fixture_reschedule,
       sw_at = 1777734000000000000, sw_duration = 30\<rparr>]\<rparr>"

lemma seeded: "seed_fixture_availability \<lparr>sd_event_types = [], sd_slots = []\<rparr> = (Inr (), seeded_slots)"
  by code_simp

lemma seeded_ok: "slots_db_ok seeded_slots"
  by (simp add: slots_db_ok_def seeded_slots_def slot_row_ok_def fits_int4_def pg_instant_def
      fixture_slot_event_type_def)

text \<open>From ten past to twenty to, in the half hour of the first slot.\<close>

definition overlapping_row :: booking_row where
  "overlapping_row = \<lparr>bw_uid = ''b'', bw_id = 1, bw_title = ''t'', bw_status = ''accepted'',
     bw_start = ''2026-05-01T15:10:00.000Z'', bw_end = ''2026-05-01T15:40:00.000Z'', bw_event_type_id = 1001,
     bw_responses = JObj [], bw_metadata = JObj [], bw_created_at = [], bw_updated_at = [], bw_request_id = [],
     bw_selected_calendar = None, bw_destination_calendar = None, bw_external_event = None\<rparr>"

lemma overlapping_instants [simp]:
  "parse_rfc3339 ''2026-05-01T15:10:00.000Z'' = Some \<lparr>inst = 1777648200000000000, zone = 0\<rparr>"
  "parse_rfc3339 ''2026-05-01T15:40:00.000Z'' = Some \<lparr>inst = 1777650000000000000, zone = 0\<rparr>"
  by code_simp+

lemma overlapping_span: "span_ok demo_cast overlapping_row" "row_start overlapping_row = 1777648200000000000"
  by (simp_all add: span_ok_def demo_cast_def overlapping_row_def row_start_def instant_or_zero_def)

definition seeded_request :: availability_request where
  "seeded_request = \<lparr>ar_event_type_id = 1001, ar_start = slot_fixture_time, ar_time_zone = []\<rparr>"

lemma pg_available_iff_witness:
  "is_available (\<lambda>_. False) (pg_slot_service demo_zones demo_cast seeded_slots [overlapping_row]) ''r'' seeded_request
     = Inr True"
proof -
  have y: "four_digit_year (1777647600000000000 + 1000 + 0 * 1000000000)" by code_simp
  show ?thesis
    using pg_available_iff [of seeded_request "\<lparr>inst = 1777647600000000000, zone = 0\<rparr>" "\<lambda>_. False" demo_zones
        "\<lambda>_. - 18000" seeded_slots "[overlapping_row]" demo_cast "''r''"] y seeded_ok overlapping_span
    by (simp add: seeded_request_def fits_int4_def time_zone_or_default_def demo_zones_def seeded_slots_def
        fixture_slot_event_type_def)
qed

end
