(* ===== verification/Authz.thy ===== *)
theory Authz
  imports Auth
begin

text \<open>
  The authorizer (\<open>internal/authz/policy.go\<close>): the policies and the permissions each requires,
  the decision on a principal, and the ownership rule of the booking policies.
\<close>

section \<open>Policies\<close>

text \<open>The declared policies, and any other value of the string type \<open>Policy\<close>.\<close>

datatype policy =
    PolicyMeRead
  | PolicyOAuth2Read
  | PolicyOAuth2TokenExchange
  | PolicyPlatformClientRead
  | PolicyAppsRead
  | PolicyAppsInstall
  | PolicyAppInstallIntentsRead
  | PolicyAppInstallIntentsHandoff
  | PolicyAppInstallExternalAuthRead
  | PolicyAppInstallExternalAuthConsume
  | PolicyAppInstallExternalAuthPreview
  | PolicyAppInstallExternalAuthCallback
  | PolicyAppInstallProviderExchange
  | PolicyAppInstallComplete
  | PolicyAppInstallActivate
  | PolicyAppInstallationsRead
  | PolicyAppInstallProgressRead
  | PolicyBookingRead
  | PolicyBookingWrite
  | PolicyBookingHostAction
  | PolicySlotsRead
  | PolicyCalendarConnectionsRead
  | PolicyCalendarsRead
  | PolicyCredentialsRead
  | PolicySelectedCalendarsRead
  | PolicySelectedCalendarsWrite
  | PolicyDestinationCalendarsRead
  | PolicyDestinationCalendarsWrite
  | UnknownPolicy string

fun policy_name :: "policy \<Rightarrow> string" where
  "policy_name PolicyMeRead = ''policy.me.read''"
| "policy_name PolicyOAuth2Read = ''policy.oauth2.client.read''"
| "policy_name PolicyOAuth2TokenExchange = ''policy.oauth2.token.exchange''"
| "policy_name PolicyPlatformClientRead = ''policy.platform-client.read''"
| "policy_name PolicyAppsRead = ''policy.apps.read''"
| "policy_name PolicyAppsInstall = ''policy.apps.install''"
| "policy_name PolicyAppInstallIntentsRead = ''policy.app-install-intents.read''"
| "policy_name PolicyAppInstallIntentsHandoff = ''policy.app-install-intents.handoff''"
| "policy_name PolicyAppInstallExternalAuthRead = ''policy.app-install-intents.external-auth.read''"
| "policy_name PolicyAppInstallExternalAuthConsume = ''policy.app-install-intents.external-auth.consume''"
| "policy_name PolicyAppInstallExternalAuthPreview = ''policy.app-install-intents.external-auth.authorization-preview''"
| "policy_name PolicyAppInstallExternalAuthCallback = ''policy.app-install-intents.external-auth.callback-preflight''"
| "policy_name PolicyAppInstallProviderExchange = ''policy.app-install-intents.external-auth.provider-exchange''"
| "policy_name PolicyAppInstallComplete = ''policy.app-install-intents.complete''"
| "policy_name PolicyAppInstallActivate = ''policy.app-install-intents.activate''"
| "policy_name PolicyAppInstallationsRead = ''policy.app-installations.read''"
| "policy_name PolicyAppInstallProgressRead = ''policy.app-install-intents.progress.read''"
| "policy_name PolicyBookingRead = ''policy.booking.read''"
| "policy_name PolicyBookingWrite = ''policy.booking.write''"
| "policy_name PolicyBookingHostAction = ''policy.booking.host-action''"
| "policy_name PolicySlotsRead = ''policy.slots.read''"
| "policy_name PolicyCalendarConnectionsRead = ''policy.calendar-connections.read''"
| "policy_name PolicyCalendarsRead = ''policy.calendars.read''"
| "policy_name PolicyCredentialsRead = ''policy.credentials.read''"
| "policy_name PolicySelectedCalendarsRead = ''policy.selected-calendars.read''"
| "policy_name PolicySelectedCalendarsWrite = ''policy.selected-calendars.write''"
| "policy_name PolicyDestinationCalendarsRead = ''policy.destination-calendars.read''"
| "policy_name PolicyDestinationCalendarsWrite = ''policy.destination-calendars.write''"
| "policy_name (UnknownPolicy s) = s"

fun required_permissions :: "policy \<Rightarrow> string list option" where
  "required_permissions PolicyMeRead = Some [''me:read'']"
| "required_permissions PolicyOAuth2Read = Some [''oauth-client:read'']"
| "required_permissions PolicyOAuth2TokenExchange = Some [''oauth-token:exchange'']"
| "required_permissions PolicyPlatformClientRead = Some [''platform-client:read'']"
| "required_permissions PolicyAppsRead = Some [''apps:read'']"
| "required_permissions PolicyAppsInstall = Some [''apps:install'']"
| "required_permissions PolicyAppInstallIntentsRead = Some [''apps:read'']"
| "required_permissions PolicyAppInstallIntentsHandoff = Some [''apps:install'']"
| "required_permissions PolicyAppInstallExternalAuthRead = Some [''apps:install'']"
| "required_permissions PolicyAppInstallExternalAuthConsume = Some [''apps:install'']"
| "required_permissions PolicyAppInstallExternalAuthPreview = Some [''apps:install'']"
| "required_permissions PolicyAppInstallExternalAuthCallback = Some [''apps:install'']"
| "required_permissions PolicyAppInstallProviderExchange = Some [''apps:install'']"
| "required_permissions PolicyAppInstallComplete = Some [''apps:install'']"
| "required_permissions PolicyAppInstallActivate = Some [''apps:install'']"
| "required_permissions PolicyAppInstallationsRead = Some [''apps:read'']"
| "required_permissions PolicyAppInstallProgressRead = Some [''apps:install'']"
| "required_permissions PolicyBookingRead = Some [''booking:read'']"
| "required_permissions PolicyBookingWrite = Some [''booking:write'']"
| "required_permissions PolicyBookingHostAction = Some [''booking:host-action'']"
| "required_permissions PolicySlotsRead = Some []"
| "required_permissions PolicyCalendarConnectionsRead = Some [''calendar-connections:read'']"
| "required_permissions PolicyCalendarsRead = Some [''calendars:read'']"
| "required_permissions PolicyCredentialsRead = Some [''credentials:read'']"
| "required_permissions PolicySelectedCalendarsRead = Some [''selected-calendars:read'']"
| "required_permissions PolicySelectedCalendarsWrite = Some [''selected-calendars:write'']"
| "required_permissions PolicyDestinationCalendarsRead = Some [''destination-calendars:read'']"
| "required_permissions PolicyDestinationCalendarsWrite = Some [''destination-calendars:write'']"
| "required_permissions (UnknownPolicy s) = None"

section \<open>Decisions\<close>

record decision =
  d_allowed :: bool
  d_reason :: string

record booking_resource =
  owner_user_id :: int
  host_user_ids :: "int list"

abbreviation allow :: decision where
  "allow \<equiv> \<lparr>d_allowed = True, d_reason = []\<rparr>"

abbreviation deny :: "string \<Rightarrow> decision" where
  "deny reason \<equiv> \<lparr>d_allowed = False, d_reason = reason\<rparr>"

fun has_permission :: "string list \<Rightarrow> string \<Rightarrow> bool" where
  "has_permission [] required = False"
| "has_permission (p # ps) required = (if p = required then True else has_permission ps required)"

text \<open>The loop over the required permissions: the first one missing decides.\<close>

fun check_permissions :: "string list \<Rightarrow> string list \<Rightarrow> decision" where
  "check_permissions permissions [] = allow"
| "check_permissions permissions (r # rs) =
     (if \<not> has_permission permissions r then deny ''missing permission''
      else check_permissions permissions rs)"

definition authorize :: "principal \<Rightarrow> policy \<Rightarrow> decision" where
  "authorize p policy =
     (case required_permissions policy of
        None \<Rightarrow> deny ''unknown policy''
      | Some required \<Rightarrow>
          if p_type p = [] then deny ''missing principal type''
          else if required = [] then allow
          else check_permissions (p_permissions p) required)"

fun is_host :: "int \<Rightarrow> int list \<Rightarrow> bool" where
  "is_host i [] = False"
| "is_host i (h # hs) = (if i = h then True else is_host i hs)"

definition authorize_booking :: "principal \<Rightarrow> policy \<Rightarrow> booking_resource \<Rightarrow> decision" where
  "authorize_booking p policy r =
     (let decision = authorize p policy
      in if \<not> d_allowed decision then decision
         else if policy = PolicyBookingRead \<or> policy = PolicyBookingWrite then
           (if owner_user_id r = 0 then deny ''missing booking owner''
            else if p_id p = owner_user_id r then allow
            else deny ''principal does not own booking resource'')
         else if policy = PolicyBookingHostAction then
           (if host_user_ids r = [] then deny ''missing booking hosts''
            else if is_host (p_id p) (host_user_ids r) then allow
            else deny ''principal is not booking host'')
         else decision)"

section \<open>What a decision says\<close>

lemma has_permission_iff [simp]: "has_permission ps r \<longleftrightarrow> r \<in> set ps"
  by (induction ps) auto

lemma is_host_iff [simp]: "is_host i hs \<longleftrightarrow> i \<in> set hs"
  by (induction hs) auto

lemma check_permissions_allowed [simp]:
  "d_allowed (check_permissions ps rs) \<longleftrightarrow> set rs \<subseteq> set ps"
  by (induction rs) auto

lemma authorize_allowed_iff:
  "d_allowed (authorize p policy) \<longleftrightarrow>
     p_type p \<noteq> [] \<and>
     (\<exists>required. required_permissions policy = Some required \<and> set required \<subseteq> set (p_permissions p))"
  by (auto simp: authorize_def split: option.splits)

text \<open>The policies that ask for a permission: all but the one for reading slots.\<close>

lemma required_permissions_known:
  "required_permissions policy = Some required \<Longrightarrow> policy \<noteq> PolicySlotsRead \<Longrightarrow>
   \<exists>r. required = [r]"
  by (cases policy) auto

text \<open>
  C39: authorization denies by default and is decided by one permission: a principal passes a
  policy exactly when it has a type and the policy is either the public slots policy or a declared
  policy whose required permission the principal holds; an undeclared policy is never passed.
\<close>
theorem authorize_deny_by_default:
  "d_allowed (authorize p policy) \<longleftrightarrow>
     p_type p \<noteq> [] \<and>
     (policy = PolicySlotsRead \<or>
      (\<exists>r \<in> set (p_permissions p). required_permissions policy = Some [r]))"
proof (cases "policy = PolicySlotsRead")
  case True
  then show ?thesis by (simp add: authorize_allowed_iff)
next
  case False
  then show ?thesis
    using required_permissions_known [of policy] by (fastforce simp: authorize_allowed_iff)
qed

text \<open>
  Booking ownership: reading or writing a booking is allowed exactly to its (recorded) owner
  with the policy's permission, and a host action exactly to one of its hosts with the
  permission for host actions; a booking without owner or hosts is nobody's.
\<close>
theorem authorize_booking_iff:
  "(d_allowed (authorize_booking p PolicyBookingRead r) \<longleftrightarrow>
      p_type p \<noteq> [] \<and> ''booking:read'' \<in> set (p_permissions p) \<and>
      owner_user_id r \<noteq> 0 \<and> p_id p = owner_user_id r) \<and>
   (d_allowed (authorize_booking p PolicyBookingWrite r) \<longleftrightarrow>
      p_type p \<noteq> [] \<and> ''booking:write'' \<in> set (p_permissions p) \<and>
      owner_user_id r \<noteq> 0 \<and> p_id p = owner_user_id r) \<and>
   (d_allowed (authorize_booking p PolicyBookingHostAction r) \<longleftrightarrow>
      p_type p \<noteq> [] \<and> ''booking:host-action'' \<in> set (p_permissions p) \<and>
      p_id p \<in> set (host_user_ids r))"
  by (auto simp: authorize_booking_def Let_def authorize_allowed_iff)

text \<open>
  What the booking service needs from it: an allowed booking operation is the owner's, the host
  action a host's.
\<close>

lemma authorize_booking_owner:
  "d_allowed (authorize_booking p policy r) \<Longrightarrow> policy \<in> {PolicyBookingRead, PolicyBookingWrite} \<Longrightarrow>
   p_id p = owner_user_id r \<and> owner_user_id r \<noteq> 0"
  by (auto simp: authorize_booking_def Let_def split: if_splits)

lemma authorize_booking_host:
  "d_allowed (authorize_booking p PolicyBookingHostAction r) \<Longrightarrow> p_id p \<in> set (host_user_ids r)"
  by (auto simp: authorize_booking_def Let_def split: if_splits)

end
