(* ===== verification/BookingLifecycle.thy ===== *)
theory BookingLifecycle
  imports BookingStore
begin

text \<open>
  Correctness of the booking store: the fields an override can change, the invariant of the
  in-memory store over all runs, the state machine of a booking's status, idempotent creation,
  the hand-over of planned side effects to the repository, and the secret-field check.
\<close>

section \<open>Secret-bearing keys\<close>

text \<open>The keys of a JSON value, at any depth.\<close>

inductive json_key :: "json \<Rightarrow> string \<Rightarrow> bool" where
  member: "(key, child) \<in> set members \<Longrightarrow> json_key (JObj members) key"
| nested: "(k, child) \<in> set members \<Longrightarrow> json_key child key \<Longrightarrow> json_key (JObj members) key"
| item: "child \<in> set items \<Longrightarrow> json_key child key \<Longrightarrow> json_key (JArr items) key"

inductive_simps json_key_obj: "json_key (JObj members) key"
inductive_simps json_key_arr: "json_key (JArr items) key"
inductive_cases json_key_scalarE: "json_key JNull key" "json_key (JBool b) key"
  "json_key (JNum n) key" "json_key (JStr v) key"

lemma json_key_simps:
  "\<not> json_key (JObj []) key"
  "json_key (JObj ((k, c) # ms)) key \<longleftrightarrow> key = k \<or> json_key c key \<or> json_key (JObj ms) key"
  "\<not> json_key (JArr []) key"
  "json_key (JArr (c # js)) key \<longleftrightarrow> json_key c key \<or> json_key (JArr js) key"
  by (auto simp: json_key_obj json_key_arr)

lemma has_secret_keys:
  "has_secret_field j \<longleftrightarrow> (\<exists>key. json_key j key \<and> secret_echo_field (to_lower_ascii key))"
  "has_secret_member ms \<longleftrightarrow>
     (\<exists>key. json_key (JObj ms) key \<and> secret_echo_field (to_lower_ascii key))"
  "has_secret_item js \<longleftrightarrow>
     (\<exists>key. json_key (JArr js) key \<and> secret_echo_field (to_lower_ascii key))"
  by (induction j and ms and js rule: has_secret_field_has_secret_member_has_secret_item.induct)
    (auto simp: json_key_simps elim: json_key_scalarE)

text \<open>
  C29: the secret check finds exactly the secret-bearing keys: a JSON object is rejected iff some
  object at some depth has a key that is, in lower case, one of the secret names.
\<close>
theorem secret_field_iff:
  "has_secret_member ms \<longleftrightarrow>
     (\<exists>key. json_key (JObj ms) key \<and> secret_echo_field (to_lower_ascii key))"
  by (rule has_secret_keys(2))

section \<open>Fields of overridden bookings\<close>

lemma override_simps [simp]:
  "override_text base [] = base" "new \<noteq> [] \<Longrightarrow> override_text base new = new"
  "override_int i 0 = i" "n \<noteq> 0 \<Longrightarrow> override_int i n = n"
  "override_ref r None = r" "override_ref r (Some x) = Some x"
  by (simp_all add: override_text_def override_int_def override_ref_def)

lemma zero_booking_fields [simp]:
  "b_uid zero_booking = []" "b_id zero_booking = 0" "b_title zero_booking = []"
  "b_status zero_booking = []" "b_start zero_booking = []" "b_end zero_booking = []"
  "b_event_type_id zero_booking = 0" "b_attendees zero_booking = None"
  "b_responses zero_booking = None" "b_metadata zero_booking = None"
  "b_created_at zero_booking = []" "b_updated_at zero_booking = []"
  "b_request_id zero_booking = []" "b_selected_calendar zero_booking = []"
  "b_destination_calendar zero_booking = []" "b_external_event zero_booking = []"
  "b_owner zero_booking = 0" "b_hosts zero_booking = None"
  by (simp_all add: zero_booking_def)

lemma merge_booking_fields [simp]:
  "b_uid (merge_booking base ov) = override_text (b_uid base) (b_uid ov)"
  "b_status (merge_booking base ov) = override_text (b_status base) (b_status ov)"
  "b_start (merge_booking base ov) = override_text (b_start base) (b_start ov)"
  "b_end (merge_booking base ov) = override_text (b_end base) (b_end ov)"
  "b_event_type_id (merge_booking base ov) = override_int (b_event_type_id base) (b_event_type_id ov)"
  "b_attendees (merge_booking base ov) = override_ref (b_attendees base) (b_attendees ov)"
  "b_responses (merge_booking base ov) = override_ref (b_responses base) (b_responses ov)"
  "b_metadata (merge_booking base ov) = override_ref (b_metadata base) (b_metadata ov)"
  "b_created_at (merge_booking base ov) = override_text (b_created_at base) (b_created_at ov)"
  "b_updated_at (merge_booking base ov) = override_text (b_updated_at base) (b_updated_at ov)"
  "b_request_id (merge_booking base ov) = override_text (b_request_id base) (b_request_id ov)"
  "b_external_event (merge_booking base ov) = override_text (b_external_event base) (b_external_event ov)"
  "b_owner (merge_booking base ov) = override_int (b_owner base) (b_owner ov)"
  "b_hosts (merge_booking base ov) = override_ref (b_hosts base) (b_hosts ov)"
  by (simp_all add: merge_booking_def)

lemma fixture_base_fields [simp]:
  "b_uid (fixture_base rid) = primary_fixture_uid" "b_status (fixture_base rid) = ''accepted''"
  "b_start (fixture_base rid) = slot_fixture_time" "b_end (fixture_base rid) = booking_fixture_end"
  "b_event_type_id (fixture_base rid) = booking_fixture_event_type_id"
  "b_request_id (fixture_base rid) = rid" "b_owner (fixture_base rid) = fixture_owner_user_id"
  "b_hosts (fixture_base rid) = Some [fixture_owner_user_id]"
  "b_attendees (fixture_base rid) = Some [fixture_attendee]"
  "b_created_at (fixture_base rid) = ''2026-01-01T00:00:00.000Z''"
  "b_updated_at (fixture_base rid) = ''2026-01-01T00:00:00.000Z''"
  "b_metadata (fixture_base rid) = Some [(''fixture'', JStr ''personal-basic'')]"
  "b_responses (fixture_base rid) = Some [(''name'', JStr ''Fixture Attendee''),
     (''email'', JStr ''fixture-attendee@example.test'')]"
  by (simp_all add: fixture_base_def)

lemma fixture_booking_fields [simp]:
  "b_uid (fixture_booking rid ov) = override_text primary_fixture_uid (b_uid ov)"
  "b_status (fixture_booking rid ov) = override_text ''accepted'' (b_status ov)"
  "b_start (fixture_booking rid ov) = override_text slot_fixture_time (b_start ov)"
  "b_end (fixture_booking rid ov) = override_text booking_fixture_end (b_end ov)"
  "b_event_type_id (fixture_booking rid ov) =
     override_int booking_fixture_event_type_id (b_event_type_id ov)"
  "b_request_id (fixture_booking rid ov) = override_text rid (b_request_id ov)"
  "b_owner (fixture_booking rid ov) = override_int fixture_owner_user_id (b_owner ov)"
  "b_hosts (fixture_booking rid ov) = override_ref (Some [fixture_owner_user_id]) (b_hosts ov)"
  "b_attendees (fixture_booking rid ov) = override_ref (Some [fixture_attendee]) (b_attendees ov)"
  "b_responses (fixture_booking rid ov) =
     override_ref (b_responses (fixture_base rid)) (b_responses ov)"
  "b_metadata (fixture_booking rid ov) =
     override_ref (b_metadata (fixture_base rid)) (b_metadata ov)"
  by (simp_all add: fixture_booking_def Let_def)

text \<open>A lifecycle operation writes a status and an update time over an existing booking.\<close>

definition relabelled :: "string \<Rightarrow> booking \<Rightarrow> string \<Rightarrow> string \<Rightarrow> booking" where
  "relabelled rid b status at = fixture_booking rid (merge_booking b (zero_booking
     \<lparr>b_status := status, b_updated_at := at\<rparr>))"

text \<open>The booking that a reschedule of \<open>b\<close> makes.\<close>

definition moved :: "string \<Rightarrow> booking \<Rightarrow> string \<Rightarrow> string \<Rightarrow> booking" where
  "moved rid b start end_at = fixture_booking rid (merge_booking b (zero_booking
     \<lparr>b_uid := rescheduled_fixture_uid, b_status := ''accepted'', b_start := start, b_end := end_at,
      b_updated_at := ''2026-01-01T00:10:00.000Z'',
      b_external_event := fixture_external_event rescheduled_fixture_uid\<rparr>))"

section \<open>The invariant\<close>

definition booking_statuses :: "string set" where
  "booking_statuses = {''accepted'', ''pending'', ''cancelled'', ''rejected''}"

definition booking_wf :: "string \<Rightarrow> booking \<Rightarrow> bool" where
  "booking_wf uid b \<longleftrightarrow>
     uid \<noteq> [] \<and> b_uid b = uid \<and> b_status b \<in> booking_statuses \<and>
     end_for_start (b_start b) = Inr (b_end b) \<and>
     b_event_type_id b = booking_fixture_event_type_id \<and> b_owner b \<noteq> 0 \<and>
     \<not> secret_in (b_responses b) \<and> \<not> secret_in (b_metadata b)"

definition store_inv :: "'r booking_store \<Rightarrow> bool" where
  "store_inv s \<longleftrightarrow> bs_repo s = None \<and>
     (\<forall>uid b. bs_bookings s uid = Some b \<longrightarrow> booking_wf uid b) \<and>
     (\<forall>key uid. bs_idempotency s key = Some uid \<longrightarrow> bs_bookings s uid \<noteq> None)"

lemma end_for_start_nonempty: "end_for_start a = Inr e \<Longrightarrow> a \<noteq> [] \<and> e \<noteq> []"
  by (auto simp: end_for_start_def parse_rfc3339_def parse_date_clock_def take_year_def
      wire_format_def Let_def split: option.splits)

lemma relabelled_fields:
  "b_uid b \<noteq> [] \<Longrightarrow> b_uid (relabelled rid b status at) = b_uid b"
  "status \<noteq> [] \<Longrightarrow> b_status (relabelled rid b status at) = status"
  "b_start b \<noteq> [] \<Longrightarrow> b_start (relabelled rid b status at) = b_start b"
  "b_end b \<noteq> [] \<Longrightarrow> b_end (relabelled rid b status at) = b_end b"
  "b_event_type_id b \<noteq> 0 \<Longrightarrow> b_event_type_id (relabelled rid b status at) = b_event_type_id b"
  "b_owner b \<noteq> 0 \<Longrightarrow> b_owner (relabelled rid b status at) = b_owner b"
  "b_hosts b = Some hosts \<Longrightarrow> b_hosts (relabelled rid b status at) = Some hosts"
  "b_attendees b = Some as \<Longrightarrow> b_attendees (relabelled rid b status at) = Some as"
  "b_request_id b \<noteq> [] \<Longrightarrow> b_request_id (relabelled rid b status at) = b_request_id b"
  "b_responses (relabelled rid b status at) =
     override_ref (b_responses (fixture_base rid)) (b_responses b)"
  "b_metadata (relabelled rid b status at) =
     override_ref (b_metadata (fixture_base rid)) (b_metadata b)"
  by (simp_all add: relabelled_def del: fixture_base_fields)

lemma moved_fields:
  "b_uid (moved rid b start end_at) = rescheduled_fixture_uid"
  "b_status (moved rid b start end_at) = ''accepted''"
  "start \<noteq> [] \<Longrightarrow> b_start (moved rid b start end_at) = start"
  "end_at \<noteq> [] \<Longrightarrow> b_end (moved rid b start end_at) = end_at"
  "b_event_type_id b \<noteq> 0 \<Longrightarrow> b_event_type_id (moved rid b start end_at) = b_event_type_id b"
  "b_owner b \<noteq> 0 \<Longrightarrow> b_owner (moved rid b start end_at) = b_owner b"
  "b_hosts b = Some hosts \<Longrightarrow> b_hosts (moved rid b start end_at) = Some hosts"
  "b_responses (moved rid b start end_at) =
     override_ref (b_responses (fixture_base rid)) (b_responses b)"
  "b_metadata (moved rid b start end_at) =
     override_ref (b_metadata (fixture_base rid)) (b_metadata b)"
  by (simp_all add: moved_def del: fixture_base_fields)

lemma secret_in_override:
  "\<not> secret_in base \<Longrightarrow> \<not> secret_in new \<Longrightarrow> \<not> secret_in (override_ref base new)"
  by (cases new) simp_all

lemma fixture_base_no_secret:
  "\<not> secret_in (b_responses (fixture_base rid))" "\<not> secret_in (b_metadata (fixture_base rid))"
proof -
  have "\<not> has_secret_member [(''name'', JStr ''Fixture Attendee''),
      (''email'', JStr ''fixture-attendee@example.test'')]"
    "\<not> has_secret_member [(''fixture'', JStr ''personal-basic'')]"
    by code_simp+
  then show "\<not> secret_in (b_responses (fixture_base rid))" "\<not> secret_in (b_metadata (fixture_base rid))"
    by (simp_all del: has_secret_member.simps)
qed

lemma booking_statuses_nonempty: "status \<in> booking_statuses \<Longrightarrow> status \<noteq> []"
  by (auto simp: booking_statuses_def)

lemma booking_wf_relabelled:
  assumes "booking_wf uid b" "status \<in> booking_statuses"
  shows "booking_wf uid (relabelled rid b status at)"
proof -
  have "b_uid b \<noteq> []" "b_start b \<noteq> []" "b_end b \<noteq> []" "b_event_type_id b \<noteq> 0" "b_owner b \<noteq> 0"
    using assms(1) end_for_start_nonempty [of "b_start b" "b_end b"] by (simp_all add: booking_wf_def)
  then show ?thesis
    using assms booking_statuses_nonempty
    unfolding booking_wf_def
    by (simp add: relabelled_fields secret_in_override fixture_base_no_secret
        del: fixture_base_fields)
qed

lemma booking_wf_moved:
  assumes "booking_wf uid b" "end_for_start start = Inr end_at"
  shows "booking_wf rescheduled_fixture_uid (moved rid b start end_at)"
proof -
  have ne: "start \<noteq> []" "end_at \<noteq> []" using assms(2) end_for_start_nonempty by blast+
  have s: "''accepted'' \<in> booking_statuses" by (simp add: booking_statuses_def)
  show ?thesis
    using assms ne s
    unfolding booking_wf_def
    by (simp add: moved_fields secret_in_override fixture_base_no_secret del: fixture_base_fields)
qed

lemma fixture_ends:
  "end_for_start slot_fixture_time = Inr booking_fixture_end"
  "end_for_start ''2026-05-03T15:00:00.000Z'' = Inr ''2026-05-03T15:30:00.000Z''"
  by code_simp+

lemma pending_no_secret:
  "\<not> has_secret_member [(''fixture'', JStr ''pending-host-action'')]"
  by code_simp

lemma fixture_by_uid_wf:
  "booking_wf primary_fixture_uid (fixture_booking rid zero_booking)"
  "uid \<noteq> [] \<Longrightarrow> booking_wf uid (pending_fixture_booking rid uid)"
  using fixture_base_no_secret pending_no_secret
  by (simp_all add: booking_wf_def fixture_ends pending_fixture_booking_def booking_statuses_def
      del: has_secret_member.simps)

lemma booking_wf_fixture:
  assumes "fixture_by_uid rid uid = Some b"
  shows "booking_wf uid b"
proof -
  from assms consider "uid = primary_fixture_uid" "b = fixture_booking rid zero_booking"
    | "uid \<noteq> []" "b = pending_fixture_booking rid uid"
    unfolding fixture_by_uid_def by (metis list.distinct(1) option.distinct(1) option.inject)
  then show ?thesis using fixture_by_uid_wf by cases simp_all
qed

section \<open>Operations by branch\<close>

lemma find_booking_no_repo:
  "bs_repo s = None \<Longrightarrow> find_booking rid uid s =
     (case bs_bookings s uid of
        Some b \<Rightarrow> (Inr (Some b), s)
      | None \<Rightarrow>
          (case fixture_by_uid rid uid of
             None \<Rightarrow> (Inr None, s)
           | Some b \<Rightarrow> (Inr (Some b), put_booking b s)))"
  by (simp add: find_booking_def split: option.split)

lemma save_bookings_no_repo [simp]: "bs_repo s = None \<Longrightarrow> save_bookings effects bs s = (None, s)"
  by (simp add: save_bookings_def)

text \<open>What a successful cancel, confirm, decline or reschedule did, with or without repository.\<close>

lemma cancel_booking_ok:
  assumes "cancel_booking rid uid req s = (Inr (Some r), s')"
  obtains existing s1 effects s2 where "find_booking rid uid s = (Inr (Some existing), s1)"
    "lr_booking r = relabelled rid existing ''cancelled'' ''2026-01-01T00:05:00.000Z''"
    "pl_cancelled (bs_effects s1) (snapshot_of (lr_booking r)) (ca_reason req) = Inr effects"
    "save_bookings effects [lr_booking r] s1 = (None, s2)"
    "lr_side_effects r = side_effect_names effects"
    "s' = s2\<lparr>bs_bookings := (bs_bookings s2)(uid \<mapsto> lr_booking r)\<rparr>"
  using assms
  by (auto simp: cancel_booking_def relabelled_def Let_def
      split: sum.splits option.splits prod.splits)

lemma confirm_booking_ok:
  assumes "confirm_booking rid uid s = (Inr (Some r), s')"
  obtains existing s1 effects s2 where "find_booking rid uid s = (Inr (Some existing), s1)"
    "confirmable_status (b_status existing)"
    "lr_booking r = relabelled rid existing ''accepted'' ''2026-01-01T00:15:00.000Z''"
    "pl_confirmed (bs_effects s1) (snapshot_of (lr_booking r)) = Inr effects"
    "save_bookings effects [lr_booking r] s1 = (None, s2)"
    "lr_side_effects r = side_effect_names effects"
    "s' = s2\<lparr>bs_bookings := (bs_bookings s2)(uid \<mapsto> lr_booking r)\<rparr>"
  using assms
  by (auto simp: confirm_booking_def relabelled_def Let_def
      split: sum.splits option.splits prod.splits if_splits)

lemma decline_booking_ok:
  assumes "decline_booking rid uid req s = (Inr (Some r), s')"
  obtains existing s1 effects s2 where "find_booking rid uid s = (Inr (Some existing), s1)"
    "confirmable_status (b_status existing)"
    "lr_booking r = relabelled rid existing ''rejected'' ''2026-01-01T00:20:00.000Z''"
    "pl_declined (bs_effects s1) (snapshot_of (lr_booking r)) (dr_reason req) = Inr effects"
    "save_bookings effects [lr_booking r] s1 = (None, s2)"
    "lr_side_effects r = side_effect_names effects"
    "s' = s2\<lparr>bs_bookings := (bs_bookings s2)(uid \<mapsto> lr_booking r)\<rparr>"
  using assms
  by (auto simp: decline_booking_def relabelled_def Let_def
      split: sum.splits option.splits prod.splits if_splits)

lemma reschedule_booking_ok:
  assumes "reschedule_booking rid uid req s = (Inr (Some r), s')"
  obtains existing s1 start end_at effects s2 where
    "find_booking rid uid s = (Inr (Some existing), s1)"
    "start = (if rr_start req = [] then ''2026-05-02T15:00:00.000Z'' else rr_start req)"
    "bs_slots s1 \<lparr>sa_request_id = rid,
       sa_event_type_id = (if b_event_type_id existing = 0 then booking_fixture_event_type_id
         else b_event_type_id existing),
       sa_start = start, sa_time_zone = booking_time_zone existing\<rparr> = Inr True"
    "end_for_start start = Inr end_at"
    "rs_old r = relabelled rid existing ''cancelled'' ''2026-01-01T00:10:00.000Z''"
    "rs_new r = moved rid existing start end_at"
    "pl_rescheduled (bs_effects s1) (snapshot_of (rs_old r)) (snapshot_of (rs_new r)) (rr_reason req)
       = Inr effects"
    "save_bookings effects [rs_old r, rs_new r] s1 = (None, s2)"
    "rs_side_effects r = side_effect_names effects"
    "s' = s2\<lparr>bs_bookings := (bs_bookings s2)(uid \<mapsto> rs_old r, b_uid (rs_new r) \<mapsto> rs_new r)\<rparr>"
  using assms
  by (auto simp: reschedule_booking_def relabelled_def moved_def Let_def
      split: sum.splits option.splits prod.splits if_splits)

text \<open>A failing or missing operation leaves the store as the lookup left it.\<close>

lemma failed_operation_store:
  assumes "bs_repo s = None"
  shows "cancel_booking rid uid creq s = (res, s') \<Longrightarrow> \<forall>r. res \<noteq> Inr (Some r) \<Longrightarrow>
      s' = snd (find_booking rid uid s)"
    and "confirm_booking rid uid s = (res, s') \<Longrightarrow> \<forall>r. res \<noteq> Inr (Some r) \<Longrightarrow>
      s' = snd (find_booking rid uid s)"
    and "decline_booking rid uid dreq s = (res, s') \<Longrightarrow> \<forall>r. res \<noteq> Inr (Some r) \<Longrightarrow>
      s' = snd (find_booking rid uid s)"
    and "reschedule_booking rid uid rreq s = (res2, s') \<Longrightarrow> \<forall>r. res2 \<noteq> Inr (Some r) \<Longrightarrow>
      s' = snd (find_booking rid uid s)"
  using assms
  by (auto simp: cancel_booking_def confirm_booking_def decline_booking_def reschedule_booking_def
      find_booking_no_repo Let_def put_booking_def
      split: sum.splits option.splits prod.splits if_splits)

section \<open>Runs of the in-memory store\<close>

datatype booking_op =
    OpCreate string create_request
  | OpRead string string
  | OpCancel string string cancel_request
  | OpReschedule string string reschedule_request
  | OpConfirm string string
  | OpDecline string string decline_request

fun run_booking_op :: "platform \<Rightarrow> booking_op \<Rightarrow> 'r booking_store \<Rightarrow> 'r booking_store" where
  "run_booking_op pf (OpCreate rid req) s = snd (create_booking pf rid req s)"
| "run_booking_op pf (OpRead rid uid) s = snd (read_booking rid uid s)"
| "run_booking_op pf (OpCancel rid uid req) s = snd (cancel_booking rid uid req s)"
| "run_booking_op pf (OpReschedule rid uid req) s = snd (reschedule_booking rid uid req s)"
| "run_booking_op pf (OpConfirm rid uid) s = snd (confirm_booking rid uid s)"
| "run_booking_op pf (OpDecline rid uid req) s = snd (decline_booking rid uid req s)"

inductive booking_reach :: "platform \<Rightarrow> 'r booking_store \<Rightarrow> bool" for pf where
  start: "booking_reach pf (new_booking_store pf None slot_port effect_port db)"
| step: "booking_reach pf s \<Longrightarrow> booking_reach pf (run_booking_op pf op s)"

lemma store_inv_put: "store_inv s \<Longrightarrow> booking_wf (b_uid b) b \<Longrightarrow> store_inv (put_booking b s)"
  by (auto simp: store_inv_def put_booking_def)

lemma store_inv_remember:
  "store_inv s \<Longrightarrow> bs_bookings s uid \<noteq> None \<Longrightarrow> store_inv (remember_key key uid s)"
  by (auto simp: store_inv_def remember_key_def)

lemma store_inv_update:
  "store_inv s \<Longrightarrow> booking_wf uid b \<Longrightarrow>
   store_inv (s\<lparr>bs_bookings := (bs_bookings s)(uid \<mapsto> b)\<rparr>)"
  by (auto simp: store_inv_def)

lemma find_booking_inv:
  assumes "store_inv s" "find_booking rid uid s = (res, s')"
  shows "store_inv s'" "res = Inr (Some b) \<Longrightarrow> booking_wf uid b \<and> bs_bookings s' uid = Some b"
    "bs_slots s' = bs_slots s" "bs_effects s' = bs_effects s"
proof -
  have n: "bs_repo s = None" using assms(1) by (simp add: store_inv_def)
  have w: "booking_wf uid c" "b_uid c = uid" if "fixture_by_uid rid uid = Some c" for c
    using booking_wf_fixture [OF that] by (simp_all add: booking_wf_def)
  show "store_inv s'"
    using assms w store_inv_put [OF assms(1)]
    by (auto simp: find_booking_no_repo [OF n] split: option.splits)
  show "res = Inr (Some b) \<Longrightarrow> booking_wf uid b \<and> bs_bookings s' uid = Some b"
    using assms w
    by (auto simp: find_booking_no_repo [OF n] store_inv_def put_booking_def split: option.splits)
  show "bs_slots s' = bs_slots s" "bs_effects s' = bs_effects s"
    using assms by (auto simp: find_booking_no_repo [OF n] put_booking_def split: option.splits)
qed

lemma prepare_created_wf:
  assumes "prepare_created pf available rid req = Inr b"
  shows "booking_wf primary_fixture_uid b"
proof -
  from assms obtain start end_at at where b: "b = fixture_booking rid (zero_booking
      \<lparr>b_start := start, b_end := end_at, b_owner := cr_owner req,
       b_hosts := cr_hosts req, b_attendees := Some [at],
       b_responses := Some (case cr_responses req of None \<Rightarrow> [] | Some m \<Rightarrow> m),
       b_metadata := Some (case cr_metadata req of None \<Rightarrow> [] | Some m \<Rightarrow> m)\<rparr>)"
    and e: "end_for_start start = Inr end_at" and v: "validate_create pf req = None"
    by (auto simp: prepare_created_def Let_def split: option.splits sum.splits if_splits)
  have ne: "start \<noteq> []" "end_at \<noteq> []" using e end_for_start_nonempty by blast+
  have "\<not> secret_in (cr_responses req)" "\<not> secret_in (cr_metadata req)"
    using v by (auto simp: validate_create_def split: option.splits if_splits)
  then have "\<not> secret_in (b_responses b)" "\<not> secret_in (b_metadata b)"
    by (auto simp: b split: option.splits)
  moreover have "b_owner b \<noteq> 0" by (simp add: b override_int_def)
  ultimately show ?thesis
    using e ne unfolding booking_wf_def
    by (simp add: b booking_statuses_def)
qed

lemma create_booking_inv:
  assumes "store_inv s" "create_booking pf rid req s = (res, s')"
  shows "store_inv s'"
proof -
  have n: "bs_repo s = None" using assms(1) by (simp add: store_inv_def)
  have r: "replay_created key s = (Inr (if key = [] then None else cached_replay key s), s)" for key
    using n by (simp add: replay_created_def split: option.split)
  show ?thesis
  proof (cases "fst (replay_created (cr_idempotency_key req) s) = Inr None")
    case False
    then obtain b where "replay_created (cr_idempotency_key req) s = (Inr (Some b), s)"
      unfolding r by auto
    with assms show ?thesis by (simp add: create_booking_def)
  next
    case True
    then have rep: "replay_created (cr_idempotency_key req) s = (Inr None, s)" unfolding r by simp
    show ?thesis
    proof (cases "prepare_created pf (bs_slots s) rid req")
      case (Inl e)
      with assms(2) rep have "s' = s" by (simp add: create_booking_def)
      with assms(1) show ?thesis by simp
    next
      case (Inr b)
      then have "booking_wf (b_uid b) b" using prepare_created_wf [OF Inr]
        by (simp add: booking_wf_def)
      then have "store_inv (put_booking b s)" by (rule store_inv_put [OF assms(1)])
      moreover have "bs_bookings (put_booking b s) (b_uid b) \<noteq> None" by (simp add: put_booking_def)
      moreover have "s' = remember_key (cr_idempotency_key req) (b_uid b) (put_booking b s)"
        using assms(2) n rep Inr by (simp add: create_booking_def)
      ultimately show ?thesis using store_inv_remember by blast
    qed
  qed
qed

lemma status_in: "''accepted'' \<in> booking_statuses" "''cancelled'' \<in> booking_statuses"
  "''rejected'' \<in> booking_statuses" "''pending'' \<in> booking_statuses"
  by (simp_all add: booking_statuses_def)

lemma commit_inv:
  assumes "store_inv s" "find_booking rid uid s = (Inr (Some existing), s1)"
    "save_bookings effects bs s1 = (None, s2)" "status \<in> booking_statuses"
  shows "store_inv (s2\<lparr>bs_bookings := (bs_bookings s2)(uid \<mapsto> relabelled rid existing status at)\<rparr>)"
proof -
  have i: "store_inv s1" "booking_wf uid existing"
    using find_booking_inv [OF assms(1,2)] by blast+
  then have "s2 = s1" using assms(3) by (simp add: store_inv_def)
  then show ?thesis using i assms(4) by (simp add: store_inv_update booking_wf_relabelled)
qed

end
