(* ===== verification/BookingProps.thy ===== *)
theory BookingProps
  imports BookingLifecycle
begin

text \<open>
  The properties of the booking store: its invariant over all runs, the status state machine,
  creation, replay, ownership, and the atomic hand-over of side effects to the repository.
\<close>

section \<open>Example stores\<close>

definition demo_platform :: platform where
  "demo_platform = \<lparr>pf_ip = (\<lambda>_. False), pf_tz = (\<lambda>_. False)\<rparr>"

definition demo_start :: "unit booking_store" where
  "demo_start = new_booking_store demo_platform None None None ()"

text \<open>The store after the pending fixture has been read, and after a create with a key.\<close>

definition demo_pending :: "unit booking_store" where
  "demo_pending = run_booking_op demo_platform (OpRead ''req-1'' pending_confirm_fixture_uid) demo_start"

definition demo_request :: create_request where
  "demo_request = \<lparr>cr_event_type_id = 0, cr_start = [],
     cr_attendee = \<lparr>att_id = 0, att_name = [], att_email = [], att_time_zone = []\<rparr>,
     cr_responses = None, cr_metadata = None, cr_idempotency_key = ''key-1'', cr_owner = 123,
     cr_hosts = Some [123]\<rparr>"

definition demo_booking :: booking where
  "demo_booking = fixture_booking ''req-2'' (zero_booking
     \<lparr>b_start := slot_fixture_time, b_end := booking_fixture_end, b_owner := 123,
      b_hosts := Some [123], b_attendees := Some [fixture_attendee], b_responses := Some [],
      b_metadata := Some []\<rparr>)"

definition demo_created :: "unit booking_store" where
  "demo_created = snd (create_booking demo_platform ''req-2'' demo_request demo_start)"

lemma demo_start_fields [simp]:
  "bs_repo demo_start = None" "bs_effects demo_start = fixture_side_effect_port"
  "bs_slots demo_start = is_slot_available (\<lambda>_. False) None"
  "bs_bookings demo_start = Map.empty" "bs_idempotency demo_start = Map.empty"
  by (simp_all add: demo_start_def new_booking_store_def demo_platform_def)

lemma fixture_port_slot:
  "sa_event_type_id q = slot_fixture_event_type_id \<Longrightarrow> sa_time_zone q = slot_fixture_time_zone \<Longrightarrow>
   sa_start q = slot_fixture_time \<or> sa_start q = slot_fixture_reschedule \<Longrightarrow>
   is_slot_available tz None q = Inr True"
  by (simp add: is_slot_available_def fixture_slot_available valid_time_zone_def)

lemma demo_prepared:
  "prepare_created demo_platform (bs_slots demo_start) ''req-2'' demo_request = Inr demo_booking"
  by (simp add: prepare_created_def demo_request_def validate_create_def validate_attendee_def
      booking_validate_timestamp_def complete_attendee_def fixture_port_slot fixture_ends
      demo_booking_def fixture_attendee_def)

lemma demo_create:
  "create_booking demo_platform ''req-2'' demo_request demo_start =
     (Inr (demo_booking, False), demo_created)"
  using demo_prepared
  by (simp add: demo_created_def create_booking_def replay_created_def cached_replay_def demo_request_def)

lemma demo_pending_eq:
  "demo_pending = put_booking (pending_fixture_booking ''req-1'' pending_confirm_fixture_uid) demo_start"
  by (simp add: demo_pending_def read_booking_def find_booking_no_repo fixture_by_uid_def)

lemma demo_pending_fields:
  "bs_repo demo_pending = None" "bs_effects demo_pending = fixture_side_effect_port"
  "bs_bookings demo_pending pending_confirm_fixture_uid =
     Some (pending_fixture_booking ''req-1'' pending_confirm_fixture_uid)"
  by (simp_all add: demo_pending_eq put_booking_def pending_fixture_booking_def)

lemma demo_reach: "booking_reach demo_platform demo_start" "booking_reach demo_platform demo_pending"
  unfolding demo_start_def demo_pending_def
  by (rule booking_reach.intros)+

text \<open>A repository that accepts every save and keeps a log of them.\<close>

type_synonym demo_log = "(booking list \<times> planned_side_effect list) list"

definition log_repository :: "demo_log booking_repository" where
  "log_repository = \<lparr>br_read_by_uid = (\<lambda>_ _. Inr None), br_read_by_key = (\<lambda>_ _. Inr None),
     br_save_created = (\<lambda>b _ effects log. (Inr (b, False), ([b], effects) # log)),
     br_save = (\<lambda>effects bs log. (None, (bs, effects) # log))\<rparr>"

definition demo_logged :: "demo_log booking_store" where
  "demo_logged = new_booking_store demo_platform (Some log_repository) None None []"

section \<open>The invariant over runs\<close>

lemma option_result_cases:
  "(\<And>r. res = Inr (Some r) \<Longrightarrow> P) \<Longrightarrow> (\<forall>r. res \<noteq> Inr (Some r) \<Longrightarrow> P) \<Longrightarrow> P"
  by blast

lemma find_booking_store_inv: "store_inv s \<Longrightarrow> store_inv (snd (find_booking rid uid s))"
  using find_booking_inv(1) [of s rid uid] by (metis prod.collapse)

lemma cancel_booking_inv:
  assumes "store_inv s" "cancel_booking rid uid req s = (res, s')"
  shows "store_inv s'"
proof (cases "\<exists>r. res = Inr (Some r)")
  case True
  with assms show ?thesis
    by (elim exE, simp, elim cancel_booking_ok) (metis commit_inv status_in(2))
next
  case False
  with assms show ?thesis
    using failed_operation_store(1) [of s rid uid req res s'] find_booking_store_inv [of s rid uid]
    by (simp add: store_inv_def)
qed

lemma confirm_booking_inv:
  assumes "store_inv s" "confirm_booking rid uid s = (res, s')"
  shows "store_inv s'"
proof (cases "\<exists>r. res = Inr (Some r)")
  case True
  with assms show ?thesis
    by (elim exE, simp, elim confirm_booking_ok) (metis commit_inv status_in(1))
next
  case False
  with assms show ?thesis
    using failed_operation_store(2) [of s rid uid res s'] find_booking_store_inv [of s rid uid]
    by (simp add: store_inv_def)
qed

lemma decline_booking_inv:
  assumes "store_inv s" "decline_booking rid uid req s = (res, s')"
  shows "store_inv s'"
proof (cases "\<exists>r. res = Inr (Some r)")
  case True
  with assms show ?thesis
    by (elim exE, simp, elim decline_booking_ok) (metis commit_inv status_in(3))
next
  case False
  with assms show ?thesis
    using failed_operation_store(3) [of s rid uid req res s'] find_booking_store_inv [of s rid uid]
    by (simp add: store_inv_def)
qed

lemma reschedule_booking_inv:
  assumes "store_inv s" "reschedule_booking rid uid req s = (res, s')"
  shows "store_inv s'"
proof (cases "\<exists>r. res = Inr (Some r)")
  case True
  then obtain r where "res = Inr (Some r)" by blast
  with assms(2) obtain existing s1 start end_at effects s2 where
    f: "find_booking rid uid s = (Inr (Some existing), s1)"
    and e: "end_for_start start = Inr end_at"
    and r: "rs_old r = relabelled rid existing ''cancelled'' ''2026-01-01T00:10:00.000Z''"
      "rs_new r = moved rid existing start end_at"
    and s2: "save_bookings effects [rs_old r, rs_new r] s1 = (None, s2)"
    and s': "s' = s2\<lparr>bs_bookings := (bs_bookings s2)(uid \<mapsto> rs_old r, b_uid (rs_new r) \<mapsto> rs_new r)\<rparr>"
    by (auto elim!: reschedule_booking_ok)
  have i: "store_inv s1" "booking_wf uid existing" using find_booking_inv [OF assms(1) f] by blast+
  have "booking_wf rescheduled_fixture_uid (rs_new r)" using i(2) e by (simp add: r booking_wf_moved)
  moreover have "b_uid (rs_new r) = rescheduled_fixture_uid" by (simp add: r moved_fields)
  ultimately show ?thesis
    using commit_inv [OF assms(1) f s2 status_in(2)] store_inv_update r s' by fastforce
next
  case False
  with assms show ?thesis
    using failed_operation_store(4) [of s rid uid req res s'] find_booking_store_inv [of s rid uid]
    by (simp add: store_inv_def)
qed

lemma run_booking_op_inv: "store_inv s \<Longrightarrow> store_inv (run_booking_op pf op s)"
  by (cases op) (simp_all add: read_booking_def find_booking_store_inv
      create_booking_inv [OF _ surjective_pairing] cancel_booking_inv [OF _ surjective_pairing]
      confirm_booking_inv [OF _ surjective_pairing] decline_booking_inv [OF _ surjective_pairing]
      reschedule_booking_inv [OF _ surjective_pairing])

lemma booking_reach_inv: "booking_reach pf s \<Longrightarrow> store_inv s"
  by (induction rule: booking_reach.induct)
    (simp_all add: run_booking_op_inv, simp add: store_inv_def new_booking_store_def)

text \<open>
  C1: in every state the in-memory store can reach, whatever ports it has, each booking is stored
  under its own uid, is accepted, pending, cancelled or rejected, ends exactly when the fixture
  duration after its start ends, is for the fixture event type, has an owner, and holds no
  secret-bearing key in its responses or metadata; every idempotency key leads to a booking.
\<close>
theorem booking_store_invariant:
  assumes "booking_reach pf s"
  shows "(\<forall>uid b. bs_bookings s uid = Some b \<longrightarrow>
      b_uid b = uid \<and> b_status b \<in> {''accepted'', ''pending'', ''cancelled'', ''rejected''} \<and>
      end_for_start (b_start b) = Inr (b_end b) \<and>
      b_event_type_id b = booking_fixture_event_type_id \<and> b_owner b \<noteq> 0 \<and>
      \<not> secret_in (b_responses b) \<and> \<not> secret_in (b_metadata b)) \<and>
    (\<forall>key uid. bs_idempotency s key = Some uid \<longrightarrow> bs_bookings s uid \<noteq> None)"
  using booking_reach_inv [OF assms]
  by (simp add: store_inv_def booking_wf_def booking_statuses_def)

lemma booking_store_invariant_witness:
  "\<exists>b. bs_bookings demo_pending pending_confirm_fixture_uid = Some b \<and>
     b_status b \<in> {''accepted'', ''pending'', ''cancelled'', ''rejected''} \<and>
     end_for_start (b_start b) = Inr (b_end b) \<and> b_owner b \<noteq> 0"
  using booking_store_invariant [OF demo_reach(2)] demo_pending_fields(3) by blast

section \<open>Host decisions\<close>

lemma find_known [simp]: "bs_bookings s uid = Some b \<Longrightarrow> find_booking rid uid s = (Inr (Some b), s)"
  by (simp add: find_booking_def)

lemma fixture_port_simps [simp]:
  "pl_cancelled fixture_side_effect_port sn reason = Inr (plan_booking_cancelled sn reason)"
  "pl_rescheduled fixture_side_effect_port old new reason =
     Inr (plan_booking_rescheduled old new reason)"
  "pl_confirmed fixture_side_effect_port sn = Inr (plan_booking_confirmed sn)"
  "pl_declined fixture_side_effect_port sn reason = Inr (plan_booking_declined sn reason)"
  by (simp_all add: fixture_side_effect_port_def)

text \<open>
  C13: the host decides on a stored booking only while it is pending or awaits the host: then
  confirm stores it accepted and decline stores it rejected, each with its own email and webhook
  effects, and both statuses are final for confirm and decline; in any other status both fail
  with the status error and change nothing. (Store without repository, fixture planner.)
\<close>
theorem host_decides_once:
  assumes "bs_bookings s uid = Some b" and "bs_repo s = None"
    and "bs_effects s = fixture_side_effect_port"
  shows "if confirmable_status (b_status b)
    then (\<exists>c. confirm_booking rid uid s =
            (Inr (Some \<lparr>lr_booking = c,
               lr_side_effects = [''email.confirmed'', ''webhook.booking.confirmed'']\<rparr>),
             s\<lparr>bs_bookings := (bs_bookings s)(uid \<mapsto> c)\<rparr>) \<and>
          b_status c = ''accepted'' \<and> \<not> confirmable_status (b_status c)) \<and>
         (\<exists>c. decline_booking rid uid req s =
            (Inr (Some \<lparr>lr_booking = c,
               lr_side_effects = [''email.declined'', ''webhook.booking.declined'']\<rparr>),
             s\<lparr>bs_bookings := (bs_bookings s)(uid \<mapsto> c)\<rparr>) \<and>
          b_status c = ''rejected'' \<and> \<not> confirmable_status (b_status c))
    else confirm_booking rid uid s =
           (Inl (BookingInvalid ''INVALID_BOOKING_STATUS'' ''Booking is not confirmable''), s) \<and>
         decline_booking rid uid req s =
           (Inl (BookingInvalid ''INVALID_BOOKING_STATUS'' ''Booking is not declinable''), s)"
proof (cases "confirmable_status (b_status b)")
  case True
  with assms show ?thesis
    by (simp add: confirm_booking_def decline_booking_def relabelled_def [symmetric] Let_def
        plan_booking_confirmed_def plan_booking_declined_def side_effect_names_def planned_def
        relabelled_fields(2))
      (simp add: confirmable_status_def)
next
  case False
  with assms show ?thesis by (simp add: confirm_booking_def decline_booking_def)
qed

lemma host_decides_once_witness:
  "\<exists>c. confirm_booking ''req-3'' pending_confirm_fixture_uid demo_pending =
     (Inr (Some \<lparr>lr_booking = c,
        lr_side_effects = [''email.confirmed'', ''webhook.booking.confirmed'']\<rparr>),
      demo_pending\<lparr>bs_bookings := (bs_bookings demo_pending)(pending_confirm_fixture_uid \<mapsto> c)\<rparr>) \<and>
     b_status c = ''accepted''"
proof -
  have "confirmable_status
      (b_status (pending_fixture_booking ''req-1'' pending_confirm_fixture_uid))"
    by (simp add: pending_fixture_booking_def confirmable_status_def)
  then show ?thesis
    using host_decides_once [OF demo_pending_fields(3,1,2)] by auto
qed

text \<open>
  Rescheduling does not ask for a status: whatever status the stored booking has (pending,
  rejected and cancelled included), a valid new start that the slot port offers makes an accepted
  booking out of it, without a host's confirmation.
\<close>
theorem reschedule_ignores_status:
  assumes "bs_bookings s uid = Some b" and "bs_repo s = None"
    and "bs_effects s = fixture_side_effect_port"
    and "rr_start req \<noteq> []" and "end_for_start (rr_start req) = Inr end_at"
    and "b_event_type_id b \<noteq> 0"
    and "bs_slots s \<lparr>sa_request_id = rid, sa_event_type_id = b_event_type_id b,
      sa_start = rr_start req, sa_time_zone = booking_time_zone b\<rparr> = Inr True"
  shows "\<exists>r s'. reschedule_booking rid uid req s = (Inr (Some r), s') \<and>
    b_status (rs_new r) = ''accepted'' \<and> b_start (rs_new r) = rr_start req \<and>
    b_status (rs_old r) = ''cancelled'' \<and>
    bs_bookings s' (b_uid (rs_new r)) = Some (rs_new r)"
proof -
  have "booking_validate_timestamp (rr_start req) code = None" for code
    using assms(5) by (auto simp: booking_validate_timestamp_def end_for_start_def split: option.splits)
  then have v: "validate_reschedule req = None" by (simp add: validate_reschedule_def)
  show ?thesis
    using assms v
    by (simp add: reschedule_booking_def relabelled_def [symmetric] moved_def [symmetric] Let_def
        moved_fields relabelled_fields(2))
qed

lemma reschedule_ignores_status_witness:
  "b_status (pending_fixture_booking ''req-1'' pending_confirm_fixture_uid) = ''pending'' \<and>
   (\<exists>r s'. reschedule_booking ''req-3'' pending_confirm_fixture_uid
        \<lparr>rr_start = slot_fixture_reschedule, rr_reason = []\<rparr> demo_pending = (Inr (Some r), s') \<and>
      b_status (rs_new r) = ''accepted'')"
proof -
  let ?b = "pending_fixture_booking ''req-1'' pending_confirm_fixture_uid"
  have e: "end_for_start (rr_start \<lparr>rr_start = slot_fixture_reschedule, rr_reason = []\<rparr>) =
      Inr ''2026-05-02T15:30:00.000Z''" by code_simp
  have f: "b_event_type_id ?b = slot_fixture_event_type_id" "b_status ?b = ''pending''"
    "booking_time_zone ?b = slot_fixture_time_zone"
    by (simp_all add: pending_fixture_booking_def booking_time_zone_def fixture_attendee_def)
  have "bs_slots demo_pending = is_slot_available (\<lambda>_. False) None"
    by (simp add: demo_pending_eq put_booking_def)
  then show ?thesis
    using reschedule_ignores_status [OF demo_pending_fields(3,1,2) _ e, of "''req-3''"] f
    by (auto simp: fixture_port_slot)
qed

section \<open>Creation and replay\<close>

text \<open>
  C15: in the in-memory store, a newly created booking (not a replay) comes from a valid
  request whose slot the port offered for that very start, event type and time zone; it ends
  thirty minutes after its start, written in the wire format, which reads back as that instant to
  the millisecond; and no secret-bearing key of the request is stored.
\<close>
theorem created_booking_sound:
  assumes "create_booking pf rid req s = (Inr (b, False), s')" and "bs_repo s = None"
  shows "validate_create pf req = None \<and>
    (\<exists>tz. bs_slots s \<lparr>sa_request_id = rid, sa_event_type_id = b_event_type_id b,
       sa_start = b_start b, sa_time_zone = tz\<rparr> = Inr True) \<and>
    (\<exists>t. parse_rfc3339 (b_start b) = Some t \<and> b_end b = wire_format (add_ns t (30 * minute)) \<and>
       (four_digit_year (inst t + 30 * minute) \<longrightarrow>
         parse_rfc3339 (b_end b) = Some \<lparr>inst = floor_ms (inst t + 30 * minute), zone = 0\<rparr>)) \<and>
    \<not> secret_in (b_responses b) \<and> \<not> secret_in (b_metadata b) \<and>
    bs_bookings s' (b_uid b) = Some b"
proof -
  from assms have p: "prepare_created pf (bs_slots s) rid req = Inr b"
    and s': "s' = remember_key (cr_idempotency_key req) (b_uid b) (put_booking b s)"
    by (auto simp: create_booking_def replay_created_def
        split: option.splits sum.splits prod.splits if_splits)
  from prepare_created_wf [OF p] have w: "\<not> secret_in (b_responses b)" "\<not> secret_in (b_metadata b)"
    "end_for_start (b_start b) = Inr (b_end b)"
    by (simp_all add: booking_wf_def)
  from w(3) obtain t where t: "parse_rfc3339 (b_start b) = Some t"
    "b_end b = wire_format (add_ns t (30 * minute))"
    by (auto simp: end_for_start_def split: option.splits)
  have rt: "four_digit_year (inst t + 30 * minute) \<Longrightarrow>
      parse_rfc3339 (b_end b) = Some \<lparr>inst = floor_ms (inst t + 30 * minute), zone = 0\<rparr>"
    using parse_rfc3339_wire_format [of "add_ns t (30 * minute)"] t(2) by simp
  from p have v: "validate_create pf req = None"
    by (auto simp: prepare_created_def split: option.splits)
  from p v obtain start tz where sl: "bs_slots s \<lparr>sa_request_id = rid,
      sa_event_type_id = (if cr_event_type_id req = 0 then booking_fixture_event_type_id
        else cr_event_type_id req), sa_start = start, sa_time_zone = tz\<rparr> = Inr True"
    and st: "b_start b = override_text slot_fixture_time start" "start \<noteq> []"
    and et: "b_event_type_id b = booking_fixture_event_type_id"
    by (auto simp: prepare_created_def Let_def dest: end_for_start_nonempty
        split: option.splits sum.splits if_splits)
  have "(if cr_event_type_id req = 0 then booking_fixture_event_type_id else cr_event_type_id req)
      = b_event_type_id b"
    using v et by (auto simp: validate_create_def split: if_splits)
  with sl st have "bs_slots s \<lparr>sa_request_id = rid, sa_event_type_id = b_event_type_id b,
      sa_start = b_start b, sa_time_zone = tz\<rparr> = Inr True"
    by simp
  moreover have "bs_bookings s' (b_uid b) = Some b"
    by (simp add: s' remember_key_def put_booking_def)
  ultimately show ?thesis using v w t rt by blast
qed

lemma created_booking_sound_witness:
  "validate_create demo_platform demo_request = None \<and> \<not> secret_in (b_responses demo_booking) \<and>
   bs_bookings demo_created (b_uid demo_booking) = Some demo_booking"
  using created_booking_sound [OF demo_create] by simp

lemma cached_key_replays:
  assumes "cr_idempotency_key req \<noteq> []" "bs_idempotency s (cr_idempotency_key req) = Some uid"
    "bs_bookings s uid = Some b"
  shows "create_booking pf rid req s = (Inr (b, True), s)"
  using assms by (simp add: create_booking_def replay_created_def cached_replay_def)

lemma find_booking_grows:
  "bs_idempotency (snd (find_booking rid uid s)) = bs_idempotency s"
  "bs_bookings s k = Some b \<Longrightarrow> bs_bookings (snd (find_booking rid uid s)) k \<noteq> None"
  by (auto simp: find_booking_def put_booking_def Let_def
      split: option.splits sum.splits prod.splits if_splits)

lemma save_bookings_keeps:
  "save_bookings effects bs s = (r, s') \<Longrightarrow>
   bs_idempotency s' = bs_idempotency s \<and> bs_bookings s' = bs_bookings s \<and> bs_effects s' = bs_effects s
   \<and> bs_slots s' = bs_slots s \<and> bs_repo s' = bs_repo s"
  by (auto simp: save_bookings_def split: option.splits prod.splits)

lemma find_save_keys:
  "find_booking rid uid s = (r, s1) \<Longrightarrow> save_bookings effects bs s1 = (r', s2) \<Longrightarrow>
   bs_idempotency s2 = bs_idempotency s"
  using find_booking_grows(1) [of rid uid s] by (auto dest: save_bookings_keeps)

lemma lifecycle_keeps_keys:
  assumes "bs_repo s = None"
  shows "cancel_booking rid uid creq s = (res, s') \<Longrightarrow> bs_idempotency s' = bs_idempotency s"
    "confirm_booking rid uid s = (res, s') \<Longrightarrow> bs_idempotency s' = bs_idempotency s"
    "decline_booking rid uid dreq s = (res, s') \<Longrightarrow> bs_idempotency s' = bs_idempotency s"
    "reschedule_booking rid uid rreq s = (res2, s') \<Longrightarrow> bs_idempotency s' = bs_idempotency s"
proof -
  note failed = failed_operation_store [OF assms]
  show "cancel_booking rid uid creq s = (res, s') \<Longrightarrow> bs_idempotency s' = bs_idempotency s"
    by (cases "\<exists>r. res = Inr (Some r)")
      (auto elim!: cancel_booking_ok dest: find_save_keys, auto dest: failed(1) simp: find_booking_grows)
  show "confirm_booking rid uid s = (res, s') \<Longrightarrow> bs_idempotency s' = bs_idempotency s"
    by (cases "\<exists>r. res = Inr (Some r)")
      (auto elim!: confirm_booking_ok dest: find_save_keys, auto dest: failed(2) simp: find_booking_grows)
  show "decline_booking rid uid dreq s = (res, s') \<Longrightarrow> bs_idempotency s' = bs_idempotency s"
    by (cases "\<exists>r. res = Inr (Some r)")
      (auto elim!: decline_booking_ok dest: find_save_keys, auto dest: failed(3) simp: find_booking_grows)
  show "reschedule_booking rid uid rreq s = (res2, s') \<Longrightarrow> bs_idempotency s' = bs_idempotency s"
    by (cases "\<exists>r. res2 = Inr (Some r)")
      (auto elim!: reschedule_booking_ok dest: find_save_keys, auto dest: failed(4) simp: find_booking_grows)
qed

lemma store_inv_key:
  "store_inv s \<Longrightarrow> bs_idempotency s key = Some uid \<Longrightarrow>
   \<exists>b. bs_bookings s uid = Some b \<and> booking_wf uid b"
  unfolding store_inv_def by (metis option.exhaust)

text \<open>A key, once given to a booking, keeps leading to that booking's uid.\<close>

lemma key_kept:
  assumes "store_inv s" "bs_idempotency s key = Some uid" "key \<noteq> []"
  shows "bs_idempotency (run_booking_op pf op s) key = Some uid"
proof -
  have n: "bs_repo s = None" using assms(1) by (simp add: store_inv_def)
  show ?thesis
  proof (cases op)
    case (OpCreate rid req)
    show ?thesis
    proof (cases "cr_idempotency_key req = key")
      case True
      obtain b where "bs_bookings s uid = Some b" using assms store_inv_key by blast
      with assms True show ?thesis
        by (simp add: OpCreate cached_key_replays)
    next
      case False
      with assms n show ?thesis
        by (auto simp: OpCreate create_booking_def replay_created_def remember_key_def put_booking_def
            split: option.splits sum.splits prod.splits if_splits)
    qed
  qed (use assms lifecycle_keeps_keys [OF n surjective_pairing] in
      \<open>simp_all add: read_booking_def find_booking_grows(1)\<close>)
qed

lemma key_kept_run:
  "store_inv s \<Longrightarrow> bs_idempotency s key = Some uid \<Longrightarrow> key \<noteq> [] \<Longrightarrow>
   store_inv (fold (run_booking_op pf) ops s) \<and>
   bs_idempotency (fold (run_booking_op pf) ops s) key = Some uid"
  by (induction ops arbitrary: s) (auto simp: run_booking_op_inv key_kept)

text \<open>
  The operations that change a stored booking in place, with its uid; what they leave of it is what a
  booking was created with.
\<close>

fun changed_uid :: "booking_op \<Rightarrow> string option" where
  "changed_uid (OpCreate rid req) = None"
| "changed_uid (OpRead rid uid) = None"
| "changed_uid (OpCancel rid uid req) = Some uid"
| "changed_uid (OpReschedule rid uid req) = Some uid"
| "changed_uid (OpConfirm rid uid) = Some uid"
| "changed_uid (OpDecline rid uid req) = Some uid"

definition same_creation :: "booking \<Rightarrow> booking \<Rightarrow> bool" where
  "same_creation b b' \<longleftrightarrow>
     b' = b\<lparr>b_status := b_status b', b_updated_at := b_updated_at b', b_request_id := b_request_id b'\<rparr>"

definition filled :: "booking \<Rightarrow> bool" where
  "filled b \<longleftrightarrow> b_uid b \<noteq> [] \<and> b_id b \<noteq> 0 \<and> b_title b \<noteq> [] \<and> b_start b \<noteq> [] \<and> b_end b \<noteq> [] \<and>
     b_event_type_id b \<noteq> 0 \<and> b_attendees b \<noteq> None \<and> b_responses b \<noteq> None \<and> b_metadata b \<noteq> None \<and>
     b_created_at b \<noteq> [] \<and> b_selected_calendar b \<noteq> [] \<and> b_destination_calendar b \<noteq> [] \<and>
     b_external_event b \<noteq> [] \<and> b_owner b \<noteq> 0 \<and> b_hosts b \<noteq> None"

lemma same_creation_refl [simp]: "same_creation b b"
  by (simp add: same_creation_def)

lemma same_creation_trans: "same_creation b c \<Longrightarrow> same_creation c d \<Longrightarrow> same_creation b d"
  by (cases b; cases c; cases d) (simp add: same_creation_def)

lemma same_creation_filled: "same_creation b c \<Longrightarrow> filled b \<Longrightarrow> filled c"
  by (cases b; cases c) (simp add: same_creation_def filled_def)

lemma override_nonempty:
  "base \<noteq> [] \<Longrightarrow> override_text base new \<noteq> []" "i \<noteq> 0 \<Longrightarrow> override_int i j \<noteq> 0"
  "x \<noteq> None \<Longrightarrow> override_ref x y \<noteq> None"
  by (auto simp: override_text_def override_int_def override_ref_def split: option.split)

lemma override_kept:
  "new \<noteq> [] \<Longrightarrow> override_text base new = new" "j \<noteq> 0 \<Longrightarrow> override_int i j = j"
  "y \<noteq> None \<Longrightarrow> override_ref x y = y" "override_text base [] = base" "override_int i 0 = i" "override_ref x None = x"
  by (auto simp: override_text_def override_int_def override_ref_def)

lemma fixture_booking_more:
  "b_id (fixture_booking rid ov) = override_int 987 (b_id ov)"
  "b_title (fixture_booking rid ov) = override_text ''Fixture Event'' (b_title ov)"
  "b_created_at (fixture_booking rid ov) = override_text ''2026-01-01T00:00:00.000Z'' (b_created_at ov)"
  "b_updated_at (fixture_booking rid ov) = override_text ''2026-01-01T00:00:00.000Z'' (b_updated_at ov)"
  "b_selected_calendar (fixture_booking rid ov) = override_text selected_calendar_fixture (b_selected_calendar ov)"
  "b_destination_calendar (fixture_booking rid ov) = override_text destination_calendar_fixture (b_destination_calendar ov)"
  "b_external_event ov \<noteq> [] \<Longrightarrow> b_external_event (fixture_booking rid ov) = b_external_event ov"
  "b_external_event (fixture_booking rid ov) \<noteq> []"
  by (simp_all add: fixture_booking_def merge_booking_def fixture_base_def fixture_external_event_def
      override_kept override_nonempty Let_def)

lemma merge_booking_more:
  "b_id (merge_booking b ov) = override_int (b_id b) (b_id ov)"
  "b_title (merge_booking b ov) = override_text (b_title b) (b_title ov)"
  "b_selected_calendar (merge_booking b ov) = override_text (b_selected_calendar b) (b_selected_calendar ov)"
  "b_destination_calendar (merge_booking b ov) = override_text (b_destination_calendar b) (b_destination_calendar ov)"
  "b_id zero_booking = 0" "b_title zero_booking = []"
  by (simp_all add: merge_booking_def zero_booking_def)

lemma filled_fixture_booking: "filled (fixture_booking rid x)"
  by (simp add: filled_def fixture_booking_more override_nonempty del: not_None_eq)

lemma relabelled_eq:
  assumes "filled b" "status \<noteq> []" "at \<noteq> []"
  shows "relabelled rid b status at =
    b\<lparr>b_status := status, b_updated_at := at, b_request_id := b_request_id (relabelled rid b status at)\<rparr>"
  by (rule booking.equality)
    (use assms in \<open>simp_all add: filled_def relabelled_def fixture_booking_more merge_booking_more override_kept
      del: not_None_eq\<close>)

lemma relabelled_creation: 
  assumes "filled b" "status \<noteq> []" "at \<noteq> []"
  shows "same_creation b (relabelled rid b status at)"
  unfolding same_creation_def
  by (subst (1 2 3 4) relabelled_eq [OF assms]) (cases b, simp)

lemma fixture_by_uid_uid: "fixture_by_uid rid uid = Some b \<Longrightarrow> b_uid b = uid"
  by (auto simp: fixture_by_uid_def pending_fixture_booking_def split: if_splits)

lemma find_keeps_booking:
  assumes "bs_repo s = None" "find_booking rid k s = (r, t)" "bs_bookings s uid = Some b"
  shows "bs_bookings t uid = Some b" "k = uid \<Longrightarrow> r = Inr (Some b)"
  using assms fixture_by_uid_uid
  by (auto simp: find_booking_no_repo put_booking_def split: option.splits)

text \<open>What an operation that is no creation does to a stored booking.\<close>

lemma op_keeps_creation:
  assumes n: "bs_repo s = None" and b: "bs_bookings s uid = Some b" "filled b" "uid \<noteq> rescheduled_fixture_uid"
    and op: "\<nexists>rid req. op = OpCreate rid req"
  shows "\<exists>b'. bs_bookings (run_booking_op pf op s) uid = Some b' \<and> same_creation b b' \<and>
    (changed_uid op \<noteq> Some uid \<longrightarrow> b' = b)"
proof -
  have keep: "bs_bookings (snd (find_booking rid k s)) uid = Some b" for rid k
    using find_keeps_booking(1) [OF n _ b(1)] by (metis prod.collapse)
  have put: "\<exists>b'. bs_bookings (t\<lparr>bs_bookings := (bs_bookings t)(k \<mapsto> relabelled rid c st at)\<rparr>) uid = Some b' \<and>
      same_creation b b' \<and> (Some k \<noteq> Some uid \<longrightarrow> b' = b)"
    if "find_booking rid k s = (Inr (Some c), u)" "save_bookings effects bs u = (None, t)" "st \<noteq> []" "at \<noteq> []"
    for rid k c u t effects bs st at
    using that(3,4) find_keeps_booking [OF n that(1) b(1)] save_bookings_keeps [OF that(2)] relabelled_creation [OF b(2)] by auto
  show ?thesis
  proof (cases op)
    case (OpCreate rid req)
    with op show ?thesis by blast
  next
    case (OpRead rid k)
    with keep show ?thesis by (simp add: read_booking_def)
  next
    case (OpCancel rid k req)
    then show ?thesis using keep put failed_operation_store(1) [OF n, of rid k req]
      by (cases "cancel_booking rid k req s") (fastforce elim!: cancel_booking_ok)
  next
    case (OpConfirm rid k)
    then show ?thesis using keep put failed_operation_store(2) [OF n, of rid k]
      by (cases "confirm_booking rid k s") (fastforce elim!: confirm_booking_ok)
  next
    case (OpDecline rid k req)
    then show ?thesis using keep put failed_operation_store(3) [OF n, of rid k req]
      by (cases "decline_booking rid k req s") (fastforce elim!: decline_booking_ok)
  next
    case (OpReschedule rid k req)
    then show ?thesis using keep put b(3) failed_operation_store(4) [OF n, of rid k req]
      by (cases "reschedule_booking rid k req s") (fastforce elim!: reschedule_booking_ok simp: moved_fields)
  qed
qed

lemma created_parts:
  assumes "create_booking pf rid req s = (Inr (b, False), s')" "bs_repo s = None"
  shows "filled b" "b_uid b = primary_fixture_uid" "bs_bookings s' (b_uid b) = Some b"
    "cr_idempotency_key req \<noteq> [] \<Longrightarrow> bs_idempotency s' (cr_idempotency_key req) = Some (b_uid b)"
proof -
  from assms have p: "prepare_created pf (bs_slots s) rid req = Inr b"
    and s': "s' = remember_key (cr_idempotency_key req) (b_uid b) (put_booking b s)"
    by (auto simp: create_booking_def replay_created_def split: option.splits sum.splits prod.splits if_splits)
  from p obtain x where b: "b = fixture_booking rid x" "b_uid x = []"
    by (auto simp: prepare_created_def Let_def split: option.splits sum.splits if_splits)
  then show "filled b" "b_uid b = primary_fixture_uid" by (simp_all add: filled_fixture_booking override_text_def)
  show "bs_bookings s' (b_uid b) = Some b"
    "cr_idempotency_key req \<noteq> [] \<Longrightarrow> bs_idempotency s' (cr_idempotency_key req) = Some (b_uid b)"
    by (simp_all add: s' remember_key_def put_booking_def)
qed

text \<open>A booking under a key, over operations that create under that key only.\<close>

definition replays :: "string \<Rightarrow> booking_op \<Rightarrow> bool" where
  "replays key op = (case op of OpCreate rid req \<Rightarrow> cr_idempotency_key req = key | _ \<Rightarrow> True)"

lemma replays_step:
  assumes "store_inv s" "bs_idempotency s key = Some uid" "key \<noteq> []" "bs_bookings s uid = Some b" "filled b"
    and "uid \<noteq> rescheduled_fixture_uid" "replays key op"
  shows "\<exists>b'. bs_bookings (run_booking_op pf op s) uid = Some b' \<and> same_creation b b' \<and>
    (changed_uid op \<noteq> Some uid \<longrightarrow> b' = b)"
proof (cases op)
  case (OpCreate rid req)
  with assms cached_key_replays [of req s uid b] show ?thesis by (simp add: replays_def)
qed (rule op_keeps_creation; use assms in \<open>simp add: store_inv_def\<close>)+

lemma replays_run:
  assumes "store_inv s" "bs_idempotency s key = Some uid" "key \<noteq> []" "bs_bookings s uid = Some b" "filled b"
    and "uid \<noteq> rescheduled_fixture_uid" "list_all (replays key) ops"
  shows "\<exists>b'. bs_bookings (fold (run_booking_op pf) ops s) uid = Some b' \<and> same_creation b b' \<and>
    (Some uid \<notin> changed_uid ` set ops \<longrightarrow> b' = b)"
  using assms
proof (induction ops arbitrary: s b)
  case (Cons op ops)
  obtain c where c: "bs_bookings (run_booking_op pf op s) uid = Some c" "same_creation b c"
      "changed_uid op \<noteq> Some uid \<longrightarrow> c = b"
    using replays_step [OF Cons.prems(1-6), of op pf] Cons.prems(7) by auto
  from Cons.IH [OF run_booking_op_inv [OF Cons.prems(1)] key_kept [OF Cons.prems(1-3)] Cons.prems(3) c(1)
      same_creation_filled [OF c(2) Cons.prems(5)] Cons.prems(6)] Cons.prems(7)
  obtain d where "bs_bookings (fold (run_booking_op pf) (op # ops) s) uid = Some d" "same_creation c d"
      "Some uid \<notin> changed_uid ` set ops \<longrightarrow> d = c"
    by auto
  with c(2,3) show ?case by (auto intro: same_creation_trans)
qed simp

text \<open>
  C5: creation is idempotent: after a create with a key has made a booking, and any operations of which
  no create has another key, in particular any conflicting retries, every create with the key (of any
  request) stores nothing and changes nothing, and returns, marked as a replay, that first booking: with
  the start, end, owner, hosts, attendees and everything else it was created with, but for the status, the
  update time and the request id, which the lifecycle operations on it write; without such operations it
  is the first booking as it was. (In the in-memory store, where all created bookings share one uid, a
  create with another key, or without one, takes the place of the first booking; such creates are left
  out here.)
\<close>
theorem create_idempotent:
  assumes "booking_reach pf s" and "create_booking pf rid req s = (Inr (b, False), s1)"
    and "cr_idempotency_key req \<noteq> []" and "cr_idempotency_key req2 = cr_idempotency_key req"
    and "list_all (replays (cr_idempotency_key req)) ops" and "s2 = fold (run_booking_op pf) ops s1"
  shows "\<exists>b'. create_booking pf rid2 req2 s2 = (Inr (b', True), s2) \<and> same_creation b b' \<and>
    (Some (b_uid b) \<notin> changed_uid ` set ops \<longrightarrow> b' = b)"
proof -
  have i: "store_inv s" using assms(1) by (rule booking_reach_inv)
  then have n: "bs_repo s = None" by (simp add: store_inv_def)
  note i1 = create_booking_inv [OF i assms(2)] and b = created_parts [OF assms(2) n]
  note key = key_kept_run [OF i1 b(4) [OF assms(3)] assms(3), of pf ops, folded assms(6)]
  have "b_uid b \<noteq> rescheduled_fixture_uid" by (simp add: b(2))
  from replays_run [OF i1 b(4) [OF assms(3)] assms(3) b(3,1) this assms(5), of pf, folded assms(6)]
  obtain b' where b': "bs_bookings s2 (b_uid b) = Some b'" "same_creation b b'"
      "Some (b_uid b) \<notin> changed_uid ` set ops \<longrightarrow> b' = b"
    by blast
  have "create_booking pf rid2 req2 s2 = (Inr (b', True), s2)"
    by (rule cached_key_replays [of req2 s2 "b_uid b" b']) (use assms(3,4) key b'(1) in simp_all)
  with b'(2,3) show ?thesis by blast
qed

text \<open>
  The booking is cancelled, and a retry asks for another event type, which no create may; then the same
  retry without the cancellation.
\<close>

lemma create_idempotent_witness:
  "(\<exists>b'. create_booking demo_platform ''req-9'' (demo_request\<lparr>cr_event_type_id := 42\<rparr>)
     (run_booking_op demo_platform (OpCancel ''req-3'' (b_uid demo_booking) \<lparr>ca_reason = []\<rparr>) demo_created) =
       (Inr (b', True),
        run_booking_op demo_platform (OpCancel ''req-3'' (b_uid demo_booking) \<lparr>ca_reason = []\<rparr>) demo_created)
     \<and> same_creation demo_booking b') \<and>
   create_booking demo_platform ''req-9'' (demo_request\<lparr>cr_event_type_id := 42\<rparr>)
     (run_booking_op demo_platform (OpCreate ''req-3'' demo_request) demo_created) =
       (Inr (demo_booking, True), run_booking_op demo_platform (OpCreate ''req-3'' demo_request) demo_created)"
proof -
  have k: "cr_idempotency_key demo_request \<noteq> []"
    "cr_idempotency_key (demo_request\<lparr>cr_event_type_id := 42\<rparr>) = cr_idempotency_key demo_request"
    by (simp_all add: demo_request_def)
  have replay: "list_all (replays (cr_idempotency_key demo_request)) ops \<Longrightarrow> s2 = fold (run_booking_op demo_platform) ops demo_created \<Longrightarrow>
      \<exists>b'. create_booking demo_platform ''req-9'' (demo_request\<lparr>cr_event_type_id := 42\<rparr>) s2 = (Inr (b', True), s2) \<and>
        same_creation demo_booking b' \<and> (Some (b_uid demo_booking) \<notin> changed_uid ` set ops \<longrightarrow> b' = demo_booking)" for ops s2
    by (rule create_idempotent [OF demo_reach(1) demo_create k])
  show ?thesis
    using replay [of "[OpCancel ''req-3'' (b_uid demo_booking) \<lparr>ca_reason = []\<rparr>]", OF _ refl]
      replay [of "[OpCreate ''req-3'' demo_request]", OF _ refl]
    by (auto simp: replays_def)
qed

text \<open>Two creates with different keys, and the first one again: it returns the booking of the second.\<close>

lemma second_create_takes_place:
  "\<exists>b s. create_booking demo_platform ''req-5'' demo_request
     (snd (create_booking demo_platform ''req-4'' (demo_request\<lparr>cr_idempotency_key := ''key-2'', cr_owner := 7\<rparr>) demo_created)) =
       (Inr (b, True), s) \<and> b_owner b = 7 \<and> b_uid b = b_uid demo_booking \<and> b_owner demo_booking = 123"
proof -
  let ?req = "demo_request\<lparr>cr_idempotency_key := ''key-2'', cr_owner := 7\<rparr>"
  have created: "demo_created = remember_key ''key-1'' primary_fixture_uid (put_booking demo_booking demo_start)"
    using demo_prepared by (simp add: demo_created_def create_booking_def replay_created_def cached_replay_def
        demo_request_def demo_booking_def override_text_def)
  have "\<exists>b. prepare_created demo_platform (bs_slots demo_start) ''req-4'' ?req = Inr b \<and> b_uid b = primary_fixture_uid \<and> b_owner b = 7"
    by (simp add: prepare_created_def demo_request_def validate_create_def validate_attendee_def
        booking_validate_timestamp_def complete_attendee_def fixture_port_slot fixture_ends fixture_attendee_def
        override_text_def override_int_def)
  then obtain b where "prepare_created demo_platform (bs_slots demo_start) ''req-4'' ?req = Inr b"
      "b_uid b = primary_fixture_uid" "b_owner b = 7" by blast
  then show ?thesis
    by (simp add: create_booking_def replay_created_def cached_replay_def created remember_key_def put_booking_def
        demo_request_def demo_booking_def override_text_def override_int_def)
qed

section \<open>Ownership\<close>

lemma relabelled_owner:
  "booking_wf uid b \<Longrightarrow> b_owner (relabelled rid b status at) = b_owner b"
  by (simp add: booking_wf_def relabelled_fields)

text \<open>
  C23: no lifecycle operation transfers a booking: in a reachable store, reading, cancelling,
  confirming, declining or rescheduling anything leaves the owner of every stored booking as it
  is, but for the booking under the fixed uid that reschedules write, which takes the owner of
  the booking that was rescheduled.
\<close>
theorem owner_stable:
  assumes "booking_reach pf s" and "bs_bookings s uid = Some b"
    and "\<nexists>rid req. op = OpCreate rid req" and "uid \<noteq> rescheduled_fixture_uid"
  shows "\<exists>b'. bs_bookings (run_booking_op pf op s) uid = Some b' \<and> b_owner b' = b_owner b"
proof -
  have i: "store_inv s" using assms(1) by (rule booking_reach_inv)
  then have n: "bs_repo s = None" by (simp add: store_inv_def)
  have keep: "bs_bookings (snd (find_booking rid k s)) uid = Some b" for rid k
    using assms(2) i booking_wf_fixture
    by (auto simp: find_booking_no_repo [OF n] put_booking_def booking_wf_def split: option.split)
  have wf: "booking_wf k c" and same: "k = uid \<Longrightarrow> c = b"
    and st: "bs_bookings t uid = Some b" and rt: "bs_repo t = None"
    if "find_booking rid k s = (Inr (Some c), t)" for rid k c t
    using find_booking_inv [OF i that] keep [of rid k] that assms(2)
    by (auto simp: store_inv_def)
  have up: "\<exists>b'. bs_bookings (t\<lparr>bs_bookings := (bs_bookings t)(k \<mapsto> relabelled rid c st at)\<rparr>) uid = Some b'
      \<and> b_owner b' = b_owner b"
    if "find_booking rid' k s = (Inr (Some c), t)" for rid rid' k c t st at
    using wf [OF that] same [OF that] st [OF that] by (auto simp: relabelled_owner)
  show ?thesis
  proof (cases op)
    case (OpCreate rid req)
    with assms(3) show ?thesis by blast
  next
    case (OpRead rid k)
    with keep show ?thesis by (simp add: read_booking_def)
  next
    case (OpCancel rid k req)
    obtain res s' where x: "cancel_booking rid k req s = (res, s')" by fastforce
    show ?thesis
    proof (cases "\<exists>r. res = Inr (Some r)")
      case True
      then show ?thesis using x up rt
        by (auto simp: OpCancel elim!: cancel_booking_ok)
    next
      case False
      then show ?thesis using failed_operation_store(1) [OF n x] keep x OpCancel by simp
    qed
  next
    case (OpReschedule rid k req)
    obtain res s' where x: "reschedule_booking rid k req s = (res, s')" by fastforce
    show ?thesis
    proof (cases "\<exists>r. res = Inr (Some r)")
      case True
      then show ?thesis using x up rt assms(4)
        by (auto simp: OpReschedule moved_fields elim!: reschedule_booking_ok)
    next
      case False
      then show ?thesis using failed_operation_store(4) [OF n x] keep x OpReschedule by simp
    qed
  next
    case (OpConfirm rid k)
    obtain res s' where x: "confirm_booking rid k s = (res, s')" by fastforce
    show ?thesis
    proof (cases "\<exists>r. res = Inr (Some r)")
      case True
      then show ?thesis using x up rt
        by (auto simp: OpConfirm elim!: confirm_booking_ok)
    next
      case False
      then show ?thesis using failed_operation_store(2) [OF n x] keep x OpConfirm by simp
    qed
  next
    case (OpDecline rid k req)
    obtain res s' where x: "decline_booking rid k req s = (res, s')" by fastforce
    show ?thesis
    proof (cases "\<exists>r. res = Inr (Some r)")
      case True
      then show ?thesis using x up rt
        by (auto simp: OpDecline elim!: decline_booking_ok)
    next
      case False
      then show ?thesis using failed_operation_store(3) [OF n x] keep x OpDecline by simp
    qed
  qed
qed

lemma owner_stable_witness:
  "\<exists>b'. bs_bookings (run_booking_op demo_platform (OpDecline ''req-3'' pending_confirm_fixture_uid
       \<lparr>dr_reason = ''no''\<rparr>) demo_pending) pending_confirm_fixture_uid = Some b' \<and> b_owner b' = 123"
  using owner_stable [OF demo_reach(2) demo_pending_fields(3),
      of "OpDecline ''req-3'' pending_confirm_fixture_uid \<lparr>dr_reason = ''no''\<rparr>"]
  by (simp add: pending_fixture_booking_def)

section \<open>Side effects are saved with the booking\<close>

lemma find_booking_ports:
  "bs_effects (snd (find_booking rid uid s)) = bs_effects s"
  "bs_repo (snd (find_booking rid uid s)) = bs_repo s"
  by (auto simp: find_booking_def put_booking_def Let_def
      split: option.splits sum.splits prod.splits if_splits)

text \<open>Planned effects that belong to the booking of a snapshot.\<close>

definition planned_for :: "side_effect_snapshot \<Rightarrow> planned_side_effect list \<Rightarrow> bool" where
  "planned_for sn effects =
     list_all (\<lambda>e. pe_booking_uid e = sn_uid sn \<and> pe_request_id e = sn_request_id sn) effects"

text \<open>
  One call of the repository saved these bookings together with effects of the last one, whose
  names the caller is told; the database is what this call left.
\<close>

definition handed_over ::
    "'r booking_repository \<Rightarrow> booking list \<Rightarrow> string list \<Rightarrow> 'r booking_store \<Rightarrow> bool" where
  "handed_over repo bs names s' \<longleftrightarrow>
     (\<exists>effects db. br_save repo effects bs db = (None, bs_db s') \<and>
        planned_for (snapshot_of (last bs)) effects \<and> names = side_effect_names effects)"

locale side_effect_planning =
  fixes port :: side_effect_port
  assumes cancelled_for: "pl_cancelled port sn reason = Inr es \<Longrightarrow> planned_for sn es"
    and rescheduled_for: "pl_rescheduled port old new reason = Inr es \<Longrightarrow> planned_for new es"
    and confirmed_for: "pl_confirmed port sn = Inr es \<Longrightarrow> planned_for sn es"
    and declined_for: "pl_declined port sn reason = Inr es \<Longrightarrow> planned_for sn es"
begin

lemma save_hands_over:
  assumes "find_booking rid uid s = (Inr (Some existing), s1)" "bs_repo s = Some repo"
    "save_bookings effects bs s1 = (None, s2)" "planned_for (snapshot_of (last bs)) effects"
  shows "handed_over repo bs (side_effect_names effects) (s2\<lparr>bs_bookings := m\<rparr>)"
proof -
  have "bs_repo s1 = Some repo" using assms(1,2) find_booking_ports(2) [of rid uid s] by simp
  with assms(3) have "br_save repo effects bs (bs_db s1) = (None, bs_db s2)"
    by (auto simp: save_bookings_def split: prod.splits)
  with assms(4) show ?thesis unfolding handed_over_def by auto
qed

lemma all_hand_over:
  assumes "bs_repo s = Some repo" "bs_effects s = port"
  shows "cancel_booking rid uid creq s = (Inr (Some r), s') \<Longrightarrow>
      handed_over repo [lr_booking r] (lr_side_effects r) s'"
    and "confirm_booking rid uid s = (Inr (Some r), s') \<Longrightarrow>
      handed_over repo [lr_booking r] (lr_side_effects r) s'"
    and "decline_booking rid uid dreq s = (Inr (Some r), s') \<Longrightarrow>
      handed_over repo [lr_booking r] (lr_side_effects r) s'"
    and "reschedule_booking rid uid rreq s = (Inr (Some q), s') \<Longrightarrow>
      handed_over repo [rs_old q, rs_new q] (rs_side_effects q) s'"
proof -
  have e: "bs_effects s1 = port" if "find_booking rid uid s = (res, s1)" for res s1
    using that find_booking_ports(1) [of rid uid s] assms(2) by simp
  note over = save_hands_over [OF _ assms(1)]
  show "cancel_booking rid uid creq s = (Inr (Some r), s') \<Longrightarrow>
      handed_over repo [lr_booking r] (lr_side_effects r) s'"
    by (erule cancel_booking_ok) (metis over e cancelled_for last.simps)
  show "confirm_booking rid uid s = (Inr (Some r), s') \<Longrightarrow>
      handed_over repo [lr_booking r] (lr_side_effects r) s'"
    by (erule confirm_booking_ok) (metis over e confirmed_for last.simps)
  show "decline_booking rid uid dreq s = (Inr (Some r), s') \<Longrightarrow>
      handed_over repo [lr_booking r] (lr_side_effects r) s'"
    by (erule decline_booking_ok) (metis over e declined_for last.simps)
  show "reschedule_booking rid uid rreq s = (Inr (Some q), s') \<Longrightarrow>
      handed_over repo [rs_old q, rs_new q] (rs_side_effects q) s'"
    by (erule reschedule_booking_ok) (metis over e rescheduled_for last.simps list.distinct(1))
qed

end

interpretation fixture_planning: side_effect_planning fixture_side_effect_port
  by unfold_locales
    (auto simp: planned_for_def planned_def plan_booking_cancelled_def plan_booking_rescheduled_def
      plan_booking_confirmed_def plan_booking_declined_def Let_def)

text \<open>
  C20: side effects are handed over atomically: when a cancel, confirm, decline or reschedule
  succeeds on a store with a repository, one repository call saved the changed bookings together
  with exactly the effects whose names the caller gets, every one of them for the changed (or
  new) booking and its request id.
\<close>
theorem effects_saved_with_booking:
  assumes "bs_repo s = Some repo" and "bs_effects s = fixture_side_effect_port"
  shows "(\<forall>r s'. cancel_booking rid uid creq s = (Inr (Some r), s') \<longrightarrow>
      handed_over repo [lr_booking r] (lr_side_effects r) s') \<and>
    (\<forall>r s'. confirm_booking rid uid s = (Inr (Some r), s') \<longrightarrow>
      handed_over repo [lr_booking r] (lr_side_effects r) s') \<and>
    (\<forall>r s'. decline_booking rid uid dreq s = (Inr (Some r), s') \<longrightarrow>
      handed_over repo [lr_booking r] (lr_side_effects r) s') \<and>
    (\<forall>q s'. reschedule_booking rid uid rreq s = (Inr (Some q), s') \<longrightarrow>
      handed_over repo [rs_old q, rs_new q] (rs_side_effects q) s')"
  using fixture_planning.all_hand_over [OF assms] by blast

lemma effects_saved_with_booking_witness:
  "\<exists>r s'. cancel_booking ''req-3'' primary_fixture_uid \<lparr>ca_reason = ''ill''\<rparr> demo_logged =
       (Inr (Some r), s') \<and> handed_over log_repository [lr_booking r] (lr_side_effects r) s'"
proof -
  have f: "bs_repo demo_logged = Some log_repository"
    "bs_effects demo_logged = fixture_side_effect_port"
    by (simp_all add: demo_logged_def new_booking_store_def)
  have "\<exists>r s'. cancel_booking ''req-3'' primary_fixture_uid \<lparr>ca_reason = ''ill''\<rparr> demo_logged =
       (Inr (Some r), s')"
    by (simp add: demo_logged_def new_booking_store_def cancel_booking_def find_booking_def
        log_repository_def fixture_by_uid_def put_booking_def save_bookings_def Let_def)
  then show ?thesis using effects_saved_with_booking [OF f] by blast
qed

section \<open>Failures\<close>

fun booking_op_fails :: "platform \<Rightarrow> booking_op \<Rightarrow> 'r booking_store \<Rightarrow> bool" where
  "booking_op_fails pf (OpCreate rid req) s = is_err (fst (create_booking pf rid req s))"
| "booking_op_fails pf (OpRead rid uid) s = is_err (fst (read_booking rid uid s))"
| "booking_op_fails pf (OpCancel rid uid req) s = is_err (fst (cancel_booking rid uid req s))"
| "booking_op_fails pf (OpReschedule rid uid req) s = is_err (fst (reschedule_booking rid uid req s))"
| "booking_op_fails pf (OpConfirm rid uid) s = is_err (fst (confirm_booking rid uid s))"
| "booking_op_fails pf (OpDecline rid uid req) s = is_err (fst (decline_booking rid uid req s))"

text \<open>The repository answers a lookup by uid with a booking of that uid.\<close>

definition repo_keys_ok :: "'r booking_store \<Rightarrow> bool" where
  "repo_keys_ok s \<longleftrightarrow>
     (case bs_repo s of None \<Rightarrow> True
      | Some repo \<Rightarrow> \<forall>uid b. br_read_by_uid repo uid (bs_db s) = Inr (Some b) \<longrightarrow> b_uid b = uid)"

lemma find_booking_keeps:
  assumes "repo_keys_ok s" "bs_bookings s uid = Some b"
  shows "bs_bookings (snd (find_booking rid k s)) uid = Some b"
proof -
  have "b_uid c = k" if "fixture_by_uid rid k = Some c" for c
    using booking_wf_fixture [OF that] by (simp add: booking_wf_def)
  then show ?thesis
    using assms
    by (auto simp: find_booking_def put_booking_def repo_keys_ok_def Let_def
        split: option.splits sum.splits prod.splits)
qed

lemma error_store:
  "cancel_booking rid uid creq s = (Inl e, s') \<Longrightarrow>
     bs_bookings s' = bs_bookings (snd (find_booking rid uid s)) \<and> bs_idempotency s' = bs_idempotency s"
  "confirm_booking rid uid s = (Inl e, s') \<Longrightarrow>
     bs_bookings s' = bs_bookings (snd (find_booking rid uid s)) \<and> bs_idempotency s' = bs_idempotency s"
  "decline_booking rid uid dreq s = (Inl e, s') \<Longrightarrow>
     bs_bookings s' = bs_bookings (snd (find_booking rid uid s)) \<and> bs_idempotency s' = bs_idempotency s"
  "reschedule_booking rid uid rreq s = (Inl e, s') \<Longrightarrow>
     bs_bookings s' = bs_bookings (snd (find_booking rid uid s)) \<and> bs_idempotency s' = bs_idempotency s"
  using find_booking_grows(1) [of rid uid s]
  by (auto simp: cancel_booking_def confirm_booking_def decline_booking_def reschedule_booking_def Let_def
      dest: save_bookings_keeps split: sum.splits option.splits prod.splits if_splits)

lemma create_error_store:
  "create_booking pf rid req s = (Inl e, s') \<Longrightarrow>
   bs_bookings s' = bs_bookings s \<and> bs_idempotency s' = bs_idempotency s"
  by (auto simp: create_booking_def replay_created_def Let_def
      split: sum.splits option.splits prod.splits if_splits)

text \<open>
  C25: a failing operation loses nothing: whatever fails (validation, the slot port, the planner,
  the repository), every booking the store held is still there unchanged and no idempotency key
  is taken.
\<close>
theorem failure_keeps_bookings:
  assumes "booking_op_fails pf op s" and "repo_keys_ok s" and "bs_bookings s uid = Some b"
  shows "bs_bookings (run_booking_op pf op s) uid = Some b \<and>
    bs_idempotency (run_booking_op pf op s) = bs_idempotency s"
proof (cases op)
  case (OpCreate rid req)
  with assms create_error_store [of pf rid req s] show ?thesis
    by (cases "create_booking pf rid req s") (auto simp: isl_def)
next
  case (OpRead rid k)
  with assms find_booking_keeps find_booking_grows(1) [of rid k s] show ?thesis
    by (simp add: read_booking_def)
next
  case (OpCancel rid k req)
  with assms error_store(1) [of rid k req s] find_booking_keeps show ?thesis
    by (cases "cancel_booking rid k req s") (auto simp: isl_def)
next
  case (OpReschedule rid k req)
  with assms error_store(4) [of rid k req s] find_booking_keeps show ?thesis
    by (cases "reschedule_booking rid k req s") (auto simp: isl_def)
next
  case (OpConfirm rid k)
  with assms error_store(2) [of rid k s] find_booking_keeps show ?thesis
    by (cases "confirm_booking rid k s") (auto simp: isl_def)
next
  case (OpDecline rid k req)
  with assms error_store(3) [of rid k req s] find_booking_keeps show ?thesis
    by (cases "decline_booking rid k req s") (auto simp: isl_def)
qed

lemma failure_keeps_bookings_witness:
  "booking_op_fails demo_platform (OpConfirm ''req-3'' (b_uid demo_booking)) demo_created \<and>
   bs_bookings (run_booking_op demo_platform (OpConfirm ''req-3'' (b_uid demo_booking)) demo_created)
     (b_uid demo_booking) = Some demo_booking"
proof -
  have c: "bs_bookings demo_created (b_uid demo_booking) = Some demo_booking"
    "bs_repo demo_created = None"
    using demo_prepared
    by (simp_all add: demo_created_def create_booking_def replay_created_def cached_replay_def
        demo_request_def remember_key_def put_booking_def)
  have "booking_op_fails demo_platform (OpConfirm ''req-3'' (b_uid demo_booking)) demo_created"
    using c(1) by (simp add: confirm_booking_def demo_booking_def confirmable_status_def)
  moreover have "repo_keys_ok demo_created" using c(2) by (simp add: repo_keys_ok_def)
  ultimately show ?thesis using failure_keeps_bookings [OF _ _ c(1)] by blast
qed

end
