(* ===== verification/AppsModel.thy ===== *)
theory AppsModel
  imports GoTime
begin

text \<open>
  The records of the app-install flow (\<open>internal/apps/store.go\<close>), their constructors, the sort
  orders of the lists a client reads, and the validity checks.
\<close>

section \<open>Errors\<close>

datatype apps_error =
    ErrInvalidAppMetadata
  | ErrInvalidInstallIntent
  | ErrInstallIntentNotFound
  | ErrInstallIntentNotReady
  | ErrExternalAuthSessionNotFound
  | ErrExternalAuthSessionConsumed
  | ErrExternalAuthSessionExpired
  | ErrInvalidExternalAuthCallbackPreflight
  | ErrExternalAuthCallbackPreflightNotFound
  | ErrExternalAuthCallbackPreflightConsumed
  | ErrInvalidExternalAuthProviderExchange
  | ErrExternalAuthProviderExchangeNotFound
  | ErrExternalAuthProviderExchangeRecorded
  | ErrInvalidAppInstallCompletion
  | ErrAppInstallCompletionNotFound
  | ErrAppInstallCompletionNotReady
  | ErrAppInstallCompletionRecorded
  | ErrInvalidAppInstallation
  | ErrAppInstallationRecorded
  | ErrProviderOAuthExchangePortUnset
  | ErrProviderCredentialStoreUnset
  | ErrInvalidProviderOAuthExchange
  | ErrProviderOAuthExchangeDenied
  | ErrInvalidProviderCredentialSecret
  | ErrInvalidProviderCredentialReceipt
  | ErrAppNotFound
  | ErrAppsUpstream string

section \<open>Records\<close>

record app_metadata =
  am_slug :: string
  am_category :: string
  am_provider :: string
  am_name :: string
  am_description :: string
  am_auth_type :: string
  am_capabilities :: "string list"
  am_created_at :: string
  am_updated_at :: string

record install_intent =
  ii_ref :: string
  ii_user :: int
  ii_app :: string
  ii_status :: string
  ii_created_at :: string
  ii_updated_at :: string

record auth_descriptor =
  ad_intent :: string
  ad_app :: string
  ad_provider :: string
  ad_name :: string
  ad_description :: string
  ad_auth_type :: string
  ad_scopes :: "string list"
  ad_status :: string
  ad_state_ref :: string
  ad_expires_at :: string

record auth_session =
  xs_ref :: string
  xs_intent :: string
  xs_user :: int
  xs_expires_at :: string
  xs_consumed_at :: string
  xs_created_at :: string
  xs_updated_at :: string

record auth_preview =
  pv_ref :: string
  pv_intent :: string
  pv_app :: string
  pv_provider :: string
  pv_auth_type :: string
  pv_scopes :: "string list"
  pv_state_ref :: string
  pv_endpoint :: string
  pv_status :: string
  pv_expires_at :: string
  pv_requested_at :: string
  pv_created_at :: string
  pv_updated_at :: string
  pv_user :: int

record callback_preflight =
  cp_ref :: string
  cp_intent :: string
  cp_app :: string
  cp_provider :: string
  cp_state_ref :: string
  cp_callback_status :: string
  cp_status :: string
  cp_received_at :: string
  cp_created_at :: string
  cp_updated_at :: string
  cp_user :: int

record provider_exchange =
  px_ref :: string
  px_intent :: string
  px_app :: string
  px_provider :: string
  px_state_ref :: string
  px_preflight :: string
  px_status :: string
  px_mode :: string
  px_recorded_at :: string
  px_created_at :: string
  px_updated_at :: string
  px_user :: int

record install_completion =
  ic_ref :: string
  ic_intent :: string
  ic_app :: string
  ic_provider :: string
  ic_exchange :: string
  ic_status :: string
  ic_mode :: string
  ic_completed_at :: string
  ic_created_at :: string
  ic_updated_at :: string
  ic_user :: int

record app_installation =
  ai_ref :: string
  ai_intent :: string
  ai_completion :: string
  ai_app :: string
  ai_name :: string
  ai_category :: string
  ai_provider :: string
  ai_auth_type :: string
  ai_capabilities :: "string list"
  ai_status :: string
  ai_mode :: string
  ai_activated_at :: string
  ai_created_at :: string
  ai_updated_at :: string
  ai_user :: int

record preflight_request =
  pr_state_ref :: string
  pr_callback_status :: string

record exchange_request =
  er_state_ref :: string
  er_preflight :: string

record oauth_exchange_request =
  oe_state_ref :: string
  oe_preflight :: string
  oe_code :: string
  oe_redirect_uri :: string

record oauth_callback_request =
  ob_state_ref :: string
  ob_code :: string
  ob_redirect_uri :: string

record token_payload =
  tp_access :: string
  tp_refresh :: string
  tp_type :: string
  tp_expires_at :: string
  tp_raw :: "8 word list"

record oauth_exchange_input =
  oi_user :: int
  oi_intent :: string
  oi_app :: string
  oi_provider :: string
  oi_state_ref :: string
  oi_preflight :: string
  oi_code :: string
  oi_redirect_uri :: string
  oi_scopes :: "string list"

record oauth_exchange_result =
  or_account_ref :: string
  or_account_label :: string
  or_scopes :: "string list"
  or_token :: token_payload

record credential_secret =
  ks_user :: int
  ks_app :: string
  ks_category :: string
  ks_provider :: string
  ks_account_ref :: string
  ks_account_label :: string
  ks_scopes :: "string list"
  ks_token :: token_payload

record credential_receipt =
  kr_ref :: string
  kr_account_ref :: string
  kr_account_label :: string
  kr_status :: string
  kr_scopes :: "string list"

record oauth_callback_result =
  oc_intent :: string
  oc_app :: string
  oc_provider :: string
  oc_preflight :: string
  oc_exchange :: string
  oc_status :: string
  oc_mode :: string
  oc_credential_stored :: bool
  oc_recorded_at :: string

section \<open>Constants\<close>

abbreviation st_pending :: string where "st_pending \<equiv> ''pending''"
abbreviation st_requires_auth :: string where "st_requires_auth \<equiv> ''requires_external_auth''"
abbreviation st_installed :: string where "st_installed \<equiv> ''installed''"
abbreviation st_blocked :: string where "st_blocked \<equiv> ''blocked''"
abbreviation cb_authorized :: string where "cb_authorized \<equiv> ''provider_authorized''"
abbreviation cb_denied :: string where "cb_denied \<equiv> ''provider_denied''"
abbreviation ex_queued :: string where "ex_queued \<equiv> ''queued''"
abbreviation ex_blocked :: string where "ex_blocked \<equiv> ''blocked''"
abbreviation ex_ready :: string where "ex_ready \<equiv> ''credential_ready''"
abbreviation mode_simulated :: string where "mode_simulated \<equiv> ''simulated''"
abbreviation mode_oauth :: string where "mode_oauth \<equiv> ''provider_oauth''"

definition fixture_app_catalog :: "app_metadata list" where
  "fixture_app_catalog =
     [\<lparr>am_slug = ''google-calendar'', am_category = ''calendar'',
       am_provider = ''google-calendar-fixture'', am_name = ''Google Calendar'',
       am_description = ''Calendar availability, selected calendar, and booking event sync.'',
       am_auth_type = ''oauth'',
       am_capabilities = [''calendar.read'', ''calendar.write'', ''booking.calendar-dispatch''],
       am_created_at = ''2026-01-01T00:00:00.000Z'', am_updated_at = ''2026-01-01T00:00:00.000Z''\<rparr>,
      \<lparr>am_slug = ''resend-email'', am_category = ''email'', am_provider = ''resend-fixture'',
       am_name = ''Resend'', am_description = ''Transactional booking email delivery.'',
       am_auth_type = ''api-key'', am_capabilities = [''booking.email-dispatch''],
       am_created_at = ''2026-01-01T00:00:00.000Z'', am_updated_at = ''2026-01-01T00:00:00.000Z''\<rparr>]"

section \<open>Random references\<close>

definition new_install_intent_ref :: "entropy \<Rightarrow> string" where
  "new_install_intent_ref e = random_ref ''app-intent-'' e"

definition new_handoff_state_ref :: "entropy \<Rightarrow> string" where
  "new_handoff_state_ref e = random_ref ''handoff-state-'' e"

definition new_authorization_preview_ref :: "entropy \<Rightarrow> string" where
  "new_authorization_preview_ref e = random_ref ''authorization-preview-'' e"

definition new_callback_preflight_ref :: "entropy \<Rightarrow> string" where
  "new_callback_preflight_ref e = random_ref ''callback-preflight-'' e"

definition new_provider_exchange_ref :: "entropy \<Rightarrow> string" where
  "new_provider_exchange_ref e = random_ref ''provider-exchange-'' e"

definition new_install_completion_ref :: "entropy \<Rightarrow> string" where
  "new_install_completion_ref e = random_ref ''install-completion-'' e"

definition new_app_installation_ref :: "entropy \<Rightarrow> string" where
  "new_app_installation_ref e = random_ref ''app-installation-'' e"

section \<open>Constructors\<close>

definition new_auth_descriptor ::
    "install_intent \<Rightarrow> app_metadata \<Rightarrow> auth_session \<Rightarrow> auth_descriptor" where
  "new_auth_descriptor intent app session =
     \<lparr>ad_intent = ii_ref intent, ad_app = ii_app intent, ad_provider = am_provider app,
      ad_name = am_name app, ad_description = am_description app, ad_auth_type = am_auth_type app,
      ad_scopes = am_capabilities app, ad_status = ii_status intent, ad_state_ref = xs_ref session,
      ad_expires_at = xs_expires_at session\<rparr>"

definition new_auth_preview ::
    "install_intent \<Rightarrow> app_metadata \<Rightarrow> auth_session \<Rightarrow> gotime \<Rightarrow> entropy \<Rightarrow> auth_preview" where
  "new_auth_preview intent app session requested_at e =
     (let now = wire_format requested_at
      in \<lparr>pv_ref = new_authorization_preview_ref e, pv_intent = ii_ref intent, pv_app = ii_app intent,
          pv_provider = am_provider app, pv_auth_type = am_auth_type app,
          pv_scopes = am_capabilities app, pv_state_ref = xs_ref session,
          pv_endpoint = am_provider app @ ''.authorization.preview'', pv_status = ''preview_only'',
          pv_expires_at = xs_expires_at session, pv_requested_at = now, pv_created_at = now,
          pv_updated_at = now, pv_user = ii_user intent\<rparr>)"

definition new_callback_preflight ::
    "install_intent \<Rightarrow> app_metadata \<Rightarrow> string \<Rightarrow> string \<Rightarrow> gotime \<Rightarrow> entropy \<Rightarrow> callback_preflight" where
  "new_callback_preflight intent app state_ref callback_status received_at e =
     (let now = wire_format received_at
      in \<lparr>cp_ref = new_callback_preflight_ref e, cp_intent = ii_ref intent, cp_app = ii_app intent,
          cp_provider = am_provider app, cp_state_ref = state_ref,
          cp_callback_status = callback_status, cp_status = ''accepted'', cp_received_at = now,
          cp_created_at = now, cp_updated_at = now, cp_user = ii_user intent\<rparr>)"

definition new_provider_exchange ::
    "install_intent \<Rightarrow> app_metadata \<Rightarrow> callback_preflight \<Rightarrow> gotime \<Rightarrow> entropy \<Rightarrow> provider_exchange" where
  "new_provider_exchange intent app preflight recorded_at e =
     (let now = wire_format recorded_at;
          status = (if cp_callback_status preflight = cb_denied then ex_blocked else ex_queued)
      in \<lparr>px_ref = new_provider_exchange_ref e, px_intent = ii_ref intent, px_app = ii_app intent,
          px_provider = am_provider app, px_state_ref = cp_state_ref preflight,
          px_preflight = cp_ref preflight, px_status = status, px_mode = mode_simulated,
          px_recorded_at = now, px_created_at = now, px_updated_at = now, px_user = ii_user intent\<rparr>)"

definition new_provider_exchange_request ::
    "install_intent \<Rightarrow> app_metadata \<Rightarrow> string \<Rightarrow> string \<Rightarrow> gotime \<Rightarrow> entropy \<Rightarrow> provider_exchange" where
  "new_provider_exchange_request intent app state_ref preflight_ref recorded_at e =
     (let now = wire_format recorded_at
      in \<lparr>px_ref = new_provider_exchange_ref e, px_intent = ii_ref intent, px_app = ii_app intent,
          px_provider = am_provider app, px_state_ref = state_ref, px_preflight = preflight_ref,
          px_status = [], px_mode = mode_simulated, px_recorded_at = now, px_created_at = now,
          px_updated_at = now, px_user = ii_user intent\<rparr>)"

definition new_credential_ready_exchange ::
    "install_intent \<Rightarrow> app_metadata \<Rightarrow> callback_preflight \<Rightarrow> gotime \<Rightarrow> entropy \<Rightarrow> provider_exchange" where
  "new_credential_ready_exchange intent app preflight recorded_at e =
     (let now = wire_format recorded_at
      in \<lparr>px_ref = new_provider_exchange_ref e, px_intent = ii_ref intent, px_app = ii_app intent,
          px_provider = am_provider app, px_state_ref = cp_state_ref preflight,
          px_preflight = cp_ref preflight, px_status = ex_ready, px_mode = mode_oauth,
          px_recorded_at = now, px_created_at = now, px_updated_at = now, px_user = ii_user intent\<rparr>)"

definition new_install_completion ::
    "install_intent \<Rightarrow> app_metadata \<Rightarrow> provider_exchange \<Rightarrow> gotime \<Rightarrow> entropy \<Rightarrow> install_completion" where
  "new_install_completion intent app exchange completed_at e =
     (let now = wire_format completed_at;
          status = (if px_status exchange = ex_blocked then st_blocked else st_installed);
          mode = (if px_mode exchange = mode_oauth then mode_oauth else mode_simulated)
      in \<lparr>ic_ref = new_install_completion_ref e, ic_intent = ii_ref intent, ic_app = ii_app intent,
          ic_provider = am_provider app, ic_exchange = px_ref exchange, ic_status = status,
          ic_mode = mode, ic_completed_at = now, ic_created_at = now, ic_updated_at = now,
          ic_user = ii_user intent\<rparr>)"

definition new_install_completion_request ::
    "install_intent \<Rightarrow> app_metadata \<Rightarrow> string \<Rightarrow> gotime \<Rightarrow> entropy \<Rightarrow> install_completion" where
  "new_install_completion_request intent app exchange_ref completed_at e =
     (let now = wire_format completed_at
      in \<lparr>ic_ref = new_install_completion_ref e, ic_intent = ii_ref intent, ic_app = ii_app intent,
          ic_provider = am_provider app, ic_exchange = exchange_ref, ic_status = [], ic_mode = [],
          ic_completed_at = now, ic_created_at = now, ic_updated_at = now, ic_user = ii_user intent\<rparr>)"

definition new_app_installation ::
    "install_intent \<Rightarrow> app_metadata \<Rightarrow> install_completion \<Rightarrow> gotime \<Rightarrow> entropy \<Rightarrow> app_installation" where
  "new_app_installation intent app completion activated_at e =
     (let now = wire_format activated_at;
          mode = (if ic_mode completion = mode_oauth then mode_oauth else mode_simulated)
      in \<lparr>ai_ref = new_app_installation_ref e, ai_intent = ii_ref intent,
          ai_completion = ic_ref completion, ai_app = ii_app intent, ai_name = am_name app,
          ai_category = am_category app, ai_provider = am_provider app,
          ai_auth_type = am_auth_type app, ai_capabilities = am_capabilities app,
          ai_status = ''active'', ai_mode = mode, ai_activated_at = now, ai_created_at = now,
          ai_updated_at = now, ai_user = ii_user intent\<rparr>)"

definition new_app_installation_request ::
    "install_intent \<Rightarrow> app_metadata \<Rightarrow> string \<Rightarrow> gotime \<Rightarrow> entropy \<Rightarrow> app_installation" where
  "new_app_installation_request intent app completion_ref activated_at e =
     (let now = wire_format activated_at
      in \<lparr>ai_ref = new_app_installation_ref e, ai_intent = ii_ref intent,
          ai_completion = completion_ref, ai_app = ii_app intent, ai_name = am_name app,
          ai_category = am_category app, ai_provider = am_provider app,
          ai_auth_type = am_auth_type app, ai_capabilities = am_capabilities app,
          ai_status = ''active'', ai_mode = [], ai_activated_at = now, ai_created_at = now,
          ai_updated_at = now, ai_user = ii_user intent\<rparr>)"

section \<open>Checks\<close>

definition is_valid_install_intent_status :: "string \<Rightarrow> bool" where
  "is_valid_install_intent_status status =
     (status = st_pending \<or> status = st_requires_auth \<or> status = st_installed \<or> status = st_blocked)"

definition is_valid_callback_status :: "string \<Rightarrow> bool" where
  "is_valid_callback_status status = (status = cb_authorized \<or> status = cb_denied)"

definition is_valid_exchange_status :: "string \<Rightarrow> bool" where
  "is_valid_exchange_status status = (status = ex_queued \<or> status = ex_blocked \<or> status = ex_ready)"

definition is_valid_mode :: "string \<Rightarrow> bool" where
  "is_valid_mode mode = (mode = mode_simulated \<or> mode = mode_oauth)"

definition validate_app_metadata :: "app_metadata \<Rightarrow> apps_error option" where
  "validate_app_metadata app =
     (if am_slug app = [] \<or> am_category app = [] \<or> am_provider app = [] \<or> am_name app = [] \<or>
         am_description app = [] \<or> am_auth_type app = []
      then Some ErrInvalidAppMetadata else None)"

definition validate_install_intent :: "install_intent \<Rightarrow> apps_error option" where
  "validate_install_intent intent =
     (if blank (ii_ref intent) \<or> ii_user intent \<le> 0 \<or> blank (ii_app intent) \<or>
         \<not> is_valid_install_intent_status (ii_status intent)
      then Some ErrInvalidInstallIntent else None)"

definition validate_oauth_result :: "oauth_exchange_result \<Rightarrow> apps_error option" where
  "validate_oauth_result result =
     (if blank (or_account_ref result) \<or> blank (or_account_label result) \<or> or_scopes result = [] \<or>
         blank (tp_access (or_token result)) \<or> blank (tp_refresh (or_token result))
      then Some ErrInvalidProviderOAuthExchange else None)"

definition validate_receipt ::
    "credential_receipt \<Rightarrow> oauth_exchange_result \<Rightarrow> apps_error option" where
  "validate_receipt receipt result =
     (if blank (kr_ref receipt) \<or> blank (kr_account_ref receipt) \<or> blank (kr_account_label receipt) \<or>
         blank (kr_status receipt) \<or> kr_scopes receipt = [] \<or>
         kr_account_ref receipt \<noteq> or_account_ref result \<or>
         kr_account_label receipt \<noteq> or_account_label result
      then Some ErrInvalidProviderCredentialReceipt else None)"

section \<open>Orders of the lists read by clients\<close>

definition clone_app_metadata :: "app_metadata list \<Rightarrow> app_metadata list" where
  "clone_app_metadata items = sort_by (\<lambda>l r. am_slug l \<le> am_slug r) items"

definition intent_before :: "install_intent \<Rightarrow> install_intent \<Rightarrow> bool" where
  "intent_before l r =
     (if ii_created_at l < ii_created_at r then True
      else if ii_created_at l > ii_created_at r then False
      else \<not> ii_ref l > ii_ref r)"

definition clone_install_intents :: "install_intent list \<Rightarrow> install_intent list" where
  "clone_install_intents items = sort_by intent_before items"

definition installation_before :: "app_installation \<Rightarrow> app_installation \<Rightarrow> bool" where
  "installation_before l r =
     (if ai_activated_at l > ai_activated_at r then True
      else if ai_activated_at l < ai_activated_at r then False
      else \<not> ai_ref l > ai_ref r)"

definition clone_app_installations :: "app_installation list \<Rightarrow> app_installation list" where
  "clone_app_installations items = sort_by installation_before items"

end
