(* ===== verification/AppsStore.thy ===== *)
theory AppsStore
  imports AppsModel
begin

text \<open>
  The app-install store (\<open>internal/apps/store.go\<close>). Every method holds the store's mutex, so it
  is a handler over the store. The repository, the provider OAuth port and the credential store
  act on an environment \<open>'r\<close>; each reading of the clock and each random reference is a parameter.
\<close>

section \<open>The store\<close>

type_synonym ('r, 'a) repo_call = "'r \<Rightarrow> (apps_error + 'a) \<times> 'r"

record app_install_progress =
  pg_intent :: string
  pg_app :: string
  pg_app_name :: string
  pg_provider :: string
  pg_auth_type :: string
  pg_install_status :: string
  pg_status :: string
  pg_descriptor_available :: bool
  pg_state_ref :: string
  pg_state_expires_at :: string
  pg_state_consumed_at :: string
  pg_preview_recorded :: bool
  pg_preview_ref :: string
  pg_preview_status :: string
  pg_preview_requested_at :: string
  pg_preflight_recorded :: bool
  pg_preflight_ref :: string
  pg_callback_status :: string
  pg_preflight_status :: string
  pg_preflight_received_at :: string
  pg_exchange_recorded :: bool
  pg_exchange_ref :: string
  pg_exchange_status :: string
  pg_exchange_mode :: string
  pg_exchange_recorded_at :: string
  pg_completion_recorded :: bool
  pg_completion_ref :: string
  pg_completion_status :: string
  pg_completion_mode :: string
  pg_completed_at :: string
  pg_installation_recorded :: bool
  pg_installation_ref :: string
  pg_installation_status :: string
  pg_installation_mode :: string
  pg_activated_at :: string
  pg_next_action :: string
  pg_updated_at :: string
  pg_user :: int

record 'r apps_repository =
  rp_read_catalog :: "('r, app_metadata list) repo_call"
  rp_read_intents :: "int \<Rightarrow> ('r, install_intent list) repo_call"
  rp_read_installations :: "int \<Rightarrow> ('r, app_installation list) repo_call"
  rp_read_progress :: "int \<Rightarrow> string \<Rightarrow> gotime \<Rightarrow> ('r, app_install_progress) repo_call"
  rp_read_preflight :: "int \<Rightarrow> string \<Rightarrow> string \<Rightarrow> string \<Rightarrow> ('r, callback_preflight) repo_call"
  rp_read_preflight_by_state :: "string \<Rightarrow> ('r, callback_preflight) repo_call"
  rp_read_exchange_by_preflight :: "int \<Rightarrow> string \<Rightarrow> string \<Rightarrow> ('r, provider_exchange) repo_call"
  rp_save_metadata :: "app_metadata \<Rightarrow> ('r, app_metadata) repo_call"
  rp_save_intent :: "install_intent \<Rightarrow> ('r, install_intent) repo_call"
  rp_mark_intent :: "int \<Rightarrow> string \<Rightarrow> ('r, install_intent) repo_call"
  rp_save_session :: "auth_session \<Rightarrow> ('r, auth_session) repo_call"
  rp_consume_session :: "int \<Rightarrow> string \<Rightarrow> string \<Rightarrow> gotime \<Rightarrow> ('r, auth_session) repo_call"
  rp_save_preview ::
    "install_intent \<Rightarrow> app_metadata \<Rightarrow> string \<Rightarrow> gotime \<Rightarrow> ('r, auth_preview) repo_call"
  rp_save_preflight :: "callback_preflight \<Rightarrow> gotime \<Rightarrow> ('r, callback_preflight) repo_call"
  rp_save_exchange :: "provider_exchange \<Rightarrow> gotime \<Rightarrow> ('r, provider_exchange) repo_call"
  rp_save_completion :: "install_completion \<Rightarrow> gotime \<Rightarrow> ('r, install_completion) repo_call"
  rp_save_installation :: "app_installation \<Rightarrow> gotime \<Rightarrow> ('r, app_installation) repo_call"

record 'r apps_store =
  st_repo :: "'r apps_repository option"
  st_catalog :: "app_metadata list"
  st_intents :: "install_intent gomap"
  st_sessions :: "auth_session gomap"
  st_previews :: "auth_preview gomap"
  st_preflights :: "callback_preflight gomap"
  st_exchanges :: "provider_exchange gomap"
  st_completions :: "install_completion gomap"
  st_installations :: "app_installation gomap"
  st_oauth_port :: "(oauth_exchange_input \<Rightarrow> ('r, oauth_exchange_result) repo_call) option"
  st_credentials :: "(credential_secret \<Rightarrow> ('r, credential_receipt) repo_call) option"
  st_loaded :: bool
  st_env :: 'r

type_synonym ('r, 'a) apps_handler = "('r apps_store, apps_error, 'a) handler"

definition new_apps_store ::
    "'r apps_repository option \<Rightarrow> (oauth_exchange_input \<Rightarrow> ('r, oauth_exchange_result) repo_call) option \<Rightarrow>
     (credential_secret \<Rightarrow> ('r, credential_receipt) repo_call) option \<Rightarrow> 'r \<Rightarrow> 'r apps_store" where
  "new_apps_store repo port credentials env =
     \<lparr>st_repo = repo, st_catalog = [], st_intents = [], st_sessions = [], st_previews = [],
      st_preflights = [], st_exchanges = [], st_completions = [], st_installations = [],
      st_oauth_port = port, st_credentials = credentials, st_loaded = False, st_env = env\<rparr>"

text \<open>A call into the environment, and the two sides of \<open>if s.repo != nil\<close>.\<close>

definition env_call :: "('r, 'a) repo_call \<Rightarrow> ('r, 'a) apps_handler" where
  "env_call call s = (case call (st_env s) of (r, env) \<Rightarrow> (r, s\<lparr>st_env := env\<rparr>))"

definition with_repo ::
    "('r apps_repository \<Rightarrow> ('r, 'a) repo_call) \<Rightarrow> ('r, 'a) apps_handler \<Rightarrow> ('r, 'a) apps_handler" where
  "with_repo call memory s =
     (case st_repo s of None \<Rightarrow> memory s | Some repo \<Rightarrow> env_call (call repo) s)"

definition apps_update :: "('r apps_store \<Rightarrow> 'r apps_store) \<Rightarrow> 'a \<Rightarrow> ('r, 'a) apps_handler" where
  "apps_update f x s = (Inr x, f s)"

section \<open>Catalog and lookups\<close>

fun seed_fixture_catalog ::
    "'r apps_repository \<Rightarrow> app_metadata list \<Rightarrow> ('r, unit) repo_call" where
  "seed_fixture_catalog repo [] env = (Inr (), env)"
| "seed_fixture_catalog repo (app # apps) env =
     (case rp_save_metadata repo app env of
        (Inl e, env) \<Rightarrow> (Inl e, env)
      | (Inr _, env) \<Rightarrow> seed_fixture_catalog repo apps env)"

definition set_catalog :: "app_metadata list \<Rightarrow> ('r, unit) apps_handler" where
  "set_catalog items = apps_update (\<lambda>s. s\<lparr>st_catalog := items, st_loaded := True\<rparr>) ()"

definition load_from_repo :: "'r apps_repository \<Rightarrow> ('r, unit) apps_handler" where
  "load_from_repo repo =
     and_then (env_call (rp_read_catalog repo)) (\<lambda>items.
     if items = []
     then and_then (env_call (seed_fixture_catalog repo fixture_app_catalog)) (\<lambda>_.
          and_then (env_call (rp_read_catalog repo)) (\<lambda>items. set_catalog (clone_app_metadata items)))
     else set_catalog (clone_app_metadata items))"

definition ensure_apps_loaded :: "('r, unit) apps_handler" where
  "ensure_apps_loaded s =
     (if st_loaded s then (Inr (), s)
      else case st_repo s of
        None \<Rightarrow> set_catalog fixture_app_catalog s
      | Some repo \<Rightarrow> load_from_repo repo s)"

definition find_app :: "string \<Rightarrow> 'r apps_store \<Rightarrow> app_metadata option" where
  "find_app slug s = find (\<lambda>app. am_slug app = slug) (st_catalog s)"

definition owned_intent :: "int \<Rightarrow> string \<Rightarrow> 'r apps_store \<Rightarrow> install_intent option" where
  "owned_intent user ref s =
     (case gm_get (st_intents s) ref of
        None \<Rightarrow> None
      | Some intent \<Rightarrow> if ii_user intent \<noteq> user then None else Some intent)"

definition find_install_intent :: "int \<Rightarrow> string \<Rightarrow> ('r, install_intent option) apps_handler" where
  "find_install_intent user ref s =
     (case st_repo s of
        None \<Rightarrow> (Inr (owned_intent user ref s), s)
      | Some repo \<Rightarrow>
          (case env_call (rp_read_intents repo user) s of
             (Inl e, s) \<Rightarrow> (Inl e, s)
           | (Inr items, s) \<Rightarrow> (Inr (find (\<lambda>intent. ii_ref intent = ref) items), s)))"

text \<open>The steps most methods share: the intent, its status, its app.\<close>

definition load_intent :: "int \<Rightarrow> string \<Rightarrow> ('r, install_intent) apps_handler" where
  "load_intent user ref =
     and_then (find_install_intent user ref) (\<lambda>intent. demand intent ErrInstallIntentNotFound)"

definition intent_ready :: "install_intent \<Rightarrow> ('r, unit) apps_handler" where
  "intent_ready intent = check (ii_status intent = st_requires_auth) ErrInstallIntentNotReady"

definition load_app :: "install_intent \<Rightarrow> ('r, app_metadata) apps_handler" where
  "load_app intent = reading (\<lambda>s. demand (find_app (ii_app intent) s) ErrAppNotFound)"

definition read_app_catalog :: "('r, app_metadata list) apps_handler" where
  "read_app_catalog =
     and_then ensure_apps_loaded (\<lambda>_. reading (\<lambda>s. return_ok (clone_app_metadata (st_catalog s))))"

section \<open>Install intents\<close>

definition create_install_intent ::
    "int \<Rightarrow> string \<Rightarrow> gotime \<Rightarrow> entropy \<Rightarrow> ('r, install_intent) apps_handler" where
  "create_install_intent user slug now e =
     and_then (check (\<not> (user \<le> 0 \<or> blank slug)) ErrInvalidInstallIntent) (\<lambda>_.
     and_then ensure_apps_loaded (\<lambda>_.
     and_then (reading (\<lambda>s. check (find_app slug s \<noteq> None) ErrAppNotFound)) (\<lambda>_.
     let intent = \<lparr>ii_ref = new_install_intent_ref e, ii_user = user, ii_app = slug,
           ii_status = st_pending, ii_created_at = wire_format now, ii_updated_at = wire_format now\<rparr>
     in with_repo (\<lambda>repo. rp_save_intent repo intent)
          (apps_update (\<lambda>s. s\<lparr>st_intents := gm_put (ii_ref intent) intent (st_intents s)\<rparr>) intent))))"

definition read_install_intents :: "int \<Rightarrow> ('r, install_intent list) apps_handler" where
  "read_install_intents user =
     and_then (check (\<not> user \<le> 0) ErrInvalidInstallIntent) (\<lambda>_.
     with_repo (\<lambda>repo. rp_read_intents repo user)
       (reading (\<lambda>s. return_ok (clone_install_intents
          (filter (\<lambda>i. ii_user i = user) (gm_values (st_intents s)))))))"

definition read_app_installations :: "int \<Rightarrow> ('r, app_installation list) apps_handler" where
  "read_app_installations user =
     and_then (check (\<not> user \<le> 0) ErrInvalidAppInstallation) (\<lambda>_.
     and_then ensure_apps_loaded (\<lambda>_.
     with_repo (\<lambda>repo. rp_read_installations repo user)
       (reading (\<lambda>s. return_ok (clone_app_installations
          (filter (\<lambda>i. ai_user i = user) (gm_values (st_installations s))))))))"

definition mark_intent_requires_auth ::
    "int \<Rightarrow> string \<Rightarrow> gotime \<Rightarrow> ('r, install_intent) apps_handler" where
  "mark_intent_requires_auth user ref now =
     and_then (check (\<not> (user \<le> 0 \<or> blank ref)) ErrInvalidInstallIntent) (\<lambda>_.
     with_repo (\<lambda>repo. rp_mark_intent repo user ref)
       (reading (\<lambda>s.
        and_then (demand (owned_intent user ref s) ErrInstallIntentNotFound) (\<lambda>intent.
        and_then (check (\<not> (ii_status intent \<noteq> st_pending \<and> ii_status intent \<noteq> st_requires_auth))
          ErrInstallIntentNotReady) (\<lambda>_.
        let intent = intent\<lparr>ii_status := st_requires_auth, ii_updated_at := wire_format now\<rparr>
        in apps_update (\<lambda>s. s\<lparr>st_intents := gm_put ref intent (st_intents s)\<rparr>) intent)))))"

section \<open>Handoff sessions\<close>

definition create_auth_session ::
    "install_intent \<Rightarrow> gotime \<Rightarrow> entropy \<Rightarrow> ('r, auth_session) apps_handler" where
  "create_auth_session intent now e =
     (let session = \<lparr>xs_ref = new_handoff_state_ref e, xs_intent = ii_ref intent,
            xs_user = ii_user intent, xs_expires_at = wire_format (add_ns now (10 * minute)),
            xs_consumed_at = [], xs_created_at = wire_format now, xs_updated_at = wire_format now\<rparr>
      in with_repo (\<lambda>repo. rp_save_session repo session)
           (apps_update (\<lambda>s. s\<lparr>st_sessions := gm_put (xs_ref session) session (st_sessions s)\<rparr>) session))"

definition read_auth_descriptor ::
    "int \<Rightarrow> string \<Rightarrow> gotime \<Rightarrow> entropy \<Rightarrow> ('r, auth_descriptor) apps_handler" where
  "read_auth_descriptor user ref now e =
     and_then (check (\<not> (user \<le> 0 \<or> blank ref)) ErrInvalidInstallIntent) (\<lambda>_.
     and_then ensure_apps_loaded (\<lambda>_.
     and_then (load_intent user ref) (\<lambda>intent.
     and_then (intent_ready intent) (\<lambda>_.
     and_then (load_app intent) (\<lambda>app.
     and_then (create_auth_session intent now e) (\<lambda>session.
     return_ok (new_auth_descriptor intent app session)))))))"

text \<open>A session as the caller may use it: known, the user's, for that intent.\<close>

definition owned_session :: "int \<Rightarrow> string \<Rightarrow> string \<Rightarrow> 'r apps_store \<Rightarrow> auth_session option" where
  "owned_session user ref state_ref s =
     (case gm_get (st_sessions s) state_ref of
        None \<Rightarrow> None
      | Some session \<Rightarrow>
          if xs_user session \<noteq> user \<or> xs_intent session \<noteq> ref then None else Some session)"

text \<open>The clock is read once for the expiry and again for the stamp.\<close>

definition consume_session ::
    "int \<Rightarrow> string \<Rightarrow> string \<Rightarrow> gotime \<Rightarrow> gotime \<Rightarrow> ('r, auth_session) apps_handler" where
  "consume_session user ref state_ref now1 now2 =
     and_then (check (\<not> (user \<le> 0 \<or> blank ref \<or> blank state_ref)) ErrInvalidInstallIntent) (\<lambda>_.
     with_repo (\<lambda>repo. rp_consume_session repo user ref state_ref now1)
       (reading (\<lambda>s.
        and_then (demand (owned_session user ref state_ref s) ErrExternalAuthSessionNotFound) (\<lambda>session.
        and_then (check (xs_consumed_at session = []) ErrExternalAuthSessionConsumed) (\<lambda>_.
        and_then (demand (parse_wire (xs_expires_at session)) ErrInvalidInstallIntent) (\<lambda>expires_at.
        and_then (check (after expires_at now1) ErrExternalAuthSessionExpired) (\<lambda>_.
        let session = session\<lparr>xs_consumed_at := wire_format now2, xs_updated_at := wire_format now2\<rparr>
        in apps_update (\<lambda>s. s\<lparr>st_sessions := gm_put state_ref session (st_sessions s)\<rparr>) session)))))))"

definition preview_authorization ::
    "int \<Rightarrow> string \<Rightarrow> string \<Rightarrow> gotime \<Rightarrow> gotime \<Rightarrow> gotime \<Rightarrow> entropy \<Rightarrow> ('r, auth_preview) apps_handler" where
  "preview_authorization user ref state_ref now1 now2 now3 e =
     and_then (check (\<not> (user \<le> 0 \<or> blank ref \<or> blank state_ref)) ErrInvalidInstallIntent) (\<lambda>_.
     and_then ensure_apps_loaded (\<lambda>_.
     and_then (load_intent user ref) (\<lambda>intent.
     and_then (intent_ready intent) (\<lambda>_.
     and_then (load_app intent) (\<lambda>app.
     with_repo (\<lambda>repo. rp_save_preview repo intent app state_ref now1)
       (and_then (consume_session user ref state_ref now1 now2) (\<lambda>session.
        let preview = new_auth_preview intent app session now3 e
        in apps_update (\<lambda>s. s\<lparr>st_previews := gm_put (pv_state_ref preview) preview (st_previews s)\<rparr>)
             preview)))))))"

section \<open>Callback preflight\<close>

definition preflight_callback ::
    "int \<Rightarrow> string \<Rightarrow> preflight_request \<Rightarrow> gotime \<Rightarrow> entropy \<Rightarrow> ('r, callback_preflight) apps_handler" where
  "preflight_callback user ref request now e =
     (let state_ref = trim_space (pr_state_ref request) in
     and_then (check (\<not> (user \<le> 0 \<or> blank ref \<or> state_ref = [] \<or>
         \<not> is_valid_callback_status (pr_callback_status request)))
       ErrInvalidExternalAuthCallbackPreflight) (\<lambda>_.
     and_then ensure_apps_loaded (\<lambda>_.
     and_then (load_intent user ref) (\<lambda>intent.
     and_then (intent_ready intent) (\<lambda>_.
     and_then (load_app intent) (\<lambda>app.
     let preflight = new_callback_preflight intent app state_ref (pr_callback_status request) now e
     in with_repo (\<lambda>repo. rp_save_preflight repo preflight now)
       (reading (\<lambda>s.
        and_then (demand (owned_session user ref state_ref s) ErrExternalAuthSessionNotFound) (\<lambda>session.
        and_then (demand (parse_wire (xs_expires_at session))
          ErrInvalidExternalAuthCallbackPreflight) (\<lambda>expires_at.
        and_then (check (after expires_at now) ErrExternalAuthSessionExpired) (\<lambda>_.
        and_then (check (gm_get (st_preflights s) state_ref = None)
          ErrExternalAuthCallbackPreflightConsumed) (\<lambda>_.
        let session = session\<lparr>xs_consumed_at := (if xs_consumed_at session = []
              then wire_format now else xs_consumed_at session), xs_updated_at := wire_format now\<rparr>
        in apps_update (\<lambda>s. s\<lparr>st_sessions := gm_put state_ref session (st_sessions s),
             st_preflights := gm_put state_ref preflight (st_preflights s)\<rparr>) preflight))))))))))))"

definition find_preflight ::
    "int \<Rightarrow> string \<Rightarrow> string \<Rightarrow> string \<Rightarrow> 'r apps_store \<Rightarrow> callback_preflight option" where
  "find_preflight user ref state_ref preflight_ref s =
     find (\<lambda>p. cp_user p = user \<and> cp_intent p = ref \<and> cp_state_ref p = state_ref \<and>
       cp_ref p = preflight_ref) (gm_values (st_preflights s))"

definition read_preflight ::
    "int \<Rightarrow> string \<Rightarrow> string \<Rightarrow> string \<Rightarrow> ('r, callback_preflight) apps_handler" where
  "read_preflight user ref state_ref preflight_ref =
     with_repo (\<lambda>repo. rp_read_preflight repo user ref state_ref preflight_ref)
       (reading (\<lambda>s. demand (find_preflight user ref state_ref preflight_ref s)
          ErrExternalAuthCallbackPreflightNotFound))"

definition read_preflight_by_state :: "string \<Rightarrow> ('r, callback_preflight) apps_handler" where
  "read_preflight_by_state state_ref =
     with_repo (\<lambda>repo. rp_read_preflight_by_state repo state_ref)
       (reading (\<lambda>s. demand (find (\<lambda>p. cp_state_ref p = state_ref) (gm_values (st_preflights s)))
          ErrExternalAuthCallbackPreflightNotFound))"

section \<open>Provider exchanges\<close>

definition exchange_provider ::
    "int \<Rightarrow> string \<Rightarrow> exchange_request \<Rightarrow> gotime \<Rightarrow> entropy \<Rightarrow> ('r, provider_exchange) apps_handler" where
  "exchange_provider user ref request now e =
     (let state_ref = trim_space (er_state_ref request);
          preflight_ref = trim_space (er_preflight request) in
     and_then (check (\<not> (user \<le> 0 \<or> blank ref \<or> state_ref = [] \<or> preflight_ref = []))
       ErrInvalidExternalAuthProviderExchange) (\<lambda>_.
     and_then ensure_apps_loaded (\<lambda>_.
     and_then (load_intent user ref) (\<lambda>intent.
     and_then (intent_ready intent) (\<lambda>_.
     and_then (load_app intent) (\<lambda>app.
     with_repo (\<lambda>repo. rp_save_exchange repo
         (new_provider_exchange_request intent app state_ref preflight_ref now e) now)
       (reading (\<lambda>s.
        and_then (demand (find_preflight user ref state_ref preflight_ref s)
          ErrExternalAuthCallbackPreflightNotFound) (\<lambda>preflight.
        and_then (check (gm_get (st_exchanges s) preflight_ref = None)
          ErrExternalAuthProviderExchangeRecorded) (\<lambda>_.
        let exchange = new_provider_exchange intent app preflight now e
        in apps_update (\<lambda>s. s\<lparr>st_exchanges := gm_put preflight_ref exchange (st_exchanges s)\<rparr>)
             exchange))))))))))"

definition has_exchange_by_preflight :: "int \<Rightarrow> string \<Rightarrow> string \<Rightarrow> ('r, bool) apps_handler" where
  "has_exchange_by_preflight user ref preflight_ref s =
     (case st_repo s of
        None \<Rightarrow>
          (Inr (list_ex (\<lambda>x. px_user x = user \<and> px_intent x = ref \<and> px_preflight x = preflight_ref)
             (gm_values (st_exchanges s))), s)
      | Some repo \<Rightarrow>
          (case env_call (rp_read_exchange_by_preflight repo user ref preflight_ref) s of
             (Inr _, s) \<Rightarrow> (Inr True, s)
           | (Inl e, s) \<Rightarrow>
               if e = ErrExternalAuthProviderExchangeNotFound then (Inr False, s) else (Inl e, s)))"

definition require_none :: "apps_error option \<Rightarrow> ('r, unit) apps_handler" where
  "require_none err s = (case err of None \<Rightarrow> (Inr (), s) | Some e \<Rightarrow> (Inl e, s))"

definition exchange_oauth_locked ::
    "install_intent \<Rightarrow> app_metadata \<Rightarrow> callback_preflight \<Rightarrow> string \<Rightarrow> string \<Rightarrow> gotime \<Rightarrow> entropy \<Rightarrow>
     (oauth_exchange_input \<Rightarrow> ('r, oauth_exchange_result) repo_call) \<Rightarrow>
     (credential_secret \<Rightarrow> ('r, credential_receipt) repo_call) \<Rightarrow>
     ('r, provider_exchange \<times> credential_receipt) apps_handler" where
  "exchange_oauth_locked intent app preflight code redirect_uri now e port store =
     and_then (check (\<not> blank code) ErrInvalidProviderOAuthExchange) (\<lambda>_.
     and_then (has_exchange_by_preflight (ii_user intent) (ii_ref intent) (cp_ref preflight)) (\<lambda>recorded.
     and_then (check (\<not> recorded) ErrExternalAuthProviderExchangeRecorded) (\<lambda>_.
     and_then (env_call (port
       \<lparr>oi_user = ii_user intent, oi_intent = ii_ref intent, oi_app = ii_app intent,
        oi_provider = am_provider app, oi_state_ref = cp_state_ref preflight,
        oi_preflight = cp_ref preflight, oi_code = code, oi_redirect_uri = redirect_uri,
        oi_scopes = am_capabilities app\<rparr>)) (\<lambda>result.
     and_then (require_none (validate_oauth_result result)) (\<lambda>_.
     and_then (env_call (store
       \<lparr>ks_user = ii_user intent, ks_app = ii_app intent, ks_category = am_category app,
        ks_provider = am_provider app, ks_account_ref = or_account_ref result,
        ks_account_label = or_account_label result, ks_scopes = or_scopes result,
        ks_token = or_token result\<rparr>)) (\<lambda>receipt.
     and_then (require_none (validate_receipt receipt result)) (\<lambda>_.
     let exchange = new_credential_ready_exchange intent app preflight now e
     in and_then (with_repo (\<lambda>repo. rp_save_exchange repo exchange now)
          (apps_update (\<lambda>s. s\<lparr>st_exchanges := gm_put (cp_ref preflight) exchange (st_exchanges s)\<rparr>)
            exchange)) (\<lambda>saved.
        return_ok (saved, receipt)))))))))"

text \<open>The two guards on the ports, then what follows with both.\<close>

definition with_ports ::
    "((oauth_exchange_input \<Rightarrow> ('r, oauth_exchange_result) repo_call) \<Rightarrow>
      (credential_secret \<Rightarrow> ('r, credential_receipt) repo_call) \<Rightarrow> ('r, 'a) apps_handler) \<Rightarrow>
     ('r, 'a) apps_handler" where
  "with_ports f = reading (\<lambda>s.
     and_then (demand (st_oauth_port s) ErrProviderOAuthExchangePortUnset) (\<lambda>port.
     and_then (demand (st_credentials s) ErrProviderCredentialStoreUnset) (\<lambda>store. f port store)))"

definition exchange_provider_oauth ::
    "int \<Rightarrow> string \<Rightarrow> oauth_exchange_request \<Rightarrow> gotime \<Rightarrow> entropy
      \<Rightarrow> ('r, provider_exchange \<times> credential_receipt) apps_handler" where
  "exchange_provider_oauth user ref request now e =
     (let state_ref = trim_space (oe_state_ref request);
          preflight_ref = trim_space (oe_preflight request);
          code = trim_space (oe_code request) in
     and_then (check (\<not> (user \<le> 0 \<or> blank ref \<or> state_ref = [] \<or> preflight_ref = [] \<or> code = []))
       ErrInvalidProviderOAuthExchange) (\<lambda>_.
     with_ports (\<lambda>port store.
     and_then ensure_apps_loaded (\<lambda>_.
     and_then (load_intent user ref) (\<lambda>intent.
     and_then (intent_ready intent) (\<lambda>_.
     and_then (load_app intent) (\<lambda>app.
     and_then (read_preflight user ref state_ref preflight_ref) (\<lambda>preflight.
     and_then (check (cp_callback_status preflight = cb_authorized)
       ErrProviderOAuthExchangeDenied) (\<lambda>_.
     exchange_oauth_locked intent app preflight code (trim_space (oe_redirect_uri request))
       now e port store)))))))))"

definition handle_oauth_callback ::
    "oauth_callback_request \<Rightarrow> gotime \<Rightarrow> entropy \<Rightarrow> ('r, oauth_callback_result) apps_handler" where
  "handle_oauth_callback request now e =
     (let state_ref = trim_space (ob_state_ref request); code = trim_space (ob_code request) in
     and_then (check (\<not> (state_ref = [] \<or> code = [])) ErrInvalidProviderOAuthExchange) (\<lambda>_.
     with_ports (\<lambda>port store.
     and_then ensure_apps_loaded (\<lambda>_.
     and_then (read_preflight_by_state state_ref) (\<lambda>preflight.
     and_then (check (cp_callback_status preflight = cb_authorized)
       ErrProviderOAuthExchangeDenied) (\<lambda>_.
     and_then (load_intent (cp_user preflight) (cp_intent preflight)) (\<lambda>intent.
     and_then (intent_ready intent) (\<lambda>_.
     and_then (load_app intent) (\<lambda>app.
     and_then (exchange_oauth_locked intent app preflight code (trim_space (ob_redirect_uri request))
       now e port store) (\<lambda>(exchange, receipt).
     return_ok
       \<lparr>oc_intent = px_intent exchange, oc_app = px_app exchange, oc_provider = px_provider exchange,
        oc_preflight = px_preflight exchange, oc_exchange = px_ref exchange,
        oc_status = px_status exchange, oc_mode = px_mode exchange, oc_credential_stored = True,
        oc_recorded_at = px_recorded_at exchange\<rparr>))))))))))"

section \<open>Completion and activation\<close>

definition find_exchange :: "int \<Rightarrow> string \<Rightarrow> string \<Rightarrow> 'r apps_store \<Rightarrow> provider_exchange option" where
  "find_exchange user ref exchange_ref s =
     find (\<lambda>x. px_user x = user \<and> px_intent x = ref \<and> px_ref x = exchange_ref)
       (gm_values (st_exchanges s))"

definition complete_install ::
    "int \<Rightarrow> string \<Rightarrow> string \<Rightarrow> gotime \<Rightarrow> entropy \<Rightarrow> ('r, install_completion) apps_handler" where
  "complete_install user ref request_exchange_ref now e =
     (let exchange_ref = trim_space request_exchange_ref in
     and_then (check (\<not> (user \<le> 0 \<or> blank ref \<or> exchange_ref = [])) ErrInvalidAppInstallCompletion) (\<lambda>_.
     and_then ensure_apps_loaded (\<lambda>_.
     and_then (load_intent user ref) (\<lambda>intent.
     and_then (load_app intent) (\<lambda>app.
     with_repo (\<lambda>repo. rp_save_completion repo
         (new_install_completion_request intent app exchange_ref now e) now)
       (reading (\<lambda>s.
        and_then (demand (find_exchange user ref exchange_ref s)
          ErrExternalAuthProviderExchangeNotFound) (\<lambda>exchange.
        and_then (check (gm_get (st_completions s) exchange_ref = None)
          ErrAppInstallCompletionRecorded) (\<lambda>_.
        and_then (intent_ready intent) (\<lambda>_.
        let completion = new_install_completion intent app exchange now e;
            intent = intent\<lparr>ii_status := ic_status completion, ii_updated_at := ic_completed_at completion\<rparr>
        in apps_update (\<lambda>s. s\<lparr>st_completions := gm_put exchange_ref completion (st_completions s),
             st_intents := gm_put ref intent (st_intents s)\<rparr>) completion))))))))))"

definition find_completion :: "int \<Rightarrow> string \<Rightarrow> string \<Rightarrow> 'r apps_store \<Rightarrow> install_completion option" where
  "find_completion user ref completion_ref s =
     find (\<lambda>c. ic_user c = user \<and> ic_intent c = ref \<and> ic_ref c = completion_ref)
       (gm_values (st_completions s))"

definition activate_installation ::
    "int \<Rightarrow> string \<Rightarrow> string \<Rightarrow> gotime \<Rightarrow> entropy \<Rightarrow> ('r, app_installation) apps_handler" where
  "activate_installation user ref request_completion_ref now e =
     (let completion_ref = trim_space request_completion_ref in
     and_then (check (\<not> (user \<le> 0 \<or> blank ref \<or> completion_ref = [])) ErrInvalidAppInstallation) (\<lambda>_.
     and_then ensure_apps_loaded (\<lambda>_.
     and_then (load_intent user ref) (\<lambda>intent.
     and_then (load_app intent) (\<lambda>app.
     with_repo (\<lambda>repo. rp_save_installation repo
         (new_app_installation_request intent app completion_ref now e) now)
       (reading (\<lambda>s.
        and_then (demand (find_completion user ref completion_ref s)
          ErrAppInstallCompletionNotFound) (\<lambda>completion.
        and_then (check (\<not> (ic_status completion \<noteq> st_installed \<or> ii_status intent \<noteq> st_installed))
          ErrAppInstallCompletionNotReady) (\<lambda>_.
        and_then (check (gm_get (st_installations s) completion_ref = None)
          ErrAppInstallationRecorded) (\<lambda>_.
        and_then (check (\<not> list_ex (\<lambda>i. ai_user i = user \<and> ai_intent i = ref)
            (gm_values (st_installations s))) ErrAppInstallationRecorded) (\<lambda>_.
        let installation = new_app_installation intent app completion now e
        in apps_update (\<lambda>s. s\<lparr>st_installations := gm_put completion_ref installation
             (st_installations s)\<rparr>) installation)))))))))))"

end
