(* ===== verification/AppsFlow.thy ===== *)
theory AppsFlow
  imports AppsStore
begin

text \<open>
  Runs of the in-memory app-install store: what each operation does on success and on failure,
  and the invariant that ties every installation back to a provider authorization of its user.
\<close>

section \<open>Failures and successes without a repository\<close>

text \<open>Two states with the same records; the catalog may be loaded and the environment used.\<close>

definition catalog_ok :: "'r apps_store \<Rightarrow> bool" where
  "catalog_ok s \<longleftrightarrow> (st_loaded s \<longrightarrow> st_catalog s = fixture_app_catalog)"

definition in_catalog :: "string \<Rightarrow> bool" where
  "in_catalog slug \<longleftrightarrow> find (\<lambda>app. am_slug app = slug) fixture_app_catalog \<noteq> None"

lemma catalog_ok_simps [simp]:
  "catalog_ok (s\<lparr>st_env := env\<rparr>) = catalog_ok s"
  "catalog_ok (s\<lparr>st_intents := i\<rparr>) = catalog_ok s"
  "catalog_ok (s\<lparr>st_sessions := x\<rparr>) = catalog_ok s"
  "catalog_ok (s\<lparr>st_previews := v\<rparr>) = catalog_ok s"
  "catalog_ok (s\<lparr>st_preflights := p\<rparr>) = catalog_ok s"
  "catalog_ok (s\<lparr>st_exchanges := y\<rparr>) = catalog_ok s"
  "catalog_ok (s\<lparr>st_completions := c\<rparr>) = catalog_ok s"
  "catalog_ok (s\<lparr>st_installations := a\<rparr>) = catalog_ok s"
  "catalog_ok (s\<lparr>st_catalog := fixture_app_catalog, st_loaded := True\<rparr>)"
  by (simp_all add: catalog_ok_def)

definition same_records :: "'r apps_store \<Rightarrow> 'r apps_store \<Rightarrow> bool" where
  "same_records s t \<longleftrightarrow>
     st_repo t = st_repo s \<and> st_intents t = st_intents s \<and> st_sessions t = st_sessions s \<and>
     st_previews t = st_previews s \<and> st_preflights t = st_preflights s \<and>
     st_exchanges t = st_exchanges s \<and> st_completions t = st_completions s \<and>
     st_installations t = st_installations s \<and> st_oauth_port t = st_oauth_port s \<and>
     st_credentials t = st_credentials s \<and> (catalog_ok s \<longrightarrow> catalog_ok t)"

lemma same_records_refl [simp]: "same_records s s"
  by (simp add: same_records_def)

lemma same_records_trans: "same_records s t \<Longrightarrow> same_records t u \<Longrightarrow> same_records s u"
  by (simp add: same_records_def)

lemma ensure_apps_loaded_memory:
  assumes "st_repo s = None"
  shows "\<exists>t. ensure_apps_loaded s = (Inr (), t) \<and> same_records s t"
  using assms
  by (simp add: ensure_apps_loaded_def set_catalog_def apps_update_def same_records_def)

lemma ensure_apps_loaded_ok:
  "ensure_apps_loaded s = (r, t) \<Longrightarrow> st_repo s = None \<Longrightarrow> r = Inr () \<and> same_records s t"
  using ensure_apps_loaded_memory [of s] by auto

text \<open>The catalog of a store without a repository is the fixture's once it is loaded.\<close>

lemma loaded_catalog:
  "ensure_apps_loaded s = (r, t) \<Longrightarrow> st_repo s = None \<Longrightarrow> catalog_ok s \<Longrightarrow> st_catalog t = fixture_app_catalog"
  by (auto simp: ensure_apps_loaded_def set_catalog_def apps_update_def catalog_ok_def split: if_splits)

lemma with_repo_memory [simp]: "st_repo s = None \<Longrightarrow> with_repo call memory s = memory s"
  by (simp add: with_repo_def)

lemma env_call_same: "env_call call s = (r, t) \<Longrightarrow> same_records s t"
  by (auto simp: env_call_def same_records_def split: prod.splits)

lemma load_intent_memory:
  "st_repo s = None \<Longrightarrow>
   load_intent user ref s =
     (case owned_intent user ref s of None \<Rightarrow> (Inl ErrInstallIntentNotFound, s) | Some i \<Rightarrow> (Inr i, s))"
  by (simp add: load_intent_def find_install_intent_def and_then_def demand_def split: option.split)

lemma load_intent_ok:
  "load_intent user ref s = (Inr i, t) \<Longrightarrow> st_repo s = None \<Longrightarrow> t = s \<and> owned_intent user ref s = Some i"
  by (simp add: load_intent_memory split: option.splits)

lemma load_intent_err:
  "load_intent user ref s = (Inl e, t) \<Longrightarrow> st_repo s = None \<Longrightarrow> t = s"
  by (simp add: load_intent_memory split: option.splits)

lemma load_app_state: "load_app intent s = (r, t) \<Longrightarrow> t = s"
  by (auto simp: load_app_def reading_def demand_def split: option.splits)

lemma intent_ready_state:
  "intent_ready intent s = (r, t) \<Longrightarrow> t = s \<and> (r = Inr () \<longrightarrow> ii_status intent = st_requires_auth)"
  by (auto simp: intent_ready_def check_def split: if_splits)

lemma owned_intent_iff:
  "owned_intent user ref s = Some i \<longleftrightarrow> gm_get (st_intents s) ref = Some i \<and> ii_user i = user"
  by (auto simp: owned_intent_def split: option.splits if_splits)

lemma owned_session_iff:
  "owned_session user ref st s = Some x \<longleftrightarrow>
     gm_get (st_sessions s) st = Some x \<and> xs_user x = user \<and> xs_intent x = ref"
  by (auto simp: owned_session_def split: option.splits if_splits)

lemma same_records_memory: "same_records s t \<Longrightarrow> st_repo s = None \<Longrightarrow> st_repo t = None"
  by (simp add: same_records_def)

text \<open>What a chain of handlers of the in-memory store unfolds to.\<close>

lemmas memory_run [op_defs] = handler_ok reading_def apps_update_def load_intent_memory
  intent_ready_def load_app_def Let_def

lemmas memory_fail = handler_err memory_run

section \<open>What each operation does\<close>

lemma create_intent_ok:
  assumes "create_install_intent user slug now e s = (Inr i, s')" "st_repo s = None"
  shows "0 < user \<and> i = \<lparr>ii_ref = new_install_intent_ref e, ii_user = user, ii_app = slug,
      ii_status = st_pending, ii_created_at = wire_format now, ii_updated_at = wire_format now\<rparr> \<and>
    (catalog_ok s \<longrightarrow> in_catalog slug) \<and>
    (\<exists>t. same_records s t \<and> s' = t\<lparr>st_intents := gm_put (ii_ref i) i (st_intents s)\<rparr>)"
proof -
  obtain t where t: "ensure_apps_loaded s = (Inr (), t)" "same_records s t"
    using ensure_apps_loaded_memory [OF assms(2)] by blast
  note c = loaded_catalog [OF t(1) assms(2)]
  from assms t have i: "find_app slug t \<noteq> None" "0 < user"
    "i = \<lparr>ii_ref = new_install_intent_ref e, ii_user = user, ii_app = slug,
      ii_status = st_pending, ii_created_at = wire_format now, ii_updated_at = wire_format now\<rparr>"
    "s' = t\<lparr>st_intents := gm_put (ii_ref i) i (st_intents s)\<rparr>"
    by (auto simp: create_install_intent_def op_defs with_repo_memory [OF same_records_memory]
        same_records_def)
  show ?thesis
    by (intro conjI exI [of _ t]) (use i c t(2) in \<open>auto simp: find_app_def in_catalog_def\<close>)
qed

lemma mark_intent_ok:
  assumes "mark_intent_requires_auth user ref now s = (Inr j, s')" "st_repo s = None"
  shows "\<exists>i. gm_get (st_intents s) ref = Some i \<and> ii_user i = user \<and>
    (ii_status i = st_pending \<or> ii_status i = st_requires_auth) \<and>
    j = i\<lparr>ii_status := st_requires_auth, ii_updated_at := wire_format now\<rparr> \<and>
    s' = s\<lparr>st_intents := gm_put ref j (st_intents s)\<rparr>"
  using assms by (auto simp: mark_intent_requires_auth_def op_defs owned_intent_iff)

lemma descriptor_ok:
  assumes "read_auth_descriptor user ref now e s = (Inr d, s')" "st_repo s = None"
  shows "\<exists>i session t. gm_get (st_intents s) ref = Some i \<and> ii_user i = user \<and>
    ii_status i = st_requires_auth \<and>
    session = \<lparr>xs_ref = new_handoff_state_ref e, xs_intent = ii_ref i,
       xs_user = ii_user i, xs_expires_at = wire_format (add_ns now (10 * minute)),
       xs_consumed_at = [], xs_created_at = wire_format now, xs_updated_at = wire_format now\<rparr> \<and>
    same_records s t \<and> s' = t\<lparr>st_sessions := gm_put (xs_ref session) session (st_sessions s)\<rparr> \<and>
    ad_state_ref d = xs_ref session"
proof -
  obtain t where t: "ensure_apps_loaded s = (Inr (), t)" "same_records s t"
    using ensure_apps_loaded_memory [OF assms(2)] by blast
  with assms have "st_repo t = None" by (simp add: same_records_def)
  with assms t(1) show ?thesis
    by (simp add: read_auth_descriptor_def create_auth_session_def op_defs split: option.splits)
      (elim exE conjE, intro exI conjI,
       use t(2) in \<open>auto simp: owned_intent_iff new_auth_descriptor_def same_records_def\<close>)
qed

lemma consume_session_ok:
  assumes "consume_session user ref st now1 now2 s = (Inr x, s')" "st_repo s = None"
  shows "\<exists>session expires_at. gm_get (st_sessions s) st = Some session \<and> xs_user session = user \<and>
    xs_intent session = ref \<and> xs_consumed_at session = [] \<and>
    parse_wire (xs_expires_at session) = Some expires_at \<and> after expires_at now1 \<and>
    x = session\<lparr>xs_consumed_at := wire_format now2, xs_updated_at := wire_format now2\<rparr> \<and>
    s' = s\<lparr>st_sessions := gm_put st x (st_sessions s)\<rparr>"
  using assms by (auto simp: consume_session_def op_defs owned_session_iff)

lemma preview_ok:
  assumes "preview_authorization user ref st now1 now2 now3 e s = (Inr v, s')" "st_repo s = None"
  shows "\<exists>session i t. gm_get (st_sessions s) st = Some session \<and> xs_user session = user \<and>
    xs_intent session = ref \<and> xs_consumed_at session = [] \<and> same_records s t \<and>
    gm_get (st_intents s) ref = Some i \<and> ii_user i = user \<and> pv_intent v = ii_ref i \<and>
    pv_user v = user \<and> pv_state_ref v = xs_ref session \<and>
    s' = t\<lparr>st_sessions := gm_put st
        (session\<lparr>xs_consumed_at := wire_format now2, xs_updated_at := wire_format now2\<rparr>) (st_sessions s),
      st_previews := gm_put (pv_state_ref v) v (st_previews s)\<rparr>"
proof -
  obtain t where t: "ensure_apps_loaded s = (Inr (), t)" "same_records s t"
    using ensure_apps_loaded_memory [OF assms(2)] by blast
  with assms have m: "st_repo t = None" by (simp add: same_records_def)
  from assms(1) t(1) m obtain i session t2 where
    i: "owned_intent user ref t = Some i" "pv_intent v = ii_ref i" "pv_user v = ii_user i"
      "pv_state_ref v = xs_ref session"
    and c: "consume_session user ref st now1 now2 t = (Inr session, t2)"
    and s': "s' = t2\<lparr>st_previews := gm_put (pv_state_ref v) v (st_previews t2)\<rparr>"
    by (auto simp: preview_authorization_def new_auth_preview_def op_defs split: option.splits)
  from consume_session_ok [OF c m] obtain old where
    "gm_get (st_sessions t) st = Some old" "xs_user old = user" "xs_intent old = ref"
    "xs_consumed_at old = []"
    "session = old\<lparr>xs_consumed_at := wire_format now2, xs_updated_at := wire_format now2\<rparr>"
    "t2 = t\<lparr>st_sessions := gm_put st session (st_sessions t)\<rparr>"
    by blast
  with s' i t(2) show ?thesis
    by (intro exI [of _ old] exI [of _ i] exI [of _ t]) (simp add: same_records_def owned_intent_iff)
qed

lemma preflight_ok:
  assumes "preflight_callback user ref req now e s = (Inr p, s')" "st_repo s = None"
  shows "\<exists>st i session expires_at t. st = trim_space (pr_state_ref req) \<and> st \<noteq> [] \<and>
    gm_get (st_intents s) ref = Some i \<and> ii_user i = user \<and>
    gm_get (st_sessions s) st = Some session \<and> xs_user session = user \<and> xs_intent session = ref \<and>
    parse_wire (xs_expires_at session) = Some expires_at \<and> after expires_at now \<and>
    gm_get (st_preflights s) st = None \<and>
    is_valid_callback_status (pr_callback_status req) \<and>
    cp_ref p = new_callback_preflight_ref e \<and> cp_intent p = ii_ref i \<and> cp_user p = user \<and>
    cp_state_ref p = st \<and> cp_callback_status p = pr_callback_status req \<and>
    same_records s t \<and>
    s' = t\<lparr>st_sessions := gm_put st (session\<lparr>xs_consumed_at :=
          (if xs_consumed_at session = [] then wire_format now else xs_consumed_at session),
          xs_updated_at := wire_format now\<rparr>) (st_sessions s),
        st_preflights := gm_put st p (st_preflights s)\<rparr>"
proof -
  obtain t where t: "ensure_apps_loaded s = (Inr (), t)" "same_records s t"
    using ensure_apps_loaded_memory [OF assms(2)] by blast
  with assms have "st_repo t = None" by (simp add: same_records_def)
  with assms(1) t(1) show ?thesis
    by (simp add: preflight_callback_def op_defs split: option.splits)
      (elim exE conjE, intro exI conjI,
       use t(2) in \<open>auto simp: owned_intent_iff owned_session_iff new_callback_preflight_def Let_def
         same_records_def\<close>)
qed

lemma find_preflight_ok:
  "find_preflight user ref st pref s = Some p \<Longrightarrow>
   \<exists>k. (k, p) \<in> set (st_preflights s) \<and> cp_user p = user \<and> cp_intent p = ref \<and>
     cp_state_ref p = st \<and> cp_ref p = pref"
  unfolding find_preflight_def by (drule find_Some_in) (force simp: image_iff)

lemma find_exchange_ok:
  "find_exchange user ref xref s = Some x \<Longrightarrow>
   \<exists>k. (k, x) \<in> set (st_exchanges s) \<and> px_user x = user \<and> px_intent x = ref \<and> px_ref x = xref"
  unfolding find_exchange_def by (drule find_Some_in) (force simp: image_iff)

lemma find_completion_ok:
  "find_completion user ref cref s = Some c \<Longrightarrow>
   \<exists>k. (k, c) \<in> set (st_completions s) \<and> ic_user c = user \<and> ic_intent c = ref \<and> ic_ref c = cref"
  unfolding find_completion_def by (drule find_Some_in) (force simp: image_iff)

lemma exchange_ok:
  assumes "exchange_provider user ref req now e s = (Inr x, s')" "st_repo s = None"
  shows "\<exists>i p k t. gm_get (st_intents s) ref = Some i \<and> ii_user i = user \<and>
    (k, p) \<in> set (st_preflights s) \<and> cp_user p = user \<and> cp_intent p = ref \<and>
    gm_get (st_exchanges s) (cp_ref p) = None \<and>
    px_ref x = new_provider_exchange_ref e \<and> px_user x = user \<and> px_intent x = ii_ref i \<and>
    px_preflight x = cp_ref p \<and> px_state_ref x = cp_state_ref p \<and>
    px_status x = (if cp_callback_status p = cb_denied then ex_blocked else ex_queued) \<and>
    same_records s t \<and> s' = t\<lparr>st_exchanges := gm_put (cp_ref p) x (st_exchanges s)\<rparr>"
proof -
  obtain t where t: "ensure_apps_loaded s = (Inr (), t)" "same_records s t"
    using ensure_apps_loaded_memory [OF assms(2)] by blast
  with assms have "st_repo t = None" by (simp add: same_records_def)
  with assms(1) t(1) show ?thesis
    by (simp add: exchange_provider_def op_defs split: option.splits)
      (elim exE conjE, drule find_preflight_ok, elim exE conjE, intro exI conjI,
       use t(2) in \<open>auto simp: owned_intent_iff new_provider_exchange_def Let_def same_records_def\<close>)
qed

lemma complete_ok:
  assumes "complete_install user ref xref now e s = (Inr c, s')" "st_repo s = None"
  shows "\<exists>i x k t. gm_get (st_intents s) ref = Some i \<and> ii_user i = user \<and>
    ii_status i = st_requires_auth \<and>
    (k, x) \<in> set (st_exchanges s) \<and> px_user x = user \<and> px_intent x = ref \<and>
    gm_get (st_completions s) (px_ref x) = None \<and>
    ic_ref c = new_install_completion_ref e \<and> ic_user c = user \<and> ic_intent c = ii_ref i \<and>
    ic_exchange c = px_ref x \<and>
    ic_status c = (if px_status x = ex_blocked then st_blocked else st_installed) \<and>
    same_records s t \<and>
    s' = t\<lparr>st_completions := gm_put (px_ref x) c (st_completions s),
           st_intents := gm_put ref (i\<lparr>ii_status := ic_status c, ii_updated_at := ic_completed_at c\<rparr>)
             (st_intents s)\<rparr>"
proof -
  obtain t where t: "ensure_apps_loaded s = (Inr (), t)" "same_records s t"
    using ensure_apps_loaded_memory [OF assms(2)] by blast
  with assms have "st_repo t = None" by (simp add: same_records_def)
  with assms(1) t(1) show ?thesis
    by (simp add: complete_install_def op_defs split: option.splits)
      (elim exE conjE, drule find_exchange_ok, elim exE conjE, intro exI conjI,
       use t(2) in \<open>auto simp: owned_intent_iff new_install_completion_def Let_def same_records_def\<close>)
qed

lemma activate_ok:
  assumes "activate_installation user ref cref now e s = (Inr a, s')" "st_repo s = None"
  shows "\<exists>i c k t. gm_get (st_intents s) ref = Some i \<and> ii_user i = user \<and>
    ii_status i = st_installed \<and>
    (k, c) \<in> set (st_completions s) \<and> ic_user c = user \<and> ic_intent c = ref \<and>
    ic_status c = st_installed \<and> gm_get (st_installations s) (ic_ref c) = None \<and>
    (\<forall>b \<in> set (gm_values (st_installations s)). \<not> (ai_user b = user \<and> ai_intent b = ref)) \<and>
    ai_user a = user \<and> ai_intent a = ii_ref i \<and> ai_completion a = ic_ref c \<and>
    ai_status a = ''active'' \<and>
    same_records s t \<and> s' = t\<lparr>st_installations := gm_put (ic_ref c) a (st_installations s)\<rparr>"
proof -
  obtain t where t: "ensure_apps_loaded s = (Inr (), t)" "same_records s t"
    using ensure_apps_loaded_memory [OF assms(2)] by blast
  with assms have "st_repo t = None" by (simp add: same_records_def)
  with assms(1) t(1) show ?thesis
    by (simp add: activate_installation_def op_defs list_ex_iff split: option.splits)
      (elim exE conjE, drule find_completion_ok, elim exE conjE, intro exI conjI,
       use t(2) in \<open>auto simp: owned_intent_iff new_app_installation_def Let_def same_records_def\<close>)
qed

text \<open>
  A credential of the user for the app was stored: the port's result, for a request made of the
  intent and the preflight, went to the credential store, which answered with the receipt.
\<close>

definition credential_stored ::
    "(oauth_exchange_input \<Rightarrow> ('r, oauth_exchange_result) repo_call) \<Rightarrow>
     (credential_secret \<Rightarrow> ('r, credential_receipt) repo_call) \<Rightarrow> install_intent \<Rightarrow>
     callback_preflight \<Rightarrow> string \<Rightarrow> credential_receipt \<Rightarrow> 'r \<Rightarrow> 'r \<Rightarrow> bool" where
  "credential_stored port store intent p code receipt env env' \<longleftrightarrow>
     (\<exists>input result env1 secret.
        port input env = (Inr result, env1) \<and> store secret env1 = (Inr receipt, env') \<and>
        oi_user input = ii_user intent \<and> oi_intent input = ii_ref intent \<and>
        oi_preflight input = cp_ref p \<and> oi_state_ref input = cp_state_ref p \<and> oi_code input = code \<and>
        ks_user secret = ii_user intent \<and> ks_app secret = ii_app intent \<and>
        ks_token secret = or_token result \<and> ks_account_ref secret = or_account_ref result \<and>
        kr_account_ref receipt = or_account_ref result \<and>
        \<not> blank (tp_access (or_token result)) \<and> \<not> blank (tp_refresh (or_token result)))"

lemma oauth_locked_ok:
  assumes "exchange_oauth_locked i app p code uri now e port store t = (Inr (x, receipt), s')"
    and "st_repo t = None"
  shows "(\<forall>y \<in> set (gm_values (st_exchanges t)).
      \<not> (px_user y = ii_user i \<and> px_intent y = ii_ref i \<and> px_preflight y = cp_ref p)) \<and>
    px_ref x = new_provider_exchange_ref e \<and> px_user x = ii_user i \<and> px_intent x = ii_ref i \<and>
    px_preflight x = cp_ref p \<and> px_state_ref x = cp_state_ref p \<and> px_status x = ex_ready \<and>
    px_mode x = mode_oauth \<and>
    credential_stored port store i p code receipt (st_env t) (st_env s') \<and>
    (\<exists>u. same_records t u \<and> s' = u\<lparr>st_exchanges := gm_put (cp_ref p) x (st_exchanges t)\<rparr>)"
proof -
  let ?input = "\<lparr>oi_user = ii_user i, oi_intent = ii_ref i, oi_app = ii_app i,
    oi_provider = am_provider app, oi_state_ref = cp_state_ref p,
    oi_preflight = cp_ref p, oi_code = code, oi_redirect_uri = uri, oi_scopes = am_capabilities app\<rparr>"
  let ?secret = "\<lambda>result. \<lparr>ks_user = ii_user i, ks_app = ii_app i, ks_category = am_category app,
    ks_provider = am_provider app, ks_account_ref = or_account_ref result,
    ks_account_label = or_account_label result, ks_scopes = or_scopes result,
    ks_token = or_token result\<rparr>"
  from assms obtain result t1 t2 where
    none: "\<not> list_ex (\<lambda>y. px_user y = ii_user i \<and> px_intent y = ii_ref i \<and> px_preflight y = cp_ref p)
      (gm_values (st_exchanges t))"
    and port: "env_call (port ?input) t = (Inr result, t1)"
    and valid: "validate_oauth_result result = None"
    and store: "env_call (store (?secret result)) t1 = (Inr receipt, t2)"
    and receipt: "validate_receipt receipt result = None"
    and s': "with_repo (\<lambda>repo. rp_save_exchange repo (new_credential_ready_exchange i app p now e) now)
       (apps_update (\<lambda>s. s\<lparr>st_exchanges := gm_put (cp_ref p) (new_credential_ready_exchange i app p now e)
          (st_exchanges s)\<rparr>) (new_credential_ready_exchange i app p now e)) t2 = (Inr x, s')"
    by (auto simp: exchange_oauth_locked_def handler_ok Let_def require_none_def
        has_exchange_by_preflight_def split: option.splits)
  have t1: "same_records t t1" and t2: "same_records t t2"
    using env_call_same [OF port] env_call_same [OF store] same_records_trans by blast+
  then have m: "st_repo t2 = None" using assms(2) by (simp add: same_records_def)
  have x: "x = new_credential_ready_exchange i app p now e"
    "s' = t2\<lparr>st_exchanges := gm_put (cp_ref p) x (st_exchanges t2)\<rparr>"
    using s' m by (auto simp: apps_update_def)
  have env: "port ?input (st_env t) = (Inr result, st_env t1)"
    "store (?secret result) (st_env t1) = (Inr receipt, st_env s')"
    using port store x(2) by (auto simp: env_call_def split: prod.splits)
  have "credential_stored port store i p code receipt (st_env t) (st_env s')"
    unfolding credential_stored_def
    using valid receipt
    by (intro exI [of _ ?input] exI [of _ result] exI [of _ "st_env t1"] exI [of _ "?secret result"] conjI env)
      (auto simp: validate_oauth_result_def validate_receipt_def split: if_splits)
  then show ?thesis
    using none x t2
    by (auto simp: new_credential_ready_exchange_def Let_def list_ex_iff same_records_def)
qed

lemma exchange_oauth_ok:
  assumes "exchange_provider_oauth user ref req now e s = (Inr (x, receipt), s')" "st_repo s = None"
  shows "\<exists>i app p k t code uri port store. gm_get (st_intents s) ref = Some i \<and> ii_user i = user \<and>
    ii_status i = st_requires_auth \<and>
    (k, p) \<in> set (st_preflights s) \<and> cp_user p = user \<and> cp_intent p = ref \<and>
    cp_callback_status p = cb_authorized \<and> same_records s t \<and>
    exchange_oauth_locked i app p code uri now e port store t = (Inr (x, receipt), s')"
proof -
  obtain t where t: "ensure_apps_loaded s = (Inr (), t)" "same_records s t"
    using ensure_apps_loaded_memory [OF assms(2)] by blast
  with assms have m: "st_repo t = None" by (simp add: same_records_def)
  from assms(1) t(1) m obtain i app p code uri port store where
    "owned_intent user ref t = Some i" "ii_status i = st_requires_auth"
    "find_preflight user ref (trim_space (oe_state_ref req)) (trim_space (oe_preflight req)) t = Some p"
    "cp_callback_status p = cb_authorized"
    "exchange_oauth_locked i app p code uri now e port store t = (Inr (x, receipt), s')"
    by (auto simp: exchange_provider_oauth_def op_defs with_ports_def read_preflight_def
        split: option.splits)
  then show ?thesis using t(2) find_preflight_ok by (fastforce simp: owned_intent_iff same_records_def)
qed

lemma oauth_callback_ok:
  assumes "handle_oauth_callback req now e s = (Inr r, s')" "st_repo s = None"
  shows "\<exists>i app p k t x receipt code uri port store. gm_get (st_intents s) (cp_intent p) = Some i \<and>
    ii_user i = cp_user p \<and> ii_status i = st_requires_auth \<and>
    (k, p) \<in> set (st_preflights s) \<and> cp_state_ref p = trim_space (ob_state_ref req) \<and>
    cp_callback_status p = cb_authorized \<and> same_records s t \<and> oc_exchange r = px_ref x \<and>
    exchange_oauth_locked i app p code uri now e port store t = (Inr (x, receipt), s')"
proof -
  obtain t where t: "ensure_apps_loaded s = (Inr (), t)" "same_records s t"
    using ensure_apps_loaded_memory [OF assms(2)] by blast
  with assms have m: "st_repo t = None" by (simp add: same_records_def)
  from assms(1) t(1) m obtain i app p x receipt code uri port store where
    i: "owned_intent (cp_user p) (cp_intent p) t = Some i" "ii_status i = st_requires_auth"
    and p: "find (\<lambda>p. cp_state_ref p = trim_space (ob_state_ref req)) (gm_values (st_preflights t)) = Some p"
    and c: "cp_callback_status p = cb_authorized"
      "exchange_oauth_locked i app p code uri now e port store t = (Inr (x, receipt), s')"
      "oc_exchange r = px_ref x"
    by (auto simp: handle_oauth_callback_def op_defs with_ports_def read_preflight_by_state_def
        split: option.splits)
  from find_Some_in [OF p] obtain k where "(k, p) \<in> set (st_preflights t)"
    "cp_state_ref p = trim_space (ob_state_ref req)" by force
  with i c t(2) show ?thesis by (fastforce simp: owned_intent_iff same_records_def)
qed

section \<open>A failing operation changes no record\<close>

lemma oauth_locked_err:
  assumes "exchange_oauth_locked i app p code uri now e port store t = (Inl d, s')" "st_repo t = None"
  shows "same_records t s'"
proof -
  show ?thesis
    using assms by (auto simp: exchange_oauth_locked_def handler_ok handler_err Let_def require_none_def
        has_exchange_by_preflight_def apps_update_def
        with_repo_memory [OF same_records_memory] same_records_memory
        dest!: env_call_same dest: same_records_trans split: option.splits)
qed

lemma operation_err:
  assumes "st_repo s = None"
  shows "create_install_intent user slug now e s = (Inl d, s') \<Longrightarrow> same_records s s'"
    and "mark_intent_requires_auth user ref now s = (Inl d, s') \<Longrightarrow> same_records s s'"
    and "read_auth_descriptor user ref now e s = (Inl d, s') \<Longrightarrow> same_records s s'"
    and "consume_session user ref st now1 now2 s = (Inl d, s') \<Longrightarrow> same_records s s'"
    and "preview_authorization user ref st now1 now2 now3 e s = (Inl d, s') \<Longrightarrow> same_records s s'"
    and "preflight_callback user ref preq now e s = (Inl d, s') \<Longrightarrow> same_records s s'"
    and "exchange_provider user ref xreq now e s = (Inl d, s') \<Longrightarrow> same_records s s'"
    and "complete_install user ref xref now e s = (Inl d, s') \<Longrightarrow> same_records s s'"
    and "activate_installation user ref cref now e s = (Inl d, s') \<Longrightarrow> same_records s s'"
proof -
  obtain t where t: "ensure_apps_loaded s = (Inr (), t)" "same_records s t"
    using ensure_apps_loaded_memory [OF assms] by blast
  then have m: "st_repo t = None" using assms by (simp add: same_records_def)
  show "create_install_intent user slug now e s = (Inl d, s') \<Longrightarrow> same_records s s'"
    using assms t m by (auto simp: create_install_intent_def memory_fail)
  show "mark_intent_requires_auth user ref now s = (Inl d, s') \<Longrightarrow> same_records s s'"
    using assms by (auto simp: mark_intent_requires_auth_def memory_fail)
  show "read_auth_descriptor user ref now e s = (Inl d, s') \<Longrightarrow> same_records s s'"
    using assms t m
    by (auto simp: read_auth_descriptor_def create_auth_session_def memory_fail split: option.splits)
  show "consume_session user ref st now1 now2 s = (Inl d, s') \<Longrightarrow> same_records s s'"
    using assms by (auto simp: consume_session_def memory_fail)
  show "preview_authorization user ref st now1 now2 now3 e s = (Inl d, s') \<Longrightarrow> same_records s s'"
    using assms t m
    by (auto simp: preview_authorization_def consume_session_def memory_fail split: option.splits)
  show "preflight_callback user ref preq now e s = (Inl d, s') \<Longrightarrow> same_records s s'"
    using assms t m by (auto simp: preflight_callback_def memory_fail split: option.splits)
  show "exchange_provider user ref xreq now e s = (Inl d, s') \<Longrightarrow> same_records s s'"
    using assms t m by (auto simp: exchange_provider_def memory_fail split: option.splits)
  show "complete_install user ref xref now e s = (Inl d, s') \<Longrightarrow> same_records s s'"
    using assms t m by (auto simp: complete_install_def memory_fail split: option.splits)
  show "activate_installation user ref cref now e s = (Inl d, s') \<Longrightarrow> same_records s s'"
    using assms t m by (auto simp: activate_installation_def memory_fail split: option.splits)
qed

lemma exchange_oauth_err:
  assumes "exchange_provider_oauth user ref req now e s = (Inl d, s')" "st_repo s = None"
  shows "same_records s s'"
proof -
  obtain t where t: "ensure_apps_loaded s = (Inr (), t)" "same_records s t"
    using ensure_apps_loaded_memory [OF assms(2)] by blast
  then have m: "st_repo t = None" using assms(2) by (simp add: same_records_def)
  with assms t show ?thesis
    by (auto simp: exchange_provider_oauth_def memory_fail with_ports_def read_preflight_def
        dest!: oauth_locked_err dest: same_records_trans split: option.splits)
qed

lemma oauth_callback_err:
  assumes "handle_oauth_callback req now e s = (Inl d, s')" "st_repo s = None"
  shows "same_records s s'"
proof -
  obtain t where t: "ensure_apps_loaded s = (Inr (), t)" "same_records s t"
    using ensure_apps_loaded_memory [OF assms(2)] by blast
  then have m: "st_repo t = None" using assms(2) by (simp add: same_records_def)
  with assms t show ?thesis
    by (auto simp: handle_oauth_callback_def memory_fail with_ports_def read_preflight_by_state_def
        dest!: oauth_locked_err dest: same_records_trans split: option.splits)
qed

end
