(* ===== verification/AppsInvariant.thy ===== *)
theory AppsInvariant
  imports AppsFlow
begin

text \<open>
  The invariant of the in-memory app-install store: the chain of records from an installation
  back to a consumed handoff session and an authorized callback, all of one user and one intent,
  and the growth of the store: nothing recorded is lost or rewritten.
\<close>

section \<open>Linked records\<close>

definition intent_wf :: "string \<Rightarrow> install_intent \<Rightarrow> bool" where
  "intent_wf k i \<longleftrightarrow> ii_ref i = k \<and> 0 < ii_user i \<and> is_valid_install_intent_status (ii_status i) \<and>
     in_catalog (ii_app i)"

definition session_linked :: "install_intent gomap \<Rightarrow> string \<Rightarrow> auth_session \<Rightarrow> bool" where
  "session_linked I k x \<longleftrightarrow> xs_ref x = k \<and>
     (\<exists>i. gm_get I (xs_intent x) = Some i \<and> ii_user i = xs_user x) \<and>
     (\<exists>t. xs_created_at x = wire_format t \<and> xs_expires_at x = wire_format (add_ns t (10 * minute)))"

definition preview_linked :: "auth_session gomap \<Rightarrow> string \<Rightarrow> auth_preview \<Rightarrow> bool" where
  "preview_linked X k v \<longleftrightarrow> pv_state_ref v = k \<and>
     (\<exists>x. gm_get X k = Some x \<and> xs_user x = pv_user v \<and> xs_intent x = pv_intent v \<and>
        xs_consumed_at x \<noteq> [])"

definition preflight_linked :: "auth_session gomap \<Rightarrow> string \<Rightarrow> callback_preflight \<Rightarrow> bool" where
  "preflight_linked X k p \<longleftrightarrow> cp_state_ref p = k \<and> is_valid_callback_status (cp_callback_status p) \<and>
     (\<exists>x. gm_get X k = Some x \<and> xs_user x = cp_user p \<and> xs_intent x = cp_intent p \<and>
        xs_consumed_at x \<noteq> [])"

definition exchange_linked :: "callback_preflight gomap \<Rightarrow> string \<Rightarrow> provider_exchange \<Rightarrow> bool" where
  "exchange_linked P k x \<longleftrightarrow> px_preflight x = k \<and>
     (\<exists>p. gm_get P (px_state_ref x) = Some p \<and> cp_ref p = k \<and> cp_user p = px_user x \<and>
        cp_intent p = px_intent x \<and>
        (px_status x \<noteq> ex_blocked \<longrightarrow> cp_callback_status p = cb_authorized))"

definition completion_linked ::
    "provider_exchange gomap \<Rightarrow> install_intent gomap \<Rightarrow> string \<Rightarrow> install_completion \<Rightarrow> bool" where
  "completion_linked E I k c \<longleftrightarrow> ic_exchange c = k \<and>
     (ic_status c = st_installed \<or> ic_status c = st_blocked) \<and>
     (\<exists>pk x. gm_get E pk = Some x \<and> px_ref x = k \<and> px_user x = ic_user c \<and> px_intent x = ic_intent c \<and>
        (ic_status c = st_installed \<longrightarrow> px_status x \<noteq> ex_blocked)) \<and>
     (\<exists>i. gm_get I (ic_intent c) = Some i \<and> ii_status i = ic_status c \<and> ii_user i = ic_user c)"

definition installation_linked :: "install_completion gomap \<Rightarrow> string \<Rightarrow> app_installation \<Rightarrow> bool" where
  "installation_linked C k a \<longleftrightarrow> ai_completion a = k \<and> ai_status a = ''active'' \<and>
     (\<exists>ck c. gm_get C ck = Some c \<and> ic_ref c = k \<and> ic_user c = ai_user a \<and> ic_intent c = ai_intent a \<and>
        ic_status c = st_installed)"

text \<open>Every record of a map is as \<open>P\<close> says, and the keys are distinct.\<close>

definition each :: "(string \<Rightarrow> 'v \<Rightarrow> bool) \<Rightarrow> 'v gomap \<Rightarrow> bool" where
  "each P m \<longleftrightarrow> gm_ok m \<and> (\<forall>k v. gm_get m k = Some v \<longrightarrow> P k v)"

lemma each_put: "each P m \<Longrightarrow> P k v \<Longrightarrow> each P (gm_put k v m)"
  by (auto simp: each_def)

lemma each_mono: "each P m \<Longrightarrow> (\<And>k v. P k v \<Longrightarrow> Q k v) \<Longrightarrow> each Q m"
  by (auto simp: each_def)

lemma each_member: "each P m \<Longrightarrow> (k, v) \<in> set m \<Longrightarrow> gm_get m k = Some v \<and> P k v"
  by (auto simp: each_def)

definition unique_by :: "('v \<Rightarrow> 'k) \<Rightarrow> 'v gomap \<Rightarrow> bool" where
  "unique_by f m \<longleftrightarrow> (\<forall>j k v w. gm_get m j = Some v \<longrightarrow> gm_get m k = Some w \<longrightarrow> f v = f w \<longrightarrow> j = k)"

lemma unique_byD: "unique_by f m \<Longrightarrow> gm_get m j = Some v \<Longrightarrow> gm_get m k = Some w \<Longrightarrow> f v = f w \<Longrightarrow> j = k"
  by (simp add: unique_by_def)

lemma unique_by_put:
  "unique_by f m \<Longrightarrow> (\<And>k w. gm_get m k = Some w \<Longrightarrow> f w \<noteq> f v) \<Longrightarrow> unique_by f (gm_put i v m)"
  unfolding unique_by_def by (simp split: if_splits) metis

definition apps_inv :: "'r apps_store \<Rightarrow> bool" where
  "apps_inv s \<longleftrightarrow> st_repo s = None \<and> catalog_ok s \<and>
     each intent_wf (st_intents s) \<and>
     each (session_linked (st_intents s)) (st_sessions s) \<and>
     each (preview_linked (st_sessions s)) (st_previews s) \<and>
     each (preflight_linked (st_sessions s)) (st_preflights s) \<and>
     each (exchange_linked (st_preflights s)) (st_exchanges s) \<and>
     each (completion_linked (st_exchanges s) (st_intents s)) (st_completions s) \<and>
     each (installation_linked (st_completions s)) (st_installations s) \<and>
     unique_by cp_ref (st_preflights s) \<and> unique_by ic_intent (st_completions s) \<and>
     unique_by (\<lambda>a. (ai_user a, ai_intent a)) (st_installations s)"

text \<open>A record in a map of a store with the invariant is looked up by its key, and linked.\<close>

lemma inv_member:
  assumes "apps_inv s"
  shows "(k, i) \<in> set (st_intents s) \<Longrightarrow> gm_get (st_intents s) k = Some i \<and> intent_wf k i"
    and "(k, x) \<in> set (st_sessions s) \<Longrightarrow>
      gm_get (st_sessions s) k = Some x \<and> session_linked (st_intents s) k x"
    and "(k, p) \<in> set (st_preflights s) \<Longrightarrow>
      gm_get (st_preflights s) k = Some p \<and> preflight_linked (st_sessions s) k p"
    and "(k, y) \<in> set (st_exchanges s) \<Longrightarrow>
      gm_get (st_exchanges s) k = Some y \<and> exchange_linked (st_preflights s) k y"
    and "(k, c) \<in> set (st_completions s) \<Longrightarrow>
      gm_get (st_completions s) k = Some c \<and> completion_linked (st_exchanges s) (st_intents s) k c"
    and "(k, a) \<in> set (st_installations s) \<Longrightarrow>
      gm_get (st_installations s) k = Some a \<and> installation_linked (st_completions s) k a"
    and "(k, v) \<in> set (st_previews s) \<Longrightarrow>
      gm_get (st_previews s) k = Some v \<and> preview_linked (st_sessions s) k v"
  using assms unfolding apps_inv_def by (blast dest: each_member)+

section \<open>Growth\<close>

definition kept :: "'v gomap \<Rightarrow> 'v gomap \<Rightarrow> bool" where
  "kept m m' \<longleftrightarrow> (\<forall>k v. gm_get m k = Some v \<longrightarrow> gm_get m' k = Some v)"

text \<open>
  How an intent may change: pending to the external authorization, from there to installed or
  blocked, and no further; its owner, app and creation time never change.
\<close>

definition status_rank :: "string \<Rightarrow> nat" where
  "status_rank status = (if status = st_pending then 0 else if status = st_requires_auth then 1 else 2)"

definition intent_grows :: "install_intent \<Rightarrow> install_intent \<Rightarrow> bool" where
  "intent_grows i j \<longleftrightarrow> ii_ref j = ii_ref i \<and> ii_user j = ii_user i \<and> ii_app j = ii_app i \<and>
     ii_created_at j = ii_created_at i \<and> status_rank (ii_status i) \<le> status_rank (ii_status j) \<and>
     (status_rank (ii_status i) = 2 \<longrightarrow> j = i)"

definition session_grows :: "auth_session \<Rightarrow> auth_session \<Rightarrow> bool" where
  "session_grows x y \<longleftrightarrow> xs_ref y = xs_ref x \<and> xs_user y = xs_user x \<and> xs_intent y = xs_intent x \<and>
     xs_expires_at y = xs_expires_at x \<and> xs_created_at y = xs_created_at x \<and>
     (xs_consumed_at x \<noteq> [] \<longrightarrow> xs_consumed_at y = xs_consumed_at x)"

definition each_grows :: "('v \<Rightarrow> 'v \<Rightarrow> bool) \<Rightarrow> 'v gomap \<Rightarrow> 'v gomap \<Rightarrow> bool" where
  "each_grows R m m' \<longleftrightarrow> (\<forall>k v. gm_get m k = Some v \<longrightarrow> (\<exists>w. gm_get m' k = Some w \<and> R v w))"

definition apps_grows :: "'r apps_store \<Rightarrow> 'r apps_store \<Rightarrow> bool" where
  "apps_grows s t \<longleftrightarrow>
     each_grows intent_grows (st_intents s) (st_intents t) \<and>
     each_grows session_grows (st_sessions s) (st_sessions t) \<and>
     kept (st_previews s) (st_previews t) \<and>
     kept (st_preflights s) (st_preflights t) \<and> kept (st_exchanges s) (st_exchanges t) \<and>
     kept (st_completions s) (st_completions t) \<and> kept (st_installations s) (st_installations t)"

lemma kept_refl [simp]: "kept m m"
  by (simp add: kept_def)

lemma kept_put: "gm_get m k = None \<Longrightarrow> kept m (gm_put k v m)"
  by (auto simp: kept_def)

lemma intent_grows_refl [simp]: "intent_grows i i"
  by (simp add: intent_grows_def)

lemma session_grows_refl [simp]: "session_grows x x"
  by (simp add: session_grows_def)

lemma intents_grow_refl [simp]: "each_grows intent_grows m m"
  by (simp add: each_grows_def)

lemma sessions_grow_refl [simp]: "each_grows session_grows m m"
  by (simp add: each_grows_def)

lemma each_grows_put:
  "(\<And>w. R w w) \<Longrightarrow> (\<And>w. gm_get m k = Some w \<Longrightarrow> R w v) \<Longrightarrow> each_grows R m (gm_put k v m)"
  by (auto simp: each_grows_def)

text \<open>A new key, and a key whose record grows.\<close>

lemma grow_put [simp]:
  "gm_get m k = None \<Longrightarrow> (\<And>w. R w w) \<Longrightarrow> each_grows R m (gm_put k v m)"
  "gm_get m k = Some w \<Longrightarrow> R w v \<Longrightarrow> (\<And>w. R w w) \<Longrightarrow> each_grows R m (gm_put k v m)"
  by (rule each_grows_put; simp)+

lemma apps_grows_same: "same_records s t \<Longrightarrow> apps_grows s t"
  by (simp add: apps_grows_def same_records_def)

lemma intent_grows_trans: "intent_grows i j \<Longrightarrow> intent_grows j k \<Longrightarrow> intent_grows i k"
  unfolding intent_grows_def by (cases "status_rank (ii_status i) = 2") auto

lemma session_grows_trans: "session_grows x y \<Longrightarrow> session_grows y z \<Longrightarrow> session_grows x z"
  by (auto simp: session_grows_def)

lemma each_grows_trans:
  assumes "\<And>u v w. R u v \<Longrightarrow> R v w \<Longrightarrow> R u w" "each_grows R m m'" "each_grows R m' m''"
  shows "each_grows R m m''"
  using assms unfolding each_grows_def by meson

lemma kept_trans: "kept m m' \<Longrightarrow> kept m' m'' \<Longrightarrow> kept m m''"
  by (simp add: kept_def)

lemma apps_grows_trans:
  assumes "apps_grows s t" "apps_grows t u"
  shows "apps_grows s u"
proof -
  have "each_grows intent_grows (st_intents s) (st_intents u)"
    by (rule each_grows_trans [of intent_grows _ "st_intents t"])
      (use assms intent_grows_trans in \<open>auto simp: apps_grows_def\<close>)
  moreover have "each_grows session_grows (st_sessions s) (st_sessions u)"
    by (rule each_grows_trans [of session_grows _ "st_sessions t"])
      (use assms session_grows_trans in \<open>auto simp: apps_grows_def\<close>)
  ultimately show ?thesis using assms kept_trans unfolding apps_grows_def by meson
qed

section \<open>Links survive growth\<close>

lemma session_linked_mono:
  "session_linked I k x \<Longrightarrow> each_grows intent_grows I I' \<Longrightarrow> session_linked I' k x"
  unfolding session_linked_def each_grows_def intent_grows_def by fastforce

lemma preflight_linked_mono:
  assumes "preflight_linked X k p" "each_grows session_grows X X'"
  shows "preflight_linked X' k p"
proof -
  from assms(1) obtain x where x: "gm_get X k = Some x" "xs_user x = cp_user p"
    "xs_intent x = cp_intent p" "xs_consumed_at x \<noteq> []"
    by (auto simp: preflight_linked_def)
  with assms(2) obtain y where "gm_get X' k = Some y" "session_grows x y"
    unfolding each_grows_def by blast
  with x assms(1) show ?thesis by (simp add: preflight_linked_def session_grows_def)
qed

lemma preview_linked_mono:
  assumes "preview_linked X k v" "each_grows session_grows X X'"
  shows "preview_linked X' k v"
proof -
  from assms(1) obtain x where x: "gm_get X k = Some x" "xs_user x = pv_user v"
    "xs_intent x = pv_intent v" "xs_consumed_at x \<noteq> []"
    by (auto simp: preview_linked_def)
  with assms(2) obtain y where "gm_get X' k = Some y" "session_grows x y"
    unfolding each_grows_def by blast
  with x assms(1) show ?thesis by (simp add: preview_linked_def session_grows_def)
qed

lemma exchange_linked_mono: "exchange_linked P k x \<Longrightarrow> kept P P' \<Longrightarrow> exchange_linked P' k x"
  by (auto simp: exchange_linked_def kept_def)

lemma final_rank: "status = st_installed \<or> status = st_blocked \<Longrightarrow> status_rank status = 2"
  by (auto simp: status_rank_def)

lemma completion_linked_mono:
  assumes "completion_linked E I k c" "kept E E'" "each_grows intent_grows I I'"
  shows "completion_linked E' I' k c"
proof -
  from assms(1) obtain i where i: "gm_get I (ic_intent c) = Some i" "ii_status i = ic_status c"
    "ii_user i = ic_user c" "ic_status c = st_installed \<or> ic_status c = st_blocked"
    by (auto simp: completion_linked_def)
  then obtain j where "gm_get I' (ic_intent c) = Some j" "intent_grows i j"
    using assms(3) unfolding each_grows_def by blast
  moreover have "status_rank (ii_status i) = 2" using i(2,4) final_rank by metis
  ultimately have "gm_get I' (ic_intent c) = Some i" by (simp add: intent_grows_def)
  moreover obtain pk x where "gm_get E' pk = Some x" "px_ref x = k" "px_user x = ic_user c"
    "px_intent x = ic_intent c" "ic_status c = st_installed \<longrightarrow> px_status x \<noteq> ex_blocked"
    using assms(1,2) unfolding completion_linked_def kept_def by blast
  moreover have "ic_exchange c = k" using assms(1) by (simp add: completion_linked_def)
  ultimately show ?thesis using i(2-4) unfolding completion_linked_def by blast
qed

lemma installation_linked_mono:
  "installation_linked C k a \<Longrightarrow> kept C C' \<Longrightarrow> installation_linked C' k a"
  unfolding installation_linked_def kept_def by blast

lemma apps_inv_same: "apps_inv s \<Longrightarrow> same_records s t \<Longrightarrow> apps_inv t"
  by (simp add: apps_inv_def same_records_def)

lemma carry:
  assumes "apps_inv s" "apps_grows s t"
  shows "each (session_linked (st_intents t)) (st_sessions s)"
    "each (preflight_linked (st_sessions t)) (st_preflights s)"
    "each (exchange_linked (st_preflights t)) (st_exchanges s)"
    "each (completion_linked (st_exchanges t) (st_intents t)) (st_completions s)"
    "each (installation_linked (st_completions t)) (st_installations s)"
    "each (preview_linked (st_sessions t)) (st_previews s)"
proof -
  note g = assms(2) [unfolded apps_grows_def]
  show "each (session_linked (st_intents t)) (st_sessions s)"
    by (rule each_mono [of "session_linked (st_intents s)"])
      (use assms(1) g session_linked_mono in \<open>auto simp: apps_inv_def\<close>)
  show "each (preflight_linked (st_sessions t)) (st_preflights s)"
    by (rule each_mono [of "preflight_linked (st_sessions s)"])
      (use assms(1) g preflight_linked_mono in \<open>auto simp: apps_inv_def\<close>)
  show "each (exchange_linked (st_preflights t)) (st_exchanges s)"
    by (rule each_mono [of "exchange_linked (st_preflights s)"])
      (use assms(1) g exchange_linked_mono in \<open>auto simp: apps_inv_def\<close>)
  show "each (completion_linked (st_exchanges t) (st_intents t)) (st_completions s)"
    by (rule each_mono [of "completion_linked (st_exchanges s) (st_intents s)"])
      (use assms(1) g completion_linked_mono in \<open>auto simp: apps_inv_def\<close>)
  show "each (installation_linked (st_completions t)) (st_installations s)"
    by (rule each_mono [of "installation_linked (st_completions s)"])
      (use assms(1) g installation_linked_mono in \<open>auto simp: apps_inv_def\<close>)
  show "each (preview_linked (st_sessions t)) (st_previews s)"
    by (rule each_mono [of "preview_linked (st_sessions s)"])
      (use assms(1) g preview_linked_mono in \<open>auto simp: apps_inv_def\<close>)
qed

section \<open>Operations keep the invariant\<close>

lemma inv_intent:
  "apps_inv s \<Longrightarrow> gm_get (st_intents s) ref = Some i \<Longrightarrow>
   ii_ref i = ref \<and> 0 < ii_user i \<and> is_valid_install_intent_status (ii_status i) \<and> in_catalog (ii_app i)"
  by (auto simp: apps_inv_def each_def intent_wf_def)

lemma create_intent_inv:
  assumes "apps_inv s" "create_install_intent user slug now e s = (Inr i, s')"
    "gm_get (st_intents s) (new_install_intent_ref e) = None"
  shows "apps_inv s' \<and> apps_grows s s'"
proof -
  have m: "st_repo s = None" using assms(1) by (simp add: apps_inv_def)
  from create_intent_ok [OF assms(2) m] assms(1) obtain t where i: "ii_ref i = new_install_intent_ref e"
    "0 < ii_user i" "ii_status i = st_pending" "in_catalog (ii_app i)" and t: "same_records s t"
    and s': "s' = t\<lparr>st_intents := gm_put (ii_ref i) i (st_intents s)\<rparr>" by (auto simp: apps_inv_def)
  have g: "apps_grows s s'"
    using s' t i assms(3)
    by (simp add: apps_grows_def same_records_def)
  have "intent_wf (ii_ref i) i"
    using i by (simp add: intent_wf_def is_valid_install_intent_status_def)
  then have "each intent_wf (st_intents s')"
    using assms(1) s' by (simp add: apps_inv_def each_put)
  with g show ?thesis
    using assms(1) carry [OF assms(1) g] s' t m by (simp add: apps_inv_def same_records_def)
qed

lemma mark_intent_inv:
  assumes "apps_inv s" "mark_intent_requires_auth user ref now s = (Inr j, s')"
  shows "apps_inv s' \<and> apps_grows s s'"
proof -
  have m: "st_repo s = None" using assms(1) by (simp add: apps_inv_def)
  from mark_intent_ok [OF assms(2) m] obtain i where i: "gm_get (st_intents s) ref = Some i"
    and st: "ii_status i = st_pending \<or> ii_status i = st_requires_auth"
    and j: "j = i\<lparr>ii_status := st_requires_auth, ii_updated_at := wire_format now\<rparr>"
    and s': "s' = s\<lparr>st_intents := gm_put ref j (st_intents s)\<rparr>" by blast
  have "intent_grows i j" using st j by (auto simp: intent_grows_def status_rank_def)
  with i s' have g: "apps_grows s s'" by (simp add: apps_grows_def)
  have "intent_wf ref j"
    using inv_intent [OF assms(1) i] j
    by (simp add: intent_wf_def is_valid_install_intent_status_def)
  then have "each intent_wf (st_intents s')"
    using assms(1) s' by (simp add: apps_inv_def each_put)
  with g show ?thesis
    using assms(1) carry [OF assms(1) g] s' by (simp add: apps_inv_def)
qed

lemma descriptor_inv:
  assumes "apps_inv s" "read_auth_descriptor user ref now e s = (Inr d, s')"
    "gm_get (st_sessions s) (new_handoff_state_ref e) = None"
  shows "apps_inv s' \<and> apps_grows s s'"
proof -
  have m: "st_repo s = None" using assms(1) by (simp add: apps_inv_def)
  from descriptor_ok [OF assms(2) m] obtain i session t where i: "gm_get (st_intents s) ref = Some i"
    and x: "xs_ref session = new_handoff_state_ref e" "xs_intent session = ii_ref i"
      "xs_user session = ii_user i" "xs_created_at session = wire_format now"
      "xs_expires_at session = wire_format (add_ns now (10 * minute))"
    and t: "same_records s t"
    and s': "s' = t\<lparr>st_sessions := gm_put (xs_ref session) session (st_sessions s)\<rparr>" by force
  have g: "apps_grows s s'"
    using s' t x assms(3) by (simp add: apps_grows_def same_records_def)
  have "session_linked (st_intents s') (xs_ref session) session"
    using x i inv_intent [OF assms(1) i] s' t
    unfolding session_linked_def same_records_def by auto
  then have "each (session_linked (st_intents s')) (st_sessions s')"
    using carry(1) [OF assms(1) g] s' by (simp add: each_put)
  with g show ?thesis
    using assms(1) carry [OF assms(1) g] s' t m by (simp add: apps_inv_def same_records_def)
qed

text \<open>Stamping a session, by a consume, a preview or a preflight.\<close>

lemma stamp_session_grows:
  assumes "gm_get (st_sessions s) st = Some x" "session_grows x y" "same_records s t"
    and "kept (st_previews s) v"
  shows "apps_grows s (t\<lparr>st_sessions := gm_put st y (st_sessions s), st_previews := v\<rparr>)"
  using assms by (simp add: apps_grows_def same_records_def)

lemma session_linked_grows: "session_linked I k x \<Longrightarrow> session_grows x y \<Longrightarrow> session_linked I k y"
  by (simp add: session_linked_def session_grows_def)

lemma stamp_session_inv:
  assumes "apps_inv s" "gm_get (st_sessions s) st = Some x" "session_grows x y" "same_records s t"
    and "kept (st_previews s) v"
    and "each (preview_linked (gm_put st y (st_sessions s))) (st_previews s) \<Longrightarrow>
      each (preview_linked (gm_put st y (st_sessions s))) v"
  shows "apps_inv (t\<lparr>st_sessions := gm_put st y (st_sessions s), st_previews := v\<rparr>)"
proof -
  let ?s' = "t\<lparr>st_sessions := gm_put st y (st_sessions s), st_previews := v\<rparr>"
  have g: "apps_grows s ?s'" using assms(2-5) by (rule stamp_session_grows)
  have "session_linked (st_intents s) st x" using assms(1,2) by (simp add: apps_inv_def each_def)
  then have "session_linked (st_intents s) st y" using assms(3) by (rule session_linked_grows)
  then have "each (session_linked (st_intents s)) (gm_put st y (st_sessions s))"
    using assms(1) by (simp add: apps_inv_def each_put)
  with g show ?thesis
    using assms(1,4) assms(6) carry [OF assms(1) g] by (simp add: apps_inv_def same_records_def)
qed

lemma consume_session_inv:
  assumes "apps_inv s" "consume_session user ref st now1 now2 s = (Inr x, s')"
  shows "apps_inv s' \<and> apps_grows s s'"
proof -
  have m: "st_repo s = None" using assms(1) by (simp add: apps_inv_def)
  from consume_session_ok [OF assms(2) m] obtain old where old: "gm_get (st_sessions s) st = Some old"
    "xs_consumed_at old = []"
    "x = old\<lparr>xs_consumed_at := wire_format now2, xs_updated_at := wire_format now2\<rparr>"
    and s': "s' = s\<lparr>st_sessions := gm_put st x (st_sessions s)\<rparr>" by blast
  have "s' = s\<lparr>st_sessions := gm_put st x (st_sessions s), st_previews := st_previews s\<rparr>"
    using s' by simp
  moreover have "session_grows old x" using old by (simp add: session_grows_def)
  ultimately show ?thesis
    using stamp_session_inv [OF assms(1) old(1) _ same_records_refl kept_refl]
      stamp_session_grows [OF old(1) _ same_records_refl kept_refl] by metis
qed

lemma wire_format_nonempty [simp]: "wire_format t \<noteq> []"
  by (simp add: wire_format_def Let_def)

lemma preview_inv:
  assumes "apps_inv s" "preview_authorization user ref st now1 now2 now3 e s = (Inr v, s')"
  shows "apps_inv s' \<and> apps_grows s s'"
proof -
  have m: "st_repo s = None" using assms(1) by (simp add: apps_inv_def)
  from preview_ok [OF assms(2) m] obtain old i t where old: "gm_get (st_sessions s) st = Some old"
    "xs_consumed_at old = []" "xs_user old = user" "xs_intent old = ref" and t: "same_records s t"
    and i: "gm_get (st_intents s) ref = Some i" "pv_intent v = ii_ref i" "pv_user v = user"
      "pv_state_ref v = xs_ref old"
    and s': "s' = t\<lparr>st_sessions := gm_put st
        (old\<lparr>xs_consumed_at := wire_format now2, xs_updated_at := wire_format now2\<rparr>) (st_sessions s),
      st_previews := gm_put (pv_state_ref v) v (st_previews s)\<rparr>" by blast
  let ?new = "old\<lparr>xs_consumed_at := wire_format now2, xs_updated_at := wire_format now2\<rparr>"
  have grows: "session_grows old ?new" using old by (simp add: session_grows_def)
  have st: "xs_ref old = st"
    using inv_member(2) [OF assms(1) map_of_SomeD [OF old(1)]] by (simp add: session_linked_def)
  have "gm_get (st_previews s) st = None"
  proof (rule ccontr)
    assume "gm_get (st_previews s) st \<noteq> None"
    then obtain w where "(st, w) \<in> set (st_previews s)" using map_of_SomeD by fastforce
    from inv_member(7) [OF assms(1) this] old show False by (simp add: preview_linked_def)
  qed
  then have k: "kept (st_previews s) (gm_put (pv_state_ref v) v (st_previews s))"
    using i(4) st by (simp add: kept_put)
  have "preview_linked (gm_put st ?new (st_sessions s)) (pv_state_ref v) v"
    using old i st inv_intent [OF assms(1) i(1)] by (simp add: preview_linked_def)
  then show ?thesis
    using stamp_session_inv [OF assms(1) old(1) grows t k each_put]
      stamp_session_grows [OF old(1) grows t k]
    by (simp add: s')
qed

lemma preflight_inv:
  assumes "apps_inv s" "preflight_callback user ref req now e s = (Inr p, s')"
    and fresh: "\<And>k q. gm_get (st_preflights s) k = Some q \<Longrightarrow> cp_ref q \<noteq> new_callback_preflight_ref e"
  shows "apps_inv s' \<and> apps_grows s s'"
proof -
  have m: "st_repo s = None" using assms(1) by (simp add: apps_inv_def)
  from preflight_ok [OF assms(2) m] obtain st i x t where
    i: "gm_get (st_intents s) ref = Some i" "ii_user i = user"
    and x: "gm_get (st_sessions s) st = Some x" "xs_user x = user" "xs_intent x = ref"
    and none: "gm_get (st_preflights s) st = None"
    and p: "is_valid_callback_status (pr_callback_status req)" "cp_ref p = new_callback_preflight_ref e"
      "cp_intent p = ii_ref i" "cp_user p = user" "cp_state_ref p = st"
      "cp_callback_status p = pr_callback_status req"
    and t: "same_records s t"
    and s': "s' = t\<lparr>st_sessions := gm_put st (x\<lparr>xs_consumed_at :=
          (if xs_consumed_at x = [] then wire_format now else xs_consumed_at x),
          xs_updated_at := wire_format now\<rparr>) (st_sessions s),
        st_preflights := gm_put st p (st_preflights s)\<rparr>" by blast
  let ?y = "x\<lparr>xs_consumed_at := (if xs_consumed_at x = [] then wire_format now else xs_consumed_at x),
      xs_updated_at := wire_format now\<rparr>"
  have y: "session_grows x ?y" by (simp add: session_grows_def)
  have g: "apps_grows s s'"
    using s' t x(1) y none by (simp add: apps_grows_def same_records_def kept_put)
  have "session_linked (st_intents s) st x" using assms(1) x(1) by (simp add: apps_inv_def each_def)
  then have "each (session_linked (st_intents s')) (st_sessions s')"
    using session_linked_grows [OF _ y] carry(1) [OF assms(1) g] s' t
    by (simp add: each_put same_records_def)
  moreover have "preflight_linked (st_sessions s') st p"
    using x p inv_intent [OF assms(1) i(1)] s' by (simp add: preflight_linked_def)
  then have "each (preflight_linked (st_sessions s')) (st_preflights s')"
    using carry(2) [OF assms(1) g] s' by (simp add: each_put)
  moreover have "unique_by cp_ref (gm_put st p (st_preflights s))"
    using assms(1) fresh p(2) by (intro unique_by_put) (auto simp: apps_inv_def)
  ultimately show ?thesis
    using assms(1) g carry(3-) [OF assms(1) g] s' t by (simp add: apps_inv_def same_records_def)
qed

text \<open>Recording an exchange for a recorded preflight.\<close>

lemma store_exchange_inv:
  assumes "apps_inv s" "(k, p) \<in> set (st_preflights s)" "gm_get (st_exchanges s) (cp_ref p) = None"
    and x: "px_preflight x = cp_ref p" "px_state_ref x = cp_state_ref p" "px_user x = cp_user p"
      "px_intent x = cp_intent p" "px_status x \<noteq> ex_blocked \<longrightarrow> cp_callback_status p = cb_authorized"
    and t: "same_records s t" and s': "s' = t\<lparr>st_exchanges := gm_put (cp_ref p) x (st_exchanges s)\<rparr>"
  shows "apps_inv s' \<and> apps_grows s s'"
proof -
  have p: "gm_get (st_preflights s) k = Some p" "preflight_linked (st_sessions s) k p"
    using inv_member(3) [OF assms(1,2)] by simp_all
  have g: "apps_grows s s'"
    using s' t assms(3) by (simp add: apps_grows_def same_records_def kept_put)
  have "exchange_linked (st_preflights s') (cp_ref p) x"
    using p x t s' by (simp add: exchange_linked_def preflight_linked_def same_records_def)
  then have "each (exchange_linked (st_preflights s')) (st_exchanges s')"
    using carry(3) [OF assms(1) g] s' by (simp add: each_put)
  then show ?thesis
    using assms(1) g carry(1,2,4,5,6) [OF assms(1) g] s' t by (simp add: apps_inv_def same_records_def)
qed

lemma exchange_inv:
  assumes "apps_inv s" "exchange_provider user ref req now e s = (Inr x, s')"
  shows "apps_inv s' \<and> apps_grows s s'"
proof -
  have m: "st_repo s = None" using assms(1) by (simp add: apps_inv_def)
  from exchange_ok [OF assms(2) m] obtain i p k t where
    i: "gm_get (st_intents s) ref = Some i"
    and p: "(k, p) \<in> set (st_preflights s)" "cp_user p = user" "cp_intent p = ref"
    and none: "gm_get (st_exchanges s) (cp_ref p) = None"
    and x: "px_user x = user" "px_intent x = ii_ref i" "px_preflight x = cp_ref p"
      "px_state_ref x = cp_state_ref p"
      "px_status x = (if cp_callback_status p = cb_denied then ex_blocked else ex_queued)"
    and t: "same_records s t" "s' = t\<lparr>st_exchanges := gm_put (cp_ref p) x (st_exchanges s)\<rparr>" by blast
  have "preflight_linked (st_sessions s) k p"
    using inv_member(3) [OF assms(1) p(1)] by simp
  then have "px_status x \<noteq> ex_blocked \<longrightarrow> cp_callback_status p = cb_authorized"
    using x(5) by (simp add: preflight_linked_def is_valid_callback_status_def split: if_splits)
  then show ?thesis
    using store_exchange_inv [OF assms(1) p(1) none x(3,4) _ _ _ t] x p inv_intent [OF assms(1) i]
    by simp
qed

lemma oauth_locked_inv:
  assumes "apps_inv s" "same_records s t"
    and "exchange_oauth_locked i app p code uri now e port store t = (Inr (x, receipt), s')"
    and i: "gm_get (st_intents s) (cp_intent p) = Some i" "ii_user i = cp_user p"
    and p: "(k, p) \<in> set (st_preflights s)" "cp_callback_status p = cb_authorized"
  shows "apps_inv s' \<and> apps_grows s s'"
proof -
  have m: "st_repo t = None" using assms(1,2) by (simp add: apps_inv_def same_records_def)
  from oauth_locked_ok [OF assms(3) m] obtain u where
    none: "\<And>y. y \<in> set (gm_values (st_exchanges t)) \<Longrightarrow>
      \<not> (px_user y = ii_user i \<and> px_intent y = ii_ref i \<and> px_preflight y = cp_ref p)"
    and x: "px_user x = ii_user i" "px_intent x = ii_ref i" "px_preflight x = cp_ref p"
      "px_state_ref x = cp_state_ref p" "px_status x = ex_ready"
    and u: "same_records t u" "s' = u\<lparr>st_exchanges := gm_put (cp_ref p) x (st_exchanges t)\<rparr>" by blast
  have ref: "ii_ref i = cp_intent p" using inv_intent [OF assms(1) i(1)] by simp
  have gp: "gm_get (st_preflights s) k = Some p" "cp_state_ref p = k"
    using inv_member(3) [OF assms(1) p(1)] by (simp_all add: preflight_linked_def)
  have "gm_get (st_exchanges s) (cp_ref p) = None"
  proof (rule ccontr)
    assume "gm_get (st_exchanges s) (cp_ref p) \<noteq> None"
    then obtain y where y: "gm_get (st_exchanges s) (cp_ref p) = Some y" by blast
    then have "exchange_linked (st_preflights s) (cp_ref p) y"
      using assms(1) by (simp add: apps_inv_def each_def)
    then obtain q where q: "px_preflight y = cp_ref p" "gm_get (st_preflights s) (px_state_ref y) = Some q"
      "cp_ref q = cp_ref p" "cp_user q = px_user y" "cp_intent q = px_intent y"
      unfolding exchange_linked_def by blast
    have "unique_by cp_ref (st_preflights s)" using assms(1) by (simp add: apps_inv_def)
    from unique_byD [OF this q(2) gp(1) q(3)] have "px_state_ref y = k" .
    then have "q = p" using q(2) gp(1) by simp
    moreover have "y \<in> set (gm_values (st_exchanges t))"
      using map_of_SomeD [OF y] assms(2) by (force simp: same_records_def image_iff)
    ultimately show False using none [of y] q i ref by simp
  qed
  then show ?thesis
    using store_exchange_inv [OF assms(1) p(1) _ x(3,4) _ _ _ same_records_trans [OF assms(2) u(1)]]
      x i(2) ref p(2) u(2) assms(2)
    by (simp add: same_records_def)
qed

lemma exchange_oauth_inv:
  assumes "apps_inv s" "exchange_provider_oauth user ref req now e s = (Inr (x, receipt), s')"
  shows "apps_inv s' \<and> apps_grows s s'"
proof -
  have m: "st_repo s = None" using assms(1) by (simp add: apps_inv_def)
  from exchange_oauth_ok [OF assms(2) m] oauth_locked_inv [OF assms(1)] show ?thesis by metis
qed

lemma oauth_callback_inv:
  assumes "apps_inv s" "handle_oauth_callback req now e s = (Inr r, s')"
  shows "apps_inv s' \<and> apps_grows s s'"
proof -
  have m: "st_repo s = None" using assms(1) by (simp add: apps_inv_def)
  from oauth_callback_ok [OF assms(2) m] oauth_locked_inv [OF assms(1)] show ?thesis by metis
qed

lemma complete_inv:
  assumes "apps_inv s" "complete_install user ref xref now e s = (Inr c, s')"
  shows "apps_inv s' \<and> apps_grows s s'"
proof -
  have m: "st_repo s = None" using assms(1) by (simp add: apps_inv_def)
  from complete_ok [OF assms(2) m] obtain i x k t where
    i: "gm_get (st_intents s) ref = Some i" "ii_user i = user" "ii_status i = st_requires_auth"
    and x: "(k, x) \<in> set (st_exchanges s)" "px_user x = user" "px_intent x = ref"
    and none: "gm_get (st_completions s) (px_ref x) = None"
    and c: "ic_user c = user" "ic_intent c = ii_ref i" "ic_exchange c = px_ref x"
      "ic_status c = (if px_status x = ex_blocked then st_blocked else st_installed)"
    and t: "same_records s t"
    and s': "s' = t\<lparr>st_completions := gm_put (px_ref x) c (st_completions s),
           st_intents := gm_put ref (i\<lparr>ii_status := ic_status c, ii_updated_at := ic_completed_at c\<rparr>)
             (st_intents s)\<rparr>" by blast
  let ?j = "i\<lparr>ii_status := ic_status c, ii_updated_at := ic_completed_at c\<rparr>"
  note ref = inv_intent [OF assms(1) i(1)]
  have "intent_grows i ?j" using i(3) c(4) by (simp add: intent_grows_def status_rank_def)
  then have g: "apps_grows s s'"
    using s' t i(1) none by (simp add: apps_grows_def same_records_def kept_put)
  have "intent_wf ref ?j" using ref c(4) by (simp add: intent_wf_def is_valid_install_intent_status_def)
  then have "each intent_wf (st_intents s')"
    using assms(1) s' by (simp add: apps_inv_def each_put)
  moreover have gx: "gm_get (st_exchanges s) k = Some x" 
    using inv_member(4) [OF assms(1) x(1)] by simp
  then have "completion_linked (st_exchanges s') (st_intents s') (px_ref x) c"
    using c x i ref s' t unfolding completion_linked_def
    by (auto simp: same_records_def split: if_splits)
  then have "each (completion_linked (st_exchanges s') (st_intents s')) (st_completions s')"
    using carry(4) [OF assms(1) g] s' by (simp add: each_put)
  moreover have "ic_intent d \<noteq> ic_intent c" if "gm_get (st_completions s) kk = Some d" for kk d
  proof
    assume "ic_intent d = ic_intent c"
    moreover have "completion_linked (st_exchanges s) (st_intents s) kk d"
      using assms(1) that by (simp add: apps_inv_def each_def)
    ultimately have "ii_status i = st_installed \<or> ii_status i = st_blocked"
      using c(2) ref i(1) by (auto simp: completion_linked_def)
    with i(3) show False by auto
  qed
  then have "unique_by ic_intent (gm_put (px_ref x) c (st_completions s))"
    using assms(1) by (intro unique_by_put) (auto simp: apps_inv_def)
  ultimately show ?thesis
    using assms(1) g carry(1-3,5,6) [OF assms(1) g] s' t by (simp add: apps_inv_def same_records_def)
qed

lemma activate_inv:
  assumes "apps_inv s" "activate_installation user ref cref now e s = (Inr a, s')"
  shows "apps_inv s' \<and> apps_grows s s'"
proof -
  have m: "st_repo s = None" using assms(1) by (simp add: apps_inv_def)
  from activate_ok [OF assms(2) m] obtain i c k t where
    i: "gm_get (st_intents s) ref = Some i"
    and c: "(k, c) \<in> set (st_completions s)" "ic_user c = user" "ic_intent c = ref" "ic_status c = st_installed"
    and none: "gm_get (st_installations s) (ic_ref c) = None"
      "\<forall>b \<in> set (gm_values (st_installations s)). \<not> (ai_user b = user \<and> ai_intent b = ref)"
    and a: "ai_user a = user" "ai_intent a = ii_ref i" "ai_completion a = ic_ref c" "ai_status a = ''active''"
    and t: "same_records s t"
    and s': "s' = t\<lparr>st_installations := gm_put (ic_ref c) a (st_installations s)\<rparr>" by blast
  note ref = inv_intent [OF assms(1) i]
  have g: "apps_grows s s'"
    using s' t none(1) by (simp add: apps_grows_def same_records_def kept_put)
  have gc: "gm_get (st_completions s) k = Some c" 
    using inv_member(5) [OF assms(1) c(1)] by simp
  then have "installation_linked (st_completions s') (ic_ref c) a"
    using a c ref s' t by (auto simp: installation_linked_def same_records_def)
  then have "each (installation_linked (st_completions s')) (st_installations s')"
    using carry(5) [OF assms(1) g] s' by (simp add: each_put)
  moreover have "(ai_user b, ai_intent b) \<noteq> (ai_user a, ai_intent a)"
    if "gm_get (st_installations s) kk = Some b" for kk b
  proof -
    have "b \<in> set (gm_values (st_installations s))" using map_of_SomeD [OF that] by force
    then show ?thesis using none(2) a ref by auto
  qed
  then have "unique_by (\<lambda>a. (ai_user a, ai_intent a)) (gm_put (ic_ref c) a (st_installations s))"
    using assms(1) by (intro unique_by_put) (auto simp: apps_inv_def)
  ultimately show ?thesis
    using assms(1) g carry(1-4,6) [OF assms(1) g] s' t by (simp add: apps_inv_def same_records_def)
qed

end
