(* ===== verification/AppsProgress.thy ===== *)
theory AppsProgress
  imports AppsStore "HOL-Library.Product_Lexorder"
begin

text \<open>
  What a client sees of an install (\<open>internal/apps/store.go\<close>): the latest record of each kind,
  chosen in a loop over a Go map, and the progress assembled from them; and the fixture provider
  OAuth port (\<open>fixture_provider_oauth.go\<close>).
\<close>

section \<open>The latest record of each kind\<close>

text \<open>Newer by time, then by reference; both are compared as strings.\<close>

definition newer :: "('a \<Rightarrow> string) \<Rightarrow> ('a \<Rightarrow> string) \<Rightarrow> 'a \<Rightarrow> 'a \<Rightarrow> bool" where
  "newer at ref x y = (at x > at y \<or> (at x = at y \<and> ref x > ref y))"

definition latest_session :: "int \<Rightarrow> string \<Rightarrow> auth_session gomap \<Rightarrow> auth_session option" where
  "latest_session user ref m = pick_best (newer xs_created_at xs_ref) None
     (filter (\<lambda>x. \<not> (xs_user x \<noteq> user \<or> xs_intent x \<noteq> ref)) (gm_values m))"

definition latest_preview :: "int \<Rightarrow> string \<Rightarrow> auth_preview gomap \<Rightarrow> auth_preview option" where
  "latest_preview user ref m = pick_best (newer pv_requested_at pv_ref) None
     (filter (\<lambda>x. \<not> (pv_user x \<noteq> user \<or> pv_intent x \<noteq> ref)) (gm_values m))"

definition latest_preflight :: "int \<Rightarrow> string \<Rightarrow> callback_preflight gomap \<Rightarrow> callback_preflight option" where
  "latest_preflight user ref m = pick_best (newer cp_received_at cp_ref) None
     (filter (\<lambda>x. \<not> (cp_user x \<noteq> user \<or> cp_intent x \<noteq> ref)) (gm_values m))"

definition latest_exchange :: "int \<Rightarrow> string \<Rightarrow> provider_exchange gomap \<Rightarrow> provider_exchange option" where
  "latest_exchange user ref m = pick_best (newer px_recorded_at px_ref) None
     (filter (\<lambda>x. \<not> (px_user x \<noteq> user \<or> px_intent x \<noteq> ref)) (gm_values m))"

definition latest_completion :: "int \<Rightarrow> string \<Rightarrow> install_completion gomap \<Rightarrow> install_completion option" where
  "latest_completion user ref m = pick_best (newer ic_completed_at ic_ref) None
     (filter (\<lambda>x. \<not> (ic_user x \<noteq> user \<or> ic_intent x \<noteq> ref)) (gm_values m))"

definition latest_installation :: "int \<Rightarrow> string \<Rightarrow> app_installation gomap \<Rightarrow> app_installation option" where
  "latest_installation user ref m = pick_best (newer ai_activated_at ai_ref) None
     (filter (\<lambda>x. \<not> (ai_user x \<noteq> user \<or> ai_intent x \<noteq> ref)) (gm_values m))"

section \<open>Progress\<close>

definition handoff_session_expired :: "string \<Rightarrow> gotime \<Rightarrow> bool" where
  "handoff_session_expired expires_at observed_at =
     (case parse_wire expires_at of None \<Rightarrow> False | Some parsed \<Rightarrow> \<not> after parsed observed_at)"

definition later_wire_time :: "string \<Rightarrow> string \<Rightarrow> string" where
  "later_wire_time left right = (if right > left then right else left)"

text \<open>The status of the intent alone.\<close>

definition progress_of_intent :: "install_intent \<Rightarrow> app_metadata \<Rightarrow> app_install_progress" where
  "progress_of_intent intent app =
     (let p = \<lparr>pg_intent = ii_ref intent, pg_app = ii_app intent, pg_app_name = am_name app,
          pg_provider = am_provider app, pg_auth_type = am_auth_type app,
          pg_install_status = ii_status intent, pg_status = ''pending'',
          pg_descriptor_available = False, pg_state_ref = [], pg_state_expires_at = [],
          pg_state_consumed_at = [], pg_preview_recorded = False, pg_preview_ref = [],
          pg_preview_status = [], pg_preview_requested_at = [], pg_preflight_recorded = False,
          pg_preflight_ref = [], pg_callback_status = [], pg_preflight_status = [],
          pg_preflight_received_at = [], pg_exchange_recorded = False, pg_exchange_ref = [],
          pg_exchange_status = [], pg_exchange_mode = [], pg_exchange_recorded_at = [],
          pg_completion_recorded = False, pg_completion_ref = [], pg_completion_status = [],
          pg_completion_mode = [], pg_completed_at = [], pg_installation_recorded = False,
          pg_installation_ref = [], pg_installation_status = [], pg_installation_mode = [],
          pg_activated_at = [], pg_next_action = ''start_external_auth'',
          pg_updated_at = ii_updated_at intent, pg_user = ii_user intent\<rparr>;
        p = (if ii_status intent = st_installed
             then p\<lparr>pg_status := ''installed'', pg_next_action := ''none''\<rparr> else p);
        p = (if ii_status intent = st_blocked
             then p\<lparr>pg_status := ''blocked'', pg_next_action := ''create_new_install_intent''\<rparr> else p)
      in if ii_status intent = st_requires_auth
         then p\<lparr>pg_status := ''external_auth_ready'', pg_descriptor_available := True,
                pg_next_action := ''read_external_auth_descriptor''\<rparr>
         else p)"

definition progress_session ::
    "auth_session option \<Rightarrow> gotime \<Rightarrow> app_install_progress \<Rightarrow> app_install_progress" where
  "progress_session session observed_at p =
     (case session of None \<Rightarrow> p
      | Some x \<Rightarrow>
          let p = p\<lparr>pg_state_ref := xs_ref x, pg_state_expires_at := xs_expires_at x,
                pg_state_consumed_at := xs_consumed_at x, pg_status := ''handoff_ready'',
                pg_next_action := ''preview_authorization'',
                pg_updated_at := later_wire_time (pg_updated_at p) (xs_updated_at x)\<rparr>
          in if xs_consumed_at x \<noteq> []
             then p\<lparr>pg_status := ''handoff_consumed'', pg_next_action := ''record_callback_preflight''\<rparr>
             else if handoff_session_expired (xs_expires_at x) observed_at
             then p\<lparr>pg_status := ''handoff_expired'', pg_next_action := ''read_external_auth_descriptor''\<rparr>
             else p)"

definition progress_preview :: "auth_preview option \<Rightarrow> app_install_progress \<Rightarrow> app_install_progress" where
  "progress_preview preview p =
     (case preview of None \<Rightarrow> p
      | Some x \<Rightarrow>
          p\<lparr>pg_preview_recorded := True, pg_preview_ref := pv_ref x, pg_preview_status := pv_status x,
            pg_preview_requested_at := pv_requested_at x,
            pg_status := ''authorization_preview_recorded'',
            pg_next_action := ''record_callback_preflight'',
            pg_updated_at := later_wire_time (pg_updated_at p) (pv_updated_at x)\<rparr>)"

definition progress_preflight ::
    "callback_preflight option \<Rightarrow> app_install_progress \<Rightarrow> app_install_progress" where
  "progress_preflight preflight p =
     (case preflight of None \<Rightarrow> p
      | Some x \<Rightarrow>
          p\<lparr>pg_preflight_recorded := True, pg_preflight_ref := cp_ref x,
            pg_callback_status := cp_callback_status x, pg_preflight_status := cp_status x,
            pg_preflight_received_at := cp_received_at x,
            pg_status := ''callback_preflight_recorded'',
            pg_next_action := (if cp_callback_status x = cb_denied then ''restart_external_auth''
              else ''await_provider_exchange''),
            pg_updated_at := later_wire_time (pg_updated_at p) (cp_updated_at x)\<rparr>)"

definition progress_exchange ::
    "provider_exchange option \<Rightarrow> app_install_progress \<Rightarrow> app_install_progress" where
  "progress_exchange exchange p =
     (case exchange of None \<Rightarrow> p
      | Some x \<Rightarrow>
          let p = p\<lparr>pg_exchange_recorded := True, pg_exchange_ref := px_ref x,
                pg_exchange_status := px_status x, pg_exchange_mode := px_mode x,
                pg_exchange_recorded_at := px_recorded_at x,
                pg_status := ''provider_exchange_queued'',
                pg_next_action := ''await_provider_exchange''\<rparr>;
              p = (if px_status x = ex_blocked
                then p\<lparr>pg_status := ''provider_exchange_blocked'',
                       pg_next_action := ''restart_external_auth''\<rparr> else p);
              p = (if px_status x = ex_ready
                then p\<lparr>pg_status := ''provider_credential_ready'',
                       pg_next_action := ''complete_install''\<rparr> else p)
          in p\<lparr>pg_updated_at := later_wire_time (pg_updated_at p) (px_updated_at x)\<rparr>)"

definition progress_completion ::
    "install_completion option \<Rightarrow> install_intent \<Rightarrow> app_install_progress \<Rightarrow> app_install_progress" where
  "progress_completion completion intent p =
     (case completion of
        Some x \<Rightarrow>
          let p = p\<lparr>pg_completion_recorded := True, pg_completion_ref := ic_ref x,
                pg_completion_status := ic_status x, pg_completion_mode := ic_mode x,
                pg_completed_at := ic_completed_at x, pg_status := ''installed'',
                pg_next_action := ''none''\<rparr>;
              p = (if ic_status x = st_blocked
                then p\<lparr>pg_status := ''blocked'', pg_next_action := ''create_new_install_intent''\<rparr>
                else p)
          in p\<lparr>pg_updated_at := later_wire_time (pg_updated_at p) (ic_updated_at x)\<rparr>
      | None \<Rightarrow>
          let p = (if ii_status intent = st_installed
                then p\<lparr>pg_status := ''installed'', pg_next_action := ''none''\<rparr> else p)
          in if ii_status intent = st_blocked
             then p\<lparr>pg_status := ''blocked'', pg_next_action := ''create_new_install_intent''\<rparr>
             else p)"

definition progress_installation ::
    "app_installation option \<Rightarrow> app_install_progress \<Rightarrow> app_install_progress" where
  "progress_installation installation p =
     (case installation of None \<Rightarrow> p
      | Some x \<Rightarrow>
          p\<lparr>pg_installation_recorded := True, pg_installation_ref := ai_ref x,
            pg_installation_status := ai_status x, pg_installation_mode := ai_mode x,
            pg_activated_at := ai_activated_at x, pg_status := ''active'', pg_next_action := ''none'',
            pg_updated_at := later_wire_time (pg_updated_at p) (ai_updated_at x)\<rparr>)"

definition new_app_install_progress ::
    "install_intent \<Rightarrow> app_metadata \<Rightarrow> auth_session option \<Rightarrow> auth_preview option \<Rightarrow>
     callback_preflight option \<Rightarrow> provider_exchange option \<Rightarrow> install_completion option \<Rightarrow>
     app_installation option \<Rightarrow> gotime \<Rightarrow> app_install_progress" where
  "new_app_install_progress intent app session preview preflight exchange completion installation now =
     progress_installation installation
       (progress_completion completion intent
         (progress_exchange exchange
           (progress_preflight preflight
             (progress_preview preview
               (progress_session session now (progress_of_intent intent app))))))"

definition read_install_progress ::
    "int \<Rightarrow> string \<Rightarrow> gotime \<Rightarrow> ('r, app_install_progress) apps_handler" where
  "read_install_progress user ref now =
     and_then (check (\<not> (user \<le> 0 \<or> blank ref)) ErrInvalidInstallIntent) (\<lambda>_.
     and_then ensure_apps_loaded (\<lambda>_.
     with_repo (\<lambda>repo. rp_read_progress repo user ref now)
       (reading (\<lambda>s.
        and_then (demand (owned_intent user ref s) ErrInstallIntentNotFound) (\<lambda>intent.
        and_then (demand (find_app (ii_app intent) s) ErrAppNotFound) (\<lambda>app.
        return_ok (new_app_install_progress intent app
          (latest_session user ref (st_sessions s)) (latest_preview user ref (st_previews s))
          (latest_preflight user ref (st_preflights s)) (latest_exchange user ref (st_exchanges s))
          (latest_completion user ref (st_completions s))
          (latest_installation user ref (st_installations s)) now)))))))"

section \<open>The fixture provider OAuth port\<close>

definition fixture_oauth_fingerprint :: "(string \<Rightarrow> string) \<Rightarrow> string list \<Rightarrow> string" where
  "fixture_oauth_fingerprint sha parts = sha (join parts [byte 0])"

text \<open>The digest \<open>sha\<close> is in hexadecimal; the port keeps no state.\<close>

definition fixture_oauth_port ::
    "(string \<Rightarrow> string) \<Rightarrow> oauth_exchange_input \<Rightarrow> ('r, oauth_exchange_result) repo_call" where
  "fixture_oauth_port sha input env =
     (if oi_user input \<le> 0 \<or> blank (oi_intent input) \<or> blank (oi_app input) \<or>
         blank (oi_provider input) \<or> blank (oi_state_ref input) \<or> blank (oi_preflight input) \<or>
         blank (oi_code input)
      then (Inl ErrInvalidProviderOAuthExchange, env)
      else
        let fingerprint = fixture_oauth_fingerprint sha
              [oi_provider input, oi_state_ref input, oi_code input];
            scopes = (if oi_scopes input = [] then [oi_provider input @ ''.read''] else oi_scopes input)
        in (Inr \<lparr>or_account_ref = oi_provider input @ ''-account-'' @ take 12 fingerprint,
              or_account_label = ''fixture-oauth-'' @ take 8 fingerprint @ ''@example.test'',
              or_scopes = scopes,
              or_token = \<lparr>tp_access = ''fixture-provider-access-'' @ fingerprint,
                tp_refresh = ''fixture-provider-refresh-'' @ fingerprint, tp_type = ''Bearer'',
                tp_expires_at = [],
                tp_raw = map (\<lambda>c. of_char c)
                  (CHR ''{'' # CHR 0x22 # ''status'' @ [CHR 0x22, CHR '':'', CHR 0x22] @
                   ''fixture_provider_oauth_exchange'' @ [CHR 0x22, CHR ''}''])\<rparr>\<rparr>, env))"

section \<open>What the progress says\<close>

lemma newer_key:
  "newer at ref x y \<longleftrightarrow> (at y, ref y) < (at x, ref x)"
  by (auto simp: newer_def less_prod_def)

end
