(* ===== verification/AppsProps.thy ===== *)
theory AppsProps
  imports AppsInvariant AppsProgress
begin

text \<open>
  Runs of the in-memory app-install store and the properties of the install flow: where an active
  installation comes from, what may happen once, what never changes, whose records an operation
  may touch, and what a client reads.
\<close>

section \<open>Runs\<close>

text \<open>One call of a method, with its clock readings and random references.\<close>

datatype apps_op =
    OpReadCatalog
  | OpReadIntents int
  | OpReadInstallations int
  | OpReadProgress int string gotime
  | OpCreateIntent int string gotime entropy
  | OpMarkIntent int string gotime
  | OpReadDescriptor int string gotime entropy
  | OpConsume int string string gotime gotime
  | OpPreview int string string gotime gotime gotime entropy
  | OpPreflight int string preflight_request gotime entropy
  | OpExchange int string exchange_request gotime entropy
  | OpExchangeOAuth int string oauth_exchange_request gotime entropy
  | OpCallback oauth_callback_request gotime entropy
  | OpComplete int string string gotime entropy
  | OpActivate int string string gotime entropy

definition outcome :: "('e + 'a) \<times> 's \<Rightarrow> 'e option \<times> 's" where
  "outcome r = (case r of (Inl e, s) \<Rightarrow> (Some e, s) | (Inr _, s) \<Rightarrow> (None, s))"

fun run_apps_op :: "apps_op \<Rightarrow> 'r apps_store \<Rightarrow> apps_error option \<times> 'r apps_store" where
  "run_apps_op OpReadCatalog s = outcome (read_app_catalog s)"
| "run_apps_op (OpReadIntents user) s = outcome (read_install_intents user s)"
| "run_apps_op (OpReadInstallations user) s = outcome (read_app_installations user s)"
| "run_apps_op (OpReadProgress user ref now) s = outcome (read_install_progress user ref now s)"
| "run_apps_op (OpCreateIntent user slug now e) s = outcome (create_install_intent user slug now e s)"
| "run_apps_op (OpMarkIntent user ref now) s = outcome (mark_intent_requires_auth user ref now s)"
| "run_apps_op (OpReadDescriptor user ref now e) s = outcome (read_auth_descriptor user ref now e s)"
| "run_apps_op (OpConsume user ref st now1 now2) s = outcome (consume_session user ref st now1 now2 s)"
| "run_apps_op (OpPreview user ref st now1 now2 now3 e) s =
     outcome (preview_authorization user ref st now1 now2 now3 e s)"
| "run_apps_op (OpPreflight user ref req now e) s = outcome (preflight_callback user ref req now e s)"
| "run_apps_op (OpExchange user ref req now e) s = outcome (exchange_provider user ref req now e s)"
| "run_apps_op (OpExchangeOAuth user ref req now e) s =
     outcome (exchange_provider_oauth user ref req now e s)"
| "run_apps_op (OpCallback req now e) s = outcome (handle_oauth_callback req now e s)"
| "run_apps_op (OpComplete user ref xref now e) s = outcome (complete_install user ref xref now e s)"
| "run_apps_op (OpActivate user ref cref now e) s = outcome (activate_installation user ref cref now e s)"

text \<open>
  The references an operation draws are new: \<open>crypto/rand\<close> does not repeat itself. Only the
  references that are looked up without their owner have to be.
\<close>

fun fresh_op :: "apps_op \<Rightarrow> 'r apps_store \<Rightarrow> bool" where
  "fresh_op (OpCreateIntent user slug now e) s = (gm_get (st_intents s) (new_install_intent_ref e) = None)"
| "fresh_op (OpReadDescriptor user ref now e) s = (gm_get (st_sessions s) (new_handoff_state_ref e) = None)"
| "fresh_op (OpPreflight user ref req now e) s =
     list_all (\<lambda>p. cp_ref p \<noteq> new_callback_preflight_ref e) (gm_values (st_preflights s))"
| "fresh_op _ s = True"

fun run_apps :: "apps_op list \<Rightarrow> 'r apps_store \<Rightarrow> 'r apps_store" where
  "run_apps [] s = s"
| "run_apps (op # ops) s = run_apps ops (snd (run_apps_op op s))"

fun fresh_run :: "apps_op list \<Rightarrow> 'r apps_store \<Rightarrow> bool" where
  "fresh_run [] s \<longleftrightarrow> True"
| "fresh_run (op # ops) s \<longleftrightarrow> fresh_op op s \<and> fresh_run ops (snd (run_apps_op op s))"

text \<open>The stores a server without a database can be in.\<close>

inductive apps_reach :: "'r apps_store \<Rightarrow> bool" where
  start: "apps_reach (new_apps_store None port credentials env)"
| step: "apps_reach s \<Longrightarrow> fresh_op op s \<Longrightarrow> run_apps_op op s = (r, t) \<Longrightarrow> apps_reach t"
| environment: "apps_reach s \<Longrightarrow> apps_reach (s\<lparr>st_env := env\<rparr>)"

section \<open>Every operation keeps the invariant and lets the store grow\<close>

lemma outcome_eq:
  "outcome (r, u) = (d, t) \<longleftrightarrow> t = u \<and> d = (case r of Inl e \<Rightarrow> Some e | Inr _ \<Rightarrow> None)"
  by (auto simp: outcome_def split: sum.splits)

lemma read_same:
  assumes "st_repo s = None"
  shows "read_app_catalog s = (r1, s') \<Longrightarrow> same_records s s'"
    and "read_install_intents user s = (r2, s') \<Longrightarrow> same_records s s'"
    and "read_app_installations user s = (r3, s') \<Longrightarrow> same_records s s'"
    and "read_install_progress user ref now s = (r4, s') \<Longrightarrow> same_records s s'"
proof -
  obtain t where t: "ensure_apps_loaded s = (Inr (), t)" "same_records s t"
    using ensure_apps_loaded_memory [OF assms] by blast
  then have m: "st_repo t = None" using assms by (simp add: same_records_def)
  show "read_app_catalog s = (r1, s') \<Longrightarrow> same_records s s'"
    using t by (cases r1) (auto simp: read_app_catalog_def memory_fail op_defs)
  show "read_install_intents user s = (r2, s') \<Longrightarrow> same_records s s'"
    using assms by (cases r2) (auto simp: read_install_intents_def memory_fail op_defs)
  show "read_app_installations user s = (r3, s') \<Longrightarrow> same_records s s'"
    using assms t m by (cases r3) (auto simp: read_app_installations_def memory_fail op_defs)
  show "read_install_progress user ref now s = (r4, s') \<Longrightarrow> same_records s s'"
    using assms t m by (cases r4) (auto simp: read_install_progress_def memory_fail op_defs)
qed

lemma same_step: "apps_inv s \<Longrightarrow> same_records s t \<Longrightarrow> apps_inv t \<and> apps_grows s t"
  using apps_inv_same apps_grows_same by blast

lemma oauth_err:
  assumes "st_repo s = None"
  shows "exchange_provider_oauth user ref req now e s = (Inl d, s') \<Longrightarrow> same_records s s'"
    and "handle_oauth_callback creq now e s = (Inl d, s') \<Longrightarrow> same_records s s'"
  using exchange_oauth_err oauth_callback_err assms by blast+

lemmas operation_same = read_same operation_err oauth_err
lemmas operation_inv = create_intent_inv mark_intent_inv descriptor_inv consume_session_inv preview_inv
  preflight_inv exchange_inv exchange_oauth_inv oauth_callback_inv complete_inv activate_inv

text \<open>A method either fails, changing no record, or is known by its result.\<close>

definition good :: "'r apps_store \<Rightarrow> 'e option \<times> 'r apps_store \<Rightarrow> bool" where
  "good s r \<longleftrightarrow> apps_inv (snd r) \<and> apps_grows s (snd r)"

lemma goodI:
  assumes "apps_inv s" "\<And>e s'. m = (Inl e, s') \<Longrightarrow> same_records s s'"
    and "\<And>x s'. m = (Inr x, s') \<Longrightarrow> apps_inv s' \<and> apps_grows s s'"
  shows "good s (outcome m)"
proof (cases "fst m")
  case (Inl e)
  then have "same_records s (snd m)" using assms(2) by (metis prod.collapse)
  with same_step [OF assms(1)] Inl show ?thesis
    by (cases m) (auto simp: good_def outcome_def)
next
  case (Inr x)
  then have "apps_inv (snd m) \<and> apps_grows s (snd m)" using assms(3) by (metis prod.collapse)
  with Inr show ?thesis by (cases m) (auto simp: good_def outcome_def)
qed

lemma step_inv:
  assumes "apps_inv s" "fresh_op op s"
  shows "good s (run_apps_op op s)"
proof -
  have m: "st_repo s = None" using assms(1) by (simp add: apps_inv_def)
  note same = operation_same [OF m] and good = goodI [OF assms(1)]
  note read = same_step [OF assms(1)]
  show ?thesis
  proof (cases op)
    case (OpPreflight user ref req now e)
    then have "\<And>k q. gm_get (st_preflights s) k = Some q \<Longrightarrow> cp_ref q \<noteq> new_callback_preflight_ref e"
      using assms(2) by (force simp: list_all_iff dest: map_of_SomeD)
    with OpPreflight show ?thesis
      by simp (rule good, erule same, erule preflight_inv [OF assms(1)], simp)
  next
    case (OpExchangeOAuth user ref req now e)
    then show ?thesis
      by simp (rule good, erule same, metis exchange_oauth_inv [OF assms(1)] prod.collapse)
  qed (insert assms(2); simp; rule good, erule same,
      (erule operation_inv [OF assms(1)] | rule read, erule same); simp)+
qed

section \<open>Reachable stores and runs\<close>

lemma start_inv: "apps_inv (new_apps_store None port credentials env)"
  by (simp add: apps_inv_def new_apps_store_def each_def unique_by_def catalog_ok_def)

lemma environment_inv: "apps_inv s \<Longrightarrow> apps_inv (s\<lparr>st_env := env\<rparr>)"
  by (simp add: apps_inv_def)

lemma reach_inv: "apps_reach s \<Longrightarrow> apps_inv s"
proof (induction rule: apps_reach.induct)
  case (step s op r t)
  then show ?case using step_inv [of s op] by (simp add: good_def)
qed (simp_all add: start_inv environment_inv)

lemma run_inv: "apps_inv s \<Longrightarrow> fresh_run ops s \<Longrightarrow> apps_inv (run_apps ops s)"
  by (induction ops arbitrary: s) (use step_inv in \<open>auto simp: good_def\<close>)

lemma run_grows: "apps_inv s \<Longrightarrow> fresh_run ops s \<Longrightarrow> apps_grows s (run_apps ops s)"
proof (induction ops arbitrary: s)
  case Nil
  then show ?case by (simp add: apps_grows_same)
next
  case (Cons op ops)
  then show ?case using step_inv [of s op] apps_grows_trans by (fastforce simp: good_def)
qed

lemma reach_run: "apps_reach s \<Longrightarrow> fresh_run ops s \<Longrightarrow> apps_reach (run_apps ops s)"
  by (induction ops arbitrary: s) (auto intro: apps_reach.step [OF _ _ prod.collapse [symmetric]])

lemma in_values: "gm_get m k = Some v \<Longrightarrow> v \<in> set (gm_values m)"
  by (force dest: map_of_SomeD)

section \<open>Where an installation comes from\<close>

text \<open>
  C6: in every store a server without a database can be in, an app installation is active and
  comes from a chain of records of its own user and install intent: a consumed handoff session, a
  callback preflight that says the provider authorized, an exchange that is not blocked, a
  completion that installed, and the intent is installed.
\<close>
theorem installation_provenance:
  assumes "apps_reach s" and "gm_get (st_installations s) k = Some a"
  shows "ai_status a = ''active'' \<and>
    (\<exists>i c x p h. gm_get (st_intents s) (ai_intent a) = Some i \<and>
       c \<in> set (gm_values (st_completions s)) \<and> x \<in> set (gm_values (st_exchanges s)) \<and>
       p \<in> set (gm_values (st_preflights s)) \<and> h \<in> set (gm_values (st_sessions s)) \<and>
       ai_completion a = ic_ref c \<and> ic_exchange c = px_ref x \<and> px_preflight x = cp_ref p \<and>
       cp_state_ref p = xs_ref h \<and>
       ii_status i = st_installed \<and> ic_status c = st_installed \<and> px_status x \<noteq> ex_blocked \<and>
       cp_callback_status p = cb_authorized \<and> xs_consumed_at h \<noteq> [] \<and>
       ii_user i = ai_user a \<and> ic_user c = ai_user a \<and> px_user x = ai_user a \<and>
       cp_user p = ai_user a \<and> xs_user h = ai_user a \<and>
       ic_intent c = ai_intent a \<and> px_intent x = ai_intent a \<and> cp_intent p = ai_intent a \<and>
       xs_intent h = ai_intent a)"
proof -
  note inv = reach_inv [OF assms(1)]
  note member = inv_member [OF inv map_of_SomeD]
  from member(6) [OF assms(2)] obtain ck c where
    c: "gm_get (st_completions s) ck = Some c" "ic_ref c = ai_completion a" "ic_user c = ai_user a"
      "ic_intent c = ai_intent a" "ic_status c = st_installed" and a: "ai_status a = ''active''"
    by (auto simp: installation_linked_def)
  from member(5) [OF c(1)] c(5) obtain xk x i where
    x: "gm_get (st_exchanges s) xk = Some x" "px_ref x = ic_exchange c" "px_user x = ic_user c"
      "px_intent x = ic_intent c" "px_status x \<noteq> ex_blocked"
    and i: "gm_get (st_intents s) (ic_intent c) = Some i" "ii_status i = st_installed"
      "ii_user i = ic_user c"
    by (auto simp: completion_linked_def)
  from member(4) [OF x(1)] x(5) obtain p where
    p: "gm_get (st_preflights s) (px_state_ref x) = Some p" "cp_ref p = px_preflight x"
      "cp_user p = px_user x" "cp_intent p = px_intent x" "cp_callback_status p = cb_authorized"
    by (auto simp: exchange_linked_def)
  from member(3) [OF p(1)] obtain h where
    h: "gm_get (st_sessions s) (px_state_ref x) = Some h" "xs_user h = cp_user p"
      "xs_intent h = cp_intent p" "xs_consumed_at h \<noteq> []" "cp_state_ref p = px_state_ref x"
    by (auto simp: preflight_linked_def)
  from member(2) [OF h(1)] have "xs_ref h = px_state_ref x" by (simp add: session_linked_def)
  with a c x i p h in_values [OF c(1)] in_values [OF x(1)] in_values [OF p(1)] in_values [OF h(1)]
  show ?thesis by (intro conjI exI [of _ i] exI [of _ c] exI [of _ x] exI [of _ p] exI [of _ h]) simp_all
qed

section \<open>What is recorded at most once\<close>

text \<open>Two values of a map with the same key of the records are one.\<close>

lemma unique_values:
  "unique_by f m \<Longrightarrow> gm_ok m \<Longrightarrow> v \<in> set (gm_values m) \<Longrightarrow> w \<in> set (gm_values m) \<Longrightarrow>
   f v = f w \<Longrightarrow> v = w"
  by (metis gm_values_get option.inject unique_byD)

lemma keyed_unique: "each P m \<Longrightarrow> (\<And>k v. P k v \<Longrightarrow> f v = k) \<Longrightarrow> unique_by f m"
  unfolding each_def unique_by_def by metis

lemma inv_unique:
  assumes "apps_inv s"
  shows "unique_by xs_ref (st_sessions s)" "unique_by pv_state_ref (st_previews s)"
    "unique_by cp_state_ref (st_preflights s)" "unique_by px_preflight (st_exchanges s)"
  using assms unfolding apps_inv_def
  by (auto simp: session_linked_def preview_linked_def preflight_linked_def exchange_linked_def
      intro: keyed_unique)

text \<open>
  C21: in every reachable store without a database there is at most one completion of an install
  intent, one installation of a user and an intent, one exchange of a callback preflight, and one
  callback preflight and one authorization preview of a handoff session.
\<close>
theorem recorded_once:
  assumes "apps_reach s"
  shows "(\<forall>c \<in> set (gm_values (st_completions s)). \<forall>d \<in> set (gm_values (st_completions s)).
       ic_intent c = ic_intent d \<longrightarrow> c = d) \<and>
    (\<forall>a \<in> set (gm_values (st_installations s)). \<forall>b \<in> set (gm_values (st_installations s)).
       ai_user a = ai_user b \<and> ai_intent a = ai_intent b \<longrightarrow> a = b) \<and>
    (\<forall>x \<in> set (gm_values (st_exchanges s)). \<forall>y \<in> set (gm_values (st_exchanges s)).
       px_preflight x = px_preflight y \<longrightarrow> x = y) \<and>
    (\<forall>p \<in> set (gm_values (st_preflights s)). \<forall>q \<in> set (gm_values (st_preflights s)).
       cp_state_ref p = cp_state_ref q \<longrightarrow> p = q) \<and>
    (\<forall>v \<in> set (gm_values (st_previews s)). \<forall>w \<in> set (gm_values (st_previews s)).
       pv_state_ref v = pv_state_ref w \<longrightarrow> v = w)"
proof -
  note inv = reach_inv [OF assms, unfolded apps_inv_def]
  have ok: "gm_ok (st_completions s)" "gm_ok (st_installations s)" "gm_ok (st_exchanges s)"
    "gm_ok (st_preflights s)" "gm_ok (st_previews s)"
    using inv by (simp_all add: each_def)
  note u = inv_unique [OF reach_inv [OF assms]]
  show ?thesis
    using inv ok u unique_values [of ic_intent "st_completions s"]
      unique_values [of "\<lambda>a. (ai_user a, ai_intent a)" "st_installations s"]
      unique_values [of px_preflight "st_exchanges s"] unique_values [of cp_state_ref "st_preflights s"]
      unique_values [of pv_state_ref "st_previews s"] by blast
qed

section \<open>The handoff session\<close>

lemma consume_consumed:
  assumes "st_repo s = None" "gm_get (st_sessions s) st = Some x" "xs_consumed_at x \<noteq> []"
  shows "is_err (fst (consume_session user ref st now1 now2 s))"
proof (cases "consume_session user ref st now1 now2 s")
  case (Pair r t)
  show ?thesis
  proof (cases r)
    case (Inr y)
    with consume_session_ok [of user ref st now1 now2 s y t] Pair assms show ?thesis by auto
  qed (simp add: Pair)
qed

text \<open>
  C19: a handoff session is accepted once and in time: when a store without a database accepts a
  session, it does so within the ten minutes after its creation (to the millisecond of the wire
  format, for years the format can write), and however the store is used afterwards, nobody can
  consume that session again.
\<close>
theorem handoff_consumed_once:
  assumes "apps_reach s" and "consume_session user ref st now1 now2 s = (Inr x, s')"
    and "fresh_run ops s'"
  shows "is_err (fst (consume_session user' ref' st now3 now4 (run_apps ops s'))) \<and>
    xs_user x = user \<and> xs_intent x = ref \<and>
    (\<exists>t0. xs_created_at x = wire_format t0 \<and>
       (four_digit_year (inst t0 + 10 * minute) \<longrightarrow> inst now1 < inst t0 + 10 * minute))"
proof -
  note inv = reach_inv [OF assms(1)]
  then have m: "st_repo s = None" by (simp add: apps_inv_def)
  from consume_session_ok [OF assms(2) m] obtain h expires where
    h: "gm_get (st_sessions s) st = Some h" "xs_user h = user" "xs_intent h = ref"
    and e: "parse_wire (xs_expires_at h) = Some expires" "after expires now1"
    and x: "x = h\<lparr>xs_consumed_at := wire_format now2, xs_updated_at := wire_format now2\<rparr>"
    and s': "s' = s\<lparr>st_sessions := gm_put st x (st_sessions s)\<rparr>" by blast
  have inv': "apps_inv s'" using consume_session_inv [OF inv assms(2)] by simp
  have "gm_get (st_sessions s') st = Some x" using s' by simp
  with run_grows [OF inv' assms(3)] obtain y where y: "session_grows x y"
    "gm_get (st_sessions (run_apps ops s')) st = Some y"
    unfolding apps_grows_def each_grows_def by blast
  have "xs_consumed_at y \<noteq> []" using y(1) x by (simp add: session_grows_def)
  moreover have "st_repo (run_apps ops s') = None"
    using run_inv [OF inv' assms(3)] by (simp add: apps_inv_def)
  ultimately have again: "is_err (fst (consume_session user' ref' st now3 now4 (run_apps ops s')))"
    using consume_consumed y(2) by blast
  from inv_member(2) [OF inv map_of_SomeD [OF h(1)]] obtain t0 where
    t0: "xs_created_at h = wire_format t0" "xs_expires_at h = wire_format (add_ns t0 (10 * minute))"
    by (auto simp: session_linked_def)
  have "inst now1 < inst t0 + 10 * minute" if "four_digit_year (inst t0 + 10 * minute)"
    using parse_wire_format [of "add_ns t0 (10 * minute)"] that e t0(2)
      floor_ms_bounds(1) [of "inst t0 + 10 * minute"]
    by (auto simp: add_ns_def after_def)
  with again x h t0(1) show ?thesis by auto
qed

section \<open>What is recorded stays\<close>

text \<open>
  C24: over any further run of a store without a database (with new random references), nothing
  that was recorded disappears or is rewritten: an intent keeps its owner, app and creation time,
  its status only moves forward from pending to the external authorization to installed or
  blocked, and these two are final; a handoff session keeps its owner, intent and expiry, and once
  consumed its stamp; previews, preflights, exchanges, completions and installations stay as
  they are.
\<close>
theorem records_final:
  assumes "apps_reach s" and "fresh_run ops s" and "t = run_apps ops s"
  shows "(gm_get (st_intents s) k = Some i \<longrightarrow>
      (\<exists>j. gm_get (st_intents t) k = Some j \<and> ii_user j = ii_user i \<and> ii_app j = ii_app i \<and>
         ii_created_at j = ii_created_at i \<and>
         (ii_status i = st_requires_auth \<longrightarrow> ii_status j \<noteq> st_pending) \<and>
         (ii_status i = st_installed \<or> ii_status i = st_blocked \<longrightarrow> j = i))) \<and>
    (gm_get (st_sessions s) k = Some x \<longrightarrow>
      (\<exists>y. gm_get (st_sessions t) k = Some y \<and> xs_user y = xs_user x \<and> xs_intent y = xs_intent x \<and>
         xs_expires_at y = xs_expires_at x \<and>
         (xs_consumed_at x \<noteq> [] \<longrightarrow> xs_consumed_at y = xs_consumed_at x))) \<and>
    (gm_get (st_previews s) k = Some v \<longrightarrow> gm_get (st_previews t) k = Some v) \<and>
    (gm_get (st_preflights s) k = Some p \<longrightarrow> gm_get (st_preflights t) k = Some p) \<and>
    (gm_get (st_exchanges s) k = Some e \<longrightarrow> gm_get (st_exchanges t) k = Some e) \<and>
    (gm_get (st_completions s) k = Some c \<longrightarrow> gm_get (st_completions t) k = Some c) \<and>
    (gm_get (st_installations s) k = Some a \<longrightarrow> gm_get (st_installations t) k = Some a)"
proof -
  have g: "apps_grows s t" using run_grows [OF reach_inv [OF assms(1)] assms(2)] assms(3) by simp
  have "\<exists>j. gm_get (st_intents t) k = Some j \<and> ii_user j = ii_user i \<and> ii_app j = ii_app i \<and>
      ii_created_at j = ii_created_at i \<and>
      (ii_status i = st_requires_auth \<longrightarrow> ii_status j \<noteq> st_pending) \<and>
      (ii_status i = st_installed \<or> ii_status i = st_blocked \<longrightarrow> j = i)"
    if i: "gm_get (st_intents s) k = Some i"
  proof -
    from g i obtain j where j: "gm_get (st_intents t) k = Some j" "intent_grows i j"
      unfolding apps_grows_def each_grows_def by blast
    have "ii_status i = st_requires_auth \<longrightarrow> ii_status j \<noteq> st_pending"
      using j(2) by (auto simp: intent_grows_def status_rank_def)
    with j final_rank [of "ii_status i"] show ?thesis by (auto simp: intent_grows_def)
  qed
  moreover have "\<exists>y. gm_get (st_sessions t) k = Some y \<and> xs_user y = xs_user x \<and>
      xs_intent y = xs_intent x \<and> xs_expires_at y = xs_expires_at x \<and>
      (xs_consumed_at x \<noteq> [] \<longrightarrow> xs_consumed_at y = xs_consumed_at x)"
    if "gm_get (st_sessions s) k = Some x"
    using g that unfolding apps_grows_def each_grows_def session_grows_def by metis
  ultimately show ?thesis using g by (auto simp: apps_grows_def kept_def)
qed

section \<open>Users are isolated from each other\<close>

text \<open>The user an operation acts for: its argument, or whose callback a provider's redirect is.\<close>

fun op_user :: "apps_op \<Rightarrow> 'r apps_store \<Rightarrow> int option" where
  "op_user (OpCreateIntent user _ _ _) s = Some user"
| "op_user (OpMarkIntent user _ _) s = Some user"
| "op_user (OpReadDescriptor user _ _ _) s = Some user"
| "op_user (OpConsume user _ _ _ _) s = Some user"
| "op_user (OpPreview user _ _ _ _ _ _) s = Some user"
| "op_user (OpPreflight user _ _ _ _) s = Some user"
| "op_user (OpExchange user _ _ _ _) s = Some user"
| "op_user (OpExchangeOAuth user _ _ _ _) s = Some user"
| "op_user (OpCallback req _ _) s =
     map_option cp_user (gm_get (st_preflights s) (trim_space (ob_state_ref req)))"
| "op_user (OpComplete user _ _ _ _) s = Some user"
| "op_user (OpActivate user _ _ _ _) s = Some user"
| "op_user _ s = None"

definition kept_but :: "int option \<Rightarrow> ('v \<Rightarrow> int) \<Rightarrow> 'v gomap \<Rightarrow> 'v gomap \<Rightarrow> bool" where
  "kept_but u f m m' \<longleftrightarrow> (\<forall>k v. u \<noteq> Some (f v) \<longrightarrow> (gm_get m' k = Some v \<longleftrightarrow> gm_get m k = Some v))"

definition others_kept :: "int option \<Rightarrow> 'r apps_store \<Rightarrow> 'r apps_store \<Rightarrow> bool" where
  "others_kept u s t \<longleftrightarrow>
     kept_but u ii_user (st_intents s) (st_intents t) \<and>
     kept_but u xs_user (st_sessions s) (st_sessions t) \<and>
     kept_but u pv_user (st_previews s) (st_previews t) \<and>
     kept_but u cp_user (st_preflights s) (st_preflights t) \<and>
     kept_but u px_user (st_exchanges s) (st_exchanges t) \<and>
     kept_but u ic_user (st_completions s) (st_completions t) \<and>
     kept_but u ai_user (st_installations s) (st_installations t)"

lemma kept_but_refl [simp]: "kept_but u f m m"
  by (simp add: kept_but_def)

lemma kept_but_new: "gm_get m k = None \<Longrightarrow> u = Some (f v) \<Longrightarrow> kept_but u f m (gm_put k v m)"
  by (auto simp: kept_but_def)

lemma kept_but_old: "gm_get m k = Some w \<Longrightarrow> u = Some (f v) \<Longrightarrow> f w = f v \<Longrightarrow> kept_but u f m (gm_put k v m)"
  by (auto simp: kept_but_def)

lemma others_kept_same: "same_records s t \<Longrightarrow> others_kept u s t"
  by (simp add: others_kept_def same_records_def)

text \<open>As for the invariant: a method fails and changes no record, or its result tells.\<close>

lemma othersI:
  assumes "\<And>e s'. m = (Inl e, s') \<Longrightarrow> same_records s s'"
    and "\<And>x s'. m = (Inr x, s') \<Longrightarrow> others_kept u s s'"
  shows "others_kept u s (snd (outcome m))"
  using assms others_kept_same by (cases m; cases "fst m") (auto simp: outcome_def)

lemma session_others:
  assumes "gm_get (st_sessions s) st = Some x" "xs_user x = user" "xs_user y = user" "same_records s t"
    and "kept_but (Some user) pv_user (st_previews s) v" "kept_but (Some user) cp_user (st_preflights s) p"
  shows "others_kept (Some user) s
    (t\<lparr>st_sessions := gm_put st y (st_sessions s), st_previews := v, st_preflights := p\<rparr>)"
  using assms by (simp add: others_kept_def same_records_def kept_but_old)

lemma operation_others:
  assumes "apps_inv s"
  shows "create_install_intent user slug now e s = (Inr i, s') \<Longrightarrow>
      gm_get (st_intents s) (new_install_intent_ref e) = None \<Longrightarrow> others_kept (Some user) s s'"
    and "mark_intent_requires_auth user ref now s = (Inr i, s') \<Longrightarrow> others_kept (Some user) s s'"
    and "read_auth_descriptor user ref now e s = (Inr d, s') \<Longrightarrow>
      gm_get (st_sessions s) (new_handoff_state_ref e) = None \<Longrightarrow> others_kept (Some user) s s'"
    and "exchange_provider user ref xreq now e s = (Inr x, s') \<Longrightarrow> others_kept (Some user) s s'"
    and "complete_install user ref xref now e s = (Inr c, s') \<Longrightarrow> others_kept (Some user) s s'"
    and "activate_installation user ref cref now e s = (Inr a, s') \<Longrightarrow> others_kept (Some user) s s'"
proof -
  have m: "st_repo s = None" using assms by (simp add: apps_inv_def)
  show "create_install_intent user slug now e s = (Inr i, s') \<Longrightarrow>
      gm_get (st_intents s) (new_install_intent_ref e) = None \<Longrightarrow> others_kept (Some user) s s'"
    by (frule create_intent_ok [OF _ m], elim exE conjE)
      (simp add: others_kept_def same_records_def kept_but_new)
  show "mark_intent_requires_auth user ref now s = (Inr i, s') \<Longrightarrow> others_kept (Some user) s s'"
    by (frule mark_intent_ok [OF _ m], elim exE conjE)
      (simp add: others_kept_def same_records_def kept_but_old)
  show "read_auth_descriptor user ref now e s = (Inr d, s') \<Longrightarrow>
      gm_get (st_sessions s) (new_handoff_state_ref e) = None \<Longrightarrow> others_kept (Some user) s s'"
    by (frule descriptor_ok [OF _ m], elim exE conjE)
      (simp add: others_kept_def same_records_def kept_but_new)
  show "exchange_provider user ref xreq now e s = (Inr x, s') \<Longrightarrow> others_kept (Some user) s s'"
    by (frule exchange_ok [OF _ m], elim exE conjE)
      (simp add: others_kept_def same_records_def kept_but_new)
  show "complete_install user ref xref now e s = (Inr c, s') \<Longrightarrow> others_kept (Some user) s s'"
    by (frule complete_ok [OF _ m], elim exE conjE)
      (simp add: others_kept_def same_records_def kept_but_new kept_but_old)
  show "activate_installation user ref cref now e s = (Inr a, s') \<Longrightarrow> others_kept (Some user) s s'"
    by (frule activate_ok [OF _ m], elim exE conjE)
      (simp add: others_kept_def same_records_def kept_but_new)
qed

text \<open>Where the store only grew, a put cannot have overwritten another record.\<close>

lemma kept_but_kept:
  "kept m m' \<Longrightarrow> m' = gm_put k v m \<Longrightarrow> u = Some (f v) \<Longrightarrow> kept_but u f m m'"
  by (auto simp: kept_but_def kept_def split: if_splits)

lemma oauth_locked_others:
  assumes "apps_inv s" "same_records s t"
    and x: "exchange_oauth_locked i app p code uri now e port store t = (Inr (x, receipt), s')"
    and "gm_get (st_intents s) (cp_intent p) = Some i" "ii_user i = cp_user p"
    and "(k, p) \<in> set (st_preflights s)" "cp_callback_status p = cb_authorized"
  shows "others_kept (Some (cp_user p)) s s'"
proof -
  have m: "st_repo t = None" using assms(1,2) by (simp add: apps_inv_def same_records_def)
  have "apps_grows s s'" using oauth_locked_inv [OF assms] by simp
  with oauth_locked_ok [OF x m] assms(2,5) show ?thesis
    by (elim exE conjE)
      (simp add: others_kept_def same_records_def apps_grows_def kept_but_kept)
qed

lemma session_operation_others:
  assumes "apps_inv s"
  shows "consume_session user ref st now1 now2 s = (Inr x, s') \<Longrightarrow> others_kept (Some user) s s'"
    and "preview_authorization user ref st now1 now2 now3 e s = (Inr v, s') \<Longrightarrow>
      others_kept (Some user) s s'"
    and "preflight_callback user ref req now e s = (Inr p, s') \<Longrightarrow> others_kept (Some user) s s'"
    and "exchange_provider_oauth user ref oreq now e s = (Inr yr, s') \<Longrightarrow> others_kept (Some user) s s'"
    and "handle_oauth_callback creq now e s = (Inr r, s') \<Longrightarrow>
      others_kept (map_option cp_user (gm_get (st_preflights s) (trim_space (ob_state_ref creq)))) s s'"
proof -
  have m: "st_repo s = None" using assms by (simp add: apps_inv_def)
  show "consume_session user ref st now1 now2 s = (Inr x, s') \<Longrightarrow> others_kept (Some user) s s'"
    by (frule consume_session_ok [OF _ m], elim exE conjE)
      (simp add: others_kept_def same_records_def kept_but_old)
  show "others_kept (Some user) s s'"
    if v: "preview_authorization user ref st now1 now2 now3 e s = (Inr v, s')"
    using preview_ok [OF v m] preview_inv [OF assms v]
    by (elim exE conjE)
      (simp add: others_kept_def same_records_def apps_grows_def kept_but_old kept_but_kept)
  show "preflight_callback user ref req now e s = (Inr p, s') \<Longrightarrow> others_kept (Some user) s s'"
    by (frule preflight_ok [OF _ m], elim exE conjE)
      (simp add: others_kept_def same_records_def kept_but_old kept_but_new)
  show "others_kept (Some user) s s'"
    if "exchange_provider_oauth user ref oreq now e s = (Inr yr, s')"
    using exchange_oauth_ok [of user ref oreq now e s "fst yr" "snd yr" s'] that m
      oauth_locked_others [OF assms] by fastforce
  show "others_kept (map_option cp_user (gm_get (st_preflights s) (trim_space (ob_state_ref creq)))) s s'"
    if "handle_oauth_callback creq now e s = (Inr r, s')"
  proof -
    from oauth_callback_ok [OF that m] obtain i app p k t x receipt code uri port store where
      p: "(k, p) \<in> set (st_preflights s)" "cp_state_ref p = trim_space (ob_state_ref creq)"
        "cp_callback_status p = cb_authorized"
      and i: "gm_get (st_intents s) (cp_intent p) = Some i" "ii_user i = cp_user p"
      and t: "same_records s t"
      and x: "exchange_oauth_locked i app p code uri now e port store t = (Inr (x, receipt), s')"
      by blast
    from inv_member(3) [OF assms p(1)] p(2)
    have "gm_get (st_preflights s) (trim_space (ob_state_ref creq)) = Some p"
      by (simp add: preflight_linked_def)
    with oauth_locked_others [OF assms t x i p(1,3)] show ?thesis by simp
  qed
qed

lemma apps_op_others:
  assumes "apps_inv s" "fresh_op op s"
  shows "others_kept (op_user op s) s (snd (run_apps_op op s))"
proof -
  note inv = assms(1)
  then have m: "st_repo s = None" by (simp add: apps_inv_def)
  note same = operation_same [OF m]
  show ?thesis
  proof (cases op)
    case (OpCallback req now e)
    then show ?thesis
      by simp (rule othersI, erule same, erule session_operation_others [OF inv])
  qed (insert assms(2); simp; rule othersI, erule same,
      (erule operation_others [OF inv] session_operation_others [OF inv]
       | rule others_kept_same, erule same); simp)+
qed

text \<open>
  An operation of the in-memory app store touches records of the user it acts for only: the
  records of every other user, of all seven kinds, are exactly those from before, none added,
  changed or removed. A provider's redirect acts for the user whose callback preflight carries
  its state, and reads act for nobody.
\<close>
theorem users_isolated:
  assumes "apps_reach s" and "fresh_op op s" and "run_apps_op op s = (r, t)"
  shows "others_kept (op_user op s) s t"
  using apps_op_others [OF reach_inv [OF assms(1)] assms(2)] assms(3) by simp

end
