(* ===== verification/AppsProvider.thy ===== *)
theory AppsProvider
  imports AppsProps
begin

text \<open>
  What the app-install store relies on at its two ports, the provider OAuth port and the
  credential store, as a locale; and, under that contract, that an install which waits for the
  external authorization can always be carried through.
\<close>

section \<open>The contract\<close>

definition complete_input :: "oauth_exchange_input \<Rightarrow> bool" where
  "complete_input input \<longleftrightarrow> 0 < oi_user input \<and> \<not> blank (oi_intent input) \<and> \<not> blank (oi_app input) \<and>
     \<not> blank (oi_provider input) \<and> \<not> blank (oi_state_ref input) \<and> \<not> blank (oi_preflight input) \<and>
     \<not> blank (oi_code input)"

definition complete_secret :: "credential_secret \<Rightarrow> bool" where
  "complete_secret k \<longleftrightarrow> 0 < ks_user k \<and> \<not> blank (ks_app k) \<and> \<not> blank (ks_category k) \<and>
     \<not> blank (ks_provider k) \<and> \<not> blank (ks_account_ref k) \<and> \<not> blank (ks_account_label k) \<and>
     ks_scopes k \<noteq> [] \<and> \<not> blank (tp_access (ks_token k)) \<and> \<not> blank (tp_refresh (ks_token k))"

locale oauth_provider =
  fixes port :: "oauth_exchange_input \<Rightarrow> ('r, oauth_exchange_result) repo_call"
    and store :: "credential_secret \<Rightarrow> ('r, credential_receipt) repo_call"
    and ready :: "'r \<Rightarrow> bool"
  assumes port_answers: "ready env \<Longrightarrow> complete_input input \<Longrightarrow>
      \<exists>r env'. port input env = (Inr r, env') \<and> ready env' \<and> validate_oauth_result r = None"
    and store_answers: "ready env \<Longrightarrow> complete_secret k \<Longrightarrow>
      \<exists>rc env'. store k env = (Inr rc, env') \<and> ready env' \<and> \<not> blank (kr_ref rc) \<and>
        \<not> blank (kr_status rc) \<and> kr_account_ref rc = ks_account_ref k \<and>
        kr_account_label rc = ks_account_label k \<and> kr_scopes rc = ks_scopes k"

section \<open>Operations that go through\<close>

lemma in_catalog_app:
  assumes "in_catalog slug"
  shows "\<exists>app. find (\<lambda>app. am_slug app = slug) fixture_app_catalog = Some app \<and>
    \<not> blank slug \<and> \<not> blank (am_provider app) \<and> \<not> blank (am_category app)"
proof -
  from assms obtain app where app: "find (\<lambda>app. am_slug app = slug) fixture_app_catalog = Some app"
    by (auto simp: in_catalog_def)
  have "list_all (\<lambda>app. \<not> blank (am_slug app) \<and> \<not> blank (am_provider app) \<and> \<not> blank (am_category app))
    fixture_app_catalog" by code_simp
  with find_Some_in [OF app] app show ?thesis by (auto simp: list_all_iff)
qed

text \<open>A loaded store of the app's, with the records it had.\<close>

lemma loaded_store:
  assumes "apps_inv s" "gm_get (st_intents s) ref = Some i"
  shows "\<exists>t app. ensure_apps_loaded s = (Inr (), t) \<and> same_records s t \<and> st_repo t = None \<and>
    st_env t = st_env s \<and> find_app (ii_app i) t = Some app \<and> \<not> blank (ii_app i) \<and> \<not> blank (am_provider app) \<and>
    \<not> blank (am_category app)"
proof -
  have m: "st_repo s = None" "catalog_ok s" using assms(1) by (simp_all add: apps_inv_def)
  obtain t where t: "ensure_apps_loaded s = (Inr (), t)" "same_records s t"
    using ensure_apps_loaded_memory [OF m(1)] by blast
  have env: "st_env t = st_env s"
    using t(1) m(1) by (auto simp: ensure_apps_loaded_def set_catalog_def apps_update_def split: if_splits)
  have "in_catalog (ii_app i)" using inv_intent [OF assms] by simp
  from in_catalog_app [OF this] t env loaded_catalog [OF t(1) m] m(1) show ?thesis
    by (auto simp: find_app_def same_records_def)
qed

lemmas go_on = and_then_def check_def demand_def return_ok_def reading_def apps_update_def
  load_intent_def find_install_intent_def load_app_def intent_ready_def Let_def

lemma descriptor_goes_on:
  assumes "apps_inv s" "gm_get (st_intents s) ref = Some i" "ii_user i = user"
    "ii_status i = st_requires_auth" "\<not> blank ref"
  shows "\<exists>d t. read_auth_descriptor user ref now e s = (Inr d, t) \<and> st_env t = st_env s"
proof -
  have "0 < user" using inv_intent [OF assms(1,2)] assms(3) by simp
  with loaded_store [OF assms(1,2)] assms(2-5) show ?thesis
    by (auto simp: read_auth_descriptor_def create_auth_session_def go_on same_records_def owned_intent_def)
qed

lemma preflight_goes_on:
  assumes "apps_inv s" "gm_get (st_intents s) ref = Some i" "ii_user i = user"
    "ii_status i = st_requires_auth" "\<not> blank ref"
    and "gm_get (st_sessions s) st = Some x" "xs_user x = user" "xs_intent x = ref"
    and "parse_wire (xs_expires_at x) = Some expires" "after expires now"
    and "trim_space st = st" "st \<noteq> []" "gm_get (st_preflights s) st = None"
  shows "\<exists>p t. preflight_callback user ref \<lparr>pr_state_ref = st, pr_callback_status = cb_authorized\<rparr> now e s =
    (Inr p, t) \<and> st_env t = st_env s"
proof -
  have "0 < user" using inv_intent [OF assms(1,2)] assms(3) by simp
  with loaded_store [OF assms(1,2)] assms(2-) show ?thesis
    by (auto simp: preflight_callback_def go_on same_records_def owned_intent_def owned_session_def
        is_valid_callback_status_def)
qed

lemma find_exists: "x \<in> set xs \<Longrightarrow> P x \<Longrightarrow> \<exists>y. find P xs = Some y"
  by (cases "find P xs") (auto simp: find_None_iff)

lemma complete_goes_on:
  assumes "apps_inv s" "gm_get (st_intents s) ref = Some i" "ii_user i = user"
    "ii_status i = st_requires_auth" "\<not> blank ref"
    and "x \<in> set (gm_values (st_exchanges s))" "px_user x = user" "px_intent x = ref"
    and "trim_space (px_ref x) = px_ref x" "px_ref x \<noteq> []" "gm_get (st_completions s) (px_ref x) = None"
  shows "\<exists>c t. complete_install user ref (px_ref x) now e s = (Inr c, t)"
proof -
  have "0 < user" using inv_intent [OF assms(1,2)] assms(3) by simp
  moreover obtain y where "find (\<lambda>y. px_user y = user \<and> px_intent y = ref \<and> px_ref y = px_ref x)
      (gm_values (st_exchanges s)) = Some y" 
    using find_exists [OF assms(6), of "\<lambda>y. px_user y = user \<and> px_intent y = ref \<and> px_ref y = px_ref x"]
      assms(7,8) by blast
  ultimately show ?thesis using loaded_store [OF assms(1,2)] assms(2-)
    by (auto simp: complete_install_def find_exchange_def go_on same_records_def owned_intent_def)
qed

lemma activate_goes_on:
  assumes "apps_inv s" "gm_get (st_intents s) ref = Some i" "ii_user i = user"
    "ii_status i = st_installed" "\<not> blank ref"
    and "c \<in> set (gm_values (st_completions s))" "ic_user c = user" "ic_intent c = ref"
    and "trim_space (ic_ref c) = ic_ref c" "ic_ref c \<noteq> []" "gm_get (st_installations s) (ic_ref c) = None"
    and "\<forall>a \<in> set (gm_values (st_installations s)). \<not> (ai_user a = user \<and> ai_intent a = ref)"
  shows "\<exists>a t. activate_installation user ref (ic_ref c) now e s = (Inr a, t)"
proof -
  have u: "0 < user" using inv_intent [OF assms(1,2)] assms(3) by simp
  obtain d where d: "find (\<lambda>d. ic_user d = user \<and> ic_intent d = ref \<and> ic_ref d = ic_ref c)
      (gm_values (st_completions s)) = Some d" 
    using find_exists [OF assms(6), of "\<lambda>d. ic_user d = user \<and> ic_intent d = ref \<and> ic_ref d = ic_ref c"]
      assms(7,8) by blast
  then obtain k where "(k, d) \<in> set (st_completions s)" "ic_intent d = ref"
    using find_Some_in [OF d] by auto
  with inv_member(5) [OF assms(1)] assms(2,4) have "ic_status d = st_installed"
    by (fastforce simp: completion_linked_def)
  with u d loaded_store [OF assms(1,2)] assms(2-) show ?thesis
    by (auto simp: activate_installation_def find_completion_def go_on same_records_def owned_intent_def
        list_ex_iff)
qed

section \<open>Generated references are trimmed\<close>

lemma visible_trim: "list_all visible s \<Longrightarrow> trim_space s = s"
  by (cases "s = []") (simp_all add: trim_space_visible list_all_iff)

lemma visible_hex: "n < 16 \<Longrightarrow> visible (hex_digit n)"
  by (simp add: visible_def hex_digit_def of_char_of)

lemma visible_hex_encode: "list_all visible (hex_encode bs)"
proof (induction bs)
  case (Cons b bs)
  have "unat b < 256" using unsigned_less [of b] by simp
  then have "list_all visible (hex_byte b)"
    by (simp add: hex_byte_def visible_hex less_mult_imp_div_less)
  with Cons show ?case by (simp add: hex_encode_def)
qed (simp add: hex_encode_def)

lemma visible_digit: "0 \<le> n \<Longrightarrow> n < 10 \<Longrightarrow> visible (digit n)"
  by (simp add: visible_def Let_def)

lemma visible_show_nat: "list_all visible (show_nat n)"
  by (induction n rule: show_nat.induct) (subst show_nat.simps, simp add: visible_digit)

lemma visible_random_ref:
  assumes "list_all visible prefix"
  shows "list_all visible (random_ref prefix e)"
proof -
  have "visible CHR ''-''" by code_simp
  then show ?thesis
    using assms visible_hex_encode visible_show_nat
    by (simp add: random_ref_def show_int_def split: entropy.split)
qed

lemma refs_trimmed [simp]:
  "trim_space (new_handoff_state_ref e) = new_handoff_state_ref e"
  "trim_space (new_callback_preflight_ref e) = new_callback_preflight_ref e"
  "trim_space (new_provider_exchange_ref e) = new_provider_exchange_ref e"
  "trim_space (new_install_completion_ref e) = new_install_completion_ref e"
  unfolding new_handoff_state_ref_def new_callback_preflight_ref_def new_provider_exchange_ref_def
    new_install_completion_ref_def
  by (rule visible_trim, rule visible_random_ref, code_simp)+

lemma refs_nonempty [simp]:
  "new_handoff_state_ref e \<noteq> []" "new_callback_preflight_ref e \<noteq> []"
  "new_provider_exchange_ref e \<noteq> []" "new_install_completion_ref e \<noteq> []"
  by (simp_all add: new_handoff_state_ref_def new_callback_preflight_ref_def
      new_provider_exchange_ref_def new_install_completion_ref_def)

section \<open>With ports that keep the contract\<close>

context oauth_provider
begin

lemma exchange_goes_on:
  assumes "apps_inv s" "gm_get (st_intents s) ref = Some i" "ii_user i = user"
    "ii_status i = st_requires_auth" "\<not> blank ref"
    and "gm_get (st_preflights s) st = Some p" "cp_user p = user" "cp_intent p = ref"
    "cp_callback_status p = cb_authorized" "gm_get (st_exchanges s) (cp_ref p) = None"
    and "trim_space st = st" "st \<noteq> []" "trim_space (cp_ref p) = cp_ref p" "cp_ref p \<noteq> []"
    and "\<not> blank code"
    and "st_oauth_port s = Some port" "st_credentials s = Some store" "ready (st_env s)"
  shows "\<exists>x rc t. exchange_provider_oauth user ref
    \<lparr>oe_state_ref = st, oe_preflight = cp_ref p, oe_code = code, oe_redirect_uri = uri\<rparr> now e s =
    (Inr (x, rc), t) \<and> ready (st_env t)"
proof -
  obtain t app where t: "ensure_apps_loaded s = (Inr (), t)" "same_records s t" "st_repo t = None"
      "st_env t = st_env s"
    and app: "find_app (ii_app i) t = Some app" "\<not> blank (ii_app i)" "\<not> blank (am_provider app)"
      "\<not> blank (am_category app)"
    using loaded_store [OF assms(1,2)] by blast
  have i: "0 < user" "ii_ref i = ref" using inv_intent [OF assms(1,2)] assms(3) by simp_all
  have p: "cp_state_ref p = st"
    using inv_member(3) [OF assms(1) map_of_SomeD [OF assms(6)]] by (simp add: preflight_linked_def)
  have ready: "ready (st_env t)" using assms(18) t(4) by simp
  let ?code = "trim_space code"
  let ?in = "\<lparr>oi_user = ii_user i, oi_intent = ii_ref i, oi_app = ii_app i,
    oi_provider = am_provider app, oi_state_ref = cp_state_ref p, oi_preflight = cp_ref p,
    oi_code = ?code, oi_redirect_uri = trim_space uri, oi_scopes = am_capabilities app\<rparr>"
  have "complete_input ?in" using i p app assms(3,5,11-15) by (simp add: complete_input_def)
  from port_answers [OF ready this] obtain r env1 where
    r: "port ?in (st_env t) = (Inr r, env1)" "ready env1" "validate_oauth_result r = None" by blast
  let ?k = "\<lparr>ks_user = ii_user i, ks_app = ii_app i, ks_category = am_category app,
    ks_provider = am_provider app, ks_account_ref = or_account_ref r,
    ks_account_label = or_account_label r, ks_scopes = or_scopes r, ks_token = or_token r\<rparr>"
  have "complete_secret ?k"
    using i(1) app assms(3) r(3) by (simp add: complete_secret_def validate_oauth_result_def split: if_splits)
  from store_answers [OF r(2) this] obtain rc env2 where
    rc: "store ?k env1 = (Inr rc, env2)" "ready env2" "validate_receipt rc r = None"
    using r(3) by (auto simp: validate_receipt_def validate_oauth_result_def split: if_splits)
  have rec: "has_exchange_by_preflight (ii_user i) (ii_ref i) (cp_ref p) t = (Inr False, t)"
  proof -
    have "\<not> (px_user y = ii_user i \<and> px_intent y = ii_ref i \<and> px_preflight y = cp_ref p)"
      if y: "(k, y) \<in> set (st_exchanges s)" for k y
      using inv_member(4) [OF assms(1) y] assms(10) by (auto simp: exchange_linked_def)
    then show ?thesis
      using t by (auto simp: has_exchange_by_preflight_def same_records_def list_ex_iff)
  qed
  obtain q where q: "find_preflight user ref st (cp_ref p) t = Some q"
    using find_exists [OF in_values [OF assms(6)], of "\<lambda>q. cp_user q = user \<and> cp_intent q = ref \<and>
      cp_state_ref q = st \<and> cp_ref q = cp_ref p"] assms(7,8) p t(2)
    by (auto simp: find_preflight_def same_records_def)
  from find_preflight_ok [OF q] obtain k where "(k, q) \<in> set (st_preflights s)" "cp_state_ref q = st"
    using t(2) by (auto simp: same_records_def)
  with inv_member(3) [OF assms(1)] assms(6) have "q = p" by (force simp: preflight_linked_def)
  with q have fp: "find_preflight user ref st (cp_ref p) t = Some p" by simp
  have locked: "\<exists>x u. exchange_oauth_locked i app p ?code (trim_space uri) now e port store t = (Inr (x, rc), u) \<and>
      ready (st_env u)"
    using r rc rec t(3) assms(15)
    by (auto simp: exchange_oauth_locked_def go_on env_call_def require_none_def)
  show ?thesis
    using t fp app i locked assms(2-5,9,11-17)
    by (auto simp: exchange_provider_oauth_def go_on with_ports_def read_preflight_def same_records_def
        owned_intent_def)
qed

end

section \<open>From the handoff to the callback\<close>

lemma ports_kept:
  assumes "same_records s t"
  shows "st_oauth_port t = st_oauth_port s" "st_credentials t = st_credentials s"
  using assms by (simp_all add: same_records_def)

lemma no_exchange_of_new_preflight:
  assumes "apps_inv s" "\<And>k q. gm_get (st_preflights s) k = Some q \<Longrightarrow> cp_ref q \<noteq> pref"
  shows "gm_get (st_exchanges s) pref = None"
proof (cases "gm_get (st_exchanges s) pref")
  case (Some y)
  then show ?thesis
    using inv_member(4) [OF assms(1) map_of_SomeD [OF Some]] assms(2) by (auto simp: exchange_linked_def)
qed simp

text \<open>The descriptor and the callback of an install that waits, with new references and in time.\<close>

lemma callback_goes_through:
  assumes inv: "apps_inv s" and i: "gm_get (st_intents s) ref = Some i" "ii_user i = user"
    "ii_status i = st_requires_auth" "\<not> blank ref"
    and time: "four_digit_year (inst t1 + 10 * minute)" "inst t2 < floor_ms (inst t1 + 10 * minute)"
    and fresh: "gm_get (st_sessions s) (new_handoff_state_ref e1) = None"
      "new_callback_preflight_ref e2 \<notin> cp_ref ` set (gm_values (st_preflights s))"
  shows "\<exists>d s1 p s2. read_auth_descriptor user ref t1 e1 s = (Inr d, s1) \<and>
    ad_state_ref d = new_handoff_state_ref e1 \<and>
    preflight_callback user ref \<lparr>pr_state_ref = ad_state_ref d, pr_callback_status = cb_authorized\<rparr> t2 e2 s1 =
      (Inr p, s2) \<and> apps_inv s2 \<and> st_env s2 = st_env s \<and>
    gm_get (st_preflights s2) (ad_state_ref d) = Some p \<and> cp_ref p = new_callback_preflight_ref e2 \<and>
    cp_user p = user \<and> cp_intent p = ref \<and> cp_callback_status p = cb_authorized \<and>
    gm_get (st_exchanges s2) (cp_ref p) = None \<and> st_intents s2 = st_intents s \<and>
    st_exchanges s2 = st_exchanges s \<and> st_completions s2 = st_completions s \<and>
    st_installations s2 = st_installations s \<and> st_oauth_port s2 = st_oauth_port s \<and>
    st_credentials s2 = st_credentials s"
proof -
  have m: "st_repo s = None" using inv by (simp add: apps_inv_def)
  have refi: "ii_ref i = ref" using inv_intent [OF inv i(1)] by simp
  have newp: "cp_ref q \<noteq> new_callback_preflight_ref e2" if "gm_get (st_preflights s) k = Some q" for k q
    using fresh(2) imageI [OF in_values [OF that], of cp_ref] by (auto simp del: set_map)
  let ?st = "new_handoff_state_ref e1"
  obtain d s1 where d: "read_auth_descriptor user ref t1 e1 s = (Inr d, s1)" "st_env s1 = st_env s"
    using descriptor_goes_on [OF inv i] by blast
  have inv1: "apps_inv s1" using descriptor_inv [OF inv d(1) fresh(1)] by simp
  then have m1: "st_repo s1 = None" by (simp add: apps_inv_def)
  have none1: "gm_get (st_preflights s) ?st = None"
  proof (cases "gm_get (st_preflights s) ?st")
    case (Some q)
    then show ?thesis
      using inv_member(3) [OF inv map_of_SomeD [OF Some]] fresh(1) by (auto simp: preflight_linked_def)
  qed simp
  from descriptor_ok [OF d(1) m] i(1) obtain h t where
    h: "xs_ref h = ?st" "xs_intent h = ref" "xs_user h = user"
      "xs_expires_at h = wire_format (add_ns t1 (10 * minute))"
    and s1: "same_records s t" "s1 = t\<lparr>st_sessions := gm_put ?st h (st_sessions s)\<rparr>" "ad_state_ref d = ?st"
    using i(2) refi by force
  have recs1: "st_intents s1 = st_intents s" "st_preflights s1 = st_preflights s"
    "gm_get (st_sessions s1) ?st = Some h" "st_exchanges s1 = st_exchanges s"
    "st_completions s1 = st_completions s" "st_installations s1 = st_installations s"
    "st_oauth_port s1 = st_oauth_port s" "st_credentials s1 = st_credentials s"
    using s1(1) by (simp_all add: s1(2) same_records_def)
  have parse: "parse_wire (xs_expires_at h) = Some \<lparr>inst = floor_ms (inst t1 + 10 * minute), zone = 0\<rparr>"
    using parse_wire_format [of "add_ns t1 (10 * minute)"] time(1) h(4) by (simp add: add_ns_def)
  have after: "after \<lparr>inst = floor_ms (inst t1 + 10 * minute), zone = 0\<rparr> t2"
    using time(2) by (simp add: after_def)
  obtain p s2 where p: "preflight_callback user ref
      \<lparr>pr_state_ref = ?st, pr_callback_status = cb_authorized\<rparr> t2 e2 s1 = (Inr p, s2)" "st_env s2 = st_env s1"
    using preflight_goes_on [OF inv1 _ i(2-4) recs1(3) h(3,2) parse after refs_trimmed(1) refs_nonempty(1)]
      i(1) none1 recs1(1,2) by metis
  have fresh1: "cp_ref q \<noteq> new_callback_preflight_ref e2" if "gm_get (st_preflights s1) k = Some q" for k q
    using newp that recs1(2) by simp
  have inv2: "apps_inv s2" using preflight_inv [OF inv1 p(1) fresh1] by simp
  from preflight_ok [OF p(1) m1] obtain h2 t' where
    pf: "cp_ref p = new_callback_preflight_ref e2" "cp_user p = user" "cp_state_ref p = ?st"
      "cp_callback_status p = cb_authorized" "cp_intent p = ref"
    and s2: "same_records s1 t'" "s2 = t'\<lparr>st_sessions := gm_put ?st h2 (st_sessions s1),
        st_preflights := gm_put ?st p (st_preflights s1)\<rparr>"
    using i(1) refi recs1(1) by force
  have "gm_get (st_exchanges s2) (cp_ref p) = None"
    using no_exchange_of_new_preflight [OF inv newp] s2(1) pf(1) recs1(4)
    by (simp add: s2(2) same_records_def)
  with d p(2) inv2 pf s2(1) recs1 show ?thesis
    by (intro exI [of _ d] exI [of _ s1] exI [of _ p] exI [of _ s2])
      (simp add: s1(3) p(1) s2(2) same_records_def)
qed

section \<open>Through to the installation\<close>

lemma complete_exchange:
  assumes "complete_install user ref xref now e s = (Inr c, s')" "trim_space xref = xref" "st_repo s = None"
  shows "ic_exchange c = xref"
proof -
  obtain t where t: "ensure_apps_loaded s = (Inr (), t)" "same_records s t"
    using ensure_apps_loaded_memory [OF assms(3)] by blast
  with assms have "st_repo t = None" by (simp add: same_records_def)
  with assms(1,2) t(1) show ?thesis
    by (auto simp: complete_install_def op_defs new_install_completion_def split: option.splits
        dest!: find_exchange_ok)
qed

lemma no_installation_while_waiting:
  assumes "apps_inv s" "gm_get (st_intents s) ref = Some i" "ii_status i = st_requires_auth"
    and a: "a \<in> set (gm_values (st_installations s))"
  shows "\<not> (ai_user a = user \<and> ai_intent a = ref)"
proof
  assume "ai_user a = user \<and> ai_intent a = ref"
  moreover obtain k where "(k, a) \<in> set (st_installations s)" using a by auto
  ultimately obtain ck c where c: "gm_get (st_completions s) ck = Some c" "ic_intent c = ref"
    "ic_status c = st_installed"
    using inv_member(6) [OF assms(1), of k a] unfolding installation_linked_def by blast
  from inv_member(5) [OF assms(1) map_of_SomeD [OF c(1)]] have "ii_status i = st_installed"
    using c assms(2) by (auto simp: completion_linked_def)
  with assms(3) show False by simp
qed

lemma completion_goes_through:
  assumes inv: "apps_inv s" and i: "gm_get (st_intents s) ref = Some i" "ii_user i = user"
    "ii_status i = st_requires_auth" "\<not> blank ref"
    and x: "x \<in> set (gm_values (st_exchanges s))" "px_user x = user" "px_intent x = ref"
      "px_ref x = new_provider_exchange_ref e3" "px_status x = ex_ready"
    and only: "\<forall>y \<in> set (gm_values (st_exchanges s)). px_ref y = px_ref x \<longrightarrow> y = x"
    and fresh: "gm_get (st_completions s) (new_provider_exchange_ref e3) = None"
      "gm_get (st_installations s) (new_install_completion_ref e4) = None"
  shows "\<exists>c s1 a s2. complete_install user ref (px_ref x) t4 e4 s = (Inr c, s1) \<and>
    activate_installation user ref (ic_ref c) t5 e5 s1 = (Inr a, s2) \<and>
    ic_status c = st_installed \<and> ai_status a = ''active'' \<and> ai_user a = user \<and> ai_intent a = ref"
proof -
  have m: "st_repo s = None" using inv by (simp add: apps_inv_def)
  have refi: "ii_ref i = ref" using inv_intent [OF inv i(1)] by simp
  have none: "gm_get (st_completions s) (px_ref x) = None" using fresh(1) x(4) by simp
  have trim: "trim_space (px_ref x) = px_ref x" "px_ref x \<noteq> []" by (simp_all add: x(4))
  obtain c s1 where c: "complete_install user ref (px_ref x) t4 e4 s = (Inr c, s1)"
    using complete_goes_on [OF inv i x(1-3) trim none] by blast
  have inv1: "apps_inv s1" using complete_inv [OF inv c] by simp
  then have m1: "st_repo s1 = None" by (simp add: apps_inv_def)
  from complete_ok [OF c m] obtain y k t where
    y: "(k, y) \<in> set (st_exchanges s)" "px_ref y = ic_exchange c"
    and cf: "ic_ref c = new_install_completion_ref e4" "ic_user c = user" "ic_intent c = ref"
      "ic_status c = (if px_status y = ex_blocked then st_blocked else st_installed)"
    and s1: "same_records s t" "s1 = t\<lparr>st_completions := gm_put (px_ref y) c (st_completions s),
           st_intents := gm_put ref (i\<lparr>ii_status := ic_status c, ii_updated_at := ic_completed_at c\<rparr>)
             (st_intents s)\<rparr>"
    and found: "ic_exchange c = px_ref x"
    using i(1) refi complete_exchange [OF c trim(1) m] by force
  have "y = x" using only y found by force
  then have st: "ic_status c = st_installed" using cf(4) x(5) by simp
  let ?i = "i\<lparr>ii_status := ic_status c, ii_updated_at := ic_completed_at c\<rparr>"
  have i1: "gm_get (st_intents s1) ref = Some ?i" "ii_user ?i = user" "ii_status ?i = st_installed"
    using i st by (simp_all add: s1(2))
  have c1: "c \<in> set (gm_values (st_completions s1))"
    by (rule in_values [of _ "px_ref y"]) (simp add: s1(2))
  have inst: "st_installations s1 = st_installations s" using s1(1) by (simp add: s1(2) same_records_def)
  have free: "gm_get (st_installations s1) (ic_ref c) = None" using fresh(2) inst cf(1) by simp
  have alone: "\<forall>a \<in> set (gm_values (st_installations s1)). \<not> (ai_user a = user \<and> ai_intent a = ref)"
    using no_installation_while_waiting [OF inv i(1,3)] inst by simp
  have trim': "trim_space (ic_ref c) = ic_ref c" "ic_ref c \<noteq> []" by (simp_all add: cf(1))
  obtain a s2 where a: "activate_installation user ref (ic_ref c) t5 e5 s1 = (Inr a, s2)"
    using activate_goes_on [OF inv1 i1 i(4) c1 cf(2,3) trim' free alone] by blast
  from activate_ok [OF a m1] have "ai_status a = ''active''" "ai_user a = user" "ai_intent a = ref"
    using i1(1) refi by force+
  with c a st show ?thesis by blast
qed

lemma gm_put_values: "y \<in> set (gm_values (gm_put k x m)) \<Longrightarrow> y = x \<or> y \<in> set (gm_values m)"
  by (induction m) (auto split: if_splits)

text \<open>
  The references drawn on the way are new, the session does not expire before the callback, and
  its year prints in four digits.
\<close>

definition fresh_install ::
    "gotime \<Rightarrow> gotime \<Rightarrow> entropy \<Rightarrow> entropy \<Rightarrow> entropy \<Rightarrow> entropy \<Rightarrow> 'r apps_store \<Rightarrow> bool" where
  "fresh_install t1 t2 e1 e2 e3 e4 s \<longleftrightarrow>
     four_digit_year (inst t1 + 10 * minute) \<and> inst t2 < floor_ms (inst t1 + 10 * minute) \<and>
     gm_get (st_sessions s) (new_handoff_state_ref e1) = None \<and>
     new_callback_preflight_ref e2 \<notin> cp_ref ` set (gm_values (st_preflights s)) \<and>
     new_provider_exchange_ref e3 \<notin> px_ref ` set (gm_values (st_exchanges s)) \<and>
     gm_get (st_completions s) (new_provider_exchange_ref e3) = None \<and>
     gm_get (st_installations s) (new_install_completion_ref e4) = None"

context oauth_provider
begin

lemma install_goes_through:
  assumes inv: "apps_inv s" and i: "gm_get (st_intents s) ref = Some i" "ii_user i = user"
    "ii_status i = st_requires_auth" "\<not> blank ref" and code: "\<not> blank code"
    and ports: "st_oauth_port s = Some port" "st_credentials s = Some store" "ready (st_env s)"
    and fresh: "fresh_install t1 t2 e1 e2 e3 e4 s"
  shows "\<exists>d s1 p s2 x rc s3 c s4 a s5.
    read_auth_descriptor user ref t1 e1 s = (Inr d, s1) \<and>
    preflight_callback user ref \<lparr>pr_state_ref = ad_state_ref d, pr_callback_status = cb_authorized\<rparr> t2 e2 s1 =
      (Inr p, s2) \<and>
    exchange_provider_oauth user ref \<lparr>oe_state_ref = ad_state_ref d, oe_preflight = cp_ref p,
      oe_code = code, oe_redirect_uri = uri\<rparr> t3 e3 s2 = (Inr (x, rc), s3) \<and>
    complete_install user ref (px_ref x) t4 e4 s3 = (Inr c, s4) \<and>
    activate_installation user ref (ic_ref c) t5 e5 s4 = (Inr a, s5) \<and>
    ic_status c = st_installed \<and> ai_status a = ''active'' \<and> ai_user a = user \<and> ai_intent a = ref"
proof -
  have refi: "ii_ref i = ref" using inv_intent [OF inv i(1)] by simp
  have time: "four_digit_year (inst t1 + 10 * minute)" "inst t2 < floor_ms (inst t1 + 10 * minute)"
    and new: "gm_get (st_sessions s) (new_handoff_state_ref e1) = None"
      "gm_get (st_completions s) (new_provider_exchange_ref e3) = None"
      "gm_get (st_installations s) (new_install_completion_ref e4) = None"
      "\<And>y. y \<in> set (gm_values (st_exchanges s)) \<Longrightarrow> px_ref y \<noteq> new_provider_exchange_ref e3"
    using fresh by (simp_all add: fresh_install_def image_iff del: set_map) metis
  have newp: "new_callback_preflight_ref e2 \<notin> cp_ref ` set (gm_values (st_preflights s))"
    using fresh by (simp add: fresh_install_def del: set_map)
  from callback_goes_through [OF inv i time new(1) newp] obtain d s1 p s2 where
    d: "read_auth_descriptor user ref t1 e1 s = (Inr d, s1)" "ad_state_ref d = new_handoff_state_ref e1"
    and p: "preflight_callback user ref
      \<lparr>pr_state_ref = ad_state_ref d, pr_callback_status = cb_authorized\<rparr> t2 e2 s1 = (Inr p, s2)"
    and inv2: "apps_inv s2" and env: "st_env s2 = st_env s"
    and pf: "gm_get (st_preflights s2) (ad_state_ref d) = Some p" "cp_ref p = new_callback_preflight_ref e2"
      "cp_user p = user" "cp_intent p = ref" "cp_callback_status p = cb_authorized"
    and none: "gm_get (st_exchanges s2) (cp_ref p) = None"
    and same: "st_intents s2 = st_intents s" "st_exchanges s2 = st_exchanges s"
      "st_completions s2 = st_completions s" "st_installations s2 = st_installations s"
      "st_oauth_port s2 = st_oauth_port s" "st_credentials s2 = st_credentials s" by blast
  have m2: "st_repo s2 = None" using inv2 by (simp add: apps_inv_def)
  have i2: "gm_get (st_intents s2) ref = Some i" using i(1) same(1) by simp
  have refs: "trim_space (ad_state_ref d) = ad_state_ref d" "ad_state_ref d \<noteq> []"
    "trim_space (cp_ref p) = cp_ref p" "cp_ref p \<noteq> []" by (simp_all add: d(2) pf(2))
  have ports2: "st_oauth_port s2 = Some port" "st_credentials s2 = Some store" "ready (st_env s2)"
    using ports same(5,6) env by simp_all
  obtain x rc s3 where x: "exchange_provider_oauth user ref \<lparr>oe_state_ref = ad_state_ref d,
      oe_preflight = cp_ref p, oe_code = code, oe_redirect_uri = uri\<rparr> t3 e3 s2 = (Inr (x, rc), s3)"
    using exchange_goes_on [OF inv2 i2 i(2-4) pf(1,3,4,5) none refs code ports2] by blast
  have inv3: "apps_inv s3" using exchange_oauth_inv [OF inv2 x] by simp
  from exchange_oauth_ok [OF x m2] obtain i' app q k t cd u prt str where
    q: "gm_get (st_intents s2) ref = Some i'" "same_records s2 t"
      "exchange_oauth_locked i' app q cd u t3 e3 prt str t = (Inr (x, rc), s3)" by blast
  have "i' = i" using q(1) i2 by simp
  moreover have mt: "st_repo t = None" using q(2) m2 by (simp add: same_records_def)
  ultimately obtain u where xf: "px_ref x = new_provider_exchange_ref e3" "px_user x = user"
      "px_intent x = ref" "px_status x = ex_ready"
    and s3: "same_records t u" "s3 = u\<lparr>st_exchanges := gm_put (cp_ref q) x (st_exchanges t)\<rparr>"
    using oauth_locked_ok [OF q(3) mt] i(2) refi by blast
  have recs: "st_intents s3 = st_intents s" "st_completions s3 = st_completions s"
    "st_installations s3 = st_installations s" "st_exchanges s3 = gm_put (cp_ref q) x (st_exchanges s)"
    using s3 q(2) same by (simp_all add: same_records_def)
  have i3: "gm_get (st_intents s3) ref = Some i" using i(1) recs(1) by simp
  have x3: "x \<in> set (gm_values (st_exchanges s3))"
    by (rule in_values [of _ "cp_ref q"]) (simp add: recs(4))
  have only: "\<forall>y \<in> set (gm_values (st_exchanges s3)). px_ref y = px_ref x \<longrightarrow> y = x"
    using new(4) gm_put_values [of _ "cp_ref q" x "st_exchanges s"] xf(1) recs(4) by metis
  have new3: "gm_get (st_completions s3) (new_provider_exchange_ref e3) = None"
    "gm_get (st_installations s3) (new_install_completion_ref e4) = None"
    using new(2,3) recs(2,3) by simp_all
  obtain c s4 a s5 where "complete_install user ref (px_ref x) t4 e4 s3 = (Inr c, s4)"
    "activate_installation user ref (ic_ref c) t5 e5 s4 = (Inr a, s5)"
    "ic_status c = st_installed" "ai_status a = ''active''" "ai_user a = user" "ai_intent a = ref"
    using completion_goes_through [OF inv3 i3 i(2-4) x3 xf(2,3,1,4) only new3] by blast
  with d(1) p x show ?thesis by (intro exI conjI)
qed

end

end
