(* ===== verification/AppsClient.thy ===== *)
theory AppsClient
  imports AppsProps
begin

text \<open>
  What a client of the app-install store reads: the progress of an install agrees with the records
  and does not depend on the iteration order of the store's maps.
\<close>

section \<open>What a client reads\<close>

lemma latest_in:
  "latest_completion user ref m = Some c \<Longrightarrow> c \<in> set (gm_values m) \<and> ic_user c = user \<and> ic_intent c = ref"
  "latest_installation user ref n = Some a \<Longrightarrow> a \<in> set (gm_values n) \<and> ai_user a = user \<and> ai_intent a = ref"
  unfolding latest_completion_def latest_installation_def by (drule pick_best_in, force)+

lemma latest_installation_None:
  "latest_installation user ref m = None \<longleftrightarrow>
     (\<forall>a \<in> set (gm_values m). \<not> (ai_user a = user \<and> ai_intent a = ref))"
  by (simp add: latest_installation_def filter_empty_conv)

text \<open>Every stage keeps whose progress it is, and the last ones that apply set the next action.\<close>

lemma stage_fields [simp]:
  "pg_intent (progress_session h now p) = pg_intent p"
  "pg_intent (progress_preview v p) = pg_intent p"
  "pg_intent (progress_preflight f p) = pg_intent p"
  "pg_intent (progress_exchange x p) = pg_intent p"
  "pg_intent (progress_completion c i p) = pg_intent p"
  "pg_intent (progress_installation a p) = pg_intent p"
  "pg_user (progress_session h now p) = pg_user p"
  "pg_user (progress_preview v p) = pg_user p"
  "pg_user (progress_preflight f p) = pg_user p"
  "pg_user (progress_exchange x p) = pg_user p"
  "pg_user (progress_completion c i p) = pg_user p"
  "pg_user (progress_installation a p) = pg_user p"
  "pg_install_status (progress_session h now p) = pg_install_status p"
  "pg_install_status (progress_preview v p) = pg_install_status p"
  "pg_install_status (progress_preflight f p) = pg_install_status p"
  "pg_install_status (progress_exchange x p) = pg_install_status p"
  "pg_install_status (progress_completion c i p) = pg_install_status p"
  "pg_install_status (progress_installation a p) = pg_install_status p"
  by (simp_all add: progress_installation_def progress_completion_def progress_exchange_def
      progress_preflight_def progress_preview_def progress_session_def Let_def split: option.split)

lemma intent_stage [simp]:
  "pg_intent (progress_of_intent i app) = ii_ref i" "pg_user (progress_of_intent i app) = ii_user i"
  "pg_install_status (progress_of_intent i app) = ii_status i"
  by (simp_all add: progress_of_intent_def Let_def)

definition unfinished :: "app_install_progress \<Rightarrow> bool" where
  "unfinished p \<longleftrightarrow> pg_next_action p \<notin> {''none'', ''create_new_install_intent''} \<and>
     pg_status p \<noteq> ''active''"

lemma unfinished_intent:
  "ii_status i \<noteq> st_installed \<Longrightarrow> ii_status i \<noteq> st_blocked \<Longrightarrow> unfinished (progress_of_intent i app)"
  by (simp add: progress_of_intent_def Let_def unfinished_def)

lemma unfinished_stage:
  "unfinished p \<Longrightarrow> unfinished (progress_session h now p)"
  "unfinished p \<Longrightarrow> unfinished (progress_preview v p)"
  "unfinished p \<Longrightarrow> unfinished (progress_preflight f p)"
  "unfinished p \<Longrightarrow> unfinished (progress_exchange x p)"
  by (simp_all add: unfinished_def progress_exchange_def progress_preflight_def progress_preview_def
      progress_session_def Let_def split: option.split)

lemma completion_stage:
  "progress_completion None i p =
     (if ii_status i = st_installed then p\<lparr>pg_status := ''installed'', pg_next_action := ''none''\<rparr>
      else if ii_status i = st_blocked
      then p\<lparr>pg_status := ''blocked'', pg_next_action := ''create_new_install_intent''\<rparr> else p)"
  "pg_next_action (progress_completion (Some c) i p) =
     (if ic_status c = st_blocked then ''create_new_install_intent'' else ''none'')"
  "pg_status (progress_completion (Some c) i p) =
     (if ic_status c = st_blocked then ''blocked'' else ''installed'')"
  by (simp_all add: progress_completion_def Let_def)

lemma installation_stage:
  "progress_installation None p = p"
  "pg_next_action (progress_installation (Some a) p) = ''none''"
  "pg_status (progress_installation (Some a) p) = ''active''"
  by (simp_all add: progress_installation_def)

text \<open>Completion and installation, after stages that are unfinished unless the intent is final.\<close>

lemma progress_done:
  assumes "\<And>x. c = Some x \<Longrightarrow> ic_status x = ii_status i \<and> (ii_status i = st_installed \<or> ii_status i = st_blocked)"
    and "a \<noteq> None \<Longrightarrow> ii_status i = st_installed"
    and "ii_status i \<noteq> st_installed \<Longrightarrow> ii_status i \<noteq> st_blocked \<Longrightarrow> unfinished p"
    and q: "q = progress_installation a (progress_completion c i p)"
  shows "pg_next_action q = ''none'' \<longleftrightarrow> ii_status i = st_installed"
    and "pg_next_action q = ''create_new_install_intent'' \<longleftrightarrow> ii_status i = st_blocked"
    and "pg_status q = ''active'' \<longleftrightarrow> a \<noteq> None"
proof -
  have "(pg_next_action q = ''none'' \<longleftrightarrow> ii_status i = st_installed) \<and>
    (pg_next_action q = ''create_new_install_intent'' \<longleftrightarrow> ii_status i = st_blocked) \<and>
    (pg_status q = ''active'' \<longleftrightarrow> a \<noteq> None)"
  proof (cases a)
    case (Some b)
    with assms(2) have "ii_status i = st_installed" by blast
    then show ?thesis unfolding q Some by (simp add: installation_stage)
  next
    case None
    show ?thesis
    proof (cases c)
      case (Some x)
      with assms(1) consider "ic_status x = st_installed" "ii_status i = st_installed"
        | "ic_status x = st_blocked" "ii_status i = st_blocked" by metis
      then show ?thesis unfolding q None Some
        by cases (simp_all add: installation_stage completion_stage)
    next
      case c: None
      consider "ii_status i = st_installed" | "ii_status i = st_blocked"
        | "unfinished p" "ii_status i \<noteq> st_installed" "ii_status i \<noteq> st_blocked"
        using assms(3) by blast
      then show ?thesis unfolding q None c
        by cases (simp_all add: installation_stage completion_stage unfinished_def)
    qed
  qed
  then show "pg_next_action q = ''none'' \<longleftrightarrow> ii_status i = st_installed"
    and "pg_next_action q = ''create_new_install_intent'' \<longleftrightarrow> ii_status i = st_blocked"
    and "pg_status q = ''active'' \<longleftrightarrow> a \<noteq> None" by blast+
qed

text \<open>
  C26: the progress a client reads agrees with what is recorded: in every reachable store without
  a database it is the user's own intent's, nothing is left to do exactly when that intent is
  installed, a new intent is called for exactly when it is blocked, and it is shown active exactly
  when an app installation of the user for that intent is recorded.
\<close>
theorem progress_faithful:
  assumes "apps_reach s" and "read_install_progress user ref now s = (Inr p, t)"
  shows "\<exists>i. gm_get (st_intents s) ref = Some i \<and> ii_user i = user \<and> pg_intent p = ref \<and>
    pg_user p = user \<and> pg_install_status p = ii_status i \<and>
    (pg_next_action p = ''none'' \<longleftrightarrow> ii_status i = st_installed) \<and>
    (pg_next_action p = ''create_new_install_intent'' \<longleftrightarrow> ii_status i = st_blocked) \<and>
    (pg_status p = ''active'' \<longleftrightarrow>
      (\<exists>a \<in> set (gm_values (st_installations s)). ai_user a = user \<and> ai_intent a = ref))"
proof -
  note inv = reach_inv [OF assms(1)]
  then have m: "st_repo s = None" by (simp add: apps_inv_def)
  note member = inv_member [OF inv]
  obtain u where u: "ensure_apps_loaded s = (Inr (), u)" "same_records s u"
    using ensure_apps_loaded_memory [OF m] by blast
  with m have "st_repo u = None" by (simp add: same_records_def)
  with assms(2) u obtain i app where
    i: "gm_get (st_intents s) ref = Some i" "ii_user i = user"
    and p: "p = new_app_install_progress i app
          (latest_session user ref (st_sessions u)) (latest_preview user ref (st_previews u))
          (latest_preflight user ref (st_preflights u)) (latest_exchange user ref (st_exchanges u))
          (latest_completion user ref (st_completions s))
          (latest_installation user ref (st_installations s)) now"
    by (auto simp: read_install_progress_def op_defs owned_intent_iff same_records_def)
  have c: "ic_status c = ii_status i \<and> (ii_status i = st_installed \<or> ii_status i = st_blocked)"
    if "c \<in> set (gm_values (st_completions s))" "ic_intent c = ref" for c
    using that i(1) member(5) by (fastforce simp: completion_linked_def)
  have a: "ii_status i = st_installed"
    if "a \<in> set (gm_values (st_installations s))" "ai_intent a = ref" for a
  proof -
    from that(1) obtain k where "(k, a) \<in> set (st_installations s)" by auto
    from member(6) [OF this] that(2) obtain ck d where
      "gm_get (st_completions s) ck = Some d" "ic_intent d = ref" "ic_status d = st_installed"
      by (auto simp: installation_linked_def)
    with c [OF in_values] show ?thesis by metis
  qed
  have "ii_ref i = ref" using inv_intent [OF inv i(1)] by simp
  moreover have cc: "ic_status x = ii_status i \<and> (ii_status i = st_installed \<or> ii_status i = st_blocked)"
    if "latest_completion user ref (st_completions s) = Some x" for x
    using latest_in(1) [OF that] c by blast
  moreover have aa: "ii_status i = st_installed" if "latest_installation user ref (st_installations s) \<noteq> None"
    using that latest_in(2) a by blast
  moreover note progress_done [OF cc aa _ p [unfolded new_app_install_progress_def]]
  ultimately show ?thesis
    using i latest_installation_None [of user ref "st_installations s"] unfinished_stage unfinished_intent
    by (auto simp: p new_app_install_progress_def)
qed

lemma latest_perm:
  assumes "mset m' = mset m" "inj_on ref (set (gm_values m))"
  shows "pick_best (newer at ref) None (filter P (gm_values m')) =
    pick_best (newer at ref) None (filter P (gm_values m))"
proof (rule pick_best_perm [OF newer_key])
  show "set (filter P (gm_values m')) = set (filter P (gm_values m))"
    using mset_eq_setD [OF assms(1)] by simp
  then show "inj_on (\<lambda>x. (at x, ref x)) (set (filter P (gm_values m')))"
    using assms(2) by (auto simp: inj_on_def)
qed

text \<open>
  The progress does not depend on the order in which Go iterates over the store's maps: in a
  reachable store whose previews, exchanges and installations have distinct references, permuting
  the entries of the six maps gives the same answer.
\<close>
theorem progress_order_free:
  assumes "apps_reach s"
    and "inj_on pv_ref (set (gm_values (st_previews s)))" "inj_on px_ref (set (gm_values (st_exchanges s)))"
      "inj_on ic_ref (set (gm_values (st_completions s)))"
      "inj_on ai_ref (set (gm_values (st_installations s)))"
    and "mset X = mset (st_sessions s)" "mset V = mset (st_previews s)" "mset F = mset (st_preflights s)"
      "mset Y = mset (st_exchanges s)" "mset C = mset (st_completions s)" "mset A = mset (st_installations s)"
    and "s' = s\<lparr>st_sessions := X, st_previews := V, st_preflights := F, st_exchanges := Y,
      st_completions := C, st_installations := A\<rparr>"
  shows "fst (read_install_progress user ref now s') = fst (read_install_progress user ref now s)"
proof -
  note inv = reach_inv [OF assms(1)]
  have m: "st_repo s = None" and ok: "gm_ok (st_sessions s)" "gm_ok (st_preflights s)"
    and uniq: "unique_by cp_ref (st_preflights s)"
    using inv by (simp_all add: apps_inv_def each_def)
  have inj: "inj_on xs_ref (set (gm_values (st_sessions s)))"
    by (rule inj_onI) (rule unique_values [OF inv_unique(1) [OF inv] ok(1)])
  have inj': "inj_on cp_ref (set (gm_values (st_preflights s)))"
    by (rule inj_onI) (rule unique_values [OF uniq ok(2)])
  have latest: "latest_session user ref X = latest_session user ref (st_sessions s)"
    "latest_preview user ref V = latest_preview user ref (st_previews s)"
    "latest_preflight user ref F = latest_preflight user ref (st_preflights s)"
    "latest_exchange user ref Y = latest_exchange user ref (st_exchanges s)"
    "latest_completion user ref C = latest_completion user ref (st_completions s)"
    "latest_installation user ref A = latest_installation user ref (st_installations s)"
    unfolding latest_session_def latest_preview_def latest_preflight_def latest_exchange_def
      latest_completion_def latest_installation_def
    by (rule latest_perm; use assms(2-11) inj inj' in simp)+
  obtain u where u: "ensure_apps_loaded s = (Inr (), u)" "same_records s u"
    using ensure_apps_loaded_memory [OF m] by blast
  have eq: "st_repo u = None" "st_sessions u = st_sessions s" "st_previews u = st_previews s"
    "st_preflights u = st_preflights s" "st_exchanges u = st_exchanges s"
    "st_completions u = st_completions s" "st_installations u = st_installations s"
    using u(2) m by (simp_all add: same_records_def)
  let ?u = "u\<lparr>st_sessions := X, st_previews := V, st_preflights := F,
      st_exchanges := Y, st_completions := C, st_installations := A\<rparr>"
  have u': "ensure_apps_loaded s' = (Inr (), ?u)"
    using u(1) m assms(12)
    by (auto simp: ensure_apps_loaded_def set_catalog_def apps_update_def split: if_splits)
  have "owned_intent user ref ?u = owned_intent user ref u"
    and "\<And>slug. find_app slug ?u = find_app slug u"
    by (simp_all add: owned_intent_def find_app_def)
  then show ?thesis
    by (simp add: read_install_progress_def and_then_def check_def demand_def reading_def return_ok_def
        u(1) u' eq latest split: option.split)
qed

end
