(* ===== verification/AppsDemo.thy ===== *)
theory AppsDemo
  imports AppsClient
begin

text \<open>
  One concrete run of the in-memory app-install store, from the empty store to an active
  installation, at which the properties of reachable stores are witnessed.
\<close>

section \<open>A run\<close>

definition flow_time :: gotime where
  "flow_time = \<lparr>inst = 0, zone = 0\<rparr>"

definition flow_entropy :: entropy where
  "flow_entropy = RandBytes []"

abbreviation flow_intent_ref :: string where "flow_intent_ref \<equiv> ''app-intent-''"
abbreviation flow_state_ref :: string where "flow_state_ref \<equiv> ''handoff-state-''"
abbreviation flow_preflight_ref :: string where "flow_preflight_ref \<equiv> ''callback-preflight-''"
abbreviation flow_exchange_ref :: string where "flow_exchange_ref \<equiv> ''provider-exchange-''"
abbreviation flow_completion_ref :: string where "flow_completion_ref \<equiv> ''install-completion-''"

lemma flow_refs:
  "new_install_intent_ref flow_entropy = flow_intent_ref"
  "new_handoff_state_ref flow_entropy = flow_state_ref"
  "new_callback_preflight_ref flow_entropy = flow_preflight_ref"
  "new_provider_exchange_ref flow_entropy = flow_exchange_ref"
  "new_install_completion_ref flow_entropy = flow_completion_ref"
  "new_app_installation_ref flow_entropy = ''app-installation-''"
  by (simp_all add: new_install_intent_ref_def new_handoff_state_ref_def
      new_callback_preflight_ref_def new_provider_exchange_ref_def new_install_completion_ref_def
      new_app_installation_ref_def random_ref_def flow_entropy_def hex_encode_def)

lemma flow_trim:
  "trim_space flow_intent_ref = flow_intent_ref" "trim_space flow_state_ref = flow_state_ref"
  "trim_space flow_preflight_ref = flow_preflight_ref" "trim_space flow_exchange_ref = flow_exchange_ref"
  "trim_space flow_completion_ref = flow_completion_ref" "trim_space ''google-calendar'' = ''google-calendar''"
  by code_simp+

definition flow_app :: app_metadata where
  "flow_app = hd fixture_app_catalog"

lemma flow_find: "find (\<lambda>app. am_slug app = ''google-calendar'') fixture_app_catalog = Some flow_app"
  by (simp add: fixture_app_catalog_def flow_app_def)

lemma flow_expiry:
  "parse_wire (wire_format (add_ns flow_time 600000000000)) = Some \<lparr>inst = 600000000000, zone = 0\<rparr>"
proof -
  have "four_digit_year (inst (add_ns flow_time 600000000000))" by code_simp
  from parse_wire_format [OF this] show ?thesis
    by (simp add: add_ns_def flow_time_def floor_ms_def)
qed

definition flow_intent :: install_intent where
  "flow_intent = \<lparr>ii_ref = flow_intent_ref, ii_user = 123, ii_app = ''google-calendar'',
     ii_status = st_requires_auth, ii_created_at = wire_format flow_time,
     ii_updated_at = wire_format flow_time\<rparr>"

definition flow_session :: auth_session where
  "flow_session = \<lparr>xs_ref = flow_state_ref, xs_intent = flow_intent_ref, xs_user = 123,
     xs_expires_at = wire_format (add_ns flow_time (10 * minute)), xs_consumed_at = [],
     xs_created_at = wire_format flow_time, xs_updated_at = wire_format flow_time\<rparr>"

definition flow_preflight :: callback_preflight where
  "flow_preflight =
     new_callback_preflight flow_intent flow_app flow_state_ref cb_authorized flow_time flow_entropy"

definition flow_exchange :: provider_exchange where
  "flow_exchange = new_provider_exchange flow_intent flow_app flow_preflight flow_time flow_entropy"

definition flow_completion :: install_completion where
  "flow_completion = new_install_completion flow_intent flow_app flow_exchange flow_time flow_entropy"

definition flow_installed :: install_intent where
  "flow_installed = flow_intent\<lparr>ii_status := st_installed\<rparr>"

definition flow_installation :: app_installation where
  "flow_installation =
     new_app_installation flow_installed flow_app flow_completion flow_time flow_entropy"

lemmas flow_records = flow_intent_def flow_session_def flow_preflight_def flow_exchange_def
  flow_completion_def flow_installed_def flow_installation_def new_callback_preflight_def
  new_provider_exchange_def new_install_completion_def new_app_installation_def Let_def flow_refs

text \<open>The stores of the run.\<close>

definition flow_start :: "unit apps_store" where
  "flow_start = new_apps_store None None None ()"

definition flow_created :: "unit apps_store" where
  "flow_created = flow_start\<lparr>st_catalog := fixture_app_catalog, st_loaded := True,
     st_intents := [(flow_intent_ref, flow_intent\<lparr>ii_status := st_pending\<rparr>)]\<rparr>"

definition flow_marked :: "unit apps_store" where
  "flow_marked = flow_created\<lparr>st_intents := [(flow_intent_ref, flow_intent)]\<rparr>"

definition flow_described :: "unit apps_store" where
  "flow_described = flow_marked\<lparr>st_sessions := [(flow_state_ref, flow_session)]\<rparr>"

definition flow_stamped :: auth_session where
  "flow_stamped = flow_session\<lparr>xs_consumed_at := wire_format flow_time\<rparr>"

definition flow_called :: "unit apps_store" where
  "flow_called = flow_described\<lparr>st_sessions := [(flow_state_ref, flow_stamped)],
     st_preflights := [(flow_state_ref, flow_preflight)]\<rparr>"

definition flow_exchanged :: "unit apps_store" where
  "flow_exchanged = flow_called\<lparr>st_exchanges := [(flow_preflight_ref, flow_exchange)]\<rparr>"

definition flow_completed :: "unit apps_store" where
  "flow_completed = flow_exchanged\<lparr>st_completions := [(flow_exchange_ref, flow_completion)],
     st_intents := [(flow_intent_ref, flow_installed)]\<rparr>"

definition flow_active :: "unit apps_store" where
  "flow_active = flow_completed\<lparr>st_installations := [(flow_completion_ref, flow_installation)]\<rparr>"

lemmas flow_stores = flow_start_def flow_created_def flow_marked_def flow_described_def flow_called_def
  flow_exchanged_def flow_completed_def flow_active_def new_apps_store_def

lemmas flow_step = and_then_def check_def demand_def return_ok_def reading_def ensure_apps_loaded_def
  set_catalog_def apps_update_def find_app_def with_repo_def find_install_intent_def load_intent_def
  load_app_def intent_ready_def owned_intent_def owned_session_def outcome_def flow_trim flow_find

definition flow_ops :: "apps_op list" where
  "flow_ops =
     [OpMarkIntent 123 flow_intent_ref flow_time,
      OpReadDescriptor 123 flow_intent_ref flow_time flow_entropy,
      OpPreflight 123 flow_intent_ref \<lparr>pr_state_ref = flow_state_ref, pr_callback_status = cb_authorized\<rparr>
        flow_time flow_entropy,
      OpExchange 123 flow_intent_ref \<lparr>er_state_ref = flow_state_ref, er_preflight = flow_preflight_ref\<rparr>
        flow_time flow_entropy,
      OpComplete 123 flow_intent_ref flow_exchange_ref flow_time flow_entropy,
      OpActivate 123 flow_intent_ref flow_completion_ref flow_time flow_entropy]"

lemma flow_run:
  "run_apps_op (OpCreateIntent 123 ''google-calendar'' flow_time flow_entropy) flow_start = (None, flow_created)"
  "run_apps_op (OpMarkIntent 123 flow_intent_ref flow_time) flow_created = (None, flow_marked)"
  "run_apps_op (OpReadDescriptor 123 flow_intent_ref flow_time flow_entropy) flow_marked = (None, flow_described)"
  "run_apps_op (OpPreflight 123 flow_intent_ref
     \<lparr>pr_state_ref = flow_state_ref, pr_callback_status = cb_authorized\<rparr> flow_time flow_entropy)
     flow_described = (None, flow_called)"
  "run_apps_op (OpExchange 123 flow_intent_ref
     \<lparr>er_state_ref = flow_state_ref, er_preflight = flow_preflight_ref\<rparr> flow_time flow_entropy)
     flow_called = (None, flow_exchanged)"
  "run_apps_op (OpComplete 123 flow_intent_ref flow_exchange_ref flow_time flow_entropy)
     flow_exchanged = (None, flow_completed)"
  "run_apps_op (OpActivate 123 flow_intent_ref flow_completion_ref flow_time flow_entropy)
     flow_completed = (None, flow_active)"
proof -
  show "run_apps_op (OpCreateIntent 123 ''google-calendar'' flow_time flow_entropy) flow_start = (None, flow_created)"
    by (simp add: create_install_intent_def flow_step flow_stores flow_records)
  show "run_apps_op (OpMarkIntent 123 flow_intent_ref flow_time) flow_created = (None, flow_marked)"
    by (simp add: mark_intent_requires_auth_def flow_step flow_stores flow_records)
  show "run_apps_op (OpReadDescriptor 123 flow_intent_ref flow_time flow_entropy) flow_marked = (None, flow_described)"
    by (simp add: read_auth_descriptor_def create_auth_session_def flow_step flow_stores flow_records)
  show "run_apps_op (OpPreflight 123 flow_intent_ref
     \<lparr>pr_state_ref = flow_state_ref, pr_callback_status = cb_authorized\<rparr> flow_time flow_entropy)
     flow_described = (None, flow_called)"
    by (simp add: preflight_callback_def flow_step flow_stores flow_stamped_def flow_records flow_expiry
        is_valid_callback_status_def after_def flow_time_def [symmetric])
      (simp add: flow_time_def)
  show "run_apps_op (OpExchange 123 flow_intent_ref
     \<lparr>er_state_ref = flow_state_ref, er_preflight = flow_preflight_ref\<rparr> flow_time flow_entropy)
     flow_called = (None, flow_exchanged)"
    by (simp add: exchange_provider_def find_preflight_def flow_step flow_stores flow_records)
  show "run_apps_op (OpComplete 123 flow_intent_ref flow_exchange_ref flow_time flow_entropy)
     flow_exchanged = (None, flow_completed)"
    by (simp add: complete_install_def find_exchange_def flow_step flow_stores flow_records)
  show "run_apps_op (OpActivate 123 flow_intent_ref flow_completion_ref flow_time flow_entropy)
     flow_completed = (None, flow_active)"
    by (simp add: activate_installation_def find_completion_def flow_step flow_stores flow_records)
qed

lemma flow_reach:
  "apps_reach flow_start" "apps_reach flow_created" "apps_reach flow_marked" "apps_reach flow_described"
  "apps_reach flow_called" "apps_reach flow_exchanged" "apps_reach flow_completed" "apps_reach flow_active"
proof -
  show start: "apps_reach flow_start" unfolding flow_start_def by (rule apps_reach.start)
  show created: "apps_reach flow_created"
    by (rule apps_reach.step [OF start _ flow_run(1)]) (simp add: flow_stores)
  show marked: "apps_reach flow_marked"
    by (rule apps_reach.step [OF created _ flow_run(2)]) simp
  show described: "apps_reach flow_described"
    by (rule apps_reach.step [OF marked _ flow_run(3)]) (simp add: flow_stores)
  show called: "apps_reach flow_called"
    by (rule apps_reach.step [OF described _ flow_run(4)]) (simp add: flow_stores)
  show exchanged: "apps_reach flow_exchanged"
    by (rule apps_reach.step [OF called _ flow_run(5)]) simp
  show completed: "apps_reach flow_completed"
    by (rule apps_reach.step [OF exchanged _ flow_run(6)]) simp
  show "apps_reach flow_active"
    by (rule apps_reach.step [OF completed _ flow_run(7)]) simp
qed

lemma flow_fresh: "fresh_run flow_ops flow_created"
  unfolding flow_ops_def fresh_run.simps flow_run(2-7) snd_conv
  by (simp add: flow_stores)

lemma flow_runs: "run_apps flow_ops flow_created = flow_active"
  unfolding flow_ops_def run_apps.simps flow_run(2-7) snd_conv by (rule refl)

section \<open>Witnesses\<close>

lemma installation_provenance_witness:
  "ai_status flow_installation = ''active'' \<and>
   (\<exists>p \<in> set (gm_values (st_preflights flow_active)). cp_user p = 123 \<and>
      cp_intent p = flow_intent_ref \<and> cp_callback_status p = cb_authorized)"
proof -
  have "gm_get (st_installations flow_active) flow_completion_ref = Some flow_installation"
    by (simp add: flow_active_def)
  moreover have "ai_user flow_installation = 123" "ai_intent flow_installation = flow_intent_ref"
    by (simp_all add: flow_records)
  ultimately show ?thesis using installation_provenance [OF flow_reach(8)] by metis
qed

lemma recorded_once_witness:
  "{c \<in> set (gm_values (st_completions flow_active)). ic_intent c = flow_intent_ref} = {flow_completion}"
proof -
  have "flow_completion \<in> set (gm_values (st_completions flow_active))"
    "ic_intent flow_completion = flow_intent_ref"
    by (simp_all add: flow_stores flow_records)
  then show ?thesis using recorded_once [OF flow_reach(8)] by auto
qed

lemma handoff_consumed_once_witness:
  "\<exists>x s'. consume_session 123 flow_intent_ref flow_state_ref flow_time flow_time flow_described = (Inr x, s') \<and>
     is_err (fst (consume_session 123 flow_intent_ref flow_state_ref flow_time flow_time
       (run_apps [OpMarkIntent 123 flow_intent_ref flow_time] s')))"
proof -
  have "\<exists>x s'. consume_session 123 flow_intent_ref flow_state_ref flow_time flow_time flow_described = (Inr x, s')"
    by (simp add: consume_session_def flow_step flow_stores flow_session_def flow_expiry after_def Let_def)
      (simp add: flow_time_def)
  moreover have "fresh_run [OpMarkIntent 123 flow_intent_ref flow_time] s'" for s' :: "unit apps_store"
    by simp
  ultimately show ?thesis using handoff_consumed_once [OF flow_reach(4)] by metis
qed

lemma records_final_witness:
  "gm_get (st_intents (run_apps [OpActivate 123 flow_intent_ref flow_completion_ref flow_time flow_entropy,
      OpMarkIntent 123 flow_intent_ref flow_time] flow_completed)) flow_intent_ref = Some flow_installed"
proof -
  have "gm_get (st_intents flow_completed) flow_intent_ref = Some flow_installed"
    "ii_status flow_installed = st_installed"
    by (simp_all add: flow_stores flow_installed_def)
  moreover have "fresh_run [OpActivate 123 flow_intent_ref flow_completion_ref flow_time flow_entropy,
      OpMarkIntent 123 flow_intent_ref flow_time] flow_completed" by simp
  note conjunct1 [OF records_final [OF flow_reach(7) this refl, where k = flow_intent_ref
      and i = flow_installed]]
  ultimately show ?thesis by (auto simp del: run_apps.simps)
qed

lemma users_isolated_witness:
  "others_kept (Some 123) flow_completed flow_active"
  using users_isolated [OF flow_reach(7) _ flow_run(7)] by simp

lemma progress_faithful_witness:
  "\<exists>p t. read_install_progress 123 flow_intent_ref flow_time flow_active = (Inr p, t) \<and>
     pg_next_action p = ''none'' \<and> pg_status p = ''active''"
proof -
  have "\<exists>p t. read_install_progress 123 flow_intent_ref flow_time flow_active = (Inr p, t)"
    by (simp add: read_install_progress_def flow_step flow_stores flow_installed_def flow_intent_def)
  then obtain p t where read: "read_install_progress 123 flow_intent_ref flow_time flow_active = (Inr p, t)"
    by blast
  have "gm_get (st_intents flow_active) flow_intent_ref = Some flow_installed"
    "ii_status flow_installed = st_installed"
    by (simp_all add: flow_stores flow_installed_def)
  moreover have "flow_installation \<in> set (gm_values (st_installations flow_active))"
    "ai_user flow_installation = 123" "ai_intent flow_installation = flow_intent_ref"
    by (simp_all add: flow_stores flow_records)
  ultimately show ?thesis using progress_faithful [OF flow_reach(8) read] read by fastforce
qed

lemma progress_order_free_witness:
  "fst (read_install_progress 123 flow_intent_ref flow_time
     (flow_active\<lparr>st_sessions := rev (st_sessions flow_active)\<rparr>)) =
   fst (read_install_progress 123 flow_intent_ref flow_time flow_active)"
  by (rule progress_order_free [OF flow_reach(8), of "rev (st_sessions flow_active)"
        "st_previews flow_active" "st_preflights flow_active" "st_exchanges flow_active"
        "st_completions flow_active" "st_installations flow_active"])
    (simp_all add: flow_stores)

end
