(* ===== verification/Integrations.thy ===== *)
theory Integrations
  imports Prelude
begin

text \<open>
  The status snapshot an integration provider answers with (\<open>internal/integrations/status.go\<close>).
  The adapter itself is an interface: a function of the user over an environment.
\<close>

record credential_status =
  ct_ref :: string
  ct_provider :: string
  ct_account_ref :: string
  ct_status :: string
  ct_status_code :: string

record connection_status =
  nt_ref :: string
  nt_provider :: string
  nt_account_ref :: string
  nt_status :: string
  nt_status_code :: string

record status_snapshot =
  sn_credentials :: "credential_status list"
  sn_connections :: "connection_status list"

section \<open>Lookups in a list by the last entry with a key\<close>

text \<open>The loops \<open>for _, x := range xs { byRef[x.Ref] = x }\<close>.\<close>

definition by_ref :: "('a \<Rightarrow> string) \<Rightarrow> 'a list \<Rightarrow> string \<Rightarrow> 'a option" where
  "by_ref ref xs k = find (\<lambda>x. ref x = k) (rev xs)"

lemma by_ref_Some: "by_ref ref xs k = Some x \<Longrightarrow> x \<in> set xs \<and> ref x = k"
  unfolding by_ref_def by (drule find_Some_in) simp

lemma by_ref_None: "by_ref ref xs k = None \<longleftrightarrow> (\<forall>x \<in> set xs. ref x \<noteq> k)"
  by (auto simp: by_ref_def find_None_iff)

lemma by_ref_distinct:
  assumes "distinct (map ref xs)" "x \<in> set xs"
  shows "by_ref ref xs (ref x) = Some x"
proof -
  have "distinct (map ref (rev xs))" using assms(1) by (simp flip: rev_map)
  from find_distinct_key [OF this] assms(2) show ?thesis by (simp add: by_ref_def)
qed

lemma by_ref_perm:
  assumes "distinct (map ref xs)" "mset xs = mset ys"
  shows "by_ref ref xs k = by_ref ref ys k"
  unfolding by_ref_def
  by (rule find_key_perm) (use assms in \<open>simp_all flip: rev_map\<close>)

end
