(* ===== verification/Credentials.thy ===== *)
theory Credentials
  imports AppsStore Integrations
begin

text \<open>
  Credential metadata (\<open>internal/credentials\<close>): the store with its cache, the Postgres repository
  as a table, and the provider credential store, which files the tokens of an OAuth exchange.
  A nil slice of scopes and an empty one are not told apart.
\<close>

section \<open>Data\<close>

datatype credential_error =
    ErrInvalidCredentialMetadata
  | ErrCredentialStatusProviderUnset
  | ErrInvalidCredentialStatusSnapshot
  | ErrProviderTokenSecretStoreUnset
  | CredentialApps apps_error
  | CredentialUpstream string

record credential_metadata =
  cm_ref :: string
  cm_app :: string
  cm_category :: string
  cm_provider :: string
  cm_account_ref :: string
  cm_account_label :: string
  cm_status :: string
  cm_status_code :: string
  cm_checked_at :: string
  cm_scopes :: "string list"
  cm_created_at :: string
  cm_updated_at :: string

record credential_update =
  cu_ref :: string
  cu_provider :: string
  cu_account_ref :: string
  cu_status :: string
  cu_status_code :: string

type_synonym ('d, 'a) credential_call = "'d \<Rightarrow> (credential_error + 'a) \<times> 'd"

record 'd credential_repository =
  cr_read :: "int \<Rightarrow> ('d, credential_metadata list) credential_call"
  cr_save :: "int \<Rightarrow> credential_metadata \<Rightarrow> ('d, credential_metadata) credential_call"
  cr_refresh ::
    "int \<Rightarrow> credential_update list \<Rightarrow> string \<Rightarrow> ('d, credential_metadata list) credential_call"

record 'd credential_store =
  cs_repo :: "'d credential_repository option"
  cs_status_provider :: "(int \<Rightarrow> ('d, status_snapshot) credential_call) option"
  cs_credentials :: "int \<rightharpoonup> credential_metadata list"
  cs_db :: 'd

type_synonym ('d, 'a) credential_handler = "('d credential_store, credential_error, 'a) handler"

definition new_credential_store ::
    "'d credential_repository option \<Rightarrow> (int \<Rightarrow> ('d, status_snapshot) credential_call) option \<Rightarrow> 'd
      \<Rightarrow> 'd credential_store" where
  "new_credential_store repo provider db =
     \<lparr>cs_repo = repo, cs_status_provider = provider, cs_credentials = Map.empty, cs_db = db\<rparr>"

definition credential_fixture_user :: int where
  "credential_fixture_user = 123"

definition fixture_credential_metadata :: "int \<Rightarrow> credential_metadata list" where
  "fixture_credential_metadata user =
     (if user \<noteq> credential_fixture_user then []
      else [\<lparr>cm_ref = ''google-calendar-credential-fixture'', cm_app = ''google-calendar'',
             cm_category = ''calendar'', cm_provider = ''google-calendar-fixture'',
             cm_account_ref = ''google-account-fixture'', cm_account_label = ''fixture-user@example.test'',
             cm_status = ''active'', cm_status_code = [], cm_checked_at = [],
             cm_scopes = [''calendar.read'', ''calendar.write''],
             cm_created_at = ''2026-01-01T00:00:00.000Z'', cm_updated_at = ''2026-01-01T00:00:00.000Z''\<rparr>])"

definition validate_credential_metadata :: "credential_metadata \<Rightarrow> credential_error option" where
  "validate_credential_metadata c =
     (if cm_ref c = [] \<or> cm_app c = [] \<or> cm_category c = [] \<or> cm_provider c = [] \<or>
         cm_account_ref c = [] \<or> cm_account_label c = [] \<or> cm_status c = []
      then Some ErrInvalidCredentialMetadata else None)"

definition clone_credential_metadata :: "credential_metadata list \<Rightarrow> credential_metadata list" where
  "clone_credential_metadata items = sort_by (\<lambda>l r. cm_ref l \<le> cm_ref r) items"

section \<open>Status updates\<close>

definition credential_update_incomplete :: "credential_update \<Rightarrow> bool" where
  "credential_update_incomplete u =
     (cu_ref u = [] \<or> cu_provider u = [] \<or> cu_account_ref u = [] \<or> cu_status u = [])"

fun credential_updates_from_provider ::
    "credential_status list \<Rightarrow> credential_error + credential_update list" where
  "credential_updates_from_provider [] = Inr []"
| "credential_updates_from_provider (x # xs) =
     (if ct_ref x = [] \<or> ct_provider x = [] \<or> ct_account_ref x = [] \<or> ct_status x = []
      then Inl ErrInvalidCredentialStatusSnapshot
      else case credential_updates_from_provider xs of
        Inl e \<Rightarrow> Inl e
      | Inr us \<Rightarrow> Inr (\<lparr>cu_ref = ct_ref x, cu_provider = ct_provider x,
          cu_account_ref = ct_account_ref x, cu_status = ct_status x,
          cu_status_code = ct_status_code x\<rparr> # us))"

fun validate_updates_from ::
    "credential_metadata list \<Rightarrow> string set \<Rightarrow> credential_update list \<Rightarrow> credential_error option" where
  "validate_updates_from existing seen [] = None"
| "validate_updates_from existing seen (u # us) =
     (if credential_update_incomplete u then Some ErrInvalidCredentialStatusSnapshot
      else if cu_ref u \<in> seen then Some ErrInvalidCredentialStatusSnapshot
      else case by_ref cm_ref existing (cu_ref u) of
        None \<Rightarrow> Some ErrInvalidCredentialStatusSnapshot
      | Some c \<Rightarrow>
          if cm_provider c \<noteq> cu_provider u \<or> cm_account_ref c \<noteq> cu_account_ref u
          then Some ErrInvalidCredentialStatusSnapshot
          else validate_updates_from existing (insert (cu_ref u) seen) us)"

definition validate_credential_updates ::
    "credential_metadata list \<Rightarrow> credential_update list \<Rightarrow> credential_error option" where
  "validate_credential_updates existing updates = validate_updates_from existing {} updates"

definition stamp_credential ::
    "credential_update \<Rightarrow> string \<Rightarrow> credential_metadata \<Rightarrow> credential_metadata" where
  "stamp_credential u checked_at c =
     c\<lparr>cm_status := cu_status u, cm_status_code := cu_status_code u, cm_checked_at := checked_at,
       cm_updated_at := checked_at\<rparr>"

definition apply_credential_updates ::
    "credential_metadata list \<Rightarrow> credential_update list \<Rightarrow> string \<Rightarrow> credential_metadata list" where
  "apply_credential_updates existing updates checked_at =
     map (\<lambda>c. case by_ref cu_ref updates (cm_ref c) of
           None \<Rightarrow> c | Some u \<Rightarrow> stamp_credential u checked_at c)
       (clone_credential_metadata existing)"

section \<open>The store\<close>

definition credential_db :: "('d, 'a) credential_call \<Rightarrow> ('d, 'a) credential_handler" where
  "credential_db call s = (case call (cs_db s) of (r, db) \<Rightarrow> (r, s\<lparr>cs_db := db\<rparr>))"

definition set_credentials :: "int \<Rightarrow> credential_metadata list \<Rightarrow> ('d, unit) credential_handler" where
  "set_credentials user items s = (Inr (), s\<lparr>cs_credentials := (cs_credentials s)(user \<mapsto> items)\<rparr>)"

text \<open>\<open>s.credentials[userID]\<close>, nil where nothing is loaded.\<close>

definition credentials_of :: "'d credential_store \<Rightarrow> int \<Rightarrow> credential_metadata list" where
  "credentials_of s user = (case cs_credentials s user of None \<Rightarrow> [] | Some items \<Rightarrow> items)"

fun save_all_credentials ::
    "'d credential_repository \<Rightarrow> int \<Rightarrow> credential_metadata list \<Rightarrow> ('d, unit) credential_call" where
  "save_all_credentials repo user [] db = (Inr (), db)"
| "save_all_credentials repo user (c # cs) db =
     (case cr_save repo user c db of
        (Inl e, db) \<Rightarrow> (Inl e, db)
      | (Inr _, db) \<Rightarrow> save_all_credentials repo user cs db)"

definition seed_fixture_metadata :: "'d credential_repository \<Rightarrow> ('d, unit) credential_call" where
  "seed_fixture_metadata repo =
     save_all_credentials repo credential_fixture_user (fixture_credential_metadata credential_fixture_user)"

definition load_credentials :: "'d credential_repository \<Rightarrow> int \<Rightarrow> ('d, unit) credential_handler" where
  "load_credentials repo user =
     and_then (credential_db (cr_read repo user)) (\<lambda>items.
     if items = [] \<and> user = credential_fixture_user
     then and_then (credential_db (seed_fixture_metadata repo)) (\<lambda>_.
          and_then (credential_db (cr_read repo user)) (\<lambda>items.
          set_credentials user (clone_credential_metadata items)))
     else set_credentials user (clone_credential_metadata items))"

definition ensure_credentials_loaded :: "int \<Rightarrow> ('d, unit) credential_handler" where
  "ensure_credentials_loaded user s =
     (case cs_credentials s user of
        Some _ \<Rightarrow> (Inr (), s)
      | None \<Rightarrow>
          (case cs_repo s of
             None \<Rightarrow> set_credentials user (fixture_credential_metadata user) s
           | Some repo \<Rightarrow> load_credentials repo user s))"

definition read_credential_metadata :: "int \<Rightarrow> ('d, credential_metadata list) credential_handler" where
  "read_credential_metadata user =
     and_then (ensure_credentials_loaded user) (\<lambda>_ s. (Inr (credentials_of s user), s))"

text \<open>
  The part of \<open>RefreshProviderStatus\<close> under the mutex, after the provider was asked and its
  answer converted.
\<close>

definition apply_provider_status ::
    "int \<Rightarrow> credential_update list \<Rightarrow> gotime \<Rightarrow> ('d, unit) credential_handler" where
  "apply_provider_status user updates now =
     and_then (ensure_credentials_loaded user) (\<lambda>_ s.
       let checked_at = wire_format now in
       case validate_credential_updates (credentials_of s user) updates of
         Some e \<Rightarrow> (Inl e, s)
       | None \<Rightarrow>
           (case cs_repo s of
              None \<Rightarrow> set_credentials user
                (apply_credential_updates (credentials_of s user) updates checked_at) s
            | Some repo \<Rightarrow>
                and_then (credential_db (cr_refresh repo user updates checked_at)) (\<lambda>items.
                  set_credentials user (clone_credential_metadata items)) s))"

definition refresh_provider_status :: "int \<Rightarrow> gotime \<Rightarrow> ('d, unit) credential_handler" where
  "refresh_provider_status user now s =
     (case cs_status_provider s of
        None \<Rightarrow> (Inl ErrCredentialStatusProviderUnset, s)
      | Some provider \<Rightarrow>
          and_then (credential_db (provider user)) (\<lambda>snapshot.
          and_then (lift_result (credential_updates_from_provider (sn_credentials snapshot))) (\<lambda>updates.
          if updates = [] then return_ok () else apply_provider_status user updates now)) s)"

end
