(* ===== verification/CredentialsRepo.thy ===== *)
theory CredentialsRepo
  imports Credentials
begin

text \<open>
  The Postgres repository of credential metadata (\<open>internal/credentials/postgres_repository.go\<close>)
  as a table of rows: what its SQL statements do under the constraints of the migrations
  \<open>0020_integration_credential_metadata\<close> and \<open>0021_integration_status_refresh\<close>. A statement of the
  model fails by violating a constraint only; text columns are ordered bytewise. User ids are taken to be
  in the range of the \<open>integer\<close> column and texts to be valid UTF-8 without NUL: what the driver or the
  server refuse beside, with an error of the statement, is left out. Then the provider
  credential store and the in-memory token secret store (\<open>provider_credential_store.go\<close>), over
  the same environment.
\<close>

section \<open>The table\<close>

record credential_row =
  cw_user :: int
  cw_ref :: string
  cw_app :: string
  cw_category :: string
  cw_provider :: string
  cw_account_ref :: string
  cw_account_label :: string
  cw_status :: string
  cw_status_code :: "string option"
  cw_checked_at :: "gotime option"
  cw_scopes :: "string list"
  cw_created_at :: gotime
  cw_updated_at :: gotime

text \<open>The environment: the table, the time of \<open>now()\<close>, and the token secrets in memory.\<close>

record credential_env =
  cd_rows :: "credential_row list"
  cd_now :: gotime
  cd_secrets :: "string \<rightharpoonup> credential_secret"

definition row_metadata :: "credential_row \<Rightarrow> credential_metadata" where
  "row_metadata w =
     \<lparr>cm_ref = cw_ref w, cm_app = cw_app w, cm_category = cw_category w, cm_provider = cw_provider w,
      cm_account_ref = cw_account_ref w, cm_account_label = cw_account_label w,
      cm_status = cw_status w,
      cm_status_code = (case cw_status_code w of None \<Rightarrow> [] | Some c \<Rightarrow> c),
      cm_checked_at = (case cw_checked_at w of None \<Rightarrow> [] | Some t \<Rightarrow> wire_format t),
      cm_scopes = cw_scopes w, cm_created_at = wire_format (cw_created_at w),
      cm_updated_at = wire_format (cw_updated_at w)\<rparr>"

definition rows_of :: "int \<Rightarrow> credential_row list \<Rightarrow> credential_metadata list" where
  "rows_of user rows =
     map row_metadata (sort_by (\<lambda>l r. cw_ref l \<le> cw_ref r) (filter (\<lambda>w. cw_user w = user) rows))"

definition pg_read_credentials :: "int \<Rightarrow> (credential_env, credential_metadata list) credential_call" where
  "pg_read_credentials user db = (Inr (rows_of user (cd_rows db)), db)"

text \<open>The row an insert makes, and what \<open>on conflict do update\<close> sets in the row that is there.\<close>

definition insert_row :: "int \<Rightarrow> credential_metadata \<Rightarrow> gotime \<Rightarrow> credential_row" where
  "insert_row user c now =
     \<lparr>cw_user = user, cw_ref = cm_ref c, cw_app = cm_app c, cw_category = cm_category c,
      cw_provider = cm_provider c, cw_account_ref = cm_account_ref c,
      cw_account_label = cm_account_label c, cw_status = cm_status c, cw_status_code = None,
      cw_checked_at = None, cw_scopes = cm_scopes c, cw_created_at = now, cw_updated_at = now\<rparr>"

definition conflict_row :: "credential_metadata \<Rightarrow> gotime \<Rightarrow> credential_row \<Rightarrow> credential_row" where
  "conflict_row c now w =
     w\<lparr>cw_app := cm_app c, cw_category := cm_category c, cw_provider := cm_provider c,
       cw_account_ref := cm_account_ref c, cw_account_label := cm_account_label c,
       cw_status := cm_status c, cw_scopes := cm_scopes c, cw_updated_at := now\<rparr>"

fun upsert_row :: "int \<Rightarrow> credential_metadata \<Rightarrow> gotime \<Rightarrow> credential_row list \<Rightarrow> credential_row list" where
  "upsert_row user c now [] = [insert_row user c now]"
| "upsert_row user c now (w # ws) =
     (if cw_user w = user \<and> cw_ref w = cm_ref c then conflict_row c now w # ws
      else w # upsert_row user c now ws)"

text \<open>The unique index on user, provider and account.\<close>

definition account_taken :: "int \<Rightarrow> credential_metadata \<Rightarrow> credential_row list \<Rightarrow> bool" where
  "account_taken user c rows =
     list_ex (\<lambda>w. cw_user w = user \<and> cw_provider w = cm_provider c \<and>
       cw_account_ref w = cm_account_ref c \<and> cw_ref w \<noteq> cm_ref c) rows"

definition pg_save_credential ::
    "int \<Rightarrow> credential_metadata \<Rightarrow> (credential_env, credential_metadata) credential_call" where
  "pg_save_credential user c db =
     (case validate_credential_metadata c of
        Some e \<Rightarrow> (Inl e, db)
      | None \<Rightarrow>
          if account_taken user c (cd_rows db)
          then (Inl (CredentialUpstream ''save credential metadata''), db)
          else
            let db = db\<lparr>cd_rows := upsert_row user c (cd_now db) (cd_rows db)\<rparr>
            in case find (\<lambda>item. cm_ref item = cm_ref c) (rows_of user (cd_rows db)) of
                 Some item \<Rightarrow> (Inr item, db)
               | None \<Rightarrow> (Inl (CredentialUpstream ''saved credential metadata was not found''), db))"

fun validate_updates_for_repository :: "string set \<Rightarrow> credential_update list \<Rightarrow> credential_error option" where
  "validate_updates_for_repository seen [] = None"
| "validate_updates_for_repository seen (u # us) =
     (if credential_update_incomplete u \<or> cu_ref u \<in> seen then Some ErrInvalidCredentialStatusSnapshot
      else validate_updates_for_repository (insert (cu_ref u) seen) us)"

text \<open>One \<open>update\<close> statement, and the loop of the transaction; an error rolls all of it back.\<close>

definition row_matches :: "int \<Rightarrow> credential_update \<Rightarrow> credential_row \<Rightarrow> bool" where
  "row_matches user u w =
     (cw_user w = user \<and> cw_ref w = cu_ref u \<and> cw_provider w = cu_provider u \<and>
      cw_account_ref w = cu_account_ref u)"

definition stamp_row :: "credential_update \<Rightarrow> gotime \<Rightarrow> gotime \<Rightarrow> credential_row \<Rightarrow> credential_row" where
  "stamp_row u checked_at now w =
     w\<lparr>cw_status := cu_status u,
       cw_status_code := (if cu_status_code u = [] then None else Some (cu_status_code u)),
       cw_checked_at := Some checked_at, cw_updated_at := now\<rparr>"

fun refresh_rows ::
    "int \<Rightarrow> gotime \<Rightarrow> gotime \<Rightarrow> credential_update list \<Rightarrow> credential_row list
      \<Rightarrow> credential_error + credential_row list" where
  "refresh_rows user checked_at now [] rows = Inr rows"
| "refresh_rows user checked_at now (u # us) rows =
     (if length (filter (row_matches user u) rows) \<noteq> 1 then Inl ErrInvalidCredentialStatusSnapshot
      else refresh_rows user checked_at now us
        (map (\<lambda>w. if row_matches user u w then stamp_row u checked_at now w else w) rows))"

text \<open>The cast of the stamp to a timestamp is modelled for the wire layout, which callers use.\<close>

definition pg_refresh_credentials ::
    "int \<Rightarrow> credential_update list \<Rightarrow> string \<Rightarrow> (credential_env, credential_metadata list) credential_call" where
  "pg_refresh_credentials user updates stamp db =
     (let stamp = (if stamp = [] then wire_format (cd_now db) else stamp) in
      case validate_updates_for_repository {} updates of
        Some e \<Rightarrow> (Inl e, db)
      | None \<Rightarrow>
          (case parse_wire stamp of
             None \<Rightarrow> if updates = [] then pg_read_credentials user db
               else (Inl (CredentialUpstream ''refresh credential status''), db)
           | Some checked_at \<Rightarrow>
               (case refresh_rows user checked_at (cd_now db) updates (cd_rows db) of
                  Inl e \<Rightarrow> (Inl e, db)
                | Inr rows \<Rightarrow> pg_read_credentials user (db\<lparr>cd_rows := rows\<rparr>))))"

definition pg_credential_repository :: "credential_env credential_repository" where
  "pg_credential_repository =
     \<lparr>cr_read = pg_read_credentials, cr_save = pg_save_credential, cr_refresh = pg_refresh_credentials\<rparr>"

section \<open>Provider credentials\<close>

definition validate_credential_secret :: "credential_secret \<Rightarrow> credential_error option" where
  "validate_credential_secret k =
     (if ks_user k \<le> 0 \<or> blank (ks_app k) \<or> blank (ks_category k) \<or> blank (ks_provider k) \<or>
         blank (ks_account_ref k) \<or> blank (ks_account_label k) \<or> ks_scopes k = [] \<or>
         blank (tp_access (ks_token k)) \<or> blank (tp_refresh (ks_token k))
      then Some (CredentialApps ErrInvalidProviderCredentialSecret) else None)"

text \<open>The digest \<open>sha\<close> is in hexadecimal; the parts are joined with zero bytes.\<close>

definition provider_credential_fingerprint :: "(string \<Rightarrow> string) \<Rightarrow> int \<Rightarrow> string list \<Rightarrow> string" where
  "provider_credential_fingerprint sha user parts =
     sha (show_int user @ concat (map (\<lambda>part. byte 0 # part) parts))"

definition provider_credential_ref :: "(string \<Rightarrow> string) \<Rightarrow> credential_secret \<Rightarrow> string" where
  "provider_credential_ref sha k =
     ''provider-credential-'' @
     take 24 (provider_credential_fingerprint sha (ks_user k) [ks_provider k, ks_account_ref k])"

type_synonym 'd token_secret_store = "string \<Rightarrow> credential_secret \<Rightarrow> ('d, unit) credential_call"

text \<open>\<open>InMemoryProviderTokenSecretStore\<close>.\<close>

definition store_token_payload :: "credential_env token_secret_store" where
  "store_token_payload ref k db =
     (if blank ref then (Inl ErrInvalidCredentialMetadata, db)
      else case validate_credential_secret k of
        Some e \<Rightarrow> (Inl e, db)
      | None \<Rightarrow> (Inr (), db\<lparr>cd_secrets := (cd_secrets db)(ref \<mapsto> k)\<rparr>))"

definition secret_metadata :: "string \<Rightarrow> credential_secret \<Rightarrow> credential_metadata" where
  "secret_metadata ref k =
     \<lparr>cm_ref = ref, cm_app = ks_app k, cm_category = ks_category k, cm_provider = ks_provider k,
      cm_account_ref = ks_account_ref k, cm_account_label = ks_account_label k, cm_status = ''active'',
      cm_status_code = [], cm_checked_at = [], cm_scopes = ks_scopes k, cm_created_at = [],
      cm_updated_at = []\<rparr>"

text \<open>
  \<open>ProviderCredentialStore.StoreProviderCredentialSecret\<close>; a store without repository or secret
  store is \<open>None\<close> there.
\<close>

definition store_provider_credential ::
    "(string \<Rightarrow> string) \<Rightarrow> 'd credential_repository option \<Rightarrow> 'd token_secret_store option \<Rightarrow>
     credential_secret \<Rightarrow> ('d, credential_receipt) credential_call" where
  "store_provider_credential sha repo secrets k db =
     (case repo of None \<Rightarrow> (Inl ErrInvalidCredentialMetadata, db)
      | Some repo \<Rightarrow>
     (case secrets of None \<Rightarrow> (Inl ErrProviderTokenSecretStoreUnset, db)
      | Some secrets \<Rightarrow>
     (case validate_credential_secret k of Some e \<Rightarrow> (Inl e, db)
      | None \<Rightarrow>
     (case cr_read repo (ks_user k) db of (Inl e, db) \<Rightarrow> (Inl e, db)
      | (Inr existing, db) \<Rightarrow>
     (let ref = (case find (\<lambda>c. cm_provider c = ks_provider k \<and> cm_account_ref c = ks_account_ref k)
                   existing of
                   Some c \<Rightarrow> cm_ref c | None \<Rightarrow> provider_credential_ref sha k) in
      case secrets ref k db of (Inl e, db) \<Rightarrow> (Inl e, db)
      | (Inr _, db) \<Rightarrow>
     (case cr_save repo (ks_user k) (secret_metadata ref k) db of (Inl e, db) \<Rightarrow> (Inl e, db)
      | (Inr saved, db) \<Rightarrow>
        (Inr \<lparr>kr_ref = cm_ref saved, kr_account_ref = cm_account_ref saved,
           kr_account_label = cm_account_label saved, kr_status = cm_status saved,
           kr_scopes = cm_scopes saved\<rparr>, db)))))))"

text \<open>
  As the app store sees it: an error of this package is one it does not know, unless it is its own.
\<close>

fun foreign_error :: "credential_error \<Rightarrow> apps_error" where
  "foreign_error (CredentialApps e) = e"
| "foreign_error (CredentialUpstream m) = ErrAppsUpstream m"
| "foreign_error ErrInvalidCredentialMetadata = ErrAppsUpstream ''invalid credential metadata''"
| "foreign_error ErrCredentialStatusProviderUnset =
     ErrAppsUpstream ''credential status provider is not configured''"
| "foreign_error ErrInvalidCredentialStatusSnapshot =
     ErrAppsUpstream ''invalid credential status snapshot''"
| "foreign_error ErrProviderTokenSecretStoreUnset =
     ErrAppsUpstream ''provider token secret store is not configured''"

definition credential_port ::
    "('d, credential_receipt) credential_call \<Rightarrow> ('d, credential_receipt) repo_call" where
  "credential_port call db = (case call db of (r, db) \<Rightarrow> (map_sum foreign_error id r, db))"

end
