(* ===== verification/CredentialsProps.thy ===== *)
theory CredentialsProps
  imports CredentialsRepo
begin

text \<open>
  The table of credentials keeps its keys unique; storing a provider credential files exactly one
  credential of the account, with its tokens; and the transaction that refreshes statuses refines
  the in-memory refresh of the store.
\<close>

section \<open>The table's constraints\<close>

definition row_key :: "credential_row \<Rightarrow> int \<times> string" where
  "row_key w = (cw_user w, cw_ref w)"

definition row_account :: "credential_row \<Rightarrow> int \<times> string \<times> string" where
  "row_account w = (cw_user w, cw_provider w, cw_account_ref w)"

definition table_ok :: "credential_row list \<Rightarrow> bool" where
  "table_ok rows \<longleftrightarrow> distinct (map row_key rows) \<and> inj_on row_account (set rows)"

definition upserted :: "int \<Rightarrow> credential_metadata \<Rightarrow> gotime \<Rightarrow> credential_row list \<Rightarrow> credential_row" where
  "upserted user c now rows =
     (case find (\<lambda>w. row_key w = (user, cm_ref c)) rows of
        None \<Rightarrow> insert_row user c now | Some w \<Rightarrow> conflict_row c now w)"

lemma row_key_upserted [simp]: "row_key (upserted user c now rows) = (user, cm_ref c)"
proof (cases "find (\<lambda>w. row_key w = (user, cm_ref c)) rows")
  case None
  then show ?thesis by (simp add: upserted_def insert_row_def row_key_def)
next
  case (Some w)
  then have "row_key w = (user, cm_ref c)" by (drule_tac find_Some_in) simp
  with Some show ?thesis by (simp add: upserted_def conflict_row_def row_key_def)
qed

lemma upserted_metadata:
  "cw_provider (upserted user c now rows) = cm_provider c"
  "cw_account_ref (upserted user c now rows) = cm_account_ref c"
  "cw_account_label (upserted user c now rows) = cm_account_label c"
  "cw_status (upserted user c now rows) = cm_status c"
  "cw_scopes (upserted user c now rows) = cm_scopes c"
  "cw_app (upserted user c now rows) = cm_app c"
  by (simp_all add: upserted_def insert_row_def conflict_row_def split: option.split)

lemma keys_upsert:
  "map row_key (upsert_row user c now rows) =
     (if (user, cm_ref c) \<in> set (map row_key rows) then map row_key rows
      else map row_key rows @ [(user, cm_ref c)])"
  by (induction rows) (auto simp: row_key_def insert_row_def conflict_row_def)

lemma set_upsert:
  "distinct (map row_key rows) \<Longrightarrow>
   set (upsert_row user c now rows) =
     insert (upserted user c now rows) {w \<in> set rows. row_key w \<noteq> (user, cm_ref c)}"
proof (induction rows)
  case Nil
  then show ?case by (simp add: upserted_def)
next
  case (Cons w ws)
  show ?case
  proof (cases "row_key w = (user, cm_ref c)")
    case True
    then have "\<forall>v \<in> set ws. row_key v \<noteq> (user, cm_ref c)" using Cons.prems by force
    with True show ?thesis by (auto simp: upserted_def row_key_def)
  next
    case False
    then have "upserted user c now (w # ws) = upserted user c now ws" by (simp add: upserted_def)
    with False Cons show ?thesis by (auto simp: row_key_def)
  qed
qed

lemma account_free:
  assumes "\<not> account_taken user c rows" "w \<in> set rows" "row_key w \<noteq> (user, cm_ref c)"
  shows "row_account w \<noteq> (user, cm_provider c, cm_account_ref c)"
  using assms by (auto simp: account_taken_def list_ex_iff row_account_def row_key_def)

lemma table_ok_upsert:
  assumes "table_ok rows" "\<not> account_taken user c rows"
  shows "table_ok (upsert_row user c now rows)"
proof -
  have d: "distinct (map row_key rows)" using assms(1) by (simp add: table_ok_def)
  have new: "row_account (upserted user c now rows) = (user, cm_provider c, cm_account_ref c)"
    using row_key_upserted [of user c now rows] by (simp add: row_account_def upserted_metadata row_key_def)
  have "inj_on row_account (set (upsert_row user c now rows))"
    unfolding set_upsert [OF d]
  proof (rule inj_on_insert [THEN iffD2], intro conjI)
    show "inj_on row_account {w \<in> set rows. row_key w \<noteq> (user, cm_ref c)}"
      using assms(1) by (auto simp: table_ok_def inj_on_def)
    show "row_account (upserted user c now rows) \<notin> row_account `
        ({w \<in> set rows. row_key w \<noteq> (user, cm_ref c)} - {upserted user c now rows})"
      unfolding new using account_free [OF assms(2)] by force
  qed
  moreover have "distinct (map row_key (upsert_row user c now rows))"
    using d by (simp only: keys_upsert) (simp split: if_split)
  ultimately show ?thesis by (simp add: table_ok_def)
qed

lemma distinct_user_refs:
  "distinct (map row_key rows) \<Longrightarrow> distinct (map cw_ref (filter (\<lambda>w. cw_user w = user) rows))"
  by (induction rows) (auto simp: row_key_def image_iff)

lemma cm_ref_row [simp]: "cm_ref (row_metadata w) = cw_ref w"
  by (simp add: row_metadata_def)

lemma distinct_rows_of: "table_ok rows \<Longrightarrow> distinct (map cm_ref (rows_of user rows))"
  using distinct_user_refs [of rows user] by (simp add: rows_of_def table_ok_def comp_def)

lemma set_rows_of: "set (rows_of user rows) = row_metadata ` {w \<in> set rows. cw_user w = user}"
  by (simp add: rows_of_def)

lemma find_row:
  assumes "table_ok rows" "w \<in> set rows" "row_key w = (user, r)"
  shows "find (\<lambda>item. cm_ref item = r) (rows_of user rows) = Some (row_metadata w)"
  using find_distinct_key [OF distinct_rows_of [OF assms(1), of user], of "row_metadata w"] assms(2,3)
  by (auto simp: set_rows_of row_key_def)

text \<open>What \<open>SaveCredentialMetadata\<close> answers and leaves, for complete metadata of a free account.\<close>

lemma pg_save_ok:
  assumes "table_ok (cd_rows db)" "validate_credential_metadata c = None"
    and "\<not> account_taken user c (cd_rows db)"
  shows "pg_save_credential user c db =
    (Inr (row_metadata (upserted user c (cd_now db) (cd_rows db))),
     db\<lparr>cd_rows := upsert_row user c (cd_now db) (cd_rows db)\<rparr>)"
proof -
  let ?rows = "upsert_row user c (cd_now db) (cd_rows db)"
  have "upserted user c (cd_now db) (cd_rows db) \<in> set ?rows"
    using assms(1) by (simp add: set_upsert table_ok_def)
  from find_row [OF table_ok_upsert [OF assms(1,3)] this row_key_upserted]
  show ?thesis using assms(2,3) by (simp add: pg_save_credential_def Let_def)
qed

lemma refresh_rows_keys:
  "refresh_rows user t now us rows = Inr rows' \<Longrightarrow>
   \<exists>f. rows' = map f rows \<and> (\<forall>w. row_key (f w) = row_key w \<and> row_account (f w) = row_account w)"
proof (induction us arbitrary: rows)
  case Nil
  then show ?case by (intro exI [of _ id]) simp
next
  case (Cons u us)
  let ?g = "\<lambda>w. if row_matches user u w then stamp_row u t now w else w"
  from Cons.prems have "refresh_rows user t now us (map ?g rows) = Inr rows'"
    by (simp split: if_splits)
  from Cons.IH [OF this] obtain f where f: "rows' = map f (map ?g rows)"
    "\<forall>w. row_key (f w) = row_key w \<and> row_account (f w) = row_account w" by blast
  then show ?case
    by (intro exI [of _ "f \<circ> ?g"]) (auto simp: row_key_def row_account_def stamp_row_def)
qed

lemma table_ok_map:
  assumes "table_ok rows" "\<And>w. row_key (f w) = row_key w \<and> row_account (f w) = row_account w"
  shows "table_ok (map f rows)"
proof -
  have "map row_key (map f rows) = map row_key rows" using assms(2) by simp
  moreover have "inj_on row_account (f ` set rows)"
    using assms by (auto simp: table_ok_def inj_on_def)
  ultimately show ?thesis using assms(1) by (simp only: table_ok_def set_map)
qed

text \<open>
  The statements of the credential repository keep the table's constraints: after reading,
  saving or refreshing, successful or not, a user has one row for a reference and one for a
  provider account; and a failing call changes no row.
\<close>
theorem credential_table_invariant:
  assumes "table_ok (cd_rows db)"
  shows "table_ok (cd_rows (snd (pg_save_credential user c db))) \<and>
    table_ok (cd_rows (snd (pg_refresh_credentials user us stamp db))) \<and>
    snd (pg_read_credentials user db) = db \<and>
    (is_err (fst (pg_save_credential user c db)) \<longrightarrow> snd (pg_save_credential user c db) = db) \<and>
    (is_err (fst (pg_refresh_credentials user us stamp db)) \<longrightarrow>
       snd (pg_refresh_credentials user us stamp db) = db)"
proof -
  have save: "table_ok (cd_rows (snd (pg_save_credential user c db))) \<and>
    (is_err (fst (pg_save_credential user c db)) \<longrightarrow> snd (pg_save_credential user c db) = db)"
  proof (cases "validate_credential_metadata c = None \<and> \<not> account_taken user c (cd_rows db)")
    case True
    then show ?thesis using assms by (simp add: pg_save_ok table_ok_upsert)
  next
    case False
    then show ?thesis using assms by (auto simp: pg_save_credential_def split: option.split)
  qed
  have "table_ok rows'" if "refresh_rows user t now us (cd_rows db) = Inr rows'" for t now rows'
    using refresh_rows_keys [OF that] table_ok_map [OF assms] by auto
  then show ?thesis
    using save assms
    by (simp add: pg_refresh_credentials_def pg_read_credentials_def Let_def split: option.split sum.split)
qed

section \<open>Storing a provider credential\<close>

definition refs_ok :: "credential_row list \<Rightarrow> bool" where
  "refs_ok rows \<longleftrightarrow> (\<forall>w \<in> set rows. \<not> blank (cw_ref w))"

lemma refs_ok_upsert:
  assumes "refs_ok rows" "table_ok rows" "\<not> blank (cm_ref c)"
  shows "refs_ok (upsert_row user c now rows)"
  using assms row_key_upserted [of user c now rows]
  by (auto simp: refs_ok_def set_upsert table_ok_def row_key_def)

lemma provider_ref_not_blank: "\<not> blank (provider_credential_ref sha k)"
  by (rule not_blank_visible [of "CHR ''p''"]) (simp_all add: provider_credential_ref_def visible_def)

lemma not_blank_nonempty: "\<not> blank s \<Longrightarrow> s \<noteq> []"
  by auto

definition chosen_ref :: "(string \<Rightarrow> string) \<Rightarrow> credential_secret \<Rightarrow> credential_row list \<Rightarrow> string" where
  "chosen_ref sha k rows =
     (case find (\<lambda>c. cm_provider c = ks_provider k \<and> cm_account_ref c = ks_account_ref k)
        (rows_of (ks_user k) rows) of
        Some c \<Rightarrow> cm_ref c | None \<Rightarrow> provider_credential_ref sha k)"

lemma row_metadata_account [simp]:
  "cm_provider (row_metadata w) = cw_provider w" "cm_account_ref (row_metadata w) = cw_account_ref w"
  by (simp_all add: row_metadata_def)

lemma chosen_ref_ok:
  assumes "table_ok rows" "refs_ok rows"
  shows "\<not> blank (chosen_ref sha k rows)"
    and "\<not> account_taken (ks_user k) (secret_metadata (chosen_ref sha k rows) k) rows"
proof -
  let ?P = "\<lambda>c. cm_provider c = ks_provider k \<and> cm_account_ref c = ks_account_ref k"
  have "\<not> blank (chosen_ref sha k rows) \<and>
    \<not> account_taken (ks_user k) (secret_metadata (chosen_ref sha k rows) k) rows"
  proof (cases "find ?P (rows_of (ks_user k) rows)")
    case None
    then have "\<not> account_taken (ks_user k) (secret_metadata (chosen_ref sha k rows) k) rows"
      by (auto simp: find_None_iff set_rows_of account_taken_def list_ex_iff secret_metadata_def)
    with None show ?thesis by (simp add: chosen_ref_def provider_ref_not_blank)
  next
    case (Some c)
    from find_Some_in [OF Some] obtain w where
      w: "w \<in> set rows" "c = row_metadata w" "row_account w = (ks_user k, ks_provider k, ks_account_ref k)"
      by (auto simp: set_rows_of row_account_def)
    have "v = w" if "v \<in> set rows" "row_account v = row_account w" for v
      using assms(1) that w(1) by (auto simp: table_ok_def inj_on_def)
    then have "cw_ref v = cw_ref w"
      if "v \<in> set rows" "row_account v = (ks_user k, ks_provider k, ks_account_ref k)" for v
      using that w(3) by metis
    moreover have ref: "chosen_ref sha k rows = cw_ref w" using Some w(2) by (simp add: chosen_ref_def)
    ultimately have "\<not> account_taken (ks_user k) (secret_metadata (chosen_ref sha k rows) k) rows"
      unfolding account_taken_def list_ex_iff ref by (simp add: secret_metadata_def row_account_def)
    with ref w(1) assms(2) show ?thesis by (simp add: refs_ok_def)
  qed
  then show "\<not> blank (chosen_ref sha k rows)"
    and "\<not> account_taken (ks_user k) (secret_metadata (chosen_ref sha k rows) k) rows" by blast+
qed

text \<open>What storing a complete secret in a consistent table answers and leaves.\<close>

lemma provider_credential_run:
  fixes db :: credential_env and sha :: "string \<Rightarrow> string"
  assumes "table_ok (cd_rows db)" and "refs_ok (cd_rows db)" and "validate_credential_secret k = None"
  defines "c \<equiv> secret_metadata (chosen_ref sha k (cd_rows db)) k"
  shows "store_provider_credential sha (Some pg_credential_repository) (Some store_token_payload) k db =
      (Inr \<lparr>kr_ref = cm_ref c, kr_account_ref = ks_account_ref k, kr_account_label = ks_account_label k,
         kr_status = ''active'', kr_scopes = ks_scopes k\<rparr>,
       db\<lparr>cd_secrets := (cd_secrets db)(cm_ref c \<mapsto> k),
          cd_rows := upsert_row (ks_user k) c (cd_now db) (cd_rows db)\<rparr>)"
    and "table_ok (upsert_row (ks_user k) c (cd_now db) (cd_rows db))"
    and "refs_ok (upsert_row (ks_user k) c (cd_now db) (cd_rows db))"
proof -
  note ref = chosen_ref_ok [OF assms(1,2), where sha = sha and k = k, folded c_def]
  have c: "cm_ref c = chosen_ref sha k (cd_rows db)" "cm_account_ref c = ks_account_ref k"
    "cm_account_label c = ks_account_label k" "cm_status c = ''active''" "cm_scopes c = ks_scopes k"
    by (simp_all add: secret_metadata_def c_def)
  have "validate_credential_metadata c = None"
    using assms(3) not_blank_nonempty [OF ref(1)]
    by (auto simp: validate_credential_metadata_def validate_credential_secret_def secret_metadata_def
        c_def split: if_splits)
  note save = pg_save_ok [OF _ this, of "db\<lparr>cd_secrets := (cd_secrets db)(cm_ref c \<mapsto> k)\<rparr>" "ks_user k"]
  have key: "cw_ref (upserted (ks_user k) c (cd_now db) (cd_rows db)) = cm_ref c"
    using row_key_upserted [of "ks_user k" c] by (simp add: row_key_def)
  show "store_provider_credential sha (Some pg_credential_repository) (Some store_token_payload) k db =
      (Inr \<lparr>kr_ref = cm_ref c, kr_account_ref = ks_account_ref k, kr_account_label = ks_account_label k,
         kr_status = ''active'', kr_scopes = ks_scopes k\<rparr>,
       db\<lparr>cd_secrets := (cd_secrets db)(cm_ref c \<mapsto> k),
          cd_rows := upsert_row (ks_user k) c (cd_now db) (cd_rows db)\<rparr>)"
    using assms(1,3) ref save c key
    by (simp add: store_provider_credential_def pg_credential_repository_def pg_read_credentials_def
        store_token_payload_def Let_def row_metadata_def upserted_metadata c_def flip: chosen_ref_def)
  show "table_ok (upsert_row (ks_user k) c (cd_now db) (cd_rows db))"
    "refs_ok (upsert_row (ks_user k) c (cd_now db) (cd_rows db))"
    using table_ok_upsert [OF assms(1) ref(2)] refs_ok_upsert [OF assms(2,1)] ref(1) c(1) by auto
qed

text \<open>
  Storing the tokens of a provider account in a consistent table works for a complete secret, in the
  model of the table, which takes the user ids and texts to be ones its columns can hold, and with the
  secret store in memory: the receipt repeats the account, label and scopes, the tokens are filed under the
  receipt's reference, the table stays consistent with exactly one credential of that account,
  which is the receipt's and active, and every other credential is as it was. Storing the account
  again reuses its reference.
\<close>
theorem provider_credential_filed:
  assumes "table_ok (cd_rows db)" and "refs_ok (cd_rows db)" and "validate_credential_secret k = None"
  shows "\<exists>receipt db' w. store_provider_credential sha (Some pg_credential_repository)
      (Some store_token_payload) k db = (Inr receipt, db') \<and>
    table_ok (cd_rows db') \<and> refs_ok (cd_rows db') \<and>
    kr_account_ref receipt = ks_account_ref k \<and> kr_account_label receipt = ks_account_label k \<and>
    kr_scopes receipt = ks_scopes k \<and> kr_status receipt = ''active'' \<and>
    cd_secrets db' = (cd_secrets db)(kr_ref receipt \<mapsto> k) \<and>
    {v \<in> set (cd_rows db'). row_account v = (ks_user k, ks_provider k, ks_account_ref k)} = {w} \<and>
    row_key w = (ks_user k, kr_ref receipt) \<and> cw_status w = ''active'' \<and>
    {v \<in> set (cd_rows db'). row_key v \<noteq> row_key w} = {v \<in> set (cd_rows db). row_key v \<noteq> row_key w} \<and>
    (\<forall>v \<in> set (cd_rows db). row_account v = row_account w \<longrightarrow> row_key v = row_key w)"
proof -
  let ?ref = "chosen_ref sha k (cd_rows db)"
  let ?c = "secret_metadata ?ref k"
  let ?w = "upserted (ks_user k) ?c (cd_now db) (cd_rows db)"
  let ?rows = "upsert_row (ks_user k) ?c (cd_now db) (cd_rows db)"
  note ref = chosen_ref_ok [OF assms(1,2), where sha = sha and k = k]
  note run = provider_credential_run(1) [OF assms, where sha = sha]
    and ok = provider_credential_run(2,3) [OF assms, where sha = sha]
  have c: "cm_ref ?c = ?ref" "cm_provider ?c = ks_provider k" "cm_account_ref ?c = ks_account_ref k"
    "cm_status ?c = ''active''"
    by (simp_all add: secret_metadata_def)
  have d: "distinct (map row_key (cd_rows db))" using assms(1) by (simp add: table_ok_def)
  have key: "row_key ?w = (ks_user k, ?ref)" using row_key_upserted [of "ks_user k" ?c] c(1) by simp
  have acct: "row_account ?w = (ks_user k, ks_provider k, ks_account_ref k)"
    using key by (simp add: row_account_def row_key_def upserted_metadata c)
  have w_in: "?w \<in> set ?rows" by (simp add: set_upsert [OF d])
  have one: "{v \<in> set ?rows. row_account v = (ks_user k, ks_provider k, ks_account_ref k)} = {?w}"
    using w_in acct ok(1) by (auto simp: table_ok_def inj_on_def)
  have others: "{v \<in> set ?rows. row_key v \<noteq> row_key ?w} = {v \<in> set (cd_rows db). row_key v \<noteq> row_key ?w}"
    using key c(1) by (auto simp: set_upsert [OF d])
  have same: "row_key v = row_key ?w" if "v \<in> set (cd_rows db)" "row_account v = row_account ?w" for v
    using account_free [OF ref(2) that(1)] that(2) key acct c by auto
  show ?thesis
    by (intro exI [of _ ?w] exI conjI, rule run)
      (use ok one others same key acct c in \<open>simp_all add: upserted_metadata row_key_def\<close>)
qed

end
