(* ===== verification/CredentialsRefresh.thy ===== *)
theory CredentialsRefresh
  imports CredentialsProps
begin

text \<open>
  The transaction that refreshes credential statuses in the table refines what the store does to
  the list it holds in memory: the same acceptance, the same resulting list.
\<close>

section \<open>Sorting and mapping\<close>

lemma insert_by_map:
  "(\<And>y. le (f x) (f y) = le' x y) \<Longrightarrow> insert_by le (f x) (map f xs) = map f (insert_by le' x xs)"
  by (induction xs) auto

lemma sort_by_map:
  "(\<And>x y. le (f x) (f y) = le' x y) \<Longrightarrow> sort_by le (map f xs) = map f (sort_by le' xs)"
  by (induction xs) (simp_all add: insert_by_map)

lemma sort_by_sorted: "sorted_wrt le xs \<Longrightarrow> sort_by le xs = xs"
proof (induction xs)
  case (Cons x xs)
  then show ?case by (cases xs) auto
qed simp

lemma clone_rows_of: "clone_credential_metadata (rows_of user rows) = rows_of user rows"
proof -
  let ?xs = "filter (\<lambda>w. cw_user w = user) rows"
  have "sorted_wrt (\<lambda>l r. cw_ref l \<le> cw_ref r) (sort_by (\<lambda>l r. cw_ref l \<le> cw_ref r) ?xs)"
    by (rule sorted_sort_by) auto
  then show ?thesis
    by (simp add: clone_credential_metadata_def rows_of_def sort_by_map [where f = row_metadata
        and le' = "\<lambda>l r. cw_ref l \<le> cw_ref r"] sort_by_sorted)
qed

lemma rows_of_map:
  assumes "\<And>w. cw_user (f w) = cw_user w" "\<And>w. cw_ref (f w) = cw_ref w"
  shows "rows_of user (map f rows) =
    map row_metadata (map f (sort_by (\<lambda>l r. cw_ref l \<le> cw_ref r) (filter (\<lambda>w. cw_user w = user) rows)))"
proof -
  have "filter (\<lambda>w. cw_user w = user) (map f rows) = map f (filter (\<lambda>w. cw_user w = user) rows)"
    using assms(1) by (induction rows) auto
  then show ?thesis
    using sort_by_map [of "\<lambda>l r. cw_ref l \<le> cw_ref r" f "\<lambda>l r. cw_ref l \<le> cw_ref r"] assms(2)
    by (simp add: rows_of_def)
qed

section \<open>Acceptance\<close>

lemma validate_updates_from_iff:
  "validate_updates_from existing seen us =
     (if distinct (map cu_ref us) \<and> (\<forall>u \<in> set us. \<not> credential_update_incomplete u \<and> cu_ref u \<notin> seen \<and>
          (\<exists>c. by_ref cm_ref existing (cu_ref u) = Some c \<and> cm_provider c = cu_provider u \<and>
             cm_account_ref c = cu_account_ref u))
      then None else Some ErrInvalidCredentialStatusSnapshot)"
  by (induction us arbitrary: seen) (simp, (simp split: option.split), blast intro: rev_image_eqI sym)

lemma validate_for_repository_iff:
  "validate_updates_for_repository seen us =
     (if distinct (map cu_ref us) \<and> (\<forall>u \<in> set us. \<not> credential_update_incomplete u \<and> cu_ref u \<notin> seen)
      then None else Some ErrInvalidCredentialStatusSnapshot)"
  by (induction us arbitrary: seen) (simp, simp, blast intro: rev_image_eqI sym)

lemma row_matches_key: "row_matches user u w \<Longrightarrow> row_key w = (user, cu_ref u)"
  by (simp add: row_matches_def row_key_def)

lemma row_matches_unique:
  assumes "table_ok rows" "w \<in> set rows" "v \<in> set rows" "row_matches user u w" "row_matches user u v"
  shows "v = w"
proof -
  have "inj_on row_key (set rows)" using assms(1) by (simp add: table_ok_def distinct_map)
  from inj_onD [OF this _ assms(3,2)] show ?thesis
    using row_matches_key [OF assms(4)] row_matches_key [OF assms(5)] by simp
qed

lemma metadata_matches:
  assumes "table_ok rows"
  shows "(\<exists>c. by_ref cm_ref (rows_of user rows) (cu_ref u) = Some c \<and> cm_provider c = cu_provider u \<and>
      cm_account_ref c = cu_account_ref u) \<longleftrightarrow> (\<exists>w \<in> set rows. row_matches user u w)"
proof
  assume "\<exists>c. by_ref cm_ref (rows_of user rows) (cu_ref u) = Some c \<and> cm_provider c = cu_provider u \<and>
      cm_account_ref c = cu_account_ref u"
  then obtain c where found: "by_ref cm_ref (rows_of user rows) (cu_ref u) = Some c"
    and c: "cm_provider c = cu_provider u" "cm_account_ref c = cu_account_ref u" by blast
  note c = by_ref_Some [OF found, THEN conjunct1] by_ref_Some [OF found, THEN conjunct2] c
  from c(1) obtain w where "w \<in> set rows" "cw_user w = user" "c = row_metadata w"
    unfolding set_rows_of by blast
  moreover from this c have "row_matches user u w" by (simp add: row_matches_def)
  ultimately show "\<exists>w \<in> set rows. row_matches user u w" by blast
next
  assume "\<exists>w \<in> set rows. row_matches user u w"
  then obtain w where w: "w \<in> set rows" "row_matches user u w" by blast
  then have "row_metadata w \<in> set (rows_of user rows)"
    unfolding set_rows_of by (simp add: row_matches_def)
  from by_ref_distinct [OF distinct_rows_of [OF assms] this] w(2)
  show "\<exists>c. by_ref cm_ref (rows_of user rows) (cu_ref u) = Some c \<and> cm_provider c = cu_provider u \<and>
      cm_account_ref c = cu_account_ref u"
    by (simp add: row_matches_def)
qed

section \<open>The loop of the transaction\<close>

definition stamp_by :: "int \<Rightarrow> gotime \<Rightarrow> gotime \<Rightarrow> credential_update list \<Rightarrow> credential_row \<Rightarrow> credential_row" where
  "stamp_by user t now us w =
     (case find (\<lambda>u. row_matches user u w) us of None \<Rightarrow> w | Some u \<Rightarrow> stamp_row u t now w)"

lemma row_matches_stamp [simp]: "row_matches user u (stamp_row v t now w) = row_matches user u w"
  by (simp add: row_matches_def stamp_row_def)

lemma stamp_by_fields:
  "cw_user (stamp_by user t now us w) = cw_user w" "cw_ref (stamp_by user t now us w) = cw_ref w"
  by (simp_all add: stamp_by_def stamp_row_def split: option.split)

lemma one_match:
  assumes "table_ok rows"
  shows "length (filter (row_matches user u) rows) = 1 \<longleftrightarrow> (\<exists>w \<in> set rows. row_matches user u w)"
proof (cases "filter (row_matches user u) rows")
  case Nil
  then have "\<forall>w \<in> set rows. \<not> row_matches user u w" by (simp add: filter_empty_conv)
  with Nil show ?thesis by simp
next
  case (Cons w ws)
  then have in_rows: "set (w # ws) \<subseteq> {v \<in> set rows. row_matches user u v}"
    unfolding Cons [symmetric] by auto
  have "distinct (filter (row_matches user u) rows)"
    using assms by (simp add: table_ok_def distinct_map)
  with Cons have d: "distinct (w # ws)" by simp
  have "ws = []"
  proof (cases ws)
    case (Cons v vs)
    with in_rows have "v = w" using row_matches_unique [OF assms, of w v user u] by simp
    with d Cons show ?thesis by simp
  qed simp
  with Cons in_rows show ?thesis by auto
qed

lemma refresh_rows_eq:
  assumes "table_ok rows" "distinct (map cu_ref us)"
  shows "refresh_rows user t now us rows =
    (if \<forall>u \<in> set us. \<exists>w \<in> set rows. row_matches user u w then Inr (map (stamp_by user t now us) rows)
     else Inl ErrInvalidCredentialStatusSnapshot)"
  using assms
proof (induction us arbitrary: rows)
  case Nil
  then show ?case by (simp add: stamp_by_def map_idI)
next
  case (Cons u us)
  let ?g = "\<lambda>w. if row_matches user u w then stamp_row u t now w else w"
  have ok: "table_ok (map ?g rows)"
    by (rule table_ok_map [OF Cons.prems(1)]) (simp add: row_key_def row_account_def stamp_row_def)
  have m: "row_matches user v (?g w) = row_matches user v w" for v w by simp
  have "stamp_by user t now us (?g w) = stamp_by user t now (u # us) w" for w
  proof (cases "row_matches user u w")
    case True
    have "\<not> row_matches user v w" if "v \<in> set us" for v
      using Cons.prems(2) that True by (force simp: row_matches_def)
    then have "find (\<lambda>v. row_matches user v w) us = None" by (simp add: find_None_iff)
    with True show ?thesis by (simp add: stamp_by_def)
  qed (simp add: stamp_by_def)
  then have "map (stamp_by user t now us) (map ?g rows) = map (stamp_by user t now (u # us)) rows" by simp
  moreover have "(\<exists>w \<in> set (map ?g rows). row_matches user v w) = (\<exists>w \<in> set rows. row_matches user v w)" for v
    using m by (simp only: set_map bex_simps(7))
  ultimately show ?case
    using Cons.IH [OF ok] Cons.prems(2) one_match [OF Cons.prems(1), of user u] by simp
qed

section \<open>The refinement\<close>

text \<open>A time cut to the millisecond of the wire format prints as before.\<close>

lemma wire_format_floor: "wire_format \<lparr>inst = floor_ms (inst t), zone = 0\<rparr> = wire_format t"
proof -
  let ?c = "civil_of (inst t)"
  let ?d = "?c\<lparr>c_nsec := c_nsec ?c div millisecond * millisecond\<rparr>"
  have v: "valid_civil ?c" by (rule civil_of_valid)
  note k = nsec_div_ms [OF v]
  have "c_nsec ?c div millisecond * millisecond < 1000 * millisecond"
    using k by (intro mult_strict_right_mono) simp_all
  then have "valid_civil ?d" using v k by (simp add: valid_civil_def)
  then have "civil_of (instant_of ?d) = ?d" by (rule civil_of_instant_of)
  then have "civil_of (floor_ms (inst t)) = ?d" by (simp only: civil_of_floor_ms)
  then show ?thesis by (simp add: wire_format_def Let_def date_string_def clock_string_def)
qed

definition floor_time :: "gotime \<Rightarrow> gotime" where
  "floor_time t = \<lparr>inst = floor_ms (inst t), zone = 0\<rparr>"

text \<open>
  The database stamps \<open>updated_at\<close> with its own time, the store in memory with the stamp of the check: the
  items that an update names, with another update time.
\<close>

definition restamped :: "credential_update list \<Rightarrow> string \<Rightarrow> credential_metadata \<Rightarrow> credential_metadata" where
  "restamped us at c = (if by_ref cu_ref us (cm_ref c) = None then c else c\<lparr>cm_updated_at := at\<rparr>)"

lemma stamp_row_metadata:
  "row_metadata (stamp_row u (floor_time t) now w) =
     (stamp_credential u (wire_format t) (row_metadata w))\<lparr>cm_updated_at := wire_format now\<rparr>"
  by (simp add: row_metadata_def stamp_row_def stamp_credential_def floor_time_def wire_format_floor)

lemma stamp_credential_ref [simp]: "cm_ref (stamp_credential u at c) = cm_ref c"
  by (simp add: stamp_credential_def)

lemma stamp_by_metadata:
  assumes ok: "table_ok rows" and w: "w \<in> set rows" "cw_user w = user"
    and d: "distinct (map cu_ref us)" and m: "\<forall>u \<in> set us. \<exists>v \<in> set rows. row_matches user u v"
  shows "row_metadata (stamp_by user (floor_time t) now us w) = restamped us (wire_format now)
    (case by_ref cu_ref us (cm_ref (row_metadata w)) of
       None \<Rightarrow> row_metadata w | Some u \<Rightarrow> stamp_credential u (wire_format t) (row_metadata w))"
proof (cases "by_ref cu_ref us (cw_ref w)")
  case None
  then have "find (\<lambda>u. row_matches user u w) us = None"
    by (auto simp: by_ref_None find_None_iff row_matches_def)
  with None show ?thesis by (simp add: stamp_by_def restamped_def)
next
  case (Some u)
  note u = by_ref_Some [OF Some]
  from m u obtain v where v: "v \<in> set rows" "row_matches user u v" by blast
  have "inj_on row_key (set rows)" using ok by (simp add: table_ok_def distinct_map)
  from inj_onD [OF this _ v(1) w(1)] have "v = w"
    using row_matches_key [OF v(2)] u w(2) by (simp add: row_key_def)
  with v(2) have uw: "row_matches user u w" by simp
  then have "find (\<lambda>x. row_matches user x w) us \<noteq> None" using u by (auto simp: find_None_iff)
  then obtain x where x: "find (\<lambda>x. row_matches user x w) us = Some x" by blast
  have "x \<in> set us" "cu_ref x = cu_ref u"
    using find_Some_in [OF x] uw by (simp_all add: row_matches_def)
  then have "x = u" using d u by (auto simp: distinct_map inj_on_def)
  with x Some show ?thesis by (simp add: stamp_by_def stamp_row_metadata restamped_def)
qed

text \<open>
  C30: the status refresh in the database refines the one in memory. On a consistent table, for any
  checked-at stamp in the wire format, that of the API's clock, and any time of the database, the
  transaction accepts exactly the updates the store's own check accepts for the list read from the table,
  and fails with the same error otherwise; the list it returns is the list the store would have computed
  in memory, but that the update time of the refreshed items is the database's and not the stamp's.
\<close>
theorem credential_refresh_refines:
  assumes "table_ok (cd_rows db)" and "four_digit_year (inst t)"
  shows "fst (pg_refresh_credentials user us (wire_format t) db) =
    (case validate_credential_updates (rows_of user (cd_rows db)) us of
       Some e \<Rightarrow> Inl e
     | None \<Rightarrow> Inr (map (restamped us (wire_format (cd_now db)))
         (apply_credential_updates (rows_of user (cd_rows db)) us (wire_format t))))"
proof -
  let ?rows = "cd_rows db" and ?now = "cd_now db"
  let ?f = "stamp_by user (floor_time t) ?now us"
  let ?good = "distinct (map cu_ref us) \<and> (\<forall>u \<in> set us. \<not> credential_update_incomplete u)"
  let ?met = "\<forall>u \<in> set us. \<exists>w \<in> set ?rows. row_matches user u w"
  have parse: "parse_wire (wire_format t) = Some (floor_time t)"
    using parse_wire_format [OF assms(2)] by (simp add: floor_time_def)
  have stamp: "wire_format t \<noteq> []" by (simp add: wire_format_def Let_def)
  have memory: "validate_credential_updates (rows_of user ?rows) us =
      (if ?good \<and> ?met then None else Some ErrInvalidCredentialStatusSnapshot)"
    unfolding validate_credential_updates_def validate_updates_from_iff metadata_matches [OF assms(1)] by auto
  show ?thesis
  proof (cases ?good)
    case False
    then have "validate_updates_for_repository {} us = Some ErrInvalidCredentialStatusSnapshot"
      unfolding validate_for_repository_iff by auto
    moreover have "validate_credential_updates (rows_of user ?rows) us = Some ErrInvalidCredentialStatusSnapshot"
      using memory False by argo
    ultimately show ?thesis by (simp add: pg_refresh_credentials_def)
  next
    case True
    then have "distinct (map cu_ref us)" by blast
    note rows = refresh_rows_eq [OF assms(1) this, of user "floor_time t" ?now]
    have db: "validate_updates_for_repository {} us = None"
      using True by (simp add: validate_for_repository_iff)
    show ?thesis
    proof (cases ?met)
      case False
      then have "refresh_rows user (floor_time t) ?now us ?rows = Inl ErrInvalidCredentialStatusSnapshot"
        unfolding rows by (rule if_not_P)
      moreover have "validate_credential_updates (rows_of user ?rows) us = Some ErrInvalidCredentialStatusSnapshot"
        using memory False by argo
      ultimately show ?thesis by (simp add: pg_refresh_credentials_def db parse stamp Let_def)
    next
      case met: True
      let ?ws = "sort_by (\<lambda>l r. cw_ref l \<le> cw_ref r) (filter (\<lambda>w. cw_user w = user) ?rows)"
      have "rows_of user (map ?f ?rows) = map row_metadata (map ?f ?ws)"
        by (rule rows_of_map) (simp_all add: stamp_by_fields)
      also have "\<dots> = map (restamped us (wire_format ?now)) (apply_credential_updates (rows_of user ?rows) us (wire_format t))"
        unfolding apply_credential_updates_def clone_rows_of
        unfolding rows_of_def map_map
        by (rule map_cong [OF refl]) (use stamp_by_metadata [OF assms(1)] True met in \<open>simp add: comp_def\<close>)
      finally have "rows_of user (map ?f ?rows) =
        map (restamped us (wire_format ?now)) (apply_credential_updates (rows_of user ?rows) us (wire_format t))" .
      moreover have "refresh_rows user (floor_time t) ?now us ?rows = Inr (map ?f ?rows)"
        unfolding rows using met by (rule if_P)
      moreover have "validate_credential_updates (rows_of user ?rows) us = None"
        using memory True met by argo
      ultimately show ?thesis
        by (simp add: pg_refresh_credentials_def db parse stamp Let_def pg_read_credentials_def)
    qed
  qed
qed

end
