(* ===== verification/ProviderInstall.thy ===== *)
theory ProviderInstall
  imports AppsProvider AppsProgress AppsDemo CredentialsRefresh
begin

text \<open>
  The providers of the app-install store's ports: the fixture OAuth port and the credential store
  over its repository keep the contract of \<open>oauth_provider\<close>, so that with them an install that
  waits for the external authorization can be carried through to an active installation.
\<close>

section \<open>The ports keep the contract\<close>

definition credential_store_port ::
    "(string \<Rightarrow> string) \<Rightarrow> credential_secret \<Rightarrow> (credential_env, credential_receipt) repo_call" where
  "credential_store_port sha k =
     credential_port (store_provider_credential sha (Some pg_credential_repository)
       (Some store_token_payload) k)"

definition credentials_ready :: "credential_env \<Rightarrow> bool" where
  "credentials_ready env \<longleftrightarrow> table_ok (cd_rows env) \<and> refs_ok (cd_rows env)"

lemma not_blank_parts:
  "\<not> blank (p @ ''-account-'' @ r)" "\<not> blank (''fixture-oauth-'' @ r)"
  "\<not> blank (''fixture-provider-access-'' @ r)" "\<not> blank (''fixture-provider-refresh-'' @ r)"
proof -
  have v: "visible CHR ''a''" "visible CHR ''f''" by code_simp+
  show "\<not> blank (p @ ''-account-'' @ r)"
    by (rule not_blank_visible [OF _ v(1)]) simp
  show "\<not> blank (''fixture-oauth-'' @ r)" "\<not> blank (''fixture-provider-access-'' @ r)"
    "\<not> blank (''fixture-provider-refresh-'' @ r)"
    by (rule not_blank_visible [OF _ v(2)], simp)+
qed

interpretation fixture_ports: oauth_provider "fixture_oauth_port sha" "credential_store_port sha"
  credentials_ready for sha
proof
  fix env :: credential_env and input
  assume "credentials_ready env" "complete_input input"
  then show "\<exists>r env'. fixture_oauth_port sha input env = (Inr r, env') \<and> credentials_ready env' \<and>
      validate_oauth_result r = None"
    using not_blank_parts
    by (auto simp: fixture_oauth_port_def complete_input_def validate_oauth_result_def Let_def)
next
  fix env :: credential_env and k
  assume ready: "credentials_ready env" and k: "complete_secret k"
  have "validate_credential_secret k = None"
    using k by (simp add: complete_secret_def validate_credential_secret_def)
  note run = provider_credential_run [OF _ _ this, of env]
  let ?c = "secret_metadata (chosen_ref sha k (cd_rows env)) k"
  have "\<not> blank (cm_ref ?c)"
    using chosen_ref_ok(1) [of "cd_rows env" sha k] ready
    by (simp add: credentials_ready_def secret_metadata_def)
  moreover have "\<not> blank ''active''" by code_simp
  ultimately show "\<exists>rc env'. credential_store_port sha k env = (Inr rc, env') \<and> credentials_ready env' \<and>
      \<not> blank (kr_ref rc) \<and> \<not> blank (kr_status rc) \<and> kr_account_ref rc = ks_account_ref k \<and>
      kr_account_label rc = ks_account_label k \<and> kr_scopes rc = ks_scopes k"
    using run [where sha = sha] ready
    by (simp add: credential_store_port_def credential_port_def credentials_ready_def)
qed

section \<open>An install that waits can be carried through\<close>

text \<open>
  C14: in every reachable in-memory store with the fixture provider and the credential store, an
  install intent that waits for the external authorization can be carried through: reading the
  descriptor, the authorized callback before the session expires, the token exchange, completion
  and activation all succeed, one after the other, and end with an active installation of the
  intent's user. The references drawn on the way are taken to be new.
\<close>
theorem install_carried_through:
  assumes "apps_reach s" and "gm_get (st_intents s) ref = Some i" and "ii_user i = user"
    and "ii_status i = st_requires_auth" and "\<not> blank ref" and "\<not> blank code"
    and "st_oauth_port s = Some (fixture_oauth_port sha)"
    and "st_credentials s = Some (credential_store_port sha)"
    and "credentials_ready (st_env s)" and "fresh_install t1 t2 e1 e2 e3 e4 s"
  shows "\<exists>d s1 p s2 x rc s3 c s4 a s5.
    read_auth_descriptor user ref t1 e1 s = (Inr d, s1) \<and>
    preflight_callback user ref \<lparr>pr_state_ref = ad_state_ref d, pr_callback_status = cb_authorized\<rparr> t2 e2 s1 =
      (Inr p, s2) \<and>
    exchange_provider_oauth user ref \<lparr>oe_state_ref = ad_state_ref d, oe_preflight = cp_ref p,
      oe_code = code, oe_redirect_uri = uri\<rparr> t3 e3 s2 = (Inr (x, rc), s3) \<and>
    complete_install user ref (px_ref x) t4 e4 s3 = (Inr c, s4) \<and>
    activate_installation user ref (ic_ref c) t5 e5 s4 = (Inr a, s5) \<and>
    ic_status c = st_installed \<and> ai_status a = ''active'' \<and> ai_user a = user \<and> ai_intent a = ref"
  by (rule fixture_ports.install_goes_through [OF reach_inv [OF assms(1)] assms(2-10)])

text \<open>A store of the run, with the ports set.\<close>

definition ports_start :: "credential_env apps_store" where
  "ports_start = new_apps_store None (Some (fixture_oauth_port (\<lambda>s. ''00''))) 
     (Some (credential_store_port (\<lambda>s. ''00'')))
     \<lparr>cd_rows = [], cd_now = flow_time, cd_secrets = Map.empty\<rparr>"

definition ports_created :: "credential_env apps_store" where
  "ports_created = ports_start\<lparr>st_catalog := fixture_app_catalog, st_loaded := True,
     st_intents := [(flow_intent_ref, flow_intent\<lparr>ii_status := st_pending\<rparr>)]\<rparr>"

definition ports_marked :: "credential_env apps_store" where
  "ports_marked = ports_created\<lparr>st_intents := [(flow_intent_ref, flow_intent)]\<rparr>"

lemmas ports_stores = ports_start_def ports_created_def ports_marked_def new_apps_store_def

lemma ports_run:
  "run_apps_op (OpCreateIntent 123 ''google-calendar'' flow_time flow_entropy) ports_start =
     (None, ports_created)"
  "run_apps_op (OpMarkIntent 123 flow_intent_ref flow_time) ports_created = (None, ports_marked)"
  by (simp add: create_install_intent_def flow_step ports_stores flow_records)
    (simp add: mark_intent_requires_auth_def flow_step ports_stores flow_records)

lemma ports_reach: "apps_reach ports_marked"
proof -
  have start: "apps_reach ports_start" unfolding ports_start_def by (rule apps_reach.start)
  have created: "apps_reach ports_created"
    by (rule apps_reach.step [OF start _ ports_run(1)]) (simp add: ports_stores)
  show ?thesis by (rule apps_reach.step [OF created _ ports_run(2)]) simp
qed

lemma install_carried_through_witness:
  "\<exists>d s1 p s2 x rc s3 c s4 a s5.
    read_auth_descriptor 123 flow_intent_ref flow_time flow_entropy ports_marked = (Inr d, s1) \<and>
    preflight_callback 123 flow_intent_ref
      \<lparr>pr_state_ref = ad_state_ref d, pr_callback_status = cb_authorized\<rparr> flow_time flow_entropy s1 =
      (Inr p, s2) \<and>
    exchange_provider_oauth 123 flow_intent_ref \<lparr>oe_state_ref = ad_state_ref d, oe_preflight = cp_ref p,
      oe_code = ''code'', oe_redirect_uri = []\<rparr> flow_time flow_entropy s2 = (Inr (x, rc), s3) \<and>
    complete_install 123 flow_intent_ref (px_ref x) flow_time flow_entropy s3 = (Inr c, s4) \<and>
    activate_installation 123 flow_intent_ref (ic_ref c) flow_time flow_entropy s4 = (Inr a, s5) \<and>
    ic_status c = st_installed \<and> ai_status a = ''active'' \<and> ai_user a = 123 \<and> ai_intent a = flow_intent_ref"
proof (rule install_carried_through [OF ports_reach, where sha = "\<lambda>s. ''00''"])
  show "gm_get (st_intents ports_marked) flow_intent_ref = Some flow_intent" "ii_user flow_intent = 123"
    "ii_status flow_intent = st_requires_auth"
    by (simp_all add: ports_stores flow_intent_def)
  show "\<not> blank flow_intent_ref" "\<not> blank ''code''" by code_simp+
  show "st_oauth_port ports_marked = Some (fixture_oauth_port (\<lambda>s. ''00''))"
    "st_credentials ports_marked = Some (credential_store_port (\<lambda>s. ''00''))"
    "credentials_ready (st_env ports_marked)"
    by (simp_all add: ports_stores credentials_ready_def table_ok_def refs_ok_def)
  have "four_digit_year 600000000000" by code_simp
  then show "fresh_install flow_time flow_time flow_entropy flow_entropy flow_entropy flow_entropy ports_marked"
    by (simp add: fresh_install_def ports_stores flow_time_def floor_ms_def)
qed

section \<open>Witnesses of the credential table\<close>

definition table_demo :: credential_env where
  "table_demo = \<lparr>cd_rows = [\<lparr>cw_user = 7, cw_ref = ''cred-1'', cw_app = ''google-calendar'',
      cw_category = ''calendar'', cw_provider = ''google'', cw_account_ref = ''acct'',
      cw_account_label = ''me'', cw_status = ''expired'', cw_status_code = None, cw_checked_at = None,
      cw_scopes = [''calendar.read''], cw_created_at = flow_time, cw_updated_at = flow_time\<rparr>],
    cd_now = flow_time, cd_secrets = Map.empty\<rparr>"

definition secret_demo :: credential_secret where
  "secret_demo = \<lparr>ks_user = 7, ks_app = ''google-calendar'', ks_category = ''calendar'',
     ks_provider = ''google'', ks_account_ref = ''acct'', ks_account_label = ''me'',
     ks_scopes = [''calendar.read''],
     ks_token = \<lparr>tp_access = ''a'', tp_refresh = ''r'', tp_type = ''Bearer'', tp_expires_at = [], tp_raw = []\<rparr>\<rparr>"

lemma demo_table: "table_ok (cd_rows table_demo)" "refs_ok (cd_rows table_demo)"
proof -
  have "\<not> blank ''cred-1''" by code_simp
  then show "table_ok (cd_rows table_demo)" "refs_ok (cd_rows table_demo)"
    by (simp_all add: table_ok_def refs_ok_def table_demo_def)
qed

lemma credential_table_invariant_witness:
  "table_ok (cd_rows (snd (pg_save_credential 7 (secret_metadata ''cred-1'' secret_demo) table_demo)))"
  using credential_table_invariant [OF demo_table(1)] by blast

text \<open>Storing the account again keeps its reference.\<close>

lemma provider_credential_filed_witness:
  "\<exists>receipt db'. store_provider_credential (\<lambda>s. ''00'') (Some pg_credential_repository)
      (Some store_token_payload) secret_demo table_demo = (Inr receipt, db') \<and>
    kr_ref receipt = ''cred-1'' \<and> cd_secrets db' = [''cred-1'' \<mapsto> secret_demo]"
proof -
  have "\<not> blank ''google-calendar'' \<and> \<not> blank ''calendar'' \<and> \<not> blank ''google'' \<and> \<not> blank ''acct'' \<and>
    \<not> blank ''me'' \<and> \<not> blank ''a'' \<and> \<not> blank ''r''" by code_simp
  then have "validate_credential_secret secret_demo = None"
    by (simp add: validate_credential_secret_def secret_demo_def)
  from provider_credential_filed [OF demo_table this, where sha = "\<lambda>s. ''00''"] obtain receipt db' w where
    r: "store_provider_credential (\<lambda>s. ''00'') (Some pg_credential_repository)
      (Some store_token_payload) secret_demo table_demo = (Inr receipt, db')"
    and s: "cd_secrets db' = (cd_secrets table_demo)(kr_ref receipt \<mapsto> secret_demo)"
    and one: "{v \<in> set (cd_rows db'). row_account v = (ks_user secret_demo, ks_provider secret_demo,
      ks_account_ref secret_demo)} = {w}"
    and w: "row_key w = (ks_user secret_demo, kr_ref receipt)"
      "\<forall>v \<in> set (cd_rows table_demo). row_account v = row_account w \<longrightarrow> row_key v = row_key w"
    by (elim exE conjE) (rule that)
  from one have "row_account w = (7, ''google'', ''acct'')" by (auto simp: secret_demo_def)
  with w have "kr_ref receipt = ''cred-1''"
    by (simp add: table_demo_def row_account_def row_key_def)
  with r s show ?thesis by (simp add: table_demo_def)
qed

text \<open>A refresh that reports the account as active, checked a second after the database's time.\<close>

lemma credential_refresh_refines_witness:
  "\<exists>c. fst (pg_refresh_credentials 7 [\<lparr>cu_ref = ''cred-1'', cu_provider = ''google'',
       cu_account_ref = ''acct'', cu_status = ''active'', cu_status_code = ''ok''\<rparr>]
     (wire_format (add_ns (cd_now table_demo) second)) table_demo) = Inr [c] \<and> cm_status c = ''active'' \<and>
     cm_checked_at c = wire_format (add_ns (cd_now table_demo) second) \<and> cm_updated_at c = wire_format (cd_now table_demo)"
proof -
  have "four_digit_year (inst (add_ns (cd_now table_demo) second))" unfolding table_demo_def flow_time_def by code_simp
  note refines = credential_refresh_refines [OF demo_table(1) this]
  show ?thesis
    unfolding refines
    by (simp add: table_demo_def rows_of_def row_metadata_def validate_credential_updates_def
        apply_credential_updates_def credential_update_incomplete_def by_ref_def restamped_def
        clone_credential_metadata_def stamp_credential_def)
qed

end
