(* ===== verification/Calendars.thy ===== *)
theory Calendars
  imports Integrations GoTime
begin

text \<open>
  The calendar store (\<open>internal/calendars/store.go\<close>): the connections, catalog, selected calendars
  and destination calendar it caches by user, over an optional repository and the catalog and
  status providers, which are functions over an environment. The mutex makes an operation one
  step. Copies of slices are not modelled: no list is shared.
\<close>

section \<open>Data\<close>

datatype calendar_error =
    ErrInvalidSelectedCalendar
  | ErrInvalidSelectedCalendarRef
  | ErrInvalidDestinationCalendarRef
  | ErrCalendarCatalogEntryNotFound
  | ErrCalendarCatalogProviderUnset
  | ErrCalendarStatusProviderUnset
  | ErrInvalidCalendarCatalogSnapshot
  | ErrInvalidCalendarStatusSnapshot
  | ProviderCatalogError calendar_error
  | CalendarUpstream string

record calendar_connection =
  cc_ref :: string
  cc_provider :: string
  cc_account_ref :: string
  cc_email :: string
  cc_status :: string
  cc_status_code :: string
  cc_checked_at :: string

record catalog_calendar =
  ka_ref :: string
  ka_connection :: string
  ka_provider :: string
  ka_external :: string
  ka_name :: string
  ka_primary :: bool
  ka_writable :: bool

record status_transition =
  tr_connection :: string
  tr_provider :: string
  tr_previous :: string
  tr_next :: string
  tr_reason :: string

record connection_update =
  cv_ref :: string
  cv_provider :: string
  cv_account_ref :: string
  cv_status :: string
  cv_status_code :: string

record selected_calendar =
  se_ref :: string
  se_provider :: string
  se_external :: string
  se_name :: string

record delete_selected_result =
  del_removed :: bool
  del_cleared :: bool

text \<open>A provider's answer (\<open>internal/calendar/provider.go\<close>).\<close>

record provider_connection =
  pn_ref :: string
  pn_provider :: string
  pn_account_ref :: string
  pn_email :: string
  pn_status :: string

record catalog_snapshot =
  sc_connections :: "provider_connection list"
  sc_calendars :: "catalog_calendar list"

type_synonym ('d, 'a) calendar_call = "'d \<Rightarrow> (calendar_error + 'a) \<times> 'd"

record 'd calendar_repository =
  kr_connections :: "int \<Rightarrow> ('d, calendar_connection list) calendar_call"
  kr_save_connection :: "int \<Rightarrow> calendar_connection \<Rightarrow> ('d, calendar_connection) calendar_call"
  kr_sync :: "int \<Rightarrow> calendar_connection list \<Rightarrow> catalog_calendar list \<Rightarrow> string \<Rightarrow>
    ('d, calendar_connection list \<times> catalog_calendar list) calendar_call"
  kr_refresh :: "int \<Rightarrow> connection_update list \<Rightarrow> string \<Rightarrow> string \<Rightarrow>
    ('d, calendar_connection list) calendar_call"
  kr_catalog :: "int \<Rightarrow> ('d, catalog_calendar list) calendar_call"
  kr_catalog_calendar :: "int \<Rightarrow> string \<Rightarrow> ('d, catalog_calendar option) calendar_call"
  kr_save_catalog :: "int \<Rightarrow> catalog_calendar \<Rightarrow> ('d, catalog_calendar) calendar_call"
  kr_selected :: "int \<Rightarrow> ('d, selected_calendar list) calendar_call"
  kr_save_selected :: "int \<Rightarrow> selected_calendar \<Rightarrow> ('d, selected_calendar) calendar_call"
  kr_delete_selected :: "int \<Rightarrow> string \<Rightarrow> ('d, delete_selected_result) calendar_call"
  kr_destination :: "int \<Rightarrow> ('d, selected_calendar option) calendar_call"
  kr_set_destination :: "int \<Rightarrow> string \<Rightarrow> ('d, selected_calendar option) calendar_call"

record 'd calendar_store =
  cal_repo :: "'d calendar_repository option"
  cal_catalog_provider :: "(int \<Rightarrow> ('d, catalog_snapshot) calendar_call) option"
  cal_status_provider :: "(int \<Rightarrow> ('d, status_snapshot) calendar_call) option"
  cal_connections :: "int \<rightharpoonup> calendar_connection list"
  cal_catalog :: "int \<rightharpoonup> catalog_calendar list"
  cal_selected :: "int \<rightharpoonup> selected_calendar list"
  cal_destination :: "int \<rightharpoonup> string"
  cal_db :: 'd

type_synonym ('d, 'a) calendar_handler = "('d calendar_store, calendar_error, 'a) handler"

definition new_calendar_store ::
    "'d calendar_repository option \<Rightarrow> (int \<Rightarrow> ('d, catalog_snapshot) calendar_call) option \<Rightarrow>
     (int \<Rightarrow> ('d, status_snapshot) calendar_call) option \<Rightarrow> 'd \<Rightarrow> 'd calendar_store" where
  "new_calendar_store repo catalog_provider status_provider db =
     \<lparr>cal_repo = repo, cal_catalog_provider = catalog_provider, cal_status_provider = status_provider,
      cal_connections = Map.empty, cal_catalog = Map.empty, cal_selected = Map.empty,
      cal_destination = Map.empty, cal_db = db\<rparr>"

text \<open>Go map reads: a missing key is a nil slice, or the empty string.\<close>

definition connections_of :: "'d calendar_store \<Rightarrow> int \<Rightarrow> calendar_connection list" where
  "connections_of s user = (case cal_connections s user of None \<Rightarrow> [] | Some xs \<Rightarrow> xs)"

definition catalog_of :: "'d calendar_store \<Rightarrow> int \<Rightarrow> catalog_calendar list" where
  "catalog_of s user = (case cal_catalog s user of None \<Rightarrow> [] | Some xs \<Rightarrow> xs)"

definition selected_of :: "'d calendar_store \<Rightarrow> int \<Rightarrow> selected_calendar list" where
  "selected_of s user = (case cal_selected s user of None \<Rightarrow> [] | Some xs \<Rightarrow> xs)"

definition destination_of :: "'d calendar_store \<Rightarrow> int \<Rightarrow> string" where
  "destination_of s user = (case cal_destination s user of None \<Rightarrow> [] | Some ref \<Rightarrow> ref)"

section \<open>Fixtures\<close>

definition calendar_fixture_user :: int where
  "calendar_fixture_user = 123"

abbreviation fixture_destination_ref :: string where
  "fixture_destination_ref \<equiv> ''destination-calendar-fixture''"

definition fixture_connections :: "int \<Rightarrow> calendar_connection list" where
  "fixture_connections user =
     (if user \<noteq> calendar_fixture_user then []
      else [\<lparr>cc_ref = ''google-calendar-connection-fixture'', cc_provider = ''google-calendar-fixture'',
             cc_account_ref = ''google-account-fixture'', cc_email = ''fixture-user@example.test'',
             cc_status = ''active'', cc_status_code = [], cc_checked_at = []\<rparr>])"

definition fixture_catalog :: "int \<Rightarrow> catalog_calendar list" where
  "fixture_catalog user =
     (if user \<noteq> calendar_fixture_user then []
      else [\<lparr>ka_ref = fixture_destination_ref, ka_connection = ''google-calendar-connection-fixture'',
             ka_provider = ''google-calendar-fixture'', ka_external = ''google-calendar-destination'',
             ka_name = ''Fixture Destination Calendar'', ka_primary = True, ka_writable = True\<rparr>,
            \<lparr>ka_ref = ''selected-calendar-fixture'', ka_connection = ''google-calendar-connection-fixture'',
             ka_provider = ''google-calendar-fixture'', ka_external = ''google-calendar-selected'',
             ka_name = ''Fixture Selected Calendar'', ka_primary = False, ka_writable = True\<rparr>,
            \<lparr>ka_ref = ''team-calendar-fixture'', ka_connection = ''google-calendar-connection-fixture'',
             ka_provider = ''google-calendar-fixture'', ka_external = ''google-calendar-team'',
             ka_name = ''Fixture Team Calendar'', ka_primary = False, ka_writable = True\<rparr>])"

definition to_selected :: "catalog_calendar \<Rightarrow> selected_calendar" where
  "to_selected c = \<lparr>se_ref = ka_ref c, se_provider = ka_provider c, se_external = ka_external c,
     se_name = ka_name c\<rparr>"

definition fixture_selected :: "int \<Rightarrow> selected_calendar list" where
  "fixture_selected user =
     (if user \<noteq> calendar_fixture_user then []
      else [to_selected (fixture_catalog user ! 0), to_selected (fixture_catalog user ! 1)])"

section \<open>Orders\<close>

definition sort_selected :: "selected_calendar list \<Rightarrow> selected_calendar list" where
  "sort_selected = sort_by (\<lambda>l r. se_ref l \<le> se_ref r)"

definition sort_connections :: "calendar_connection list \<Rightarrow> calendar_connection list" where
  "sort_connections = sort_by (\<lambda>l r. cc_ref l \<le> cc_ref r)"

definition sort_catalog :: "catalog_calendar list \<Rightarrow> catalog_calendar list" where
  "sort_catalog = sort_by (\<lambda>l r. ka_ref l \<le> ka_ref r)"

section \<open>Provider snapshots\<close>

definition connection_incomplete :: "calendar_connection \<Rightarrow> bool" where
  "connection_incomplete c =
     (cc_ref c = [] \<or> cc_provider c = [] \<or> cc_account_ref c = [] \<or> cc_email c = [] \<or> cc_status c = [])"

definition catalog_incomplete :: "catalog_calendar \<Rightarrow> bool" where
  "catalog_incomplete c =
     (ka_ref c = [] \<or> ka_connection c = [] \<or> ka_provider c = [] \<or> ka_external c = [] \<or> ka_name c = [])"

fun connections_from_provider :: "provider_connection list \<Rightarrow> calendar_error + calendar_connection list" where
  "connections_from_provider [] = Inr []"
| "connections_from_provider (x # xs) =
     (if pn_ref x = [] \<or> pn_provider x = [] \<or> pn_account_ref x = [] \<or> pn_email x = [] \<or> pn_status x = []
      then Inl ErrInvalidCalendarCatalogSnapshot
      else case connections_from_provider xs of
        Inl e \<Rightarrow> Inl e
      | Inr cs \<Rightarrow> Inr (\<lparr>cc_ref = pn_ref x, cc_provider = pn_provider x, cc_account_ref = pn_account_ref x,
          cc_email = pn_email x, cc_status = pn_status x, cc_status_code = [], cc_checked_at = []\<rparr> # cs))"

fun catalog_from_provider :: "catalog_calendar list \<Rightarrow> calendar_error + catalog_calendar list" where
  "catalog_from_provider [] = Inr []"
| "catalog_from_provider (x # xs) =
     (if ka_ref x = [] \<or> ka_connection x = [] \<or> ka_provider x = [] \<or> ka_external x = [] \<or> ka_name x = []
      then Inl ErrInvalidCalendarCatalogSnapshot
      else case catalog_from_provider xs of
        Inl e \<Rightarrow> Inl e
      | Inr cs \<Rightarrow> Inr (\<lparr>ka_ref = ka_ref x, ka_connection = ka_connection x, ka_provider = ka_provider x,
          ka_external = ka_external x, ka_name = ka_name x, ka_primary = ka_primary x,
          ka_writable = ka_writable x\<rparr> # cs))"

text \<open>The two loops of \<open>validateProviderCatalog\<close> with the maps they fill.\<close>

fun connection_providers ::
    "(string \<rightharpoonup> string) \<Rightarrow> calendar_connection list \<Rightarrow> calendar_error + (string \<rightharpoonup> string)" where
  "connection_providers refs [] = Inr refs"
| "connection_providers refs (c # cs) =
     (if connection_incomplete c then Inl ErrInvalidCalendarCatalogSnapshot
      else if refs (cc_ref c) \<noteq> None then Inl ErrInvalidCalendarCatalogSnapshot
      else connection_providers (refs(cc_ref c \<mapsto> cc_provider c)) cs)"

definition external_key :: "catalog_calendar \<Rightarrow> string" where
  "external_key c = ka_provider c @ byte 0 # ka_external c"

fun validate_catalog_from ::
    "(string \<rightharpoonup> string) \<Rightarrow> string set \<Rightarrow> string set \<Rightarrow> catalog_calendar list \<Rightarrow> calendar_error option" where
  "validate_catalog_from providers refs externals [] = None"
| "validate_catalog_from providers refs externals (c # cs) =
     (if catalog_incomplete c then Some ErrInvalidCalendarCatalogSnapshot
      else if ka_ref c \<in> refs then Some ErrInvalidCalendarCatalogSnapshot
      else if providers (ka_connection c) \<noteq> Some (ka_provider c) then Some ErrInvalidCalendarCatalogSnapshot
      else if external_key c \<in> externals then Some ErrInvalidCalendarCatalogSnapshot
      else validate_catalog_from providers (insert (ka_ref c) refs) (insert (external_key c) externals) cs)"

definition validate_provider_catalog ::
    "calendar_connection list \<Rightarrow> catalog_calendar list \<Rightarrow> calendar_error option" where
  "validate_provider_catalog connections catalog =
     (case connection_providers Map.empty connections of
        Inl e \<Rightarrow> Some e
      | Inr providers \<Rightarrow> validate_catalog_from providers {} {} catalog)"

section \<open>Status updates\<close>

fun connection_updates_from_provider ::
    "connection_status list \<Rightarrow> calendar_error + connection_update list" where
  "connection_updates_from_provider [] = Inr []"
| "connection_updates_from_provider (x # xs) =
     (if nt_ref x = [] \<or> nt_provider x = [] \<or> nt_account_ref x = [] \<or> nt_status x = []
      then Inl ErrInvalidCalendarStatusSnapshot
      else case connection_updates_from_provider xs of
        Inl e \<Rightarrow> Inl e
      | Inr us \<Rightarrow> Inr (\<lparr>cv_ref = nt_ref x, cv_provider = nt_provider x, cv_account_ref = nt_account_ref x,
          cv_status = nt_status x, cv_status_code = nt_status_code x\<rparr> # us))"

definition connection_update_incomplete :: "connection_update \<Rightarrow> bool" where
  "connection_update_incomplete u =
     (cv_ref u = [] \<or> cv_provider u = [] \<or> cv_account_ref u = [] \<or> cv_status u = [])"

fun validate_connection_updates_from ::
    "calendar_connection list \<Rightarrow> string set \<Rightarrow> connection_update list \<Rightarrow> calendar_error option" where
  "validate_connection_updates_from existing seen [] = None"
| "validate_connection_updates_from existing seen (u # us) =
     (if connection_update_incomplete u then Some ErrInvalidCalendarStatusSnapshot
      else if cv_ref u \<in> seen then Some ErrInvalidCalendarStatusSnapshot
      else case by_ref cc_ref existing (cv_ref u) of
        None \<Rightarrow> Some ErrInvalidCalendarStatusSnapshot
      | Some c \<Rightarrow>
          if cc_provider c \<noteq> cv_provider u \<or> cc_account_ref c \<noteq> cv_account_ref u
          then Some ErrInvalidCalendarStatusSnapshot
          else validate_connection_updates_from existing (insert (cv_ref u) seen) us)"

definition validate_connection_updates ::
    "calendar_connection list \<Rightarrow> connection_update list \<Rightarrow> calendar_error option" where
  "validate_connection_updates existing updates = validate_connection_updates_from existing {} updates"

definition stamp_connection :: "connection_update \<Rightarrow> string \<Rightarrow> calendar_connection \<Rightarrow> calendar_connection" where
  "stamp_connection u checked_at c =
     c\<lparr>cc_status := cv_status u, cc_status_code := cv_status_code u, cc_checked_at := checked_at\<rparr>"

definition apply_connection_updates ::
    "calendar_connection list \<Rightarrow> connection_update list \<Rightarrow> string \<Rightarrow> calendar_connection list" where
  "apply_connection_updates existing updates checked_at =
     map (\<lambda>c. case by_ref cv_ref updates (cc_ref c) of
           None \<Rightarrow> c | Some u \<Rightarrow> stamp_connection u checked_at c)
       (sort_connections existing)"

section \<open>Steps on the store\<close>

definition calendar_repo_call :: "('d, 'a) calendar_call \<Rightarrow> ('d, 'a) calendar_handler" where
  "calendar_repo_call call s = (case call (cal_db s) of (r, db) \<Rightarrow> (r, s\<lparr>cal_db := db\<rparr>))"

text \<open>\<open>if err := ...; err != nil { return err }\<close>.\<close>

definition reject :: "calendar_error option \<Rightarrow> ('d, 'a) calendar_handler \<Rightarrow> ('d, 'a) calendar_handler" where
  "reject err rest = (case err of Some e \<Rightarrow> fail_with e | None \<Rightarrow> rest)"

definition calendar_update :: "('d calendar_store \<Rightarrow> 'd calendar_store) \<Rightarrow> 'a \<Rightarrow> ('d, 'a) calendar_handler" where
  "calendar_update f x s = (Inr x, f s)"

definition set_connections :: "int \<Rightarrow> calendar_connection list \<Rightarrow> ('d, unit) calendar_handler" where
  "set_connections user xs =
     calendar_update (\<lambda>s. s\<lparr>cal_connections := (cal_connections s)(user \<mapsto> xs)\<rparr>) ()"

definition set_selected :: "int \<Rightarrow> selected_calendar list \<Rightarrow> 'd calendar_store \<Rightarrow> 'd calendar_store" where
  "set_selected user xs s = s\<lparr>cal_selected := (cal_selected s)(user \<mapsto> xs)\<rparr>"

definition clear_destination :: "int \<Rightarrow> 'd calendar_store \<Rightarrow> 'd calendar_store" where
  "clear_destination user s = s\<lparr>cal_destination := (cal_destination s)(user := None)\<rparr>"

definition set_destination :: "int \<Rightarrow> string \<Rightarrow> 'd calendar_store \<Rightarrow> 'd calendar_store" where
  "set_destination user ref s = s\<lparr>cal_destination := (cal_destination s)(user \<mapsto> ref)\<rparr>"

text \<open>\<open>refreshSelectedForCatalogLocked\<close>.\<close>

definition refresh_selected :: "int \<Rightarrow> 'd calendar_store \<Rightarrow> 'd calendar_store" where
  "refresh_selected user s =
     (let entry = by_ref ka_ref (catalog_of s user);
          s = (case cal_selected s user of
                 None \<Rightarrow> s
               | Some selected \<Rightarrow> set_selected user
                   (map (\<lambda>c. to_selected (the (entry (se_ref c))))
                     (filter (\<lambda>c. entry (se_ref c) \<noteq> None) selected)) s);
          ref = destination_of s user
      in if ref \<noteq> [] \<and> entry ref = None then clear_destination user s else s)"

definition apply_provider_catalog ::
    "int \<Rightarrow> calendar_connection list \<Rightarrow> catalog_calendar list \<Rightarrow> ('d, unit) calendar_handler" where
  "apply_provider_catalog user connections catalog =
     reject (validate_provider_catalog connections catalog)
       (and_then
         (reading (\<lambda>s. case cal_repo s of
            None \<Rightarrow> return_ok (connections, catalog)
          | Some repo \<Rightarrow>
              calendar_repo_call (kr_sync repo user connections catalog ''provider_catalog_sync'')))
         (\<lambda>(connections, catalog).
           calendar_update (\<lambda>s. refresh_selected user
             (s\<lparr>cal_connections := (cal_connections s)(user \<mapsto> sort_connections connections),
                cal_catalog := (cal_catalog s)(user \<mapsto> sort_catalog catalog)\<rparr>)) ()))"

section \<open>Loading\<close>

definition load_calendar_fixtures :: "int \<Rightarrow> ('d, unit) calendar_handler" where
  "load_calendar_fixtures user =
     calendar_update (\<lambda>s.
       let s = (case cal_connections s user of
             None \<Rightarrow> s\<lparr>cal_connections := (cal_connections s)(user \<mapsto> fixture_connections user)\<rparr>
           | Some _ \<Rightarrow> s);
           s = (case cal_catalog s user of
             None \<Rightarrow> s\<lparr>cal_catalog := (cal_catalog s)(user \<mapsto> fixture_catalog user)\<rparr>
           | Some _ \<Rightarrow> s);
           s = set_selected user (fixture_selected user) s
       in if user = calendar_fixture_user then set_destination user fixture_destination_ref s else s) ()"

definition provider_answer ::
    "(int \<Rightarrow> ('d, catalog_snapshot) calendar_call) \<Rightarrow> int \<Rightarrow> ('d, catalog_snapshot) calendar_call" where
  "provider_answer provider user db =
     (case provider user db of (r, db) \<Rightarrow> (map_sum ProviderCatalogError id r, db))"

definition read_provider_catalog ::
    "(int \<Rightarrow> ('d, catalog_snapshot) calendar_call) \<Rightarrow> int \<Rightarrow>
     ('d, calendar_connection list \<times> catalog_calendar list) calendar_handler" where
  "read_provider_catalog provider user =
     and_then (calendar_repo_call (provider_answer provider user)) (\<lambda>snapshot.
     and_then (lift_result (connections_from_provider (sc_connections snapshot))) (\<lambda>connections.
     and_then (lift_result (catalog_from_provider (sc_calendars snapshot))) (\<lambda>catalog.
     return_ok (connections, catalog))))"

text \<open>The catalog of the provider, where the repository has none.\<close>

definition load_from_provider ::
    "int \<Rightarrow> calendar_connection list \<Rightarrow> catalog_calendar list \<Rightarrow>
     ('d, calendar_connection list \<times> catalog_calendar list) calendar_handler" where
  "load_from_provider user connections catalog =
     reading (\<lambda>s. case cal_catalog_provider s of
        None \<Rightarrow> return_ok (connections, catalog)
      | Some provider \<Rightarrow>
          if connections = [] \<or> catalog = []
          then and_then (read_provider_catalog provider user) (\<lambda>(provider_connections, provider_catalog).
                 reject (validate_provider_catalog provider_connections provider_catalog)
                   (if provider_connections \<noteq> [] \<or> provider_catalog \<noteq> []
                    then and_then (apply_provider_catalog user provider_connections provider_catalog)
                           (\<lambda>_. reading (\<lambda>s. return_ok (connections_of s user, catalog_of s user)))
                    else return_ok (connections, catalog)))
          else return_ok (connections, catalog))"

fun run_saves :: "('a \<Rightarrow> ('d, 'b) calendar_call) \<Rightarrow> 'a list \<Rightarrow> ('d, unit) calendar_handler" where
  "run_saves save [] = return_ok ()"
| "run_saves save (x # xs) = and_then (calendar_repo_call (save x)) (\<lambda>_. run_saves save xs)"

definition seed_fixture_catalog_rows ::
    "'d calendar_repository \<Rightarrow> int \<Rightarrow> calendar_connection list \<Rightarrow> catalog_calendar list \<Rightarrow>
     ('d, calendar_connection list \<times> catalog_calendar list) calendar_handler" where
  "seed_fixture_catalog_rows repo user connections catalog =
     (if connections = [] \<and> catalog = [] \<and> user = calendar_fixture_user
      then and_then (run_saves (kr_save_connection repo user) (fixture_connections user)) (\<lambda>_.
           and_then (run_saves (kr_save_catalog repo user) (fixture_catalog user)) (\<lambda>_.
           and_then (calendar_repo_call (kr_connections repo user)) (\<lambda>connections.
           and_then (calendar_repo_call (kr_catalog repo user)) (\<lambda>catalog.
           return_ok (connections, catalog)))))
      else return_ok (connections, catalog))"

definition seed_fixture_selected ::
    "'d calendar_repository \<Rightarrow> int \<Rightarrow> selected_calendar list \<Rightarrow> selected_calendar option \<Rightarrow>
     ('d, selected_calendar list \<times> selected_calendar option) calendar_handler" where
  "seed_fixture_selected repo user selected destination =
     (if selected = [] \<and> destination = None \<and> user = calendar_fixture_user
      then and_then (run_saves (kr_save_selected repo user) (fixture_selected user)) (\<lambda>_.
           and_then (calendar_repo_call (kr_set_destination repo user fixture_destination_ref)) (\<lambda>set.
           and_then (check (set \<noteq> None) (CalendarUpstream ''seed destination calendar not found'')) (\<lambda>_.
           and_then (calendar_repo_call (kr_selected repo user)) (\<lambda>selected.
           and_then (calendar_repo_call (kr_destination repo user)) (\<lambda>destination.
           return_ok (selected, destination))))))
      else return_ok (selected, destination))"

definition load_calendars :: "'d calendar_repository \<Rightarrow> int \<Rightarrow> ('d, unit) calendar_handler" where
  "load_calendars repo user =
     and_then (calendar_repo_call (kr_connections repo user)) (\<lambda>connections.
     and_then (calendar_repo_call (kr_catalog repo user)) (\<lambda>catalog.
     and_then (calendar_repo_call (kr_selected repo user)) (\<lambda>selected.
     and_then (calendar_repo_call (kr_destination repo user)) (\<lambda>destination.
     and_then (load_from_provider user connections catalog) (\<lambda>(connections, catalog).
     and_then (seed_fixture_catalog_rows repo user connections catalog) (\<lambda>(connections, catalog).
     and_then (seed_fixture_selected repo user selected destination) (\<lambda>(selected, destination).
     calendar_update (\<lambda>s.
       let s = s\<lparr>cal_connections := (cal_connections s)(user \<mapsto> connections),
                 cal_catalog := (cal_catalog s)(user \<mapsto> catalog),
                 cal_selected := (cal_selected s)(user \<mapsto> selected)\<rparr>
       in case destination of None \<Rightarrow> s | Some c \<Rightarrow> set_destination user (se_ref c) s) ())))))))"

definition ensure_calendars_loaded :: "int \<Rightarrow> ('d, unit) calendar_handler" where
  "ensure_calendars_loaded user =
     reading (\<lambda>s. case cal_selected s user of
        Some _ \<Rightarrow> return_ok ()
      | None \<Rightarrow>
          (case cal_repo s of
             None \<Rightarrow> load_calendar_fixtures user
           | Some repo \<Rightarrow> load_calendars repo user))"

section \<open>Operations\<close>

definition read_calendar_connections :: "int \<Rightarrow> ('d, calendar_connection list) calendar_handler" where
  "read_calendar_connections user =
     and_then (ensure_calendars_loaded user) (\<lambda>_. reading (\<lambda>s. return_ok (connections_of s user)))"

definition read_catalog_calendars :: "int \<Rightarrow> ('d, catalog_calendar list) calendar_handler" where
  "read_catalog_calendars user =
     and_then (ensure_calendars_loaded user) (\<lambda>_. reading (\<lambda>s. return_ok (catalog_of s user)))"

definition read_selected_calendars :: "int \<Rightarrow> ('d, selected_calendar list) calendar_handler" where
  "read_selected_calendars user =
     and_then (ensure_calendars_loaded user) (\<lambda>_. reading (\<lambda>s. return_ok (selected_of s user)))"

definition sync_provider_catalog :: "int \<Rightarrow> ('d, unit) calendar_handler" where
  "sync_provider_catalog user =
     reading (\<lambda>s. case cal_catalog_provider s of
        None \<Rightarrow> fail_with ErrCalendarCatalogProviderUnset
      | Some provider \<Rightarrow>
          and_then (read_provider_catalog provider user) (\<lambda>(connections, catalog).
            apply_provider_catalog user connections catalog))"

definition apply_connection_status :: "int \<Rightarrow> connection_update list \<Rightarrow> gotime \<Rightarrow> ('d, unit) calendar_handler" where
  "apply_connection_status user updates now =
     and_then (ensure_calendars_loaded user) (\<lambda>_. reading (\<lambda>s.
       let checked_at = wire_format now in
       reject (validate_connection_updates (connections_of s user) updates)
         (case cal_repo s of
            None \<Rightarrow> set_connections user
              (apply_connection_updates (connections_of s user) updates checked_at)
          | Some repo \<Rightarrow>
              and_then (calendar_repo_call
                  (kr_refresh repo user updates checked_at ''provider_status_refresh'')) (\<lambda>connections.
                set_connections user (sort_connections connections)))))"

definition refresh_connection_status :: "int \<Rightarrow> gotime \<Rightarrow> ('d, unit) calendar_handler" where
  "refresh_connection_status user now =
     reading (\<lambda>s. case cal_status_provider s of
        None \<Rightarrow> fail_with ErrCalendarStatusProviderUnset
      | Some provider \<Rightarrow>
          and_then (calendar_repo_call (provider user)) (\<lambda>snapshot.
          and_then (lift_result (connection_updates_from_provider (sn_connections snapshot))) (\<lambda>updates.
          if updates = [] then return_ok () else apply_connection_status user updates now)))"

fun replace_first :: "selected_calendar \<Rightarrow> selected_calendar list \<Rightarrow> selected_calendar list" where
  "replace_first c [] = [c]"
| "replace_first c (x # xs) = (if se_ref x = se_ref c then c # xs else x # replace_first c xs)"

text \<open>Of the request, only the reference is read.\<close>

definition save_selected_calendar :: "int \<Rightarrow> string \<Rightarrow> ('d, selected_calendar) calendar_handler" where
  "save_selected_calendar user ref =
     and_then (check (ref \<noteq> []) ErrInvalidSelectedCalendar) (\<lambda>_.
     and_then (ensure_calendars_loaded user) (\<lambda>_. reading (\<lambda>s.
     and_then (demand (find (\<lambda>c. ka_ref c = ref) (catalog_of s user)) ErrCalendarCatalogEntryNotFound) (\<lambda>entry.
     and_then
       (case cal_repo s of
          None \<Rightarrow> return_ok (to_selected entry)
        | Some repo \<Rightarrow> calendar_repo_call (kr_save_selected repo user (to_selected entry))) (\<lambda>calendar.
     calendar_update (\<lambda>s. set_selected user (sort_selected (replace_first calendar (selected_of s user))) s)
       calendar)))))"

text \<open>The end of \<open>DeleteSelectedCalendar\<close>, for the result so far.\<close>

definition remove_selected :: "int \<Rightarrow> string \<Rightarrow> delete_selected_result \<Rightarrow>
    ('d, delete_selected_result) calendar_handler" where
  "remove_selected user ref result =
     reading (\<lambda>s.
       let items = selected_of s user;
           result = (if list_ex (\<lambda>c. se_ref c = ref) items then result\<lparr>del_removed := True\<rparr> else result)
       in and_then (calendar_update (set_selected user (filter (\<lambda>c. se_ref c \<noteq> ref) items)) ()) (\<lambda>_.
          if \<not> del_removed result then return_ok \<lparr>del_removed = False, del_cleared = False\<rparr>
          else if del_cleared result then calendar_update (clear_destination user) result
          else return_ok result))"

definition delete_selected_calendar :: "int \<Rightarrow> string \<Rightarrow> ('d, delete_selected_result) calendar_handler" where
  "delete_selected_calendar user ref =
     and_then (check (ref \<noteq> []) ErrInvalidSelectedCalendarRef) (\<lambda>_.
     and_then (ensure_calendars_loaded user) (\<lambda>_. reading (\<lambda>s.
     and_then
       (case cal_repo s of
          Some repo \<Rightarrow> calendar_repo_call (kr_delete_selected repo user ref)
        | None \<Rightarrow>
            if destination_of s user = ref
            then calendar_update (clear_destination user) \<lparr>del_removed = False, del_cleared = True\<rparr>
            else return_ok \<lparr>del_removed = False, del_cleared = False\<rparr>)
       (remove_selected user ref))))"

definition read_destination_calendar :: "int \<Rightarrow> ('d, selected_calendar option) calendar_handler" where
  "read_destination_calendar user =
     and_then (ensure_calendars_loaded user) (\<lambda>_. reading (\<lambda>s.
       let ref = destination_of s user
       in if ref = [] then return_ok None
          else case find (\<lambda>c. se_ref c = ref) (selected_of s user) of
            Some c \<Rightarrow> return_ok (Some c)
          | None \<Rightarrow> calendar_update (clear_destination user) None))"

definition set_destination_calendar :: "int \<Rightarrow> string \<Rightarrow> ('d, selected_calendar option) calendar_handler" where
  "set_destination_calendar user ref =
     and_then (check (ref \<noteq> []) ErrInvalidDestinationCalendarRef) (\<lambda>_.
     and_then (ensure_calendars_loaded user) (\<lambda>_. reading (\<lambda>s.
       and_then
         (case cal_repo s of
            Some repo \<Rightarrow> calendar_repo_call (kr_set_destination repo user ref)
          | None \<Rightarrow> return_ok (find (\<lambda>c. se_ref c = ref) (selected_of s user)))
         (\<lambda>found. case found of
            None \<Rightarrow> return_ok None
          | Some c \<Rightarrow> calendar_update (set_destination user ref) (Some c)))))"

end
