(* ===== verification/CalendarsClient.thy ===== *)
theory CalendarsClient
  imports Calendars
begin

text \<open>
  What the calendar store relies on at its repository, as a locale, and what it gives its callers
  under that contract: the cached lists of a user are the lists the repository holds.
\<close>

section \<open>Lists ordered by a key\<close>

definition sorted_refs :: "('a \<Rightarrow> string) \<Rightarrow> 'a list \<Rightarrow> bool" where
  "sorted_refs key xs \<longleftrightarrow> sorted_wrt (\<lambda>l r. key l < key r) xs"

lemma sorted_refs_distinct: "sorted_refs key xs \<Longrightarrow> distinct (map key xs)"
  unfolding sorted_refs_def by (induction xs) auto

lemma sorted_refs_unique:
  "sorted_refs key xs \<Longrightarrow> sorted_refs key ys \<Longrightarrow> set xs = set ys \<Longrightarrow> xs = ys"
proof (induction xs arbitrary: ys)
  case Nil
  then show ?case by simp
next
  case (Cons x xs)
  then obtain y ys' where ys: "ys = y # ys'" by (cases ys) auto
  have "x = y"
  proof (rule ccontr)
    assume "x \<noteq> y"
    then have "key y < key x" "key x < key y"
      using Cons.prems ys by (auto simp: sorted_refs_def)
    then show False by simp
  qed
  moreover have "set xs = set ys'"
  proof -
    have "x \<notin> set xs" "x \<notin> set ys'" using Cons.prems ys \<open>x = y\<close> by (auto simp: sorted_refs_def)
    then show ?thesis using Cons.prems(3) ys \<open>x = y\<close> by auto
  qed
  ultimately show ?case using Cons.IH [of ys'] Cons.prems ys by (simp add: sorted_refs_def)
qed

lemma sorted_refs_strict:
  "sorted_wrt (\<lambda>l r. key l \<le> key r) xs \<Longrightarrow> distinct (map key xs) \<Longrightarrow> sorted_refs key xs"
  unfolding sorted_refs_def by (induction xs) (auto simp: less_le image_iff)

lemma sorted_refs_sort:
  assumes "distinct (map key xs)"
  shows "sorted_refs key (sort_by (\<lambda>l r. key l \<le> key r) xs)"
  by (rule sorted_refs_strict, rule sorted_sort_by) (use assms in auto)

lemma sort_sorted_refs: "sorted_refs key xs \<Longrightarrow> sort_by (\<lambda>l r. key l \<le> key r) xs = xs"
  by (rule sorted_refs_unique [of key]) (simp_all add: sorted_refs_sort sorted_refs_distinct)

lemma sorted_refs_map_filter:
  assumes "sorted_refs key xs" "\<And>x. x \<in> set xs \<Longrightarrow> P x \<Longrightarrow> key' (f x) = key x"
  shows "sorted_refs key' (map f (filter P xs))"
  using assms unfolding sorted_refs_def
  by (induction xs) auto

lemma sorted_refs_filter: "sorted_refs key xs \<Longrightarrow> sorted_refs key (filter P xs)"
  using sorted_refs_map_filter [of key xs P key id] by simp

section \<open>The contract\<close>

text \<open>What a repository holds for a user.\<close>

record calendar_view =
  vw_connections :: "calendar_connection list"
  vw_catalog :: "catalog_calendar list"
  vw_selected :: "selected_calendar list"
  vw_destination :: "string option"

definition view_ordered :: "calendar_view \<Rightarrow> bool" where
  "view_ordered v \<longleftrightarrow> sorted_refs cc_ref (vw_connections v) \<and> sorted_refs ka_ref (vw_catalog v) \<and>
     sorted_refs se_ref (vw_selected v) \<and> (vw_connections v = [] \<longrightarrow> vw_catalog v = []) \<and>
     (\<forall>ref. vw_destination v = Some ref \<longrightarrow> ref \<noteq> [] \<and> ref \<in> se_ref ` set (vw_selected v))"

text \<open>Every selected calendar is a calendar of the catalog, as it stands there.\<close>

definition in_book :: "calendar_view \<Rightarrow> bool" where
  "in_book v \<longleftrightarrow> set (vw_selected v) \<subseteq> to_selected ` set (vw_catalog v)"

definition refreshed_view :: "catalog_calendar list \<Rightarrow> calendar_view \<Rightarrow> calendar_view \<Rightarrow> bool" where
  "refreshed_view catalog v v' \<longleftrightarrow>
     (let entry = by_ref ka_ref catalog in
      vw_catalog v' = catalog \<and>
      vw_selected v' = map (\<lambda>c. to_selected (the (entry (se_ref c))))
        (filter (\<lambda>c. entry (se_ref c) \<noteq> None) (vw_selected v)) \<and>
      vw_destination v' = (case vw_destination v of None \<Rightarrow> None
        | Some ref \<Rightarrow> if entry ref = None then None else Some ref))"

text \<open>
  A call for a user keeps the repository good and what it holds for others; a failing one keeps
  all of it.
\<close>

definition call_contract ::
    "('d \<Rightarrow> bool) \<Rightarrow> ('d \<Rightarrow> int \<Rightarrow> calendar_view) \<Rightarrow> int \<Rightarrow>
     (calendar_view \<Rightarrow> 'a \<Rightarrow> calendar_view \<Rightarrow> bool) \<Rightarrow> ('d, 'a) calendar_call \<Rightarrow> bool" where
  "call_contract good view user post call \<longleftrightarrow>
     (\<forall>db r db'. good db \<longrightarrow> call db = (r, db') \<longrightarrow>
        good db' \<and> (\<forall>w. w \<noteq> user \<longrightarrow> view db' w = view db w) \<and>
        (case r of Inl _ \<Rightarrow> view db' user = view db user | Inr x \<Rightarrow> post (view db user) x (view db' user)))"

definition quiet :: "('d \<Rightarrow> bool) \<Rightarrow> ('d \<Rightarrow> int \<Rightarrow> calendar_view) \<Rightarrow> (int \<Rightarrow> ('d, 'a) calendar_call) \<Rightarrow> bool" where
  "quiet good view p \<longleftrightarrow>
     (\<forall>user db. good db \<longrightarrow> good (snd (p user db)) \<and> view (snd (p user db)) = view db)"

locale calendar_backend =
  fixes repo :: "'d calendar_repository"
    and good :: "'d \<Rightarrow> bool"
    and view :: "'d \<Rightarrow> int \<Rightarrow> calendar_view"
  assumes ordered: "good db \<Longrightarrow> view_ordered (view db user)"
    and connections_law: "call_contract good view user
      (\<lambda>v x v'. v' = v \<and> x = vw_connections v) (kr_connections repo user)"
    and catalog_law: "call_contract good view user
      (\<lambda>v x v'. v' = v \<and> x = vw_catalog v) (kr_catalog repo user)"
    and selected_law: "call_contract good view user
      (\<lambda>v x v'. v' = v \<and> x = vw_selected v) (kr_selected repo user)"
    and destination_law: "call_contract good view user
      (\<lambda>v x v'. v' = v \<and> map_option se_ref x = vw_destination v) (kr_destination repo user)"
    and save_connection_law: "call_contract good view user (\<lambda>v x v'. True) (kr_save_connection repo user c)"
    and save_catalog_law: "call_contract good view user (\<lambda>v x v'. True) (kr_save_catalog repo user k)"
    and save_selected_law: "call_contract good view user
      (\<lambda>v x v'. x = e \<and> v' = v\<lparr>vw_selected := sort_selected (replace_first e (vw_selected v))\<rparr>)
      (kr_save_selected repo user e)"
    and delete_selected_law: "ref \<noteq> [] \<Longrightarrow> call_contract good view user
      (\<lambda>v x v'. (del_removed x \<longleftrightarrow> ref \<in> se_ref ` set (vw_selected v)) \<and>
         (del_cleared x \<longleftrightarrow> vw_destination v = Some ref) \<and>
         v' = v\<lparr>vw_selected := filter (\<lambda>c. se_ref c \<noteq> ref) (vw_selected v),
           vw_destination := (if vw_destination v = Some ref then None else vw_destination v)\<rparr>)
      (kr_delete_selected repo user ref)"
    and set_destination_law: "ref \<noteq> [] \<Longrightarrow> call_contract good view user
      (\<lambda>v x v'. x = find (\<lambda>c. se_ref c = ref) (vw_selected v) \<and>
         v' = (if x = None then v else v\<lparr>vw_destination := Some ref\<rparr>))
      (kr_set_destination repo user ref)"
    and sync_law: "validate_provider_catalog cs ks = None \<Longrightarrow> call_contract good view user
      (\<lambda>v x v'. x = (vw_connections v', vw_catalog v') \<and> vw_catalog v' = sort_catalog ks \<and>
         (in_book v \<longrightarrow> refreshed_view (sort_catalog ks) v v'))
      (kr_sync repo user cs ks reason)"
    and refresh_law: "call_contract good view user
      (\<lambda>v x v'. v' = v\<lparr>vw_connections := x\<rparr>) (kr_refresh repo user us stamp reason)"

section \<open>The store's side\<close>

text \<open>The cache of a user agrees with what is held; nothing is cached as long as nothing is loaded.\<close>

definition cached :: "'d calendar_store \<Rightarrow> int \<Rightarrow> calendar_view \<Rightarrow> bool" where
  "cached s user v \<longleftrightarrow>
     (case cal_selected s user of
        None \<Rightarrow> cal_destination s user = None
      | Some selected \<Rightarrow> selected = vw_selected v \<and> cal_connections s user = Some (vw_connections v) \<and>
          cal_catalog s user = Some (vw_catalog v) \<and> cal_destination s user = vw_destination v)"

definition well_connected ::
    "'d calendar_repository \<Rightarrow> ('d \<Rightarrow> bool) \<Rightarrow> ('d \<Rightarrow> int \<Rightarrow> calendar_view) \<Rightarrow> 'd calendar_store \<Rightarrow> bool" where
  "well_connected repo good view s \<longleftrightarrow> cal_repo s = Some repo \<and> good (cal_db s) \<and>
     (\<forall>p. cal_catalog_provider s = Some p \<longrightarrow> quiet good view p) \<and>
     (\<forall>p. cal_status_provider s = Some p \<longrightarrow> quiet good view p)"

definition user_ok :: "('d \<Rightarrow> int \<Rightarrow> calendar_view) \<Rightarrow> int \<Rightarrow> 'd calendar_store \<Rightarrow> bool" where
  "user_ok view user s \<longleftrightarrow> in_book (view (cal_db s) user) \<and> cached s user (view (cal_db s) user)"

definition calendars_inv ::
    "'d calendar_repository \<Rightarrow> ('d \<Rightarrow> bool) \<Rightarrow> ('d \<Rightarrow> int \<Rightarrow> calendar_view) \<Rightarrow> 'd calendar_store \<Rightarrow> bool" where
  "calendars_inv repo good view s \<longleftrightarrow> well_connected repo good view s \<and>
     (\<forall>user. user \<noteq> calendar_fixture_user \<longrightarrow> user_ok view user s)"

definition user_part ::
    "('d \<Rightarrow> int \<Rightarrow> calendar_view) \<Rightarrow> int \<Rightarrow> 'd calendar_store \<Rightarrow>
     calendar_connection list option \<times> catalog_calendar list option \<times> selected_calendar list option \<times>
     string option \<times> calendar_view" where
  "user_part view w s = (cal_connections s w, cal_catalog s w, cal_selected s w, cal_destination s w,
     view (cal_db s) w)"

lemma user_ok_part: "user_part view w s' = user_part view w s \<Longrightarrow> user_ok view w s' = user_ok view w s"
  by (simp add: user_part_def user_ok_def cached_def split: option.split)

text \<open>A step for a user keeps the connection to the repository and the part of every other user.\<close>

definition keeps_others ::
    "'d calendar_repository \<Rightarrow> ('d \<Rightarrow> bool) \<Rightarrow> ('d \<Rightarrow> int \<Rightarrow> calendar_view) \<Rightarrow> int \<Rightarrow>
     ('d, 'a) calendar_handler \<Rightarrow> bool" where
  "keeps_others repo good view user h \<longleftrightarrow>
     (\<forall>s r s'. well_connected repo good view s \<longrightarrow> h s = (r, s') \<longrightarrow>
        well_connected repo good view s' \<and>
        (\<forall>w. w \<noteq> user \<longrightarrow> user_part view w s' = user_part view w s))"

named_theorems keeps \<open>steps that keep the part of every other user\<close>

lemma keeps_and_then [keeps]:
  assumes "keeps_others repo good view user m" "\<And>x. keeps_others repo good view user (f x)"
  shows "keeps_others repo good view user (and_then m f)"
proof -
  have "well_connected repo good view s' \<and> (\<forall>w. w \<noteq> user \<longrightarrow> user_part view w s' = user_part view w s)"
    if s: "well_connected repo good view s" and run: "and_then m f s = (r, s')" for s r s'
  proof (cases "m s")
    case (Pair q t)
    then have t: "well_connected repo good view t"
      "\<forall>w. w \<noteq> user \<longrightarrow> user_part view w t = user_part view w s"
      using assms(1) s unfolding keeps_others_def by blast+
    show ?thesis
    proof (cases q)
      case (Inl e)
      with run Pair t show ?thesis by (simp add: and_then_def)
    next
      case (Inr x)
      then have "f x t = (r, s')" using run Pair by (simp add: and_then_def)
      then show ?thesis using assms(2) [of x] t unfolding keeps_others_def by metis
    qed
  qed
  then show ?thesis unfolding keeps_others_def by blast
qed

lemma keeps_basic [keeps]:
  "keeps_others repo good view user (return_ok x)"
  "keeps_others repo good view user (fail_with e)"
  "keeps_others repo good view user (check b e)"
  "keeps_others repo good view user (demand z e)"
  "keeps_others repo good view user (lift_result r)"
  by (auto simp: keeps_others_def return_ok_def fail_with_def check_def demand_def lift_result_def
      split: option.splits)

lemma keeps_reject [keeps]:
  "(err = None \<Longrightarrow> keeps_others repo good view user h) \<Longrightarrow>
   keeps_others repo good view user (reject err h)"
  by (cases err) (simp_all add: reject_def keeps_basic)

lemma keeps_call:
  assumes "call_contract good view user post call"
  shows "keeps_others repo good view user (calendar_repo_call call)"
proof -
  have "well_connected repo good view s' \<and> (\<forall>w. w \<noteq> user \<longrightarrow> user_part view w s' = user_part view w s)"
    if s: "well_connected repo good view s" and run: "calendar_repo_call call s = (r, s')" for s r s'
  proof (cases "call (cal_db s)")
    case (Pair q db)
    with s assms have "good db" "\<forall>w. w \<noteq> user \<longrightarrow> view db w = view (cal_db s) w"
      unfolding call_contract_def well_connected_def by blast+
    with s run Pair show ?thesis
      by (auto simp: calendar_repo_call_def well_connected_def user_part_def)
  qed
  then show ?thesis unfolding keeps_others_def by blast
qed

lemma keeps_provider [keeps]:
  assumes "quiet good view p"
  shows "keeps_others repo good view user (calendar_repo_call (p w))"
  using assms
  by (auto simp: keeps_others_def calendar_repo_call_def quiet_def well_connected_def user_part_def
      split: prod.splits)
    (metis snd_conv)+

lemma keeps_provider_answer [keeps]:
  assumes "quiet good view p"
  shows "keeps_others repo good view user (calendar_repo_call (provider_answer p w))"
  using assms
  by (auto simp: keeps_others_def calendar_repo_call_def provider_answer_def quiet_def well_connected_def
      user_part_def split: prod.splits)
    (metis snd_conv)+

lemma keeps_reading:
  assumes "\<And>s. well_connected repo good view s \<Longrightarrow> keeps_others repo good view user (f s)"
  shows "keeps_others repo good view user (reading f)"
  using assms unfolding keeps_others_def reading_def by blast

lemma keeps_update:
  assumes "\<And>s w. w \<noteq> user \<Longrightarrow> user_part view w (f s) = user_part view w s"
    and "\<And>s. cal_repo (f s) = cal_repo s \<and> cal_catalog_provider (f s) = cal_catalog_provider s \<and>
      cal_status_provider (f s) = cal_status_provider s \<and> cal_db (f s) = cal_db s"
  shows "keeps_others repo good view user (calendar_update f x)"
  using assms by (auto simp: keeps_others_def calendar_update_def well_connected_def)

lemma keeps_run_saves:
  assumes "\<And>x. keeps_others repo good view user (calendar_repo_call (save x))"
  shows "keeps_others repo good view user (run_saves save xs)"
  using assms by (induction xs) (auto intro: keeps)

text \<open>A call that went well, and one that did not, on the store.\<close>

lemma contract_call:
  assumes "call_contract good view user post call" "well_connected repo good view s"
    and "call (cal_db s) = (q, db)"
  shows "good db" and "case q of Inl _ \<Rightarrow> view db user = view (cal_db s) user
    | Inr x \<Rightarrow> post (view (cal_db s) user) x (view db user)"
  using assms unfolding call_contract_def well_connected_def by blast+

lemma contract_ok:
  assumes "calendar_repo_call call s = (Inr x, s')" "call_contract good view user post call"
    and "well_connected repo good view s"
  shows "\<exists>db. s' = s\<lparr>cal_db := db\<rparr> \<and> well_connected repo good view s' \<and>
    post (view (cal_db s) user) x (view db user)"
proof (cases "call (cal_db s)")
  case (Pair q db)
  from contract_call [OF assms(2,3) this] assms(1,3) Pair show ?thesis
    by (auto simp: calendar_repo_call_def well_connected_def)
qed

lemma contract_err:
  assumes "calendar_repo_call call s = (Inl e, s')" "call_contract good view user post call"
    and "well_connected repo good view s"
  shows "user_part view user s' = user_part view user s"
proof (cases "call (cal_db s)")
  case (Pair q db)
  from contract_call [OF assms(2,3) this] assms(1) Pair show ?thesis
    by (auto simp: calendar_repo_call_def user_part_def)
qed

lemma catalog_entry_in_book:
  assumes "refreshed_view catalog v v'"
  shows "in_book v'"
proof -
  have "to_selected (the (by_ref ka_ref catalog (se_ref c))) \<in> to_selected ` set catalog"
    if "by_ref ka_ref catalog (se_ref c) \<noteq> None" for c
    using that by (auto dest: by_ref_Some)
  with assms show ?thesis by (auto simp: refreshed_view_def in_book_def Let_def)
qed

text \<open>The store's refresh of its cache is the repository's refresh of what it holds.\<close>

lemma refresh_selected_cached:
  assumes "view_ordered v" "refreshed_view (vw_catalog v') v v'"
    and "cal_catalog s user = Some (vw_catalog v')" "cal_connections s user = Some (vw_connections v')"
    and "case cal_selected s user of None \<Rightarrow> cal_destination s user = None
      | Some xs \<Rightarrow> xs = vw_selected v \<and> cal_destination s user = vw_destination v"
  shows "cached (refresh_selected user s) user v'" 
    and "cal_selected (refresh_selected user s) user = None \<longleftrightarrow> cal_selected s user = None"
proof -
  have ref: "ref \<noteq> []" if "vw_destination v = Some ref" for ref
    using assms(1) that by (simp add: view_ordered_def)
  show "cached (refresh_selected user s) user v'"
    using assms(2-5) ref
    by (auto simp: refresh_selected_def cached_def refreshed_view_def Let_def catalog_of_def destination_of_def
        set_selected_def clear_destination_def split: option.splits if_splits)
  show "cal_selected (refresh_selected user s) user = None \<longleftrightarrow> cal_selected s user = None"
    by (simp add: refresh_selected_def Let_def set_selected_def clear_destination_def split: option.split)
qed

section \<open>Under the contract\<close>

context calendar_backend
begin

lemma keeps_calls [keeps]:
  "keeps_others repo good view user (calendar_repo_call (kr_connections repo user))"
  "keeps_others repo good view user (calendar_repo_call (kr_catalog repo user))"
  "keeps_others repo good view user (calendar_repo_call (kr_selected repo user))"
  "keeps_others repo good view user (calendar_repo_call (kr_destination repo user))"
  "keeps_others repo good view user (calendar_repo_call (kr_save_connection repo user c))"
  "keeps_others repo good view user (calendar_repo_call (kr_save_catalog repo user k))"
  "keeps_others repo good view user (calendar_repo_call (kr_save_selected repo user e))"
  "keeps_others repo good view user (calendar_repo_call (kr_refresh repo user us stamp reason))"
  "ref \<noteq> [] \<Longrightarrow> keeps_others repo good view user (calendar_repo_call (kr_delete_selected repo user ref))"
  "ref \<noteq> [] \<Longrightarrow> keeps_others repo good view user (calendar_repo_call (kr_set_destination repo user ref))"
  "validate_provider_catalog cs ks = None \<Longrightarrow>
   keeps_others repo good view user (calendar_repo_call (kr_sync repo user cs ks reason))"
  by (rule keeps_call, (rule connections_law catalog_law selected_law destination_law save_connection_law
      save_catalog_law save_selected_law refresh_law delete_selected_law set_destination_law sync_law, assumption?))+

lemma well_connected_repo: "well_connected repo good view s \<Longrightarrow> cal_repo s = Some repo"
  by (simp add: well_connected_def)

lemma keeps_apply_catalog [keeps]: "keeps_others repo good view user (apply_provider_catalog user cs ks)"
  unfolding apply_provider_catalog_def
  by (intro keeps keeps_reading)
    (auto simp: well_connected_repo user_part_def refresh_selected_def set_selected_def clear_destination_def
      Let_def split: option.split intro!: keeps keeps_update)

lemma keeps_read_provider [keeps]:
  "quiet good view p \<Longrightarrow> keeps_others repo good view user (read_provider_catalog p w)"
  unfolding read_provider_catalog_def by (intro keeps)

lemma keeps_load [keeps]: "keeps_others repo good view user (load_calendars repo user)"
  unfolding load_calendars_def load_from_provider_def seed_fixture_catalog_rows_def seed_fixture_selected_def
  by (auto simp: well_connected_def user_part_def set_destination_def Let_def split: option.split prod.split
      intro!: keeps keeps_reading keeps_update keeps_run_saves)

lemma keeps_loaded [keeps]: "keeps_others repo good view user (ensure_calendars_loaded user)"
  unfolding ensure_calendars_loaded_def
  by (auto simp: well_connected_repo split: option.split intro!: keeps keeps_reading)

lemma keeps_operations [keeps]:
  "keeps_others repo good view user (read_calendar_connections user)"
  "keeps_others repo good view user (read_catalog_calendars user)"
  "keeps_others repo good view user (read_selected_calendars user)"
  "keeps_others repo good view user (sync_provider_catalog user)"
  "keeps_others repo good view user (apply_connection_status user us now)"
  "keeps_others repo good view user (save_selected_calendar user ref)"
  "keeps_others repo good view user (remove_selected user ref result)"
  "keeps_others repo good view user (read_destination_calendar user)"
  unfolding read_calendar_connections_def read_catalog_calendars_def read_selected_calendars_def
    sync_provider_catalog_def apply_connection_status_def save_selected_calendar_def remove_selected_def
    read_destination_calendar_def Let_def set_connections_def
  by (auto simp: well_connected_def user_part_def set_selected_def clear_destination_def
      split: option.split prod.split intro!: keeps keeps_reading keeps_update)

lemma keeps_checked:
  "(b \<Longrightarrow> keeps_others repo good view user (f ())) \<Longrightarrow>
   keeps_others repo good view user (and_then (check b e) f)"
  by (cases b) (simp_all add: keeps_others_def and_then_def check_def)

lemma keeps_operations' [keeps]:
  "keeps_others repo good view user (refresh_connection_status user now)"
  "keeps_others repo good view user (delete_selected_calendar user ref)"
  "keeps_others repo good view user (set_destination_calendar user ref)"
  unfolding refresh_connection_status_def delete_selected_calendar_def set_destination_calendar_def
  by (auto simp: well_connected_def user_part_def set_destination_def clear_destination_def
      split: option.split intro!: keeps keeps_reading keeps_update keeps_checked)

lemma others_kept:
  assumes "keeps_others repo good view user h" "h s = (r, s')" "well_connected repo good view s"
  shows "well_connected repo good view s'" "w \<noteq> user \<Longrightarrow> user_part view w s' = user_part view w s"
  using assms unfolding keeps_others_def by blast+

subsection \<open>The user's own part\<close>

lemma ordered_view: "well_connected repo good view s \<Longrightarrow> view_ordered (view (cal_db s) user)"
  by (simp add: well_connected_def ordered)

lemma apply_catalog_run:
  assumes "well_connected repo good view s"
  shows "apply_provider_catalog user cs ks s =
    (case validate_provider_catalog cs ks of Some e \<Rightarrow> (Inl e, s)
     | None \<Rightarrow>
         (case calendar_repo_call (kr_sync repo user cs ks ''provider_catalog_sync'') s of
            (Inl e, t) \<Rightarrow> (Inl e, t)
          | (Inr x, t) \<Rightarrow> (Inr (), refresh_selected user
              (t\<lparr>cal_connections := (cal_connections t)(user \<mapsto> sort_connections (fst x)),
                 cal_catalog := (cal_catalog t)(user \<mapsto> sort_catalog (snd x))\<rparr>))))"
  using assms
  by (simp add: apply_provider_catalog_def reject_def fail_with_def reading_def and_then_def
      calendar_update_def well_connected_def split: option.split sum.split prod.split)

lemma refresh_selected_same [simp]:
  "cal_db (refresh_selected user s) = cal_db s"
  "cal_connections (refresh_selected user s) = cal_connections s"
  "cal_catalog (refresh_selected user s) = cal_catalog s"
  by (simp_all add: refresh_selected_def set_selected_def clear_destination_def Let_def split: option.split)

text \<open>After a sync the cache of the user is what is now held.\<close>

lemma synced_own:
  assumes wc: "well_connected repo good view s" "well_connected repo good view (s\<lparr>cal_db := db\<rparr>)"
    and ok: "user_ok view user s" and refreshed: "refreshed_view (vw_catalog (view db user)) (view (cal_db s) user) (view db user)"
    and s': "s' = refresh_selected user (s\<lparr>cal_db := db,
        cal_connections := (cal_connections s)(user \<mapsto> sort_connections (vw_connections (view db user))),
        cal_catalog := (cal_catalog s)(user \<mapsto> sort_catalog (vw_catalog (view db user)))\<rparr>)"
  shows "user_ok view user s'" "connections_of s' user = vw_connections (view (cal_db s') user)"
    "catalog_of s' user = vw_catalog (view (cal_db s') user)"
    "cal_selected s' user = None \<longleftrightarrow> cal_selected s user = None"
proof -
  let ?v = "view (cal_db s) user" and ?v' = "view db user"
  have sorted: "sort_connections (vw_connections ?v') = vw_connections ?v'"
    "sort_catalog (vw_catalog ?v') = vw_catalog ?v'"
    using ordered_view [OF wc(2), of user]
    by (simp_all add: sort_connections_def sort_catalog_def sort_sorted_refs view_ordered_def)
  let ?u = "s\<lparr>cal_db := db, cal_connections := (cal_connections s)(user \<mapsto> vw_connections ?v'),
    cal_catalog := (cal_catalog s)(user \<mapsto> vw_catalog ?v')\<rparr>"
  have u: "s' = refresh_selected user ?u" unfolding s' sorted ..
  have "case cal_selected ?u user of None \<Rightarrow> cal_destination ?u user = None
    | Some xs \<Rightarrow> xs = vw_selected ?v \<and> cal_destination ?u user = vw_destination ?v"
    using ok by (auto simp: user_ok_def cached_def split: option.splits)
  note cache = refresh_selected_cached [OF ordered_view [OF wc(1)] refreshed _ _ this]
  show "user_ok view user s'"
    unfolding user_ok_def u using cache(1) catalog_entry_in_book [OF refreshed] by simp
  show "connections_of s' user = vw_connections (view (cal_db s') user)"
    "catalog_of s' user = vw_catalog (view (cal_db s') user)"
    by (simp_all add: u connections_of_def catalog_of_def)
  show "cal_selected s' user = None \<longleftrightarrow> cal_selected s user = None"
    unfolding u using cache(2) by simp
qed

lemma apply_catalog_own:
  assumes run: "apply_provider_catalog user cs ks s = (r, s')"
    and wc: "well_connected repo good view s" and ok: "user_ok view user s"
  shows "user_ok view user s' \<and> (r = Inr () \<longrightarrow>
      connections_of s' user = vw_connections (view (cal_db s') user) \<and>
      catalog_of s' user = vw_catalog (view (cal_db s') user) \<and>
      refreshed_view (sort_catalog ks) (view (cal_db s) user) (view (cal_db s') user) \<and>
      (cal_selected s' user = None \<longleftrightarrow> cal_selected s user = None))"
proof (cases "validate_provider_catalog cs ks")
  case (Some e)
  with run ok show ?thesis by (auto simp: apply_catalog_run [OF wc])
next
  case None
  note law = sync_law [OF None, where reason = "''provider_catalog_sync''" and user = user]
  obtain q t where call: "calendar_repo_call (kr_sync repo user cs ks ''provider_catalog_sync'') s = (q, t)"
    by (meson surj_pair)
  note step = run [unfolded apply_catalog_run [OF wc] None call]
  show ?thesis
  proof (cases q)
    case (Inl e)
    then have "r = Inl e" "s' = t" using step by simp_all
    moreover have "user_part view user t = user_part view user s"
      using contract_err [OF call [unfolded Inl] law wc] .
    ultimately show ?thesis using ok user_ok_part [of view user s' s] by simp
  next
    case (Inr x)
    let ?v = "view (cal_db s) user"
    from contract_ok [OF call [unfolded Inr] law wc] obtain db where
      t: "t = s\<lparr>cal_db := db\<rparr>" "well_connected repo good view t"
      and x: "x = (vw_connections (view db user), vw_catalog (view db user))"
        "vw_catalog (view db user) = sort_catalog ks"
        "in_book ?v \<longrightarrow> refreshed_view (sort_catalog ks) ?v (view db user)"
      by (elim exE conjE) (rule that)
    have refreshed: "refreshed_view (vw_catalog (view db user)) ?v (view db user)"
      unfolding x(2) using x(3) ok by (simp add: user_ok_def)
    have s': "s' = refresh_selected user (s\<lparr>cal_db := db,
        cal_connections := (cal_connections s)(user \<mapsto> sort_connections (vw_connections (view db user))),
        cal_catalog := (cal_catalog s)(user \<mapsto> sort_catalog (vw_catalog (view db user)))\<rparr>)"
      using step Inr t(1) x(1) by simp
    then have db: "cal_db s' = db" by simp
    note synced = synced_own [OF wc t(2) [unfolded t(1)] ok refreshed s']
    show ?thesis
      unfolding db x(2) [symmetric]
      by (intro conjI impI refreshed synced [unfolded db])
  qed
qed

text \<open>Asking a provider changes nothing that is held or cached, for any user.\<close>

lemma provider_same:
  assumes "quiet good view p" "read_provider_catalog p w s = (q, t)" "well_connected repo good view s"
  shows "well_connected repo good view t" "user_part view user t = user_part view user s"
  using others_kept [OF keeps_read_provider [OF assms(1), of "user + 1"] assms(2,3)] by simp_all

lemma user_part_view: "user_part view user t = user_part view user s \<Longrightarrow> view (cal_db t) user = view (cal_db s) user"
  by (simp add: user_part_def)

lemma user_part_selected: "user_part view user t = user_part view user s \<Longrightarrow> cal_selected t user = cal_selected s user"
  by (simp add: user_part_def)

lemma empty_view:
  assumes "view_ordered v" "in_book v" "vw_connections v = [] \<or> vw_catalog v = []"
  shows "vw_catalog v = []" "vw_selected v = []" "vw_destination v = None"
proof -
  show k: "vw_catalog v = []" using assms by (auto simp: view_ordered_def)
  with assms(2) show sel: "vw_selected v = []" by (auto simp: in_book_def)
  show "vw_destination v = None"
    using assms(1) sel by (cases "vw_destination v") (auto simp: view_ordered_def)
qed

lemma from_provider_own:
  assumes wc: "well_connected repo good view s" and ok: "user_ok view user s"
    and none: "cal_selected s user = None"
    and now: "cs = vw_connections (view (cal_db s) user)" "ks = vw_catalog (view (cal_db s) user)"
    and run: "load_from_provider user cs ks s = (r, s')"
  shows "user_ok view user s' \<and> (\<forall>cs' ks'. r = Inr (cs', ks') \<longrightarrow> cal_selected s' user = None \<and>
    cs' = vw_connections (view (cal_db s') user) \<and> ks' = vw_catalog (view (cal_db s') user) \<and>
    vw_selected (view (cal_db s') user) = vw_selected (view (cal_db s) user) \<and>
    vw_destination (view (cal_db s') user) = vw_destination (view (cal_db s) user))"
proof (cases "\<exists>p. cal_catalog_provider s = Some p \<and> (cs = [] \<or> ks = [])")
  case False
  then have "r = Inr (cs, ks) \<and> s' = s"
    using run by (auto simp: load_from_provider_def reading_def return_ok_def split: option.splits if_splits)
  with ok none now show ?thesis by simp
next
  case True
  then obtain p where p: "cal_catalog_provider s = Some p" "cs = [] \<or> ks = []" by blast
  then have quiet: "quiet good view p" using wc by (simp add: well_connected_def)
  obtain q t where q: "read_provider_catalog p user s = (q, t)" by (meson surj_pair)
  note t = provider_same [OF quiet q wc]
  have okt: "user_ok view user t" using user_ok_part [OF t(2)] ok by simp
  note same = user_part_view [OF t(2)] user_part_selected [OF t(2)]
  show ?thesis
  proof (cases q)
    case (Inl e)
    with run p q have "r = Inl e \<and> s' = t"
      by (simp add: load_from_provider_def reading_def and_then_def)
    with okt show ?thesis by simp
  next
    case (Inr x)
    obtain pc pk where x: "x = (pc, pk)" by (cases x)
    show ?thesis
    proof (cases "validate_provider_catalog pc pk = None \<and> (pc \<noteq> [] \<or> pk \<noteq> [])")
      case False
      with run p q Inr x have "s' = t \<and> ((\<exists>e. r = Inl e) \<or> r = Inr (cs, ks))"
        by (auto simp: load_from_provider_def reading_def and_then_def reject_def fail_with_def return_ok_def
            split: option.splits)
      with okt same none now show ?thesis by auto
    next
      case True
      obtain a u where a: "apply_provider_catalog user pc pk t = (a, u)" by (meson surj_pair)
      note own = apply_catalog_own [OF a t(1) okt]
      have r: "s' = u" "r = (case a of Inl e \<Rightarrow> Inl e | Inr _ \<Rightarrow> Inr (connections_of u user, catalog_of u user))"
        using run p q Inr x True a
        by (auto simp: load_from_provider_def reading_def and_then_def reject_def return_ok_def split: sum.splits)
      note empty = empty_view [OF ordered_view [OF wc] _ p(2) [unfolded now]]
      have "vw_selected (view (cal_db u) user) = [] \<and> vw_destination (view (cal_db u) user) = None" if "a = Inr ()"
        using own that empty ok same(1) by (simp add: refreshed_view_def Let_def user_ok_def)
      with own r none same empty ok show ?thesis by (auto simp: user_ok_def split: sum.splits)
    qed
  qed
qed

text \<open>A read of what is held.\<close>

lemma read_own:
  assumes "calendar_repo_call call s = (r, s')" "well_connected repo good view s"
    and "call_contract good view user (\<lambda>v x v'. v' = v \<and> P v x) call"
  shows "well_connected repo good view s'" "user_part view user s' = user_part view user s"
    "r = Inr x \<Longrightarrow> P (view (cal_db s) user) x"
proof -
  show "well_connected repo good view s'"
    using others_kept [OF keeps_call [OF assms(3)] assms(1,2)] by simp
  show "user_part view user s' = user_part view user s"
  proof (cases r)
    case (Inl e)
    with contract_err [OF _ assms(3,2)] assms(1) show ?thesis by simp
  next
    case (Inr x)
    with contract_ok [OF _ assms(3,2)] assms(1) show ?thesis by (auto simp: user_part_def)
  qed
  show "P (view (cal_db s) user) x" if "r = Inr x"
    using contract_ok [OF assms(1) [unfolded that] assms(3,2)] by blast
qed

lemma load_own:
  assumes wc: "well_connected repo good view s" and ok: "user_ok view user s"
    and none: "cal_selected s user = None" and user: "user \<noteq> calendar_fixture_user"
    and run: "load_calendars repo user s = (r, s')"
  shows "user_ok view user s' \<and> (r = Inr () \<longrightarrow> cal_selected s' user \<noteq> None)"
proof -
  obtain q1 s1 where r1: "calendar_repo_call (kr_connections repo user) s = (q1, s1)" by (meson surj_pair)
  note p1 = read_own [OF r1 wc connections_law]
  obtain q2 s2 where r2: "calendar_repo_call (kr_catalog repo user) s1 = (q2, s2)" by (meson surj_pair)
  note p2 = read_own [OF r2 p1(1) catalog_law]
  obtain q3 s3 where r3: "calendar_repo_call (kr_selected repo user) s2 = (q3, s3)" by (meson surj_pair)
  note p3 = read_own [OF r3 p2(1) selected_law]
  obtain q4 s4 where r4: "calendar_repo_call (kr_destination repo user) s3 = (q4, s4)" by (meson surj_pair)
  note p4 = read_own [OF r4 p3(1) destination_law]
  have same: "user_part view user s4 = user_part view user s" using p1(2) p2(2) p3(2) p4(2) by simp
  have oks: "user_ok view user s1" "user_ok view user s2" "user_ok view user s3" "user_ok view user s4"
    using user_ok_part ok p1(2) p2(2) p3(2) p4(2) by metis+
  note run = run [unfolded load_calendars_def and_then_def]
  show ?thesis
  proof (cases "\<exists>cs ks xs d. q1 = Inr cs \<and> q2 = Inr ks \<and> q3 = Inr xs \<and> q4 = Inr d")
    case False
    then have "is_err r \<and> (s' = s1 \<or> s' = s2 \<or> s' = s3 \<or> s' = s4)"
      using run r1 r2 r3 r4 by (auto split: sum.splits)
    with oks show ?thesis by auto
  next
    case True
    then obtain cs ks xs d where q: "q1 = Inr cs" "q2 = Inr ks" "q3 = Inr xs" "q4 = Inr d" by blast
    let ?v = "view (cal_db s) user"
    have v: "view (cal_db s1) user = ?v" "view (cal_db s2) user = ?v" "view (cal_db s3) user = ?v"
      "view (cal_db s4) user = ?v" "cal_selected s4 user = None"
      using p1(2) p2(2) p3(2) p4(2) none by (simp_all add: user_part_def)
    have read: "cs = vw_connections ?v" "ks = vw_catalog ?v" "xs = vw_selected ?v"
      "map_option se_ref d = vw_destination ?v"
      using p1(3) p2(3) p3(3) p4(3) q v by simp_all
    obtain q5 s5 where r5: "load_from_provider user cs ks s4 = (q5, s5)" by (meson surj_pair)
    have own: "user_ok view user s5 \<and> (\<forall>cs' ks'. q5 = Inr (cs', ks') \<longrightarrow> cal_selected s5 user = None \<and>
      cs' = vw_connections (view (cal_db s5) user) \<and> ks' = vw_catalog (view (cal_db s5) user) \<and>
      vw_selected (view (cal_db s5) user) = vw_selected ?v \<and>
      vw_destination (view (cal_db s5) user) = vw_destination ?v)"
      using from_provider_own [OF p4(1) oks(4) v(5) _ _ r5] read v(4) by simp
    show ?thesis
    proof (cases q5)
      case (Inl e)
      then have "r = Inl e" "s' = s5" using run r1 r2 r3 r4 r5 q by simp_all
      with own show ?thesis by simp
    next
      case (Inr x)
      obtain cs' ks' where x: "x = (cs', ks')" by (cases x)
      let ?t = "s5\<lparr>cal_connections := (cal_connections s5)(user \<mapsto> cs'),
        cal_catalog := (cal_catalog s5)(user \<mapsto> ks'), cal_selected := (cal_selected s5)(user \<mapsto> xs)\<rparr>"
      have s': "s' = (case d of None \<Rightarrow> ?t | Some c \<Rightarrow> set_destination user (se_ref c) ?t)" "r = Inr ()"
        using run r1 r2 r3 r4 r5 q Inr x user
        by (simp_all add: seed_fixture_catalog_rows_def seed_fixture_selected_def return_ok_def
            calendar_update_def Let_def)
      have free: "cal_destination s5 user = None"
        using own Inr x by (auto simp: user_ok_def cached_def)
      have facts: "in_book (view (cal_db s5) user)" "cs' = vw_connections (view (cal_db s5) user)"
        "ks' = vw_catalog (view (cal_db s5) user)" "xs = vw_selected (view (cal_db s5) user)"
        "map_option se_ref d = vw_destination (view (cal_db s5) user)"
        using own Inr x read by (simp_all add: user_ok_def)
      show ?thesis
        unfolding s'(1)
        using facts free
        by (cases d) (simp_all add: user_ok_def cached_def set_destination_def)
    qed
  qed
qed

lemma loaded_own:
  assumes "well_connected repo good view s" "user_ok view user s" "user \<noteq> calendar_fixture_user"
    and "ensure_calendars_loaded user s = (r, s')"
  shows "well_connected repo good view s'" "user_ok view user s'" "r = Inr () \<Longrightarrow> cal_selected s' user \<noteq> None"
proof -
  show "well_connected repo good view s'"
    using others_kept [OF keeps_loaded assms(4,1)] by simp
  have "user_ok view user s' \<and> (r = Inr () \<longrightarrow> cal_selected s' user \<noteq> None)"
  proof (cases "cal_selected s user")
    case None
    then have "load_calendars repo user s = (r, s')"
      using assms(4) well_connected_repo [OF assms(1)] by (simp add: ensure_calendars_loaded_def reading_def)
    from load_own [OF assms(1,2) None assms(3) this] show ?thesis .
  next
    case (Some xs)
    then have "s' = s" using assms(4) by (simp add: ensure_calendars_loaded_def reading_def return_ok_def)
    with assms(2) Some show ?thesis by simp
  qed
  then show "user_ok view user s'" "r = Inr () \<Longrightarrow> cal_selected s' user \<noteq> None" by blast+
qed

lemma loaded_view:
  assumes "user_ok view user s" "cal_selected s user \<noteq> None"
  shows "connections_of s user = vw_connections (view (cal_db s) user)"
    "catalog_of s user = vw_catalog (view (cal_db s) user)"
    "selected_of s user = vw_selected (view (cal_db s) user)"
    "cal_destination s user = vw_destination (view (cal_db s) user)"
  using assms by (auto simp: user_ok_def cached_def connections_of_def catalog_of_def selected_of_def)

text \<open>An operation is a loading of the user followed by a step on the loaded store.\<close>

lemma after_loading:
  assumes run: "and_then (ensure_calendars_loaded user) (\<lambda>_. h) s = (r, s')"
    and start: "well_connected repo good view s" "user_ok view user s" "user \<noteq> calendar_fixture_user"
    and step: "\<And>t. well_connected repo good view t \<Longrightarrow> user_ok view user t \<Longrightarrow>
      cal_selected t user \<noteq> None \<Longrightarrow> h t = (r, s') \<Longrightarrow> user_ok view user s' \<and> (\<forall>x. r = Inr x \<longrightarrow> Q x s')"
  shows "user_ok view user s' \<and> (\<forall>x. r = Inr x \<longrightarrow> Q x s')"
proof -
  obtain q t where q: "ensure_calendars_loaded user s = (q, t)" by (meson surj_pair)
  note t = loaded_own [OF start q]
  show ?thesis
  proof (cases q)
    case (Inl e)
    then have "r = Inl e" "s' = t" using run q by (simp_all add: and_then_def)
    with t(2) show ?thesis by simp
  next
    case (Inr u)
    then show ?thesis using step [OF t(1,2)] t(3) run q by (simp add: and_then_def)
  qed
qed

lemma reads_own:
  assumes "well_connected repo good view s" "user_ok view user s" "user \<noteq> calendar_fixture_user"
  shows "read_calendar_connections user s = (r, s') \<Longrightarrow>
      user_ok view user s' \<and> (\<forall>x. r = Inr x \<longrightarrow> x = vw_connections (view (cal_db s') user))"
    and "read_catalog_calendars user s = (q, s') \<Longrightarrow>
      user_ok view user s' \<and> (\<forall>x. q = Inr x \<longrightarrow> x = vw_catalog (view (cal_db s') user))"
    and "read_selected_calendars user s = (p, s') \<Longrightarrow>
      user_ok view user s' \<and> (\<forall>x. p = Inr x \<longrightarrow> x = vw_selected (view (cal_db s') user))"
  unfolding read_calendar_connections_def read_catalog_calendars_def read_selected_calendars_def
  by (erule after_loading [OF _ assms]; auto simp: reading_def return_ok_def loaded_view)+

lemma read_destination_own:
  assumes "well_connected repo good view s" "user_ok view user s" "user \<noteq> calendar_fixture_user"
    and "read_destination_calendar user s = (r, s')"
  shows "user_ok view user s' \<and>
    (\<forall>x. r = Inr x \<longrightarrow> map_option se_ref x = vw_destination (view (cal_db s') user) \<and>
       (\<forall>c. x = Some c \<longrightarrow> c \<in> set (vw_selected (view (cal_db s') user))))"
proof (rule after_loading [OF assms(4) [unfolded read_destination_calendar_def] assms(1-3)])
  fix t
  assume t: "well_connected repo good view t" "user_ok view user t" "cal_selected t user \<noteq> None"
    and run: "reading (\<lambda>s. let ref = destination_of s user in
        if ref = [] then return_ok None
        else case find (\<lambda>c. se_ref c = ref) (selected_of s user) of
          None \<Rightarrow> calendar_update (clear_destination user) None | Some c \<Rightarrow> return_ok (Some c)) t = (r, s')"
  let ?v = "view (cal_db t) user"
  note v = loaded_view [OF t(2,3)]
  show "user_ok view user s' \<and> (\<forall>x. r = Inr x \<longrightarrow> map_option se_ref x = vw_destination (view (cal_db s') user) \<and>
       (\<forall>c. x = Some c \<longrightarrow> c \<in> set (vw_selected (view (cal_db s') user))))"
  proof (cases "vw_destination ?v")
    case None
    with run v(4) t(2) show ?thesis by (auto simp: reading_def destination_of_def return_ok_def)
  next
    case (Some ref)
    then have ref: "ref \<noteq> []" "ref \<in> se_ref ` set (vw_selected ?v)"
      using ordered_view [OF t(1), of user] by (simp_all add: view_ordered_def)
    then obtain c where c: "find (\<lambda>c. se_ref c = ref) (vw_selected ?v) = Some c"
      by (cases "find (\<lambda>c. se_ref c = ref) (vw_selected ?v)") (auto simp: find_None_iff)
    with run v(3,4) Some ref(1) have "r = Inr (Some c)" "s' = t"
      by (auto simp: reading_def destination_of_def return_ok_def Let_def)
    with t(2) Some find_Some_in [OF c] show ?thesis by simp
  qed
qed

lemma sync_own:
  assumes wc: "well_connected repo good view s" and ok: "user_ok view user s"
    and run: "sync_provider_catalog user s = (r, s')"
  shows "user_ok view user s'"
proof (cases "cal_catalog_provider s")
  case None
  with run ok show ?thesis by (simp add: sync_provider_catalog_def reading_def fail_with_def)
next
  case (Some p)
  then have quiet: "quiet good view p" using wc by (simp add: well_connected_def)
  obtain q t where q: "read_provider_catalog p user s = (q, t)" by (meson surj_pair)
  note t = provider_same [OF quiet q wc]
  have okt: "user_ok view user t" using user_ok_part [OF t(2)] ok by simp
  show ?thesis
  proof (cases q)
    case (Inl e)
    with run Some q okt show ?thesis by (simp add: sync_provider_catalog_def reading_def and_then_def)
  next
    case (Inr x)
    obtain cs ks where x: "x = (cs, ks)" by (cases x)
    then have "apply_provider_catalog user cs ks t = (r, s')"
      using run Some q Inr by (simp add: sync_provider_catalog_def reading_def and_then_def)
    from apply_catalog_own [OF this t(1) okt] show ?thesis by blast
  qed
qed

lemma refresh_status_own:
  assumes wc: "well_connected repo good view s" and ok: "user_ok view user s"
    and user: "user \<noteq> calendar_fixture_user"
    and run: "refresh_connection_status user now s = (r, s')"
  shows "user_ok view user s'"
proof (cases "cal_status_provider s")
  case None
  with run ok show ?thesis by (simp add: refresh_connection_status_def reading_def fail_with_def)
next
  case (Some p)
  then have quiet: "quiet good view p" using wc by (simp add: well_connected_def)
  obtain q t where q: "calendar_repo_call (p user) s = (q, t)" by (meson surj_pair)
  have t: "well_connected repo good view t" "user_part view user t = user_part view user s"
    using others_kept [OF keeps_provider [OF quiet, of _ "user + 1"] q wc] by simp_all
  have okt: "user_ok view user t" using user_ok_part [OF t(2)] ok by simp
  show ?thesis
  proof (cases "\<exists>x us. q = Inr x \<and> connection_updates_from_provider (sn_connections x) = Inr us \<and> us \<noteq> []")
    case False
    then have "s' = t"
      using run Some q
      by (auto simp: refresh_connection_status_def reading_def and_then_def lift_result_def return_ok_def
          split: sum.splits if_splits)
    with okt show ?thesis by simp
  next
    case True
    then obtain us where us: "apply_connection_status user us now t = (r, s')"
      using run Some q by (auto simp: refresh_connection_status_def reading_def and_then_def lift_result_def)
    let ?step = "reading (\<lambda>s. let checked_at = wire_format now
      in reject (validate_connection_updates (connections_of s user) us)
          (case cal_repo s of
             None \<Rightarrow> set_connections user (apply_connection_updates (connections_of s user) us checked_at)
           | Some repo \<Rightarrow> and_then (calendar_repo_call
               (kr_refresh repo user us checked_at ''provider_status_refresh''))
               (\<lambda>connections. set_connections user (sort_connections connections))))"
    have run: "and_then (ensure_calendars_loaded user) (\<lambda>_. ?step) t = (r, s')"
      using us by (simp add: apply_connection_status_def)
    have "user_ok view user s' \<and> (\<forall>x. r = Inr x \<longrightarrow> True)"
    proof (rule after_loading [OF run t(1) okt user])
      fix u
      assume u: "well_connected repo good view u" "user_ok view user u" "cal_selected u user \<noteq> None"
        and run: "?step u = (r, s')"
      let ?call = "calendar_repo_call (kr_refresh repo user us (wire_format now) ''provider_status_refresh'')"
      show "user_ok view user s' \<and> (\<forall>x. r = Inr x \<longrightarrow> True)"
      proof (cases "validate_connection_updates (connections_of u user) us")
        case (Some e)
        with run u(2) show ?thesis by (simp add: reading_def reject_def fail_with_def)
      next
        case None
        then have run: "and_then ?call (\<lambda>connections. set_connections user (sort_connections connections)) u = (r, s')"
          using run well_connected_repo [OF u(1)] by (simp add: reading_def reject_def)
        obtain d w where d: "?call u = (d, w)" by (meson surj_pair)
        show ?thesis
        proof (cases d)
          case (Inl e)
          then have "s' = w" using run d by (simp add: and_then_def)
          with contract_err [OF d [unfolded Inl] refresh_law u(1)] u(2) user_ok_part [of view user w u]
          show ?thesis by simp
        next
          case (Inr cs)
          from contract_ok [OF d [unfolded Inr] refresh_law u(1)] obtain db where
            w: "w = u\<lparr>cal_db := db\<rparr>" "well_connected repo good view w"
            and v: "view db user = (view (cal_db u) user)\<lparr>vw_connections := cs\<rparr>" by blast
          have "sort_connections cs = cs"
            using ordered_view [OF w(2), of user] w(1) v
            by (simp add: view_ordered_def sort_connections_def sort_sorted_refs)
          then have "s' = w\<lparr>cal_connections := (cal_connections w)(user \<mapsto> cs)\<rparr>"
            using run d Inr by (simp add: and_then_def set_connections_def calendar_update_def)
          with u(2,3) w(1) v show ?thesis by (auto simp: user_ok_def cached_def in_book_def)
        qed
      qed
    qed
    then show ?thesis by simp
  qed
qed

lemma set_replace_first: "set (replace_first c xs) \<subseteq> insert c (set xs)"
  by (induction xs) auto

lemma save_own:
  assumes start: "well_connected repo good view s" "user_ok view user s" "user \<noteq> calendar_fixture_user"
    and run: "save_selected_calendar user ref s = (r, s')"
  shows "user_ok view user s' \<and> (\<forall>x. r = Inr x \<longrightarrow> se_ref x = ref \<and> x \<in> to_selected ` set (vw_catalog (view (cal_db s') user)))"
proof (cases "ref = []")
  case True
  with run start(2) show ?thesis by (auto simp: save_selected_calendar_def and_then_def check_def)
next
  case False
  let ?save = "\<lambda>e. calendar_repo_call (kr_save_selected repo user e)"
  let ?set = "\<lambda>c s. set_selected user (sort_selected (replace_first c (selected_of s user))) s"
  let ?step = "reading (\<lambda>s.
     and_then (demand (find (\<lambda>c. ka_ref c = ref) (catalog_of s user)) ErrCalendarCatalogEntryNotFound) (\<lambda>entry.
     and_then (case cal_repo s of None \<Rightarrow> return_ok (to_selected entry)
        | Some repo \<Rightarrow> calendar_repo_call (kr_save_selected repo user (to_selected entry)))
       (\<lambda>c. calendar_update (?set c) c)))"
  have run: "and_then (ensure_calendars_loaded user) (\<lambda>_. ?step) s = (r, s')"
    using run False by (simp add: save_selected_calendar_def basic_handlers_run)
  show ?thesis
  proof (rule after_loading [OF run start])
    fix t
    assume t: "well_connected repo good view t" "user_ok view user t" "cal_selected t user \<noteq> None"
      and run: "?step t = (r, s')"
    note v = loaded_view [OF t(2,3)]
    show "user_ok view user s' \<and> (\<forall>x. r = Inr x \<longrightarrow> se_ref x = ref \<and> x \<in> to_selected ` set (vw_catalog (view (cal_db s') user)))"
    proof (cases "find (\<lambda>c. ka_ref c = ref) (catalog_of t user)")
      case None
      with run t(2) show ?thesis by (auto simp: reading_def basic_handlers_run)
    next
      case (Some k)
      let ?e = "to_selected k"
      have k: "k \<in> set (vw_catalog (view (cal_db t) user))" "ka_ref k = ref"
        using find_Some_in [OF Some] v(2) by simp_all
      have run: "and_then (?save ?e) (\<lambda>c. calendar_update (?set c) c) t = (r, s')"
        using run Some well_connected_repo [OF t(1)] by (simp add: reading_def basic_handlers_run)
      obtain d u where d: "?save ?e t = (d, u)" by (meson surj_pair)
      show ?thesis
      proof (cases d)
        case (Inl e)
        then have "s' = u" "r = Inl e" using run d by (simp_all add: and_then_def)
        with contract_err [OF d [unfolded Inl] save_selected_law t(1)] t(2) user_ok_part [of view user u t]
        show ?thesis by simp
      next
        case (Inr c)
        from contract_ok [OF d [unfolded Inr] save_selected_law t(1)] obtain db where
          u: "u = t\<lparr>cal_db := db\<rparr>" and c: "c = ?e"
          and w: "view db user = (view (cal_db t) user)\<lparr>vw_selected :=
            sort_selected (replace_first ?e (vw_selected (view (cal_db t) user)))\<rparr>" by blast
        have r: "r = Inr ?e" "s' = ?set ?e u"
          using run d Inr c by (simp_all add: and_then_def calendar_update_def)
        have "set (sort_selected (replace_first ?e (vw_selected (view (cal_db t) user))))
            \<subseteq> to_selected ` set (vw_catalog (view (cal_db t) user))"
          using set_replace_first [of ?e "vw_selected (view (cal_db t) user)"] k t(2)
          by (auto simp: sort_selected_def user_ok_def in_book_def)
        with r u w t(2,3) v(3) k show ?thesis
          by (auto simp: user_ok_def cached_def in_book_def set_selected_def selected_of_def to_selected_def)
      qed
    qed
  qed
qed

lemma removed_own:
  assumes t: "well_connected repo good view t" "user_ok view user t" "cal_selected t user \<noteq> None"
    and ref: "ref \<noteq> []"
    and run: "and_then (calendar_repo_call (kr_delete_selected repo user ref)) (remove_selected user ref) t = (r, s')"
  shows "user_ok view user s' \<and> (\<forall>x. r = Inr x \<longrightarrow>
    (del_removed x \<longleftrightarrow> ref \<in> se_ref ` set (vw_selected (view (cal_db t) user))) \<and>
    ref \<notin> se_ref ` set (vw_selected (view (cal_db s') user)))"
proof -
  let ?v = "view (cal_db t) user"
  obtain d u where d: "calendar_repo_call (kr_delete_selected repo user ref) t = (d, u)" by (meson surj_pair)
  note law = delete_selected_law [OF ref, of user]
  show ?thesis
  proof (cases d)
    case (Inl e)
    then have "s' = u" "r = Inl e" using run d by (simp_all add: and_then_def)
    with contract_err [OF d [unfolded Inl] law t(1)] t(2) user_ok_part [of view user u t]
    show ?thesis by simp
  next
    case (Inr x)
    from contract_ok [OF d [unfolded Inr] law t(1)] obtain db where
      u: "u = t\<lparr>cal_db := db\<rparr>"
      and x: "del_removed x \<longleftrightarrow> ref \<in> se_ref ` set (vw_selected ?v)"
        "del_cleared x \<longleftrightarrow> vw_destination ?v = Some ref"
      and w: "view db user = ?v\<lparr>vw_selected := filter (\<lambda>c. se_ref c \<noteq> ref) (vw_selected ?v),
           vw_destination := (if vw_destination ?v = Some ref then None else vw_destination ?v)\<rparr>" by blast
    have sel: "selected_of u user = vw_selected ?v"
      using loaded_view(3) [OF t(2,3)] u by (simp add: selected_of_def)
    have gone: "del_removed x \<longleftrightarrow> list_ex (\<lambda>c. se_ref c = ref) (vw_selected ?v)"
      using x(1) by (auto simp: list_ex_iff)
    have "del_removed x" if "del_cleared x"
      using that x ordered_view [OF t(1), of user] by (auto simp: view_ordered_def)
    moreover have step: "s' = (if del_removed x \<and> del_cleared x then clear_destination user else id)
        (set_selected user (filter (\<lambda>c. se_ref c \<noteq> ref) (vw_selected ?v)) u)"
      and r: "r = Inr (if del_removed x then x\<lparr>del_removed := True\<rparr> else \<lparr>del_removed = False, del_cleared = False\<rparr>)"
      using run d Inr sel gone
      by (auto simp: remove_selected_def reading_def and_then_def calendar_update_def return_ok_def Let_def
          split: if_splits)
    ultimately show ?thesis
      using t(2,3) x w u loaded_view [OF t(2,3)]
      by (auto simp: user_ok_def cached_def in_book_def set_selected_def clear_destination_def split: if_splits)
  qed
qed

lemma delete_own:
  assumes start: "well_connected repo good view s" "user_ok view user s" "user \<noteq> calendar_fixture_user"
    and run: "delete_selected_calendar user ref s = (r, s')"
  shows "user_ok view user s' \<and> (\<forall>x. r = Inr x \<longrightarrow> ref \<notin> se_ref ` set (vw_selected (view (cal_db s') user)))"
proof (cases "ref = []")
  case True
  with run start(2) show ?thesis by (auto simp: delete_selected_calendar_def and_then_def check_def)
next
  case False
  let ?step = "reading (\<lambda>s. and_then
       (case cal_repo s of
          Some repo \<Rightarrow> calendar_repo_call (kr_delete_selected repo user ref)
        | None \<Rightarrow>
            if destination_of s user = ref
            then calendar_update (clear_destination user) \<lparr>del_removed = False, del_cleared = True\<rparr>
            else return_ok \<lparr>del_removed = False, del_cleared = False\<rparr>)
       (remove_selected user ref))"
  have run: "and_then (ensure_calendars_loaded user) (\<lambda>_. ?step) s = (r, s')"
    using run False by (simp add: delete_selected_calendar_def basic_handlers_run)
  show ?thesis
  proof (rule after_loading [OF run start])
    fix t
    assume t: "well_connected repo good view t" "user_ok view user t" "cal_selected t user \<noteq> None"
      and "?step t = (r, s')"
    then have "and_then (calendar_repo_call (kr_delete_selected repo user ref)) (remove_selected user ref) t = (r, s')"
      using well_connected_repo [OF t(1)] by (simp add: reading_def)
    from removed_own [OF t False this]
    show "user_ok view user s' \<and> (\<forall>x. r = Inr x \<longrightarrow> ref \<notin> se_ref ` set (vw_selected (view (cal_db s') user)))"
      by blast
  qed
qed

lemma set_destination_own:
  assumes start: "well_connected repo good view s" "user_ok view user s" "user \<noteq> calendar_fixture_user"
    and run: "set_destination_calendar user ref s = (r, s')"
  shows "user_ok view user s' \<and> (\<forall>c. r = Inr (Some c) \<longrightarrow>
    vw_destination (view (cal_db s') user) = Some ref \<and>
    find (\<lambda>c. se_ref c = ref) (vw_selected (view (cal_db s') user)) = Some c)"
proof (cases "ref = []")
  case True
  with run start(2) show ?thesis by (auto simp: set_destination_calendar_def and_then_def check_def)
next
  case False
  let ?step = "reading (\<lambda>s. and_then
         (case cal_repo s of
            Some repo \<Rightarrow> calendar_repo_call (kr_set_destination repo user ref)
          | None \<Rightarrow> return_ok (find (\<lambda>c. se_ref c = ref) (selected_of s user)))
         (\<lambda>found. case found of
            None \<Rightarrow> return_ok None
          | Some c \<Rightarrow> calendar_update (set_destination user ref) (Some c)))"
  let ?Q = "\<lambda>x s'. \<forall>c. x = Some c \<longrightarrow>
    vw_destination (view (cal_db s') user) = Some ref \<and>
    find (\<lambda>c. se_ref c = ref) (vw_selected (view (cal_db s') user)) = Some c"
  have run: "and_then (ensure_calendars_loaded user) (\<lambda>_. ?step) s = (r, s')"
    using run False by (simp add: set_destination_calendar_def basic_handlers_run)
  have "user_ok view user s' \<and> (\<forall>x. r = Inr x \<longrightarrow> ?Q x s')"
  proof (rule after_loading [OF run start])
    fix t
    assume t: "well_connected repo good view t" "user_ok view user t" "cal_selected t user \<noteq> None"
      and step: "?step t = (r, s')"
    let ?v = "view (cal_db t) user"
    note law = set_destination_law [OF False, of user]
    obtain d u where d: "calendar_repo_call (kr_set_destination repo user ref) t = (d, u)" by (meson surj_pair)
    show "user_ok view user s' \<and> (\<forall>x. r = Inr x \<longrightarrow> ?Q x s')"
    proof (cases d)
      case (Inl e)
      then have "s' = u" "r = Inl e" 
        using step d well_connected_repo [OF t(1)] by (simp_all add: reading_def and_then_def)
      with contract_err [OF d [unfolded Inl] law t(1)] t(2) user_ok_part [of view user u t]
      show ?thesis by simp
    next
      case (Inr x)
      from contract_ok [OF d [unfolded Inr] law t(1)] obtain db where
        u: "u = t\<lparr>cal_db := db\<rparr>" and x: "x = find (\<lambda>c. se_ref c = ref) (vw_selected ?v)"
        and w: "view db user = (if x = None then ?v else ?v\<lparr>vw_destination := Some ref\<rparr>)" by blast
      have r: "r = Inr x" "s' = (if x = None then u else set_destination user ref u)"
        using step d Inr well_connected_repo [OF t(1)]
        by (auto simp: reading_def and_then_def return_ok_def calendar_update_def split: option.splits)
      with r u w x t(2,3) show ?thesis
        by (cases x) (auto simp: user_ok_def cached_def in_book_def set_destination_def)
    qed
  qed
  then show ?thesis by blast
qed

end

section \<open>Every operation, for any user\<close>

datatype calendar_op =
    CalReadConnections int
  | CalReadCatalog int
  | CalReadSelected int
  | CalSync int
  | CalRefresh int gotime
  | CalSave int string
  | CalDelete int string
  | CalReadDestination int
  | CalSetDestination int string

fun op_user :: "calendar_op \<Rightarrow> int" where
  "op_user (CalReadConnections user) = user"
| "op_user (CalReadCatalog user) = user"
| "op_user (CalReadSelected user) = user"
| "op_user (CalSync user) = user"
| "op_user (CalRefresh user now) = user"
| "op_user (CalSave user ref) = user"
| "op_user (CalDelete user ref) = user"
| "op_user (CalReadDestination user) = user"
| "op_user (CalSetDestination user ref) = user"

fun step_calendars :: "calendar_op \<Rightarrow> 'd calendar_store \<Rightarrow> 'd calendar_store" where
  "step_calendars (CalReadConnections user) s = snd (read_calendar_connections user s)"
| "step_calendars (CalReadCatalog user) s = snd (read_catalog_calendars user s)"
| "step_calendars (CalReadSelected user) s = snd (read_selected_calendars user s)"
| "step_calendars (CalSync user) s = snd (sync_provider_catalog user s)"
| "step_calendars (CalRefresh user now) s = snd (refresh_connection_status user now s)"
| "step_calendars (CalSave user ref) s = snd (save_selected_calendar user ref s)"
| "step_calendars (CalDelete user ref) s = snd (delete_selected_calendar user ref s)"
| "step_calendars (CalReadDestination user) s = snd (read_destination_calendar user s)"
| "step_calendars (CalSetDestination user ref) s = snd (set_destination_calendar user ref s)"

context calendar_backend
begin

lemma kept_step:
  assumes "keeps_others repo good view user h" "well_connected repo good view s"
  shows "well_connected repo good view (snd (h s)) \<and>
    (\<forall>w. w \<noteq> user \<longrightarrow> user_part view w (snd (h s)) = user_part view w s)"
  using others_kept [OF assms(1) surjective_pairing assms(2)] by blast

lemma others_step:
  assumes "well_connected repo good view s"
  shows "well_connected repo good view (step_calendars op s) \<and>
    (\<forall>w. w \<noteq> op_user op \<longrightarrow> user_part view w (step_calendars op s) = user_part view w s)"
  by (cases op; simp only: step_calendars.simps op_user.simps; rule kept_step [OF _ assms]; rule keeps)

lemma own_step:
  assumes "well_connected repo good view s" "user_ok view (op_user op) s" "op_user op \<noteq> calendar_fixture_user"
  shows "user_ok view (op_user op) (step_calendars op s)"
proof (cases op)
  case (CalReadConnections user)
  with reads_own(1) [OF _ _ _ surjective_pairing] assms show ?thesis by auto
next
  case (CalReadCatalog user)
  with reads_own(2) [OF _ _ _ surjective_pairing] assms show ?thesis by auto
next
  case (CalReadSelected user)
  with reads_own(3) [OF _ _ _ surjective_pairing] assms show ?thesis by auto
next
  case (CalSync user)
  with sync_own [OF _ _ surjective_pairing] assms show ?thesis by auto
next
  case (CalRefresh user now)
  with refresh_status_own [OF _ _ _ surjective_pairing] assms show ?thesis by auto
next
  case (CalSave user ref)
  with save_own [OF _ _ _ surjective_pairing] assms show ?thesis by auto
next
  case (CalDelete user ref)
  with delete_own [OF _ _ _ surjective_pairing] assms show ?thesis by auto
next
  case (CalReadDestination user)
  with read_destination_own [OF _ _ _ surjective_pairing] assms show ?thesis by auto
next
  case (CalSetDestination user ref)
  with set_destination_own [OF _ _ _ surjective_pairing] assms show ?thesis by auto
qed

lemma inv_step:
  assumes "calendars_inv repo good view s"
  shows "calendars_inv repo good view (step_calendars op s)"
proof -
  have wc: "well_connected repo good view s" using assms by (simp add: calendars_inv_def)
  have "user_ok view user (step_calendars op s)" if "user \<noteq> calendar_fixture_user" for user
  proof (cases "user = op_user op")
    case True
    with own_step [OF wc] assms that show ?thesis by (simp add: calendars_inv_def)
  next
    case False
    then have "user_part view user (step_calendars op s) = user_part view user s"
      using others_step [OF wc, of op] by blast
    from user_ok_part [OF this] assms that show ?thesis by (simp add: calendars_inv_def)
  qed
  with others_step [OF wc, of op] show ?thesis by (simp add: calendars_inv_def)
qed

end

end
