(* ===== verification/CalendarsRepo.thy ===== *)
theory CalendarsRepo
  imports Calendars
begin

text \<open>
  The Postgres repository of the calendar store (\<open>internal/calendars/postgres_repository.go\<close>): its
  tables, with the keys, foreign keys and unique indexes of the migrations \<open>0017\<close>, \<open>0018\<close>,
  \<open>0019\<close> and \<open>0021\<close>. Every key starts with the user and every statement names one, so the tables
  are grouped by user. A statement fails by violating a constraint only: user ids are taken to be in the
  range of the \<open>integer\<close> columns and texts to be valid UTF-8 without NUL; text columns are ordered
  bytewise; the columns \<open>created_at\<close> and \<open>updated_at\<close>, which nothing reads, are left out.
\<close>

section \<open>The tables of a user\<close>

record connection_row =
  rc_ref :: string
  rc_provider :: string
  rc_account_ref :: string
  rc_email :: string
  rc_status :: string
  rc_status_code :: "string option"
  rc_checked_at :: "gotime option"

record calendar_tables =
  tb_connections :: "connection_row list"
  tb_history :: "status_transition list"
  tb_catalog :: "catalog_calendar list"
  tb_selected :: "selected_calendar list"
  tb_destination :: "string option"

record calendar_db =
  kb_tables :: "int \<Rightarrow> calendar_tables"
  kb_now :: gotime

type_synonym 'a calendar_statement = "(calendar_tables, calendar_error, 'a) handler"

text \<open>A statement on its own, and a transaction: an error leaves the tables as they were.\<close>

definition on_tables :: "int \<Rightarrow> 'a calendar_statement \<Rightarrow> (calendar_db, 'a) calendar_call" where
  "on_tables user body db =
     (case body (kb_tables db user) of
        (Inl e, _) \<Rightarrow> (Inl e, db)
      | (Inr x, t) \<Rightarrow> (Inr x, db\<lparr>kb_tables := (kb_tables db)(user := t)\<rparr>))"

definition tables_query :: "(calendar_tables \<Rightarrow> 'a) \<Rightarrow> 'a calendar_statement" where
  "tables_query f t = (Inr (f t), t)"

definition tables_update :: "(calendar_tables \<Rightarrow> calendar_tables) \<Rightarrow> unit calendar_statement" where
  "tables_update f t = (Inr (), f t)"

fun for_each :: "('a \<Rightarrow> ('s, 'e, unit) handler) \<Rightarrow> 'a list \<Rightarrow> ('s, 'e, unit) handler" where
  "for_each f [] = return_ok ()"
| "for_each f (x # xs) = and_then (f x) (\<lambda>_. for_each f xs)"

text \<open>Insert, or on conflict with the row that has the key, update it.\<close>

fun upsert_by :: "('a \<Rightarrow> string) \<Rightarrow> ('a \<Rightarrow> 'a) \<Rightarrow> 'a \<Rightarrow> 'a list \<Rightarrow> 'a list" where
  "upsert_by key f x [] = [x]"
| "upsert_by key f x (y # ys) = (if key y = key x then f y # ys else y # upsert_by key f x ys)"

section \<open>Statements\<close>

definition row_connection :: "connection_row \<Rightarrow> calendar_connection" where
  "row_connection w =
     \<lparr>cc_ref = rc_ref w, cc_provider = rc_provider w, cc_account_ref = rc_account_ref w,
      cc_email = rc_email w, cc_status = rc_status w,
      cc_status_code = (case rc_status_code w of None \<Rightarrow> [] | Some c \<Rightarrow> c),
      cc_checked_at = (case rc_checked_at w of None \<Rightarrow> [] | Some t \<Rightarrow> wire_format t)\<rparr>"

definition table_connections :: "calendar_tables \<Rightarrow> calendar_connection list" where
  "table_connections t =
     map row_connection (sort_by (\<lambda>l r. rc_ref l \<le> rc_ref r) (tb_connections t))"

definition table_catalog :: "calendar_tables \<Rightarrow> catalog_calendar list" where
  "table_catalog t = sort_catalog (tb_catalog t)"

definition table_selected :: "calendar_tables \<Rightarrow> selected_calendar list" where
  "table_selected t = sort_selected (tb_selected t)"

definition connection_row_of :: "calendar_connection \<Rightarrow> connection_row" where
  "connection_row_of c =
     \<lparr>rc_ref = cc_ref c, rc_provider = cc_provider c, rc_account_ref = cc_account_ref c,
      rc_email = cc_email c, rc_status = cc_status c, rc_status_code = None, rc_checked_at = None\<rparr>"

definition conflict_connection :: "calendar_connection \<Rightarrow> connection_row \<Rightarrow> connection_row" where
  "conflict_connection c w =
     w\<lparr>rc_provider := cc_provider c, rc_account_ref := cc_account_ref c, rc_email := cc_email c,
       rc_status := cc_status c\<rparr>"

definition upsert_connection :: "calendar_connection \<Rightarrow> unit calendar_statement" where
  "upsert_connection c =
     tables_update (\<lambda>t. t\<lparr>tb_connections :=
       upsert_by rc_ref (conflict_connection c) (connection_row_of c) (tb_connections t)\<rparr>)"

definition record_transition :: "status_transition \<Rightarrow> unit calendar_statement" where
  "record_transition x t =
     (if list_ex (\<lambda>w. rc_ref w = tr_connection x) (tb_connections t)
      then (Inr (), t\<lparr>tb_history := tb_history t @ [x]\<rparr>)
      else (Inl (CalendarUpstream ''record calendar connection status transition''), t))"

definition catalog_conflict :: "catalog_calendar \<Rightarrow> calendar_tables \<Rightarrow> bool" where
  "catalog_conflict c t \<longleftrightarrow>
     \<not> list_ex (\<lambda>w. rc_ref w = ka_connection c) (tb_connections t) \<or>
     list_ex (\<lambda>d. ka_ref d \<noteq> ka_ref c \<and> ka_provider d = ka_provider c \<and> ka_external d = ka_external c)
       (tb_catalog t)"

definition upsert_catalog :: "catalog_calendar \<Rightarrow> unit calendar_statement" where
  "upsert_catalog c t =
     (if catalog_conflict c t then (Inl (CalendarUpstream ''save catalog calendar''), t)
      else (Inr (), t\<lparr>tb_catalog := upsert_by ka_ref (\<lambda>_. c) c (tb_catalog t)\<rparr>))"

definition selected_conflict :: "selected_calendar \<Rightarrow> calendar_tables \<Rightarrow> bool" where
  "selected_conflict c t \<longleftrightarrow>
     list_ex (\<lambda>d. se_ref d \<noteq> se_ref c \<and> se_provider d = se_provider c \<and> se_external d = se_external c)
       (tb_selected t)"

definition upsert_selected :: "selected_calendar \<Rightarrow> unit calendar_statement" where
  "upsert_selected c t =
     (if selected_conflict c t then (Inl (CalendarUpstream ''save selected calendar''), t)
      else (Inr (), t\<lparr>tb_selected := upsert_by se_ref (\<lambda>_. c) c (tb_selected t)\<rparr>))"

definition update_selected :: "selected_calendar \<Rightarrow> unit calendar_statement" where
  "update_selected c t =
     (if list_ex (\<lambda>d. se_ref d = se_ref c) (tb_selected t)
      then if selected_conflict c t then (Inl (CalendarUpstream ''refresh selected calendar snapshot''), t)
           else (Inr (), t\<lparr>tb_selected := map (\<lambda>d. if se_ref d = se_ref c then c else d) (tb_selected t)\<rparr>)
      else (Inr (), t))"

text \<open>Deleting a row deletes the rows that refer to it.\<close>

definition delete_selected :: "string \<Rightarrow> unit calendar_statement" where
  "delete_selected ref =
     tables_update (\<lambda>t. t\<lparr>tb_selected := filter (\<lambda>d. se_ref d \<noteq> ref) (tb_selected t),
       tb_destination := (if tb_destination t = Some ref then None else tb_destination t)\<rparr>)"

definition delete_catalog :: "string \<Rightarrow> unit calendar_statement" where
  "delete_catalog ref =
     tables_update (\<lambda>t. t\<lparr>tb_catalog := filter (\<lambda>d. ka_ref d \<noteq> ref) (tb_catalog t)\<rparr>)"

definition delete_connection :: "string \<Rightarrow> unit calendar_statement" where
  "delete_connection ref =
     tables_update (\<lambda>t. t\<lparr>tb_connections := filter (\<lambda>w. rc_ref w \<noteq> ref) (tb_connections t),
       tb_history := filter (\<lambda>x. tr_connection x \<noteq> ref) (tb_history t),
       tb_catalog := filter (\<lambda>d. ka_connection d \<noteq> ref) (tb_catalog t)\<rparr>)"

section \<open>The repository\<close>

definition pg_read_connections :: "int \<Rightarrow> (calendar_db, calendar_connection list) calendar_call" where
  "pg_read_connections user = on_tables user (tables_query table_connections)"

definition pg_save_connection ::
    "int \<Rightarrow> calendar_connection \<Rightarrow> (calendar_db, calendar_connection) calendar_call" where
  "pg_save_connection user c db =
     (if connection_incomplete c then (Inl ErrInvalidSelectedCalendar, db)
      else on_tables user (and_then (upsert_connection c) (\<lambda>_. return_ok c)) db)"

definition transition_incomplete :: "status_transition \<Rightarrow> bool" where
  "transition_incomplete x =
     (tr_connection x = [] \<or> tr_provider x = [] \<or> tr_previous x = [] \<or> tr_next x = [] \<or> tr_reason x = [])"

definition pg_record_transition :: "int \<Rightarrow> status_transition \<Rightarrow> (calendar_db, unit) calendar_call" where
  "pg_record_transition user x db =
     (if transition_incomplete x then (Inl ErrInvalidCalendarCatalogSnapshot, db)
      else on_tables user (record_transition x) db)"

definition sync_delete_stale ::
    "(string \<Rightarrow> bool) \<Rightarrow> catalog_calendar \<Rightarrow> unit calendar_statement" where
  "sync_delete_stale kept existing =
     (if kept (ka_ref existing) then return_ok ()
      else and_then (delete_selected (ka_ref existing)) (\<lambda>_. delete_catalog (ka_ref existing)))"

definition status_changed ::
    "calendar_connection option \<Rightarrow> string \<Rightarrow> string \<Rightarrow> string \<Rightarrow> string \<Rightarrow> unit calendar_statement" where
  "status_changed previous ref provider status reason =
     (case previous of
        None \<Rightarrow> return_ok ()
      | Some p \<Rightarrow>
          if cc_status p \<noteq> status
          then record_transition \<lparr>tr_connection = ref, tr_provider = provider,
            tr_previous = cc_status p, tr_next = status, tr_reason = reason\<rparr>
          else return_ok ())"

definition sync_connection ::
    "(string \<Rightarrow> calendar_connection option) \<Rightarrow> string \<Rightarrow> calendar_connection \<Rightarrow> unit calendar_statement" where
  "sync_connection existing reason c =
     and_then (upsert_connection c) (\<lambda>_.
       status_changed (existing (cc_ref c)) (cc_ref c) (cc_provider c) (cc_status c) reason)"

definition sync_calendar :: "catalog_calendar \<Rightarrow> unit calendar_statement" where
  "sync_calendar c = and_then (upsert_catalog c) (\<lambda>_. update_selected (to_selected c))"

definition sync_delete_connection ::
    "(string \<Rightarrow> bool) \<Rightarrow> calendar_connection \<Rightarrow> unit calendar_statement" where
  "sync_delete_connection kept existing =
     (if kept (cc_ref existing) then return_ok () else delete_connection (cc_ref existing))"

definition sync_tables ::
    "calendar_connection list \<Rightarrow> catalog_calendar list \<Rightarrow> string \<Rightarrow>
     (calendar_connection list \<times> catalog_calendar list) calendar_statement" where
  "sync_tables connections catalog reason =
     and_then (tables_query table_connections) (\<lambda>existing_connections.
     and_then (tables_query table_catalog) (\<lambda>existing_catalog.
     and_then (for_each (sync_delete_stale (\<lambda>ref. by_ref ka_ref catalog ref \<noteq> None)) existing_catalog) (\<lambda>_.
     and_then (for_each (sync_connection (by_ref cc_ref existing_connections) reason) connections) (\<lambda>_.
     and_then (for_each sync_calendar catalog) (\<lambda>_.
     and_then (for_each (sync_delete_connection (\<lambda>ref. by_ref cc_ref connections ref \<noteq> None))
       existing_connections) (\<lambda>_.
     tables_query (\<lambda>t. (table_connections t, table_catalog t))))))))"

definition pg_sync_catalog ::
    "int \<Rightarrow> calendar_connection list \<Rightarrow> catalog_calendar list \<Rightarrow> string \<Rightarrow>
     (calendar_db, calendar_connection list \<times> catalog_calendar list) calendar_call" where
  "pg_sync_catalog user connections catalog reason db =
     (if reason = [] then (Inl ErrInvalidCalendarCatalogSnapshot, db)
      else case validate_provider_catalog connections catalog of
        Some e \<Rightarrow> (Inl e, db)
      | None \<Rightarrow> on_tables user (sync_tables connections catalog reason) db)"

fun validate_connection_updates_for_repository ::
    "string set \<Rightarrow> connection_update list \<Rightarrow> calendar_error option" where
  "validate_connection_updates_for_repository seen [] = None"
| "validate_connection_updates_for_repository seen (u # us) =
     (if connection_update_incomplete u \<or> cv_ref u \<in> seen then Some ErrInvalidCalendarStatusSnapshot
      else validate_connection_updates_for_repository (insert (cv_ref u) seen) us)"

text \<open>The cast of the stamp is modelled for the wire layout, which the callers use.\<close>

definition update_connection_status :: "connection_update \<Rightarrow> string \<Rightarrow> unit calendar_statement" where
  "update_connection_status u stamp t =
     (case parse_wire stamp of
        None \<Rightarrow> (Inl (CalendarUpstream ''refresh calendar connection status''), t)
      | Some checked_at \<Rightarrow>
          (Inr (), t\<lparr>tb_connections := map (\<lambda>w.
             if rc_ref w = cv_ref u \<and> rc_provider w = cv_provider u \<and> rc_account_ref w = cv_account_ref u
             then w\<lparr>rc_status := cv_status u,
                    rc_status_code := (if cv_status_code u = [] then None else Some (cv_status_code u)),
                    rc_checked_at := Some checked_at\<rparr>
             else w) (tb_connections t)\<rparr>))"

definition refresh_connection ::
    "(string \<Rightarrow> calendar_connection option) \<Rightarrow> string \<Rightarrow> string \<Rightarrow> connection_update \<Rightarrow>
     unit calendar_statement" where
  "refresh_connection existing stamp reason u =
     (case existing (cv_ref u) of
        None \<Rightarrow> fail_with ErrInvalidCalendarStatusSnapshot
      | Some previous \<Rightarrow>
          if cc_provider previous \<noteq> cv_provider u \<or> cc_account_ref previous \<noteq> cv_account_ref u
          then fail_with ErrInvalidCalendarStatusSnapshot
          else and_then (update_connection_status u stamp) (\<lambda>_.
            status_changed (Some previous) (cv_ref u) (cv_provider u) (cv_status u) reason))"

definition pg_refresh_connections ::
    "int \<Rightarrow> connection_update list \<Rightarrow> string \<Rightarrow> string \<Rightarrow>
     (calendar_db, calendar_connection list) calendar_call" where
  "pg_refresh_connections user updates stamp reason db =
     (let stamp = (if stamp = [] then wire_format (kb_now db) else stamp) in
      if reason = [] then (Inl ErrInvalidCalendarStatusSnapshot, db)
      else case validate_connection_updates_for_repository {} updates of
        Some e \<Rightarrow> (Inl e, db)
      | None \<Rightarrow>
          on_tables user
            (and_then (tables_query table_connections) (\<lambda>existing.
             and_then (for_each (refresh_connection (by_ref cc_ref existing) stamp reason) updates) (\<lambda>_.
             tables_query table_connections))) db)"

definition pg_read_catalog :: "int \<Rightarrow> (calendar_db, catalog_calendar list) calendar_call" where
  "pg_read_catalog user = on_tables user (tables_query table_catalog)"

definition pg_save_catalog :: "int \<Rightarrow> catalog_calendar \<Rightarrow> (calendar_db, catalog_calendar) calendar_call" where
  "pg_save_catalog user c db =
     (if catalog_incomplete c then (Inl ErrInvalidSelectedCalendar, db)
      else on_tables user (and_then (upsert_catalog c) (\<lambda>_. return_ok c)) db)"

definition pg_read_catalog_calendar ::
    "int \<Rightarrow> string \<Rightarrow> (calendar_db, catalog_calendar option) calendar_call" where
  "pg_read_catalog_calendar user ref =
     on_tables user (tables_query (\<lambda>t. find (\<lambda>c. ka_ref c = ref) (tb_catalog t)))"

definition pg_read_selected :: "int \<Rightarrow> (calendar_db, selected_calendar list) calendar_call" where
  "pg_read_selected user = on_tables user (tables_query table_selected)"

definition selected_incomplete :: "selected_calendar \<Rightarrow> bool" where
  "selected_incomplete c = (se_ref c = [] \<or> se_provider c = [] \<or> se_external c = [] \<or> se_name c = [])"

definition pg_save_selected :: "int \<Rightarrow> selected_calendar \<Rightarrow> (calendar_db, selected_calendar) calendar_call" where
  "pg_save_selected user c db =
     (if selected_incomplete c then (Inl ErrInvalidSelectedCalendar, db)
      else on_tables user (and_then (upsert_selected c) (\<lambda>_. return_ok c)) db)"

definition pg_delete_selected ::
    "int \<Rightarrow> string \<Rightarrow> (calendar_db, delete_selected_result) calendar_call" where
  "pg_delete_selected user ref db =
     (if ref = [] then (Inl ErrInvalidSelectedCalendarRef, db)
      else on_tables user
        (and_then (tables_query (\<lambda>t. case tb_destination t of None \<Rightarrow> [] | Some d \<Rightarrow> d)) (\<lambda>destination.
         and_then (tables_query (\<lambda>t. list_ex (\<lambda>d. se_ref d = ref) (tb_selected t))) (\<lambda>removed.
         and_then (delete_selected ref) (\<lambda>_.
         return_ok \<lparr>del_removed = removed, del_cleared = (destination = ref)\<rparr>)))) db)"

definition table_destination :: "calendar_tables \<Rightarrow> selected_calendar option" where
  "table_destination t =
     (case tb_destination t of None \<Rightarrow> None | Some ref \<Rightarrow> find (\<lambda>d. se_ref d = ref) (tb_selected t))"

definition pg_read_destination :: "int \<Rightarrow> (calendar_db, selected_calendar option) calendar_call" where
  "pg_read_destination user = on_tables user (tables_query table_destination)"

text \<open>A selected row is read first; the insert refers to it.\<close>

definition pg_set_destination :: "int \<Rightarrow> string \<Rightarrow> (calendar_db, selected_calendar option) calendar_call" where
  "pg_set_destination user ref db =
     (if ref = [] then (Inl ErrInvalidDestinationCalendarRef, db)
      else on_tables user
        (and_then (tables_query (\<lambda>t. find (\<lambda>d. se_ref d = ref) (tb_selected t))) (\<lambda>found.
         case found of
           None \<Rightarrow> return_ok None
         | Some c \<Rightarrow> and_then (tables_update (\<lambda>t. t\<lparr>tb_destination := Some ref\<rparr>)) (\<lambda>_. return_ok (Some c)))) db)"

definition pg_calendar_repository :: "calendar_db calendar_repository" where
  "pg_calendar_repository =
     \<lparr>kr_connections = pg_read_connections, kr_save_connection = pg_save_connection,
      kr_sync = pg_sync_catalog, kr_refresh = pg_refresh_connections, kr_catalog = pg_read_catalog,
      kr_catalog_calendar = pg_read_catalog_calendar,
      kr_save_catalog = pg_save_catalog, kr_selected = pg_read_selected,
      kr_save_selected = pg_save_selected, kr_delete_selected = pg_delete_selected,
      kr_destination = pg_read_destination, kr_set_destination = pg_set_destination\<rparr>"

end
