(* ===== verification/CalendarsTables.thy ===== *)
theory CalendarsTables
  imports CalendarsClient CalendarsRepo
begin

text \<open>
  The Postgres repository keeps its tables consistent and the contract of the calendar store:
  what each statement leaves in the tables, and the transaction of the catalog sync.
\<close>

section \<open>Consistent tables\<close>

definition tables_ok :: "calendar_tables \<Rightarrow> bool" where
  "tables_ok t \<longleftrightarrow> distinct (map rc_ref (tb_connections t)) \<and> distinct (map ka_ref (tb_catalog t)) \<and>
     distinct (map se_ref (tb_selected t)) \<and>
     ka_connection ` set (tb_catalog t) \<subseteq> rc_ref ` set (tb_connections t) \<and>
     tr_connection ` set (tb_history t) \<subseteq> rc_ref ` set (tb_connections t) \<and>
     inj_on (\<lambda>d. (ka_provider d, ka_external d)) (set (tb_catalog t)) \<and>
     inj_on (\<lambda>d. (se_provider d, se_external d)) (set (tb_selected t)) \<and>
     (\<forall>ref. tb_destination t = Some ref \<longrightarrow> ref \<noteq> [] \<and> ref \<in> se_ref ` set (tb_selected t))"

definition db_ok :: "calendar_db \<Rightarrow> bool" where
  "db_ok db \<longleftrightarrow> (\<forall>user. tables_ok (kb_tables db user))"

definition tables_view :: "calendar_tables \<Rightarrow> calendar_view" where
  "tables_view t = \<lparr>vw_connections = table_connections t, vw_catalog = table_catalog t,
     vw_selected = table_selected t, vw_destination = tb_destination t\<rparr>"

definition db_view :: "calendar_db \<Rightarrow> int \<Rightarrow> calendar_view" where
  "db_view db user = tables_view (kb_tables db user)"

lemma tables_view_simps [simp]:
  "vw_connections (tables_view t) = table_connections t" "vw_catalog (tables_view t) = table_catalog t"
  "vw_selected (tables_view t) = table_selected t" "vw_destination (tables_view t) = tb_destination t"
  by (simp_all add: tables_view_def)

lemma cc_ref_row [simp]: "cc_ref (row_connection w) = rc_ref w"
  by (simp add: row_connection_def)

lemma sets_of_tables [simp]:
  "set (table_connections t) = row_connection ` set (tb_connections t)"
  "set (table_catalog t) = set (tb_catalog t)" "set (table_selected t) = set (tb_selected t)"
  by (simp_all add: table_connections_def table_catalog_def sort_catalog_def table_selected_def sort_selected_def)

lemma view_of_tables:
  assumes "tables_ok t"
  shows "view_ordered (tables_view t)"
proof -
  have "sorted_refs rc_ref (sort_by (\<lambda>l r. rc_ref l \<le> rc_ref r) (tb_connections t))"
    using assms by (simp add: sorted_refs_sort tables_ok_def)
  then have "sorted_refs cc_ref (table_connections t)"
    using sorted_refs_map_filter [of rc_ref _ "\<lambda>_. True" cc_ref row_connection]
    by (simp add: table_connections_def)
  moreover have "sorted_refs ka_ref (table_catalog t)" "sorted_refs se_ref (table_selected t)"
    using assms by (simp_all add: table_catalog_def sort_catalog_def table_selected_def sort_selected_def
        sorted_refs_sort tables_ok_def)
  moreover have "table_catalog t = []" if "table_connections t = []"
  proof -
    have "set (tb_connections t) = {}" using that sets_of_tables(1) [of t] by (metis image_is_empty set_empty)
    then have "set (table_catalog t) = {}" using assms by (simp add: tables_ok_def)
    then show ?thesis by (simp only: set_empty)
  qed
  ultimately show ?thesis using assms by (auto simp: view_ordered_def tables_ok_def)
qed

section \<open>Upserts\<close>

lemma keys_upsert_by:
  "(\<And>y. key (f y) = key y) \<Longrightarrow>
   map key (upsert_by key f x xs) =
     (if key x \<in> set (map key xs) then map key xs else map key xs @ [key x])"
  by (induction xs) auto

lemma set_upsert_by:
  "distinct (map key xs) \<Longrightarrow>
   set (upsert_by key f x xs) =
     insert (case find (\<lambda>y. key y = key x) xs of None \<Rightarrow> x | Some y \<Rightarrow> f y) {y \<in> set xs. key y \<noteq> key x}"
proof (induction xs)
  case (Cons y ys)
  then show ?case by (cases "key y = key x") (auto simp: image_iff)
qed simp

lemma keys_put:
  "map key (upsert_by key (\<lambda>_. x) x xs) =
     (if key x \<in> set (map key xs) then map key xs else map key xs @ [key x])"
  by (induction xs) auto

lemma set_put: "distinct (map key xs) \<Longrightarrow> set (upsert_by key (\<lambda>_. x) x xs) = insert x {y \<in> set xs. key y \<noteq> key x}"
  by (simp add: set_upsert_by split: option.split)

lemma distinct_put: "distinct (map key xs) \<Longrightarrow> distinct (map key (upsert_by key (\<lambda>_. x) x xs))"
  by (simp only: keys_put) simp

lemma replace_first_put: "replace_first c xs = upsert_by se_ref (\<lambda>_. c) c xs"
  by (induction xs) auto

section \<open>What the statements leave\<close>

lemma upsert_connection_ok:
  assumes "tables_ok t"
  shows "\<exists>W. upsert_connection c t = (Inr (), t\<lparr>tb_connections := W\<rparr>) \<and> tables_ok (t\<lparr>tb_connections := W\<rparr>) \<and>
    rc_ref ` set W = insert (cc_ref c) (rc_ref ` set (tb_connections t)) \<and>
    (\<forall>w \<in> set W. if rc_ref w = cc_ref c
       then rc_provider w = cc_provider c \<and> rc_account_ref w = cc_account_ref c \<and>
         rc_email w = cc_email c \<and> rc_status w = cc_status c
       else w \<in> set (tb_connections t))"
proof -
  let ?W = "upsert_by rc_ref (conflict_connection c) (connection_row_of c) (tb_connections t)"
  have key: "rc_ref (conflict_connection c w) = rc_ref w" for w by (simp add: conflict_connection_def)
  have ref: "rc_ref (connection_row_of c) = cc_ref c" by (simp add: connection_row_of_def)
  have d: "distinct (map rc_ref (tb_connections t))" using assms by (simp add: tables_ok_def)
  have keys: "map rc_ref ?W = (if cc_ref c \<in> set (map rc_ref (tb_connections t)) then map rc_ref (tb_connections t)
      else map rc_ref (tb_connections t) @ [cc_ref c])"
    using keys_upsert_by [of rc_ref "conflict_connection c", OF key] ref by simp
  have d': "distinct (map rc_ref ?W)" unfolding keys using d by simp
  have refs: "rc_ref ` set ?W = insert (cc_ref c) (rc_ref ` set (tb_connections t))"
    using arg_cong [OF keys, of set] by auto
  have "tables_ok (t\<lparr>tb_connections := ?W\<rparr>)"
    using assms d' refs by (auto simp: tables_ok_def)
  moreover have "\<forall>w \<in> set ?W. if rc_ref w = cc_ref c
       then rc_provider w = cc_provider c \<and> rc_account_ref w = cc_account_ref c \<and>
         rc_email w = cc_email c \<and> rc_status w = cc_status c
       else w \<in> set (tb_connections t)"
    using set_upsert_by [OF d, of "conflict_connection c" "connection_row_of c"] ref
    by (auto simp: conflict_connection_def connection_row_of_def split: option.splits dest: find_Some_in)
  ultimately show ?thesis using refs by (auto simp: upsert_connection_def tables_update_def)
qed

lemma upsert_catalog_ok:
  assumes "tables_ok t" "upsert_catalog c t = (Inr u, t')"
  shows "tables_ok t' \<and> (\<exists>K. t' = t\<lparr>tb_catalog := K\<rparr> \<and>
    set K = insert c {d \<in> set (tb_catalog t). ka_ref d \<noteq> ka_ref c})"
proof -
  let ?K = "upsert_by ka_ref (\<lambda>_. c) c (tb_catalog t)"
  have t': "t' = t\<lparr>tb_catalog := ?K\<rparr>" and free: "\<not> catalog_conflict c t"
    using assms(2) by (auto simp: upsert_catalog_def split: if_splits)
  have d: "distinct (map ka_ref (tb_catalog t))" using assms(1) by (simp add: tables_ok_def)
  note K = set_put [OF d, of c] distinct_put [OF d, of c]
  have "inj_on (\<lambda>d. (ka_provider d, ka_external d)) (set ?K)"
    using assms(1) free unfolding K(1) by (auto simp: tables_ok_def inj_on_def catalog_conflict_def list_ex_iff)
  moreover have "ka_connection c \<in> rc_ref ` set (tb_connections t)"
    using free by (auto simp: catalog_conflict_def list_ex_iff intro: rev_image_eqI)
  then have "ka_connection ` set ?K \<subseteq> rc_ref ` set (tb_connections t)"
    using assms(1) unfolding K(1) tables_ok_def by blast
  ultimately have "tables_ok t'" using assms(1) K t' by (simp add: tables_ok_def)
  with t' K(1) show ?thesis by blast
qed

lemma upsert_selected_ok:
  assumes "tables_ok t" "upsert_selected c t = (Inr u, t')"
  shows "tables_ok t' \<and> t' = t\<lparr>tb_selected := replace_first c (tb_selected t)\<rparr>"
proof -
  let ?S = "replace_first c (tb_selected t)"
  have t': "t' = t\<lparr>tb_selected := ?S\<rparr>" and free: "\<not> selected_conflict c t"
    using assms(2) by (auto simp: upsert_selected_def replace_first_put split: if_splits)
  have d: "distinct (map se_ref (tb_selected t))" using assms(1) by (simp add: tables_ok_def)
  note S = set_put [OF d, of c, folded replace_first_put] distinct_put [OF d, of c, folded replace_first_put]
  have "inj_on (\<lambda>d. (se_provider d, se_external d)) (set ?S)"
    using assms(1) free unfolding S(1) by (auto simp: tables_ok_def inj_on_def selected_conflict_def list_ex_iff)
  moreover have "se_ref ` set (tb_selected t) \<subseteq> se_ref ` set ?S" unfolding S(1) by auto
  ultimately show ?thesis using assms(1) S(2) t' by (auto simp: tables_ok_def)
qed

lemma update_selected_ok:
  assumes "tables_ok t" "update_selected c t = (Inr u, t')"
  shows "tables_ok t' \<and> t' = t\<lparr>tb_selected := map (\<lambda>d. if se_ref d = se_ref c then c else d) (tb_selected t)\<rparr>"
proof (cases "list_ex (\<lambda>d. se_ref d = se_ref c) (tb_selected t)")
  case False
  then have "map (\<lambda>d. if se_ref d = se_ref c then c else d) (tb_selected t) = tb_selected t"
    by (auto simp: list_ex_iff intro: map_idI)
  with assms False show ?thesis by (simp add: update_selected_def)
next
  case True
  let ?f = "\<lambda>d. if se_ref d = se_ref c then c else d"
  let ?S = "map ?f (tb_selected t)"
  have t': "t' = t\<lparr>tb_selected := ?S\<rparr>" and free: "\<not> selected_conflict c t"
    using assms(2) True by (auto simp: update_selected_def split: if_splits)
  have refs: "map se_ref ?S = map se_ref (tb_selected t)" by simp
  have "inj_on (\<lambda>d. (se_provider d, se_external d)) (set ?S)"
    using assms(1) free by (auto simp: tables_ok_def inj_on_def selected_conflict_def list_ex_iff)
  moreover have "se_ref ` set ?S = se_ref ` set (tb_selected t)" using arg_cong [OF refs, of set] by (simp only: set_map)
  moreover have "distinct (map se_ref ?S)" using assms(1) by (simp only: refs tables_ok_def)
  ultimately show ?thesis using assms(1) t' by (simp add: tables_ok_def del: set_map map_map)
qed

lemma tables_ok_filtered:
  assumes "tables_ok t"
    and "\<And>d. d \<in> set (tb_catalog t) \<Longrightarrow> K d \<Longrightarrow> W (ka_connection d)"
    and "\<And>x. x \<in> set (tb_history t) \<Longrightarrow> H x \<Longrightarrow> W (tr_connection x)"
    and "\<And>ref. dest = Some ref \<Longrightarrow> tb_destination t = Some ref \<and> S ref"
  shows "tables_ok (t\<lparr>tb_connections := filter (\<lambda>w. W (rc_ref w)) (tb_connections t),
    tb_history := filter H (tb_history t), tb_catalog := filter K (tb_catalog t),
    tb_selected := filter (\<lambda>d. S (se_ref d)) (tb_selected t), tb_destination := dest\<rparr>)"
proof -
  have refs: "rc_ref ` set (filter (\<lambda>w. W (rc_ref w)) (tb_connections t)) = {r \<in> rc_ref ` set (tb_connections t). W r}"
    by auto
  have "ka_connection ` set (filter K (tb_catalog t)) \<subseteq> rc_ref ` set (filter (\<lambda>w. W (rc_ref w)) (tb_connections t))"
    using assms(1,2) unfolding tables_ok_def refs by auto
  moreover have "tr_connection ` set (filter H (tb_history t)) \<subseteq> rc_ref ` set (filter (\<lambda>w. W (rc_ref w)) (tb_connections t))"
    using assms(1,3) unfolding tables_ok_def refs by auto
  moreover have "inj_on (\<lambda>d. (ka_provider d, ka_external d)) (set (filter K (tb_catalog t)))"
    "inj_on (\<lambda>d. (se_provider d, se_external d)) (set (filter (\<lambda>d. S (se_ref d)) (tb_selected t)))"
    using assms(1) unfolding tables_ok_def by (auto intro: inj_on_subset)
  moreover have "ref \<noteq> [] \<and> ref \<in> se_ref ` set (filter (\<lambda>d. S (se_ref d)) (tb_selected t))" if "dest = Some ref" for ref
    using assms(1) assms(4) [OF that] unfolding tables_ok_def by (auto simp: image_iff)
  ultimately show ?thesis using assms(1) by (simp add: tables_ok_def distinct_map_filter)
qed

lemma status_changed_ok:
  assumes "tables_ok t" "ref \<in> rc_ref ` set (tb_connections t)"
  shows "\<exists>H. status_changed previous ref provider status reason t = (Inr (), t\<lparr>tb_history := H\<rparr>) \<and>
    tables_ok (t\<lparr>tb_history := H\<rparr>)"
proof (cases "\<exists>p. previous = Some p \<and> cc_status p \<noteq> status")
  case False
  then show ?thesis
    using assms(1) by (intro exI [of _ "tb_history t"]) (auto simp: status_changed_def return_ok_def split: option.split)
next
  case True
  then obtain p where p: "previous = Some p" "cc_status p \<noteq> status" by blast
  let ?x = "\<lparr>tr_connection = ref, tr_provider = provider, tr_previous = cc_status p, tr_next = status,
    tr_reason = reason\<rparr>"
  have "list_ex (\<lambda>w. rc_ref w = ref) (tb_connections t)" using assms(2) by (auto simp: list_ex_iff)
  with p assms show ?thesis
    by (intro exI [of _ "tb_history t @ [?x]"]) (simp add: status_changed_def record_transition_def tables_ok_def)
qed

section \<open>The loops of a sync\<close>

lemma for_each_ok:
  "for_each f (x # xs) t = (Inr (), t') \<longleftrightarrow> (\<exists>u. f x t = (Inr (), u) \<and> for_each f xs u = (Inr (), t'))"
  by (simp add: and_then_ok)

lemma for_each_Nil_ok: "for_each f [] t = (Inr (), t') \<longleftrightarrow> t' = t"
  by (auto simp: return_ok_def)

definition dropped :: "(string \<Rightarrow> bool) \<Rightarrow> ('a \<Rightarrow> string) \<Rightarrow> 'a list \<Rightarrow> string \<Rightarrow> bool" where
  "dropped kept key xs r \<longleftrightarrow> r \<in> key ` set xs \<and> \<not> kept r"

lemma delete_stale_loop:
  "for_each (sync_delete_stale kept) ks t =
     (Inr (), t\<lparr>tb_catalog := filter (\<lambda>d. \<not> dropped kept ka_ref ks (ka_ref d)) (tb_catalog t),
        tb_selected := filter (\<lambda>d. \<not> dropped kept ka_ref ks (se_ref d)) (tb_selected t),
        tb_destination := (case tb_destination t of None \<Rightarrow> None
          | Some r \<Rightarrow> if dropped kept ka_ref ks r then None else Some r)\<rparr>)"
proof (induction ks arbitrary: t)
  case Nil
  then show ?case by (simp add: return_ok_def dropped_def split: option.split)
next
  case (Cons k ks)
  have d: "dropped kept ka_ref (k # ks) r \<longleftrightarrow> (r = ka_ref k \<and> \<not> kept r) \<or> dropped kept ka_ref ks r" for r
    by (auto simp: dropped_def)
  show ?case
  proof (cases "kept (ka_ref k)")
    case True
    then have "dropped kept ka_ref (k # ks) r = dropped kept ka_ref ks r" for r using d by auto
    with True Cons show ?thesis
      by (simp add: and_then_def sync_delete_stale_def return_ok_def split: option.split)
  next
    case False
    then have "dropped kept ka_ref (k # ks) r \<longleftrightarrow> r = ka_ref k \<or> dropped kept ka_ref ks r" for r
      using d by auto
    with False Cons show ?thesis
      by (simp add: and_then_def sync_delete_stale_def delete_selected_def delete_catalog_def
          tables_update_def split: option.split)
  qed
qed

text \<open>What the connections loop keeps and what it writes.\<close>

definition matches_connection :: "calendar_connection \<Rightarrow> connection_row \<Rightarrow> bool" where
  "matches_connection c w \<longleftrightarrow> rc_ref w = cc_ref c \<and> rc_provider w = cc_provider c \<and>
     rc_account_ref w = cc_account_ref c \<and> rc_email w = cc_email c \<and> rc_status w = cc_status c"

lemma connections_loop:
  assumes "tables_ok t" "distinct (map cc_ref cs)"
  shows "\<exists>W H. for_each (sync_connection existing reason) cs t =
      (Inr (), t\<lparr>tb_connections := W, tb_history := H\<rparr>) \<and>
    tables_ok (t\<lparr>tb_connections := W, tb_history := H\<rparr>) \<and>
    rc_ref ` set W = cc_ref ` set cs \<union> rc_ref ` set (tb_connections t) \<and>
    (\<forall>w \<in> set W. (\<exists>c \<in> set cs. matches_connection c w) \<or>
       w \<in> set (tb_connections t) \<and> rc_ref w \<notin> cc_ref ` set cs)"
  using assms
proof (induction cs arbitrary: t)
  case Nil
  then show ?case
    by (intro exI [of _ "tb_connections t"] exI [of _ "tb_history t"]) (simp add: return_ok_def)
next
  case (Cons c cs)
  from upsert_connection_ok [OF Cons.prems(1), of c] obtain W0 where
    up: "upsert_connection c t = (Inr (), t\<lparr>tb_connections := W0\<rparr>)" "tables_ok (t\<lparr>tb_connections := W0\<rparr>)"
    and refs: "rc_ref ` set W0 = insert (cc_ref c) (rc_ref ` set (tb_connections t))"
    and rows: "\<forall>w \<in> set W0. if rc_ref w = cc_ref c then matches_connection c w else w \<in> set (tb_connections t)"
    unfolding matches_connection_def by (metis (no_types, lifting))
  let ?t = "t\<lparr>tb_connections := W0\<rparr>"
  have "cc_ref c \<in> rc_ref ` set (tb_connections ?t)" using refs by simp
  from status_changed_ok [OF up(2) this, of "existing (cc_ref c)" "cc_provider c" "cc_status c" reason] obtain H0 where
    h: "status_changed (existing (cc_ref c)) (cc_ref c) (cc_provider c) (cc_status c) reason ?t =
      (Inr (), ?t\<lparr>tb_history := H0\<rparr>)" "tables_ok (?t\<lparr>tb_history := H0\<rparr>)" by blast
  let ?u = "?t\<lparr>tb_history := H0\<rparr>"
  have d: "distinct (map cc_ref cs)" "cc_ref c \<notin> cc_ref ` set cs" using Cons.prems(2) by auto
  from Cons.IH [OF h(2) d(1)] obtain W H where
    run: "for_each (sync_connection existing reason) cs ?u = (Inr (), ?u\<lparr>tb_connections := W, tb_history := H\<rparr>)"
    "tables_ok (?u\<lparr>tb_connections := W, tb_history := H\<rparr>)"
    and W: "rc_ref ` set W = cc_ref ` set cs \<union> rc_ref ` set W0"
      "\<forall>w \<in> set W. (\<exists>c \<in> set cs. matches_connection c w) \<or> w \<in> set W0 \<and> rc_ref w \<notin> cc_ref ` set cs"
    by auto
  have "for_each (sync_connection existing reason) (c # cs) t =
      (Inr (), t\<lparr>tb_connections := W, tb_history := H\<rparr>)"
    using up(1) h(1) run(1) by (simp add: and_then_def sync_connection_def)
  moreover have "tables_ok (t\<lparr>tb_connections := W, tb_history := H\<rparr>)" using run(2) by simp
  moreover have "rc_ref ` set W = cc_ref ` set (c # cs) \<union> rc_ref ` set (tb_connections t)" using W(1) refs by auto
  moreover have "\<forall>w \<in> set W. (\<exists>c' \<in> set (c # cs). matches_connection c' w) \<or>
      w \<in> set (tb_connections t) \<and> rc_ref w \<notin> cc_ref ` set (c # cs)"
    using W(2) rows by (metis image_insert insert_iff list.set(2))
  ultimately show ?case by blast
qed

definition snapshot_in :: "catalog_calendar list \<Rightarrow> selected_calendar \<Rightarrow> selected_calendar" where
  "snapshot_in ks d = (case by_ref ka_ref ks (se_ref d) of None \<Rightarrow> d | Some k \<Rightarrow> to_selected k)"

lemma se_ref_to_selected [simp]: "se_ref (to_selected k) = ka_ref k"
  by (simp add: to_selected_def)

lemma by_ref_Cons:
  "by_ref ref (x # xs) r = (case by_ref ref xs r of None \<Rightarrow> if ref x = r then Some x else None | Some y \<Rightarrow> Some y)"
proof -
  have "find P (ys @ [x]) = (case find P ys of None \<Rightarrow> if P x then Some x else None | Some y \<Rightarrow> Some y)" for P ys
    by (induction ys) auto
  then show ?thesis by (simp add: by_ref_def)
qed

lemma snapshot_in_Cons:
  assumes "ka_ref k \<notin> ka_ref ` set ks"
  shows "snapshot_in ks (if se_ref d = ka_ref k then to_selected k else d) = snapshot_in (k # ks) d"
proof -
  have "by_ref ka_ref ks (ka_ref k) = None" using assms by (metis by_ref_None imageI)
  then show ?thesis by (auto simp: snapshot_in_def by_ref_Cons split: option.split)
qed

lemma catalog_loop:
  assumes "tables_ok t" "distinct (map ka_ref ks)" "for_each sync_calendar ks t = (Inr (), t')"
  shows "tables_ok t' \<and> (\<exists>K. t' = t\<lparr>tb_catalog := K, tb_selected := map (snapshot_in ks) (tb_selected t)\<rparr> \<and>
    set K = set ks \<union> {d \<in> set (tb_catalog t). ka_ref d \<notin> ka_ref ` set ks})"
  using assms
proof (induction ks arbitrary: t)
  case Nil
  then have "t' = t" by (simp add: return_ok_def)
  moreover have "map (snapshot_in []) (tb_selected t) = tb_selected t"
    by (rule map_idI) (simp add: snapshot_in_def by_ref_def)
  ultimately show ?case using Nil.prems(1) by (intro conjI exI [of _ "tb_catalog t"]) simp_all
next
  case (Cons k ks)
  from Cons.prems(3) obtain u v where steps: "upsert_catalog k t = (Inr (), u)"
    "update_selected (to_selected k) u = (Inr (), v)" "for_each sync_calendar ks v = (Inr (), t')"
    unfolding for_each_ok sync_calendar_def [of k] and_then_ok by auto
  from upsert_catalog_ok [OF Cons.prems(1) steps(1)] obtain K0 where
    u: "tables_ok u" "u = t\<lparr>tb_catalog := K0\<rparr>"
    and K0: "set K0 = insert k {d \<in> set (tb_catalog t). ka_ref d \<noteq> ka_ref k}" by blast
  note updated = update_selected_ok [OF u(1) steps(2), unfolded se_ref_to_selected]
  note v = conjunct1 [OF updated] conjunct2 [OF updated]
  have d: "distinct (map ka_ref ks)" "ka_ref k \<notin> ka_ref ` set ks" using Cons.prems(2) by auto
  from Cons.IH [OF v(1) d(1) steps(3)] obtain K where
    t': "tables_ok t'" "t' = v\<lparr>tb_catalog := K, tb_selected := map (snapshot_in ks) (tb_selected v)\<rparr>"
    and K: "set K = set ks \<union> {d \<in> set (tb_catalog v). ka_ref d \<notin> ka_ref ` set ks}" by blast
  have "map (snapshot_in ks) (tb_selected v) = map (snapshot_in (k # ks)) (tb_selected t)"
    using snapshot_in_Cons [OF d(2)] by (simp add: v(2) u(2))
  moreover have "set K = set (k # ks) \<union> {d \<in> set (tb_catalog t). ka_ref d \<notin> ka_ref ` set (k # ks)}"
    using K K0 d(2) by (auto simp: v(2) u(2))
  ultimately show ?case using t' by (intro conjI exI [of _ K]) (simp_all add: v(2) u(2))
qed

lemma delete_connections_loop:
  "for_each (sync_delete_connection kept) cs t =
     (Inr (), t\<lparr>tb_connections := filter (\<lambda>w. \<not> dropped kept cc_ref cs (rc_ref w)) (tb_connections t),
        tb_history := filter (\<lambda>x. \<not> dropped kept cc_ref cs (tr_connection x)) (tb_history t),
        tb_catalog := filter (\<lambda>d. \<not> dropped kept cc_ref cs (ka_connection d)) (tb_catalog t)\<rparr>)"
proof (induction cs arbitrary: t)
  case Nil
  then show ?case by (simp add: return_ok_def dropped_def)
next
  case (Cons c cs)
  have d: "dropped kept cc_ref (c # cs) r \<longleftrightarrow> (r = cc_ref c \<and> \<not> kept r) \<or> dropped kept cc_ref cs r" for r
    by (auto simp: dropped_def)
  show ?case
  proof (cases "kept (cc_ref c)")
    case True
    then have "dropped kept cc_ref (c # cs) r = dropped kept cc_ref cs r" for r using d by auto
    with True Cons show ?thesis by (simp add: and_then_def sync_delete_connection_def return_ok_def)
  next
    case False
    then have "\<not> dropped kept cc_ref (c # cs) r \<longleftrightarrow> r \<noteq> cc_ref c \<and> \<not> dropped kept cc_ref cs r" for r
      using d by auto
    with False Cons show ?thesis
      by (simp add: and_then_def sync_delete_connection_def delete_connection_def tables_update_def)
  qed
qed

section \<open>The sync\<close>

lemma connection_providers_ok:
  "connection_providers m cs = Inr m' \<Longrightarrow>
   distinct (map cc_ref cs) \<and> (\<forall>c \<in> set cs. m (cc_ref c) = None \<and> m' (cc_ref c) = Some (cc_provider c)) \<and>
   (\<forall>r. r \<notin> cc_ref ` set cs \<longrightarrow> m' r = m r)"
proof (induction cs arbitrary: m)
  case (Cons c cs)
  from Cons.prems have free: "m (cc_ref c) = None"
    and rest: "connection_providers (m(cc_ref c \<mapsto> cc_provider c)) cs = Inr m'"
    by (auto split: if_splits)
  note IH = Cons.IH [OF rest]
  then have "cc_ref c \<notin> cc_ref ` set cs" by force
  with IH free show ?case by (auto split: if_splits)
qed simp

lemma validate_catalog_ok:
  "validate_catalog_from m refs exts ks = None \<Longrightarrow>
   distinct (map ka_ref ks) \<and> (\<forall>k \<in> set ks. m (ka_connection k) = Some (ka_provider k) \<and> ka_ref k \<notin> refs \<and>
     ka_ref k \<noteq> [])"
  by (induction m refs exts ks rule: validate_catalog_from.induct)
    (auto simp: catalog_incomplete_def split: if_splits)

lemma valid_catalog:
  assumes "validate_provider_catalog cs ks = None"
  shows "distinct (map cc_ref cs)" "distinct (map ka_ref ks)"
    "ka_connection ` set ks \<subseteq> cc_ref ` set cs" "\<forall>k \<in> set ks. ka_ref k \<noteq> []"
proof -
  from assms obtain m where m: "connection_providers Map.empty cs = Inr m"
    "validate_catalog_from m {} {} ks = None"
    by (auto simp: validate_provider_catalog_def split: sum.splits)
  note c = connection_providers_ok [OF m(1)] and k = validate_catalog_ok [OF m(2)]
  show "distinct (map cc_ref cs)" "distinct (map ka_ref ks)" "\<forall>k \<in> set ks. ka_ref k \<noteq> []"
    using c k by blast+
  show "ka_connection ` set ks \<subseteq> cc_ref ` set cs"
  proof
    fix r assume "r \<in> ka_connection ` set ks"
    then have "m r \<noteq> None" using k by auto
    then show "r \<in> cc_ref ` set cs" using c by (metis empty_iff)
  qed
qed

lemma by_ref_kept: "by_ref key xs r \<noteq> None \<longleftrightarrow> r \<in> key ` set xs"
  by (auto simp: by_ref_None image_iff)

text \<open>What a successful sync leaves in the tables.\<close>

lemma sync_run:
  assumes "sync_tables cs ks reason t = (Inr x, t')"
    and "for_each (sync_delete_stale (\<lambda>r. by_ref ka_ref ks r \<noteq> None)) (table_catalog t) t = (Inr (), t1)"
    and "for_each (sync_connection (by_ref cc_ref (table_connections t)) reason) cs t1 = (Inr (), t2)"
  shows "\<exists>t3. for_each sync_calendar ks t2 = (Inr (), t3) \<and>
    for_each (sync_delete_connection (\<lambda>r. by_ref cc_ref cs r \<noteq> None)) (table_connections t) t3 = (Inr (), t') \<and>
    x = (table_connections t', table_catalog t')"
proof -
  from assms(1) have "and_then (for_each sync_calendar ks) (\<lambda>_.
     and_then (for_each (sync_delete_connection (\<lambda>ref. by_ref cc_ref cs ref \<noteq> None)) (table_connections t)) (\<lambda>_.
     tables_query (\<lambda>t. (table_connections t, table_catalog t)))) t2 = (Inr x, t')"
    by (simp only: sync_tables_def and_then_def tables_query_def assms(2,3) prod.case sum.case)
  then show ?thesis unfolding and_then_ok by (auto simp: tables_query_def)
qed

lemma sync_tables_ok:
  assumes ok: "tables_ok t" and valid: "validate_provider_catalog cs ks = None"
    and run: "sync_tables cs ks reason t = (Inr x, t')"
  shows "tables_ok t' \<and> x = (table_connections t', table_catalog t') \<and> set (tb_catalog t') = set ks \<and>
    rc_ref ` set (tb_connections t') = cc_ref ` set cs \<and>
    (\<forall>w \<in> set (tb_connections t'). \<exists>c \<in> set cs. matches_connection c w) \<and>
    tb_selected t' = map (snapshot_in ks)
      (filter (\<lambda>d. se_ref d \<in> ka_ref ` set ks \<or> se_ref d \<notin> ka_ref ` set (tb_catalog t)) (tb_selected t)) \<and>
    tb_destination t' = (case tb_destination t of None \<Rightarrow> None
      | Some r \<Rightarrow> if r \<in> ka_ref ` set ks \<or> r \<notin> ka_ref ` set (tb_catalog t) then Some r else None)"
proof -
  note v = valid_catalog [OF valid]
  let ?drop = "dropped (\<lambda>r. by_ref ka_ref ks r \<noteq> None) ka_ref (table_catalog t)"
  define D where "D = ?drop"
  have drop: "D r \<longleftrightarrow> r \<notin> ka_ref ` set ks \<and> r \<in> ka_ref ` set (tb_catalog t)" for r
    unfolding D_def by (simp only: dropped_def by_ref_kept sets_of_tables) blast
  let ?del = "dropped (\<lambda>r. by_ref cc_ref cs r \<noteq> None) cc_ref (table_connections t)"
  define E where "E = ?del"
  have del: "E r \<longleftrightarrow> r \<notin> cc_ref ` set cs \<and> r \<in> rc_ref ` set (tb_connections t)" for r
    unfolding E_def by (simp only: dropped_def by_ref_kept sets_of_tables image_image cc_ref_row) blast
  define t1 where "t1 = t\<lparr>tb_catalog := filter (\<lambda>d. \<not> D (ka_ref d)) (tb_catalog t),
      tb_selected := filter (\<lambda>d. \<not> D (se_ref d)) (tb_selected t),
      tb_destination := (case tb_destination t of None \<Rightarrow> None | Some r \<Rightarrow> if D r then None else Some r)\<rparr>"
  have l1: "for_each (sync_delete_stale (\<lambda>r. by_ref ka_ref ks r \<noteq> None)) (table_catalog t) t = (Inr (), t1)"
    unfolding t1_def D_def by (rule delete_stale_loop)
  have dest: "tb_destination t = Some r \<and> \<not> D r" if "tb_destination t1 = Some r" for r
    using that by (simp add: t1_def split: option.splits if_splits)
  have "tables_ok (t\<lparr>tb_connections := filter (\<lambda>w. True) (tb_connections t),
    tb_history := filter (\<lambda>_. True) (tb_history t), tb_catalog := filter (\<lambda>d. \<not> D (ka_ref d)) (tb_catalog t),
    tb_selected := filter (\<lambda>d. \<not> D (se_ref d)) (tb_selected t), tb_destination := tb_destination t1\<rparr>)"
    by (rule tables_ok_filtered [OF ok TrueI TrueI dest])
  then have ok1: "tables_ok t1" by (simp add: t1_def)
  from connections_loop [OF ok1 v(1), of "by_ref cc_ref (table_connections t)" reason] obtain W H where
    l2: "for_each (sync_connection (by_ref cc_ref (table_connections t)) reason) cs t1 =
      (Inr (), t1\<lparr>tb_connections := W, tb_history := H\<rparr>)"
    and ok2: "tables_ok (t1\<lparr>tb_connections := W, tb_history := H\<rparr>)"
    and W: "rc_ref ` set W = cc_ref ` set cs \<union> rc_ref ` set (tb_connections t1)"
      "\<forall>w \<in> set W. (\<exists>c \<in> set cs. matches_connection c w) \<or>
         w \<in> set (tb_connections t1) \<and> rc_ref w \<notin> cc_ref ` set cs" by blast
  from sync_run [OF run l1 l2] obtain t3 where
    l3: "for_each sync_calendar ks (t1\<lparr>tb_connections := W, tb_history := H\<rparr>) = (Inr (), t3)"
    and l4: "for_each (sync_delete_connection (\<lambda>r. by_ref cc_ref cs r \<noteq> None)) (table_connections t) t3 = (Inr (), t')"
    and x: "x = (table_connections t', table_catalog t')" by blast
  from catalog_loop [OF ok2 v(2) l3] obtain K where ok3: "tables_ok t3"
    and t3: "t3 = t1\<lparr>tb_connections := W, tb_history := H, tb_catalog := K,
      tb_selected := map (snapshot_in ks) (tb_selected t1)\<rparr>"
    and K: "set K = set ks \<union> {d \<in> set (tb_catalog t1). ka_ref d \<notin> ka_ref ` set ks}" by auto
  have "{d \<in> set (tb_catalog t1). ka_ref d \<notin> ka_ref ` set ks} = {}" using drop by (auto simp: t1_def)
  with K have K': "set K = set ks" by simp
  have stay: "\<not> E (ka_connection d)" if "d \<in> set K" for d
    using that v(3) del unfolding K' by blast
  have t': "t' = t3\<lparr>tb_connections := filter (\<lambda>w. \<not> E (rc_ref w)) (tb_connections t3),
        tb_history := filter (\<lambda>x. \<not> E (tr_connection x)) (tb_history t3),
        tb_catalog := filter (\<lambda>d. \<not> E (ka_connection d)) (tb_catalog t3)\<rparr>"
    using l4 unfolding delete_connections_loop E_def by simp
  have "tables_ok t'"
    using tables_ok_filtered [OF ok3, where W = "\<lambda>r. \<not> E r" and H = "\<lambda>x. \<not> E (tr_connection x)"
        and K = "\<lambda>d. \<not> E (ka_connection d)" and S = "\<lambda>_. True" and dest = "tb_destination t3"]
    unfolding t' by simp
  moreover have "set (tb_catalog t') = set ks" using stay K' by (auto simp: t' t3)
  moreover have rows: "set (tb_connections t') = {w \<in> set W. \<not> E (rc_ref w)}" by (simp add: t' t3)
  have same: "tb_connections t1 = tb_connections t" by (simp add: t1_def)
  have "rc_ref ` set (tb_connections t') = cc_ref ` set cs"
  proof -
    have "rc_ref ` set (tb_connections t') = {r \<in> rc_ref ` set W. \<not> E r}" unfolding rows by auto
    also have "\<dots> = cc_ref ` set cs" unfolding W(1) same del by blast
    finally show ?thesis .
  qed
  moreover have "\<forall>w \<in> set (tb_connections t'). \<exists>c \<in> set cs. matches_connection c w"
    using W(2) del by (simp add: rows same) blast
  moreover have "tb_selected t' = map (snapshot_in ks)
      (filter (\<lambda>d. se_ref d \<in> ka_ref ` set ks \<or> se_ref d \<notin> ka_ref ` set (tb_catalog t)) (tb_selected t))"
    by (simp add: t' t3 t1_def drop del: imageI)
  moreover have "tb_destination t' = (case tb_destination t of None \<Rightarrow> None
      | Some r \<Rightarrow> if r \<in> ka_ref ` set ks \<or> r \<notin> ka_ref ` set (tb_catalog t) then Some r else None)"
    by (auto simp: t' t3 t1_def drop split: option.split)
  ultimately show ?thesis using x by blast
qed

end
