(* ===== verification/CalendarsBackend.thy ===== *)
theory CalendarsBackend
  imports CalendarsTables
begin

text \<open>
  The Postgres repository keeps the contract of the calendar store: the laws of each call over
  consistent tables, and the interpretation of the store's interface on it.
\<close>

section \<open>The repository keeps the contract\<close>

lemma on_tables_contract:
  assumes "\<And>t x t'. tables_ok t \<Longrightarrow> body t = (Inr x, t') \<Longrightarrow>
      tables_ok t' \<and> post (tables_view t) x (tables_view t')"
  shows "call_contract db_ok db_view user post (on_tables user body)"
proof -
  have "db_ok db' \<and> (\<forall>w. w \<noteq> user \<longrightarrow> db_view db' w = db_view db w) \<and>
      (case r of Inl _ \<Rightarrow> db_view db' user = db_view db user
       | Inr x \<Rightarrow> post (db_view db user) x (db_view db' user))"
    if ok: "db_ok db" and run: "on_tables user body db = (r, db')" for db r db'
  proof (cases "body (kb_tables db user)")
    case (Pair q t)
    show ?thesis
    proof (cases q)
      case (Inl e)
      with Pair run ok show ?thesis by (auto simp: on_tables_def)
    next
      case (Inr x)
      with Pair run have r: "r = Inr x" "db' = db\<lparr>kb_tables := (kb_tables db)(user := t)\<rparr>"
        by (simp_all add: on_tables_def)
      have "tables_ok (kb_tables db user)" using ok by (simp add: db_ok_def)
      from assms [OF this] Pair Inr have "tables_ok t \<and> post (tables_view (kb_tables db user)) x (tables_view t)"
        by simp
      with r ok show ?thesis by (simp add: db_ok_def db_view_def)
    qed
  qed
  then show ?thesis unfolding call_contract_def by blast
qed

lemma guarded_contract:
  assumes "call_contract good view user post call"
  shows "call_contract good view user post (\<lambda>db. if b then (Inl e, db) else call db)"
  using assms by (cases b) (auto simp: call_contract_def)

lemma query_contract:
  assumes "\<And>t. tables_ok t \<Longrightarrow> P (tables_view t) (f t)"
  shows "call_contract db_ok db_view user (\<lambda>v x v'. v' = v \<and> P v x) (on_tables user (tables_query f))"
  by (rule on_tables_contract) (use assms in \<open>auto simp: tables_query_def\<close>)

lemma sync_view:
  assumes ok: "tables_ok t" and valid: "validate_provider_catalog cs ks = None"
    and run: "sync_tables cs ks reason t = (Inr x, t')" and book: "in_book (tables_view t)"
  shows "refreshed_view (sort_catalog ks) (tables_view t) (tables_view t')"
proof -
  note sync = sync_tables_ok [OF ok valid run]
  note v = valid_catalog [OF valid]
  have K: "set (tb_catalog t') = set ks" and ok': "tables_ok t'" using sync by blast+
  have "sort_catalog (tb_catalog t') = sort_catalog ks"
    unfolding sort_catalog_def
    by (rule sorted_refs_unique [of ka_ref])
      (use ok' v(2) K in \<open>simp_all add: sorted_refs_sort tables_ok_def\<close>)
  then have cat: "table_catalog t' = sort_catalog ks" by (simp add: table_catalog_def)
  have entry: "by_ref ka_ref (sort_catalog ks) = by_ref ka_ref ks"
    by (rule ext, rule by_ref_perm) (use v(2) in \<open>simp_all add: sort_catalog_def\<close>)
  have refs: "se_ref d \<in> ka_ref ` set (tb_catalog t)" if "d \<in> set (tb_selected t)" for d
    using book that by (auto simp: in_book_def)
  have S: "tb_selected t' = map (snapshot_in ks) (filter (\<lambda>d. se_ref d \<in> ka_ref ` set ks) (tb_selected t))"
    using sync refs by (simp cong: filter_cong)
  let ?f = "\<lambda>c. to_selected (the (by_ref ka_ref ks (se_ref c)))"
  let ?P = "\<lambda>c. by_ref ka_ref ks (se_ref c) \<noteq> None"
  have f: "snapshot_in ks c = ?f c \<and> se_ref (?f c) = se_ref c" if "?P c" for c
    using that by (auto simp: snapshot_in_def dest: by_ref_Some)
  have sel: "table_selected t' = map ?f (filter ?P (table_selected t))"
  proof (rule sorted_refs_unique [of se_ref])
    show "sorted_refs se_ref (table_selected t')"
      using view_of_tables [OF ok'] by (simp add: view_ordered_def)
    show "sorted_refs se_ref (map ?f (filter ?P (table_selected t)))"
      by (rule sorted_refs_map_filter [of se_ref])
        (use view_of_tables [OF ok] f in \<open>simp_all add: view_ordered_def\<close>)
    have "tb_selected t' = map ?f (filter ?P (tb_selected t))"
      unfolding S by_ref_kept by (rule map_cong [OF refl]) (simp add: f [unfolded by_ref_kept])
    then show "set (table_selected t') = set (map ?f (filter ?P (table_selected t)))" by simp
  qed
  have "r \<in> ka_ref ` set (tb_catalog t)" if "tb_destination t = Some r" for r
    using ok that refs by (auto simp: tables_ok_def)
  moreover have none: "by_ref ka_ref ks r = None \<longleftrightarrow> r \<notin> ka_ref ` set ks" for r
    using by_ref_kept [of ka_ref ks r] by blast
  ultimately have "tb_destination t' = (case tb_destination t of None \<Rightarrow> None
      | Some r \<Rightarrow> if by_ref ka_ref ks r = None then None else Some r)"
    using sync by (simp only: none) (auto split: option.split)
  with sel show ?thesis by (simp add: refreshed_view_def Let_def cat entry)
qed

lemma bind_contract:
  assumes "\<And>t u t'. tables_ok t \<Longrightarrow> body t = (Inr u, t') \<Longrightarrow> tables_ok t' \<and> post (tables_view t) x (tables_view t')"
  shows "call_contract db_ok db_view user post (on_tables user (and_then body (\<lambda>_. return_ok x)))"
  by (rule on_tables_contract) (use assms in \<open>auto simp: and_then_ok basic_handlers_ok\<close>)

lemma status_changed_run:
  assumes "tables_ok t" "status_changed previous ref provider status reason t = (Inr (), s)"
  shows "tables_ok s \<and> (\<exists>H. s = t\<lparr>tb_history := H\<rparr>)"
proof (cases "ref \<in> rc_ref ` set (tb_connections t)")
  case True
  from status_changed_ok [OF assms(1) this, of previous provider status reason] assms(2) show ?thesis by auto
next
  case False
  then have "\<not> list_ex (\<lambda>w. rc_ref w = ref) (tb_connections t)" by (auto simp: list_ex_iff)
  then have "s = t" 
    using assms(2) by (auto simp: status_changed_def record_transition_def return_ok_def split: option.splits if_splits)
  with assms(1) show ?thesis by (intro conjI exI [of _ "tb_history t"]) simp_all
qed

lemma refresh_loop:
  "tables_ok t \<Longrightarrow> for_each (refresh_connection existing stamp reason) us t = (Inr (), t') \<Longrightarrow>
   tables_ok t' \<and> tb_catalog t' = tb_catalog t \<and> tb_selected t' = tb_selected t \<and>
   tb_destination t' = tb_destination t"
proof (induction us arbitrary: t)
  case (Cons u us)
  from Cons.prems(2) obtain s where s: "refresh_connection existing stamp reason u t = (Inr (), s)"
    "for_each (refresh_connection existing stamp reason) us s = (Inr (), t')"
    unfolding for_each_ok by blast
  from s(1) obtain p w where w: "update_connection_status u stamp t = (Inr (), w)"
    "status_changed (Some p) (cv_ref u) (cv_provider u) (cv_status u) reason w = (Inr (), s)"
    by (auto simp: refresh_connection_def handler_ok split: option.splits if_splits)
  then obtain f where f: "w = t\<lparr>tb_connections := map f (tb_connections t)\<rparr>" "\<And>x. rc_ref (f x) = rc_ref x"
    by (auto simp: update_connection_status_def split: option.splits)
  have keys: "map rc_ref (map f (tb_connections t)) = map rc_ref (tb_connections t)" using f(2) by simp
  have "rc_ref ` set (map f (tb_connections t)) = rc_ref ` set (tb_connections t)"
    using arg_cong [OF keys, of set] by (simp only: set_map)
  then have ok: "tables_ok w"
    using Cons.prems(1) keys by (simp add: f(1) tables_ok_def del: set_map map_map)
  have "tables_ok s \<and> (\<exists>H. s = w\<lparr>tb_history := H\<rparr>)" by (rule status_changed_run [OF ok w(2)])
  with Cons.IH [of s] s(2) f(1) show ?case by auto
qed (simp add: return_ok_def)

lemma table_destination_ref:
  assumes "tables_ok t"
  shows "map_option se_ref (table_destination t) = tb_destination t"
proof (cases "tb_destination t")
  case None
  then show ?thesis by (simp add: table_destination_def)
next
  case (Some r)
  then obtain d where "d \<in> set (tb_selected t)" "se_ref d = r" using assms by (auto simp: tables_ok_def)
  with find_distinct_key [of se_ref "tb_selected t" d] assms Some show ?thesis
    by (simp add: table_destination_def tables_ok_def)
qed

lemma find_table_selected:
  assumes "tables_ok t"
  shows "find (\<lambda>d. se_ref d = r) (tb_selected t) = find (\<lambda>d. se_ref d = r) (table_selected t)"
  by (rule find_key_perm) (use assms in \<open>simp_all add: tables_ok_def table_selected_def sort_selected_def\<close>)

lemma save_selected_view:
  assumes "tables_ok t" "upsert_selected e t = (Inr u, t')"
  shows "tables_ok t' \<and> e = e \<and>
    tables_view t' = (tables_view t)\<lparr>vw_selected := sort_selected (replace_first e (vw_selected (tables_view t)))\<rparr>"
proof -
  note up = conjunct1 [OF upsert_selected_ok [OF assms]] conjunct2 [OF upsert_selected_ok [OF assms]]
  have d: "distinct (map se_ref (tb_selected t))" using assms(1) by (simp add: tables_ok_def)
  then have d': "distinct (map se_ref (table_selected t))"
    by (simp add: table_selected_def sort_selected_def)
  have "sort_selected (replace_first e (tb_selected t)) = sort_selected (replace_first e (table_selected t))"
    unfolding sort_selected_def replace_first_put
    by (rule sorted_refs_unique [of se_ref])
      (simp_all add: sorted_refs_sort distinct_put [OF d] distinct_put [OF d'] set_put [OF d] set_put [OF d'])
  then show ?thesis
    using up(1) by (simp add: tables_view_def table_selected_def table_connections_def table_catalog_def up(2))
qed

lemma pg_read_laws:
  "call_contract db_ok db_view user (\<lambda>v x v'. v' = v \<and> x = vw_connections v) (pg_read_connections user)"
  "call_contract db_ok db_view user (\<lambda>v x v'. v' = v \<and> x = vw_catalog v) (pg_read_catalog user)"
  "call_contract db_ok db_view user (\<lambda>v x v'. v' = v \<and> x = vw_selected v) (pg_read_selected user)"
  "call_contract db_ok db_view user (\<lambda>v x v'. v' = v \<and> map_option se_ref x = vw_destination v)
    (pg_read_destination user)"
  unfolding pg_read_connections_def pg_read_catalog_def pg_read_selected_def pg_read_destination_def
  by (rule query_contract, simp add: table_destination_ref)+

lemma pg_save_connection_law:
  "call_contract db_ok db_view user (\<lambda>v x v'. True) (pg_save_connection user c)"
  unfolding pg_save_connection_def [abs_def]
proof (intro guarded_contract bind_contract)
  fix t u t' assume "tables_ok t" and run: "upsert_connection c t = (Inr u, t')"
  from upsert_connection_ok [OF this(1), of c] obtain W where
    "upsert_connection c t = (Inr (), t\<lparr>tb_connections := W\<rparr>)" "tables_ok (t\<lparr>tb_connections := W\<rparr>)" by blast
  with run show "tables_ok t' \<and> True" by simp
qed

lemma pg_save_catalog_law:
  "call_contract db_ok db_view user (\<lambda>v x v'. True) (pg_save_catalog user k)"
  unfolding pg_save_catalog_def [abs_def]
  by (intro guarded_contract bind_contract) (use upsert_catalog_ok in blast)

lemma pg_save_selected_law:
  "call_contract db_ok db_view user
    (\<lambda>v x v'. x = e \<and> v' = v\<lparr>vw_selected := sort_selected (replace_first e (vw_selected v))\<rparr>)
    (pg_save_selected user e)"
  unfolding pg_save_selected_def [abs_def]
  by (intro guarded_contract bind_contract) (rule save_selected_view)

lemma pg_sync_law:
  assumes "validate_provider_catalog cs ks = None"
  shows "call_contract db_ok db_view user
      (\<lambda>v x v'. x = (vw_connections v', vw_catalog v') \<and> vw_catalog v' = sort_catalog ks \<and>
         (in_book v \<longrightarrow> refreshed_view (sort_catalog ks) v v'))
      (pg_sync_catalog user cs ks reason)"
proof -
  have step: "tables_ok t' \<and> x = (table_connections t', table_catalog t') \<and> table_catalog t' = sort_catalog ks \<and>
      (in_book (tables_view t) \<longrightarrow> refreshed_view (sort_catalog ks) (tables_view t) (tables_view t'))"
    if "tables_ok t" "sync_tables cs ks reason t = (Inr x, t')" for t x t'
  proof -
    note sync = sync_tables_ok [OF that(1) assms that(2)]
    have K: "set (tb_catalog t') = set ks" and ok': "tables_ok t'" using sync by blast+
    have "sort_catalog (tb_catalog t') = sort_catalog ks"
      unfolding sort_catalog_def
      by (rule sorted_refs_unique [of ka_ref])
        (use ok' valid_catalog(2) [OF assms] K in \<open>simp_all add: sorted_refs_sort tables_ok_def\<close>)
    with sync sync_view [OF that(1) assms that(2)] show ?thesis by (simp add: table_catalog_def)
  qed
  have "call_contract db_ok db_view user
      (\<lambda>v x v'. x = (vw_connections v', vw_catalog v') \<and> vw_catalog v' = sort_catalog ks \<and>
         (in_book v \<longrightarrow> refreshed_view (sort_catalog ks) v v')) (on_tables user (sync_tables cs ks reason))"
    by (rule on_tables_contract, drule (1) step) simp
  then show ?thesis unfolding pg_sync_catalog_def [abs_def] assms option.case by (rule guarded_contract)
qed

lemma pg_refresh_law:
  "call_contract db_ok db_view user (\<lambda>v x v'. v' = v\<lparr>vw_connections := x\<rparr>)
    (pg_refresh_connections user us stamp reason)"
proof -
  let ?body = "\<lambda>stamp. and_then (tables_query table_connections) (\<lambda>existing.
    and_then (for_each (refresh_connection (by_ref cc_ref existing) stamp reason) us) (\<lambda>_.
    tables_query table_connections))"
  have body: "call_contract db_ok db_view user (\<lambda>v x v'. v' = v\<lparr>vw_connections := x\<rparr>)
    (on_tables user (?body stamp))" for stamp
  proof (rule on_tables_contract)
    fix t x t' assume ok: "tables_ok t" and "?body stamp t = (Inr x, t')"
    then have "for_each (refresh_connection (by_ref cc_ref (table_connections t)) stamp reason) us t = (Inr (), t')"
      and x: "x = table_connections t'"
      by (auto simp: and_then_ok tables_query_def)
    from refresh_loop [OF ok this(1)] x
    show "tables_ok t' \<and> tables_view t' = (tables_view t)\<lparr>vw_connections := x\<rparr>"
      by (simp add: tables_view_def table_catalog_def table_selected_def)
  qed
  show ?thesis
    unfolding call_contract_def
  proof (intro allI impI)
    fix db r db' assume ok: "db_ok db" and run: "pg_refresh_connections user us stamp reason db = (r, db')"
    show "db_ok db' \<and> (\<forall>w. w \<noteq> user \<longrightarrow> db_view db' w = db_view db w) \<and>
      (case r of Inl _ \<Rightarrow> db_view db' user = db_view db user
       | Inr x \<Rightarrow> db_view db' user = (db_view db user)\<lparr>vw_connections := x\<rparr>)"
    proof (cases "reason = [] \<or> validate_connection_updates_for_repository {} us \<noteq> None")
      case True
      with run ok show ?thesis by (auto simp: pg_refresh_connections_def Let_def split: if_splits option.splits)
    next
      case False
      then have "on_tables user (?body (if stamp = [] then wire_format (kb_now db) else stamp)) db = (r, db')"
        using run by (simp add: pg_refresh_connections_def Let_def)
      with body ok show ?thesis unfolding call_contract_def by blast
    qed
  qed
qed

lemma pg_delete_selected_law:
  assumes "ref \<noteq> []"
  shows "call_contract db_ok db_view user
      (\<lambda>v x v'. (del_removed x \<longleftrightarrow> ref \<in> se_ref ` set (vw_selected v)) \<and>
         (del_cleared x \<longleftrightarrow> vw_destination v = Some ref) \<and>
         v' = v\<lparr>vw_selected := filter (\<lambda>c. se_ref c \<noteq> ref) (vw_selected v),
           vw_destination := (if vw_destination v = Some ref then None else vw_destination v)\<rparr>)
      (pg_delete_selected user ref)"
  unfolding pg_delete_selected_def [abs_def]
proof (intro guarded_contract on_tables_contract)
  fix t x t'
  assume ok: "tables_ok t" and run: "and_then (tables_query (\<lambda>t. case tb_destination t of None \<Rightarrow> [] | Some d \<Rightarrow> d))
      (\<lambda>destination. and_then (tables_query (\<lambda>t. list_ex (\<lambda>d. se_ref d = ref) (tb_selected t)))
      (\<lambda>removed. and_then (delete_selected ref)
      (\<lambda>_. return_ok \<lparr>del_removed = removed, del_cleared = destination = ref\<rparr>))) t = (Inr x, t')"
  let ?dest = "if tb_destination t = Some ref then None else tb_destination t"
  have t': "t' = t\<lparr>tb_selected := filter (\<lambda>d. se_ref d \<noteq> ref) (tb_selected t), tb_destination := ?dest\<rparr>"
    and xv: "x = \<lparr>del_removed = list_ex (\<lambda>d. se_ref d = ref) (tb_selected t),
      del_cleared = ((case tb_destination t of None \<Rightarrow> [] | Some d \<Rightarrow> d) = ref)\<rparr>"
    using run
    by (simp_all add: and_then_def tables_query_def delete_selected_def tables_update_def return_ok_def)
  have x: "del_removed x \<longleftrightarrow> ref \<in> se_ref ` set (tb_selected t)" "del_cleared x \<longleftrightarrow> tb_destination t = Some ref"
    using assms by (auto simp: xv list_ex_iff split: option.splits)
  have "tables_ok (t\<lparr>tb_connections := filter (\<lambda>w. True) (tb_connections t),
    tb_history := filter (\<lambda>_. True) (tb_history t), tb_catalog := filter (\<lambda>_. True) (tb_catalog t),
    tb_selected := filter (\<lambda>d. se_ref d \<noteq> ref) (tb_selected t), tb_destination := ?dest\<rparr>)"
    by (rule tables_ok_filtered [OF ok TrueI TrueI]) (simp split: if_splits)
  then have "tables_ok t'" by (simp add: t')
  moreover have "table_selected t' = filter (\<lambda>c. se_ref c \<noteq> ref) (table_selected t)"
    by (rule sorted_refs_unique [of se_ref])
      (use view_of_tables [OF calculation] view_of_tables [OF ok] in
        \<open>simp_all add: view_ordered_def sorted_refs_filter t'\<close>)
  ultimately show "tables_ok t' \<and>
      (del_removed x \<longleftrightarrow> ref \<in> se_ref ` set (vw_selected (tables_view t))) \<and>
      (del_cleared x \<longleftrightarrow> vw_destination (tables_view t) = Some ref) \<and>
      tables_view t' = (tables_view t)\<lparr>vw_selected := filter (\<lambda>c. se_ref c \<noteq> ref) (vw_selected (tables_view t)),
           vw_destination := (if vw_destination (tables_view t) = Some ref then None
             else vw_destination (tables_view t))\<rparr>"
    using x by (simp add: tables_view_def) (simp add: t' table_connections_def table_catalog_def)
qed

lemma pg_set_destination_law:
  assumes "ref \<noteq> []"
  shows "call_contract db_ok db_view user
      (\<lambda>v x v'. x = find (\<lambda>c. se_ref c = ref) (vw_selected v) \<and>
         v' = (if x = None then v else v\<lparr>vw_destination := Some ref\<rparr>))
      (pg_set_destination user ref)"
  unfolding pg_set_destination_def [abs_def]
proof (intro guarded_contract on_tables_contract)
  fix t x t'
  assume ok: "tables_ok t" and run: "and_then (tables_query (\<lambda>t. find (\<lambda>d. se_ref d = ref) (tb_selected t)))
      (\<lambda>found. case found of None \<Rightarrow> return_ok None
         | Some c \<Rightarrow> and_then (tables_update (\<lambda>t. t\<lparr>tb_destination := Some ref\<rparr>)) (\<lambda>_. return_ok (Some c))) t =
      (Inr x, t')"
  have x: "x = find (\<lambda>d. se_ref d = ref) (tb_selected t)"
    and t': "t' = (if x = None then t else t\<lparr>tb_destination := Some ref\<rparr>)"
    using run by (auto simp: and_then_def tables_query_def tables_update_def return_ok_def split: option.splits)
  have "tables_ok t'"
    using ok assms x find_Some_in [of "\<lambda>d. se_ref d = ref" "tb_selected t"]
    by (cases x) (auto simp: t' tables_ok_def)
  then show "tables_ok t' \<and> x = find (\<lambda>c. se_ref c = ref) (vw_selected (tables_view t)) \<and>
      tables_view t' = (if x = None then tables_view t else (tables_view t)\<lparr>vw_destination := Some ref\<rparr>)"
    using x find_table_selected [OF ok, of ref]
    by (simp add: t' tables_view_def table_connections_def table_catalog_def table_selected_def)
qed

interpretation pg: calendar_backend pg_calendar_repository db_ok db_view
proof
  show "view_ordered (db_view db user)" if "db_ok db" for db user
    using that view_of_tables by (simp add: db_ok_def db_view_def)
qed (simp_all add: pg_calendar_repository_def pg_read_laws pg_save_connection_law pg_save_catalog_law
    pg_save_selected_law pg_delete_selected_law pg_set_destination_law pg_sync_law pg_refresh_law)

end
