(* ===== verification/CalendarsProps.thy ===== *)
theory CalendarsProps
  imports CalendarsBackend
begin

text \<open>
  The calendar store over the Postgres repository: every reachable store answers its callers with
  what the tables hold; and what a sync of a provider's catalog makes of the tables.
\<close>

section \<open>Reachable stores\<close>

text \<open>
  The stores over the Postgres repository: from consistent tables, in which the users but the
  fixture user have selected calendars of their catalog only, by operations of any user in any
  order; time passes in between. The providers read nothing but their own service.
\<close>

inductive calendars_reach :: "calendar_db calendar_store \<Rightarrow> bool" where
  start: "db_ok db \<Longrightarrow> (\<And>user. user \<noteq> calendar_fixture_user \<Longrightarrow> in_book (db_view db user)) \<Longrightarrow>
    (\<And>p. catalog_provider = Some p \<Longrightarrow> quiet db_ok db_view p) \<Longrightarrow>
    (\<And>p. status_provider = Some p \<Longrightarrow> quiet db_ok db_view p) \<Longrightarrow>
    calendars_reach (new_calendar_store (Some pg_calendar_repository) catalog_provider status_provider db)"
| step: "calendars_reach s \<Longrightarrow> calendars_reach (step_calendars op s)"
| time: "calendars_reach s \<Longrightarrow> calendars_reach (s\<lparr>cal_db := (cal_db s)\<lparr>kb_now := t\<rparr>\<rparr>)"

abbreviation pg_inv :: "calendar_db calendar_store \<Rightarrow> bool" where
  "pg_inv s \<equiv> calendars_inv pg_calendar_repository db_ok db_view s"

lemma reach_pg_inv: "calendars_reach s \<Longrightarrow> pg_inv s"
proof (induction rule: calendars_reach.induct)
  case (start db catalog_provider status_provider)
  then show ?case
    by (simp add: calendars_inv_def well_connected_def user_ok_def cached_def new_calendar_store_def)
next
  case (step s op)
  show ?case by (rule pg.inv_step [OF step.IH])
next
  case (time s t)
  have "db_view (d\<lparr>kb_now := t\<rparr>) = db_view d" "db_ok (d\<lparr>kb_now := t\<rparr>) = db_ok d" for d
    by (simp_all add: db_view_def [abs_def] db_ok_def)
  then have "user_part db_view w (s\<lparr>cal_db := (cal_db s)\<lparr>kb_now := t\<rparr>\<rparr>) = user_part db_view w s"
    "db_ok (cal_db s\<lparr>kb_now := t\<rparr>) = db_ok (cal_db s)" for w
    by (simp_all add: user_part_def)
  with time user_ok_part show ?case by (simp add: calendars_inv_def well_connected_def) blast
qed

lemma reach_parts:
  assumes "calendars_reach s" "user \<noteq> calendar_fixture_user"
  shows "well_connected pg_calendar_repository db_ok db_view s" "user_ok db_view user s"
  using reach_pg_inv [OF assms(1)] assms(2) by (simp_all add: calendars_inv_def)

abbreviation user_tables :: "calendar_db calendar_store \<Rightarrow> int \<Rightarrow> calendar_tables" where
  "user_tables s user \<equiv> kb_tables (cal_db s) user"

section \<open>The cache never lies\<close>

text \<open>
  C36: over the Postgres repository, in every store reachable by operations of any users in any
  order, what a user but the fixture user reads from the store's cache is what the tables hold for
  the user at that moment: the connections, the catalog and the selected calendars in the order of
  their references, and the destination; and every selected calendar is one of the catalog, as it
  stands there. The start is a database in which this last point holds of the users but the fixture user.
  For the fixture user it is false: the seeding selects calendars that a provider's catalog need not
  have, and the next sync drops them from the cache and not from the table.
\<close>
theorem calendars_cache_faithful:
  assumes "calendars_reach s" and "user \<noteq> calendar_fixture_user"
  shows "(\<forall>xs t. read_calendar_connections user s = (Inr xs, t) \<longrightarrow> xs = table_connections (user_tables t user)) \<and>
    (\<forall>xs t. read_catalog_calendars user s = (Inr xs, t) \<longrightarrow> xs = table_catalog (user_tables t user)) \<and>
    (\<forall>xs t. read_selected_calendars user s = (Inr xs, t) \<longrightarrow> xs = table_selected (user_tables t user) \<and>
       set xs \<subseteq> to_selected ` set (tb_catalog (user_tables t user))) \<and>
    (\<forall>c t. read_destination_calendar user s = (Inr c, t) \<longrightarrow>
       map_option se_ref c = tb_destination (user_tables t user) \<and>
       set_option c \<subseteq> set (tb_selected (user_tables t user)))"
proof -
  note p = reach_parts [OF assms]
  have view: "in_book (tables_view (user_tables t user))" if "user_ok db_view user t" for t
    using that by (simp add: user_ok_def db_view_def)
  have "xs = table_connections (user_tables t user)"
    if "read_calendar_connections user s = (Inr xs, t)" for xs t
    using pg.reads_own(1) [OF p assms(2) that] by (simp add: db_view_def)
  moreover have "xs = table_catalog (user_tables t user)"
    if "read_catalog_calendars user s = (Inr xs, t)" for xs t
    using pg.reads_own(2) [OF p assms(2) that] by (simp add: db_view_def)
  moreover have "xs = table_selected (user_tables t user) \<and>
      set xs \<subseteq> to_selected ` set (tb_catalog (user_tables t user))"
    if "read_selected_calendars user s = (Inr xs, t)" for xs t
    using pg.reads_own(3) [OF p assms(2) that] view [of t] by (simp add: db_view_def in_book_def)
  moreover have "map_option se_ref c = tb_destination (user_tables t user) \<and>
      set_option c \<subseteq> set (tb_selected (user_tables t user))"
    if "read_destination_calendar user s = (Inr c, t)" for c t
    using pg.read_destination_own [OF p assms(2) that] by (cases c) (simp_all add: db_view_def)
  ultimately show ?thesis by blast
qed

section \<open>A sync makes the tables the snapshot\<close>

abbreviation row_fields :: "connection_row \<Rightarrow> string \<times> string \<times> string \<times> string \<times> string" where
  "row_fields w \<equiv> (rc_ref w, rc_provider w, rc_account_ref w, rc_email w, rc_status w)"

abbreviation connection_fields :: "calendar_connection \<Rightarrow> string \<times> string \<times> string \<times> string \<times> string" where
  "connection_fields c \<equiv> (cc_ref c, cc_provider c, cc_account_ref c, cc_email c, cc_status c)"

lemma image_eqI_both:
  assumes "\<And>x. x \<in> A \<Longrightarrow> \<exists>y \<in> B. f x = g y" "\<And>y. y \<in> B \<Longrightarrow> \<exists>x \<in> A. f x = g y"
  shows "f ` A = g ` B"
proof
  show "f ` A \<subseteq> g ` B" using assms(1) by (auto simp: image_iff)
  show "g ` B \<subseteq> f ` A" using assms(2) by (auto simp: image_iff eq_commute)
qed

lemma synced_connections:
  assumes "tables_ok t" "validate_provider_catalog cs ks = None" "sync_tables cs ks reason t = (Inr x, t')"
  shows "row_fields ` set (tb_connections t') = connection_fields ` set cs"
proof (rule image_eqI_both)
  note sync = sync_tables_ok [OF assms]
  have rows: "\<forall>w \<in> set (tb_connections t'). \<exists>c \<in> set cs. matches_connection c w"
    and refs: "rc_ref ` set (tb_connections t') = cc_ref ` set cs" using sync by blast+
  have fields: "matches_connection c w \<longleftrightarrow> row_fields w = connection_fields c" for c w
    by (simp add: matches_connection_def)
  show "\<exists>c \<in> set cs. row_fields w = connection_fields c" if "w \<in> set (tb_connections t')" for w
    using rows that by (simp only: fields)
  fix c assume c: "c \<in> set cs"
  then have "cc_ref c \<in> rc_ref ` set (tb_connections t')" unfolding refs by (rule imageI)
  then obtain w where w: "w \<in> set (tb_connections t')" "rc_ref w = cc_ref c" by auto
  then obtain d where d: "d \<in> set cs" "matches_connection d w" using rows by blast
  have "inj_on cc_ref (set cs)" using valid_catalog(1) [OF assms(2)] by (simp add: distinct_map)
  moreover have "cc_ref d = cc_ref c" using d(2) w(2) by (simp add: matches_connection_def)
  ultimately have "d = c" using d(1) c by (rule inj_onD)
  with w(1) d(2) show "\<exists>w \<in> set (tb_connections t'). row_fields w = connection_fields c"
    by (intro bexI [of _ w]) (simp only: fields)
qed

lemma synced_selected:
  assumes "tables_ok t" "validate_provider_catalog cs ks = None" "sync_tables cs ks reason t = (Inr x, t')"
  shows "set (tb_selected t') = to_selected ` {k \<in> set ks. ka_ref k \<in> se_ref ` set (tb_selected t)} \<union>
    {d \<in> set (tb_selected t). se_ref d \<notin> ka_ref ` set ks \<and> se_ref d \<notin> ka_ref ` set (tb_catalog t)}"
    (is "_ = ?kept \<union> ?left")
proof -
  have entry: "snapshot_in ks d = to_selected k" if "k \<in> set ks" "se_ref d = ka_ref k" for d k
    using by_ref_distinct [OF valid_catalog(2) [OF assms(2)] that(1)] that(2) by (simp add: snapshot_in_def)
  have same: "snapshot_in ks d = d" if "se_ref d \<notin> ka_ref ` set ks" for d
    using that by_ref_kept [of ka_ref ks "se_ref d"] by (auto simp: snapshot_in_def)
  have "set (tb_selected t') = snapshot_in ks ` {d \<in> set (tb_selected t). se_ref d \<in> ka_ref ` set ks} \<union>
      snapshot_in ks ` ?left"
    using sync_tables_ok [OF assms] by auto
  moreover have "snapshot_in ks ` ?left = ?left" using same by force
  moreover have "snapshot_in ks ` {d \<in> set (tb_selected t). se_ref d \<in> ka_ref ` set ks} = ?kept"
  proof (rule image_eqI_both)
    fix d assume "d \<in> {d \<in> set (tb_selected t). se_ref d \<in> ka_ref ` set ks}"
    then obtain k where k: "k \<in> set ks" "se_ref d = ka_ref k" "d \<in> set (tb_selected t)" by blast
    then have "ka_ref k \<in> se_ref ` set (tb_selected t)" by (metis imageI)
    with k show "\<exists>k \<in> {k \<in> set ks. ka_ref k \<in> se_ref ` set (tb_selected t)}. snapshot_in ks d = to_selected k"
      using entry by blast
  next
    fix k assume "k \<in> {k \<in> set ks. ka_ref k \<in> se_ref ` set (tb_selected t)}"
    then obtain d where "d \<in> set (tb_selected t)" "se_ref d = ka_ref k" "k \<in> set ks" by auto
    then show "\<exists>d \<in> {d \<in> set (tb_selected t). se_ref d \<in> ka_ref ` set ks}. snapshot_in ks d = to_selected k"
      using entry by (intro bexI [of _ d]) auto
  qed
  ultimately show ?thesis by simp
qed

text \<open>
  C37: a catalog sync that succeeds leaves exactly the calendars and the connections of the snapshot, each
  connection with the snapshot's fields. Of the selected calendars it keeps those the snapshot has, as they
  stand in it, drops those the catalog had and the snapshot has not, and leaves alone those that neither
  has; the destination is cleared if its calendar is dropped. The tables of other users do not change, and
  a sync that fails changes nothing. (A selected calendar that is not in the catalog is possible: no
  constraint asks for it, and the seeding of the fixture user makes such rows.)
\<close>
theorem calendar_sync_exact:
  assumes "tables_ok (kb_tables db user)"
  shows "case pg_sync_catalog user cs ks reason db of
      (Inl e, db') \<Rightarrow> db' = db
    | (Inr x, db') \<Rightarrow>
        (\<forall>w. w \<noteq> user \<longrightarrow> kb_tables db' w = kb_tables db w) \<and> tables_ok (kb_tables db' user) \<and>
        x = (table_connections (kb_tables db' user), table_catalog (kb_tables db' user)) \<and>
        set (tb_catalog (kb_tables db' user)) = set ks \<and>
        row_fields ` set (tb_connections (kb_tables db' user)) = connection_fields ` set cs \<and>
        set (tb_selected (kb_tables db' user)) =
          to_selected ` {k \<in> set ks. ka_ref k \<in> se_ref ` set (tb_selected (kb_tables db user))} \<union>
          {d \<in> set (tb_selected (kb_tables db user)). se_ref d \<notin> ka_ref ` set ks \<and>
             se_ref d \<notin> ka_ref ` set (tb_catalog (kb_tables db user))} \<and>
        tb_destination (kb_tables db' user) =
          (case tb_destination (kb_tables db user) of None \<Rightarrow> None
           | Some ref \<Rightarrow> if ref \<in> ka_ref ` set ks \<or> ref \<notin> ka_ref ` set (tb_catalog (kb_tables db user))
               then Some ref else None)"
proof (cases "reason = [] \<or> validate_provider_catalog cs ks \<noteq> None")
  case True
  then show ?thesis by (auto simp: pg_sync_catalog_def split: option.split)
next
  case False
  let ?t = "kb_tables db user"
  have valid: "validate_provider_catalog cs ks = None" using False by simp
  show ?thesis
  proof (cases "sync_tables cs ks reason ?t")
    case (Pair q t')
    show ?thesis
    proof (cases q)
      case (Inl e)
      with False Pair show ?thesis by (simp add: pg_sync_catalog_def on_tables_def)
    next
      case (Inr x)
      note run = Pair [unfolded Inr]
      have "tables_ok t'" "x = (table_connections t', table_catalog t')" "set (tb_catalog t') = set ks"
        "tb_destination t' = (case tb_destination ?t of None \<Rightarrow> None
          | Some r \<Rightarrow> if r \<in> ka_ref ` set ks \<or> r \<notin> ka_ref ` set (tb_catalog ?t) then Some r else None)"
        using sync_tables_ok [OF assms valid run] by blast+
      moreover have "pg_sync_catalog user cs ks reason db = (Inr x, db\<lparr>kb_tables := (kb_tables db)(user := t')\<rparr>)"
        using False Pair Inr by (simp add: pg_sync_catalog_def on_tables_def)
      ultimately show ?thesis
        using synced_connections [OF assms valid run] synced_selected [OF assms valid run] by simp
    qed
  qed
qed

section \<open>What is written is read back\<close>

lemma repo_call_selected: "calendar_repo_call call s = (r, t) \<Longrightarrow> cal_selected t = cal_selected s"
  by (auto simp: calendar_repo_call_def split: prod.splits)

lemma last_step: "and_then m f s = (Inr y, t) \<Longrightarrow> (\<And>x u. f x u = (Inr y, t) \<Longrightarrow> P) \<Longrightarrow> P"
  by (auto simp: and_then_ok)

lemma load_loads: "load_calendars repo user s = (Inr (), t) \<Longrightarrow> cal_selected t user \<noteq> None"
  unfolding load_calendars_def
  by (elim last_step) (auto simp: calendar_update_def set_destination_def Let_def elim!: last_step split: prod.splits option.splits)

lemma ensure_loads:
  "ensure_calendars_loaded user s = (Inr (), t) \<Longrightarrow> cal_selected t user \<noteq> None"
  using load_loads
  by (auto simp: ensure_calendars_loaded_def reading_def load_calendar_fixtures_def return_ok_def
      set_selected_def set_destination_def calendar_update_def Let_def split: option.splits if_splits)

lemma save_loads: "save_selected_calendar user ref s = (Inr c, t) \<Longrightarrow>
  \<exists>ys. cal_selected t user = Some (sort_selected (replace_first c ys))"
  unfolding save_selected_calendar_def reading_def
  by (elim last_step) (auto simp: calendar_update_def set_selected_def)

lemma remove_loads: "remove_selected user ref result s = (Inr d, t) \<Longrightarrow> cal_selected t user \<noteq> None"
  by (auto simp: remove_selected_def reading_def calendar_update_def set_selected_def clear_destination_def
      and_then_def return_ok_def Let_def split: if_splits)

lemma delete_loads: "delete_selected_calendar user ref s = (Inr d, t) \<Longrightarrow> cal_selected t user \<noteq> None"
  unfolding delete_selected_calendar_def reading_def
  by (elim last_step) (rule remove_loads)

lemma set_destination_runs:
  assumes "set_destination_calendar user ref s = (Inr x, t)"
  shows "\<exists>u y v. ensure_calendars_loaded user s = (Inr (), u) \<and>
    (case cal_repo u of Some repo \<Rightarrow> calendar_repo_call (kr_set_destination repo user ref)
      | None \<Rightarrow> return_ok (find (\<lambda>c. se_ref c = ref) (selected_of u user))) u = (Inr y, v) \<and>
    (t = v \<or> t = set_destination user ref v)"
proof -
  let ?found = "\<lambda>u. case cal_repo u of Some repo \<Rightarrow> calendar_repo_call (kr_set_destination repo user ref)
      | None \<Rightarrow> return_ok (find (\<lambda>c. se_ref c = ref) (selected_of u user))"
  from assms obtain w u y v where "ensure_calendars_loaded user s = (Inr w, u)" "?found u u = (Inr y, v)"
    "(case y of None \<Rightarrow> return_ok None | Some c \<Rightarrow> calendar_update (set_destination user ref) (Some c)) v = (Inr x, t)"
    unfolding set_destination_calendar_def reading_def and_then_ok basic_handlers_ok by blast
  then show ?thesis
    by (intro exI [of _ u] exI [of _ y] exI [of _ v]) (simp add: return_ok_def calendar_update_def split: option.splits)
qed

lemma set_destination_loads:
  assumes "set_destination_calendar user ref s = (Inr x, t)"
  shows "cal_selected t user \<noteq> None"
proof -
  from assms obtain u v y where u: "ensure_calendars_loaded user s = (Inr (), u)"
    and v: "(case cal_repo u of Some repo \<Rightarrow> calendar_repo_call (kr_set_destination repo user ref)
      | None \<Rightarrow> return_ok (find (\<lambda>c. se_ref c = ref) (selected_of u user))) u = (Inr y, v)"
    and t: "t = v \<or> t = set_destination user ref v"
    using set_destination_runs [OF assms] by blast
  have "cal_selected v = cal_selected u"
    using v by (auto simp: return_ok_def dest: repo_call_selected split: option.splits)
  with ensure_loads [OF u] t show ?thesis by (auto simp: set_destination_def)
qed

lemma in_put: "c \<in> set (upsert_by key (\<lambda>_. c) c xs)"
  by (induction xs) auto

lemma read_loaded:
  assumes "cal_selected s user = Some xs"
  shows "read_selected_calendars user s = (Inr xs, s)"
    and "cal_destination s user = Some ref \<Longrightarrow> ref \<noteq> [] \<Longrightarrow> find (\<lambda>c. se_ref c = ref) xs = Some c \<Longrightarrow>
      read_destination_calendar user s = (Inr (Some c), s)"
  using assms
  by (simp_all add: read_selected_calendars_def read_destination_calendar_def ensure_calendars_loaded_def reading_def
      and_then_def return_ok_def selected_of_def destination_of_def Let_def)

text \<open>
  C38: what a user but the fixture user writes is what the user reads next: a calendar that was selected is in the list of
  selected calendars, under the reference that was asked for; a calendar that was removed is not in
  it and is not the destination; a calendar that was made the destination is read back as the
  destination. (The fixture user's seeded
  calendars can be in the table and no longer in the cache: there a destination is set that is not read
  back.)
\<close>
theorem calendar_write_read:
  assumes "calendars_reach s" and "user \<noteq> calendar_fixture_user"
  shows "(\<forall>c t. save_selected_calendar user ref s = (Inr c, t) \<longrightarrow>
      se_ref c = ref \<and> (\<exists>xs. read_selected_calendars user t = (Inr xs, t) \<and> c \<in> set xs)) \<and>
    (\<forall>d t. delete_selected_calendar user ref s = (Inr d, t) \<longrightarrow>
      (\<exists>xs. read_selected_calendars user t = (Inr xs, t) \<and> ref \<notin> se_ref ` set xs) \<and>
      (\<forall>c u. read_destination_calendar user t = (Inr (Some c), u) \<longrightarrow> se_ref c \<noteq> ref)) \<and>
    (\<forall>c t. set_destination_calendar user ref s = (Inr (Some c), t) \<longrightarrow>
      se_ref c = ref \<and> read_destination_calendar user t = (Inr (Some c), t))"
proof -
  note p = reach_parts [OF assms]
  have save: "se_ref c = ref \<and> (\<exists>xs. read_selected_calendars user t = (Inr xs, t) \<and> c \<in> set xs)"
    if run: "save_selected_calendar user ref s = (Inr c, t)" for c t
  proof -
    obtain xs ys where xs: "cal_selected t user = Some xs" "xs = sort_selected (replace_first c ys)"
      using save_loads [OF run] by blast
    have "c \<in> set xs" by (simp add: xs(2) sort_selected_def replace_first_put in_put)
    with pg.save_own [OF p assms(2) run] read_loaded(1) [OF xs(1)] show ?thesis by blast
  qed
  have delete: "(\<exists>xs. read_selected_calendars user t = (Inr xs, t) \<and> ref \<notin> se_ref ` set xs) \<and>
      (\<forall>c u. read_destination_calendar user t = (Inr (Some c), u) \<longrightarrow> se_ref c \<noteq> ref)"
    if run: "delete_selected_calendar user ref s = (Inr d, t)" for d t
  proof -
    obtain xs where xs: "cal_selected t user = Some xs" using delete_loads [OF run] by blast
    have own: "user_ok db_view user t" "ref \<notin> se_ref ` set (vw_selected (db_view (cal_db t) user))"
      using pg.delete_own [OF p assms(2) run] by simp_all
    have wc: "well_connected pg_calendar_repository db_ok db_view t"
      using pg.others_step [OF p(1), of "CalDelete user ref"] run by simp
    have "xs = vw_selected (db_view (cal_db t) user)" using own(1) xs by (simp add: user_ok_def cached_def)
    moreover have "se_ref c \<noteq> ref" if d: "read_destination_calendar user t = (Inr (Some c), u)" for c u
    proof -
      have "c \<in> set xs"
        using d xs by (auto simp: read_destination_calendar_def ensure_calendars_loaded_def reading_def and_then_def
            return_ok_def selected_of_def calendar_update_def Let_def split: if_splits option.splits dest!: find_Some_in)
      with own(2) calculation show ?thesis by auto
    qed
    ultimately show ?thesis using own(2) read_loaded(1) [OF xs] by blast
  qed
  have dest: "se_ref c = ref \<and> read_destination_calendar user t = (Inr (Some c), t)"
    if run: "set_destination_calendar user ref s = (Inr (Some c), t)" for c t
  proof -
    obtain xs where xs: "cal_selected t user = Some xs" using set_destination_loads [OF run] by blast
    have own: "user_ok db_view user t" "vw_destination (db_view (cal_db t) user) = Some ref"
      "find (\<lambda>c. se_ref c = ref) (vw_selected (db_view (cal_db t) user)) = Some c"
      using pg.set_destination_own [OF p assms(2) run] by simp_all
    have "ref \<noteq> []" using run by (auto simp: set_destination_calendar_def handler_ok)
    moreover have "cal_destination t user = Some ref" "xs = vw_selected (db_view (cal_db t) user)"
      using own(1,2) xs by (simp_all add: user_ok_def cached_def)
    ultimately show ?thesis using read_loaded(2) [OF xs] own(3) find_Some_in [OF own(3)] by blast
  qed
  from save delete dest show ?thesis by blast
qed

end
