(* ===== verification/CalendarsDemo.thy ===== *)
theory CalendarsDemo
  imports CalendarsProps
begin

text \<open>
  Concrete calendar stores: the witnesses of the properties over the Postgres repository, and three
  runs that show where the code departs from what it means to do.
\<close>

section \<open>A store over consistent tables\<close>

definition cal_time :: gotime where
  "cal_time = \<lparr>inst = 0, zone = 0\<rparr>"

definition cal_entry :: "string \<Rightarrow> string \<Rightarrow> string \<Rightarrow> catalog_calendar" where
  "cal_entry ref ext nm = \<lparr>ka_ref = ref, ka_connection = ''conn'', ka_provider = ''prov'',
     ka_external = ext, ka_name = nm, ka_primary = False, ka_writable = True\<rparr>"

definition cal_tables :: calendar_tables where
  "cal_tables = \<lparr>tb_connections = [\<lparr>rc_ref = ''conn'', rc_provider = ''prov'', rc_account_ref = ''acct'',
       rc_email = ''me'', rc_status = ''active'', rc_status_code = None, rc_checked_at = None\<rparr>],
     tb_history = [], tb_catalog = [cal_entry ''a'' ''x'' ''A'', cal_entry ''b'' ''y'' ''B''],
     tb_selected = [to_selected (cal_entry ''a'' ''x'' ''A'')], tb_destination = Some ''a''\<rparr>"

definition no_tables :: calendar_tables where
  "no_tables = \<lparr>tb_connections = [], tb_history = [], tb_catalog = [], tb_selected = [], tb_destination = None\<rparr>"

definition cal_demo_db :: calendar_db where
  "cal_demo_db = \<lparr>kb_tables = (\<lambda>user. if user = 7 then cal_tables else no_tables), kb_now = cal_time\<rparr>"

definition cal_demo :: "calendar_db calendar_store" where
  "cal_demo = new_calendar_store (Some pg_calendar_repository) None None cal_demo_db"

lemma cal_tables_ok: "tables_ok cal_tables" "in_book (tables_view cal_tables)"
  by (auto simp: tables_ok_def cal_tables_def cal_entry_def to_selected_def in_book_def table_selected_def
      sort_selected_def table_catalog_def sort_catalog_def tables_view_def)

lemma cal_demo_reach: "calendars_reach cal_demo"
  unfolding cal_demo_def
proof (rule calendars_reach.start)
  have none: "tables_ok no_tables" "in_book (tables_view no_tables)"
    by (simp_all add: tables_ok_def no_tables_def in_book_def table_selected_def sort_selected_def tables_view_def)
  then show "db_ok cal_demo_db" using cal_tables_ok by (simp add: db_ok_def cal_demo_db_def)
  show "in_book (db_view cal_demo_db user)" for user
    using none cal_tables_ok by (simp add: db_view_def cal_demo_db_def)
qed simp_all

lemmas cal_step = and_then_def check_def demand_def return_ok_def reading_def calendar_update_def
  calendar_repo_call_def on_tables_def tables_query_def tables_update_def ensure_calendars_loaded_def
  load_calendars_def load_from_provider_def seed_fixture_catalog_rows_def seed_fixture_selected_def

lemmas cal_pg = pg_calendar_repository_def pg_read_connections_def pg_read_catalog_def pg_read_selected_def
  pg_read_destination_def pg_save_selected_def pg_delete_selected_def pg_set_destination_def
  table_connections_def table_catalog_def table_selected_def table_destination_def sort_catalog_def sort_selected_def

lemmas cal_data = cal_demo_def new_calendar_store_def cal_demo_db_def cal_tables_def cal_entry_def to_selected_def
  connections_of_def catalog_of_def selected_of_def destination_of_def set_selected_def set_destination_def
  clear_destination_def calendar_fixture_user_def

section \<open>Witnesses\<close>

lemma calendars_cache_faithful_witness:
  "\<exists>xs t. read_selected_calendars 7 cal_demo = (Inr xs, t) \<and> map se_ref xs = [''a''] \<and>
     xs = table_selected (user_tables t 7)"
proof -
  have "\<exists>xs t. read_selected_calendars 7 cal_demo = (Inr xs, t) \<and> map se_ref xs = [''a'']"
    by (simp add: read_selected_calendars_def cal_step cal_pg cal_data)
  then obtain xs t where run: "read_selected_calendars 7 cal_demo = (Inr xs, t)" "map se_ref xs = [''a'']"
    by (elim exE conjE) (rule that)
  have user: "(7 :: int) \<noteq> calendar_fixture_user" by (simp add: calendar_fixture_user_def)
  have "xs = table_selected (user_tables t 7)"
    by (rule calendars_cache_faithful [OF cal_demo_reach user, THEN conjunct2, THEN conjunct2, THEN conjunct1,
        rule_format, OF run(1), THEN conjunct1])
  with run show ?thesis by (intro exI conjI)
qed

lemma calendar_write_read_witness:
  "\<exists>c t xs. save_selected_calendar 7 ''b'' cal_demo = (Inr c, t) \<and> se_name c = ''B'' \<and>
     read_selected_calendars 7 t = (Inr xs, t) \<and> c \<in> set xs"
proof -
  have "\<exists>c t. save_selected_calendar 7 ''b'' cal_demo = (Inr c, t) \<and> se_name c = ''B''"
    by (simp add: save_selected_calendar_def upsert_selected_def selected_conflict_def selected_incomplete_def
        cal_step cal_pg cal_data)
  then obtain c t where run: "save_selected_calendar 7 ''b'' cal_demo = (Inr c, t)" "se_name c = ''B''"
    by (elim exE conjE) (rule that)
  have user: "(7 :: int) \<noteq> calendar_fixture_user" by (simp add: calendar_fixture_user_def)
  have "\<exists>xs. read_selected_calendars 7 t = (Inr xs, t) \<and> c \<in> set xs"
    by (rule calendar_write_read [OF cal_demo_reach user, THEN conjunct1, rule_format, OF run(1), THEN conjunct2])
  then obtain xs where "read_selected_calendars 7 t = (Inr xs, t)" "c \<in> set xs"
    by (elim exE conjE) (rule that)
  with run show ?thesis by (intro exI conjI)
qed

definition cal_snapshot_connection :: calendar_connection where
  "cal_snapshot_connection = \<lparr>cc_ref = ''conn'', cc_provider = ''prov'', cc_account_ref = ''acct'',
     cc_email = ''me'', cc_status = ''expired'', cc_status_code = [], cc_checked_at = []\<rparr>"

text \<open>The provider renamed the one calendar and dropped the other.\<close>

lemma calendar_sync_exact_witness:
  "\<exists>x db. pg_sync_catalog 7 [cal_snapshot_connection] [cal_entry ''a'' ''x'' ''A2''] ''sync'' cal_demo_db = (Inr x, db) \<and>
     set (tb_selected (kb_tables db 7)) = {to_selected (cal_entry ''a'' ''x'' ''A2'')} \<and>
     tb_destination (kb_tables db 7) = Some ''a''"
proof -
  let ?run = "pg_sync_catalog 7 [cal_snapshot_connection] [cal_entry ''a'' ''x'' ''A2''] ''sync'' cal_demo_db"
  have t: "kb_tables cal_demo_db 7 = cal_tables" by (simp add: cal_demo_db_def)
  have "\<exists>x db. ?run = (Inr x, db)"
    by (simp add: pg_sync_catalog_def validate_provider_catalog_def cal_snapshot_connection_def
        connection_incomplete_def catalog_incomplete_def external_key_def sync_tables_def on_tables_def
        and_then_def tables_query_def tables_update_def return_ok_def sync_delete_connection_def
        delete_connection_def sync_delete_stale_def delete_selected_def delete_catalog_def
        sync_connection_def upsert_connection_def connection_row_of_def conflict_connection_def
        status_changed_def record_transition_def by_ref_def sync_calendar_def upsert_catalog_def catalog_conflict_def
        update_selected_def selected_conflict_def table_connections_def table_catalog_def sort_catalog_def
        row_connection_def dropped_def cal_demo_db_def cal_tables_def cal_entry_def to_selected_def)
  then obtain x db where run: "?run = (Inr x, db)" by blast
  note sync = calendar_sync_exact [where db = cal_demo_db and user = 7 and cs = "[cal_snapshot_connection]"
      and ks = "[cal_entry ''a'' ''x'' ''A2'']" and reason = "''sync''", unfolded t run, OF cal_tables_ok(1)]
  let ?left = "{d \<in> set (tb_selected cal_tables). se_ref d \<notin> ka_ref ` set [cal_entry ''a'' ''x'' ''A2''] \<and>
      se_ref d \<notin> ka_ref ` set (tb_catalog cal_tables)}"
  have sel: "set (tb_selected (kb_tables db 7)) = to_selected ` {k \<in> set [cal_entry ''a'' ''x'' ''A2''].
      ka_ref k \<in> se_ref ` set (tb_selected cal_tables)} \<union> ?left"
    and dest: "tb_destination (kb_tables db 7) = (case tb_destination cal_tables of None \<Rightarrow> None
       | Some ref \<Rightarrow> if ref \<in> ka_ref ` set [cal_entry ''a'' ''x'' ''A2''] \<or> ref \<notin> ka_ref ` set (tb_catalog cal_tables)
           then Some ref else None)"
    using sync by simp_all
  have "{k \<in> set [cal_entry ''a'' ''x'' ''A2'']. ka_ref k \<in> se_ref ` set (tb_selected cal_tables)} =
      {cal_entry ''a'' ''x'' ''A2''}" "?left = {}"
    by (auto simp: cal_tables_def cal_entry_def to_selected_def)
  then have "set (tb_selected (kb_tables db 7)) = {to_selected (cal_entry ''a'' ''x'' ''A2'')}"
    unfolding sel by (simp only: image_insert image_empty Un_empty_right)
  moreover have "tb_destination (kb_tables db 7) = Some ''a''" unfolding dest by (simp add: cal_tables_def cal_entry_def)
  ultimately show ?thesis using run by blast
qed

section \<open>Three departures\<close>

text \<open>
  A provider's catalog in which two calendars have exchanged their external ids is valid, but the
  sync writes one calendar after the other and the first write violates the unique index.
\<close>

lemma exchanged_externals_refused:
  "validate_provider_catalog [cal_snapshot_connection] [cal_entry ''a'' ''y'' ''A'', cal_entry ''b'' ''x'' ''B''] = None"
  "fst (pg_sync_catalog 7 [cal_snapshot_connection] [cal_entry ''a'' ''y'' ''A'', cal_entry ''b'' ''x'' ''B'']
     ''sync'' cal_demo_db) = Inl (CalendarUpstream ''save catalog calendar'')"
proof -
  show valid: "validate_provider_catalog [cal_snapshot_connection] [cal_entry ''a'' ''y'' ''A'', cal_entry ''b'' ''x'' ''B''] = None"
    by (simp add: validate_provider_catalog_def cal_snapshot_connection_def cal_entry_def connection_incomplete_def
        catalog_incomplete_def external_key_def)
  show "fst (pg_sync_catalog 7 [cal_snapshot_connection] [cal_entry ''a'' ''y'' ''A'', cal_entry ''b'' ''x'' ''B'']
     ''sync'' cal_demo_db) = Inl (CalendarUpstream ''save catalog calendar'')"
    unfolding pg_sync_catalog_def valid
    by (simp add: cal_snapshot_connection_def sync_tables_def on_tables_def
        and_then_def tables_query_def tables_update_def return_ok_def sync_delete_connection_def
        delete_connection_def sync_delete_stale_def delete_selected_def delete_catalog_def
        sync_connection_def upsert_connection_def connection_row_of_def conflict_connection_def
        status_changed_def record_transition_def by_ref_def sync_calendar_def upsert_catalog_def catalog_conflict_def
        table_connections_def table_catalog_def sort_catalog_def row_connection_def dropped_def
        cal_demo_db_def cal_tables_def cal_entry_def)
qed

text \<open>
  In memory, a sync before the fixture user's first read keeps the provider's catalog, but the read
  then loads the fixture's selected calendars, whether the catalog has them or not.
\<close>

definition one_calendar :: "int \<Rightarrow> (unit, catalog_snapshot) calendar_call" where
  "one_calendar user env = (Inr \<lparr>sc_connections = [\<lparr>pn_ref = ''conn'', pn_provider = ''prov'',
     pn_account_ref = ''acct'', pn_email = ''me'', pn_status = ''active''\<rparr>],
     sc_calendars = [cal_entry ''a'' ''x'' ''A'']\<rparr>, env)"

lemma sync_before_first_read:
  "let s = snd (sync_provider_catalog 123 (new_calendar_store None (Some one_calendar) None ()));
       r = read_selected_calendars 123 s; k = read_catalog_calendars 123 s
   in map_sum id (map se_ref) (fst r) = Inr [fixture_destination_ref, ''selected-calendar-fixture''] \<and>
      map_sum id (map ka_ref) (fst k) = Inr [''a'']"
  by (simp add: sync_provider_catalog_def read_provider_catalog_def provider_answer_def one_calendar_def
      new_calendar_store_def and_then_def reading_def calendar_repo_call_def lift_result_def return_ok_def
      apply_provider_catalog_def reject_def validate_provider_catalog_def connection_incomplete_def
      catalog_incomplete_def external_key_def cal_entry_def calendar_update_def refresh_selected_def
      destination_of_def sort_catalog_def read_selected_calendars_def read_catalog_calendars_def
      ensure_calendars_loaded_def load_calendar_fixtures_def set_selected_def set_destination_def
      selected_of_def catalog_of_def calendar_fixture_user_def fixture_selected_def fixture_catalog_def
      to_selected_def Let_def)

text \<open>
  Over the database, the first read of the fixture user takes the provider's catalog and then selects the
  fixture's calendars, which it does not have; the next sync drops them from the cache, while the table
  keeps them, as it deletes the selected calendars of catalogued references only. Setting the destination
  finds the calendar in the table, and the read does not.
\<close>

definition provider_calendar :: "int \<Rightarrow> (calendar_db, catalog_snapshot) calendar_call" where
  "provider_calendar user db = (Inr \<lparr>sc_connections = [\<lparr>pn_ref = ''conn'', pn_provider = ''prov'',
     pn_account_ref = ''acct'', pn_email = ''me'', pn_status = ''active''\<rparr>],
     sc_calendars = [cal_entry ''a'' ''x'' ''A'']\<rparr>, db)"

definition fixture_user_start :: "calendar_db calendar_store" where
  "fixture_user_start = new_calendar_store (Some pg_calendar_repository) (Some provider_calendar) None
     \<lparr>kb_tables = (\<lambda>_. no_tables), kb_now = cal_time\<rparr>"

definition fixture_user_tables :: calendar_tables where
  "fixture_user_tables = \<lparr>tb_connections = [\<lparr>rc_ref = ''conn'', rc_provider = ''prov'', rc_account_ref = ''acct'',
       rc_email = ''me'', rc_status = ''active'', rc_status_code = None, rc_checked_at = None\<rparr>],
     tb_history = [], tb_catalog = [cal_entry ''a'' ''x'' ''A''],
     tb_selected = fixture_selected 123, tb_destination = Some fixture_destination_ref\<rparr>"

lemmas cal_sync = pg_sync_catalog_def validate_provider_catalog_def connection_incomplete_def catalog_incomplete_def
  external_key_def sync_tables_def sync_delete_connection_def delete_connection_def sync_delete_stale_def
  delete_selected_def delete_catalog_def sync_connection_def upsert_connection_def connection_row_of_def
  conflict_connection_def status_changed_def record_transition_def by_ref_def sync_calendar_def upsert_catalog_def
  catalog_conflict_def update_selected_def selected_conflict_def row_connection_def dropped_def

lemmas cal_fixture_run = read_selected_calendars_def fixture_user_start_def cal_step cal_pg cal_data cal_sync no_tables_def
  provider_calendar_def read_provider_catalog_def provider_answer_def lift_result_def apply_provider_catalog_def
  reject_def upsert_selected_def selected_incomplete_def fixture_user_tables_def fixture_selected_def fixture_catalog_def
  set_connections_def refresh_selected_def Let_def

lemma fixture_user_seeded:
  "map_sum id (map se_ref) (fst (read_selected_calendars 123 fixture_user_start)) =
     Inr [fixture_destination_ref, ''selected-calendar-fixture''] \<and>
   kb_tables (cal_db (snd (read_selected_calendars 123 fixture_user_start))) 123 = fixture_user_tables"
  by (simp add: cal_fixture_run)

definition fixture_user_synced :: "calendar_db calendar_store" where
  "fixture_user_synced = snd (sync_provider_catalog 123 (snd (read_selected_calendars 123 fixture_user_start)))"

lemma fixture_user_stale:
  "fst (read_selected_calendars 123 fixture_user_synced) = Inr [] \<and>
   map se_ref (tb_selected (kb_tables (cal_db fixture_user_synced) 123)) =
     [fixture_destination_ref, ''selected-calendar-fixture''] \<and>
   map_sum id (map_option se_ref) (fst (set_destination_calendar 123 fixture_destination_ref fixture_user_synced)) =
     Inr (Some fixture_destination_ref) \<and>
   fst (read_destination_calendar 123 (snd (set_destination_calendar 123 fixture_destination_ref fixture_user_synced))) =
     Inr None"
  by (simp add: fixture_user_synced_def sync_provider_catalog_def set_destination_calendar_def
      read_destination_calendar_def cal_fixture_run)

end
