(* ===== verification/HttpModel.thy ===== *)
theory HttpModel
  imports AppsProgress BookingStore Calendars Credentials Authz GoJson
begin

text \<open>
  The data of the HTTP server (\<open>internal/httpapi/server.go\<close>, \<open>types.go\<close>): requests, responses, the
  decoding of JSON bodies into the request types, and the server's state, which is the state of the
  components it serves. A request holds its body as the first JSON value that \<open>encoding/json\<close>
  scans from it; the assignment of that value to a Go struct is modelled.
\<close>

section \<open>Requests\<close>

datatype request_body = NoBody | UnreadableBody | JsonBody json

text \<open>
  The path is the list of its unescaped segments; queries, headers and a form body are lists of
  names and values, of which \<open>Get\<close> takes the first. A form that \<open>ParseForm\<close> rejects is \<open>None\<close>.
\<close>

record http_request =
  rq_method :: string
  rq_path :: "string list"
  rq_query :: "(string \<times> string) list"
  rq_headers :: "(string \<times> string) list"
  rq_body :: request_body
  rq_form :: "(string \<times> string) list option"

abbreviation values_get :: "(string \<times> string) list \<Rightarrow> string \<Rightarrow> string" where
  "values_get vs key \<equiv> (case map_of vs key of None \<Rightarrow> [] | Some v \<Rightarrow> v)"

abbreviation header_get :: "http_request \<Rightarrow> string \<Rightarrow> string" where
  "header_get r key \<equiv> values_get (rq_headers r) key"

text \<open>What the clock and the random source answer while one request is served.\<close>

record http_tick =
  tk_now1 :: gotime
  tk_now2 :: gotime
  tk_now3 :: gotime
  tk_entropy :: entropy
  tk_draw1 :: draw
  tk_draw2 :: draw

section \<open>Responses\<close>

text \<open>The \<open>data\<close> of a success envelope, as the handlers build it.\<close>

datatype payload =
    MeData int string string string string string string
  | AppItems "app_metadata list" string
  | InstallationItems "app_installation list" string
  | IntentItems "install_intent list" string
  | IntentData install_intent string
  | DescriptorData auth_descriptor string
  | SessionData auth_session string
  | PreviewData auth_preview string
  | PreflightData callback_preflight string
  | ExchangeData provider_exchange string
  | CompletionData install_completion string
  | InstallationData app_installation string
  | ProgressData app_install_progress string
  | ConnectionItems "calendar_connection list" string
  | CalendarItems "catalog_calendar list" string
  | CredentialItems "credential_metadata list" string
  | SelectedItems "selected_calendar list" string
  | CalendarData "selected_calendar option" string
  | RemovedData string bool string
  | SlotsData slot_response
  | BookingData booking
  | OAuthClientData string string "string list" string string string
  | PlatformClientData string string int "string list" string string string

datatype response_body =
    TextBody string
  | SuccessBody payload
  | LifecycleBody booking "string list"
  | RescheduledBody booking booking "string list"
  | ErrorBody string string "string option"
  | OAuthErrorBody string string string
  | TokenBody token_response

record response =
  rs_status :: int
  rs_content_type :: string
  rs_request_id :: "string option"
  rs_body :: response_body

definition send_json :: "string \<Rightarrow> int \<Rightarrow> response_body \<Rightarrow> response" where
  "send_json rid status body = \<lparr>rs_status = status, rs_content_type = ''application/json'',
     rs_request_id = Some rid, rs_body = body\<rparr>"

definition send_error :: "string \<Rightarrow> int \<Rightarrow> string \<Rightarrow> string \<Rightarrow> bool \<Rightarrow> response" where
  "send_error rid status code message include_id =
     send_json rid status (ErrorBody code message (if include_id then Some rid else None))"

definition internal_error :: "string \<Rightarrow> response" where
  "internal_error rid = send_error rid 500 ''INTERNAL_SERVER_ERROR'' ''Internal server error'' True"

section \<open>Decoding JSON bodies\<close>

definition decode_json :: "'a struct_fields \<Rightarrow> 'a \<Rightarrow> http_request \<Rightarrow> 'a option" where
  "decode_json fs zero r =
     (case rq_body r of NoBody \<Rightarrow> Some zero | UnreadableBody \<Rightarrow> None
      | JsonBody v \<Rightarrow> decode_struct False fs v zero)"

definition decode_strict_json :: "'a struct_fields \<Rightarrow> 'a \<Rightarrow> http_request \<Rightarrow> 'a option" where
  "decode_strict_json fs zero r =
     (case rq_body r of NoBody \<Rightarrow> None | UnreadableBody \<Rightarrow> None
      | JsonBody v \<Rightarrow> decode_struct True fs v zero)"

text \<open>The request types. One with a single string field is that string.\<close>

definition single_field :: "string \<Rightarrow> string struct_fields" where
  "single_field name = [string_field name id (\<lambda>s _. s)]"

definition preflight_fields :: "preflight_request struct_fields" where
  "preflight_fields =
     [string_field ''stateRef'' pr_state_ref (\<lambda>s x. x\<lparr>pr_state_ref := s\<rparr>),
      string_field ''callbackStatus'' pr_callback_status (\<lambda>s x. x\<lparr>pr_callback_status := s\<rparr>)]"

definition exchange_fields :: "exchange_request struct_fields" where
  "exchange_fields =
     [string_field ''stateRef'' er_state_ref (\<lambda>s x. x\<lparr>er_state_ref := s\<rparr>),
      string_field ''callbackPreflightRef'' er_preflight (\<lambda>s x. x\<lparr>er_preflight := s\<rparr>)]"

text \<open>Of the four fs of \<open>SaveSelectedCalendarRequest\<close> only the reference is used.\<close>

record save_selected_request =
  sq_ref :: string
  sq_provider :: string
  sq_external :: string
  sq_name :: string

definition save_selected_fields :: "save_selected_request struct_fields" where
  "save_selected_fields =
     [string_field ''calendarRef'' sq_ref (\<lambda>s x. x\<lparr>sq_ref := s\<rparr>),
      string_field ''provider'' sq_provider (\<lambda>s x. x\<lparr>sq_provider := s\<rparr>),
      string_field ''externalId'' sq_external (\<lambda>s x. x\<lparr>sq_external := s\<rparr>),
      string_field ''name'' sq_name (\<lambda>s x. x\<lparr>sq_name := s\<rparr>)]"

definition attendee_fields :: "attendee struct_fields" where
  "attendee_fields =
     [int_field ''id'' att_id (\<lambda>n x. x\<lparr>att_id := n\<rparr>),
      string_field ''name'' att_name (\<lambda>s x. x\<lparr>att_name := s\<rparr>),
      string_field ''email'' att_email (\<lambda>s x. x\<lparr>att_email := s\<rparr>),
      string_field ''timeZone'' att_time_zone (\<lambda>s x. x\<lparr>att_time_zone := s\<rparr>)]"

definition create_fields :: "(string \<Rightarrow> bool) \<Rightarrow> create_request struct_fields" where
  "create_fields float =
     [int_field ''eventTypeId'' cr_event_type_id (\<lambda>n x. x\<lparr>cr_event_type_id := n\<rparr>),
      string_field ''start'' cr_start (\<lambda>s x. x\<lparr>cr_start := s\<rparr>),
      (''attendee'', \<lambda>v x. map_option (\<lambda>a. x\<lparr>cr_attendee := a\<rparr>)
         (decode_struct False attendee_fields v (cr_attendee x))),
      (''responses'', \<lambda>v x. map_option (\<lambda>m. x\<lparr>cr_responses := m\<rparr>) (decode_map float v (cr_responses x))),
      (''metadata'', \<lambda>v x. map_option (\<lambda>m. x\<lparr>cr_metadata := m\<rparr>) (decode_map float v (cr_metadata x))),
      string_field ''idempotencyKey'' cr_idempotency_key (\<lambda>s x. x\<lparr>cr_idempotency_key := s\<rparr>)]"

definition zero_create :: create_request where
  "zero_create = \<lparr>cr_event_type_id = 0, cr_start = [],
     cr_attendee = \<lparr>att_id = 0, att_name = [], att_email = [], att_time_zone = []\<rparr>,
     cr_responses = None, cr_metadata = None, cr_idempotency_key = [], cr_owner = 0, cr_hosts = None\<rparr>"

definition cancel_fields :: "cancel_request struct_fields" where
  "cancel_fields = [string_field ''cancellationReason'' ca_reason (\<lambda>s x. x\<lparr>ca_reason := s\<rparr>)]"

definition reschedule_fields :: "reschedule_request struct_fields" where
  "reschedule_fields =
     [string_field ''start'' rr_start (\<lambda>s x. x\<lparr>rr_start := s\<rparr>),
      string_field ''reschedulingReason'' rr_reason (\<lambda>s x. x\<lparr>rr_reason := s\<rparr>)]"

definition decline_fields :: "decline_request struct_fields" where
  "decline_fields = [string_field ''reason'' dr_reason (\<lambda>s x. x\<lparr>dr_reason := s\<rparr>)]"

definition token_fields :: "token_request struct_fields" where
  "token_fields =
     [string_field ''grant_type'' tr_grant_type (\<lambda>s x. x\<lparr>tr_grant_type := s\<rparr>),
      string_field ''client_id'' tr_client_id (\<lambda>s x. x\<lparr>tr_client_id := s\<rparr>),
      string_field ''code'' tr_code (\<lambda>s x. x\<lparr>tr_code := s\<rparr>),
      string_field ''redirect_uri'' tr_redirect_uri (\<lambda>s x. x\<lparr>tr_redirect_uri := s\<rparr>),
      string_field ''refresh_token'' tr_refresh_token (\<lambda>s x. x\<lparr>tr_refresh_token := s\<rparr>)]"

definition zero_token_request :: token_request where
  "zero_token_request = \<lparr>tr_grant_type = [], tr_client_id = [], tr_code = [], tr_redirect_uri = [],
     tr_refresh_token = []\<rparr>"

section \<open>The server\<close>

text \<open>
  The components with the server's default request id, and what they ask of the platform: the
  digest, address and time zone syntax, and which numbers fit a float.
\<close>

record ('a, 'p, 'b, 'k, 'c) server =
  sv_sha :: "string \<Rightarrow> string"
  sv_platform :: platform
  sv_float :: "string \<Rightarrow> bool"
  sv_request_id :: string
  sv_auth :: "'a auth_service"
  sv_apps :: "'p apps_store"
  sv_bookings :: "'b booking_store"
  sv_calendars :: "'k calendar_store"
  sv_credentials :: "'c credential_store"
  sv_slots :: slot_service

text \<open>\<open>NewServerWithLogger\<close>: a component no option provides is a fresh in-memory one.\<close>

definition new_server ::
    "(string \<Rightarrow> string) \<Rightarrow> platform \<Rightarrow> (string \<Rightarrow> bool) \<Rightarrow> auth_config \<Rightarrow> string \<Rightarrow>
     'a auth_service option \<Rightarrow> 'p apps_store option \<Rightarrow> 'b booking_store option \<Rightarrow>
     'k calendar_store option \<Rightarrow> 'c credential_store option \<Rightarrow> slot_service option \<Rightarrow>
     'a \<Rightarrow> 'p \<Rightarrow> 'b \<Rightarrow> 'k \<Rightarrow> 'c \<Rightarrow> ('a, 'p, 'b, 'k, 'c) server" where
  "new_server sha pf float cfg rid auth apps bookings calendars credentials slots da dp db dk dc =
     (let slot_service = (case slots of Some s \<Rightarrow> s | None \<Rightarrow> \<lparr>ss_repo = None, ss_busy_times = None\<rparr>) in
      \<lparr>sv_sha = sha, sv_platform = pf, sv_float = float, sv_request_id = rid,
       sv_auth = (case auth of Some s \<Rightarrow> s | None \<Rightarrow> new_auth_service cfg da),
       sv_apps = (case apps of Some s \<Rightarrow> s | None \<Rightarrow> new_apps_store None None None dp),
       sv_bookings = (case bookings of Some s \<Rightarrow> s
         | None \<Rightarrow> new_booking_store pf None (Some (is_slot_available (pf_tz pf) (Some slot_service))) None db),
       sv_calendars = (case calendars of Some s \<Rightarrow> s | None \<Rightarrow> new_calendar_store None None None dk),
       sv_credentials = (case credentials of Some s \<Rightarrow> s | None \<Rightarrow> new_credential_store None None dc),
       sv_slots = slot_service\<rparr>)"

end
