(* ===== verification/HttpHandlers.thy ===== *)
theory HttpHandlers
  imports HttpModel
begin

text \<open>
  The handlers of \<open>internal/httpapi/handlers.go\<close>. A handler runs until its first response: an early
  \<open>return\<close> after \<open>sendError\<close> is the error of the handler monad. \<open>hc_rid\<close> is the request id that
  \<open>ServeHTTP\<close> put into the context.
\<close>

record http_call =
  hc_request :: http_request
  hc_rid :: string
  hc_tick :: http_tick

type_synonym ('a, 'p, 'b, 'k, 'c, 'r) http_handler = "(('a, 'p, 'b, 'k, 'c) server, response, 'r) handler"

section \<open>Calls of the components\<close>

text \<open>A call of a component, whose error \<open>refuse\<close> turns into the response.\<close>

definition on_apps ::
    "(apps_error \<Rightarrow> response) \<Rightarrow> ('p, 'r) apps_handler \<Rightarrow> ('a, 'p, 'b, 'k, 'c, 'r) http_handler" where
  "on_apps refuse call s =
     (case call (sv_apps s) of
        (Inl e, t) \<Rightarrow> (Inl (refuse e), s\<lparr>sv_apps := t\<rparr>)
      | (Inr x, t) \<Rightarrow> (Inr x, s\<lparr>sv_apps := t\<rparr>))"

definition on_calendars ::
    "(calendar_error \<Rightarrow> response) \<Rightarrow> ('k, 'r) calendar_handler \<Rightarrow> ('a, 'p, 'b, 'k, 'c, 'r) http_handler" where
  "on_calendars refuse call s =
     (case call (sv_calendars s) of
        (Inl e, t) \<Rightarrow> (Inl (refuse e), s\<lparr>sv_calendars := t\<rparr>)
      | (Inr x, t) \<Rightarrow> (Inr x, s\<lparr>sv_calendars := t\<rparr>))"

definition on_credentials ::
    "(credential_error \<Rightarrow> response) \<Rightarrow> ('c, 'r) credential_handler \<Rightarrow> ('a, 'p, 'b, 'k, 'c, 'r) http_handler" where
  "on_credentials refuse call s =
     (case call (sv_credentials s) of
        (Inl e, t) \<Rightarrow> (Inl (refuse e), s\<lparr>sv_credentials := t\<rparr>)
      | (Inr x, t) \<Rightarrow> (Inr x, s\<lparr>sv_credentials := t\<rparr>))"

definition on_bookings ::
    "(booking_error \<Rightarrow> response) \<Rightarrow> ('b booking_store, booking_error, 'r) handler \<Rightarrow>
     ('a, 'p, 'b, 'k, 'c, 'r) http_handler" where
  "on_bookings refuse call s =
     (case call (sv_bookings s) of
        (Inl e, t) \<Rightarrow> (Inl (refuse e), s\<lparr>sv_bookings := t\<rparr>)
      | (Inr x, t) \<Rightarrow> (Inr x, s\<lparr>sv_bookings := t\<rparr>))"

definition on_auth ::
    "(auth_error \<Rightarrow> response) \<Rightarrow> ('a auth_service, auth_error, 'r) handler \<Rightarrow>
     ('a, 'p, 'b, 'k, 'c, 'r) http_handler" where
  "on_auth refuse call s =
     (case call (sv_auth s) of
        (Inl e, t) \<Rightarrow> (Inl (refuse e), s\<lparr>sv_auth := t\<rparr>)
      | (Inr x, t) \<Rightarrow> (Inr x, s\<lparr>sv_auth := t\<rparr>))"

text \<open>The error switch of a handler: the first sentinel that matches, or an internal error.\<close>

definition refuse_by :: "string \<Rightarrow> ('e \<times> int \<times> string \<times> string) list \<Rightarrow> 'e \<Rightarrow> response" where
  "refuse_by rid table e =
     (case map_of table e of
        Some (status, code, message) \<Rightarrow> send_error rid status code message True
      | None \<Rightarrow> internal_error rid)"

abbreviation bad_request :: "string \<Rightarrow> int \<times> string \<times> string" where
  "bad_request message \<equiv> (400, ''BAD_REQUEST'', message)"

abbreviation not_found :: "string \<Rightarrow> int \<times> string \<times> string" where
  "not_found message \<equiv> (404, ''NOT_FOUND'', message)"

abbreviation conflict :: "string \<Rightarrow> int \<times> string \<times> string" where
  "conflict message \<equiv> (409, ''CONFLICT'', message)"

abbreviation gone :: "string \<Rightarrow> int \<times> string \<times> string" where
  "gone message \<equiv> (410, ''GONE'', message)"

section \<open>Authentication and policies\<close>

definition caller_by_key :: "http_call \<Rightarrow> ('a, 'p, 'b, 'k, 'c) server \<Rightarrow> auth_error + principal option" where
  "caller_by_key c s = authenticate_api_key (sv_sha s) (sv_auth s) (header_get (hc_request c) ''authorization'')"

definition caller_by_key_or_token ::
    "http_call \<Rightarrow> ('a, 'p, 'b, 'k, 'c) server \<Rightarrow> auth_error + principal option" where
  "caller_by_key_or_token c s =
     (case caller_by_key c s of
        Inr None \<Rightarrow> authenticate_oauth_access_token (sv_auth s)
          (header_get (hc_request c) ''authorization'') (tk_now1 (hc_tick c))
      | r \<Rightarrow> r)"

text \<open>
  The first lines of a handler: who calls, and whether the policy allows it. The responses differ
  in a few handlers.
\<close>

definition admit ::
    "(('a, 'p, 'b, 'k, 'c) server \<Rightarrow> auth_error + principal option) \<Rightarrow> policy \<Rightarrow>
     response \<Rightarrow> response \<Rightarrow> response \<Rightarrow> ('a, 'p, 'b, 'k, 'c, principal) http_handler" where
  "admit who policy failed unknown forbidden =
     reading (\<lambda>s. case who s of
         Inl e \<Rightarrow> fail_with failed
       | Inr None \<Rightarrow> fail_with unknown
       | Inr (Some p) \<Rightarrow> and_then (check (d_allowed (authorize p policy)) forbidden) (\<lambda>_. return_ok p))"

abbreviation unauthorized :: "string \<Rightarrow> response" where
  "unauthorized rid \<equiv> send_error rid 401 ''UNAUTHORIZED'' ''Invalid credentials'' True"

abbreviation forbidden :: "string \<Rightarrow> string \<Rightarrow> response" where
  "forbidden rid message \<equiv> send_error rid 403 ''FORBIDDEN'' message True"

abbreviation insufficient :: "string \<Rightarrow> response" where
  "insufficient rid \<equiv> forbidden rid ''Insufficient permissions''"

definition admit_key :: "http_call \<Rightarrow> policy \<Rightarrow> ('a, 'p, 'b, 'k, 'c, principal) http_handler" where
  "admit_key c policy =
     admit (caller_by_key c) policy (internal_error (hc_rid c)) (unauthorized (hc_rid c)) (insufficient (hc_rid c))"

definition body_of :: "http_call \<Rightarrow> 'r option \<Rightarrow> ('a, 'p, 'b, 'k, 'c, 'r) http_handler" where
  "body_of c body = demand body (send_error (hc_rid c) 400 ''BAD_REQUEST'' ''Invalid JSON body'' True)"

text \<open>A success with the data a handler built.\<close>

definition success :: "http_call \<Rightarrow> int \<Rightarrow> payload \<Rightarrow> ('a, 'p, 'b, 'k, 'c, response) http_handler" where
  "success c status data = return_ok (send_json (hc_rid c) status (SuccessBody data))"

section \<open>Health and identity\<close>

definition http_health :: "http_call \<Rightarrow> ('a, 'p, 'b, 'k, 'c, response) http_handler" where
  "http_health c = return_ok \<lparr>rs_status = 200, rs_content_type = ''text/plain'',
     rs_request_id = Some (hc_rid c), rs_body = TextBody ''OK''\<rparr>"

definition http_me :: "http_call \<Rightarrow> ('a, 'p, 'b, 'k, 'c, response) http_handler" where
  "http_me c =
     and_then (admit_key c PolicyMeRead) (\<lambda>p.
     success c 200 (MeData (p_id p) (p_uuid p) (p_username p) (p_email p) (p_created_at p)
       (p_updated_at p) (hc_rid c)))"

section \<open>Apps\<close>

definition http_read_app_catalog :: "http_call \<Rightarrow> ('a, 'p, 'b, 'k, 'c, response) http_handler" where
  "http_read_app_catalog c =
     and_then (admit_key c PolicyAppsRead) (\<lambda>_.
     and_then (on_apps (refuse_by (hc_rid c)
       [(ErrInvalidAppMetadata, 500, ''INTERNAL_SERVER_ERROR'', ''Invalid app metadata'')])
       read_app_catalog) (\<lambda>catalog.
     success c 200 (AppItems catalog (hc_rid c))))"

definition http_read_app_installations :: "http_call \<Rightarrow> ('a, 'p, 'b, 'k, 'c, response) http_handler" where
  "http_read_app_installations c =
     and_then (admit_key c PolicyAppInstallationsRead) (\<lambda>p.
     and_then (on_apps (refuse_by (hc_rid c)
       [(ErrInvalidAppInstallation, bad_request ''Invalid app installation'')])
       (read_app_installations (p_id p))) (\<lambda>installations.
     success c 200 (InstallationItems installations (hc_rid c))))"

definition http_read_app_install_intents :: "http_call \<Rightarrow> ('a, 'p, 'b, 'k, 'c, response) http_handler" where
  "http_read_app_install_intents c =
     and_then (admit_key c PolicyAppInstallIntentsRead) (\<lambda>p.
     and_then (on_apps (refuse_by (hc_rid c)
       [(ErrInvalidInstallIntent, bad_request ''Invalid app install intent'')])
       (read_install_intents (p_id p))) (\<lambda>intents.
     success c 200 (IntentItems intents (hc_rid c))))"

definition http_create_install_intent :: "http_call \<Rightarrow> ('a, 'p, 'b, 'k, 'c, response) http_handler" where
  "http_create_install_intent c =
     and_then (admit_key c PolicyAppsInstall) (\<lambda>p.
     and_then (body_of c (decode_json (single_field ''appSlug'') [] (hc_request c))) (\<lambda>slug.
     and_then (on_apps (refuse_by (hc_rid c)
       [(ErrInvalidInstallIntent, bad_request ''Invalid app install intent''),
        (ErrAppNotFound, not_found ''App not found'')])
       (create_install_intent (p_id p) slug (tk_now1 (hc_tick c)) (tk_entropy (hc_tick c)))) (\<lambda>intent.
     success c 201 (IntentData intent (hc_rid c)))))"

definition http_read_external_auth :: "string \<Rightarrow> http_call \<Rightarrow> ('a, 'p, 'b, 'k, 'c, response) http_handler" where
  "http_read_external_auth ref c =
     and_then (admit_key c PolicyAppInstallExternalAuthRead) (\<lambda>p.
     and_then (on_apps (refuse_by (hc_rid c)
       [(ErrInvalidInstallIntent, bad_request ''Invalid app install intent''),
        (ErrInstallIntentNotFound, not_found ''App install intent not found''),
        (ErrInstallIntentNotReady, conflict ''App install intent is not ready for external auth''),
        (ErrAppNotFound, not_found ''App not found'')])
       (read_auth_descriptor (p_id p) ref (tk_now1 (hc_tick c)) (tk_entropy (hc_tick c)))) (\<lambda>descriptor.
     success c 200 (DescriptorData descriptor (hc_rid c))))"

definition http_mark_external_auth :: "string \<Rightarrow> http_call \<Rightarrow> ('a, 'p, 'b, 'k, 'c, response) http_handler" where
  "http_mark_external_auth ref c =
     and_then (admit_key c PolicyAppInstallIntentsHandoff) (\<lambda>p.
     and_then (on_apps (refuse_by (hc_rid c)
       [(ErrInvalidInstallIntent, bad_request ''Invalid app install intent''),
        (ErrInstallIntentNotFound, not_found ''App install intent not found'')])
       (mark_intent_requires_auth (p_id p) ref (tk_now1 (hc_tick c)))) (\<lambda>intent.
     success c 200 (IntentData intent (hc_rid c))))"

definition http_consume_external_auth :: "string \<Rightarrow> http_call \<Rightarrow> ('a, 'p, 'b, 'k, 'c, response) http_handler" where
  "http_consume_external_auth ref c =
     and_then (admit_key c PolicyAppInstallExternalAuthConsume) (\<lambda>p.
     and_then (body_of c (decode_json (single_field ''handoffStateRef'') [] (hc_request c))) (\<lambda>state_ref.
     and_then (on_apps (refuse_by (hc_rid c)
       [(ErrInvalidInstallIntent, bad_request ''Invalid external auth handoff session''),
        (ErrExternalAuthSessionNotFound, not_found ''External auth handoff session not found''),
        (ErrExternalAuthSessionConsumed, conflict ''External auth handoff session already consumed''),
        (ErrExternalAuthSessionExpired, gone ''External auth handoff session expired'')])
       (consume_session (p_id p) ref state_ref (tk_now1 (hc_tick c)) (tk_now2 (hc_tick c)))) (\<lambda>session.
     success c 200 (SessionData session (hc_rid c)))))"

definition http_preview_authorization :: "string \<Rightarrow> http_call \<Rightarrow> ('a, 'p, 'b, 'k, 'c, response) http_handler" where
  "http_preview_authorization ref c =
     and_then (admit_key c PolicyAppInstallExternalAuthPreview) (\<lambda>p.
     and_then (body_of c (decode_json (single_field ''handoffStateRef'') [] (hc_request c))) (\<lambda>state_ref.
     and_then (on_apps (refuse_by (hc_rid c)
       [(ErrInvalidInstallIntent, bad_request ''Invalid external auth authorization preview''),
        (ErrInstallIntentNotFound, not_found ''External auth handoff session not found''),
        (ErrExternalAuthSessionNotFound, not_found ''External auth handoff session not found''),
        (ErrInstallIntentNotReady, conflict ''App install intent is not ready for external auth''),
        (ErrExternalAuthSessionConsumed, conflict ''External auth handoff session already consumed''),
        (ErrExternalAuthSessionExpired, gone ''External auth handoff session expired''),
        (ErrAppNotFound, not_found ''App not found'')])
       (preview_authorization (p_id p) ref state_ref (tk_now1 (hc_tick c)) (tk_now2 (hc_tick c))
          (tk_now3 (hc_tick c)) (tk_entropy (hc_tick c)))) (\<lambda>preview.
     success c 200 (PreviewData preview (hc_rid c)))))"

definition http_preflight_callback :: "string \<Rightarrow> http_call \<Rightarrow> ('a, 'p, 'b, 'k, 'c, response) http_handler" where
  "http_preflight_callback ref c =
     and_then (admit_key c PolicyAppInstallExternalAuthCallback) (\<lambda>p.
     and_then (body_of c (decode_strict_json preflight_fields
       \<lparr>pr_state_ref = [], pr_callback_status = []\<rparr> (hc_request c))) (\<lambda>body.
     and_then (on_apps (refuse_by (hc_rid c)
       [(ErrInvalidExternalAuthCallbackPreflight, bad_request ''Invalid external auth callback preflight''),
        (ErrInstallIntentNotFound, not_found ''External auth handoff session not found''),
        (ErrExternalAuthSessionNotFound, not_found ''External auth handoff session not found''),
        (ErrInstallIntentNotReady, conflict ''App install intent is not ready for external auth''),
        (ErrExternalAuthCallbackPreflightConsumed,
           conflict ''External auth callback preflight already recorded''),
        (ErrExternalAuthSessionExpired, gone ''External auth handoff session expired''),
        (ErrAppNotFound, not_found ''App not found'')])
       (preflight_callback (p_id p) ref body (tk_now1 (hc_tick c)) (tk_entropy (hc_tick c)))) (\<lambda>preflight.
     success c 200 (PreflightData preflight (hc_rid c)))))"

definition http_exchange_provider :: "string \<Rightarrow> http_call \<Rightarrow> ('a, 'p, 'b, 'k, 'c, response) http_handler" where
  "http_exchange_provider ref c =
     and_then (admit_key c PolicyAppInstallProviderExchange) (\<lambda>p.
     and_then (body_of c (decode_strict_json exchange_fields
       \<lparr>er_state_ref = [], er_preflight = []\<rparr> (hc_request c))) (\<lambda>body.
     and_then (on_apps (refuse_by (hc_rid c)
       [(ErrInvalidExternalAuthProviderExchange, bad_request ''Invalid external auth provider exchange''),
        (ErrInstallIntentNotFound, not_found ''External auth callback preflight not found''),
        (ErrExternalAuthCallbackPreflightNotFound, not_found ''External auth callback preflight not found''),
        (ErrInstallIntentNotReady, conflict ''App install intent is not ready for external auth''),
        (ErrExternalAuthProviderExchangeRecorded,
           conflict ''External auth provider exchange already recorded''),
        (ErrAppNotFound, not_found ''App not found'')])
       (exchange_provider (p_id p) ref body (tk_now1 (hc_tick c)) (tk_entropy (hc_tick c)))) (\<lambda>exchange.
     success c 200 (ExchangeData exchange (hc_rid c)))))"

definition http_complete_install :: "string \<Rightarrow> http_call \<Rightarrow> ('a, 'p, 'b, 'k, 'c, response) http_handler" where
  "http_complete_install ref c =
     and_then (admit_key c PolicyAppInstallComplete) (\<lambda>p.
     and_then (body_of c (decode_strict_json (single_field ''providerExchangeRef'') [] (hc_request c))) (\<lambda>body.
     and_then (on_apps (refuse_by (hc_rid c)
       [(ErrInvalidAppInstallCompletion, bad_request ''Invalid app install completion''),
        (ErrInstallIntentNotFound, not_found ''External auth provider exchange not found''),
        (ErrExternalAuthProviderExchangeNotFound, not_found ''External auth provider exchange not found''),
        (ErrInstallIntentNotReady, conflict ''App install intent is not ready for completion''),
        (ErrAppInstallCompletionRecorded, conflict ''App install completion already recorded''),
        (ErrAppNotFound, not_found ''App not found'')])
       (complete_install (p_id p) ref body (tk_now1 (hc_tick c)) (tk_entropy (hc_tick c)))) (\<lambda>completion.
     success c 200 (CompletionData completion (hc_rid c)))))"

definition http_activate_install :: "string \<Rightarrow> http_call \<Rightarrow> ('a, 'p, 'b, 'k, 'c, response) http_handler" where
  "http_activate_install ref c =
     and_then (admit_key c PolicyAppInstallActivate) (\<lambda>p.
     and_then (body_of c (decode_strict_json (single_field ''installCompletionRef'') [] (hc_request c))) (\<lambda>body.
     and_then (on_apps (refuse_by (hc_rid c)
       [(ErrInvalidAppInstallation, bad_request ''Invalid app installation''),
        (ErrInstallIntentNotFound, not_found ''App install completion not found''),
        (ErrAppInstallCompletionNotFound, not_found ''App install completion not found''),
        (ErrInstallIntentNotReady, conflict ''App install completion is not ready for activation''),
        (ErrAppInstallCompletionNotReady, conflict ''App install completion is not ready for activation''),
        (ErrAppInstallationRecorded, conflict ''App installation already recorded''),
        (ErrAppNotFound, not_found ''App not found'')])
       (activate_installation (p_id p) ref body (tk_now1 (hc_tick c)) (tk_entropy (hc_tick c)))) (\<lambda>installation.
     success c 200 (InstallationData installation (hc_rid c)))))"

definition http_read_install_progress :: "string \<Rightarrow> http_call \<Rightarrow> ('a, 'p, 'b, 'k, 'c, response) http_handler" where
  "http_read_install_progress ref c =
     and_then (admit_key c PolicyAppInstallProgressRead) (\<lambda>p.
     and_then (on_apps (refuse_by (hc_rid c)
       [(ErrInvalidInstallIntent, bad_request ''Invalid app install intent''),
        (ErrInstallIntentNotFound, not_found ''App install intent not found''),
        (ErrAppNotFound, not_found ''App not found'')])
       (read_install_progress (p_id p) ref (tk_now1 (hc_tick c)))) (\<lambda>progress.
     success c 200 (ProgressData progress (hc_rid c))))"

section \<open>Calendars and credentials\<close>

definition http_read_calendar_connections :: "http_call \<Rightarrow> ('a, 'p, 'b, 'k, 'c, response) http_handler" where
  "http_read_calendar_connections c =
     and_then (admit_key c PolicyCalendarConnectionsRead) (\<lambda>p.
     and_then (on_calendars (refuse_by (hc_rid c) []) (read_calendar_connections (p_id p))) (\<lambda>connections.
     success c 200 (ConnectionItems connections (hc_rid c))))"

definition http_read_calendar_catalog :: "http_call \<Rightarrow> ('a, 'p, 'b, 'k, 'c, response) http_handler" where
  "http_read_calendar_catalog c =
     and_then (admit_key c PolicyCalendarsRead) (\<lambda>p.
     and_then (on_calendars (refuse_by (hc_rid c) []) (read_catalog_calendars (p_id p))) (\<lambda>catalog.
     success c 200 (CalendarItems catalog (hc_rid c))))"

definition http_read_credential_metadata :: "http_call \<Rightarrow> ('a, 'p, 'b, 'k, 'c, response) http_handler" where
  "http_read_credential_metadata c =
     and_then (admit_key c PolicyCredentialsRead) (\<lambda>p.
     and_then (on_credentials (refuse_by (hc_rid c) []) (read_credential_metadata (p_id p))) (\<lambda>credentials.
     success c 200 (CredentialItems credentials (hc_rid c))))"

definition http_read_selected_calendars :: "http_call \<Rightarrow> ('a, 'p, 'b, 'k, 'c, response) http_handler" where
  "http_read_selected_calendars c =
     and_then (admit_key c PolicySelectedCalendarsRead) (\<lambda>p.
     and_then (on_calendars (refuse_by (hc_rid c) []) (read_selected_calendars (p_id p))) (\<lambda>selected.
     success c 200 (SelectedItems selected (hc_rid c))))"

definition http_save_selected_calendar :: "http_call \<Rightarrow> ('a, 'p, 'b, 'k, 'c, response) http_handler" where
  "http_save_selected_calendar c =
     and_then (admit_key c PolicySelectedCalendarsWrite) (\<lambda>p.
     and_then (body_of c (decode_json save_selected_fields
       \<lparr>sq_ref = [], sq_provider = [], sq_external = [], sq_name = []\<rparr> (hc_request c))) (\<lambda>body.
     and_then (on_calendars (refuse_by (hc_rid c)
       [(ErrInvalidSelectedCalendar, bad_request ''Invalid selected calendar''),
        (ErrCalendarCatalogEntryNotFound, not_found ''Calendar not found'')])
       (save_selected_calendar (p_id p) (sq_ref body))) (\<lambda>calendar.
     success c 200 (CalendarData (Some calendar) (hc_rid c)))))"

definition http_delete_selected_calendar :: "string \<Rightarrow> http_call \<Rightarrow> ('a, 'p, 'b, 'k, 'c, response) http_handler" where
  "http_delete_selected_calendar ref c =
     and_then (admit_key c PolicySelectedCalendarsWrite) (\<lambda>p.
     and_then (on_calendars (refuse_by (hc_rid c)
       [(ErrInvalidSelectedCalendarRef, bad_request ''Invalid selected calendar'')])
       (delete_selected_calendar (p_id p) ref)) (\<lambda>result.
     and_then (check (del_removed result)
       (send_error (hc_rid c) 404 ''NOT_FOUND'' ''Selected calendar not found'' True)) (\<lambda>_.
     success c 200 (RemovedData ref (del_cleared result) (hc_rid c)))))"

definition http_read_destination_calendar :: "http_call \<Rightarrow> ('a, 'p, 'b, 'k, 'c, response) http_handler" where
  "http_read_destination_calendar c =
     and_then (admit_key c PolicyDestinationCalendarsRead) (\<lambda>p.
     and_then (on_calendars (refuse_by (hc_rid c) []) (read_destination_calendar (p_id p))) (\<lambda>calendar.
     success c 200 (CalendarData calendar (hc_rid c))))"

definition http_save_destination_calendar :: "http_call \<Rightarrow> ('a, 'p, 'b, 'k, 'c, response) http_handler" where
  "http_save_destination_calendar c =
     and_then (admit_key c PolicyDestinationCalendarsWrite) (\<lambda>p.
     and_then (body_of c (decode_json (single_field ''calendarRef'') [] (hc_request c))) (\<lambda>ref.
     and_then (on_calendars (refuse_by (hc_rid c)
       [(ErrInvalidDestinationCalendarRef, bad_request ''Invalid destination calendar'')])
       (set_destination_calendar (p_id p) ref)) (\<lambda>calendar.
     and_then (demand calendar
       (send_error (hc_rid c) 404 ''NOT_FOUND'' ''Selected calendar not found'' True)) (\<lambda>found.
     success c 200 (CalendarData (Some found) (hc_rid c))))))"

end
