(* ===== verification/HttpBookings.thy ===== *)
theory HttpBookings
  imports HttpHandlers
begin

text \<open>
  The handlers of \<open>internal/httpapi/handlers.go\<close> for slots, bookings, OAuth and platform clients,
  with the ownership rules of the bookings.
\<close>

section \<open>Slots\<close>

definition parse_optional_int :: "string \<Rightarrow> int option" where
  "parse_optional_int value = (if value = [] then Some 0 else parse_int value)"

fun slot_refusal :: "string \<Rightarrow> slot_error \<Rightarrow> response" where
  "slot_refusal rid (SlotValidation code message) = send_error rid 400 code message True"
| "slot_refusal rid _ = internal_error rid"

text \<open>The one data handler without a caller.\<close>

definition http_read_slots :: "http_call \<Rightarrow> ('a, 'p, 'b, 'k, 'c, response) http_handler" where
  "http_read_slots c =
     (let query = values_get (rq_query (hc_request c)) in
     and_then (demand (parse_optional_int (query ''eventTypeId''))
       (send_error (hc_rid c) 400 ''INVALID_EVENT_TYPE'' ''Event type must be an integer'' True)) (\<lambda>event_type.
     and_then (reading (\<lambda>s. lift_result (map_sum (slot_refusal (hc_rid c)) id
       (read_available (pf_tz (sv_platform s)) (sv_slots s) (hc_rid c)
         \<lparr>sr_event_type_id = event_type, sr_start = query ''start'', sr_end = query ''end'',
          sr_time_zone = query ''timeZone''\<rparr>)))) (\<lambda>result.
     and_then (demand result (send_error (hc_rid c) 404 ''NOT_FOUND'' ''Slots not found'' True)) (\<lambda>slots.
     success c 200 (SlotsData slots)))))"

section \<open>Bookings\<close>

fun booking_refusal :: "string \<Rightarrow> booking_error \<Rightarrow> response" where
  "booking_refusal rid (BookingInvalid code message) = send_error rid 400 code message True"
| "booking_refusal rid _ = internal_error rid"

text \<open>The owner and the hosts the handlers assume for an event type, for a booking, for a fixture.\<close>

abbreviation fixture_resource :: booking_resource where
  "fixture_resource \<equiv> \<lparr>owner_user_id = fixture_owner_user_id, host_user_ids = [fixture_owner_user_id]\<rparr>"

definition event_type_resource :: "int \<Rightarrow> booking_resource option" where
  "event_type_resource event_type =
     (if event_type \<noteq> 0 \<and> event_type \<noteq> booking_fixture_event_type_id then None else Some fixture_resource)"

definition resource_of :: "booking \<Rightarrow> booking_resource" where
  "resource_of b =
     (let owner = (if b_owner b = 0 then fixture_owner_user_id else b_owner b);
          hosts = (case b_hosts b of None \<Rightarrow> [] | Some hs \<Rightarrow> hs)
      in \<lparr>owner_user_id = owner, host_user_ids = (if hosts = [] then [owner] else hosts)\<rparr>)"

definition resource_for_uid :: "string \<Rightarrow> booking_resource option" where
  "resource_for_uid uid =
     (if uid \<in> {primary_fixture_uid, rescheduled_fixture_uid, pending_confirm_fixture_uid,
           pending_decline_fixture_uid}
      then Some fixture_resource else None)"

definition allows :: "principal \<Rightarrow> policy \<Rightarrow> booking_resource \<Rightarrow> bool" where
  "allows p policy r = d_allowed (authorize_booking p policy r)"

text \<open>What a create request becomes for its event type: refused, or owned by the event type's owner.\<close>

definition owned_request ::
    "principal \<Rightarrow> response \<Rightarrow> create_request \<Rightarrow> ('a, 'p, 'b, 'k, 'c, create_request) http_handler" where
  "owned_request p refused body =
     (case event_type_resource (cr_event_type_id body) of
        None \<Rightarrow> return_ok body
      | Some r \<Rightarrow>
          and_then (check (allows p PolicyBookingWrite r) refused) (\<lambda>_.
          return_ok (body\<lparr>cr_owner := owner_user_id r, cr_hosts := Some (host_user_ids r)\<rparr>)))"

definition http_create_booking :: "http_call \<Rightarrow> ('a, 'p, 'b, 'k, 'c, response) http_handler" where
  "http_create_booking c =
     (let rid = hc_rid c in
     and_then (admit (caller_by_key_or_token c) PolicyBookingWrite (internal_error rid)
       (insufficient rid) (insufficient rid)) (\<lambda>p.
     and_then (reading (\<lambda>s. body_of c (decode_json (create_fields (sv_float s)) zero_create (hc_request c)))) (\<lambda>body.
     and_then (owned_request p (insufficient rid) body) (\<lambda>request.
     and_then (reading (\<lambda>s. on_bookings (booking_refusal rid) (create_booking (sv_platform s) rid request))) (\<lambda>(created, duplicate).
     success c (if duplicate then 200 else 201) (BookingData created))))))"

text \<open>
  The first part of the handlers of one booking: the caller, the policy on the fixture's owner, the
  booking, the policy on its owner and hosts.
\<close>

definition own_booking ::
    "http_call \<Rightarrow> policy \<Rightarrow> response \<Rightarrow> string \<Rightarrow> string \<Rightarrow> string \<Rightarrow>
     ('a, 'p, 'b, 'k, 'c, booking) http_handler" where
  "own_booking c policy unknown denial missing uid =
     (let rid = hc_rid c in
     and_then (admit (caller_by_key_or_token c) policy (internal_error rid) unknown (forbidden rid denial)) (\<lambda>p.
     and_then (check (case resource_for_uid uid of None \<Rightarrow> True | Some r \<Rightarrow> allows p policy r)
       (forbidden rid denial)) (\<lambda>_.
     and_then (on_bookings (\<lambda>_. internal_error rid) (read_booking rid uid)) (\<lambda>booking.
     and_then (demand booking (send_error rid 404 ''NOT_FOUND'' missing True)) (\<lambda>found.
     and_then (check (allows p policy (resource_of found)) (forbidden rid denial)) (\<lambda>_.
     return_ok found))))))"

definition http_read_booking :: "string \<Rightarrow> http_call \<Rightarrow> ('a, 'p, 'b, 'k, 'c, response) http_handler" where
  "http_read_booking uid c =
     and_then (own_booking c PolicyBookingRead (send_error (hc_rid c) 401 ''UNAUTHORIZED'' [] True)
       ''Insufficient permissions'' ''Booking not found'' uid) (\<lambda>found.
     success c 200 (BookingData found))"

text \<open>The last part of the lifecycle handlers.\<close>

definition lifecycle_response ::
    "http_call \<Rightarrow> lifecycle_result option \<Rightarrow> ('a, 'p, 'b, 'k, 'c, response) http_handler" where
  "lifecycle_response c result =
     and_then (demand result (send_error (hc_rid c) 404 ''NOT_FOUND'' [] True)) (\<lambda>r.
     return_ok (send_json (hc_rid c) 200 (LifecycleBody (lr_booking r) (lr_side_effects r))))"

definition http_cancel_booking :: "string \<Rightarrow> http_call \<Rightarrow> ('a, 'p, 'b, 'k, 'c, response) http_handler" where
  "http_cancel_booking uid c =
     and_then (own_booking c PolicyBookingWrite (forbidden (hc_rid c) []) [] [] uid) (\<lambda>_.
     and_then (body_of c (decode_json cancel_fields \<lparr>ca_reason = []\<rparr> (hc_request c))) (\<lambda>body.
     and_then (on_bookings (booking_refusal (hc_rid c)) (cancel_booking (hc_rid c) uid body)) (\<lambda>result.
     lifecycle_response c result)))"

definition http_reschedule_booking :: "string \<Rightarrow> http_call \<Rightarrow> ('a, 'p, 'b, 'k, 'c, response) http_handler" where
  "http_reschedule_booking uid c =
     and_then (own_booking c PolicyBookingWrite (forbidden (hc_rid c) []) [] [] uid) (\<lambda>_.
     and_then (body_of c (decode_json reschedule_fields \<lparr>rr_start = [], rr_reason = []\<rparr> (hc_request c))) (\<lambda>body.
     and_then (on_bookings (booking_refusal (hc_rid c)) (reschedule_booking (hc_rid c) uid body)) (\<lambda>result.
     and_then (demand result (send_error (hc_rid c) 404 ''NOT_FOUND'' [] True)) (\<lambda>r.
     return_ok (send_json (hc_rid c) 200 (RescheduledBody (rs_old r) (rs_new r) (rs_side_effects r)))))))"

definition http_confirm_booking :: "string \<Rightarrow> http_call \<Rightarrow> ('a, 'p, 'b, 'k, 'c, response) http_handler" where
  "http_confirm_booking uid c =
     and_then (own_booking c PolicyBookingHostAction (forbidden (hc_rid c) []) [] [] uid) (\<lambda>_.
     and_then (body_of c (decode_json [] () (hc_request c))) (\<lambda>_.
     and_then (on_bookings (booking_refusal (hc_rid c)) (confirm_booking (hc_rid c) uid)) (\<lambda>result.
     lifecycle_response c result)))"

definition http_decline_booking :: "string \<Rightarrow> http_call \<Rightarrow> ('a, 'p, 'b, 'k, 'c, response) http_handler" where
  "http_decline_booking uid c =
     and_then (own_booking c PolicyBookingHostAction (forbidden (hc_rid c) []) [] [] uid) (\<lambda>_.
     and_then (body_of c (decode_json decline_fields \<lparr>dr_reason = []\<rparr> (hc_request c))) (\<lambda>body.
     and_then (on_bookings (booking_refusal (hc_rid c)) (decline_booking (hc_rid c) uid body)) (\<lambda>result.
     lifecycle_response c result)))"

section \<open>OAuth and platform clients\<close>

definition http_oauth_client :: "string \<Rightarrow> http_call \<Rightarrow> ('a, 'p, 'b, 'k, 'c, response) http_handler" where
  "http_oauth_client client_id c =
     (let rid = hc_rid c in
     and_then (admit (caller_by_key c) PolicyOAuth2Read
       (send_error rid 500 ''INTERNAL_SERVER_ERROR'' ''Internal server error'' False)
       (send_error rid 401 ''UNAUTHORIZED'' [] False) (insufficient rid)) (\<lambda>_.
     and_then (reading (\<lambda>s. lift_result (map_sum (\<lambda>_. internal_error rid) id
       (read_oauth_client (sv_auth s) client_id)))) (\<lambda>client.
     and_then (demand client (send_error rid 404 ''NOT_FOUND'' ''OAuth client not found'' True)) (\<lambda>oc.
     success c 200 (OAuthClientData (oc_client_id oc) (oc_name oc) (oc_redirect_uris oc)
       (oc_created_at oc) (oc_updated_at oc) rid)))))"

definition oauth_error :: "string \<Rightarrow> int \<Rightarrow> string \<Rightarrow> string \<Rightarrow> response" where
  "oauth_error rid status code description = send_json rid status (OAuthErrorBody code description rid)"

definition decode_token_request :: "http_request \<Rightarrow> token_request option" where
  "decode_token_request r =
     (if rq_body r = NoBody then None
      else if has_prefix (to_lower_ascii (header_get r ''content-type'')) ''application/x-www-form-urlencoded''
      then (case rq_form r of
              None \<Rightarrow> None
            | Some form \<Rightarrow> Some \<lparr>tr_grant_type = values_get form ''grant_type'',
                tr_client_id = values_get form ''client_id'', tr_code = values_get form ''code'',
                tr_redirect_uri = values_get form ''redirect_uri'',
                tr_refresh_token = values_get form ''refresh_token''\<rparr>)
      else decode_json token_fields zero_token_request r)"

definition oauth_refusal :: "string \<Rightarrow> auth_error \<Rightarrow> response" where
  "oauth_refusal rid e =
     (if e = ErrInvalidOAuthTokenRequest then oauth_error rid 400 ''invalid_request'' ''Invalid token request''
      else if e = ErrUnsupportedOAuthGrantType
      then oauth_error rid 400 ''unsupported_grant_type'' ''Unsupported grant type''
      else if e = ErrInvalidOAuthClient then oauth_error rid 401 ''invalid_client'' ''Invalid OAuth client''
      else if e \<in> {ErrInvalidOAuthRedirectURI, ErrInvalidOAuthGrant, ErrOAuthGrantConsumed, ErrOAuthGrantExpired}
      then oauth_error rid 400 ''invalid_grant'' ''Invalid OAuth grant''
      else oauth_error rid 500 ''server_error'' ''Internal server error'')"

definition http_oauth_token :: "http_call \<Rightarrow> ('a, 'p, 'b, 'k, 'c, response) http_handler" where
  "http_oauth_token c =
     (let rid = hc_rid c; invalid_client = oauth_error rid 401 ''invalid_client'' ''Invalid OAuth client'' in
     and_then (demand (decode_token_request (hc_request c))
       (oauth_error rid 400 ''invalid_request'' ''Invalid token request'')) (\<lambda>request.
     and_then (reading (\<lambda>s. lift_result (map_sum
       (\<lambda>_. oauth_error rid 500 ''server_error'' ''Internal server error'') id
       (read_oauth_client (sv_auth s) (tr_client_id request))))) (\<lambda>client.
     and_then (demand client invalid_client) (\<lambda>oc.
     and_then (check (d_allowed (authorize (oauth_client_principal oc) PolicyOAuth2TokenExchange))
       invalid_client) (\<lambda>_.
     and_then (on_auth (oauth_refusal rid) (exchange_oauth_token request (tk_now1 (hc_tick c))
       (tk_draw1 (hc_tick c)) (tk_draw2 (hc_tick c)))) (\<lambda>token.
     return_ok (send_json rid 200 (TokenBody token))))))))"

definition http_platform_client :: "string \<Rightarrow> http_call \<Rightarrow> ('a, 'p, 'b, 'k, 'c, response) http_handler" where
  "http_platform_client client_id c =
     (let rid = hc_rid c in
     and_then (reading (\<lambda>s. lift_result (map_sum (\<lambda>_. internal_error rid) id
       (verify_platform_client (sv_sha s) (sv_auth s) client_id
         (header_get (hc_request c) ''x-cal-client-id'') (header_get (hc_request c) ''x-cal-secret-key''))))) (\<lambda>client.
     and_then (demand client
       (send_error rid 401 ''UNAUTHORIZED'' ''Invalid platform client credentials'' True)) (\<lambda>pc.
     and_then (check (d_allowed (authorize (platform_client_principal pc) PolicyPlatformClientRead))
       (insufficient rid)) (\<lambda>_.
     success c 200 (PlatformClientData (pc_id pc) (pc_name pc) (pc_organization_id pc) (pc_permissions pc)
       (pc_created_at pc) (pc_updated_at pc) rid)))))"

end
