(* ===== verification/HttpServer.thy ===== *)
theory HttpServer
  imports HttpBookings
begin

text \<open>
  The routes and the dispatch of \<open>internal/httpapi/server.go\<close>: a request to its handler as
  \<open>http.ServeMux\<close> does it, for paths in clean form. Logging and the recovery from a panic are left
  out: the handlers of the model are total.
\<close>

section \<open>Routes\<close>

datatype endpoint =
    Health | Me | ReadAppCatalog | ReadAppInstallations | ReadAppInstallIntents | CreateInstallIntent
  | ReadExternalAuth | MarkExternalAuth | ConsumeExternalAuth | PreviewAuthorization | PreflightCallback
  | ExchangeProvider | CompleteInstall | ActivateInstall | ReadInstallProgress
  | ReadCalendarConnections | ReadCalendarCatalog | ReadCredentialMetadata | ReadSelectedCalendars
  | SaveSelectedCalendar | DeleteSelectedCalendar | ReadDestinationCalendar | SaveDestinationCalendar
  | ReadSlots | CreateBooking | ReadBooking | CancelBooking | RescheduleBooking | ConfirmBooking
  | DeclineBooking | OAuthClientMetadata | OAuthToken | PlatformClient

datatype segment = Lit string | Wild

definition intent_path :: "string list \<Rightarrow> segment list" where
  "intent_path rest = [Lit ''v2'', Lit ''app-install-intents'', Wild] @ map Lit rest"

definition booking_path :: "string list \<Rightarrow> segment list" where
  "booking_path rest = [Lit ''v2'', Lit ''bookings'', Wild] @ map Lit rest"

definition routes :: "(string \<times> segment list \<times> endpoint) list" where
  "routes =
     [(''GET'', [Lit ''health''], Health),
      (''GET'', [Lit ''v2'', Lit ''me''], Me),
      (''GET'', [Lit ''v2'', Lit ''apps''], ReadAppCatalog),
      (''GET'', [Lit ''v2'', Lit ''app-installations''], ReadAppInstallations),
      (''GET'', [Lit ''v2'', Lit ''app-install-intents''], ReadAppInstallIntents),
      (''POST'', [Lit ''v2'', Lit ''app-install-intents''], CreateInstallIntent),
      (''GET'', intent_path [''external-auth''], ReadExternalAuth),
      (''POST'', intent_path [''external-auth''], MarkExternalAuth),
      (''POST'', intent_path [''external-auth'', ''consume''], ConsumeExternalAuth),
      (''POST'', intent_path [''external-auth'', ''authorization-preview''], PreviewAuthorization),
      (''POST'', intent_path [''external-auth'', ''callback-preflight''], PreflightCallback),
      (''POST'', intent_path [''external-auth'', ''provider-exchange''], ExchangeProvider),
      (''POST'', intent_path [''complete''], CompleteInstall),
      (''POST'', intent_path [''activate''], ActivateInstall),
      (''GET'', intent_path [''progress''], ReadInstallProgress),
      (''GET'', [Lit ''v2'', Lit ''calendar-connections''], ReadCalendarConnections),
      (''GET'', [Lit ''v2'', Lit ''calendars''], ReadCalendarCatalog),
      (''GET'', [Lit ''v2'', Lit ''credentials''], ReadCredentialMetadata),
      (''GET'', [Lit ''v2'', Lit ''selected-calendars''], ReadSelectedCalendars),
      (''POST'', [Lit ''v2'', Lit ''selected-calendars''], SaveSelectedCalendar),
      (''DELETE'', [Lit ''v2'', Lit ''selected-calendars'', Wild], DeleteSelectedCalendar),
      (''GET'', [Lit ''v2'', Lit ''destination-calendars''], ReadDestinationCalendar),
      (''POST'', [Lit ''v2'', Lit ''destination-calendars''], SaveDestinationCalendar),
      (''GET'', [Lit ''v2'', Lit ''slots''], ReadSlots),
      (''POST'', [Lit ''v2'', Lit ''bookings''], CreateBooking),
      (''GET'', booking_path [], ReadBooking),
      (''POST'', booking_path [''cancel''], CancelBooking),
      (''POST'', booking_path [''reschedule''], RescheduleBooking),
      (''POST'', booking_path [''confirm''], ConfirmBooking),
      (''POST'', booking_path [''decline''], DeclineBooking),
      (''GET'', [Lit ''v2'', Lit ''auth'', Lit ''oauth2'', Lit ''clients'', Wild], OAuthClientMetadata),
      (''POST'', [Lit ''v2'', Lit ''auth'', Lit ''oauth2'', Lit ''token''], OAuthToken),
      (''GET'', [Lit ''v2'', Lit ''oauth-clients'', Wild], PlatformClient)]"

text \<open>
  \<open>ServeMux\<close>: a wildcard takes one segment that is not empty, a \<open>GET\<close> pattern serves \<open>HEAD\<close> too. No
  request matches two of the routes. A pattern has at most one wildcard.
\<close>

fun match_path :: "segment list \<Rightarrow> string list \<Rightarrow> string \<Rightarrow> string option" where
  "match_path [] [] value = Some value"
| "match_path (Lit s # pattern) (x # xs) value = (if x = s then match_path pattern xs value else None)"
| "match_path (Wild # pattern) (x # xs) value = (if x = [] then None else match_path pattern xs x)"
| "match_path _ _ value = None"

definition serves_method :: "string \<Rightarrow> string \<Rightarrow> bool" where
  "serves_method pattern m = (m = pattern \<or> pattern = ''GET'' \<and> m = ''HEAD'')"

definition find_route :: "string \<Rightarrow> string list \<Rightarrow> (endpoint \<times> string) option" where
  "find_route m path =
     (case find (\<lambda>(pattern_method, pattern, _).
          serves_method pattern_method m \<and> match_path pattern path [] \<noteq> None) routes of
        None \<Rightarrow> None
      | Some (_, pattern, e) \<Rightarrow> map_option (\<lambda>value. (e, value)) (match_path pattern path []))"

definition path_served :: "string list \<Rightarrow> bool" where
  "path_served path = list_ex (\<lambda>(_, pattern, _). match_path pattern path [] \<noteq> None) routes"

definition unrouted :: "string list \<Rightarrow> response" where
  "unrouted path =
     (if path_served path
      then \<lparr>rs_status = 405, rs_content_type = ''text/plain; charset=utf-8'', rs_request_id = None,
            rs_body = TextBody ''Method Not Allowed''\<rparr>
      else \<lparr>rs_status = 404, rs_content_type = ''text/plain; charset=utf-8'', rs_request_id = None,
            rs_body = TextBody ''404 page not found''\<rparr>)"

fun handler_of :: "endpoint \<Rightarrow> string \<Rightarrow> http_call \<Rightarrow> ('a, 'p, 'b, 'k, 'c, response) http_handler" where
  "handler_of Health _ = http_health"
| "handler_of Me _ = http_me"
| "handler_of ReadAppCatalog _ = http_read_app_catalog"
| "handler_of ReadAppInstallations _ = http_read_app_installations"
| "handler_of ReadAppInstallIntents _ = http_read_app_install_intents"
| "handler_of CreateInstallIntent _ = http_create_install_intent"
| "handler_of ReadExternalAuth ref = http_read_external_auth ref"
| "handler_of MarkExternalAuth ref = http_mark_external_auth ref"
| "handler_of ConsumeExternalAuth ref = http_consume_external_auth ref"
| "handler_of PreviewAuthorization ref = http_preview_authorization ref"
| "handler_of PreflightCallback ref = http_preflight_callback ref"
| "handler_of ExchangeProvider ref = http_exchange_provider ref"
| "handler_of CompleteInstall ref = http_complete_install ref"
| "handler_of ActivateInstall ref = http_activate_install ref"
| "handler_of ReadInstallProgress ref = http_read_install_progress ref"
| "handler_of ReadCalendarConnections _ = http_read_calendar_connections"
| "handler_of ReadCalendarCatalog _ = http_read_calendar_catalog"
| "handler_of ReadCredentialMetadata _ = http_read_credential_metadata"
| "handler_of ReadSelectedCalendars _ = http_read_selected_calendars"
| "handler_of SaveSelectedCalendar _ = http_save_selected_calendar"
| "handler_of DeleteSelectedCalendar ref = http_delete_selected_calendar ref"
| "handler_of ReadDestinationCalendar _ = http_read_destination_calendar"
| "handler_of SaveDestinationCalendar _ = http_save_destination_calendar"
| "handler_of ReadSlots _ = http_read_slots"
| "handler_of CreateBooking _ = http_create_booking"
| "handler_of ReadBooking uid = http_read_booking uid"
| "handler_of CancelBooking uid = http_cancel_booking uid"
| "handler_of RescheduleBooking uid = http_reschedule_booking uid"
| "handler_of ConfirmBooking uid = http_confirm_booking uid"
| "handler_of DeclineBooking uid = http_decline_booking uid"
| "handler_of OAuthClientMetadata cid = http_oauth_client cid"
| "handler_of OAuthToken _ = http_oauth_token"
| "handler_of PlatformClient cid = http_platform_client cid"

section \<open>Serving\<close>

definition request_id_of :: "('a, 'p, 'b, 'k, 'c) server \<Rightarrow> http_request \<Rightarrow> string" where
  "request_id_of s r =
     (let rid = header_get r ''x-request-id'' in if rid = [] then sv_request_id s else rid)"

definition call_of :: "('a, 'p, 'b, 'k, 'c) server \<Rightarrow> http_request \<Rightarrow> http_tick \<Rightarrow> http_call" where
  "call_of s r t = \<lparr>hc_request = r, hc_rid = request_id_of s r, hc_tick = t\<rparr>"

text \<open>A handler's first response is what is sent.\<close>

definition first_response ::
    "('a, 'p, 'b, 'k, 'c, response) http_handler \<Rightarrow> ('a, 'p, 'b, 'k, 'c) server \<Rightarrow>
     response \<times> ('a, 'p, 'b, 'k, 'c) server" where
  "first_response h s = (case h s of (Inl x, t) \<Rightarrow> (x, t) | (Inr x, t) \<Rightarrow> (x, t))"

definition serve_http ::
    "http_request \<Rightarrow> http_tick \<Rightarrow> ('a, 'p, 'b, 'k, 'c) server \<Rightarrow> response \<times> ('a, 'p, 'b, 'k, 'c) server" where
  "serve_http r t s =
     (case find_route (rq_method r) (rq_path r) of
        None \<Rightarrow> (unrouted (rq_path r), s)
      | Some (e, value) \<Rightarrow> first_response (handler_of e value (call_of s r t)) s)"

end
