(* ===== verification/HttpRules.thy ===== *)
theory HttpRules
  imports HttpServer
begin

text \<open>
  What every handler of \<open>internal/httpapi\<close> has in common: the shape of its responses, as a calculus
  over the handler combinators, and its gate, the caller and the policy its first lines check.
\<close>

section \<open>Responses of a handler\<close>

text \<open>What the server sends when it refuses, and when it answers, with the request id \<open>rid\<close>.\<close>

fun error_body :: "string \<Rightarrow> response_body \<Rightarrow> bool" where
  "error_body rid (ErrorBody code message i) = (i = None \<or> i = Some rid)"
| "error_body rid (OAuthErrorBody code description i) = (i = rid)"
| "error_body rid _ = False"

fun data_body :: "response_body \<Rightarrow> bool" where
  "data_body (ErrorBody code message i) = False"
| "data_body (OAuthErrorBody code description i) = False"
| "data_body _ = True"

definition refusal :: "string \<Rightarrow> response \<Rightarrow> bool" where
  "refusal rid x \<longleftrightarrow> rs_status x \<in> {400, 401, 403, 404, 409, 410, 500} \<and> rs_request_id x = Some rid \<and>
     rs_content_type x = ''application/json'' \<and> error_body rid (rs_body x)"

definition answer :: "string \<Rightarrow> response \<Rightarrow> bool" where
  "answer rid x \<longleftrightarrow> rs_status x \<in> {200, 201} \<and> rs_request_id x = Some rid \<and> data_body (rs_body x) \<and>
     rs_content_type x \<in> {''application/json'', ''text/plain''}"

definition refuses :: "string \<Rightarrow> ('a, 'p, 'b, 'k, 'c, 'r) http_handler \<Rightarrow> bool" where
  "refuses rid h \<longleftrightarrow> (\<forall>s x t. h s = (Inl x, t) \<longrightarrow> refusal rid x)"

definition answers :: "string \<Rightarrow> ('a, 'p, 'b, 'k, 'c, response) http_handler \<Rightarrow> bool" where
  "answers rid h \<longleftrightarrow> refuses rid h \<and> (\<forall>s x t. h s = (Inr x, t) \<longrightarrow> answer rid x)"

named_theorems http_rules \<open>what the combinators keep of refusals and answers\<close>

lemma refusal_send_error [http_rules, intro]:
  "status \<in> {400, 401, 403, 404, 409, 410, 500} \<Longrightarrow> refusal rid (send_error rid status code message b)"
  by (simp add: refusal_def send_error_def send_json_def)

lemma refusal_internal [http_rules]: "refusal rid (internal_error rid)"
  by (simp add: internal_error_def refusal_send_error)

lemma refusal_oauth [http_rules]:
  "status \<in> {400, 401, 500} \<Longrightarrow> refusal rid (oauth_error rid status code description)"
  by (auto simp: refusal_def oauth_error_def send_json_def)

lemma refuses_and_then [http_rules]:
  "refuses rid h \<Longrightarrow> (\<And>x. refuses rid (f x)) \<Longrightarrow> refuses rid (and_then h f)"
  unfolding refuses_def and_then_err by blast

lemma refuses_basic [http_rules]:
  "refuses rid (return_ok x)"
  "refusal rid r \<Longrightarrow> refuses rid (fail_with r)"
  "refusal rid r \<Longrightarrow> refuses rid (check b r)"
  "refusal rid r \<Longrightarrow> refuses rid (demand z r)"
  by (auto simp: refuses_def basic_handlers_err)

lemma refuses_lift [http_rules]: "(\<And>e. refusal rid (f e)) \<Longrightarrow> refuses rid (lift_result (map_sum f g v))"
  by (cases v) (auto simp: refuses_def basic_handlers_err)

lemma refuses_reading [http_rules]: "(\<And>s. refuses rid (h s)) \<Longrightarrow> refuses rid (reading h)"
  by (auto simp: refuses_def reading_def)

lemma refuses_components [http_rules]:
  "(\<And>e. refusal rid (f e)) \<Longrightarrow> refuses rid (on_apps f apps)"
  "(\<And>e. refusal rid (g e)) \<Longrightarrow> refuses rid (on_calendars g calendars)"
  "(\<And>e. refusal rid (h e)) \<Longrightarrow> refuses rid (on_credentials h credentials)"
  "(\<And>e. refusal rid (i e)) \<Longrightarrow> refuses rid (on_bookings i bookings)"
  "(\<And>e. refusal rid (j e)) \<Longrightarrow> refuses rid (on_auth j auth)"
  by (auto simp: refuses_def on_apps_def on_calendars_def on_credentials_def on_bookings_def on_auth_def
      split: prod.splits sum.splits)

lemma refuses_admit [http_rules]:
  "refusal rid a \<Longrightarrow> refusal rid b \<Longrightarrow> refusal rid d \<Longrightarrow> refuses rid (admit who policy a b d)"
  by (auto simp: admit_def refuses_def reading_def handler_err split: sum.splits option.splits)

text \<open>A table of error responses, all of them with one of the statuses.\<close>

lemma refusal_refuse_by [http_rules]:
  assumes "list_all (\<lambda>(_, status, _). status \<in> {400, 401, 403, 404, 409, 410, 500}) table"
  shows "refusal rid (refuse_by rid table e)"
proof (cases "map_of table e")
  case None
  then show ?thesis by (simp add: refuse_by_def refusal_internal)
next
  case (Some r)
  obtain status code message where r: "r = (status, code, message)" by (cases r)
  from Some have "(e, status, code, message) \<in> set table" unfolding r by (rule map_of_SomeD)
  with assms have "status \<in> {400, 401, 403, 404, 409, 410, 500}"
    by (fastforce simp: list_all_iff)
  with Some r show ?thesis by (simp add: refuse_by_def refusal_send_error)
qed

lemma answers_and_then [http_rules]:
  "refuses rid h \<Longrightarrow> (\<And>x. answers rid (f x)) \<Longrightarrow> answers rid (and_then h f)"
  unfolding answers_def refuses_def and_then_err and_then_ok by blast

lemma answers_return [http_rules]:
  "status \<in> {200, 201} \<Longrightarrow> data_body body \<Longrightarrow> answers rid (return_ok (send_json rid status body))"
  by (auto simp: answers_def refuses_def basic_handlers_ok basic_handlers_err answer_def send_json_def)

lemma answers_success [http_rules]: "status \<in> {200, 201} \<Longrightarrow> hc_rid c = rid \<Longrightarrow> answers rid (success c status data)"
  by (auto simp: success_def intro!: answers_return)

lemma answers_case [http_rules]: "(\<And>x y. answers rid (f x y)) \<Longrightarrow> answers rid (case z of (x, y) \<Rightarrow> f x y)"
  by (cases z) simp

lemma refusal_booking [http_rules]: "refusal rid (booking_refusal rid e)"
  by (cases e) (auto intro: http_rules)

lemma refusal_slot [http_rules]: "refusal rid (slot_refusal rid e)"
  by (cases e) (auto intro: http_rules)

lemma refusal_oauth_switch [http_rules]: "refusal rid (oauth_refusal rid e)"
  by (auto simp: oauth_refusal_def intro!: http_rules)

text \<open>The shared first and last parts.\<close>

lemma refuses_admit_key [http_rules]: "hc_rid c = rid \<Longrightarrow> refuses rid (admit_key c policy)"
  by (auto simp: admit_key_def intro!: http_rules)

lemma refuses_body [http_rules]: "hc_rid c = rid \<Longrightarrow> refuses rid (body_of c body)"
  by (auto simp: body_of_def intro!: http_rules)

lemma refuses_owned_request [http_rules]: "refusal rid r \<Longrightarrow> refuses rid (owned_request p r body)"
  by (auto simp: owned_request_def intro!: http_rules split: option.split)

lemma refuses_own_booking [http_rules]:
  "hc_rid c = rid \<Longrightarrow> refusal rid unknown \<Longrightarrow> refuses rid (own_booking c policy unknown denial missing uid)"
  by (auto simp: own_booking_def Let_def intro!: http_rules)

lemma answers_lifecycle [http_rules]: "hc_rid c = rid \<Longrightarrow> answers rid (lifecycle_response c result)"
  by (auto simp: lifecycle_response_def intro!: http_rules)

section \<open>Every handler answers or refuses\<close>

lemma handler_answers: "answers (hc_rid c) (handler_of e value c)"
proof (cases e)
  case Health
  then show ?thesis
    by (simp add: http_health_def answers_def refuses_def answer_def basic_handlers_ok basic_handlers_err)
qed (simp only: handler_of.simps http_me_def http_read_app_catalog_def http_read_app_installations_def
    http_read_app_install_intents_def http_create_install_intent_def http_read_external_auth_def
    http_mark_external_auth_def http_consume_external_auth_def http_preview_authorization_def
    http_preflight_callback_def http_exchange_provider_def http_complete_install_def
    http_activate_install_def http_read_install_progress_def http_read_calendar_connections_def
    http_read_calendar_catalog_def http_read_credential_metadata_def http_read_selected_calendars_def
    http_save_selected_calendar_def http_delete_selected_calendar_def http_read_destination_calendar_def
    http_save_destination_calendar_def http_read_slots_def http_create_booking_def http_read_booking_def
    http_cancel_booking_def http_reschedule_booking_def http_confirm_booking_def http_decline_booking_def
    http_oauth_client_def http_oauth_token_def http_platform_client_def Let_def;
    (intro http_rules; simp split: if_split)+)+

end
