(* ===== verification/HttpGates.thy ===== *)
theory HttpGates
  imports HttpRules
begin

text \<open>
  Who may do what over HTTP: the gate of every endpoint, what happens to a request that does not
  pass it, the shape of all responses, and the ownership rule of the endpoints of one booking.
\<close>

section \<open>Responses\<close>

text \<open>
  C28: every response has one of the documented shapes: a request that matches no route gets 404 or
  405 and changes nothing; any other response names the request's id (the client's header, or else
  the server's default) and is either data with status 200 or 201, or an error with a status of 400,
  401, 403, 404, 409, 410 or 500 whose body never carries another request id.
\<close>
theorem http_responses_wellformed:
  "case find_route (rq_method r) (rq_path r) of
     None \<Rightarrow> serve_http r t s = (unrouted (rq_path r), s) \<and> rs_status (unrouted (rq_path r)) \<in> {404, 405}
   | Some _ \<Rightarrow> (let rid = request_id_of s r; x = fst (serve_http r t s) in
       rs_request_id x = Some rid \<and> rs_content_type x \<in> {''application/json'', ''text/plain''} \<and>
       (rs_status x \<in> {200, 201} \<and> data_body (rs_body x) \<or>
        rs_status x \<in> {400, 401, 403, 404, 409, 410, 500} \<and> error_body rid (rs_body x)))"
proof (cases "find_route (rq_method r) (rq_path r)")
  case None
  then show ?thesis by (simp add: serve_http_def unrouted_def)
next
  case (Some ev)
  obtain e v where ev: "ev = (e, v)" by (cases ev)
  let ?c = "call_of s r t"
  have rid: "hc_rid ?c = request_id_of s r" by (simp add: call_of_def)
  obtain y u where y: "handler_of e v ?c s = (y, u)" by (cases "handler_of e v ?c s")
  note all = handler_answers [of ?c e v, unfolded answers_def refuses_def rid]
  have "case y of Inl x \<Rightarrow> refusal (request_id_of s r) x | Inr x \<Rightarrow> answer (request_id_of s r) x"
    using y conjunct1 [OF all] conjunct2 [OF all] by (cases y) (simp; blast)+
  with Some ev y show ?thesis
    by (cases y) (simp_all add: serve_http_def first_response_def Let_def refusal_def answer_def)
qed

section \<open>Gates\<close>

text \<open>Who has to call an endpoint, and the policy that has to allow the caller.\<close>

datatype gate = Public | ByKey policy | ByKeyOrToken policy | BySecret policy

fun gate_of :: "endpoint \<Rightarrow> gate" where
  "gate_of Health = Public"
| "gate_of ReadSlots = Public"
| "gate_of OAuthToken = Public"
| "gate_of Me = ByKey PolicyMeRead"
| "gate_of ReadAppCatalog = ByKey PolicyAppsRead"
| "gate_of ReadAppInstallations = ByKey PolicyAppInstallationsRead"
| "gate_of ReadAppInstallIntents = ByKey PolicyAppInstallIntentsRead"
| "gate_of CreateInstallIntent = ByKey PolicyAppsInstall"
| "gate_of ReadExternalAuth = ByKey PolicyAppInstallExternalAuthRead"
| "gate_of MarkExternalAuth = ByKey PolicyAppInstallIntentsHandoff"
| "gate_of ConsumeExternalAuth = ByKey PolicyAppInstallExternalAuthConsume"
| "gate_of PreviewAuthorization = ByKey PolicyAppInstallExternalAuthPreview"
| "gate_of PreflightCallback = ByKey PolicyAppInstallExternalAuthCallback"
| "gate_of ExchangeProvider = ByKey PolicyAppInstallProviderExchange"
| "gate_of CompleteInstall = ByKey PolicyAppInstallComplete"
| "gate_of ActivateInstall = ByKey PolicyAppInstallActivate"
| "gate_of ReadInstallProgress = ByKey PolicyAppInstallProgressRead"
| "gate_of ReadCalendarConnections = ByKey PolicyCalendarConnectionsRead"
| "gate_of ReadCalendarCatalog = ByKey PolicyCalendarsRead"
| "gate_of ReadCredentialMetadata = ByKey PolicyCredentialsRead"
| "gate_of ReadSelectedCalendars = ByKey PolicySelectedCalendarsRead"
| "gate_of SaveSelectedCalendar = ByKey PolicySelectedCalendarsWrite"
| "gate_of DeleteSelectedCalendar = ByKey PolicySelectedCalendarsWrite"
| "gate_of ReadDestinationCalendar = ByKey PolicyDestinationCalendarsRead"
| "gate_of SaveDestinationCalendar = ByKey PolicyDestinationCalendarsWrite"
| "gate_of CreateBooking = ByKeyOrToken PolicyBookingWrite"
| "gate_of ReadBooking = ByKeyOrToken PolicyBookingRead"
| "gate_of CancelBooking = ByKeyOrToken PolicyBookingWrite"
| "gate_of RescheduleBooking = ByKeyOrToken PolicyBookingWrite"
| "gate_of ConfirmBooking = ByKeyOrToken PolicyBookingHostAction"
| "gate_of DeclineBooking = ByKeyOrToken PolicyBookingHostAction"
| "gate_of OAuthClientMetadata = ByKey PolicyOAuth2Read"
| "gate_of PlatformClient = BySecret PolicyPlatformClientRead"

definition caller_by_secret ::
    "string \<Rightarrow> http_call \<Rightarrow> ('a, 'p, 'b, 'k, 'c) server \<Rightarrow> auth_error + principal option" where
  "caller_by_secret client_id c s =
     map_sum id (map_option platform_client_principal) (verify_platform_client (sv_sha s) (sv_auth s) client_id
       (header_get (hc_request c) ''x-cal-client-id'') (header_get (hc_request c) ''x-cal-secret-key''))"

definition allowed_caller :: "policy \<Rightarrow> auth_error + principal option \<Rightarrow> bool" where
  "allowed_caller policy who = (case who of Inr (Some p) \<Rightarrow> d_allowed (authorize p policy) | _ \<Rightarrow> False)"

fun passes :: "gate \<Rightarrow> string \<Rightarrow> http_call \<Rightarrow> ('a, 'p, 'b, 'k, 'c) server \<Rightarrow> bool" where
  "passes Public value c s = True"
| "passes (ByKey policy) value c s = allowed_caller policy (caller_by_key c s)"
| "passes (ByKeyOrToken policy) value c s = allowed_caller policy (caller_by_key_or_token c s)"
| "passes (BySecret policy) value c s = allowed_caller policy (caller_by_secret value c s)"

definition denied :: "response \<Rightarrow> bool" where
  "denied x \<longleftrightarrow> rs_status x \<in> {401, 403, 500} \<and> \<not> data_body (rs_body x)"

definition turned_away :: "('a, 'p, 'b, 'k, 'c, 'r) http_handler \<Rightarrow> ('a, 'p, 'b, 'k, 'c) server \<Rightarrow> bool" where
  "turned_away h s \<longleftrightarrow> (\<exists>x. h s = (Inl x, s) \<and> denied x)"

lemma turned_away_and_then: "turned_away h s \<Longrightarrow> turned_away (and_then h f) s"
  by (auto simp: turned_away_def and_then_err)

lemma denied_errors [simp]:
  "denied (send_error rid status code message b) \<longleftrightarrow> status \<in> {401, 403, 500}"
  "denied (internal_error rid)"
  by (auto simp: denied_def send_error_def send_json_def internal_error_def)

lemma turned_away_admit:
  assumes "\<not> allowed_caller policy (who s)" "denied a" "denied b" "denied d"
  shows "turned_away (admit who policy a b d) s"
  using assms by (auto simp: turned_away_def admit_def allowed_caller_def reading_def handler_err
      split: sum.splits option.splits)

lemma turned_away_key: "\<not> allowed_caller policy (caller_by_key c s) \<Longrightarrow> turned_away (admit_key c policy) s"
  unfolding admit_key_def by (rule turned_away_admit) simp_all

lemma turned_away_own_booking:
  "\<not> allowed_caller policy (caller_by_key_or_token c s) \<Longrightarrow> denied unknown \<Longrightarrow>
   turned_away (own_booking c policy unknown denial missing uid) s"
  unfolding own_booking_def Let_def by (intro turned_away_and_then turned_away_admit) simp_all

lemma turned_away_secret:
  assumes "\<not> allowed_caller PolicyPlatformClientRead (caller_by_secret value c s)"
  shows "turned_away (http_platform_client value c) s"
proof -
  define w where "w = verify_platform_client (sv_sha s) (sv_auth s) value
    (header_get (hc_request c) ''x-cal-client-id'') (header_get (hc_request c) ''x-cal-secret-key'')"
  consider e where "w = Inl e" | "w = Inr None" | pc where "w = Inr (Some pc)"
    by (cases w) (auto intro: option.exhaust)
  then show ?thesis
    using assms
    by cases (auto simp: turned_away_def http_platform_client_def Let_def caller_by_secret_def
        allowed_caller_def reading_def basic_handlers_run and_then_def lift_result_def demand_def check_def
        w_def [symmetric])
qed

lemma handler_turns_away: "\<not> passes (gate_of e) value c s \<Longrightarrow> turned_away (handler_of e value c) s"
  by (cases e; simp only: handler_of.simps gate_of.simps passes.simps simp_thms http_me_def
      http_read_app_catalog_def http_read_app_installations_def http_read_app_install_intents_def
      http_create_install_intent_def http_read_external_auth_def http_mark_external_auth_def
      http_consume_external_auth_def http_preview_authorization_def http_preflight_callback_def
      http_exchange_provider_def http_complete_install_def http_activate_install_def
      http_read_install_progress_def http_read_calendar_connections_def http_read_calendar_catalog_def
      http_read_credential_metadata_def http_read_selected_calendars_def http_save_selected_calendar_def
      http_delete_selected_calendar_def http_read_destination_calendar_def
      http_save_destination_calendar_def http_create_booking_def http_read_booking_def
      http_cancel_booking_def http_reschedule_booking_def http_confirm_booking_def
      http_decline_booking_def http_oauth_client_def Let_def;
      (rule turned_away_secret, assumption)?;
      (intro turned_away_and_then turned_away_key turned_away_admit turned_away_own_booking; simp)?)

text \<open>
  C3: nothing happens for a caller who may not: if a request does not pass the gate of its endpoint
  - no valid API key (or, for bookings, access token; for platform clients, secret), or a principal
  without the permission of the endpoint's policy - the answer is an error with status 401, 403 or
  500 and no data, and the server is exactly as before.
\<close>
theorem http_denied_inert:
  assumes "find_route (rq_method r) (rq_path r) = Some (e, value)"
    and "\<not> passes (gate_of e) value (call_of s r t) s"
  shows "snd (serve_http r t s) = s \<and> rs_status (fst (serve_http r t s)) \<in> {401, 403, 500} \<and>
    \<not> data_body (rs_body (fst (serve_http r t s)))"
  using handler_turns_away [OF assms(2)] assms(1)
  by (auto simp: serve_http_def first_response_def turned_away_def denied_def)

section \<open>Bookings are guarded by their owners and hosts\<close>

definition booking_endpoint :: "endpoint \<Rightarrow> bool" where
  "booking_endpoint e \<longleftrightarrow> e \<in> {ReadBooking, CancelBooking, RescheduleBooking, ConfirmBooking, DeclineBooking}"

definition responsible :: "endpoint \<Rightarrow> principal \<Rightarrow> booking \<Rightarrow> bool" where
  "responsible e p b \<longleftrightarrow>
     (if e \<in> {ConfirmBooking, DeclineBooking} then p_id p \<in> set (host_user_ids (resource_of b))
      else p_id p = owner_user_id (resource_of b))"

lemma own_booking_err:
  assumes "own_booking c policy unknown denial missing uid s = (Inl x, t)"
  shows "sv_bookings t \<in> {sv_bookings s, snd (find_booking (hc_rid c) uid (sv_bookings s))}"
  using assms
  by (auto simp: own_booking_def Let_def admit_def reading_def handler_err handler_ok on_bookings_def
      read_booking_def split: sum.splits option.splits prod.splits)

lemma own_booking_ok:
  assumes "own_booking c policy unknown denial missing uid s = (Inr b, t)"
  shows "\<exists>p. caller_by_key_or_token c s = Inr (Some p) \<and> allows p policy (resource_of b) \<and>
    find_booking (hc_rid c) uid (sv_bookings s) = (Inr (Some b), sv_bookings t)"
  using assms
  by (auto simp: own_booking_def Let_def admit_def reading_def handler_ok basic_handlers_ok on_bookings_def
      read_booking_def split: sum.splits option.splits prod.splits)

lemma allows_responsible:
  assumes "allows p policy (resource_of b)" "gate_of e = ByKeyOrToken policy" "booking_endpoint e"
  shows "responsible e p b"
  using assms
  by (auto simp: booking_endpoint_def responsible_def allows_def authorize_booking_def Let_def split: if_splits)

lemma booking_handler:
  assumes "booking_endpoint e"
  obtains policy unknown denial missing f where "gate_of e = ByKeyOrToken policy"
    "handler_of e uid c s = and_then (own_booking c policy unknown denial missing uid) f s"
    "refusal (hc_rid c) unknown"
proof -
  from assms consider "e = ReadBooking" | "e = CancelBooking" | "e = RescheduleBooking"
    | "e = ConfirmBooking" | "e = DeclineBooking"
    unfolding booking_endpoint_def by blast
  then show thesis
  proof cases
    case 1
    show thesis
      by (rule that, unfold 1 handler_of.simps http_read_booking_def, rule gate_of.simps, rule refl)
        (simp add: refusal_send_error)
  next
    case 2
    show thesis
      by (rule that, unfold 2 handler_of.simps http_cancel_booking_def, rule gate_of.simps, rule refl)
        (simp add: refusal_send_error)
  next
    case 3
    show thesis
      by (rule that, unfold 3 handler_of.simps http_reschedule_booking_def, rule gate_of.simps, rule refl)
        (simp add: refusal_send_error)
  next
    case 4
    show thesis
      by (rule that, unfold 4 handler_of.simps http_confirm_booking_def, rule gate_of.simps, rule refl)
        (simp add: refusal_send_error)
  next
    case 5
    show thesis
      by (rule that, unfold 5 handler_of.simps http_decline_booking_def, rule gate_of.simps, rule refl)
        (simp add: refusal_send_error)
  qed
qed

text \<open>
  C11: the endpoints of one booking answer, and change a booking, only for the people of the booking:
  if a request to read, cancel, reschedule, confirm or decline is answered with data, or leaves the
  bookings in any state but the one before or the one after looking the booking up, then the booking
  exists, the caller is known by an API key or an access token, has the permission of the endpoint's
  policy, and is the booking's owner, or one of its hosts to confirm or decline it.
\<close>
theorem http_booking_guarded:
  assumes "find_route (rq_method r) (rq_path r) = Some (e, uid)" and "booking_endpoint e"
    and "serve_http r t s = (x, s')"
    and "data_body (rs_body x) \<or>
      sv_bookings s' \<notin> {sv_bookings s, snd (find_booking (request_id_of s r) uid (sv_bookings s))}"
  shows "\<exists>p b. caller_by_key_or_token (call_of s r t) s = Inr (Some p) \<and>
    passes (gate_of e) uid (call_of s r t) s \<and> responsible e p b \<and>
    fst (find_booking (request_id_of s r) uid (sv_bookings s)) = Inr (Some b)"
proof -
  let ?c = "call_of s r t"
  have rid: "hc_rid ?c = request_id_of s r" by (simp add: call_of_def)
  obtain policy unknown denial missing f where gate: "gate_of e = ByKeyOrToken policy"
    and h: "handler_of e uid ?c s = and_then (own_booking ?c policy unknown denial missing uid) f s"
    and u: "refusal (hc_rid ?c) unknown"
    by (rule booking_handler [OF assms(2), of uid ?c s])
  have run: "first_response (handler_of e uid ?c) s = (x, s')"
    using assms(1,3) by (simp add: serve_http_def)
  obtain y q where y: "own_booking ?c policy unknown denial missing uid s = (y, q)"
    by (cases "own_booking ?c policy unknown denial missing uid s")
  show ?thesis
  proof (cases y)
    case (Inl z)
    with y have no: "own_booking ?c policy unknown denial missing uid s = (Inl z, q)" by simp
    then have "x = z" "s' = q" using run no h by (simp_all add: first_response_def and_then_def)
    moreover have "refusal (hc_rid ?c) z"
      using refuses_own_booking [OF refl u] no unfolding refuses_def by blast
    then have "\<not> data_body (rs_body z)" by (cases "rs_body z") (simp_all add: refusal_def)
    ultimately show ?thesis using own_booking_err [OF no] assms(4) rid by simp
  next
    case (Inr b)
    with own_booking_ok y obtain p where p: "caller_by_key_or_token ?c s = Inr (Some p)"
      "allows p policy (resource_of b)"
      "find_booking (hc_rid ?c) uid (sv_bookings s) = (Inr (Some b), sv_bookings q)" by blast
    then have "passes (gate_of e) uid ?c s"
      by (auto simp: gate allowed_caller_def allows_def authorize_booking_def Let_def split: if_splits)
    with p allows_responsible [OF p(2) gate assms(2)] show ?thesis by (auto simp: rid)
  qed
qed

end
