(* ===== verification/HttpEffects.thy ===== *)
theory HttpEffects
  imports HttpGates AppsProps CalendarsClient BookingProps
begin

text \<open>
  What a request does to the server: a handler calls at most the operations of one component, for
  the user who calls. \<open>effect h R\<close> says that a run of \<open>h\<close> leaves the server as it is or related by \<open>R\<close>.
\<close>

section \<open>Effects of handlers\<close>

definition effect ::
    "('a, 'p, 'b, 'k, 'c, 'r) http_handler \<Rightarrow>
     (('a, 'p, 'b, 'k, 'c) server \<Rightarrow> ('a, 'p, 'b, 'k, 'c) server \<Rightarrow> bool) \<Rightarrow> bool" where
  "effect h R \<longleftrightarrow> (\<forall>s y t. h s = (y, t) \<longrightarrow> t = s \<or> R s t)"

definition static :: "('a, 'p, 'b, 'k, 'c, 'r) http_handler \<Rightarrow> bool" where
  "static h \<longleftrightarrow> (\<forall>s y t. h s = (y, t) \<longrightarrow> t = s)"

named_theorems effects \<open>effects of the handler combinators\<close>

lemma static_rules [effects]:
  "static (return_ok x)" "static (fail_with e)" "static (check b e)" "static (demand z e)"
  "static (lift_result v)" "static (success c status data)" "static (body_of c body)"
  by (auto simp: static_def return_ok_def fail_with_def check_def demand_def lift_result_def success_def
      body_of_def split: option.splits)

lemma static_and_then [effects]: "static h \<Longrightarrow> (\<And>x. static (f x)) \<Longrightarrow> static (and_then h f)"
  unfolding static_def and_then_def by (fastforce split: prod.splits sum.splits)

lemma static_reading [effects]: "(\<And>s. static (h s)) \<Longrightarrow> static (reading h)"
  by (auto simp: static_def reading_def)

lemma static_admit [effects]: "static (admit who policy a b d)" "static (admit_key c policy)"
  unfolding admit_key_def admit_def
  by (auto intro!: effects split: sum.splits option.splits)

lemma static_lifecycle [effects]: "static (lifecycle_response c r)"
  unfolding lifecycle_response_def by (intro effects)

lemma static_owned_request [effects]: "static (owned_request p x body)"
  unfolding owned_request_def by (auto intro!: effects split: option.splits)

lemma static_case [effects]: "(\<And>x y. static (f x y)) \<Longrightarrow> static (case z of (x, y) \<Rightarrow> f x y)"
  by (cases z) simp

lemma effect_static: "static h \<Longrightarrow> effect h R"
  by (auto simp: static_def effect_def)

lemma effect_mono: "effect h R \<Longrightarrow> (\<And>s t. R s t \<Longrightarrow> Q s t) \<Longrightarrow> effect h Q"
  unfolding effect_def by blast

text \<open>The state changes in the second part, or in the first.\<close>

lemma effect_later:
  assumes "static h" "\<And>x. effect (f x) R"
  shows "effect (and_then h f) R"
  unfolding effect_def
proof (intro allI impI)
  fix s y t
  assume run: "and_then h f s = (y, t)"
  obtain q u where q: "h s = (q, u)" by (cases "h s")
  with assms(1) have u: "u = s" unfolding static_def by blast
  show "t = s \<or> R s t"
  proof (cases q)
    case (Inl e)
    with run q u show ?thesis by (simp add: and_then_def)
  next
    case (Inr x)
    with run q u have "f x s = (y, t)" by (simp add: and_then_def)
    with assms(2) show ?thesis unfolding effect_def by blast
  qed
qed

lemma effect_first:
  assumes "effect h R" "\<And>x. static (f x)"
  shows "effect (and_then h f) R"
  unfolding effect_def
proof (intro allI impI)
  fix s y t
  assume run: "and_then h f s = (y, t)"
  obtain q u where q: "h s = (q, u)" by (cases "h s")
  with assms(1) have u: "u = s \<or> R s u" unfolding effect_def by blast
  have "t = u"
  proof (cases q)
    case (Inl e)
    with run q show ?thesis by (simp add: and_then_def)
  next
    case (Inr x)
    with run q have "f x u = (y, t)" by (simp add: and_then_def)
    with assms(2) show ?thesis unfolding static_def by blast
  qed
  with u show "t = s \<or> R s t" by simp
qed

text \<open>What is done after the gate is done for the caller.\<close>

definition for_caller ::
    "(('a, 'p, 'b, 'k, 'c) server \<Rightarrow> auth_error + principal option) \<Rightarrow>
     (principal \<Rightarrow> ('a, 'p, 'b, 'k, 'c) server \<Rightarrow> ('a, 'p, 'b, 'k, 'c) server \<Rightarrow> bool) \<Rightarrow>
     ('a, 'p, 'b, 'k, 'c) server \<Rightarrow> ('a, 'p, 'b, 'k, 'c) server \<Rightarrow> bool" where
  "for_caller who R s t \<longleftrightarrow> (\<exists>p. who s = Inr (Some p) \<and> R p s t)"

lemma admit_caller:
  "admit who policy a b d s = (Inr p, t) \<Longrightarrow> who s = Inr (Some p) \<and> t = s"
  by (auto simp: admit_def reading_def handler_ok split: sum.splits option.splits)

lemma effect_admit:
  assumes "\<And>p. effect (f p) (R p)"
  shows "effect (and_then (admit who policy a b d) f) (for_caller who R)"
  unfolding effect_def
proof (intro allI impI)
  fix s y t
  assume run: "and_then (admit who policy a b d) f s = (y, t)"
  obtain q u where q: "admit who policy a b d s = (q, u)" by (cases "admit who policy a b d s")
  have u: "u = s" using static_admit(1) q unfolding static_def by blast
  show "t = s \<or> for_caller who R s t"
  proof (cases q)
    case (Inl e)
    with run q u show ?thesis by (simp add: and_then_def)
  next
    case (Inr p)
    with run q u have "f p s = (y, t)" by (simp add: and_then_def)
    moreover have "who s = Inr (Some p)" using admit_caller q Inr by blast
    ultimately show ?thesis using assms [of p] unfolding effect_def for_caller_def by blast
  qed
qed

lemma effect_admit_key:
  "(\<And>p. effect (f p) (R p)) \<Longrightarrow> effect (and_then (admit_key c policy) f) (for_caller (caller_by_key c) R)"
  unfolding admit_key_def by (rule effect_admit)

section \<open>The app store\<close>

text \<open>The random references a request may draw are new in the server.\<close>

definition fresh_tick :: "http_tick \<Rightarrow> ('a, 'p, 'b, 'k, 'c) server \<Rightarrow> bool" where
  "fresh_tick t s \<longleftrightarrow>
     gm_get (st_intents (sv_apps s)) (new_install_intent_ref (tk_entropy t)) = None \<and>
     gm_get (st_sessions (sv_apps s)) (new_handoff_state_ref (tk_entropy t)) = None \<and>
     list_all (\<lambda>p. cp_ref p \<noteq> new_callback_preflight_ref (tk_entropy t)) (gm_values (st_preflights (sv_apps s)))"

definition apps_move ::
    "http_tick \<Rightarrow> principal \<Rightarrow> ('a, 'p, 'b, 'k, 'c) server \<Rightarrow> ('a, 'p, 'b, 'k, 'c) server \<Rightarrow> bool" where
  "apps_move t p s s' \<longleftrightarrow>
     (\<exists>op. s' = s\<lparr>sv_apps := snd (run_apps_op op (sv_apps s))\<rparr> \<and>
       AppsProps.op_user op (sv_apps s) \<in> {None, Some (p_id p)} \<and> (fresh_tick t s \<longrightarrow> fresh_op op (sv_apps s)))"

lemma snd_outcome [simp]: "snd (outcome m) = snd m"
  by (auto simp: outcome_def split: prod.splits sum.splits)

lemma effect_on_apps:
  fixes call :: "('p, 'r) apps_handler"
  assumes "\<And>a. snd (call a) = snd (run_apps_op op a)"
    and "\<And>a :: 'p apps_store. AppsProps.op_user op a \<in> {None, Some (p_id p)}"
    and "\<And>s :: ('a, 'p, 'b, 'k, 'c) server. fresh_tick t s \<Longrightarrow> fresh_op op (sv_apps s)"
  shows "effect (on_apps refuse call :: ('a, 'p, 'b, 'k, 'c, 'r) http_handler) (apps_move t p)"
proof -
  have "apps_move t p s s'" if "on_apps refuse call s = (y, s')" for s :: "('a, 'p, 'b, 'k, 'c) server" and y s'
  proof -
    have "s' = s\<lparr>sv_apps := snd (run_apps_op op (sv_apps s))\<rparr>"
      using that assms(1) [of "sv_apps s"] by (auto simp: on_apps_def split: prod.splits sum.splits)
    with assms(2) [of "sv_apps s"] assms(3) [of s] show ?thesis unfolding apps_move_def by (intro exI conjI impI)
  qed
  then show ?thesis unfolding effect_def by blast
qed

lemma fresh_tickD:
  assumes "fresh_tick t s"
  shows "fresh_op (OpCreateIntent user slug now (tk_entropy t)) (sv_apps s)"
    and "fresh_op (OpReadDescriptor user ref now (tk_entropy t)) (sv_apps s)"
    and "fresh_op (OpPreflight user ref req now (tk_entropy t)) (sv_apps s)"
  using assms by (simp_all only: fresh_tick_def fresh_op.simps)

lemma apps_effects:
  "effect (on_apps f read_app_catalog) (apps_move t p)"
  "effect (on_apps f (read_app_installations (p_id p))) (apps_move t p)"
  "effect (on_apps f (read_install_intents (p_id p))) (apps_move t p)"
  "effect (on_apps f (create_install_intent (p_id p) slug now (tk_entropy t))) (apps_move t p)"
  "effect (on_apps f (read_auth_descriptor (p_id p) ref now (tk_entropy t))) (apps_move t p)"
  "effect (on_apps f (mark_intent_requires_auth (p_id p) ref now)) (apps_move t p)"
  "effect (on_apps f (consume_session (p_id p) ref st now now2)) (apps_move t p)"
  "effect (on_apps f (preview_authorization (p_id p) ref st now now2 now3 (tk_entropy t))) (apps_move t p)"
  "effect (on_apps f (preflight_callback (p_id p) ref preq now (tk_entropy t))) (apps_move t p)"
  "effect (on_apps f (exchange_provider (p_id p) ref xreq now (tk_entropy t))) (apps_move t p)"
  "effect (on_apps f (complete_install (p_id p) ref xref now (tk_entropy t))) (apps_move t p)"
  "effect (on_apps f (activate_installation (p_id p) ref xref now (tk_entropy t))) (apps_move t p)"
  "effect (on_apps f (read_install_progress (p_id p) ref now)) (apps_move t p)"
proof -
  note rule = effect_on_apps [where t = t and p = p]
  show "effect (on_apps f read_app_catalog) (apps_move t p)"
    by (rule rule [where op = OpReadCatalog]) simp_all
  show "effect (on_apps f (read_app_installations (p_id p))) (apps_move t p)"
    by (rule rule [where op = "OpReadInstallations (p_id p)"]) simp_all
  show "effect (on_apps f (read_install_intents (p_id p))) (apps_move t p)"
    by (rule rule [where op = "OpReadIntents (p_id p)"]) simp_all
  show "effect (on_apps f (create_install_intent (p_id p) slug now (tk_entropy t))) (apps_move t p)"
    by (rule rule [where op = "OpCreateIntent (p_id p) slug now (tk_entropy t)"]) (simp_all add: fresh_tickD del: fresh_op.simps)
  show "effect (on_apps f (read_auth_descriptor (p_id p) ref now (tk_entropy t))) (apps_move t p)"
    by (rule rule [where op = "OpReadDescriptor (p_id p) ref now (tk_entropy t)"]) (simp_all add: fresh_tickD del: fresh_op.simps)
  show "effect (on_apps f (mark_intent_requires_auth (p_id p) ref now)) (apps_move t p)"
    by (rule rule [where op = "OpMarkIntent (p_id p) ref now"]) simp_all
  show "effect (on_apps f (consume_session (p_id p) ref st now now2)) (apps_move t p)"
    by (rule rule [where op = "OpConsume (p_id p) ref st now now2"]) simp_all
  show "effect (on_apps f (preview_authorization (p_id p) ref st now now2 now3 (tk_entropy t))) (apps_move t p)"
    by (rule rule [where op = "OpPreview (p_id p) ref st now now2 now3 (tk_entropy t)"]) simp_all
  show "effect (on_apps f (preflight_callback (p_id p) ref preq now (tk_entropy t))) (apps_move t p)"
    by (rule rule [where op = "OpPreflight (p_id p) ref preq now (tk_entropy t)"]) (simp_all add: fresh_tickD del: fresh_op.simps)
  show "effect (on_apps f (exchange_provider (p_id p) ref xreq now (tk_entropy t))) (apps_move t p)"
    by (rule rule [where op = "OpExchange (p_id p) ref xreq now (tk_entropy t)"]) simp_all
  show "effect (on_apps f (complete_install (p_id p) ref xref now (tk_entropy t))) (apps_move t p)"
    by (rule rule [where op = "OpComplete (p_id p) ref xref now (tk_entropy t)"]) simp_all
  show "effect (on_apps f (activate_installation (p_id p) ref xref now (tk_entropy t))) (apps_move t p)"
    by (rule rule [where op = "OpActivate (p_id p) ref xref now (tk_entropy t)"]) simp_all
  show "effect (on_apps f (read_install_progress (p_id p) ref now)) (apps_move t p)"
    by (rule rule [where op = "OpReadProgress (p_id p) ref now"]) simp_all
qed

section \<open>Calendars, credentials and grants\<close>

fun local_op :: "calendar_op \<Rightarrow> bool" where
  "local_op (CalSync user) = False"
| "local_op (CalRefresh user now) = False"
| "local_op _ = True"

definition calendars_move ::
    "principal \<Rightarrow> ('a, 'p, 'b, 'k, 'c) server \<Rightarrow> ('a, 'p, 'b, 'k, 'c) server \<Rightarrow> bool" where
  "calendars_move p s s' \<longleftrightarrow>
     (\<exists>op. s' = s\<lparr>sv_calendars := step_calendars op (sv_calendars s)\<rparr> \<and> local_op op \<and>
       CalendarsClient.op_user op = p_id p)"

definition credentials_move ::
    "principal \<Rightarrow> ('a, 'p, 'b, 'k, 'c) server \<Rightarrow> ('a, 'p, 'b, 'k, 'c) server \<Rightarrow> bool" where
  "credentials_move p s s' \<longleftrightarrow>
     s' = s\<lparr>sv_credentials := snd (read_credential_metadata (p_id p) (sv_credentials s))\<rparr>"

definition auth_move :: "http_call \<Rightarrow> ('a, 'p, 'b, 'k, 'c) server \<Rightarrow> ('a, 'p, 'b, 'k, 'c) server \<Rightarrow> bool" where
  "auth_move c s s' \<longleftrightarrow> (\<exists>req. decode_token_request (hc_request c) = Some req \<and>
     s' = s\<lparr>sv_auth := snd (exchange_oauth_token req (tk_now1 (hc_tick c)) (tk_draw1 (hc_tick c))
       (tk_draw2 (hc_tick c)) (sv_auth s))\<rparr>)"

lemma effect_on_calendars:
  assumes "\<And>k. snd (call k) = step_calendars op k" "local_op op" "CalendarsClient.op_user op = p_id p"
  shows "effect (on_calendars refuse call) (calendars_move p)"
proof -
  have "calendars_move p s s'" if "on_calendars refuse call s = (y, s')" for s y s'
  proof -
    have "s' = s\<lparr>sv_calendars := step_calendars op (sv_calendars s)\<rparr>"
      using that assms(1) [of "sv_calendars s"]
      by (auto simp: on_calendars_def split: prod.splits sum.splits)
    with assms(2,3) show ?thesis unfolding calendars_move_def by (intro exI conjI)
  qed
  then show ?thesis unfolding effect_def by blast
qed

lemma calendars_effects:
  "effect (on_calendars f (read_calendar_connections (p_id p))) (calendars_move p)"
  "effect (on_calendars f (read_catalog_calendars (p_id p))) (calendars_move p)"
  "effect (on_calendars f (read_selected_calendars (p_id p))) (calendars_move p)"
  "effect (on_calendars f (save_selected_calendar (p_id p) ref)) (calendars_move p)"
  "effect (on_calendars f (delete_selected_calendar (p_id p) ref)) (calendars_move p)"
  "effect (on_calendars f (read_destination_calendar (p_id p))) (calendars_move p)"
  "effect (on_calendars f (set_destination_calendar (p_id p) ref)) (calendars_move p)"
  by (rule effect_on_calendars [where op = "CalReadConnections (p_id p)"]
      effect_on_calendars [where op = "CalReadCatalog (p_id p)"]
      effect_on_calendars [where op = "CalReadSelected (p_id p)"]
      effect_on_calendars [where op = "CalSave (p_id p) ref"]
      effect_on_calendars [where op = "CalDelete (p_id p) ref"]
      effect_on_calendars [where op = "CalReadDestination (p_id p)"]
      effect_on_calendars [where op = "CalSetDestination (p_id p) ref"]; simp; fail)+

lemma credentials_effect:
  "effect (on_credentials f (read_credential_metadata (p_id p))) (credentials_move p)"
  by (auto simp: effect_def credentials_move_def on_credentials_def split: prod.splits sum.splits)

lemma auth_effect:
  "decode_token_request (hc_request c) = Some req \<Longrightarrow>
   effect (on_auth f (exchange_oauth_token req (tk_now1 (hc_tick c)) (tk_draw1 (hc_tick c)) (tk_draw2 (hc_tick c))))
     (auth_move c)"
  by (auto simp: effect_def auth_move_def on_auth_def split: prod.splits sum.splits)

lemma effect_demand: "(\<And>x. v = Some x \<Longrightarrow> effect (f x) R) \<Longrightarrow> effect (and_then (demand v e) f) R"
  by (cases v) (auto simp: effect_def demand_def and_then_def return_ok_def fail_with_def)

end
