(* ===== verification/HttpIsolation.thy ===== *)
theory HttpIsolation
  imports HttpEffects
begin

text \<open>
  A server without a database, as \<open>internal/httpapi\<close> runs it over any requests: what it keeps, and
  that a request changes nothing of any user but its caller.
\<close>

section \<open>The part of a user\<close>

text \<open>The calendars of a user in a store without repository.\<close>

definition calendar_user where
  "calendar_user w s = (cal_connections s w, cal_catalog s w, cal_selected s w, cal_destination s w)"

definition confined :: "int \<Rightarrow> ('d, 'r) calendar_handler \<Rightarrow> bool" where
  "confined user h \<longleftrightarrow> (\<forall>s y t. cal_repo s = None \<longrightarrow> h s = (y, t) \<longrightarrow>
     cal_repo t = None \<and> (\<forall>w. w \<noteq> user \<longrightarrow> calendar_user w t = calendar_user w s))"

named_theorems confinement \<open>steps that stay within a user's calendars\<close>

lemma confined_basic [confinement]:
  "confined user (return_ok x)" "confined user (fail_with e)" "confined user (check b e)"
  "confined user (demand z e)" "confined user (lift_result v)"
  by (auto simp: confined_def return_ok_def fail_with_def check_def demand_def lift_result_def split: option.splits)

lemma confined_and_then [confinement]:
  assumes "confined user h" "\<And>x. confined user (f x)"
  shows "confined user (and_then h f)"
  unfolding confined_def
proof (intro allI impI)
  fix s y t
  assume s: "cal_repo s = None" and run: "and_then h f s = (y, t)"
  obtain q u where q: "h s = (q, u)" by (cases "h s")
  with assms(1) s have u: "cal_repo u = None" "\<forall>w. w \<noteq> user \<longrightarrow> calendar_user w u = calendar_user w s"
    unfolding confined_def by blast+
  show "cal_repo t = None \<and> (\<forall>w. w \<noteq> user \<longrightarrow> calendar_user w t = calendar_user w s)"
  proof (cases q)
    case (Inl e)
    with run q u show ?thesis by (simp add: and_then_def)
  next
    case (Inr x)
    with run q have "f x u = (y, t)" by (simp add: and_then_def)
    with assms(2) [of x] u show ?thesis unfolding confined_def by metis
  qed
qed

lemma confined_reading [confinement]:
  "(\<And>s. cal_repo s = None \<Longrightarrow> confined user (f s)) \<Longrightarrow> confined user (reading f)"
  unfolding confined_def reading_def by blast

lemma confined_updates [confinement]:
  "confined user (calendar_update (set_selected user items) x)"
  "confined user (calendar_update (\<lambda>s. set_selected user (f s) s) x)"
  "confined user (calendar_update (clear_destination user) x)"
  "confined user (calendar_update (set_destination user ref) x)"
  "confined user (load_calendar_fixtures user)"
  by (auto simp: confined_def calendar_update_def set_selected_def clear_destination_def set_destination_def
      calendar_user_def load_calendar_fixtures_def Let_def split: if_splits option.splits)

lemma confined_loaded [confinement]: "confined user (ensure_calendars_loaded user)"
  unfolding ensure_calendars_loaded_def
  by (rule confinement) (auto intro: confinement split: option.split)

lemma confined_remove [confinement]: "confined user (remove_selected user ref result)"
  unfolding remove_selected_def Let_def by (intro confinement) (simp add: confinement)

lemma confined_operations:
  "confined user (read_calendar_connections user)" "confined user (read_catalog_calendars user)"
  "confined user (read_selected_calendars user)" "confined user (save_selected_calendar user ref)"
  "confined user (delete_selected_calendar user ref)" "confined user (read_destination_calendar user)"
  "confined user (set_destination_calendar user ref)"
  unfolding read_calendar_connections_def read_catalog_calendars_def read_selected_calendars_def
    save_selected_calendar_def delete_selected_calendar_def read_destination_calendar_def
    set_destination_calendar_def Let_def
  by (intro confinement; auto intro!: confinement split: option.split)+

lemma confined_run:
  "confined user h \<Longrightarrow> cal_repo s = None \<Longrightarrow>
   cal_repo (snd (h s)) = None \<and> (\<forall>w. w \<noteq> user \<longrightarrow> calendar_user w (snd (h s)) = calendar_user w s)"
  unfolding confined_def by (metis surjective_pairing)

lemma local_step_confined:
  assumes "cal_repo s = None" "local_op op"
  shows "cal_repo (step_calendars op s) = None \<and>
    (\<forall>w. w \<noteq> CalendarsClient.op_user op \<longrightarrow> calendar_user w (step_calendars op s) = calendar_user w s)"
  using assms by (cases op) (simp_all add: confined_run [OF confined_operations(1)]
      confined_run [OF confined_operations(2)] confined_run [OF confined_operations(3)]
      confined_run [OF confined_operations(4)] confined_run [OF confined_operations(5)]
      confined_run [OF confined_operations(6)] confined_run [OF confined_operations(7)])

section \<open>The bookings\<close>

text \<open>
  Without a repository every booking belongs to the fixture owner, who is also its host: a create
  request for another event type is not valid, and for the fixture event type the owner is set.
\<close>

definition owned :: "'b booking_store \<Rightarrow> bool" where
  "owned s \<longleftrightarrow> bs_repo s = None \<and>
     (\<forall>uid b. bs_bookings s uid = Some b \<longrightarrow> b_owner b = fixture_owner_user_id \<and>
        b_hosts b = Some [fixture_owner_user_id])"

lemma owned_resource: "owned s \<Longrightarrow> bs_bookings s uid = Some b \<Longrightarrow> resource_of b = fixture_resource"
  by (simp add: owned_def resource_of_def)

lemma owned_put:
  "owned s \<Longrightarrow> b_owner b = fixture_owner_user_id \<Longrightarrow> b_hosts b = Some [fixture_owner_user_id] \<Longrightarrow>
   owned (s\<lparr>bs_bookings := (bs_bookings s)(uid \<mapsto> b)\<rparr>)"
  by (simp add: owned_def)

lemma fixture_owned:
  "fixture_by_uid rid uid = Some b \<Longrightarrow> b_owner b = fixture_owner_user_id \<and> b_hosts b = Some [fixture_owner_user_id]"
  by (auto simp: fixture_by_uid_def pending_fixture_booking_def override_int_def override_ref_def split: if_splits)

lemma changed_owned:
  assumes "b_owner b = fixture_owner_user_id" "b_hosts b = Some [fixture_owner_user_id]"
  shows "b_owner (relabelled rid b status at) = fixture_owner_user_id"
    "b_hosts (relabelled rid b status at) = Some [fixture_owner_user_id]"
    "b_owner (moved rid b start end_at) = fixture_owner_user_id"
    "b_hosts (moved rid b start end_at) = Some [fixture_owner_user_id]"
  using assms by (simp_all add: relabelled_fields moved_fields)

lemma owned_find:
  assumes "owned s" "find_booking rid uid s = (r, t)"
  shows "owned t" "bs_bookings s k = Some b \<Longrightarrow> bs_bookings t k = Some b"
    "r = Inr (Some b) \<Longrightarrow> b_owner b = fixture_owner_user_id \<and> b_hosts b = Some [fixture_owner_user_id]"
proof -
  have n: "bs_repo s = None" using assms(1) by (simp add: owned_def)
  have uid: "b_uid c = uid" if "fixture_by_uid rid uid = Some c" for c
    using booking_wf_fixture [OF that] by (simp add: booking_wf_def)
  show "owned t"
    using assms fixture_owned [of rid uid]
    by (auto simp: find_booking_no_repo [OF n] put_booking_def owned_put split: option.splits)
  show "bs_bookings s k = Some b \<Longrightarrow> bs_bookings t k = Some b"
    using assms(2) uid by (auto simp: find_booking_no_repo [OF n] put_booking_def split: option.splits)
  show "r = Inr (Some b) \<Longrightarrow> b_owner b = fixture_owner_user_id \<and> b_hosts b = Some [fixture_owner_user_id]"
    using assms fixture_owned [of rid uid]
    by (auto simp: find_booking_no_repo [OF n] owned_def split: option.splits)
qed

lemma owned_saved:
  assumes "owned s" "find_booking rid uid s = (Inr (Some b), s1)" "save_bookings effects bs s1 = (None, s2)"
  shows "owned s2" "b_owner b = fixture_owner_user_id" "b_hosts b = Some [fixture_owner_user_id]"
  using owned_find(1,3) [OF assms(1,2)] assms(3) by (auto simp: owned_def)

lemma owned_commit:
  assumes "owned s" "find_booking rid uid s = (Inr (Some b), s1)" "save_bookings effects bs s1 = (None, s2)"
  shows "owned (s2\<lparr>bs_bookings := (bs_bookings s2)(uid \<mapsto> relabelled rid' b status at)\<rparr>)"
  using owned_saved [OF assms] by (simp add: owned_put changed_owned)

lemma owned_commit_two:
  assumes "owned s" "find_booking rid uid s = (Inr (Some b), s1)" "save_bookings effects bs s1 = (None, s2)"
  shows "owned (s2\<lparr>bs_bookings := (bs_bookings s2)
    (uid \<mapsto> relabelled rid' b status at, k \<mapsto> moved rid' b start end_at)\<rparr>)"
  using owned_saved [OF assms] by (auto simp: owned_def changed_owned)

lemma owned_lifecycle:
  assumes "owned s"
  shows "cancel_booking rid uid creq s = (res, s') \<Longrightarrow> owned s'"
    and "confirm_booking rid uid s = (res, s') \<Longrightarrow> owned s'"
    and "decline_booking rid uid dreq s = (res, s') \<Longrightarrow> owned s'"
    and "reschedule_booking rid uid rreq s = (res2, s') \<Longrightarrow> owned s'"
proof -
  have n: "bs_repo s = None" using assms by (simp add: owned_def)
  note failed = failed_operation_store [OF n]
  have found: "owned (snd (find_booking rid uid s))" by (rule owned_find(1) [OF assms surjective_pairing])
  show "owned s'" if run: "cancel_booking rid uid creq s = (res, s')"
  proof (cases "\<exists>r. res = Inr (Some r)")
    case True
    with run show ?thesis by (auto elim!: cancel_booking_ok simp: owned_commit [OF assms])
  qed (use failed(1) [OF run] found in simp)
  show "owned s'" if run: "confirm_booking rid uid s = (res, s')"
  proof (cases "\<exists>r. res = Inr (Some r)")
    case True
    with run show ?thesis by (auto elim!: confirm_booking_ok simp: owned_commit [OF assms])
  qed (use failed(2) [OF run] found in simp)
  show "owned s'" if run: "decline_booking rid uid dreq s = (res, s')"
  proof (cases "\<exists>r. res = Inr (Some r)")
    case True
    with run show ?thesis by (auto elim!: decline_booking_ok simp: owned_commit [OF assms])
  qed (use failed(3) [OF run] found in simp)
  show "owned s'" if run: "reschedule_booking rid uid rreq s = (res2, s')"
  proof (cases "\<exists>r. res2 = Inr (Some r)")
    case True
    with run show ?thesis by (auto elim!: reschedule_booking_ok simp: owned_commit_two [OF assms])
  qed (use failed(4) [OF run] found in simp)
qed

text \<open>A create request that a caller other than the owner gets through the handler changes nothing.\<close>

lemma owned_create:
  assumes "owned s" "create_booking pf rid req s = (res, s')"
    and "cr_event_type_id req \<in> {0, booking_fixture_event_type_id} \<Longrightarrow>
      cr_owner req = fixture_owner_user_id \<and> cr_hosts req = Some [fixture_owner_user_id]"
  shows "owned s'" "cr_event_type_id req \<notin> {0, booking_fixture_event_type_id} \<Longrightarrow> s' = s"
proof -
  have n: "bs_repo s = None" using assms(1) by (simp add: owned_def)
  have same: "s' = s \<or> (\<exists>b. prepare_created pf (bs_slots s) rid req = Inr b \<and>
      s' = remember_key (cr_idempotency_key req) (b_uid b) (put_booking b s))"
    using assms(2) n by (auto simp: create_booking_def replay_created_def
        split: option.splits sum.splits prod.splits if_splits)
  have valid: "cr_event_type_id req \<in> {0, booking_fixture_event_type_id}"
    and b: "b_owner b = fixture_owner_user_id \<and> b_hosts b = Some [fixture_owner_user_id]"
    if "prepare_created pf (bs_slots s) rid req = Inr b" for b
  proof -
    show v: "cr_event_type_id req \<in> {0, booking_fixture_event_type_id}"
      using that by (auto simp: prepare_created_def validate_create_def split: option.splits if_splits)
    show "b_owner b = fixture_owner_user_id \<and> b_hosts b = Some [fixture_owner_user_id]"
      using that assms(3) [OF v]
      by (auto simp: prepare_created_def Let_def override_int_def override_ref_def
          split: option.splits sum.splits if_splits)
  qed
  show "owned s'"
    using same b assms(1) by (auto simp: put_booking_def remember_key_def owned_def split: if_splits)
  show "cr_event_type_id req \<notin> {0, booking_fixture_event_type_id} \<Longrightarrow> s' = s"
    using same valid by blast
qed

definition bookings_move ::
    "principal \<Rightarrow> ('a, 'p, 'b, 'k, 'c) server \<Rightarrow> ('a, 'p, 'b, 'k, 'c) server \<Rightarrow> bool" where
  "bookings_move p s s' \<longleftrightarrow> s' = s\<lparr>sv_bookings := sv_bookings s'\<rparr> \<and>
     (owned (sv_bookings s) \<longrightarrow> owned (sv_bookings s') \<and> (p_id p \<noteq> fixture_owner_user_id \<longrightarrow>
        (\<forall>uid x. bs_bookings (sv_bookings s) uid = Some x \<longrightarrow> bs_bookings (sv_bookings s') uid = Some x)))"

lemma allows_fixture:
  "allows p policy fixture_resource \<Longrightarrow> policy \<in> {PolicyBookingRead, PolicyBookingWrite, PolicyBookingHostAction} \<Longrightarrow>
   p_id p = fixture_owner_user_id"
  by (auto simp: allows_def authorize_booking_def Let_def split: if_splits)

lemma effect_on_bookings:
  assumes "\<And>b. owned b \<Longrightarrow> owned (snd (call b))" "p_id p = fixture_owner_user_id"
  shows "effect (on_bookings refuse call) (bookings_move p)"
  unfolding effect_def
proof (intro allI impI disjI2)
  fix s y s'
  assume "on_bookings refuse call s = (y, s')"
  then have "s' = s\<lparr>sv_bookings := snd (call (sv_bookings s))\<rparr>"
    by (auto simp: on_bookings_def split: prod.splits sum.splits)
  with assms show "bookings_move p s s'" by (simp add: bookings_move_def)
qed

lemma create_effect:
  assumes "cr_event_type_id request \<in> {0, booking_fixture_event_type_id} \<Longrightarrow>
      cr_owner request = fixture_owner_user_id \<and> cr_hosts request = Some [fixture_owner_user_id] \<and>
      p_id p = fixture_owner_user_id"
  shows "effect (reading (\<lambda>s. on_bookings refuse (create_booking (sv_platform s) rid request))) (bookings_move p)"
  unfolding effect_def
proof (intro allI impI disjI2)
  fix s y s'
  assume "reading (\<lambda>s. on_bookings refuse (create_booking (sv_platform s) rid request)) s = (y, s')"
  then have s': "s' = s\<lparr>sv_bookings := snd (create_booking (sv_platform s) rid request (sv_bookings s))\<rparr>"
    by (auto simp: reading_def on_bookings_def split: prod.splits sum.splits)
  let ?b = "snd (create_booking (sv_platform s) rid request (sv_bookings s))"
  have "owned ?b \<and> (p_id p \<noteq> fixture_owner_user_id \<longrightarrow> ?b = sv_bookings s)" if "owned (sv_bookings s)"
    using owned_create [OF that surjective_pairing] assms by blast
  with s' show "bookings_move p s s'" by (auto simp: bookings_move_def)
qed

lemma owned_request_effect:
  assumes "\<And>request. (cr_event_type_id request \<in> {0, booking_fixture_event_type_id} \<Longrightarrow>
      cr_owner request = fixture_owner_user_id \<and> cr_hosts request = Some [fixture_owner_user_id] \<and>
      p_id p = fixture_owner_user_id) \<Longrightarrow> effect (g request) (bookings_move p)"
  shows "effect (and_then (owned_request p x body) g) (bookings_move p)"
proof (cases "event_type_resource (cr_event_type_id body)")
  case None
  then have "cr_event_type_id body \<notin> {0, booking_fixture_event_type_id}"
    by (auto simp: event_type_resource_def split: if_splits)
  with None assms [of body] show ?thesis
    by (simp add: owned_request_def effect_def basic_handlers_run)
next
  case (Some r)
  then have r: "r = fixture_resource" by (auto simp: event_type_resource_def split: if_splits)
  show ?thesis
  proof (cases "allows p PolicyBookingWrite r")
    case True
    then have "p_id p = fixture_owner_user_id" using allows_fixture r by blast
    with assms [of "body\<lparr>cr_owner := owner_user_id r, cr_hosts := Some (host_user_ids r)\<rparr>"] Some True r
    show ?thesis
      by (simp add: owned_request_def effect_def and_then_def check_def return_ok_def)
  next
    case False
    with Some show ?thesis
      by (simp add: owned_request_def effect_def and_then_def check_def)
  qed
qed

lemma create_booking_effect:
  "effect (http_create_booking c) (for_caller (caller_by_key_or_token c) bookings_move)"
  unfolding http_create_booking_def Let_def
  by (intro effect_admit effect_later [where f = "\<lambda>body. and_then (owned_request p x body) g" for p x g]
      owned_request_effect effect_first create_effect effects) blast+

lemma own_booking_state:
  assumes "own_booking c policy unknown denial missing uid s = (y, t)"
  shows "t = s \<or> (\<exists>p. caller_by_key_or_token c s = Inr (Some p) \<and>
    t = s\<lparr>sv_bookings := snd (find_booking (hc_rid c) uid (sv_bookings s))\<rparr>)"
  using assms
  by (cases y) (auto simp: own_booking_def Let_def admit_def reading_def handler_err handler_ok basic_handlers_ok
      on_bookings_def read_booking_def split: sum.splits option.splits prod.splits)

lemma lookup_move:
  "bookings_move p s (s\<lparr>sv_bookings := snd (find_booking rid uid (sv_bookings s))\<rparr>)"
  by (auto simp: bookings_move_def owned_find [OF _ surjective_pairing])

lemma bookings_move_trans: "bookings_move p s t \<Longrightarrow> bookings_move p t u \<Longrightarrow> bookings_move p s u"
  unfolding bookings_move_def by (cases s, cases t, cases u) auto

lemma own_booking_effect:
  assumes f: "\<And>b p. p_id p = fixture_owner_user_id \<Longrightarrow> effect (f b) (bookings_move p)"
    and policy: "policy \<in> {PolicyBookingRead, PolicyBookingWrite, PolicyBookingHostAction}"
    and y: "and_then (own_booking c policy unknown denial missing uid) f s = (y, t)"
    and owned: "owned (sv_bookings s)"
  shows "t = s \<or> for_caller (caller_by_key_or_token c) bookings_move s t"
proof -
  obtain q u where q: "own_booking c policy unknown denial missing uid s = (q, u)"
    by (cases "own_booking c policy unknown denial missing uid s")
  note u = own_booking_state [OF q]
  show ?thesis
  proof (cases q)
    case (Inl x)
    with y q have "t = u" by (simp add: and_then_def)
    with u show ?thesis by (auto simp: for_caller_def intro: lookup_move)
  next
    case (Inr b)
    with q obtain p where p: "caller_by_key_or_token c s = Inr (Some p)" "allows p policy (resource_of b)"
      "find_booking (hc_rid c) uid (sv_bookings s) = (Inr (Some b), sv_bookings u)"
      using own_booking_ok by blast
    have "resource_of b = fixture_resource"
      using owned_find(3) [OF owned p(3)] by (simp add: resource_of_def)
    with p(2) have own: "p_id p = fixture_owner_user_id" using allows_fixture [OF _ policy] by simp
    have "u = s \<or> bookings_move p s u" using u by (auto simp: p(1) intro: lookup_move)
    moreover have "f b u = (y, t)" using y q Inr by (simp add: and_then_def)
    then have "t = u \<or> bookings_move p u t" using f [OF own] unfolding effect_def by blast
    ultimately have "t = s \<or> bookings_move p s t" using bookings_move_trans by metis
    with p(1) show ?thesis unfolding for_caller_def by blast
  qed
qed

end
