(* ===== verification/HttpProps.thy ===== *)
theory HttpProps
  imports HttpIsolation AuthGrants
begin

text \<open>
  The server of \<open>internal/httpapi\<close> over any requests: the states it reaches without a database, and
  that a request acts for its caller only.
\<close>

section \<open>What each endpoint may change\<close>

definition caller_move ::
    "http_tick \<Rightarrow> principal \<Rightarrow> ('a, 'p, 'b, 'k, 'c) server \<Rightarrow> ('a, 'p, 'b, 'k, 'c) server \<Rightarrow> bool" where
  "caller_move t p s s' \<longleftrightarrow> apps_move t p s s' \<or> calendars_move p s s' \<or> credentials_move p s s'"

lemma caller_parts:
  "effect h (apps_move t p) \<Longrightarrow> effect h (caller_move t p)"
  "effect h (calendars_move p) \<Longrightarrow> effect h (caller_move t p)"
  "effect h (credentials_move p) \<Longrightarrow> effect h (caller_move t p)"
  by (erule effect_mono; simp add: caller_move_def)+

lemmas part_first =
  apps_effects [THEN caller_parts(1), THEN effect_first]
  calendars_effects [THEN caller_parts(2), THEN effect_first]
  credentials_effect [THEN caller_parts(3), THEN effect_first]

lemmas body_later = effect_later [OF static_rules(7)]

lemma key_handler_effect:
  "gate_of e = ByKey policy \<Longrightarrow>
   effect (handler_of e value c) (for_caller (caller_by_key c) (caller_move (hc_tick c)))"
  by (cases e; simp only: handler_of.simps gate_of.simps gate.simps http_me_def
      http_read_app_catalog_def http_read_app_installations_def http_read_app_install_intents_def
      http_create_install_intent_def http_read_external_auth_def http_mark_external_auth_def
      http_consume_external_auth_def http_preview_authorization_def http_preflight_callback_def
      http_exchange_provider_def http_complete_install_def http_activate_install_def
      http_read_install_progress_def http_read_calendar_connections_def http_read_calendar_catalog_def
      http_read_credential_metadata_def http_read_selected_calendars_def http_save_selected_calendar_def
      http_delete_selected_calendar_def http_read_destination_calendar_def
      http_save_destination_calendar_def http_oauth_client_def Let_def simp_thms;
      (intro effect_admit_key effect_admit body_later part_first effects
        effect_static [OF static_rules(6)]
       | rule effect_static, intro effects)+)

lemma lifecycle_last:
  assumes "\<And>x b. owned b \<Longrightarrow> owned (snd (call x b))" "p_id p = fixture_owner_user_id" "\<And>x. static (g x)"
  shows "effect (and_then (body_of c body) (\<lambda>x. and_then (on_bookings refuse (call x)) g)) (bookings_move p)"
  using assms by (intro effect_later effect_first effect_on_bookings effects) simp_all

lemma booking_handler_effect:
  assumes "gate_of e = ByKeyOrToken policy" "handler_of e uid c s = (y, t)" "owned (sv_bookings s)"
  shows "t = s \<or> for_caller (caller_by_key_or_token c) bookings_move s t"
proof -
  note own = own_booking_effect [OF _ _ _ assms(3)]
  note kept = owned_lifecycle [OF _ surjective_pairing]
  from assms(1) consider "e = CreateBooking" | "e = ReadBooking" | "e = CancelBooking"
    | "e = RescheduleBooking" | "e = ConfirmBooking" | "e = DeclineBooking"
    by (cases e) simp_all
  then show ?thesis
  proof cases
    case 1
    with assms(2) create_booking_effect show ?thesis unfolding effect_def by fastforce
  next
    case 2
    show ?thesis
      by (rule own [OF _ _ assms(2) [unfolded 2 handler_of.simps http_read_booking_def]])
        (simp_all add: effect_static effects)
  next
    case 3
    show ?thesis
      by (rule own [OF _ _ assms(2) [unfolded 3 handler_of.simps http_cancel_booking_def]])
        (simp_all add: lifecycle_last kept(1) effects)
  next
    case 4
    show ?thesis
      by (rule own [OF _ _ assms(2) [unfolded 4 handler_of.simps http_reschedule_booking_def]])
        (simp_all add: lifecycle_last kept(4) effects)
  next
    case 5
    show ?thesis
      by (rule own [OF _ _ assms(2) [unfolded 5 handler_of.simps http_confirm_booking_def]])
        (simp_all add: lifecycle_last kept(2) effects)
  next
    case 6
    show ?thesis
      by (rule own [OF _ _ assms(2) [unfolded 6 handler_of.simps http_decline_booking_def]])
        (simp_all add: lifecycle_last kept(3) effects)
  qed
qed

lemma open_handler_effect:
  assumes "gate_of e = Public \<or> (\<exists>policy. gate_of e = BySecret policy)"
  shows "effect (handler_of e value c) (\<lambda>s t. e = OAuthToken \<and> auth_move c s t)"
proof -
  from assms consider "e = Health" | "e = ReadSlots" | "e = PlatformClient" | "e = OAuthToken"
    by (cases e) simp_all
  then show ?thesis
  proof cases
    case 4
    show ?thesis
      unfolding 4 handler_of.simps http_oauth_token_def Let_def
    proof (rule effect_demand)
      fix req assume "decode_token_request (hc_request c) = Some req"
      from auth_effect [OF this] show "effect (and_then (reading (\<lambda>s. lift_result (map_sum
          (\<lambda>_. oauth_error (hc_rid c) 500 ''server_error'' ''Internal server error'') id
          (read_oauth_client (sv_auth s) (tr_client_id req))))) (\<lambda>client.
        and_then (demand client (oauth_error (hc_rid c) 401 ''invalid_client'' ''Invalid OAuth client'')) (\<lambda>oc.
        and_then (check (d_allowed (authorize (oauth_client_principal oc) PolicyOAuth2TokenExchange))
          (oauth_error (hc_rid c) 401 ''invalid_client'' ''Invalid OAuth client'')) (\<lambda>_.
        and_then (on_auth (oauth_refusal (hc_rid c)) (exchange_oauth_token req (tk_now1 (hc_tick c))
          (tk_draw1 (hc_tick c)) (tk_draw2 (hc_tick c)))) (\<lambda>token.
        return_ok (send_json (hc_rid c) 200 (TokenBody token))))))) (\<lambda>s t. OAuthToken = OAuthToken \<and> auth_move c s t)"
        by (intro effect_later effects effect_mono [OF effect_first]) simp_all
    qed
  qed (simp only: handler_of.simps http_health_def http_read_slots_def http_platform_client_def Let_def;
      intro effect_static effects)+
qed

section \<open>The invariant of a server without a database\<close>

definition http_inv :: "('a, 'p, 'b, 'k, 'c) server \<Rightarrow> bool" where
  "http_inv s \<longleftrightarrow> apps_inv (sv_apps s) \<and> owned (sv_bookings s) \<and> cal_repo (sv_calendars s) = None \<and>
     cs_repo (sv_credentials s) = None \<and> as_oauth_tokens (sv_auth s) = None"

text \<open>The user a request acts for: the caller of an endpoint with a gate.\<close>

fun caller_of :: "gate \<Rightarrow> http_call \<Rightarrow> ('a, 'p, 'b, 'k, 'c) server \<Rightarrow> auth_error + principal option" where
  "caller_of (ByKey policy) c s = caller_by_key c s"
| "caller_of (ByKeyOrToken policy) c s = caller_by_key_or_token c s"
| "caller_of _ c s = Inr None"

definition acting_user :: "http_request \<Rightarrow> http_tick \<Rightarrow> ('a, 'p, 'b, 'k, 'c) server \<Rightarrow> int option" where
  "acting_user r t s =
     (case find_route (rq_method r) (rq_path r) of
        None \<Rightarrow> None
      | Some (e, _) \<Rightarrow>
          (case caller_of (gate_of e) (call_of s r t) s of Inr (Some p) \<Rightarrow> Some (p_id p) | _ \<Rightarrow> None))"

text \<open>Nothing of another user changes, and nothing of any user where nobody acts.\<close>

definition only_touches ::
    "int option \<Rightarrow> ('a, 'p, 'b, 'k, 'c) server \<Rightarrow> ('a, 'p, 'b, 'k, 'c) server \<Rightarrow> bool" where
  "only_touches u s s' \<longleftrightarrow>
     others_kept u (sv_apps s) (sv_apps s') \<and>
     (\<forall>w. u \<noteq> Some w \<longrightarrow> calendar_user w (sv_calendars s') = calendar_user w (sv_calendars s) \<and>
        cs_credentials (sv_credentials s') w = cs_credentials (sv_credentials s) w) \<and>
     (\<forall>uid b. bs_bookings (sv_bookings s) uid = Some b \<and> u \<noteq> Some (b_owner b) \<longrightarrow>
        bs_bookings (sv_bookings s') uid = Some b)"

text \<open>
  The grants: a token request may change those it presents, the access token issued with its refresh token,
  and add the tokens it draws, in the name of the user of what it presents; any other request, and one that
  presents no open code and no live refresh token, changes nothing in the auth service.
\<close>

definition presented :: "http_request \<Rightarrow> token_request option" where
  "presented r =
     (case find_route (rq_method r) (rq_path r) of
        Some (OAuthToken, _) \<Rightarrow> map_option trim_token_request (decode_token_request r)
      | _ \<Rightarrow> None)"

definition grant_users :: "token_request \<Rightarrow> 'r auth_service \<Rightarrow> int set" where
  "grant_users req a = (\<lambda>g. p_id (ac_principal g)) ` set_option (as_codes a (tr_code req)) \<union>
     (\<lambda>g. p_id (rt_principal g)) ` set_option (as_refresh a (tr_refresh_token req))"

definition exchange_confined :: "token_request \<Rightarrow> draw \<Rightarrow> draw \<Rightarrow> 'r auth_service \<Rightarrow> 'r auth_service \<Rightarrow> bool" where
  "exchange_confined req d1 d2 a a' \<longleftrightarrow>
     a'\<lparr>as_codes := as_codes a, as_tokens := as_tokens a, as_refresh := as_refresh a\<rparr> = a \<and>
     (as_codes a (tr_code req) = None \<and> as_refresh a (tr_refresh_token req) = None \<longrightarrow> a' = a) \<and>
     (\<forall>k. k \<noteq> tr_code req \<longrightarrow> as_codes a' k = as_codes a k) \<and>
     (\<forall>k. k \<noteq> tr_refresh_token req \<and> random_oauth_token ''cal_rt'' d2 \<noteq> Inr k \<longrightarrow> as_refresh a' k = as_refresh a k) \<and>
     (\<forall>k. random_oauth_token ''cal_at'' d1 \<noteq> Inr k \<and>
        k \<notin> rt_access_token ` set_option (as_refresh a (tr_refresh_token req)) \<longrightarrow> as_tokens a' k = as_tokens a k) \<and>
     (\<forall>k x. as_tokens a' k = Some x \<and> as_tokens a k \<noteq> Some x \<longrightarrow> p_id (at_principal x) \<in> grant_users req a) \<and>
     (\<forall>k x. as_refresh a' k = Some x \<and> as_refresh a k \<noteq> Some x \<longrightarrow> p_id (rt_principal x) \<in> grant_users req a)"

definition grants_kept :: "token_request option \<Rightarrow> http_tick \<Rightarrow> 'r auth_service \<Rightarrow> 'r auth_service \<Rightarrow> bool" where
  "grants_kept pr t a a' \<longleftrightarrow>
     (case pr of None \<Rightarrow> a' = a | Some req \<Rightarrow> exchange_confined req (tk_draw1 t) (tk_draw2 t) a a')"

lemma exchange_confined_refl [simp]: "exchange_confined req d1 d2 a a"
  by (simp add: exchange_confined_def)

lemma response_tokens:
  assumes "new_oauth_token_response scopes d1 d2 = Inr tok"
  shows "random_oauth_token ''cal_at'' d1 = Inr (access_token tok)"
    "random_oauth_token ''cal_rt'' d2 = Inr (refresh_token tok)"
  using assms by (auto simp: new_oauth_token_response_def split: sum.splits)

lemma scoped_id [simp]: "p_id (scoped_oauth_principal p scopes) = p_id p"
  by (simp add: scoped_oauth_principal_def)

lemma code_confined:
  assumes "exchange_fixture_code req t d1 d2 a = (res, a')"
  shows "exchange_confined req d1 d2 a a'"
proof (cases res)
  case (Inl e)
  with exchange_fixture_code_err assms have "a' = a \<or> a' = a\<lparr>as_codes := (as_codes a)(tr_code req := None)\<rparr>" by blast
  moreover have "a' = a" if "as_codes a (tr_code req) = None"
    using assms that by (simp add: exchange_fixture_code_def)
  ultimately show ?thesis by (cases "as_codes a (tr_code req)") (auto simp: exchange_confined_def)
next
  case (Inr tok)
  from assms [unfolded Inr] show ?thesis
    by (rule exchange_fixture_code_ok)
      (auto simp: exchange_confined_def grant_users_def dest: response_tokens split: if_splits)
qed

lemma refresh_confined:
  assumes "exchange_fixture_refresh req t d1 d2 a = (res, a')"
  shows "exchange_confined req d1 d2 a a'"
proof (cases res)
  case (Inl e)
  with exchange_fixture_refresh_err assms have "a' = a \<or> (\<exists>r. as_refresh a (tr_refresh_token req) = Some r \<and>
     a' = a\<lparr>as_refresh := (as_refresh a)(tr_refresh_token req := None), as_tokens := (as_tokens a)(rt_access_token r := None)\<rparr>)"
    by blast
  then show ?thesis by (auto simp: exchange_confined_def split: if_splits)
next
  case (Inr tok)
  from assms [unfolded Inr] show ?thesis
    by (rule exchange_fixture_refresh_ok)
      (auto simp: exchange_confined_def grant_users_def dest: response_tokens split: if_splits)
qed

lemma oauth_exchange_confined:
  assumes "as_oauth_tokens a = None"
  shows "exchange_confined (trim_token_request req) d1 d2 a (snd (exchange_oauth_token req t d1 d2 a))"
  using exchange_oauth_token_cases [OF surjective_pairing assms] code_confined refresh_confined
  by (metis exchange_confined_refl)

lemma exchange_keeps_ports: "exchange_confined req d1 d2 a a' \<Longrightarrow> as_oauth_tokens a' = as_oauth_tokens a"
  unfolding exchange_confined_def by (cases a; cases a') simp

lemma others_kept_none: "others_kept None s t \<Longrightarrow> others_kept u s t"
  by (auto simp: others_kept_def kept_but_def)

lemma only_touches_refl [simp]: "only_touches u s s"
  by (simp add: only_touches_def others_kept_def)

lemma read_credentials_memory:
  "cs_repo s = None \<Longrightarrow> cs_repo (snd (read_credential_metadata user s)) = None \<and>
   (\<forall>w. w \<noteq> user \<longrightarrow> cs_credentials (snd (read_credential_metadata user s)) w = cs_credentials s w)"
  by (auto simp: read_credential_metadata_def ensure_credentials_loaded_def set_credentials_def and_then_def
      split: option.splits)

lemma apps_move_keeps:
  assumes "apps_move t p s s'" "http_inv s" "fresh_tick t s"
  shows "http_inv s' \<and> only_touches (Some (p_id p)) s s'"
proof -
  from assms(1,3) obtain op where op: "s' = s\<lparr>sv_apps := snd (run_apps_op op (sv_apps s))\<rparr>"
    "AppsProps.op_user op (sv_apps s) \<in> {None, Some (p_id p)}" "fresh_op op (sv_apps s)"
    unfolding apps_move_def by blast
  have inv: "apps_inv (sv_apps s)" using assms(2) by (simp add: http_inv_def)
  have "others_kept (Some (p_id p)) (sv_apps s) (snd (run_apps_op op (sv_apps s)))"
    using apps_op_others [OF inv op(3)] op(2) others_kept_none by auto
  moreover have "apps_inv (snd (run_apps_op op (sv_apps s)))"
    using step_inv [OF inv op(3)] by (simp add: good_def)
  ultimately show ?thesis using assms(2) op(1) by (simp add: http_inv_def only_touches_def)
qed

lemma calendars_move_keeps:
  assumes "calendars_move p s s'" "http_inv s"
  shows "http_inv s' \<and> only_touches (Some (p_id p)) s s'"
proof -
  from assms(1) obtain op where op: "s' = s\<lparr>sv_calendars := step_calendars op (sv_calendars s)\<rparr>"
    "local_op op" "CalendarsClient.op_user op = p_id p"
    unfolding calendars_move_def by blast
  with local_step_confined [of "sv_calendars s" op] assms(2) show ?thesis
    by (auto simp: http_inv_def only_touches_def others_kept_def)
qed

lemma credentials_move_keeps:
  assumes "credentials_move p s s'" "http_inv s"
  shows "http_inv s' \<and> only_touches (Some (p_id p)) s s'"
  using assms read_credentials_memory [of "sv_credentials s" "p_id p"]
  by (auto simp: credentials_move_def http_inv_def only_touches_def others_kept_def)

lemma bookings_move_keeps:
  assumes "bookings_move p s s'" "http_inv s"
  shows "http_inv s' \<and> only_touches (Some (p_id p)) s s'"
proof -
  have s': "s' = s\<lparr>sv_bookings := sv_bookings s'\<rparr>" using assms(1) by (simp add: bookings_move_def)
  have same: "sv_apps s' = sv_apps s" "sv_calendars s' = sv_calendars s" "sv_credentials s' = sv_credentials s"
    "sv_auth s' = sv_auth s"
    by (subst s', simp)+
  have owner: "b_owner b = fixture_owner_user_id" if "bs_bookings (sv_bookings s) uid = Some b" for uid b
    using assms(2) that by (simp add: http_inv_def owned_def)
  show ?thesis
    using assms same owner by (auto simp: bookings_move_def http_inv_def only_touches_def others_kept_def)
qed

lemma moves_keep_auth:
  "caller_move t p s s' \<Longrightarrow> sv_auth s' = sv_auth s" "bookings_move p s s' \<Longrightarrow> sv_auth s' = sv_auth s"
proof -
  show "caller_move t p s s' \<Longrightarrow> sv_auth s' = sv_auth s"
    by (auto simp: caller_move_def apps_move_def calendars_move_def credentials_move_def)
  assume "bookings_move p s s'"
  then have "s' = s\<lparr>sv_bookings := sv_bookings s'\<rparr>" unfolding bookings_move_def by (rule conjunct1)
  from arg_cong [OF this, of sv_auth] show "sv_auth s' = sv_auth s" by simp
qed

lemma auth_move_keeps:
  assumes "auth_move (call_of s r t) s s'" "http_inv s"
  shows "http_inv s' \<and> only_touches u s s' \<and>
    (\<exists>req. decode_token_request r = Some req \<and>
       exchange_confined (trim_token_request req) (tk_draw1 t) (tk_draw2 t) (sv_auth s) (sv_auth s'))"
proof -
  have call: "hc_request (call_of s r t) = r" "hc_tick (call_of s r t) = t" by (simp_all add: call_of_def)
  from assms(1) obtain req where req: "decode_token_request r = Some req"
    "s' = s\<lparr>sv_auth := snd (exchange_oauth_token req (tk_now1 t) (tk_draw1 t) (tk_draw2 t) (sv_auth s))\<rparr>"
    unfolding auth_move_def call by blast
  have "as_oauth_tokens (sv_auth s) = None" using assms(2) by (simp add: http_inv_def)
  note confined = oauth_exchange_confined [OF this, of req "tk_draw1 t" "tk_draw2 t" "tk_now1 t"]
  from exchange_keeps_ports [OF confined] confined req assms(2) show ?thesis
    by (simp add: http_inv_def only_touches_def others_kept_def)
qed

lemma serve_keeps:
  assumes "http_inv s" "fresh_tick t s" "serve_http r t s = (x, s')"
  shows "http_inv s' \<and> only_touches (acting_user r t s) s s' \<and> grants_kept (presented r) t (sv_auth s) (sv_auth s')"
proof (cases "find_route (rq_method r) (rq_path r)")
  case None
  with assms show ?thesis by (simp add: serve_http_def grants_kept_def presented_def)
next
  case (Some ev)
  obtain e v where ev: "ev = (e, v)" by (cases ev)
  let ?c = "call_of s r t"
  have tick: "hc_tick ?c = t" by (simp add: call_of_def)
  obtain y where y: "handler_of e v ?c s = (y, s')"
    using assms(3) Some ev by (auto simp: serve_http_def first_response_def split: prod.splits sum.splits)
  have user: "acting_user r t s = (case caller_of (gate_of e) ?c s of Inr (Some p) \<Rightarrow> Some (p_id p) | _ \<Rightarrow> None)"
    using Some ev by (simp add: acting_user_def)
  have own: "owned (sv_bookings s)" using assms(1) by (simp add: http_inv_def)
  have quiet: "grants_kept (presented r) t (sv_auth s) (sv_auth s')" if "sv_auth s' = sv_auth s"
    using that by (simp add: grants_kept_def split: option.split)
  have public: ?thesis if "gate_of e = Public \<or> (\<exists>policy. gate_of e = BySecret policy)"
  proof -
    from open_handler_effect [OF that, of v ?c] y consider "s' = s" | "e = OAuthToken" "auth_move ?c s s'"
      unfolding effect_def by metis
    then show ?thesis
    proof cases
      case 2
      note kept = auth_move_keeps [OF 2(2) assms(1)]
      then obtain req where "decode_token_request r = Some req"
        "exchange_confined (trim_token_request req) (tk_draw1 t) (tk_draw2 t) (sv_auth s) (sv_auth s')" by blast
      with 2(1) Some ev have "grants_kept (presented r) t (sv_auth s) (sv_auth s')"
        by (simp add: grants_kept_def presented_def)
      with kept show ?thesis by blast
    qed (use assms(1) quiet in simp)
  qed
  show ?thesis
  proof (cases "gate_of e")
    case (ByKey policy)
    have "s' = s \<or> for_caller (caller_by_key ?c) (caller_move t) s s'"
      using key_handler_effect [OF ByKey, of v ?c] y tick unfolding effect_def by metis
    moreover from this have "sv_auth s' = sv_auth s" unfolding for_caller_def using moves_keep_auth(1) by blast
    ultimately have "http_inv s' \<and> only_touches (acting_user r t s) s s'" and "sv_auth s' = sv_auth s"
      using user ByKey assms(1,2)
      by (auto simp: for_caller_def caller_move_def
          dest!: apps_move_keeps calendars_move_keeps credentials_move_keeps)
    with quiet show ?thesis by blast
  next
    case (ByKeyOrToken policy)
    note moved = booking_handler_effect [OF this y own]
    moreover from moved have "sv_auth s' = sv_auth s" unfolding for_caller_def using moves_keep_auth(2) by blast
    ultimately have "http_inv s' \<and> only_touches (acting_user r t s) s s'" and "sv_auth s' = sv_auth s"
      using user ByKeyOrToken assms(1)
      by (auto simp: for_caller_def dest!: bookings_move_keeps)
    with quiet show ?thesis by blast
  qed (use public in blast)+
qed

text \<open>The servers without a database, over any requests with new random references.\<close>

inductive http_reach :: "('a, 'p, 'b, 'k, 'c) server \<Rightarrow> bool" where
  start: "http_reach (new_server sha pf float cfg rid None None None None None slots da dp db dk dc)"
| step: "http_reach s \<Longrightarrow> fresh_tick t s \<Longrightarrow> serve_http r t s = (x, s') \<Longrightarrow> http_reach s'"

lemma start_http_inv: "http_inv (new_server sha pf float cfg rid None None None None None slots da dp db dk dc)"
  by (simp add: http_inv_def new_server_def Let_def start_inv owned_def new_booking_store_def
      new_calendar_store_def new_credential_store_def new_auth_service_def)

lemma http_reach_inv: "http_reach s \<Longrightarrow> http_inv s"
proof (induction rule: http_reach.induct)
  case start
  show ?case by (rule start_http_inv)
next
  case (step s t r x s')
  then show ?case using serve_keeps [OF step.IH step.hyps(2,3)] by (rule_tac conjunct1)
qed

text \<open>
  C4: users are isolated from each other over HTTP: in a server without a database, after any
  requests, one more request changes no record of another user than its caller: no install record of
  any kind, nothing of the calendars and credentials, and no booking the caller does not own; a
  request without a caller changes none of these of anybody. The codes and tokens of the auth service
  change by a request of the token endpoint only, which has no caller: of them it changes only the code or
  the refresh token it presents and the access token issued with that refresh token, if they are
  there, and adds the two tokens it draws, which belong to the user of what was presented.
\<close>
theorem http_users_isolated:
  assumes "http_reach s" and "fresh_tick t s" and "serve_http r t s = (x, s')"
  shows "only_touches (acting_user r t s) s s' \<and> grants_kept (presented r) t (sv_auth s) (sv_auth s')"
  using serve_keeps [OF http_reach_inv [OF assms(1)] assms(2,3)] by blast

end
