(* ===== verification/Deliveries.thy ===== *)
theory Deliveries
  imports BookingRepo
begin

text \<open>
  What a side effect sends: the webhook, email and calendar envelopes of a booking
  (\<open>webhook_deliveries.go\<close>, \<open>email_deliveries.go\<close>, \<open>calendar_dispatches.go\<close> of \<open>internal/booking\<close>), the
  provider adapters (\<open>internal/email\<close>, \<open>internal/calendar\<close>), the webhook subscriptions and secrets
  (\<open>webhook_subscriptions.go\<close>) and the HTTP transports. A body is the JSON value whose text is sent,
  so it is never the empty text.
\<close>

section \<open>Actions\<close>

definition webhook_trigger :: "string \<Rightarrow> string option" where
  "webhook_trigger name =
     (if name = side_effect_string SideEffectWebhookBookingCancelled then Some ''BOOKING_CANCELLED''
      else if name = side_effect_string SideEffectWebhookBookingRescheduled then Some ''BOOKING_RESCHEDULED''
      else if name = side_effect_string SideEffectWebhookBookingConfirmed then Some ''BOOKING_CONFIRMED''
      else if name = side_effect_string SideEffectWebhookBookingDeclined then Some ''BOOKING_REJECTED''
      else None)"

definition email_action :: "string \<Rightarrow> string option" where
  "email_action name =
     (if name = side_effect_string SideEffectEmailCancelled then Some ''BOOKING_CANCELLED''
      else if name = side_effect_string SideEffectEmailRescheduled then Some ''BOOKING_RESCHEDULED''
      else if name = side_effect_string SideEffectEmailConfirmed then Some ''BOOKING_CONFIRMED''
      else if name = side_effect_string SideEffectEmailDeclined then Some ''BOOKING_REJECTED''
      else None)"

definition calendar_action :: "string \<Rightarrow> string option" where
  "calendar_action name =
     (if name = side_effect_string SideEffectCalendarCancelled then Some ''BOOKING_CANCELLED''
      else if name = side_effect_string SideEffectCalendarRescheduled then Some ''BOOKING_RESCHEDULED''
      else None)"

definition event_created_at :: "booking \<Rightarrow> string" where
  "event_created_at b = (if b_updated_at b \<noteq> [] then b_updated_at b else b_created_at b)"

definition payload_string :: "json_map option \<Rightarrow> string \<Rightarrow> string" where
  "payload_string payload key = (case payload of None \<Rightarrow> [] | Some m \<Rightarrow> member_text m key)"

section \<open>Webhooks\<close>

record webhook_payload =
  wp_uid :: string
  wp_title :: string
  wp_start :: string
  wp_end :: string
  wp_attendees :: "attendee list"
  wp_responses :: json_map
  wp_metadata :: json_map
  wp_cancellation :: string
  wp_reschedule_uid :: string
  wp_reschedule_reason :: string
  wp_rejection :: string

record webhook_envelope =
  we_trigger :: string
  we_created_at :: string
  we_payload :: webhook_payload

definition person_json :: "string \<Rightarrow> string \<Rightarrow> string \<Rightarrow> json" where
  "person_json name email tz =
     JObj (text_member ''name'' name @ text_member ''email'' email @ text_member ''timeZone'' tz)"

definition webhook_attendees :: "attendee list \<Rightarrow> json list" where
  "webhook_attendees as = map (\<lambda>a. person_json (att_name a) (att_email a) (att_time_zone a)) as"

definition optional_list :: "string \<Rightarrow> json list \<Rightarrow> json_map" where
  "optional_list key vs = (if vs = [] then [] else [(key, JArr vs)])"

definition optional_object :: "string \<Rightarrow> json_map \<Rightarrow> json_map" where
  "optional_object key m = (if m = [] then [] else [(key, JObj m)])"

definition webhook_json :: "webhook_envelope \<Rightarrow> json" where
  "webhook_json e = (let p = we_payload e in
     JObj (text_member ''triggerEvent'' (we_trigger e) @ text_member ''createdAt'' (we_created_at e) @
       [(''payload'', JObj (text_member ''uid'' (wp_uid p) @ optional_text ''title'' (wp_title p) @
          optional_text ''startTime'' (wp_start p) @ optional_text ''endTime'' (wp_end p) @
          optional_list ''attendees'' (webhook_attendees (wp_attendees p)) @
          optional_object ''responses'' (wp_responses p) @ optional_object ''metadata'' (wp_metadata p) @
          optional_text ''cancellationReason'' (wp_cancellation p) @
          optional_text ''rescheduleUid'' (wp_reschedule_uid p) @
          optional_text ''reschedulingReason'' (wp_reschedule_reason p) @
          optional_text ''rejectionReason'' (wp_rejection p)))]))"

definition webhook_envelope_for :: "queued_effect \<Rightarrow> booking \<Rightarrow> webhook_envelope option" where
  "webhook_envelope_for effect b =
     (case webhook_trigger (qe_name effect) of
        None \<Rightarrow> None
      | Some trigger \<Rightarrow> Some \<lparr>we_trigger = trigger, we_created_at = event_created_at b,
          we_payload = \<lparr>wp_uid = b_uid b, wp_title = b_title b, wp_start = b_start b, wp_end = b_end b,
            wp_attendees = (case b_attendees b of None \<Rightarrow> [] | Some as \<Rightarrow> as),
            wp_responses = object_or_empty (b_responses b), wp_metadata = object_or_empty (b_metadata b),
            wp_cancellation = payload_string (qe_payload effect) ''cancellationReason'',
            wp_reschedule_uid = payload_string (qe_payload effect) ''rescheduleUid'',
            wp_reschedule_reason = payload_string (qe_payload effect) ''reschedulingReason'',
            wp_rejection = payload_string (qe_payload effect) ''reason''\<rparr>\<rparr>)"

section \<open>Emails\<close>

record mail_recipient =
  mr_name :: string
  mr_email :: string
  mr_time_zone :: string

record mail_payload =
  ml_uid :: string
  ml_title :: string
  ml_status :: string
  ml_start :: string
  ml_end :: string
  ml_event_type_id :: int
  ml_request_id :: string
  ml_recipients :: "mail_recipient list option"
  ml_cancellation :: string
  ml_reschedule_uid :: string
  ml_reschedule_reason :: string
  ml_rejection :: string

record mail_envelope =
  mv_action :: string
  mv_created_at :: string
  mv_payload :: mail_payload

definition mail_recipients :: "attendee list option \<Rightarrow> mail_recipient list option" where
  "mail_recipients attendees =
     (case attendees of None \<Rightarrow> None
      | Some as \<Rightarrow> if as = [] then None
          else Some (map (\<lambda>a. \<lparr>mr_name = att_name a, mr_email = att_email a, mr_time_zone = att_time_zone a\<rparr>) as))"

definition mail_envelope_for :: "queued_effect \<Rightarrow> booking \<Rightarrow> mail_envelope option" where
  "mail_envelope_for effect b =
     (case email_action (qe_name effect) of
        None \<Rightarrow> None
      | Some action \<Rightarrow> Some \<lparr>mv_action = action, mv_created_at = event_created_at b,
          mv_payload = \<lparr>ml_uid = b_uid b, ml_title = b_title b, ml_status = b_status b, ml_start = b_start b,
            ml_end = b_end b, ml_event_type_id = b_event_type_id b, ml_request_id = b_request_id b,
            ml_recipients = mail_recipients (b_attendees b),
            ml_cancellation = payload_string (qe_payload effect) ''cancellationReason'',
            ml_reschedule_uid = payload_string (qe_payload effect) ''rescheduleUid'',
            ml_reschedule_reason = payload_string (qe_payload effect) ''reschedulingReason'',
            ml_rejection = payload_string (qe_payload effect) ''reason''\<rparr>\<rparr>)"

definition mail_json :: "mail_envelope \<Rightarrow> json" where
  "mail_json e = (let p = mv_payload e in
     JObj (text_member ''action'' (mv_action e) @ text_member ''createdAt'' (mv_created_at e) @
       [(''payload'', JObj (text_member ''uid'' (ml_uid p) @ optional_text ''title'' (ml_title p) @
          text_member ''status'' (ml_status p) @ text_member ''start'' (ml_start p) @
          text_member ''end'' (ml_end p) @ int_member ''eventTypeId'' (ml_event_type_id p) @
          text_member ''requestId'' (ml_request_id p) @
          optional_list ''recipients'' (map (\<lambda>r. person_json (mr_name r) (mr_email r) (mr_time_zone r))
            (case ml_recipients p of None \<Rightarrow> [] | Some rs \<Rightarrow> rs)) @
          optional_text ''cancellationReason'' (ml_cancellation p) @
          optional_text ''rescheduleUid'' (ml_reschedule_uid p) @
          optional_text ''reschedulingReason'' (ml_reschedule_reason p) @
          optional_text ''rejectionReason'' (ml_rejection p)))]))"

definition recipient_fields :: "mail_recipient struct_fields" where
  "recipient_fields =
     [string_field ''name'' mr_name (\<lambda>s x. x\<lparr>mr_name := s\<rparr>),
      string_field ''email'' mr_email (\<lambda>s x. x\<lparr>mr_email := s\<rparr>),
      string_field ''timeZone'' mr_time_zone (\<lambda>s x. x\<lparr>mr_time_zone := s\<rparr>)]"

definition mail_payload_fields :: "mail_payload struct_fields" where
  "mail_payload_fields =
     [string_field ''uid'' ml_uid (\<lambda>s x. x\<lparr>ml_uid := s\<rparr>),
      string_field ''title'' ml_title (\<lambda>s x. x\<lparr>ml_title := s\<rparr>),
      string_field ''status'' ml_status (\<lambda>s x. x\<lparr>ml_status := s\<rparr>),
      string_field ''start'' ml_start (\<lambda>s x. x\<lparr>ml_start := s\<rparr>),
      string_field ''end'' ml_end (\<lambda>s x. x\<lparr>ml_end := s\<rparr>),
      int_field ''eventTypeId'' ml_event_type_id (\<lambda>n x. x\<lparr>ml_event_type_id := n\<rparr>),
      string_field ''requestId'' ml_request_id (\<lambda>s x. x\<lparr>ml_request_id := s\<rparr>),
      (''recipients'', \<lambda>v x. map_option (\<lambda>rs. x\<lparr>ml_recipients := rs\<rparr>)
         (decode_slice (\<lambda>w. decode_struct False recipient_fields w
            \<lparr>mr_name = [], mr_email = [], mr_time_zone = []\<rparr>) v)),
      string_field ''cancellationReason'' ml_cancellation (\<lambda>s x. x\<lparr>ml_cancellation := s\<rparr>),
      string_field ''rescheduleUid'' ml_reschedule_uid (\<lambda>s x. x\<lparr>ml_reschedule_uid := s\<rparr>),
      string_field ''reschedulingReason'' ml_reschedule_reason (\<lambda>s x. x\<lparr>ml_reschedule_reason := s\<rparr>),
      string_field ''rejectionReason'' ml_rejection (\<lambda>s x. x\<lparr>ml_rejection := s\<rparr>)]"

definition mail_fields :: "mail_envelope struct_fields" where
  "mail_fields =
     [string_field ''action'' mv_action (\<lambda>s x. x\<lparr>mv_action := s\<rparr>),
      string_field ''createdAt'' mv_created_at (\<lambda>s x. x\<lparr>mv_created_at := s\<rparr>),
      (''payload'', \<lambda>v x. map_option (\<lambda>p. x\<lparr>mv_payload := p\<rparr>)
         (decode_struct False mail_payload_fields v (mv_payload x)))]"

definition zero_mail :: mail_envelope where
  "zero_mail = \<lparr>mv_action = [], mv_created_at = [], mv_payload = \<lparr>ml_uid = [], ml_title = [], ml_status = [],
     ml_start = [], ml_end = [], ml_event_type_id = 0, ml_request_id = [], ml_recipients = None,
     ml_cancellation = [], ml_reschedule_uid = [], ml_reschedule_reason = [], ml_rejection = []\<rparr>\<rparr>"

section \<open>Calendar changes\<close>

record calendar_change =
  kp_uid :: string
  kp_status :: string
  kp_start :: string
  kp_end :: string
  kp_event_type_id :: int
  kp_request_id :: string
  kp_selected :: string
  kp_destination :: string
  kp_external :: string
  kp_reschedule_uid :: string
  kp_previous :: string

record calendar_envelope =
  ke_action :: string
  ke_created_at :: string
  ke_payload :: calendar_change

definition calendar_envelope_for :: "queued_effect \<Rightarrow> booking \<Rightarrow> calendar_envelope option" where
  "calendar_envelope_for effect b =
     (let hint = (\<lambda>key base. let v = payload_string (qe_payload effect) key in if v \<noteq> [] then v else base)
      in case calendar_action (qe_name effect) of
        None \<Rightarrow> None
      | Some action \<Rightarrow> Some \<lparr>ke_action = action, ke_created_at = event_created_at b,
          ke_payload = \<lparr>kp_uid = b_uid b, kp_status = b_status b, kp_start = b_start b, kp_end = b_end b,
            kp_event_type_id = b_event_type_id b, kp_request_id = b_request_id b,
            kp_selected = hint ''selectedCalendarRef'' (b_selected_calendar b),
            kp_destination = hint ''destinationCalendarRef'' (b_destination_calendar b),
            kp_external = hint ''externalEventId'' (b_external_event b),
            kp_reschedule_uid = hint ''rescheduleUid'' [],
            kp_previous = hint ''previousExternalEventId'' []\<rparr>\<rparr>)"

definition calendar_json :: "calendar_envelope \<Rightarrow> json" where
  "calendar_json e = (let p = ke_payload e in
     JObj (text_member ''action'' (ke_action e) @ text_member ''createdAt'' (ke_created_at e) @
       [(''payload'', JObj (text_member ''uid'' (kp_uid p) @ text_member ''status'' (kp_status p) @
          text_member ''start'' (kp_start p) @ text_member ''end'' (kp_end p) @
          int_member ''eventTypeId'' (kp_event_type_id p) @ text_member ''requestId'' (kp_request_id p) @
          optional_text ''selectedCalendarRef'' (kp_selected p) @
          optional_text ''destinationCalendarRef'' (kp_destination p) @
          optional_text ''externalEventId'' (kp_external p) @
          optional_text ''rescheduleUid'' (kp_reschedule_uid p) @
          optional_text ''previousExternalEventId'' (kp_previous p)))]))"

definition calendar_payload_fields :: "calendar_change struct_fields" where
  "calendar_payload_fields =
     [string_field ''uid'' kp_uid (\<lambda>s x. x\<lparr>kp_uid := s\<rparr>),
      string_field ''status'' kp_status (\<lambda>s x. x\<lparr>kp_status := s\<rparr>),
      string_field ''start'' kp_start (\<lambda>s x. x\<lparr>kp_start := s\<rparr>),
      string_field ''end'' kp_end (\<lambda>s x. x\<lparr>kp_end := s\<rparr>),
      int_field ''eventTypeId'' kp_event_type_id (\<lambda>n x. x\<lparr>kp_event_type_id := n\<rparr>),
      string_field ''requestId'' kp_request_id (\<lambda>s x. x\<lparr>kp_request_id := s\<rparr>),
      string_field ''selectedCalendarRef'' kp_selected (\<lambda>s x. x\<lparr>kp_selected := s\<rparr>),
      string_field ''destinationCalendarRef'' kp_destination (\<lambda>s x. x\<lparr>kp_destination := s\<rparr>),
      string_field ''externalEventId'' kp_external (\<lambda>s x. x\<lparr>kp_external := s\<rparr>),
      string_field ''rescheduleUid'' kp_reschedule_uid (\<lambda>s x. x\<lparr>kp_reschedule_uid := s\<rparr>),
      string_field ''previousExternalEventId'' kp_previous (\<lambda>s x. x\<lparr>kp_previous := s\<rparr>)]"

definition calendar_fields :: "calendar_envelope struct_fields" where
  "calendar_fields =
     [string_field ''action'' ke_action (\<lambda>s x. x\<lparr>ke_action := s\<rparr>),
      string_field ''createdAt'' ke_created_at (\<lambda>s x. x\<lparr>ke_created_at := s\<rparr>),
      (''payload'', \<lambda>v x. map_option (\<lambda>p. x\<lparr>ke_payload := p\<rparr>)
         (decode_struct False calendar_payload_fields v (ke_payload x)))]"

definition zero_calendar :: calendar_envelope where
  "zero_calendar = \<lparr>ke_action = [], ke_created_at = [], ke_payload = \<lparr>kp_uid = [], kp_status = [], kp_start = [],
     kp_end = [], kp_event_type_id = 0, kp_request_id = [], kp_selected = [], kp_destination = [],
     kp_external = [], kp_reschedule_uid = [], kp_previous = []\<rparr>\<rparr>"

section \<open>Provider adapters\<close>

text \<open>The two packages declare the same type of a prepared dispatch. Header names are distinct.\<close>

record prepared_dispatch =
  pd_url :: string
  pd_content_type :: string
  pd_headers :: "string gomap option"
  pd_body :: json

text \<open>The input of an adapter has the fields of the envelope.\<close>

type_synonym email_provider = "mail_envelope \<Rightarrow> string + prepared_dispatch"
type_synonym calendar_provider = "calendar_envelope \<Rightarrow> string + prepared_dispatch"

definition resend_template :: "string \<Rightarrow> string" where
  "resend_template action =
     (if action = ''BOOKING_CANCELLED'' then ''booking-cancelled''
      else if action = ''BOOKING_RESCHEDULED'' then ''booking-rescheduled''
      else if action = ''BOOKING_CONFIRMED'' then ''booking-confirmed''
      else if action = ''BOOKING_REJECTED'' then ''booking-rejected''
      else ''booking-update'')"

definition resend_request :: "mail_envelope \<Rightarrow> string + json" where
  "resend_request input =
     (let p = mv_payload input; recipients = (case ml_recipients p of None \<Rightarrow> [] | Some rs \<Rightarrow> rs)
      in if ml_request_id p = [] \<or> ml_uid p = []
         then Inl ''email provider dispatch requires booking uid and request id''
         else if recipients = [] then Inl ''email provider dispatch requires at least one recipient''
         else Inr (JObj (text_member ''provider'' ''resend-email-fixture'' @
           text_member ''template'' (resend_template (mv_action input)) @
           text_member ''requestedAt'' (mv_created_at input) @ text_member ''requestId'' (ml_request_id p) @
           [(''message'', JObj
              [(''to'', JArr (map (\<lambda>r. person_json (mr_name r) (mr_email r) (mr_time_zone r)) recipients)),
               (''variables'', JObj (text_member ''uid'' (ml_uid p) @ optional_text ''title'' (ml_title p) @
                  text_member ''status'' (ml_status p) @ text_member ''start'' (ml_start p) @
                  text_member ''end'' (ml_end p) @ int_member ''eventTypeId'' (ml_event_type_id p) @
                  optional_text ''cancellationReason'' (ml_cancellation p) @
                  optional_text ''rescheduleUid'' (ml_reschedule_uid p) @
                  optional_text ''reschedulingReason'' (ml_reschedule_reason p) @
                  optional_text ''rejectionReason'' (ml_rejection p)))])])))"

definition resend_fixture_provider :: email_provider where
  "resend_fixture_provider input =
     (case resend_request input of
        Inl e \<Rightarrow> Inl e
      | Inr body \<Rightarrow> Inr \<lparr>pd_url = [], pd_content_type = ''application/json'',
          pd_headers = Some [(''X-Cal-Email-Provider'', ''resend-email-fixture'')], pd_body = body\<rparr>)"

definition google_event_id :: "calendar_envelope \<Rightarrow> string" where
  "google_event_id input =
     (if kp_external (ke_payload input) \<noteq> [] then kp_external (ke_payload input) else kp_uid (ke_payload input))"

definition google_previous_id :: "calendar_envelope \<Rightarrow> string" where
  "google_previous_id input =
     (if kp_previous (ke_payload input) \<noteq> [] then kp_previous (ke_payload input)
      else kp_reschedule_uid (ke_payload input))"

definition google_request :: "calendar_envelope \<Rightarrow> string + json" where
  "google_request input =
     (let p = ke_payload input; event_id = google_event_id input;
          request = (\<lambda>operation times. JObj (text_member ''provider'' ''google-calendar-fixture'' @
            text_member ''operation'' operation @ text_member ''requestedAt'' (ke_created_at input) @
            text_member ''requestId'' (kp_request_id p) @
            [(''event'', JObj (text_member ''id'' event_id @ times @
               optional_text ''selectedCalendarRef'' (kp_selected p) @
               optional_text ''destinationCalendarRef'' (kp_destination p)))]))
      in if ke_action input = ''BOOKING_CANCELLED''
         then (if event_id = [] \<or> kp_request_id p = []
               then Inl ''calendar provider dispatch requires an event id and request id''
               else Inr (request ''cancel_event'' []))
         else if ke_action input = ''BOOKING_RESCHEDULED''
         then (if event_id = [] \<or> kp_request_id p = [] \<or> kp_start p = [] \<or> kp_end p = []
               then Inl ''calendar provider reschedule dispatch requires an event id, request id, start, and end''
               else Inr (request ''move_event'' (optional_text ''start'' (kp_start p) @
                 optional_text ''end'' (kp_end p) @ optional_text ''previousId'' (google_previous_id input))))
         else Inl ''calendar provider action is unsupported'')"

definition google_fixture_provider :: calendar_provider where
  "google_fixture_provider input =
     (case google_request input of
        Inl e \<Rightarrow> Inl e
      | Inr body \<Rightarrow> Inr \<lparr>pd_url = [], pd_content_type = ''application/json'',
          pd_headers = Some [(''X-Cal-Calendar-Provider'', ''google-calendar-fixture'')], pd_body = body\<rparr>)"

section \<open>Subscriptions and secrets\<close>

record webhook_subscription =
  ws_id :: int
  ws_url :: string
  ws_trigger :: string
  ws_signing_key :: string
  ws_active :: bool

text \<open>\<open>FixtureWebhookSigningSecretResolver\<close>; the error is the text of the sentinel.\<close>

definition resolve_fixture_secret :: "(string \<rightharpoonup> string) \<Rightarrow> string \<Rightarrow> string + string option" where
  "resolve_fixture_secret secrets key =
     (if key = [] then Inl ''empty webhook signing key ref''
      else case secrets key of
        None \<Rightarrow> Inr None
      | Some secret \<Rightarrow> if secret = [] then Inl ''empty webhook signing secret'' else Inr (Some secret))"

definition fixture_subscriptions :: "string \<Rightarrow> string \<Rightarrow> webhook_subscription list" where
  "fixture_subscriptions url key =
     (if url = [] \<or> key = [] then []
      else map (\<lambda>trigger. \<lparr>ws_id = 0, ws_url = url, ws_trigger = trigger, ws_signing_key = key, ws_active = True\<rparr>)
        [''BOOKING_CANCELLED'', ''BOOKING_RESCHEDULED'', ''BOOKING_CONFIRMED'', ''BOOKING_REJECTED''])"

text \<open>The HMAC of the body's text, in hexadecimal, is a parameter.\<close>

definition sign_webhook_body :: "(json \<Rightarrow> string \<Rightarrow> string) \<Rightarrow> json \<Rightarrow> string \<Rightarrow> string + string" where
  "sign_webhook_body hmac body secret =
     (if secret = [] then Inl ''empty webhook signing secret'' else Inr (''sha256='' @ hmac body secret))"

section \<open>Transports\<close>

record webhook_attempt =
  at_id :: int
  at_delivery :: int
  at_effect :: int
  at_subscriber :: int
  at_url :: string
  at_trigger :: string
  at_content_type :: string
  at_header :: string
  at_signature :: string
  at_body :: json

record target_attempt =
  tt_id :: int
  tt_delivery :: int
  tt_effect :: int
  tt_url :: string
  tt_action :: string
  tt_content_type :: string
  tt_body :: json

text \<open>
  What a transport returns: the status of its receipt, and the error, if any: the transport's own
  error type with a status, or any other error.
\<close>

datatype delivery_failure = StatusFailure int | OtherFailure string

record delivery_outcome =
  do_status :: int
  do_failure :: "delivery_failure option"

type_synonym ('m, 'w) transport = "'m \<Rightarrow> 'w \<Rightarrow> delivery_outcome \<times> 'w"

definition outcome_status :: "delivery_outcome \<Rightarrow> int" where
  "outcome_status x =
     (if 0 < do_status x then do_status x
      else case do_failure x of Some (StatusFailure n) \<Rightarrow> n | _ \<Rightarrow> 0)"

definition safe_error :: "string \<Rightarrow> delivery_failure \<Rightarrow> string" where
  "safe_error what f =
     (case f of
        StatusFailure n \<Rightarrow> if 0 < n then what @ '' returned status '' @ show_int n else what @ '' failed''
      | OtherFailure _ \<Rightarrow> what @ '' failed'')"

text \<open>
  The HTTP transports: a POST to the network, which knows all requests made so far and answers each
  with a status, or not at all (a URL that does not parse, a connection that fails).
\<close>

record http_post_request =
  hp_url :: string
  hp_headers :: "(string \<times> string) list"
  hp_body :: json

type_synonym network = "http_post_request list \<Rightarrow> http_post_request \<Rightarrow> int option"

definition post_request :: "network \<Rightarrow> (http_post_request, http_post_request list) transport" where
  "post_request net r sent =
     (case net sent r of
        None \<Rightarrow> (\<lparr>do_status = 0, do_failure = Some (StatusFailure 0)\<rparr>, sent @ [r])
      | Some status \<Rightarrow>
          (\<lparr>do_status = status,
            do_failure = (if status < 200 \<or> 300 \<le> status then Some (StatusFailure status) else None)\<rparr>,
           sent @ [r]))"

definition not_sent :: delivery_outcome where
  "not_sent = \<lparr>do_status = 0, do_failure = Some (StatusFailure 0)\<rparr>"

definition http_webhook_transport :: "network \<Rightarrow> (webhook_attempt, http_post_request list) transport" where
  "http_webhook_transport net a sent =
     (if at_url a = [] \<or> at_content_type a = [] \<or> at_header a = [] \<or> at_signature a = [] then (not_sent, sent)
      else post_request net \<lparr>hp_url = at_url a,
        hp_headers = [(''Content-Type'', at_content_type a), (at_header a, at_signature a)], hp_body = at_body a\<rparr> sent)"

text \<open>The email and the calendar transport are the same code.\<close>

definition http_dispatch_transport :: "network \<Rightarrow> (prepared_dispatch, http_post_request list) transport" where
  "http_dispatch_transport net p sent =
     (if pd_url p = [] \<or> pd_content_type p = [] then (not_sent, sent)
      else post_request net \<lparr>hp_url = pd_url p,
        hp_headers = (''Content-Type'', pd_content_type p) #
          filter (\<lambda>(name, value). name \<noteq> [] \<and> value \<noteq> []) (case pd_headers p of None \<Rightarrow> [] | Some hs \<Rightarrow> hs),
        hp_body = pd_body p\<rparr> sent)"

definition http_email_transport :: "network \<Rightarrow> (prepared_dispatch, http_post_request list) transport" where
  "http_email_transport = http_dispatch_transport"

definition http_calendar_transport :: "network \<Rightarrow> (prepared_dispatch, http_post_request list) transport" where
  "http_calendar_transport = http_dispatch_transport"

end
