(* ===== verification/Dispatcher.thy ===== *)
theory Dispatcher
  imports Deliveries
begin

text \<open>
  The side-effect dispatcher (\<open>internal/booking/postgres_side_effect_dispatcher*.go\<close>) over the tables
  of the migrations \<open>0009\<close> to \<open>0015\<close>, the subscription table (\<open>postgres_webhook_subscriptions.go\<close>), its
  metrics (\<open>webhook_metrics.go\<close>), and the worker that empties the queue (\<open>side_effect_worker.go\<close>).
  A statement fails by violating a constraint only; a transaction that fails leaves the tables alone.
  An id is the next after those in its table. The texts of errors are shortened to their operation.
\<close>

section \<open>The tables\<close>

datatype delivery_kind = WebhookDelivery | EmailDelivery | CalendarDispatch

record log_row =
  dl_effect :: int
  dl_booking_uid :: string
  dl_name :: string
  dl_request_id :: string
  dl_at :: int

text \<open>The rows of \<open>booking_webhook_deliveries\<close>, \<open>booking_email_deliveries\<close> and \<open>booking_calendar_dispatches\<close>.\<close>

record delivery_row =
  dv_id :: int
  dv_effect :: int
  dv_booking_uid :: string
  dv_request_id :: string
  dv_action :: string
  dv_content_type :: string
  dv_created_at :: string
  dv_body :: json

record webhook_attempt_row =
  wa_attempt :: webhook_attempt
  wa_count :: int
  wa_last_at :: "int option"
  wa_delivered_at :: "int option"
  wa_dead_at :: "int option"
  wa_status :: "int option"
  wa_error :: "string option"

text \<open>The attempts of an email or calendar delivery.\<close>

record target_attempt_row =
  ta_attempt :: target_attempt
  ta_count :: int
  ta_last_at :: "int option"
  ta_delivered_at :: "int option"
  ta_status :: "int option"
  ta_error :: "string option"

record subscription_row =
  su_subscription :: webhook_subscription
  su_failures :: int
  su_disabled_at :: "int option"
  su_disabled_reason :: "string option"

text \<open>The database, and the world the transports act on.\<close>

record 'w dispatch_db = booking_db +
  dd_log :: "log_row list"
  dd_deliveries :: "delivery_kind \<Rightarrow> delivery_row list"
  dd_webhook_attempts :: "webhook_attempt_row list"
  dd_target_attempts :: "delivery_kind \<Rightarrow> target_attempt_row list"
  dd_subscriptions :: "subscription_row list"
  dd_world :: 'w

datatype dispatch_error = DispatchError string | DeliveryError delivery_failure

type_synonym ('w, 'a) dispatch_handler = "('w dispatch_db, dispatch_error, 'a) handler"

text \<open>A transaction.\<close>

definition in_tx :: "('s, 'e, 'a) handler \<Rightarrow> ('s, 'e, 'a) handler" where
  "in_tx h s = (case h s of (Inl e, t) \<Rightarrow> (Inl e, s) | (Inr x, t) \<Rightarrow> (Inr x, t))"

definition next_id :: "int list \<Rightarrow> int" where
  "next_id is = fold max is 0 + 1"

section \<open>The dispatcher\<close>

text \<open>
  The fields of the dispatcher, a nil interface being \<open>None\<close>; and the platform: the digest of a body,
  and the value of a \<open>jsonb\<close> column as the database prints it, members in its order.
\<close>

record 'w dispatcher =
  dp_bookings :: "(string \<Rightarrow> 'w dispatch_db \<Rightarrow> booking_error + booking option) option"
  dp_subscriptions :: "(string \<Rightarrow> 'w dispatch_db \<Rightarrow> string + webhook_subscription list) option"
  dp_secrets :: "(string \<Rightarrow> string + string option) option"
  dp_webhook :: "(webhook_attempt, 'w) transport option"
  dp_email_provider :: "email_provider option"
  dp_email :: "(prepared_dispatch, 'w) transport option"
  dp_email_url :: string
  dp_calendar_provider :: "calendar_provider option"
  dp_calendar :: "(prepared_dispatch, 'w) transport option"
  dp_calendar_url :: string
  dp_max_attempts :: int
  dp_hmac :: "json \<Rightarrow> string \<Rightarrow> string"
  dp_jsonb :: "json \<Rightarrow> json"

definition default_max_attempts :: int where
  "default_max_attempts = 3"

text \<open>The constructor with its options; an option that is nil, or not positive, leaves the default.\<close>

definition new_dispatcher ::
    "(string \<Rightarrow> 'w dispatch_db \<Rightarrow> booking_error + booking option) option \<Rightarrow>
     (string \<Rightarrow> 'w dispatch_db \<Rightarrow> string + webhook_subscription list) option \<Rightarrow>
     (string \<Rightarrow> string + string option) option \<Rightarrow> (webhook_attempt, 'w) transport option \<Rightarrow>
     int option \<Rightarrow> email_provider option \<Rightarrow> (prepared_dispatch, 'w) transport option \<Rightarrow> string \<Rightarrow>
     calendar_provider option \<Rightarrow> (prepared_dispatch, 'w) transport option \<Rightarrow> string \<Rightarrow>
     (json \<Rightarrow> string \<Rightarrow> string) \<Rightarrow> (json \<Rightarrow> json) \<Rightarrow> 'w dispatcher" where
  "new_dispatcher bookings subscriptions secrets webhook max_attempts eprov email eurl cprov calendar curl hmac jsonb =
     \<lparr>dp_bookings = bookings, dp_subscriptions = subscriptions, dp_secrets = secrets, dp_webhook = webhook,
      dp_email_provider = Some (case eprov of None \<Rightarrow> resend_fixture_provider | Some p \<Rightarrow> p),
      dp_email = email, dp_email_url = eurl,
      dp_calendar_provider = Some (case cprov of None \<Rightarrow> google_fixture_provider | Some p \<Rightarrow> p),
      dp_calendar = calendar, dp_calendar_url = curl,
      dp_max_attempts = (case max_attempts of Some n \<Rightarrow> if 0 < n then n else default_max_attempts
        | None \<Rightarrow> default_max_attempts),
      dp_hmac = hmac, dp_jsonb = jsonb\<rparr>"

section \<open>Deliveries\<close>

record delivery_record =
  dr_id :: int
  dr_action :: string
  dr_content_type :: string
  dr_created_at :: string
  dr_body :: json

text \<open>The foreign keys of a row for an effect.\<close>

definition effect_known :: "queued_effect \<Rightarrow> 'w dispatch_db \<Rightarrow> bool" where
  "effect_known e db \<longleftrightarrow> list_ex (\<lambda>w. ew_id w = qe_id e) (bd_effects db) \<and>
     list_ex (\<lambda>w. bw_uid w = qe_booking_uid e) (bd_bookings db)"

definition record_dispatch :: "queued_effect \<Rightarrow> ('w, unit) dispatch_handler" where
  "record_dispatch e db =
     (if list_ex (\<lambda>l. dl_effect l = qe_id e) (dd_log db) then (Inr (), db)
      else if effect_known e db
      then (Inr (), db\<lparr>dd_log := dd_log db @ [\<lparr>dl_effect = qe_id e, dl_booking_uid = qe_booking_uid e,
              dl_name = qe_name e, dl_request_id = qe_request_id e, dl_at = bd_now db\<rparr>]\<rparr>)
      else (Inl (DispatchError ''record side effect dispatch''), db))"

definition row_of_effect :: "int \<Rightarrow> delivery_row list \<Rightarrow> delivery_row option" where
  "row_of_effect i rows = find (\<lambda>d. dv_effect d = i) rows"

definition read_delivery :: "delivery_kind \<Rightarrow> (json \<Rightarrow> json) \<Rightarrow> int \<Rightarrow> 'w dispatch_db \<Rightarrow> delivery_record option" where
  "read_delivery kind jsonb i db =
     map_option (\<lambda>d. \<lparr>dr_id = dv_id d, dr_action = dv_action d, dr_content_type = dv_content_type d,
         dr_created_at = dv_created_at d, dr_body = jsonb (dv_body d)\<rparr>)
       (row_of_effect i (dd_deliveries db kind))"

definition upsert_delivery :: "delivery_kind \<Rightarrow> queued_effect \<Rightarrow> delivery_record \<Rightarrow> ('w, int) dispatch_handler" where
  "upsert_delivery kind e d db =
     (case row_of_effect (qe_id e) (dd_deliveries db kind) of
        Some row \<Rightarrow> (Inr (dv_id row), db)
      | None \<Rightarrow>
          if \<not> effect_known e db then (Inl (DispatchError ''record delivery''), db)
          else
            let i = next_id (map dv_id (dd_deliveries db kind))
            in (Inr i, db\<lparr>dd_deliveries := (dd_deliveries db)(kind := dd_deliveries db kind @
                 [\<lparr>dv_id = i, dv_effect = qe_id e, dv_booking_uid = qe_booking_uid e,
                   dv_request_id = qe_request_id e, dv_action = dr_action d,
                   dv_content_type = dr_content_type d, dv_created_at = dr_created_at d,
                   dv_body = dr_body d\<rparr>])\<rparr>))"

text \<open>The booking of an effect, for an envelope of kind \<open>what\<close>.\<close>

definition booking_for :: "'w dispatcher \<Rightarrow> string \<Rightarrow> queued_effect \<Rightarrow> ('w, booking) dispatch_handler" where
  "booking_for d what e =
     and_then (demand (dp_bookings d) (DispatchError (what @ '' requires a booking reader''))) (\<lambda>reader.
     reading (\<lambda>db. case reader (qe_booking_uid e) db of
         Inl f \<Rightarrow> fail_with (DispatchError (''read booking for '' @ what))
       | Inr None \<Rightarrow> fail_with (DispatchError (''read booking for '' @ what @ '': not found''))
       | Inr (Some b) \<Rightarrow> return_ok b))"

definition build_webhook :: "'w dispatcher \<Rightarrow> queued_effect \<Rightarrow> ('w, delivery_record option) dispatch_handler" where
  "build_webhook d e =
     (if webhook_trigger (qe_name e) = None then return_ok None
      else and_then (booking_for d ''webhook dispatch'' e) (\<lambda>b.
        return_ok (map_option (\<lambda>env. \<lparr>dr_id = 0, dr_action = we_trigger env,
          dr_content_type = ''application/json'', dr_created_at = we_created_at env, dr_body = webhook_json env\<rparr>)
          (webhook_envelope_for e b))))"

definition build_email :: "'w dispatcher \<Rightarrow> queued_effect \<Rightarrow> ('w, delivery_record option) dispatch_handler" where
  "build_email d e =
     (if email_action (qe_name e) = None then return_ok None
      else and_then (booking_for d ''email delivery'' e) (\<lambda>b.
        return_ok (map_option (\<lambda>env. \<lparr>dr_id = 0, dr_action = mv_action env,
          dr_content_type = ''application/json'', dr_created_at = mv_created_at env, dr_body = mail_json env\<rparr>)
          (mail_envelope_for e b))))"

definition build_calendar :: "'w dispatcher \<Rightarrow> queued_effect \<Rightarrow> ('w, delivery_record option) dispatch_handler" where
  "build_calendar d e =
     (if calendar_action (qe_name e) = None then return_ok None
      else and_then (booking_for d ''calendar dispatch'' e) (\<lambda>b.
        return_ok (map_option (\<lambda>env. \<lparr>dr_id = 0, dr_action = ke_action env,
          dr_content_type = ''application/json'', dr_created_at = ke_created_at env, dr_body = calendar_json env\<rparr>)
          (calendar_envelope_for e b))))"

text \<open>The delivery of an effect: the one on record, or a new one.\<close>

definition delivery_of ::
    "delivery_kind \<Rightarrow> 'w dispatcher \<Rightarrow> ('w, delivery_record option) dispatch_handler \<Rightarrow> queued_effect \<Rightarrow>
     ('w, delivery_record option) dispatch_handler" where
  "delivery_of kind d build e =
     reading (\<lambda>db. case read_delivery kind (dp_jsonb d) (qe_id e) db of
         Some r \<Rightarrow> return_ok (Some r)
       | None \<Rightarrow>
           and_then build (\<lambda>built. case built of
               None \<Rightarrow> return_ok None
             | Some r \<Rightarrow> and_then (upsert_delivery kind e r) (\<lambda>i. return_ok (Some (r\<lparr>dr_id := i\<rparr>)))))"

section \<open>Webhook attempts\<close>

fun signed_attempts ::
    "'w dispatcher \<Rightarrow> (string \<Rightarrow> string + string option) \<Rightarrow> json \<Rightarrow> webhook_subscription list \<Rightarrow>
     dispatch_error + webhook_attempt list" where
  "signed_attempts d secrets body [] = Inr []"
| "signed_attempts d secrets body (s # ss) =
     (case secrets (ws_signing_key s) of
        Inl f \<Rightarrow> Inl (DispatchError ''resolve webhook signing secret'')
      | Inr None \<Rightarrow> Inl (DispatchError ''resolve webhook signing secret: not found'')
      | Inr (Some secret) \<Rightarrow>
          (case sign_webhook_body (dp_hmac d) body secret of
             Inl f \<Rightarrow> Inl (DispatchError f)
           | Inr signature \<Rightarrow>
               (case signed_attempts d secrets body ss of
                  Inl f \<Rightarrow> Inl f
                | Inr as \<Rightarrow>
                    Inr (\<lparr>at_id = 0, at_delivery = 0, at_effect = 0, at_subscriber = ws_id s, at_url = ws_url s,
                      at_trigger = ws_trigger s, at_content_type = ''application/json'',
                      at_header = ''X-Cal-Signature-256'', at_signature = signature, at_body = body\<rparr> # as))))"

definition webhook_templates ::
    "'w dispatcher \<Rightarrow> string \<Rightarrow> json \<Rightarrow> ('w, webhook_attempt list) dispatch_handler" where
  "webhook_templates d trigger body =
     and_then (demand (dp_subscriptions d) (DispatchError ''webhook dispatch requires a subscription store'')) (\<lambda>subs.
     and_then (demand (dp_secrets d) (DispatchError ''webhook dispatch requires a signing secret resolver'')) (\<lambda>secrets.
     reading (\<lambda>db. case subs trigger db of
         Inl f \<Rightarrow> fail_with (DispatchError ''read webhook subscriptions'')
       | Inr ss \<Rightarrow> lift_result (signed_attempts d secrets body ss))))"

fun record_webhook_attempts ::
    "queued_effect \<Rightarrow> delivery_record \<Rightarrow> webhook_attempt list \<Rightarrow> ('w, unit) dispatch_handler" where
  "record_webhook_attempts e r [] db = (Inr (), db)"
| "record_webhook_attempts e r (a # as) db =
     (if list_ex (\<lambda>w. at_delivery (wa_attempt w) = dr_id r \<and> at_subscriber (wa_attempt w) = at_subscriber a)
           (dd_webhook_attempts db)
      then record_webhook_attempts e r as db
      else if \<not> list_ex (\<lambda>s. ws_id (su_subscription s) = at_subscriber a) (dd_subscriptions db)
      then (Inl (DispatchError ''record webhook delivery attempt''), db)
      else record_webhook_attempts e r as (db\<lparr>dd_webhook_attempts := dd_webhook_attempts db @
        [\<lparr>wa_attempt = a\<lparr>at_id := next_id (map (\<lambda>w. at_id (wa_attempt w)) (dd_webhook_attempts db)),
             at_delivery := dr_id r, at_effect := qe_id e, at_trigger := dr_action r,
             at_content_type := dr_content_type r, at_body := dr_body r\<rparr>,
          wa_count = 0, wa_last_at = None, wa_delivered_at = None, wa_dead_at = None, wa_status = None,
          wa_error = None\<rparr>]\<rparr>))"

definition webhook_pending :: "webhook_attempt_row \<Rightarrow> bool" where
  "webhook_pending w \<longleftrightarrow> wa_delivered_at w = None \<and> wa_dead_at w = None"

definition pending_webhooks :: "int \<Rightarrow> 'w dispatch_db \<Rightarrow> webhook_attempt list" where
  "pending_webhooks i db =
     sort_by (\<lambda>l r. at_id l \<le> at_id r) (map wa_attempt
       (filter (\<lambda>w. at_effect (wa_attempt w) = i \<and> webhook_pending w) (dd_webhook_attempts db)))"

definition prepare_webhook_attempts ::
    "'w dispatcher \<Rightarrow> queued_effect \<Rightarrow> ('w, webhook_attempt list) dispatch_handler" where
  "prepare_webhook_attempts d e =
     (if webhook_trigger (qe_name e) = None then return_ok []
      else and_then (delivery_of WebhookDelivery d (build_webhook d e) e) (\<lambda>found. case found of
          None \<Rightarrow> return_ok []
        | Some r \<Rightarrow>
            and_then (reading (\<lambda>db.
               if list_ex (\<lambda>w. at_delivery (wa_attempt w) = dr_id r) (dd_webhook_attempts db) then return_ok ()
               else and_then (webhook_templates d (dr_action r) (dr_body r)) (record_webhook_attempts e r))) (\<lambda>_.
            reading (\<lambda>db. return_ok (pending_webhooks (qe_id e) db)))))"

section \<open>Email and calendar attempts\<close>

definition target_templates :: "string \<Rightarrow> string \<Rightarrow> delivery_record \<Rightarrow> ('w, target_attempt list) dispatch_handler" where
  "target_templates url failure r =
     and_then (check (url \<noteq> []) (DispatchError failure)) (\<lambda>_.
     return_ok [\<lparr>tt_id = 0, tt_delivery = 0, tt_effect = 0, tt_url = url, tt_action = dr_action r,
       tt_content_type = dr_content_type r, tt_body = dr_body r\<rparr>])"

fun record_target_attempts ::
    "delivery_kind \<Rightarrow> queued_effect \<Rightarrow> delivery_record \<Rightarrow> target_attempt list \<Rightarrow> ('w, unit) dispatch_handler" where
  "record_target_attempts kind e r [] db = (Inr (), db)"
| "record_target_attempts kind e r (a # as) db =
     record_target_attempts kind e r as
       (if list_ex (\<lambda>w. tt_delivery (ta_attempt w) = dr_id r \<and> tt_url (ta_attempt w) = tt_url a)
             (dd_target_attempts db kind)
        then db
        else db\<lparr>dd_target_attempts := (dd_target_attempts db)(kind := dd_target_attempts db kind @
          [\<lparr>ta_attempt = a\<lparr>tt_id := next_id (map (\<lambda>w. tt_id (ta_attempt w)) (dd_target_attempts db kind)),
               tt_delivery := dr_id r, tt_effect := qe_id e, tt_action := dr_action r,
               tt_content_type := dr_content_type r, tt_body := dr_body r\<rparr>,
            ta_count = 0, ta_last_at = None, ta_delivered_at = None, ta_status = None, ta_error = None\<rparr>])\<rparr>)"

definition pending_targets :: "delivery_kind \<Rightarrow> int \<Rightarrow> 'w dispatch_db \<Rightarrow> target_attempt list" where
  "pending_targets kind i db =
     sort_by (\<lambda>l r. tt_id l \<le> tt_id r) (map ta_attempt
       (filter (\<lambda>w. tt_effect (ta_attempt w) = i \<and> ta_delivered_at w = None) (dd_target_attempts db kind)))"

definition prepare_target_attempts ::
    "delivery_kind \<Rightarrow> 'w dispatcher \<Rightarrow> ('w, delivery_record option) dispatch_handler \<Rightarrow> string \<Rightarrow> string \<Rightarrow>
     queued_effect \<Rightarrow> ('w, target_attempt list) dispatch_handler" where
  "prepare_target_attempts kind d build url failure e =
     and_then (delivery_of kind d build e) (\<lambda>found. case found of
         None \<Rightarrow> return_ok []
       | Some r \<Rightarrow>
           and_then (reading (\<lambda>db.
              if list_ex (\<lambda>w. tt_delivery (ta_attempt w) = dr_id r) (dd_target_attempts db kind) then return_ok ()
              else and_then (target_templates url failure r) (record_target_attempts kind e r))) (\<lambda>_.
           reading (\<lambda>db. return_ok (pending_targets kind (qe_id e) db))))"

definition prepare_email_attempts :: "'w dispatcher \<Rightarrow> queued_effect \<Rightarrow> ('w, target_attempt list) dispatch_handler" where
  "prepare_email_attempts d e =
     (if email_action (qe_name e) = None then return_ok []
      else prepare_target_attempts EmailDelivery d (build_email d e) (dp_email_url d)
        ''email delivery requires a target url'' e)"

definition prepare_calendar_attempts :: "'w dispatcher \<Rightarrow> queued_effect \<Rightarrow> ('w, target_attempt list) dispatch_handler" where
  "prepare_calendar_attempts d e =
     (if calendar_action (qe_name e) = None then return_ok []
      else prepare_target_attempts CalendarDispatch d (build_calendar d e) (dp_calendar_url d)
        ''calendar dispatch requires a target url'' e)"

text \<open>The adapter's request for an attempt: its envelope is decoded from the body on record.\<close>

definition addressed :: "target_attempt \<Rightarrow> string \<Rightarrow> prepared_dispatch \<Rightarrow> prepared_dispatch" where
  "addressed a header p =
     (let headers = (case pd_headers p of None \<Rightarrow> [] | Some hs \<Rightarrow> hs)
      in p\<lparr>pd_url := tt_url a,
           pd_content_type := (if pd_content_type p = [] then tt_content_type a else pd_content_type p),
           pd_headers := Some (if gm_get headers header = None \<or> gm_get headers header = Some []
             then gm_put header (tt_action a) headers else headers)\<rparr>)"

definition prepare_email_dispatch :: "'w dispatcher \<Rightarrow> target_attempt \<Rightarrow> dispatch_error + prepared_dispatch" where
  "prepare_email_dispatch d a =
     (case dp_email_provider d of
        None \<Rightarrow> Inl (DispatchError ''email delivery requires a provider adapter'')
      | Some provider \<Rightarrow>
          (case decode_struct False mail_fields (tt_body a) zero_mail of
             None \<Rightarrow> Inl (DispatchError ''decode email delivery envelope'')
           | Some envelope \<Rightarrow>
               (case provider envelope of
                  Inl f \<Rightarrow> Inl (DispatchError ''prepare email provider dispatch'')
                | Inr p \<Rightarrow> Inr (addressed a ''X-Cal-Email-Action'' p))))"

definition prepare_calendar_dispatch :: "'w dispatcher \<Rightarrow> target_attempt \<Rightarrow> dispatch_error + prepared_dispatch" where
  "prepare_calendar_dispatch d a =
     (case dp_calendar_provider d of
        None \<Rightarrow> Inl (DispatchError ''calendar dispatch requires a provider adapter'')
      | Some provider \<Rightarrow>
          (case decode_struct False calendar_fields (tt_body a) zero_calendar of
             None \<Rightarrow> Inl (DispatchError ''decode calendar dispatch envelope'')
           | Some envelope \<Rightarrow>
               (case provider envelope of
                  Inl f \<Rightarrow> Inl (DispatchError ''prepare calendar provider dispatch'')
                | Inr p \<Rightarrow> Inr (addressed a ''X-Cal-Calendar-Action'' p))))"

section \<open>Outcomes\<close>

definition nullable_status :: "int \<Rightarrow> int option" where
  "nullable_status n = (if n \<le> 0 then None else Some n)"

text \<open>An \<open>update\<close> of the pending row with an id; it must have met a row.\<close>

definition update_webhook ::
    "int \<Rightarrow> (webhook_attempt_row \<Rightarrow> webhook_attempt_row) \<Rightarrow> ('w, webhook_attempt_row) dispatch_handler" where
  "update_webhook i f db =
     (case find (\<lambda>w. at_id (wa_attempt w) = i \<and> webhook_pending w) (dd_webhook_attempts db) of
        None \<Rightarrow> (Inl (DispatchError ''webhook attempt was not pending''), db)
      | Some w \<Rightarrow> (Inr (f w), db\<lparr>dd_webhook_attempts :=
          map (\<lambda>w. if at_id (wa_attempt w) = i \<and> webhook_pending w then f w else w) (dd_webhook_attempts db)\<rparr>))"

definition update_subscription :: "int \<Rightarrow> (subscription_row \<Rightarrow> subscription_row) \<Rightarrow> ('w, unit) dispatch_handler" where
  "update_subscription i f db =
     (Inr (), db\<lparr>dd_subscriptions :=
        map (\<lambda>s. if ws_id (su_subscription s) = i then f s else s) (dd_subscriptions db)\<rparr>)"

definition mark_webhook_delivered :: "int \<Rightarrow> int \<Rightarrow> ('w, unit) dispatch_handler" where
  "mark_webhook_delivered i status = in_tx
     (reading (\<lambda>db.
      and_then (update_webhook i (\<lambda>w. w\<lparr>wa_delivered_at := Some (bd_now db), wa_status := nullable_status status,
        wa_error := None, wa_last_at := Some (bd_now db), wa_count := wa_count w + 1\<rparr>)) (\<lambda>w.
      update_subscription (at_subscriber (wa_attempt w)) (\<lambda>s. s\<lparr>su_failures := 0\<rparr>))))"

text \<open>The result says whether the attempt is a dead letter now.\<close>

definition mark_webhook_failed :: "int \<Rightarrow> int \<Rightarrow> delivery_failure \<Rightarrow> int \<Rightarrow> ('w, bool) dispatch_handler" where
  "mark_webhook_failed i status failure max_attempts =
     (let max_attempts = (if max_attempts \<le> 0 then default_max_attempts else max_attempts) in in_tx
     (reading (\<lambda>db.
      and_then (update_webhook i (\<lambda>w. w\<lparr>wa_status := nullable_status status,
        wa_error := Some (safe_error ''webhook delivery'' failure), wa_last_at := Some (bd_now db),
        wa_count := wa_count w + 1,
        wa_dead_at := (if max_attempts \<le> wa_count w + 1 then Some (bd_now db) else wa_dead_at w)\<rparr>)) (\<lambda>w.
      if wa_dead_at w = None
      then and_then (update_subscription (at_subscriber (wa_attempt w)) (\<lambda>s. s\<lparr>su_failures := su_failures s + 1\<rparr>))
        (\<lambda>_. return_ok False)
      else and_then (update_subscription (at_subscriber (wa_attempt w)) (\<lambda>s.
          s\<lparr>su_subscription := (su_subscription s)\<lparr>ws_active := False\<rparr>, su_failures := su_failures s + 1,
            su_disabled_at := (case su_disabled_at s of None \<Rightarrow> Some (bd_now db) | Some t \<Rightarrow> Some t),
            su_disabled_reason := Some ''delivery attempts exhausted''\<rparr>))
        (\<lambda>_. return_ok True)))))"

definition update_target ::
    "delivery_kind \<Rightarrow> int \<Rightarrow> string \<Rightarrow> (target_attempt_row \<Rightarrow> target_attempt_row) \<Rightarrow> ('w, unit) dispatch_handler" where
  "update_target kind i what f db =
     (if list_ex (\<lambda>w. tt_id (ta_attempt w) = i \<and> ta_delivered_at w = None) (dd_target_attempts db kind)
      then (Inr (), db\<lparr>dd_target_attempts := (dd_target_attempts db)(kind :=
          map (\<lambda>w. if tt_id (ta_attempt w) = i \<and> ta_delivered_at w = None then f w else w)
            (dd_target_attempts db kind))\<rparr>)
      else (Inl (DispatchError (what @ '' attempt was not pending'')), db))"

definition mark_target_delivered :: "delivery_kind \<Rightarrow> string \<Rightarrow> int \<Rightarrow> int \<Rightarrow> ('w, unit) dispatch_handler" where
  "mark_target_delivered kind what i status =
     reading (\<lambda>db. update_target kind i what (\<lambda>w. w\<lparr>ta_delivered_at := Some (bd_now db),
       ta_status := nullable_status status, ta_error := None, ta_last_at := Some (bd_now db),
       ta_count := ta_count w + 1\<rparr>))"

definition mark_target_failed :: "delivery_kind \<Rightarrow> string \<Rightarrow> int \<Rightarrow> int \<Rightarrow> delivery_failure \<Rightarrow> ('w, unit) dispatch_handler" where
  "mark_target_failed kind what i status failure =
     reading (\<lambda>db. update_target kind i what (\<lambda>w. w\<lparr>ta_status := nullable_status status,
       ta_error := Some (safe_error what failure), ta_last_at := Some (bd_now db), ta_count := ta_count w + 1\<rparr>))"

text \<open>A call of a transport acts on the world.\<close>

definition send_by :: "('m, 'w) transport \<Rightarrow> 'm \<Rightarrow> ('w, delivery_outcome) dispatch_handler" where
  "send_by transport m db = (case transport m (dd_world db) of (x, w) \<Rightarrow> (Inr x, db\<lparr>dd_world := w\<rparr>))"

text \<open>The loop over the pending webhook attempts; it returns the first failure that is to be retried.\<close>

fun deliver_webhooks ::
    "'w dispatcher \<Rightarrow> (webhook_attempt, 'w) transport \<Rightarrow> webhook_attempt list \<Rightarrow> dispatch_error option \<Rightarrow>
     ('w, dispatch_error option) dispatch_handler" where
  "deliver_webhooks d transport [] err = return_ok err"
| "deliver_webhooks d transport (a # as) err =
     and_then (send_by transport a) (\<lambda>x. case do_failure x of
         Some f \<Rightarrow>
           and_then (mark_webhook_failed (at_id a) (outcome_status x) f (dp_max_attempts d)) (\<lambda>dead.
           deliver_webhooks d transport as (if err = None \<and> \<not> dead then Some (DeliveryError f) else err))
       | None \<Rightarrow>
           and_then (mark_webhook_delivered (at_id a) (outcome_status x)) (\<lambda>_.
           deliver_webhooks d transport as err))"

fun deliver_targets ::
    "delivery_kind \<Rightarrow> string \<Rightarrow> (target_attempt \<Rightarrow> dispatch_error + prepared_dispatch) \<Rightarrow>
     (prepared_dispatch, 'w) transport \<Rightarrow> target_attempt list \<Rightarrow> dispatch_error option \<Rightarrow>
     ('w, dispatch_error option) dispatch_handler" where
  "deliver_targets kind what prepare transport [] err = return_ok err"
| "deliver_targets kind what prepare transport (a # as) err =
     and_then (lift_result (prepare a)) (\<lambda>p.
     and_then (send_by transport p) (\<lambda>x. case do_failure x of
         Some f \<Rightarrow>
           and_then (mark_target_failed kind what (tt_id a) (outcome_status x) f) (\<lambda>_.
           deliver_targets kind what prepare transport as (if err = None then Some (DeliveryError f) else err))
       | None \<Rightarrow>
           and_then (mark_target_delivered kind what (tt_id a) (outcome_status x)) (\<lambda>_.
           deliver_targets kind what prepare transport as err)))"

text \<open>The instances for emails and calendars, which the code writes out.\<close>

definition read_email_delivery :: "(json \<Rightarrow> json) \<Rightarrow> int \<Rightarrow> 'w dispatch_db \<Rightarrow> delivery_record option" where
  "read_email_delivery = read_delivery EmailDelivery"

definition read_calendar_dispatch :: "(json \<Rightarrow> json) \<Rightarrow> int \<Rightarrow> 'w dispatch_db \<Rightarrow> delivery_record option" where
  "read_calendar_dispatch = read_delivery CalendarDispatch"

definition upsert_email_delivery :: "queued_effect \<Rightarrow> delivery_record \<Rightarrow> ('w, int) dispatch_handler" where
  "upsert_email_delivery = upsert_delivery EmailDelivery"

definition upsert_calendar_dispatch :: "queued_effect \<Rightarrow> delivery_record \<Rightarrow> ('w, int) dispatch_handler" where
  "upsert_calendar_dispatch = upsert_delivery CalendarDispatch"

definition record_email_attempts ::
    "queued_effect \<Rightarrow> delivery_record \<Rightarrow> target_attempt list \<Rightarrow> ('w, unit) dispatch_handler" where
  "record_email_attempts = record_target_attempts EmailDelivery"

definition record_calendar_attempts ::
    "queued_effect \<Rightarrow> delivery_record \<Rightarrow> target_attempt list \<Rightarrow> ('w, unit) dispatch_handler" where
  "record_calendar_attempts = record_target_attempts CalendarDispatch"

definition pending_emails :: "int \<Rightarrow> 'w dispatch_db \<Rightarrow> target_attempt list" where
  "pending_emails = pending_targets EmailDelivery"

definition pending_calendars :: "int \<Rightarrow> 'w dispatch_db \<Rightarrow> target_attempt list" where
  "pending_calendars = pending_targets CalendarDispatch"

definition mark_email_delivered :: "int \<Rightarrow> int \<Rightarrow> ('w, unit) dispatch_handler" where
  "mark_email_delivered = mark_target_delivered EmailDelivery ''email delivery''"

definition mark_calendar_delivered :: "int \<Rightarrow> int \<Rightarrow> ('w, unit) dispatch_handler" where
  "mark_calendar_delivered = mark_target_delivered CalendarDispatch ''calendar dispatch''"

definition mark_email_failed :: "int \<Rightarrow> int \<Rightarrow> delivery_failure \<Rightarrow> ('w, unit) dispatch_handler" where
  "mark_email_failed = mark_target_failed EmailDelivery ''email delivery''"

definition mark_calendar_failed :: "int \<Rightarrow> int \<Rightarrow> delivery_failure \<Rightarrow> ('w, unit) dispatch_handler" where
  "mark_calendar_failed = mark_target_failed CalendarDispatch ''calendar dispatch''"

section \<open>Dispatching an effect\<close>

text \<open>
  The preparation in its transaction. Bookings and subscriptions are read through the pool, outside the
  transaction; so that these reads can be taken at other moments than the transaction's, each of the three
  parts has the dispatcher with its readers as an argument of its own.
\<close>

definition prepare_attempts_via ::
    "'w dispatcher \<Rightarrow> 'w dispatcher \<Rightarrow> 'w dispatcher \<Rightarrow> queued_effect \<Rightarrow>
     ('w, webhook_attempt list \<times> target_attempt list \<times> target_attempt list) dispatch_handler" where
  "prepare_attempts_via dw de dc e = in_tx
     (and_then (record_dispatch e) (\<lambda>_.
      and_then (prepare_webhook_attempts dw e) (\<lambda>webhooks.
      and_then (prepare_email_attempts de e) (\<lambda>emails.
      and_then (prepare_calendar_attempts dc e) (\<lambda>calendars.
      return_ok (webhooks, emails, calendars))))))"

definition prepare_attempts ::
    "'w dispatcher \<Rightarrow> queued_effect \<Rightarrow> ('w, webhook_attempt list \<times> target_attempt list \<times> target_attempt list) dispatch_handler" where
  "prepare_attempts d e = prepare_attempts_via d d d e"

text \<open>The dispatcher whose bookings are read in the state \<open>b\<close> and whose subscriptions in the state \<open>s\<close>.\<close>

definition reading_from :: "'w dispatch_db \<Rightarrow> 'w dispatch_db \<Rightarrow> 'w dispatcher \<Rightarrow> 'w dispatcher" where
  "reading_from b s d = d\<lparr>
     dp_bookings := map_option (\<lambda>reader uid _. reader uid b) (dp_bookings d),
     dp_subscriptions := map_option (\<lambda>reader trigger _. reader trigger s) (dp_subscriptions d)\<rparr>"

definition dispatch_effect :: "'w dispatcher \<Rightarrow> queued_effect \<Rightarrow> ('w, unit) dispatch_handler" where
  "dispatch_effect d e =
     and_then (check (\<not> (qe_id e = 0 \<or> qe_name e = [] \<or> qe_booking_uid e = [] \<or> qe_request_id e = []))
       (DispatchError ''invalid planned side effect dispatch record'')) (\<lambda>_.
     and_then (prepare_attempts d e) (\<lambda>(webhooks, emails, calendars).
     and_then (if webhooks = [] then return_ok None
       else and_then (demand (dp_webhook d) (DispatchError ''webhook dispatch requires a transport'')) (\<lambda>transport.
         deliver_webhooks d transport webhooks None)) (\<lambda>err.
     and_then (if emails = [] then return_ok err
       else and_then (demand (dp_email d) (DispatchError ''email delivery requires a transport'')) (\<lambda>transport.
         deliver_targets EmailDelivery ''email delivery'' (prepare_email_dispatch d) transport emails err)) (\<lambda>err.
     and_then (if calendars = [] then return_ok err
       else and_then (demand (dp_calendar d) (DispatchError ''calendar dispatch requires a transport'')) (\<lambda>transport.
         deliver_targets CalendarDispatch ''calendar dispatch'' (prepare_calendar_dispatch d) transport calendars err)) (\<lambda>err.
     case err of None \<Rightarrow> return_ok () | Some f \<Rightarrow> fail_with f)))))"

section \<open>The subscription table\<close>

definition save_subscription :: "webhook_subscription \<Rightarrow> ('w, unit) dispatch_handler" where
  "save_subscription s db =
     (if ws_url s = [] \<or> ws_trigger s = [] \<or> ws_signing_key s = []
      then (Inl (DispatchError ''invalid webhook subscription''), db)
      else
        let same = (\<lambda>r. ws_url (su_subscription r) = ws_url s \<and> ws_trigger (su_subscription r) = ws_trigger s \<and>
              ws_signing_key (su_subscription r) = ws_signing_key s)
        in (Inr (), db\<lparr>dd_subscriptions :=
              (if list_ex same (dd_subscriptions db)
               then map (\<lambda>r. if same r \<and> su_disabled_at r = None
                  then r\<lparr>su_subscription := (su_subscription r)\<lparr>ws_active := ws_active s\<rparr>\<rparr> else r) (dd_subscriptions db)
               else dd_subscriptions db @ [\<lparr>su_subscription =
                    s\<lparr>ws_id := next_id (map (\<lambda>r. ws_id (su_subscription r)) (dd_subscriptions db))\<rparr>,
                  su_failures = 0, su_disabled_at = None, su_disabled_reason = None\<rparr>])\<rparr>))"

fun seed_subscriptions :: "webhook_subscription list \<Rightarrow> ('w, unit) dispatch_handler" where
  "seed_subscriptions [] = return_ok ()"
| "seed_subscriptions (s # ss) = and_then (save_subscription s) (\<lambda>_. seed_subscriptions ss)"

definition read_subscriptions :: "string \<Rightarrow> 'w dispatch_db \<Rightarrow> string + webhook_subscription list" where
  "read_subscriptions trigger db =
     Inr (sort_by (\<lambda>l r. ws_id l \<le> ws_id r)
       (filter (\<lambda>s. ws_trigger s = trigger \<and> ws_active s) (map su_subscription (dd_subscriptions db))))"

record webhook_metrics =
  wm_pending :: nat
  wm_delivered :: nat
  wm_failed_pending :: nat
  wm_dead :: nat
  wm_disabled :: nat

definition read_webhook_metrics :: "'w dispatch_db \<Rightarrow> webhook_metrics" where
  "read_webhook_metrics db = (let rows = dd_webhook_attempts db in
     \<lparr>wm_pending = length (filter webhook_pending rows),
      wm_delivered = length (filter (\<lambda>w. wa_delivered_at w \<noteq> None) rows),
      wm_failed_pending = length (filter (\<lambda>w. webhook_pending w \<and> wa_error w \<noteq> None) rows),
      wm_dead = length (filter (\<lambda>w. wa_dead_at w \<noteq> None) rows),
      wm_disabled = length (filter (\<lambda>s. \<not> ws_active (su_subscription s) \<and> su_disabled_at s \<noteq> None)
        (dd_subscriptions db))\<rparr>)"

section \<open>The worker\<close>

record ('s, 'e) effect_queue =
  qu_claim :: "int \<Rightarrow> ('s, 'e, queued_effect list) handler"
  qu_delivered :: "int \<Rightarrow> ('s, 'e, unit) handler"
  qu_failed :: "int \<Rightarrow> ('s, 'e, unit) handler"

record worker_result =
  wr_claimed :: nat
  wr_delivered :: nat
  wr_failed :: nat

datatype 'e worker_error = NoQueue | ClaimError 'e | MarkFailedError 'e | MarkDeliveredError 'e

text \<open>The loop over the claimed effects: the result so far goes with the error.\<close>

fun work_off ::
    "('s, 'e) effect_queue \<Rightarrow> (queued_effect \<Rightarrow> ('s, 'd, unit) handler) \<Rightarrow> queued_effect list \<Rightarrow> worker_result \<Rightarrow>
     's \<Rightarrow> (worker_result \<times> 'e worker_error option) \<times> 's" where
  "work_off q dispatch [] result s = ((result, None), s)"
| "work_off q dispatch (e # es) result s =
     (case dispatch e s of
        (Inl f, s) \<Rightarrow>
          (case qu_failed q (qe_id e) s of
             (Inl g, s) \<Rightarrow> ((result, Some (MarkFailedError g)), s)
           | (Inr _, s) \<Rightarrow> work_off q dispatch es (result\<lparr>wr_failed := wr_failed result + 1\<rparr>) s)
      | (Inr _, s) \<Rightarrow>
          (case qu_delivered q (qe_id e) s of
             (Inl g, s) \<Rightarrow> ((result, Some (MarkDeliveredError g)), s)
           | (Inr _, s) \<Rightarrow> work_off q dispatch es (result\<lparr>wr_delivered := wr_delivered result + 1\<rparr>) s))"

definition run_once ::
    "('s, 'e) effect_queue option \<Rightarrow> (queued_effect \<Rightarrow> ('s, 'd, unit) handler) option \<Rightarrow> int \<Rightarrow> 's \<Rightarrow>
     (worker_result \<times> 'e worker_error option) \<times> 's" where
  "run_once queue dispatch limit s =
     (let zero = \<lparr>wr_claimed = 0, wr_delivered = 0, wr_failed = 0\<rparr>;
          dispatch = (case dispatch of None \<Rightarrow> (\<lambda>_. return_ok ()) | Some f \<Rightarrow> f)
      in case queue of
        None \<Rightarrow> ((zero, Some NoQueue), s)
      | Some q \<Rightarrow>
          (case qu_claim q (if limit \<le> 0 then 25 else limit) s of
             (Inl e, s) \<Rightarrow> ((zero, Some (ClaimError e)), s)
           | (Inr es, s) \<Rightarrow> work_off q dispatch es (zero\<lparr>wr_claimed := length es\<rparr>) s))"

text \<open>The queue in the booking tables.\<close>

definition pg_effect_queue :: "(string \<Rightarrow> bool) \<Rightarrow> ('z booking_db_scheme, booking_error) effect_queue" where
  "pg_effect_queue float = \<lparr>qu_claim = claim_planned_effects float, qu_delivered = mark_effect_delivered,
     qu_failed = mark_effect_failed\<rparr>"

definition run_worker ::
    "(string \<Rightarrow> bool) \<Rightarrow> 'w dispatcher \<Rightarrow> int \<Rightarrow> 'w dispatch_db \<Rightarrow>
     (worker_result \<times> booking_error worker_error option) \<times> 'w dispatch_db" where
  "run_worker float d limit = run_once (Some (pg_effect_queue float)) (Some (dispatch_effect d)) limit"

text \<open>
  The command \<open>cmd/worker\<close> over a migrated database: its configuration, the dispatcher it makes and its
  run, which ends with an error or with the result of the worker and the metrics.
\<close>

record worker_config =
  wc_subscriber_url :: string
  wc_signing_key :: string
  wc_signing_secret :: string
  wc_max_attempts :: int
  wc_email_url :: string
  wc_calendar_url :: string

definition worker_dispatcher ::
    "(string \<Rightarrow> bool) \<Rightarrow> (json \<Rightarrow> string \<Rightarrow> string) \<Rightarrow> (json \<Rightarrow> json) \<Rightarrow> network \<Rightarrow> worker_config \<Rightarrow>
     http_post_request list dispatcher" where
  "worker_dispatcher float hmac jsonb net cfg =
     new_dispatcher (Some (pg_read_by_uid float)) (Some read_subscriptions)
       (Some (resolve_fixture_secret [wc_signing_key cfg \<mapsto> wc_signing_secret cfg]))
       (Some (http_webhook_transport net)) (Some (wc_max_attempts cfg))
       (Some resend_fixture_provider) (Some (http_email_transport net)) (wc_email_url cfg)
       (Some google_fixture_provider) (Some (http_calendar_transport net)) (wc_calendar_url cfg) hmac jsonb"

definition worker_main ::
    "(string \<Rightarrow> bool) \<Rightarrow> (json \<Rightarrow> string \<Rightarrow> string) \<Rightarrow> (json \<Rightarrow> json) \<Rightarrow> network \<Rightarrow> worker_config \<Rightarrow>
     http_post_request list dispatch_db \<Rightarrow>
     (worker_result \<times> webhook_metrics) option \<times> http_post_request list dispatch_db" where
  "worker_main float hmac jsonb net cfg db =
     (case seed_subscriptions (fixture_subscriptions (wc_subscriber_url cfg) (wc_signing_key cfg)) db of
        (Inl e, db) \<Rightarrow> (None, db)
      | (Inr _, db) \<Rightarrow>
          (case run_worker float (worker_dispatcher float hmac jsonb net cfg) 25 db of
             ((result, Some e), db) \<Rightarrow> (None, db)
           | ((result, None), db) \<Rightarrow> (Some (result, read_webhook_metrics db), db)))"

end
