(* ===== verification/Attempts.thy ===== *)
theory Attempts
  imports Dispatcher
begin

text \<open>
  What the dispatcher's transactions do to its tables: which tables each leaves alone, the rows that
  the preparation of an effect adds, and what the loop over the pending webhook attempts does to each of
  them. The steps of several dispatchers at work are a relation on the tables.
\<close>

section \<open>What a handler does to the state\<close>

definition moves :: "('s \<Rightarrow> 's \<Rightarrow> bool) \<Rightarrow> ('s, 'e, 'a) handler \<Rightarrow> bool" where
  "moves R h \<longleftrightarrow> (\<forall>s. R s (snd (h s)))"

abbreviation keeps :: "('s \<Rightarrow> 'k) \<Rightarrow> ('s, 'e, 'a) handler \<Rightarrow> bool" where
  "keeps f \<equiv> moves (\<lambda>s t. f t = f s)"

definition preorder_rel :: "('s \<Rightarrow> 's \<Rightarrow> bool) \<Rightarrow> bool" where
  "preorder_rel R \<longleftrightarrow> reflp R \<and> transp R"

named_theorems moving \<open>effects of handlers\<close>

lemma preorder_rels [moving]:
  "preorder_rel (\<lambda>s t. f t = f s)" "preorder_rel S\<^sup>*\<^sup>*" "preorder_rel (\<lambda>s t. P s \<longrightarrow> P t)"
  by (auto simp: preorder_rel_def intro: reflpI transpI)

lemma moves_basic [moving]:
  assumes "preorder_rel R"
  shows "moves R (return_ok x)" "moves R (fail_with e)" "moves R (check b e)" "moves R (demand z e)"
    "moves R (lift_result r)"
  using assms by (auto simp: preorder_rel_def moves_def return_ok_def fail_with_def check_def demand_def
      lift_result_def reflp_def split: option.split)

lemma moves_and_then [moving]:
  assumes R: "preorder_rel R" and "moves R h" "\<And>x. moves R (f x)"
  shows "moves R (and_then h f)"
  unfolding moves_def
proof
  fix s
  have "R s (snd (h s))" "R (snd (h s)) (snd (f x (snd (h s))))" for x using assms by (simp_all add: moves_def)
  with R show "R s (snd (and_then h f s))"
    by (cases "h s"; cases "fst (h s)") (auto simp: and_then_def preorder_rel_def elim: transpE)
qed

lemma moves_reading [moving]: "(\<And>s. moves R (h s)) \<Longrightarrow> moves R (reading h)"
  by (simp add: moves_def reading_def)

lemma moves_in_tx [moving]: "preorder_rel R \<Longrightarrow> moves R h \<Longrightarrow> moves R (in_tx h)"
  by (auto simp: moves_def in_tx_def preorder_rel_def reflp_def split: prod.split sum.split) (metis snd_conv)

lemma moves_cases [moving]:
  "(b \<Longrightarrow> moves R h) \<Longrightarrow> (\<not> b \<Longrightarrow> moves R g) \<Longrightarrow> moves R (if b then h else g)"
  "moves R n \<Longrightarrow> (\<And>x. moves R (f x)) \<Longrightarrow> moves R (case z of None \<Rightarrow> n | Some x \<Rightarrow> f x)"
  "(\<And>x. moves R (l x)) \<Longrightarrow> (\<And>x. moves R (f x)) \<Longrightarrow> moves R (case y of Inl x \<Rightarrow> l x | Inr x \<Rightarrow> f x)"
  "(\<And>a b. moves R (g' a b)) \<Longrightarrow> moves R (case p of (a, b) \<Rightarrow> g' a b)"
  by (simp_all split: option.split sum.split prod.split)

lemma movesD: "moves R h \<Longrightarrow> h s = (x, t) \<Longrightarrow> R s t"
  by (metis moves_def snd_conv)

lemma keeps_at: "keeps f h \<Longrightarrow> f (snd (h s)) = f s"
  by (simp add: moves_def)

lemma keepsD:
  assumes "keeps f h" and "h s = (x, t)"
  shows "f t = f s"
proof -
  from assms(1) have "f (snd (h s)) = f s" by (simp add: moves_def)
  with assms(2) show ?thesis by simp
qed

section \<open>The tables a step leaves alone\<close>

definition booking_part :: "'w dispatch_db \<Rightarrow> booking_db" where
  "booking_part db = booking_db.truncate db"

definition webhook_part ::
    "'w dispatch_db \<Rightarrow> delivery_row list \<times> webhook_attempt_row list \<times> subscription_row list" where
  "webhook_part db = (dd_deliveries db WebhookDelivery, dd_webhook_attempts db, dd_subscriptions db)"

definition target_part :: "delivery_kind \<Rightarrow> 'w dispatch_db \<Rightarrow> delivery_row list \<times> target_attempt_row list" where
  "target_part kind db = (dd_deliveries db kind, dd_target_attempts db kind)"

lemma record_dispatch_keeps [moving]:
  "keeps booking_part (record_dispatch e)" "keeps webhook_part (record_dispatch e)"
  "keeps (target_part k) (record_dispatch e)" "keeps dd_world (record_dispatch e)"
  "keeps dd_subscriptions (record_dispatch e)"
  by (simp_all add: moves_def record_dispatch_def booking_part_def webhook_part_def target_part_def
      booking_db.truncate_def)

lemma upsert_delivery_keeps [moving]:
  "keeps booking_part (upsert_delivery kind e r)" "keeps dd_world (upsert_delivery kind e r)"
  "kind \<noteq> WebhookDelivery \<Longrightarrow> keeps webhook_part (upsert_delivery kind e r)"
  "kind \<noteq> k \<Longrightarrow> keeps (target_part k) (upsert_delivery kind e r)"
  "keeps dd_subscriptions (upsert_delivery kind e r)" "keeps dd_webhook_attempts (upsert_delivery kind e r)"
  by (auto simp: moves_def upsert_delivery_def booking_part_def webhook_part_def target_part_def Let_def
      booking_db.truncate_def split: option.split)

lemma record_target_attempts_same:
  "booking_part (snd (record_target_attempts kind e r as db)) = booking_part db \<and>
     dd_world (snd (record_target_attempts kind e r as db)) = dd_world db \<and>
     webhook_part (snd (record_target_attempts kind e r as db)) = webhook_part db \<and>
     (kind \<noteq> k \<longrightarrow> target_part k (snd (record_target_attempts kind e r as db)) = target_part k db) \<and>
     dd_subscriptions (snd (record_target_attempts kind e r as db)) = dd_subscriptions db"
  by (induction as arbitrary: db)
    (simp_all add: booking_part_def webhook_part_def target_part_def booking_db.truncate_def)

lemma record_target_attempts_keeps [moving]:
  "keeps booking_part (record_target_attempts kind e r as)" "keeps dd_world (record_target_attempts kind e r as)"
  "keeps webhook_part (record_target_attempts kind e r as)"
  "kind \<noteq> k \<Longrightarrow> keeps (target_part k) (record_target_attempts kind e r as)"
  "keeps dd_subscriptions (record_target_attempts kind e r as)"
  by (simp_all add: moves_def record_target_attempts_same)

lemma booking_for_moves [moving]: "preorder_rel R \<Longrightarrow> moves R (booking_for d what e)"
  unfolding booking_for_def by (intro moving)

lemma build_moves [moving]:
  assumes "preorder_rel R"
  shows "moves R (build_webhook d e)" "moves R (build_email d e)" "moves R (build_calendar d e)"
  using assms unfolding build_webhook_def build_email_def build_calendar_def by (intro moving; assumption?)+

lemma templates_move [moving]:
  assumes "preorder_rel R"
  shows "moves R (webhook_templates d trigger body)" "moves R (target_templates url failure r)"
  using assms unfolding webhook_templates_def target_templates_def by (intro moving; assumption?)+

lemma record_webhook_attempts_same:
  "booking_part (snd (record_webhook_attempts e r as db)) = booking_part db \<and>
     dd_world (snd (record_webhook_attempts e r as db)) = dd_world db \<and>
     dd_subscriptions (snd (record_webhook_attempts e r as db)) = dd_subscriptions db \<and>
     dd_deliveries (snd (record_webhook_attempts e r as db)) = dd_deliveries db \<and>
     target_part k (snd (record_webhook_attempts e r as db)) = target_part k db"
  by (induction as arbitrary: db) (simp_all add: booking_part_def target_part_def booking_db.truncate_def)

lemma record_webhook_attempts_keeps [moving]:
  "keeps booking_part (record_webhook_attempts e r as)" "keeps dd_world (record_webhook_attempts e r as)"
  "keeps dd_subscriptions (record_webhook_attempts e r as)" "keeps (target_part k) (record_webhook_attempts e r as)"
  by (simp_all add: moves_def record_webhook_attempts_same)

lemma delivery_of_keeps [moving]:
  assumes "keeps f build" and "\<And>r. keeps f (upsert_delivery kind e r)"
  shows "keeps f (delivery_of kind d build e)"
  unfolding delivery_of_def by (intro moving assms)

lemma prepare_targets_keep [moving]:
  assumes "keeps f build" and "\<And>r. keeps f (upsert_delivery kind e r)"
    and "\<And>r as. keeps f (record_target_attempts kind e r as)"
  shows "keeps f (prepare_target_attempts kind d build url failure e)"
  unfolding prepare_target_attempts_def by (intro moving assms)

lemma prepare_webhooks_keep:
  assumes "\<And>r. keeps f (upsert_delivery WebhookDelivery e r)" and "\<And>r as. keeps f (record_webhook_attempts e r as)"
  shows "keeps f (prepare_webhook_attempts d e)"
  unfolding prepare_webhook_attempts_def by (intro moving assms)

lemma prepare_mail_keep:
  assumes "\<And>r. keeps f (upsert_delivery EmailDelivery e r)"
    and "\<And>r as. keeps f (record_target_attempts EmailDelivery e r as)"
  shows "keeps f (prepare_email_attempts d e)"
  unfolding prepare_email_attempts_def by (intro moving assms)

lemma prepare_calendar_keep:
  assumes "\<And>r. keeps f (upsert_delivery CalendarDispatch e r)"
    and "\<And>r as. keeps f (record_target_attempts CalendarDispatch e r as)"
  shows "keeps f (prepare_calendar_attempts d e)"
  unfolding prepare_calendar_attempts_def by (intro moving assms)

lemmas prepare_keep = prepare_webhooks_keep prepare_mail_keep prepare_calendar_keep

lemma prepare_via_keeps [moving]:
  "keeps booking_part (prepare_attempts_via dw de dc e)" "keeps dd_world (prepare_attempts_via dw de dc e)"
  "keeps dd_subscriptions (prepare_attempts_via dw de dc e)"
  unfolding prepare_attempts_via_def by (intro moving prepare_keep)+

lemma prepare_attempts_keeps [moving]:
  "keeps booking_part (prepare_attempts d e)" "keeps dd_world (prepare_attempts d e)"
  "keeps dd_subscriptions (prepare_attempts d e)"
  unfolding prepare_attempts_def by (intro moving)+

lemma prepare_targets_keep_webhooks [moving]:
  "keeps webhook_part (prepare_email_attempts d e)" "keeps webhook_part (prepare_calendar_attempts d e)"
  by (intro prepare_keep moving; simp)+

section \<open>The invariant of the webhook tables\<close>

definition attempt_limit :: "'w dispatcher \<Rightarrow> int" where
  "attempt_limit d = (if dp_max_attempts d \<le> 0 then default_max_attempts else dp_max_attempts d)"

definition attempt_id :: "webhook_attempt_row \<Rightarrow> int" where
  "attempt_id w = at_id (wa_attempt w)"

definition attempt_target :: "webhook_attempt_row \<Rightarrow> int \<times> int" where
  "attempt_target w = (at_delivery (wa_attempt w), at_subscriber (wa_attempt w))"

text \<open>An attempt with limit \<open>n\<close>.\<close>

definition attempt_ok :: "int \<Rightarrow> webhook_attempt_row \<Rightarrow> bool" where
  "attempt_ok n w \<longleftrightarrow> 0 \<le> wa_count w \<and> wa_count w \<le> n \<and> (webhook_pending w \<longrightarrow> wa_count w < n) \<and>
     (wa_dead_at w \<noteq> None \<longrightarrow> wa_count w = n \<and> wa_delivered_at w = None) \<and>
     (wa_delivered_at w \<noteq> None \<longrightarrow> 0 < wa_count w)"

definition disabled :: "subscription_row \<Rightarrow> bool" where
  "disabled s \<longleftrightarrow> \<not> ws_active (su_subscription s) \<and> su_disabled_at s \<noteq> None"

definition subscriber_ok :: "subscription_row list \<Rightarrow> webhook_attempt_row \<Rightarrow> bool" where
  "subscriber_ok ss w \<longleftrightarrow> (\<exists>s \<in> set ss. ws_id (su_subscription s) = at_subscriber (wa_attempt w)) \<and>
     (wa_dead_at w \<noteq> None \<longrightarrow>
        (\<forall>s \<in> set ss. ws_id (su_subscription s) = at_subscriber (wa_attempt w) \<longrightarrow> disabled s))"

definition delivery_ok :: "delivery_row list \<Rightarrow> webhook_attempt_row \<Rightarrow> bool" where
  "delivery_ok vs w \<longleftrightarrow> (\<exists>v \<in> set vs. dv_id v = at_delivery (wa_attempt w) \<and> dv_effect v = at_effect (wa_attempt w))"

definition webhooks_ok :: "int \<Rightarrow> 'w dispatch_db \<Rightarrow> bool" where
  "webhooks_ok n db \<longleftrightarrow> distinct (map dv_id (dd_deliveries db WebhookDelivery)) \<and>
     distinct (map dv_effect (dd_deliveries db WebhookDelivery)) \<and>
     distinct (map attempt_id (dd_webhook_attempts db)) \<and>
     distinct (map attempt_target (dd_webhook_attempts db)) \<and>
     (\<forall>w \<in> set (dd_webhook_attempts db). attempt_ok n w \<and> subscriber_ok (dd_subscriptions db) w \<and>
        delivery_ok (dd_deliveries db WebhookDelivery) w)"

lemma webhooks_ok_part: "webhook_part t = webhook_part s \<Longrightarrow> webhooks_ok n t = webhooks_ok n s"
  by (simp add: webhooks_ok_def webhook_part_def)

lemma next_id_greater: "i \<in> set is \<Longrightarrow> i < next_id is"
proof -
  have "a \<le> fold max is a \<and> (\<forall>i \<in> set is. i \<le> fold max is a)" for a :: int
    by (induction "is" arbitrary: a) (auto intro: order_trans [OF max.cobounded1] order_trans [OF max.cobounded2])
  then show "i \<in> set is \<Longrightarrow> i < next_id is" by (force simp: next_id_def)
qed

lemma next_id_fresh: "next_id (map f xs) \<notin> f ` set xs"
  using next_id_greater [of "next_id (map f xs)" "map f xs"] by auto

lemma row_of_effect_Some: "row_of_effect i vs = Some v \<Longrightarrow> v \<in> set vs \<and> dv_effect v = i"
  unfolding row_of_effect_def by (rule find_Some_in)

lemma row_of_effect_None: "row_of_effect i vs = None \<Longrightarrow> i \<notin> dv_effect ` set vs"
  by (auto simp: row_of_effect_def find_None_iff)

lemma upsert_delivery_ok:
  assumes "webhooks_ok n db" and "upsert_delivery WebhookDelivery e r db = (Inr i, db')"
  shows "webhooks_ok n db' \<and> (\<exists>v \<in> set (dd_deliveries db' WebhookDelivery). dv_id v = i \<and> dv_effect v = qe_id e)"
proof (cases "row_of_effect (qe_id e) (dd_deliveries db WebhookDelivery)")
  case (Some v)
  with assms row_of_effect_Some [OF Some] show ?thesis by (auto simp: upsert_delivery_def)
next
  case None
  note next_id_fresh [of dv_id "dd_deliveries db WebhookDelivery"]
  with None assms row_of_effect_None [OF None] show ?thesis
    by (auto simp: upsert_delivery_def webhooks_ok_def delivery_ok_def Let_def split: if_splits)
qed

lemma delivery_of_run:
  assumes "delivery_of kind d build e db = (Inr found, db')"
  obtains (recorded) v where "row_of_effect (qe_id e) (dd_deliveries db kind) = Some v" "db' = db"
      "\<And>r. found = Some r \<Longrightarrow> dr_id r = dv_id v" "found \<noteq> None"
    | (none) "build db = (Inr None, db')" "found = None"
    | (new) r db1 i where "build db = (Inr (Some r), db1)" "upsert_delivery kind e r db1 = (Inr i, db')"
      "found = Some (r\<lparr>dr_id := i\<rparr>)" "row_of_effect (qe_id e) (dd_deliveries db kind) = None"
proof (cases "row_of_effect (qe_id e) (dd_deliveries db kind)")
  case (Some v)
  with assms show thesis by (intro recorded) (auto simp: delivery_of_def reading_def read_delivery_def return_ok_def)
next
  case None
  with assms obtain built db1 where b: "build db = (Inr built, db1)"
      "(case built of None \<Rightarrow> return_ok None
        | Some r \<Rightarrow> and_then (upsert_delivery kind e r) (\<lambda>i. return_ok (Some (r\<lparr>dr_id := i\<rparr>)))) db1 = (Inr found, db')"
    by (auto simp: delivery_of_def reading_def read_delivery_def and_then_ok)
  show thesis
  proof (cases built)
    case None
    with b show thesis by (intro none) (auto simp: return_ok_def)
  next
    case (Some r)
    with b(2) obtain i where "upsert_delivery kind e r db1 = (Inr i, db')" "found = Some (r\<lparr>dr_id := i\<rparr>)"
      by (auto simp: and_then_ok return_ok_def)
    with Some b(1) None show thesis by (intro new) simp_all
  qed
qed

lemma delivery_of_ok:
  assumes ok: "webhooks_ok n db" and run: "delivery_of WebhookDelivery d (build_webhook d e) e db = (Inr found, db')"
  shows "webhooks_ok n db' \<and> (\<forall>r. found = Some r \<longrightarrow>
    (\<exists>v \<in> set (dd_deliveries db' WebhookDelivery). dv_id v = dr_id r \<and> dv_effect v = qe_id e))"
proof -
  have built: "webhooks_ok n db1" if "build_webhook d e db = (x, db1)" for x db1
  proof -
    have "webhook_part db1 = webhook_part db" using movesD [OF build_moves(1) [OF preorder_rels(1) [of webhook_part]] that] .
    from webhooks_ok_part [OF this] ok show ?thesis by simp
  qed
  show ?thesis
  proof (rule delivery_of_run [OF run], goal_cases)
    case recorded: (1 v)
    have "v \<in> set (dd_deliveries db' WebhookDelivery)" "dv_effect v = qe_id e"
      using row_of_effect_Some [OF recorded(1)] recorded(2) by simp_all
    moreover have "webhooks_ok n db'" using ok recorded(2) by simp
    ultimately show ?thesis using recorded(3) by (intro conjI allI impI bexI [of _ v]) simp_all
  next
    case none: 2
    from built [OF none(1)] none(2) show ?thesis by simp
  next
    case new: (3 r db1 i)
    show ?thesis using upsert_delivery_ok [OF built [OF new(1)] new(2)] unfolding new(3) by simp
  qed
qed

text \<open>Recording attempts adds rows that have not been tried, for the subscribers of the templates.\<close>

lemma record_webhook_attempts_ok:
  assumes "webhooks_ok n db" and "0 < n"
    and "\<exists>v \<in> set (dd_deliveries db WebhookDelivery). dv_id v = dr_id r \<and> dv_effect v = qe_id e"
  shows "webhooks_ok n (snd (record_webhook_attempts e r as db)) \<and>
    (\<exists>new. dd_webhook_attempts (snd (record_webhook_attempts e r as db)) = dd_webhook_attempts db @ new \<and>
      (\<forall>w \<in> set new. wa_count w = 0 \<and> at_subscriber (wa_attempt w) \<in> at_subscriber ` set as \<and>
        at_effect (wa_attempt w) = qe_id e))"
  using assms
proof (induction as arbitrary: db)
  case (Cons a as)
  define w where "w = \<lparr>wa_attempt = a\<lparr>at_id := next_id (map (\<lambda>w. at_id (wa_attempt w)) (dd_webhook_attempts db)),
       at_delivery := dr_id r, at_effect := qe_id e, at_trigger := dr_action r,
       at_content_type := dr_content_type r, at_body := dr_body r\<rparr>,
     wa_count = 0, wa_last_at = None, wa_delivered_at = None, wa_dead_at = None, wa_status = None, wa_error = None\<rparr>"
  let ?db = "db\<lparr>dd_webhook_attempts := dd_webhook_attempts db @ [w]\<rparr>"
  let ?tried = "list_ex (\<lambda>w. at_delivery (wa_attempt w) = dr_id r \<and> at_subscriber (wa_attempt w) = at_subscriber a)
    (dd_webhook_attempts db)"
  let ?known = "list_ex (\<lambda>s. ws_id (su_subscription s) = at_subscriber a) (dd_subscriptions db)"
  have w: "attempt_id w \<notin> attempt_id ` set (dd_webhook_attempts db)" "attempt_ok n w" "wa_dead_at w = None" "wa_count w = 0"
      "attempt_target w = (dr_id r, at_subscriber a)" "at_effect (wa_attempt w) = qe_id e"
      "at_subscriber (wa_attempt w) = at_subscriber a" "at_delivery (wa_attempt w) = dr_id r"
    using next_id_fresh [of attempt_id "dd_webhook_attempts db"] \<open>0 < n\<close>
    by (simp_all add: w_def attempt_id_def [abs_def] attempt_ok_def webhook_pending_def attempt_target_def)
  have run: "record_webhook_attempts e r (a # as) db =
      (if ?tried then record_webhook_attempts e r as db
       else if \<not> ?known then (Inl (DispatchError ''record webhook delivery attempt''), db)
       else record_webhook_attempts e r as ?db)"
    by (simp add: w_def)
  consider (tried) ?tried | (unknown) "\<not> ?tried" "\<not> ?known" | (new) "\<not> ?tried" ?known by blast
  then show ?case
  proof cases
    case tried
    with Cons run show ?thesis by fastforce
  next
    case unknown
    with Cons.prems run show ?thesis by simp
  next
    case new
    have "attempt_target w \<notin> attempt_target ` set (dd_webhook_attempts db)"
      using new(1) w(5) by (auto simp: attempt_target_def list_ex_iff)
    moreover have "subscriber_ok (dd_subscriptions db) w" "delivery_ok (dd_deliveries db WebhookDelivery) w"
      using new(2) w Cons.prems(3) by (auto simp: subscriber_ok_def delivery_ok_def list_ex_iff)
    ultimately have "webhooks_ok n ?db" using Cons.prems(1) w by (simp add: webhooks_ok_def)
    from Cons.IH [OF this] Cons.prems(2,3) new run w show ?thesis by fastforce
  qed
qed auto

lemma signed_attempts_subscribers:
  "signed_attempts d secrets body ss = Inr as \<Longrightarrow> map at_subscriber as = map ws_id ss"
  by (induction ss arbitrary: as) (auto split: sum.splits option.splits)

definition active_subscriber :: "subscription_row list \<Rightarrow> int \<Rightarrow> bool" where
  "active_subscriber rows i \<longleftrightarrow> (\<exists>s \<in> set rows. ws_id (su_subscription s) = i \<and> ws_active (su_subscription s))"

lemma webhook_templates_subscribers:
  assumes "webhook_templates d trigger body db = (Inr as, db')" and "a \<in> set as"
  shows "\<exists>reader ss s. dp_subscriptions d = Some reader \<and> reader trigger db = Inr ss \<and> s \<in> set ss \<and>
    ws_id s = at_subscriber a"
proof -
  obtain reader where reader: "dp_subscriptions d = Some reader"
    using assms(1) by (auto simp: webhook_templates_def handler_ok)
  with assms(1) obtain ss secrets where r: "reader trigger db = Inr ss" "signed_attempts d secrets body ss = Inr as"
    by (cases "reader trigger db") (auto simp: webhook_templates_def handler_ok reading_def)
  then have "at_subscriber ` set as = ws_id ` set ss" using signed_attempts_subscribers by (metis set_map)
  with assms(2) reader r(1) show ?thesis by (metis imageE imageI)
qed

text \<open>
  In a state with the subscriptions of \<open>db\<close>, the dispatcher's reader returns only subscriptions that
  are active in \<open>rows\<close>.
\<close>

definition reads_active :: "'w dispatcher \<Rightarrow> 'w dispatch_db \<Rightarrow> subscription_row list \<Rightarrow> bool" where
  "reads_active d db rows \<longleftrightarrow> (\<forall>reader trigger t ss s. dp_subscriptions d = Some reader \<longrightarrow>
     dd_subscriptions t = dd_subscriptions db \<longrightarrow> reader trigger t = Inr ss \<longrightarrow> s \<in> set ss \<longrightarrow>
     active_subscriber rows (ws_id s))"

lemma read_subscriptions_active:
  "read_subscriptions trigger db = Inr ss \<Longrightarrow> s \<in> set ss \<Longrightarrow> active_subscriber (dd_subscriptions db) (ws_id s)"
  by (auto simp: read_subscriptions_def active_subscriber_def)

lemma table_reads_active:
  "dp_subscriptions d = Some read_subscriptions \<Longrightarrow> reads_active d db (dd_subscriptions db)"
  "dp_subscriptions d = Some read_subscriptions \<Longrightarrow> reads_active (reading_from b s d) db (dd_subscriptions s)"
  by (auto simp: reads_active_def reading_from_def) (metis read_subscriptions_active)+

lemma webhook_templates_active:
  assumes "webhook_templates d trigger body t = (Inr as, db')" and "reads_active d db rows"
    and "dd_subscriptions t = dd_subscriptions db" and "a \<in> set as"
  shows "active_subscriber rows (at_subscriber a)"
  using webhook_templates_subscribers [OF assms(1,4)] assms(2,3) unfolding reads_active_def by metis

definition rows_for :: "'w dispatcher \<Rightarrow> queued_effect \<Rightarrow> 'w dispatch_db \<Rightarrow> webhook_attempt_row list \<Rightarrow> bool" where
  "rows_for d e db new \<longleftrightarrow> (\<forall>w \<in> set new. wa_count w = 0 \<and> at_effect (wa_attempt w) = qe_id e \<and>
     (\<forall>rows. reads_active d db rows \<longrightarrow> active_subscriber rows (at_subscriber (wa_attempt w))))"

lemma rows_for_same: "dd_subscriptions t = dd_subscriptions db \<Longrightarrow> rows_for d e t new = rows_for d e db new"
  by (simp add: rows_for_def reads_active_def)

lemma webhook_part_eqD:
  assumes "webhook_part t = webhook_part s"
  shows "dd_deliveries t WebhookDelivery = dd_deliveries s WebhookDelivery"
    "dd_webhook_attempts t = dd_webhook_attempts s" "dd_subscriptions t = dd_subscriptions s"
  using assms by (simp_all add: webhook_part_def)

lemma recorded_attempts:
  assumes ok: "webhooks_ok n db" "0 < n"
    and v: "\<exists>v \<in> set (dd_deliveries db WebhookDelivery). dv_id v = dr_id r \<and> dv_effect v = qe_id e"
    and run: "and_then (webhook_templates d trigger body) (record_webhook_attempts e r) db = (x, db')"
  shows "webhooks_ok n db' \<and> (\<exists>new. dd_webhook_attempts db' = dd_webhook_attempts db @ new \<and> rows_for d e db new)"
proof (cases "webhook_templates d trigger body db")
  case (Pair y db1)
  have same: "webhook_part db1 = webhook_part db"
    using keepsD [OF templates_move(1) [OF preorder_rels(1) [of webhook_part]] Pair] .
  note ok1 = webhooks_ok_part [OF same, THEN iffD2, OF ok(1)]
  show ?thesis
  proof (cases y)
    case (Inl f)
    with run Pair have "db' = db1" by (simp add: and_then_def)
    with ok1 webhook_part_eqD [OF same] show ?thesis by (auto simp: rows_for_def)
  next
    case (Inr as)
    with run Pair have db': "db' = snd (record_webhook_attempts e r as db1)" by (simp add: and_then_def)
    have active: "reads_active d db rows \<Longrightarrow> a \<in> set as \<Longrightarrow> active_subscriber rows (at_subscriber a)" for a rows
      using webhook_templates_active [OF Pair [unfolded Inr]] by blast
    have "\<exists>v \<in> set (dd_deliveries db1 WebhookDelivery). dv_id v = dr_id r \<and> dv_effect v = qe_id e"
      using v webhook_part_eqD(1) [OF same] by simp
    from record_webhook_attempts_ok [OF ok1 ok(2) this, of as] obtain new where
        "webhooks_ok n db'" "dd_webhook_attempts db' = dd_webhook_attempts db @ new"
        "\<forall>w \<in> set new. wa_count w = 0 \<and> at_subscriber (wa_attempt w) \<in> at_subscriber ` set as \<and> at_effect (wa_attempt w) = qe_id e"
      unfolding db' webhook_part_eqD(2) [OF same] by blast
    with active show ?thesis by (fastforce simp: rows_for_def)
  qed
qed

lemma prepare_webhooks_ok:
  assumes ok: "webhooks_ok n db" "0 < n" and run: "prepare_webhook_attempts d e db = (Inr ws, db')"
  shows "webhooks_ok n db' \<and>
    (\<exists>new. dd_webhook_attempts db' = dd_webhook_attempts db @ new \<and> rows_for d e db new) \<and>
    (webhook_trigger (qe_name e) = None \<longrightarrow> db' = db) \<and>
    (ws = [] \<or> ws = pending_webhooks (qe_id e) db')"
proof (cases "webhook_trigger (qe_name e) = None")
  case True
  with ok run show ?thesis by (simp add: prepare_webhook_attempts_def return_ok_def rows_for_def)
next
  case False
  then obtain found db1 where db1: "delivery_of WebhookDelivery d (build_webhook d e) e db = (Inr found, db1)"
    and rest: "(case found of None \<Rightarrow> return_ok []
        | Some r \<Rightarrow> and_then (reading (\<lambda>db.
             if list_ex (\<lambda>w. at_delivery (wa_attempt w) = dr_id r) (dd_webhook_attempts db) then return_ok ()
             else and_then (webhook_templates d (dr_action r) (dr_body r)) (record_webhook_attempts e r)))
           (\<lambda>_. reading (\<lambda>db. return_ok (pending_webhooks (qe_id e) db)))) db1 = (Inr ws, db')"
    using run by (auto simp: prepare_webhook_attempts_def and_then_ok)
  note ok1 = delivery_of_ok [OF ok(1) db1]
  have kept: "keeps dd_webhook_attempts (delivery_of WebhookDelivery d (build_webhook d e) e)"
      "keeps dd_subscriptions (delivery_of WebhookDelivery d (build_webhook d e) e)"
    by (intro moving)+
  note same = keepsD [OF kept(1) db1] keepsD [OF kept(2) db1]
  show ?thesis
  proof (cases found)
    case None
    with rest ok1 same False show ?thesis by (auto simp: return_ok_def rows_for_def)
  next
    case (Some r)
    show ?thesis
    proof (cases "list_ex (\<lambda>w. at_delivery (wa_attempt w) = dr_id r) (dd_webhook_attempts db1)")
      case True
      with rest Some have "db' = db1" "ws = pending_webhooks (qe_id e) db'"
        by (auto simp: reading_def return_ok_def and_then_def)
      with ok1 same False show ?thesis by (auto simp: rows_for_def)
    next
      case new: False
      with rest Some have rec: "and_then (webhook_templates d (dr_action r) (dr_body r)) (record_webhook_attempts e r) db1 = (Inr (), db')"
          and ws: "ws = pending_webhooks (qe_id e) db'"
        by (auto simp: reading_def return_ok_def and_then_ok)
      have "\<exists>v \<in> set (dd_deliveries db1 WebhookDelivery). dv_id v = dr_id r \<and> dv_effect v = qe_id e"
        using ok1 Some by blast
      from recorded_attempts [OF _ ok(2) this rec] ok1 same ws False show ?thesis
        by (auto simp: rows_for_same [OF same(2)])
    qed
  qed
qed

lemma prepare_via_ok:
  assumes ok: "webhooks_ok n db" "0 < n" and run: "prepare_attempts_via dw de dc e db = (Inr (ws, es, cs), db')"
  shows "webhooks_ok n db' \<and>
    (\<exists>new. dd_webhook_attempts db' = dd_webhook_attempts db @ new \<and> rows_for dw e db new) \<and>
    (ws = [] \<or> ws = pending_webhooks (qe_id e) db')"
proof -
  obtain db1 db2 db3 where db1: "record_dispatch e db = (Inr (), db1)"
    and db2: "prepare_webhook_attempts dw e db1 = (Inr ws, db2)"
    and db3: "prepare_email_attempts de e db2 = (Inr es, db3)" "prepare_calendar_attempts dc e db3 = (Inr cs, db')"
    using run by (auto simp: prepare_attempts_via_def in_tx_def handler_ok split: prod.splits sum.splits)
  have part1: "webhook_part db1 = webhook_part db" by (rule keepsD [OF record_dispatch_keeps(2) db1])
  have part3: "webhook_part db' = webhook_part db2"
    using keepsD [OF prepare_targets_keep_webhooks(1) db3(1)] keepsD [OF prepare_targets_keep_webhooks(2) db3(2)] by simp
  note same1 = webhook_part_eqD [OF part1] and same3 = webhook_part_eqD [OF part3]
  have "webhooks_ok n db1" using webhooks_ok_part [OF part1] ok(1) by simp
  from prepare_webhooks_ok [OF this ok(2) db2] webhooks_ok_part [OF part3, of n]
  show ?thesis by (auto simp: same1 same3 rows_for_same [OF same1(3)] pending_webhooks_def)
qed

lemmas prepare_attempts_ok = prepare_via_ok [where de = d and dw = d and dc = d for d, folded prepare_attempts_def]

end
