(* ===== verification/AttemptRuns.thy ===== *)
theory AttemptRuns
  imports Attempts
begin

text \<open>
  The outcome of an attempt, the loop over the pending attempts of an effect, and the steps that
  dispatchers at work take on the tables.
\<close>

section \<open>Updates of attempts and subscriptions\<close>

lemma webhooks_ok_update:
  assumes ok: "webhooks_ok n db"
    and g: "\<And>w. w \<in> set (dd_webhook_attempts db) \<Longrightarrow> wa_attempt (g w) = wa_attempt w \<and> attempt_ok n (g w)"
    and h: "\<And>s. ws_id (su_subscription (h s)) = ws_id (su_subscription s)" "\<And>s. disabled s \<Longrightarrow> disabled (h s)"
    and dead: "\<And>w s. w \<in> set (dd_webhook_attempts db) \<Longrightarrow> wa_dead_at (g w) \<noteq> None \<Longrightarrow> wa_dead_at w = None \<Longrightarrow>
      ws_id (su_subscription s) = at_subscriber (wa_attempt w) \<Longrightarrow> disabled (h s)"
  shows "webhooks_ok n (db\<lparr>dd_webhook_attempts := map g (dd_webhook_attempts db),
    dd_subscriptions := map h (dd_subscriptions db)\<rparr>)"
proof -
  let ?rows = "dd_webhook_attempts db"
  have "subscriber_ok (map h (dd_subscriptions db)) (g w)" if "w \<in> set ?rows" for w
  proof -
    have "subscriber_ok (dd_subscriptions db) w" using ok that by (simp add: webhooks_ok_def)
    with g [OF that] h dead [OF that] show ?thesis
      by (cases "wa_dead_at w") (auto simp: subscriber_ok_def)
  qed
  moreover have "map attempt_id (map g ?rows) = map attempt_id ?rows" "map attempt_target (map g ?rows) = map attempt_target ?rows"
    using g by (simp_all add: attempt_id_def attempt_target_def)
  moreover have "delivery_ok (dd_deliveries db WebhookDelivery) (g w)" if "w \<in> set ?rows" for w
    using ok that g by (auto simp: webhooks_ok_def delivery_ok_def)
  ultimately show ?thesis using ok g by (simp add: webhooks_ok_def del: map_map)
qed

definition row_update :: "int \<Rightarrow> (webhook_attempt_row \<Rightarrow> webhook_attempt_row) \<Rightarrow> webhook_attempt_row \<Rightarrow> webhook_attempt_row" where
  "row_update i f w = (if attempt_id w = i \<and> webhook_pending w then f w else w)"

definition subscription_update :: "int \<Rightarrow> (subscription_row \<Rightarrow> subscription_row) \<Rightarrow> subscription_row \<Rightarrow> subscription_row" where
  "subscription_update i f s = (if ws_id (su_subscription s) = i then f s else s)"

text \<open>The rows and subscriptions after a mark, and its result.\<close>

definition delivered_row :: "int \<Rightarrow> int \<Rightarrow> webhook_attempt_row \<Rightarrow> webhook_attempt_row" where
  "delivered_row now status w = w\<lparr>wa_delivered_at := Some now, wa_status := nullable_status status,
     wa_error := None, wa_last_at := Some now, wa_count := wa_count w + 1\<rparr>"

definition failed_row :: "int \<Rightarrow> int \<Rightarrow> int \<Rightarrow> delivery_failure \<Rightarrow> webhook_attempt_row \<Rightarrow> webhook_attempt_row" where
  "failed_row now n status failure w = w\<lparr>wa_status := nullable_status status,
     wa_error := Some (safe_error ''webhook delivery'' failure), wa_last_at := Some now, wa_count := wa_count w + 1,
     wa_dead_at := (if n \<le> wa_count w + 1 then Some now else wa_dead_at w)\<rparr>"

definition disabled_row :: "int \<Rightarrow> subscription_row \<Rightarrow> subscription_row" where
  "disabled_row now s = s\<lparr>su_subscription := (su_subscription s)\<lparr>ws_active := False\<rparr>, su_failures := su_failures s + 1,
     su_disabled_at := (case su_disabled_at s of None \<Rightarrow> Some now | Some t \<Rightarrow> Some t),
     su_disabled_reason := Some ''delivery attempts exhausted''\<rparr>"

definition pending_row :: "int \<Rightarrow> 'w dispatch_db \<Rightarrow> webhook_attempt_row option" where
  "pending_row i db = find (\<lambda>w. attempt_id w = i \<and> webhook_pending w) (dd_webhook_attempts db)"

lemma mark_webhook_delivered_run:
  "mark_webhook_delivered i status db = (case pending_row i db of
     None \<Rightarrow> (Inl (DispatchError ''webhook attempt was not pending''), db)
   | Some w \<Rightarrow> (Inr (), db\<lparr>dd_webhook_attempts :=
         map (row_update i (delivered_row (bd_now db) status)) (dd_webhook_attempts db),
       dd_subscriptions := map (subscription_update (at_subscriber (wa_attempt w)) (\<lambda>s. s\<lparr>su_failures := 0\<rparr>))
         (dd_subscriptions db)\<rparr>))"
  by (simp add: mark_webhook_delivered_def in_tx_def reading_def and_then_def update_webhook_def pending_row_def
      attempt_id_def update_subscription_def row_update_def [abs_def] subscription_update_def [abs_def]
      delivered_row_def split: option.split)

lemma mark_webhook_failed_run:
  "mark_webhook_failed i status failure (dp_max_attempts d) db = (case pending_row i db of
     None \<Rightarrow> (Inl (DispatchError ''webhook attempt was not pending''), db)
   | Some w \<Rightarrow> (Inr (wa_dead_at (failed_row (bd_now db) (attempt_limit d) status failure w) \<noteq> None),
       db\<lparr>dd_webhook_attempts :=
         map (row_update i (failed_row (bd_now db) (attempt_limit d) status failure)) (dd_webhook_attempts db),
       dd_subscriptions := map (subscription_update (at_subscriber (wa_attempt w))
         (if wa_dead_at (failed_row (bd_now db) (attempt_limit d) status failure w) = None
          then (\<lambda>s. s\<lparr>su_failures := su_failures s + 1\<rparr>) else disabled_row (bd_now db))) (dd_subscriptions db)\<rparr>))"
proof (cases "pending_row i db")
  case None
  then show ?thesis
    by (simp add: pending_row_def attempt_id_def mark_webhook_failed_def in_tx_def reading_def and_then_def
        update_webhook_def Let_def)
next
  case (Some w)
  then have w: "find (\<lambda>w. at_id (wa_attempt w) = i \<and> webhook_pending w) (dd_webhook_attempts db) = Some w"
    by (simp add: pending_row_def attempt_id_def)
  show ?thesis
    by (cases "wa_dead_at (failed_row (bd_now db) (attempt_limit d) status failure w)")
      (simp_all add: Some w mark_webhook_failed_def in_tx_def reading_def and_then_def update_webhook_def
        update_subscription_def row_update_def [abs_def] subscription_update_def [abs_def] attempt_id_def
        failed_row_def disabled_row_def [abs_def] attempt_limit_def return_ok_def Let_def)
qed

lemma pending_row_Some:
  assumes "pending_row i db = Some w"
  shows "w \<in> set (dd_webhook_attempts db)" "attempt_id w = i" "webhook_pending w"
  using find_Some_in [OF assms [unfolded pending_row_def]] by simp_all

lemma row_update_ok:
  assumes "attempt_ok n w" "\<And>w. wa_attempt (f w) = wa_attempt w"
    "\<And>w. attempt_ok n w \<Longrightarrow> webhook_pending w \<Longrightarrow> attempt_ok n (f w)"
  shows "wa_attempt (row_update i f w) = wa_attempt w \<and> attempt_ok n (row_update i f w)"
  using assms by (simp add: row_update_def)

lemma outcome_rows_ok:
  "attempt_ok n w \<Longrightarrow> webhook_pending w \<Longrightarrow> attempt_ok n (delivered_row now status w)"
  "attempt_ok n w \<Longrightarrow> webhook_pending w \<Longrightarrow> attempt_ok n (failed_row now n status failure w)"
  "wa_attempt (delivered_row now status w) = wa_attempt w" "wa_attempt (failed_row now n status failure w) = wa_attempt w"
  "wa_dead_at (delivered_row now status w) = wa_dead_at w"
  by (auto simp: attempt_ok_def webhook_pending_def delivered_row_def failed_row_def)

lemma subscription_update_simps:
  assumes "\<And>s. ws_id (su_subscription (f s)) = ws_id (su_subscription s)" "\<And>s. disabled s \<Longrightarrow> disabled (f s)"
  shows "ws_id (su_subscription (subscription_update i f s)) = ws_id (su_subscription s)"
    "disabled s \<Longrightarrow> disabled (subscription_update i f s)"
  using assms by (simp_all add: subscription_update_def)

lemma disabled_row_simps:
  "ws_id (su_subscription (disabled_row now s)) = ws_id (su_subscription s)" "disabled (disabled_row now s)"
  "disabled (s\<lparr>su_failures := k\<rparr>) = disabled s"
  by (simp_all add: disabled_row_def disabled_def split: option.split)

lemma delivered_ok:
  assumes ok: "webhooks_ok n db"
  shows "webhooks_ok n (snd (mark_webhook_delivered i status db))"
proof (cases "pending_row i db")
  case (Some w)
  have rows: "attempt_ok n w" if "w \<in> set (dd_webhook_attempts db)" for w
    using ok that by (simp add: webhooks_ok_def)
  show ?thesis unfolding mark_webhook_delivered_run Some option.case snd_conv
    by (rule webhooks_ok_update [OF ok])
      (auto simp: row_update_ok rows outcome_rows_ok subscription_update_simps disabled_row_simps
        row_update_def split: if_splits)
qed (simp add: mark_webhook_delivered_run ok)

lemma failed_ok:
  assumes ok: "webhooks_ok (attempt_limit d) db"
  shows "webhooks_ok (attempt_limit d) (snd (mark_webhook_failed i status failure (dp_max_attempts d) db))"
proof (cases "pending_row i db")
  case (Some w)
  note w = pending_row_Some [OF Some]
  have rows: "attempt_ok (attempt_limit d) w" if "w \<in> set (dd_webhook_attempts db)" for w
    using ok that by (simp add: webhooks_ok_def)
  have the_row: "v = w" if "v \<in> set (dd_webhook_attempts db)" "attempt_id v = i" for v
    using ok that w by (auto simp: webhooks_ok_def distinct_map inj_on_def)
  show ?thesis unfolding mark_webhook_failed_run Some option.case snd_conv
  proof (rule webhooks_ok_update [OF ok], goal_cases)
    case (1 v)
    then show ?case by (intro row_update_ok) (simp_all add: rows outcome_rows_ok)
  next
    case (2 s)
    show ?case by (simp add: subscription_update_simps disabled_row_simps)
  next
    case (3 s)
    then show ?case by (simp add: subscription_update_simps disabled_row_simps)
  next
    case (4 v s)
    from 4(2,3) have "attempt_id v = i" by (auto simp: row_update_def split: if_splits)
    with the_row 4(1) have "v = w" by blast
    with 4(2-4) w show ?case by (auto simp: row_update_def subscription_update_def disabled_row_simps)
  qed
qed (simp add: mark_webhook_failed_run ok)

lemma subscriber_ok_snoc:
  assumes "subscriber_ok ss w" and "ws_id (su_subscription x) \<notin> (\<lambda>r. ws_id (su_subscription r)) ` set ss"
  shows "subscriber_ok (ss @ [x]) w"
  using assms by (force simp: subscriber_ok_def)

lemma save_subscription_ok:
  assumes ok: "webhooks_ok n db"
  shows "webhooks_ok n (snd (save_subscription s db))"
proof -
  have fresh: "next_id (map (\<lambda>r. ws_id (su_subscription r)) rows) \<notin> (\<lambda>r. ws_id (su_subscription r)) ` set rows" for rows
    by (rule next_id_fresh)
  let ?same = "\<lambda>r. ws_url (su_subscription r) = ws_url s \<and> ws_trigger (su_subscription r) = ws_trigger s \<and>
     ws_signing_key (su_subscription r) = ws_signing_key s"
  let ?h = "\<lambda>r. if ?same r \<and> su_disabled_at r = None
     then r\<lparr>su_subscription := (su_subscription r)\<lparr>ws_active := ws_active s\<rparr>\<rparr> else r"
  have "webhooks_ok n (db\<lparr>dd_webhook_attempts := map (\<lambda>w. w) (dd_webhook_attempts db),
      dd_subscriptions := map ?h (dd_subscriptions db)\<rparr>)"
    using ok by (intro webhooks_ok_update) (auto simp: webhooks_ok_def disabled_def)
  then have old: "webhooks_ok n (db\<lparr>dd_subscriptions := map ?h (dd_subscriptions db)\<rparr>)" by simp
  have new: "webhooks_ok n (db\<lparr>dd_subscriptions := dd_subscriptions db @
      [\<lparr>su_subscription = s\<lparr>ws_id := next_id (map (\<lambda>r. ws_id (su_subscription r)) (dd_subscriptions db))\<rparr>,
        su_failures = 0, su_disabled_at = None, su_disabled_reason = None\<rparr>]\<rparr>)"
    using ok fresh [of "dd_subscriptions db"] by (simp add: webhooks_ok_def subscriber_ok_snoc)
  show ?thesis using ok old new by (simp add: save_subscription_def Let_def)
qed

section \<open>The loop over the pending attempts\<close>

text \<open>A row before and after a loop over the attempts with the ids \<open>I\<close>.\<close>

definition tried_row :: "int set \<Rightarrow> webhook_attempt_row \<Rightarrow> webhook_attempt_row \<Rightarrow> bool" where
  "tried_row I w w' \<longleftrightarrow> wa_attempt w' = wa_attempt w \<and>
     (if attempt_id w \<in> I then webhook_pending w \<and> wa_count w' = wa_count w + 1 else w' = w)"

definition tried :: "int set \<Rightarrow> 'w dispatch_db \<Rightarrow> 'w dispatch_db \<Rightarrow> bool" where
  "tried I db db' \<longleftrightarrow> list_all2 (tried_row I) (dd_webhook_attempts db) (dd_webhook_attempts db') \<and>
     booking_part db' = booking_part db \<and> dd_log db' = dd_log db \<and> dd_deliveries db' = dd_deliveries db \<and>
     dd_target_attempts db' = dd_target_attempts db"

text \<open>All attempts with the ids are delivered or dead.\<close>

definition settled :: "int set \<Rightarrow> 'w dispatch_db \<Rightarrow> bool" where
  "settled I db \<longleftrightarrow> (\<forall>w \<in> set (dd_webhook_attempts db). attempt_id w \<in> I \<longrightarrow> \<not> webhook_pending w)"

lemma tried_row_trans:
  "tried_row I u v \<Longrightarrow> tried_row J v w \<Longrightarrow> I \<inter> J = {} \<Longrightarrow> tried_row (I \<union> J) u w"
  by (auto simp: tried_row_def attempt_id_def split: if_splits)

lemma tried_trans:
  assumes "tried I r s" and "tried J s t" and "I \<inter> J = {}"
  shows "tried (I \<union> J) r t"
  using assms list_all2_trans [of "tried_row I" "tried_row J" "tried_row (I \<union> J)"] tried_row_trans
  unfolding tried_def by (metis (no_types, lifting))

lemma tried_empty: "tried {} db db"
  by (simp add: tried_def tried_row_def list_all2_refl)

lemma tried_rows:
  assumes "tried I db db'"
  shows "w' \<in> set (dd_webhook_attempts db') \<Longrightarrow> \<exists>w \<in> set (dd_webhook_attempts db). tried_row I w w'"
    and "w \<in> set (dd_webhook_attempts db) \<Longrightarrow> \<exists>w' \<in> set (dd_webhook_attempts db'). tried_row I w w'"
  using assms unfolding tried_def list_all2_conv_all_nth by (metis in_set_conv_nth)+

lemma tried_settled:
  assumes "tried J s t" and "I \<inter> J = {}"
  shows "settled I t \<longleftrightarrow> settled I s"
proof -
  have same: "w' = w" "attempt_id w' = attempt_id w" if "tried_row J w w'" "attempt_id w \<in> I \<or> attempt_id w' \<in> I" for w w'
    using that assms(2) by (auto simp: tried_row_def attempt_id_def split: if_splits)
  show ?thesis
    unfolding settled_def using tried_rows [OF assms(1)] same by metis
qed

lemma row_update_tried:
  assumes ok: "webhooks_ok n db" and w: "pending_row i db = Some w"
    and f: "\<And>v. wa_attempt (f v) = wa_attempt v \<and> wa_count (f v) = wa_count v + 1"
  shows "list_all2 (tried_row {i}) (dd_webhook_attempts db) (map (row_update i f) (dd_webhook_attempts db))"
    and "settled {i} (db\<lparr>dd_webhook_attempts := map (row_update i f) (dd_webhook_attempts db)\<rparr>) \<longleftrightarrow> \<not> webhook_pending (f w)"
proof -
  have the_row: "v = w" if "v \<in> set (dd_webhook_attempts db)" "attempt_id v = i" for v
    using ok that pending_row_Some [OF w] by (auto simp: webhooks_ok_def distinct_map inj_on_def)
  show "list_all2 (tried_row {i}) (dd_webhook_attempts db) (map (row_update i f) (dd_webhook_attempts db))"
    unfolding list_all2_map2
  proof (rule list.rel_refl_strong)
    fix v assume v: "v \<in> set (dd_webhook_attempts db)"
    then have "webhook_pending v" if "attempt_id v = i" using the_row [OF v that] pending_row_Some(3) [OF w] by simp
    then show "tried_row {i} v (row_update i f v)" by (simp add: f tried_row_def row_update_def)
  qed
  have id: "attempt_id (row_update i f v) = attempt_id v" for v using f by (simp add: row_update_def attempt_id_def)
  show "settled {i} (db\<lparr>dd_webhook_attempts := map (row_update i f) (dd_webhook_attempts db)\<rparr>) \<longleftrightarrow> \<not> webhook_pending (f w)"
  proof -
    have "settled {i} (db\<lparr>dd_webhook_attempts := map (row_update i f) (dd_webhook_attempts db)\<rparr>) \<longleftrightarrow>
        (\<forall>v \<in> set (dd_webhook_attempts db). attempt_id v = i \<longrightarrow> \<not> webhook_pending (row_update i f v))"
      by (simp add: settled_def id)
    also have "\<dots> \<longleftrightarrow> \<not> webhook_pending (row_update i f w)"
      using pending_row_Some(1,2) [OF w] by (metis the_row)
    finally show ?thesis using pending_row_Some [OF w] by (simp add: row_update_def)
  qed
qed

lemma settled_subscriptions: "settled I (db\<lparr>dd_webhook_attempts := rows, dd_subscriptions := ss\<rparr>) =
    settled I (db\<lparr>dd_webhook_attempts := rows\<rparr>)"
  by (simp add: settled_def)

lemma delivered_one:
  assumes ok: "webhooks_ok n db" and w: "pending_row i db = Some w"
  obtains db' where "mark_webhook_delivered i status db = (Inr (), db')" "tried {i} db db'" "settled {i} db'"
    "webhooks_ok n db'" "dd_world db' = dd_world db"
proof -
  define db' where "db' = snd (mark_webhook_delivered i status db)"
  have "mark_webhook_delivered i status db = (Inr (), db')" by (simp add: db'_def mark_webhook_delivered_run w)
  moreover have "tried {i} db db'"
    using row_update_tried(1) [OF ok w, of "delivered_row (bd_now db) status"]
    by (simp add: tried_def db'_def mark_webhook_delivered_run w delivered_row_def booking_part_def booking_db.truncate_def)
  moreover have "settled {i} db'"
    using row_update_tried(2) [OF ok w, of "delivered_row (bd_now db) status"]
    by (simp add: db'_def mark_webhook_delivered_run w settled_subscriptions)
      (simp add: delivered_row_def webhook_pending_def)
  moreover have "webhooks_ok n db'" unfolding db'_def by (rule delivered_ok [OF ok])
  moreover have "dd_world db' = dd_world db" by (simp add: db'_def mark_webhook_delivered_run w)
  ultimately show thesis by (rule that)
qed

lemma failed_one:
  assumes ok: "webhooks_ok (attempt_limit d) db" and w: "pending_row i db = Some w"
  obtains db' dead where "mark_webhook_failed i status failure (dp_max_attempts d) db = (Inr dead, db')"
    "tried {i} db db'" "settled {i} db' \<longleftrightarrow> dead" "webhooks_ok (attempt_limit d) db'" "dd_world db' = dd_world db"
proof -
  let ?f = "failed_row (bd_now db) (attempt_limit d) status failure"
  define db' where "db' = snd (mark_webhook_failed i status failure (dp_max_attempts d) db)"
  have "mark_webhook_failed i status failure (dp_max_attempts d) db = (Inr (wa_dead_at (?f w) \<noteq> None), db')"
    by (simp add: db'_def mark_webhook_failed_run w)
  moreover have "tried {i} db db'"
    using row_update_tried(1) [OF ok w, of ?f]
    by (simp add: tried_def db'_def mark_webhook_failed_run w failed_row_def booking_part_def booking_db.truncate_def)
  moreover have "\<not> webhook_pending (?f w) \<longleftrightarrow> wa_dead_at (?f w) \<noteq> None"
    using pending_row_Some(3) [OF w] by (auto simp: webhook_pending_def failed_row_def)
  then have "settled {i} db' \<longleftrightarrow> wa_dead_at (?f w) \<noteq> None"
    using row_update_tried(2) [OF ok w, of ?f]
    by (simp add: db'_def mark_webhook_failed_run w settled_subscriptions) (simp add: failed_row_def)
  moreover have "webhooks_ok (attempt_limit d) db'" unfolding db'_def by (rule failed_ok [OF ok])
  moreover have "dd_world db' = dd_world db" by (simp add: db'_def mark_webhook_failed_run w)
  ultimately show thesis by (intro that)
qed

lemma pending_row_settled: "pending_row i db = None \<longleftrightarrow> settled {i} db"
  by (auto simp: pending_row_def settled_def find_None_iff)

lemma settled_insert: "settled (insert i I) db \<longleftrightarrow> settled {i} db \<and> settled I db"
  by (auto simp: settled_def)

text \<open>Transports whose calls are on record, in \<open>sent\<close>.\<close>

definition logs_calls :: "('m, 'w) transport \<Rightarrow> ('w \<Rightarrow> 'm list) \<Rightarrow> bool" where
  "logs_calls t sent \<longleftrightarrow> (\<forall>m w. sent (snd (t m w)) = sent w @ [m])"

lemma send_by_run: "send_by t a db = (Inr (fst (t a (dd_world db))), db\<lparr>dd_world := snd (t a (dd_world db))\<rparr>)"
  by (simp add: send_by_def split: prod.split)

lemma attempt_outcome:
  assumes ok: "webhooks_ok (attempt_limit d) db" and a: "\<not> settled {at_id a} db"
  obtains err' db' where "\<And>as. deliver_webhooks d t (a # as) err db = deliver_webhooks d t as err' db'"
    "tried {at_id a} db db'" "webhooks_ok (attempt_limit d) db'" "err' = None \<longleftrightarrow> err = None \<and> settled {at_id a} db'"
    "dd_world db' = snd (t a (dd_world db))"
proof -
  define x where "x = fst (t a (dd_world db))"
  define db1 where "db1 = db\<lparr>dd_world := snd (t a (dd_world db))\<rparr>"
  have part: "webhook_part db1 = webhook_part db" by (simp add: webhook_part_def db1_def)
  have ok1: "webhooks_ok (attempt_limit d) db1" using webhooks_ok_part [OF part] ok by simp
  have "\<not> settled {at_id a} db1" using a by (simp add: settled_def db1_def)
  then obtain w where w: "pending_row (at_id a) db1 = Some w" using pending_row_settled by fastforce
  have from1: "tried {at_id a} db db2" if "tried {at_id a} db1 db2" for db2
    using that by (simp add: tried_def db1_def booking_part_def booking_db.truncate_def)
  have sent: "send_by t a db = (Inr x, db1)" by (simp add: send_by_run x_def db1_def)
  show thesis
  proof (cases "do_failure x")
    case None
    obtain db2 where db2: "mark_webhook_delivered (at_id a) (outcome_status x) db1 = (Inr (), db2)" "tried {at_id a} db1 db2"
        "settled {at_id a} db2" "webhooks_ok (attempt_limit d) db2" "dd_world db2 = dd_world db1"
      using delivered_one [OF ok1 w] .
    have "deliver_webhooks d t (a # as) err db = deliver_webhooks d t as err db2" for as
      by (simp add: and_then_def sent None db2(1))
    with db2 from1 show thesis by (intro that) (simp_all add: db1_def)
  next
    case (Some f)
    obtain db2 dead where db2: "mark_webhook_failed (at_id a) (outcome_status x) f (dp_max_attempts d) db1 = (Inr dead, db2)"
        "tried {at_id a} db1 db2" "settled {at_id a} db2 \<longleftrightarrow> dead" "webhooks_ok (attempt_limit d) db2" "dd_world db2 = dd_world db1"
      using failed_one [OF ok1 w] .
    have "deliver_webhooks d t (a # as) err db =
        deliver_webhooks d t as (if err = None \<and> \<not> dead then Some (DeliveryError f) else err) db2" for as
      by (simp add: and_then_def sent Some db2(1))
    moreover have "(if err = None \<and> \<not> dead then Some (DeliveryError f) else err) = None \<longleftrightarrow> err = None \<and> dead"
      by auto
    ultimately show thesis using db2(2-5) from1 [OF db2(2)] by (intro that) (simp_all add: db1_def)
  qed
qed

text \<open>The loop tries each attempt once; it reports no error iff it has settled them all.\<close>

lemma deliver_webhooks_run:
  assumes "webhooks_ok (attempt_limit d) db" and "distinct (map at_id as)" and "\<forall>a \<in> set as. \<not> settled {at_id a} db"
  shows "\<exists>err' db'. deliver_webhooks d t as err db = (Inr err', db') \<and> tried (at_id ` set as) db db' \<and>
    webhooks_ok (attempt_limit d) db' \<and> (err' = None \<longleftrightarrow> err = None \<and> settled (at_id ` set as) db') \<and>
    (\<forall>sent. logs_calls t sent \<longrightarrow> sent (dd_world db') = sent (dd_world db) @ as)"
  using assms
proof (induction as arbitrary: db err)
  case Nil
  then show ?case by (auto simp: return_ok_def tried_empty settled_def)
next
  case (Cons a as)
  let ?i = "{at_id a}" and ?I = "at_id ` set as"
  have apart: "?i \<inter> ?I = {}" using Cons.prems(2) by auto
  obtain err1 db1 where one: "\<And>as. deliver_webhooks d t (a # as) err db = deliver_webhooks d t as err1 db1"
      "tried ?i db db1" "webhooks_ok (attempt_limit d) db1" "err1 = None \<longleftrightarrow> err = None \<and> settled ?i db1"
      "dd_world db1 = snd (t a (dd_world db))"
    using attempt_outcome [OF Cons.prems(1), of a t err] Cons.prems(3) by (metis list.set_intros(1))
  have "\<forall>b \<in> set as. \<not> settled {at_id b} db1"
  proof
    fix b assume b: "b \<in> set as"
    with apart have "{at_id b} \<inter> ?i = {}" by auto
    with tried_settled [OF one(2)] Cons.prems(3) b show "\<not> settled {at_id b} db1" by simp
  qed
  with Cons.IH [OF one(3), of err1] Cons.prems(2) obtain err2 db2 where rest:
      "deliver_webhooks d t as err1 db1 = (Inr err2, db2)" "tried ?I db1 db2" "webhooks_ok (attempt_limit d) db2"
      "err2 = None \<longleftrightarrow> err1 = None \<and> settled ?I db2"
      "\<And>sent. logs_calls t sent \<Longrightarrow> sent (dd_world db2) = sent (dd_world db1) @ as"
    by auto
  have "tried (insert (at_id a) ?I) db db2" using tried_trans [OF one(2) rest(2) apart] by simp
  moreover have "settled ?i db2 \<longleftrightarrow> settled ?i db1" using tried_settled [OF rest(2) apart] .
  moreover have "sent (dd_world db2) = sent (dd_world db) @ a # as" if "logs_calls t sent" for sent
    using rest(5) [OF that] that by (simp add: one(5) logs_calls_def)
  ultimately show ?case
    using one(1) [of as] one(4) rest(1,3,4) settled_insert [of "at_id a" ?I db2] by auto
qed

section \<open>Preparing and delivering the webhooks of an effect\<close>

definition effect_ids :: "int \<Rightarrow> 'w dispatch_db \<Rightarrow> int set" where
  "effect_ids i db = {attempt_id w | w. w \<in> set (dd_webhook_attempts db) \<and> at_effect (wa_attempt w) = i \<and> webhook_pending w}"

lemma pending_webhooks_ids:
  assumes "webhooks_ok n db"
  shows "at_id ` set (pending_webhooks i db) = effect_ids i db" "distinct (map at_id (pending_webhooks i db))"
    "\<forall>a \<in> set (pending_webhooks i db). \<not> settled {at_id a} db"
proof -
  show "at_id ` set (pending_webhooks i db) = effect_ids i db"
    by (auto simp: pending_webhooks_def effect_ids_def attempt_id_def image_iff)
  have "distinct (map attempt_id (filter P (dd_webhook_attempts db)))" for P
    using assms by (auto simp: webhooks_ok_def intro: distinct_map_filter)
  then show "distinct (map at_id (pending_webhooks i db))"
    by (simp add: pending_webhooks_def comp_def attempt_id_def [abs_def])
  show "\<forall>a \<in> set (pending_webhooks i db). \<not> settled {at_id a} db"
    by (auto simp: pending_webhooks_def settled_def attempt_id_def)
qed

lemma kinds_apart:
  "webhook_trigger name \<noteq> None \<Longrightarrow> email_action name = None \<and> calendar_action name = None"
  by (auto simp: webhook_trigger_def email_action_def calendar_action_def split: if_splits)

end
