(* ===== verification/DispatcherProps.thy ===== *)
theory DispatcherProps
  imports AttemptRuns
begin

text \<open>
  The properties of the dispatcher: the limits of webhook attempts whatever the interleaving of
  dispatchers, what is sent, and the end of every effect's retries.
\<close>

section \<open>Dispatchers at work\<close>

text \<open>
  One transaction of a dispatcher, of any of several at work on the same tables, a new subscription, or
  a step that leaves the dispatcher's tables alone: a request that a transport sends, the booking store,
  the queue. A preparation reads the bookings and the subscriptions on other connections of the pool:
  beside the preparation that reads what its transaction sees, there is one for any states of the
  database that these reads may have met, however old.
\<close>

inductive dispatch_step :: "'w dispatcher \<Rightarrow> 'w dispatch_db \<Rightarrow> 'w dispatch_db \<Rightarrow> bool" for d where
  prepare: "dispatch_step d db (snd (prepare_attempts d e db))"
| prepare_pooled: "dispatch_step d db (snd (prepare_attempts_via (reading_from b1 seen d) (reading_from b2 seen d)
    (reading_from b3 seen d) e db))"
| delivered: "dispatch_step d db (snd (mark_webhook_delivered i status db))"
| failed: "dispatch_step d db (snd (mark_webhook_failed i status f (dp_max_attempts d) db))"
| target_delivered: "dispatch_step d db (snd (mark_target_delivered kind what i status db))"
| target_failed: "dispatch_step d db (snd (mark_target_failed kind what i status f db))"
| subscribe: "dispatch_step d db (snd (save_subscription s db))"
| outside: "dd_log db' = dd_log db \<Longrightarrow> dd_deliveries db' = dd_deliveries db \<Longrightarrow>
    dd_webhook_attempts db' = dd_webhook_attempts db \<Longrightarrow> dd_target_attempts db' = dd_target_attempts db \<Longrightarrow>
    dd_subscriptions db' = dd_subscriptions db \<Longrightarrow> dispatch_step d db db'"

text \<open>The tables of the dispatcher as the migrations create them.\<close>

definition fresh_tables :: "'w dispatch_db \<Rightarrow> bool" where
  "fresh_tables db \<longleftrightarrow> dd_log db = [] \<and> dd_deliveries db = (\<lambda>_. []) \<and> dd_webhook_attempts db = [] \<and>
     dd_target_attempts db = (\<lambda>_. []) \<and> dd_subscriptions db = []"

lemma attempt_limit_pos: "0 < attempt_limit d"
  by (simp add: attempt_limit_def default_max_attempts_def)

lemma update_target_keeps [moving]:
  "keeps webhook_part (update_target kind i what f)" "keeps booking_part (update_target kind i what f)"
  "keeps dd_world (update_target kind i what f)" "keeps dd_log (update_target kind i what f)"
  by (auto simp: moves_def update_target_def webhook_part_def booking_part_def booking_db.truncate_def)

text \<open>Only the webhook rows of emails and calendars could be touched, and there are none.\<close>

lemma mark_target_keeps [moving]:
  "keeps webhook_part (mark_target_delivered kind what i status)" "keeps webhook_part (mark_target_failed kind what i status f)"
  "keeps booking_part (mark_target_delivered kind what i status)" "keeps booking_part (mark_target_failed kind what i status f)"
  "keeps dd_world (mark_target_delivered kind what i status)" "keeps dd_world (mark_target_failed kind what i status f)"
  unfolding mark_target_delivered_def mark_target_failed_def by (intro moving)+

lemma prepare_via_or_same:
  obtains "snd (prepare_attempts_via dw de dc e db) = db"
    | ws es cs db' where "prepare_attempts_via dw de dc e db = (Inr (ws, es, cs), db')"
proof (cases "prepare_attempts_via dw de dc e db")
  case (Pair x db')
  show thesis
  proof (cases x)
    case (Inl f)
    with Pair show thesis
      by (intro that(1)) (auto simp: prepare_attempts_via_def in_tx_def split: prod.splits sum.splits)
  qed (use Pair that(2) in \<open>cases "projr x"; auto\<close>)
qed

text \<open>What a preparation does to the webhook tables, whatever its readers are.\<close>

lemma prepare_via_step:
  assumes "webhooks_ok n db" "0 < n"
  shows "webhooks_ok n (snd (prepare_attempts_via dw de dc e db)) \<and>
    (\<exists>new. dd_webhook_attempts (snd (prepare_attempts_via dw de dc e db)) = dd_webhook_attempts db @ new \<and>
      rows_for dw e db new)"
proof (rule prepare_via_or_same [of dw de dc e db])
  assume "snd (prepare_attempts_via dw de dc e db) = db"
  with assms show ?thesis by (simp add: rows_for_def)
next
  fix ws es cs db' assume "prepare_attempts_via dw de dc e db = (Inr (ws, es, cs), db')"
  with prepare_via_ok [OF assms this] show ?thesis by simp
qed

lemma dispatch_step_ok:
  "dispatch_step d db db' \<Longrightarrow> webhooks_ok (attempt_limit d) db \<Longrightarrow> webhooks_ok (attempt_limit d) db'"
proof (induction rule: dispatch_step.induct)
  case (prepare db e)
  show ?case unfolding prepare_attempts_def by (rule prepare_via_step [OF prepare attempt_limit_pos, THEN conjunct1])
next
  case (prepare_pooled db b1 seen b2 b3 e)
  show ?case by (rule prepare_via_step [OF prepare_pooled attempt_limit_pos, THEN conjunct1])
next
  case (target_delivered db kind what i status)
  from webhooks_ok_part [OF mark_target_keeps(1) [unfolded moves_def, rule_format]] target_delivered show ?case by blast
next
  case (target_failed db kind what i status f)
  from webhooks_ok_part [OF mark_target_keeps(2) [unfolded moves_def, rule_format]] target_failed show ?case by blast
next
  case (outside db' db)
  then show ?case by (simp add: webhooks_ok_def)
qed (simp_all add: delivered_ok failed_ok save_subscription_ok)

lemma fresh_tables_ok: "fresh_tables db \<Longrightarrow> webhooks_ok n db"
  by (simp add: fresh_tables_def webhooks_ok_def)

lemma dispatch_steps_ok:
  assumes "(dispatch_step d)\<^sup>*\<^sup>* db db'" and "webhooks_ok (attempt_limit d) db"
  shows "webhooks_ok (attempt_limit d) db'"
  using assms by (induction rule: rtranclp_induct) (auto intro: dispatch_step_ok)

lemma same_attempt:
  assumes ok: "webhooks_ok n db" and "v \<in> set (dd_webhook_attempts db)" "w \<in> set (dd_webhook_attempts db)"
    and "attempt_id v = attempt_id w \<or> at_effect (wa_attempt v) = at_effect (wa_attempt w) \<and>
      at_subscriber (wa_attempt v) = at_subscriber (wa_attempt w)"
  shows "v = w"
proof (cases "attempt_id v = attempt_id w")
  case True
  with assms show ?thesis by (auto simp: webhooks_ok_def distinct_map inj_on_def)
next
  case False
  obtain x y where xy: "x \<in> set (dd_deliveries db WebhookDelivery)" "y \<in> set (dd_deliveries db WebhookDelivery)"
      "dv_id x = at_delivery (wa_attempt v)" "dv_effect x = at_effect (wa_attempt v)"
      "dv_id y = at_delivery (wa_attempt w)" "dv_effect y = at_effect (wa_attempt w)"
    using assms(1-3) unfolding webhooks_ok_def delivery_ok_def by blast
  have "inj_on dv_effect (set (dd_deliveries db WebhookDelivery))" using ok by (simp add: webhooks_ok_def distinct_map)
  with xy False assms(4) have "x = y" by (metis inj_onD)
  with xy False assms(4) have "attempt_target v = attempt_target w" by (simp add: attempt_target_def)
  moreover have "inj_on attempt_target (set (dd_webhook_attempts db))" using ok by (simp add: webhooks_ok_def distinct_map)
  ultimately show ?thesis using assms(2,3) by (metis inj_onD)
qed

text \<open>
  C8: webhook attempts are bounded. However the transactions of any number of dispatchers interleave, on
  tables that start empty, an attempt is made at most the configured number of times (three if none is
  configured); one that is pending has tries left, a dead letter has used all of them without being
  delivered, and the subscription of a dead letter exists and is disabled. A subscriber has at most one
  attempt for each side effect, and attempts have different ids.
\<close>
theorem webhook_attempts_bounded:
  assumes "fresh_tables db" and "(dispatch_step d)\<^sup>*\<^sup>* db db'" and "w \<in> set (dd_webhook_attempts db')"
  shows "0 \<le> wa_count w \<and> wa_count w \<le> attempt_limit d \<and>
    (webhook_pending w \<longrightarrow> wa_count w < attempt_limit d) \<and>
    (wa_dead_at w \<noteq> None \<longrightarrow> wa_count w = attempt_limit d \<and> wa_delivered_at w = None \<and>
      (\<forall>s \<in> set (dd_subscriptions db'). ws_id (su_subscription s) = at_subscriber (wa_attempt w) \<longrightarrow>
        \<not> ws_active (su_subscription s) \<and> su_disabled_at s \<noteq> None)) \<and>
    (\<exists>s \<in> set (dd_subscriptions db'). ws_id (su_subscription s) = at_subscriber (wa_attempt w)) \<and>
    (\<forall>v \<in> set (dd_webhook_attempts db'). v \<noteq> w \<longrightarrow> at_id (wa_attempt v) \<noteq> at_id (wa_attempt w) \<and>
      (at_effect (wa_attempt v), at_subscriber (wa_attempt v)) \<noteq> (at_effect (wa_attempt w), at_subscriber (wa_attempt w)))"
proof -
  have ok: "webhooks_ok (attempt_limit d) db'" using dispatch_steps_ok [OF assms(2) fresh_tables_ok [OF assms(1)]] .
  then have "attempt_ok (attempt_limit d) w" "subscriber_ok (dd_subscriptions db') w"
    using assms(3) by (simp_all add: webhooks_ok_def)
  then show ?thesis using same_attempt [OF ok _ assms(3)]
    unfolding attempt_ok_def subscriber_ok_def disabled_def attempt_id_def by blast
qed

section \<open>Settled attempts\<close>

lemma marks_keep_settled:
  assumes "\<not> webhook_pending w" and "w \<in> set (dd_webhook_attempts db)"
  shows "w \<in> set (dd_webhook_attempts (snd (mark_webhook_delivered i status db)))"
    "w \<in> set (dd_webhook_attempts (snd (mark_webhook_failed i status f (dp_max_attempts (d :: 'v dispatcher)) db)))"
proof -
  have "w \<in> row_update i g ` set (dd_webhook_attempts db)" for g
    using assms by (intro image_eqI [of _ _ w]) (simp_all add: row_update_def)
  with assms(2) show "w \<in> set (dd_webhook_attempts (snd (mark_webhook_delivered i status db)))"
    "w \<in> set (dd_webhook_attempts (snd (mark_webhook_failed i status f (dp_max_attempts d) db)))"
    unfolding mark_webhook_delivered_run mark_webhook_failed_run by (simp_all split: option.split)
qed

lemma marks_keep_attempts:
  "map wa_attempt (dd_webhook_attempts (snd (mark_webhook_delivered i status db))) = map wa_attempt (dd_webhook_attempts db)"
  "map wa_attempt (dd_webhook_attempts (snd (mark_webhook_failed i status f (dp_max_attempts (d :: 'v dispatcher)) db))) =
     map wa_attempt (dd_webhook_attempts db)"
  unfolding mark_webhook_delivered_run mark_webhook_failed_run
  by (auto simp: row_update_def outcome_rows_ok split: option.split)

text \<open>A step keeps the rows that are settled.\<close>

lemma dispatch_step_settled:
  assumes "dispatch_step d db db'" "webhooks_ok (attempt_limit d) db" "\<not> webhook_pending w"
    and "w \<in> set (dd_webhook_attempts db)"
  shows "w \<in> set (dd_webhook_attempts db')"
  using assms
proof (induction rule: dispatch_step.induct)
  case (prepare db e)
  from prepare_via_step [OF prepare(1) attempt_limit_pos] prepare(3) show ?case
    unfolding prepare_attempts_def by (metis Un_iff set_append)
next
  case (prepare_pooled db b1 seen b2 b3 e)
  from prepare_via_step [OF prepare_pooled(1) attempt_limit_pos] prepare_pooled(3) show ?case
    by (metis Un_iff set_append)
next
  case (delivered db i status)
  then show ?case by (intro marks_keep_settled(1))
next
  case (failed db i status f)
  then show ?case by (intro marks_keep_settled(2))
next
  case (target_delivered db kind what i status)
  have "webhook_part (snd (mark_target_delivered kind what i status db)) = webhook_part db"
    by (rule keepsD [OF mark_target_keeps(1), of _ _ _ _ _ "fst (mark_target_delivered kind what i status db)"]) simp
  with target_delivered show ?case by (simp add: webhook_part_def)
next
  case (target_failed db kind what i status f)
  have "webhook_part (snd (mark_target_failed kind what i status f db)) = webhook_part db"
    by (rule keepsD [OF mark_target_keeps(2), of _ _ _ _ _ _ "fst (mark_target_failed kind what i status f db)"]) simp
  with target_failed show ?case by (simp add: webhook_part_def)
qed (simp_all add: save_subscription_def Let_def)

lemma dispatch_steps_settled:
  assumes "(dispatch_step d)\<^sup>*\<^sup>* db db'" "webhooks_ok (attempt_limit d) db" "\<not> webhook_pending w"
    and "w \<in> set (dd_webhook_attempts db)"
  shows "w \<in> set (dd_webhook_attempts db')"
  using assms
proof (induction rule: rtranclp_induct)
  case (step db1 db2)
  from dispatch_steps_ok [OF step.hyps(1) step.prems(1)] step show ?case by (blast intro: dispatch_step_settled)
qed

lemma dead_not_active:
  assumes "webhooks_ok n db" "w \<in> set (dd_webhook_attempts db)" "wa_dead_at w \<noteq> None"
  shows "\<not> active_subscriber (dd_subscriptions db) (at_subscriber (wa_attempt w))"
  using assms unfolding webhooks_ok_def subscriber_ok_def active_subscriber_def disabled_def by blast

text \<open>A preparation adds attempts for those subscribers only that were active where it read them.\<close>

lemma prepare_adds_active:
  assumes "webhooks_ok (attempt_limit d) db" and "dp_subscriptions d = Some read_subscriptions"
    and "v \<in> set (dd_webhook_attempts (snd (prepare_attempts_via (reading_from b seen d) de dc e db)))"
    and "\<not> active_subscriber (dd_subscriptions seen) (at_subscriber (wa_attempt v))"
  shows "v \<in> set (dd_webhook_attempts db)"
proof -
  obtain new where new: "dd_webhook_attempts (snd (prepare_attempts_via (reading_from b seen d) de dc e db)) =
      dd_webhook_attempts db @ new" "rows_for (reading_from b seen d) e db new"
    using prepare_via_step [OF assms(1) attempt_limit_pos] by blast
  have "v \<notin> set new" using new(2) assms(4) table_reads_active(2) [OF assms(2)] unfolding rows_for_def by blast
  with new(1) assms(3) show ?thesis by simp
qed

text \<open>
  C22: an attempt that is delivered or dead is final, and a dead letter cuts its subscriber off. However
  the dispatchers go on from a state of the tables, the row of such an attempt stays as it is. And when
  the attempt is a dead letter and the dispatcher reads its subscriptions from the table, a preparation
  that reads them in that state or a later one adds no attempt for the subscriber, wherever it reads the
  bookings and however much later its transaction commits. (A preparation that read the subscriptions
  before the dead letter was committed can still add one: the read is not part of the transaction.)
\<close>
theorem settled_attempts_final:
  assumes "fresh_tables db0" and "(dispatch_step d)\<^sup>*\<^sup>* db0 db"
    and "(dispatch_step d)\<^sup>*\<^sup>* db seen" and "(dispatch_step d)\<^sup>*\<^sup>* seen db'"
    and "w \<in> set (dd_webhook_attempts db)" and "\<not> webhook_pending w"
  shows "w \<in> set (dd_webhook_attempts db') \<and>
    (wa_dead_at w \<noteq> None \<and> dp_subscriptions d = Some read_subscriptions \<longrightarrow>
      (\<forall>b1 b2 b3 e v. v \<in> set (dd_webhook_attempts (snd (prepare_attempts_via (reading_from b1 seen d)
          (reading_from b2 seen d) (reading_from b3 seen d) e db'))) \<and>
        at_subscriber (wa_attempt v) = at_subscriber (wa_attempt w) \<longrightarrow> v \<in> set (dd_webhook_attempts db')))"
proof -
  have ok: "webhooks_ok (attempt_limit d) db" using dispatch_steps_ok [OF assms(2) fresh_tables_ok [OF assms(1)]] .
  note ok_seen = dispatch_steps_ok [OF assms(3) ok]
  note seen = dispatch_steps_settled [OF assms(3) ok assms(6,5)]
  have "w \<in> set (dd_webhook_attempts db')" by (rule dispatch_steps_settled [OF assms(4) ok_seen assms(6) seen])
  moreover note prepare_adds_active [OF dispatch_steps_ok [OF assms(4) ok_seen]] dead_not_active [OF ok_seen seen]
  ultimately show ?thesis by metis
qed

section \<open>The dispatch of an effect\<close>

lemma deliver_targets_moves [moving]:
  assumes R: "preorder_rel R" and "\<And>m. moves R (send_by transport m)"
    and "\<And>i f. moves R (update_target kind i what f)"
  shows "moves R (deliver_targets kind what prepare transport as err)"
  using assms
proof (induction as arbitrary: err)
  case Nil
  then show ?case by (simp add: moves_basic)
next
  case (Cons a as)
  show ?case unfolding deliver_targets.simps mark_target_failed_def mark_target_delivered_def
    by (intro moving Cons)
qed

definition quiet_targets :: "'w dispatcher \<Rightarrow> ('w \<Rightarrow> 'm list) \<Rightarrow> bool" where
  "quiet_targets d sent \<longleftrightarrow> (\<forall>t m w. dp_email d = Some t \<or> dp_calendar d = Some t \<longrightarrow> sent (snd (t m w)) = sent w)"

definition deliver_rest :: "'w dispatcher \<Rightarrow> target_attempt list \<Rightarrow> target_attempt list \<Rightarrow> dispatch_error option \<Rightarrow>
    ('w, unit) dispatch_handler" where
  "deliver_rest d emails calendars err =
     and_then (if emails = [] then return_ok err
       else and_then (demand (dp_email d) (DispatchError ''email delivery requires a transport'')) (\<lambda>transport.
         deliver_targets EmailDelivery ''email delivery'' (prepare_email_dispatch d) transport emails err)) (\<lambda>err.
     and_then (if calendars = [] then return_ok err
       else and_then (demand (dp_calendar d) (DispatchError ''calendar dispatch requires a transport'')) (\<lambda>transport.
         deliver_targets CalendarDispatch ''calendar dispatch'' (prepare_calendar_dispatch d) transport calendars err)) (\<lambda>err.
     case err of None \<Rightarrow> return_ok () | Some f \<Rightarrow> fail_with f))"

definition effect_valid :: "queued_effect \<Rightarrow> bool" where
  "effect_valid e \<longleftrightarrow> \<not> (qe_id e = 0 \<or> qe_name e = [] \<or> qe_booking_uid e = [] \<or> qe_request_id e = [])"

lemma dispatch_effect_run:
  "dispatch_effect d e =
     and_then (check (effect_valid e) (DispatchError ''invalid planned side effect dispatch record'')) (\<lambda>_.
     and_then (prepare_attempts d e) (\<lambda>(webhooks, emails, calendars).
     and_then (if webhooks = [] then return_ok None
       else and_then (demand (dp_webhook d) (DispatchError ''webhook dispatch requires a transport'')) (\<lambda>transport.
         deliver_webhooks d transport webhooks None)) (deliver_rest d emails calendars)))"
  unfolding dispatch_effect_def deliver_rest_def effect_valid_def by simp

lemma moves_demanded [moving]:
  assumes "preorder_rel R" and "\<And>t. z = Some t \<Longrightarrow> moves R (f t)"
  shows "moves R (and_then (demand z e) f)"
  using assms by (cases z) (auto simp: moves_def basic_handlers_run preorder_rel_def reflp_def)

lemma deliver_rest_keeps:
  "keeps webhook_part (deliver_rest d emails calendars err)" "keeps booking_part (deliver_rest d emails calendars err)"
  "quiet_targets d sent \<Longrightarrow> keeps (\<lambda>db. sent (dd_world db)) (deliver_rest d emails calendars err)"
  "keeps dd_log (deliver_rest d emails calendars err)"
proof -
  have send: "keeps webhook_part (send_by t m)" "keeps booking_part (send_by t m)" "keeps dd_log (send_by t m)" for t m
    by (simp_all add: moves_def send_by_run webhook_part_def booking_part_def booking_db.truncate_def)
  show "keeps webhook_part (deliver_rest d emails calendars err)" "keeps booking_part (deliver_rest d emails calendars err)"
    "keeps dd_log (deliver_rest d emails calendars err)"
    unfolding deliver_rest_def by (intro moving send)+
  assume quiet: "quiet_targets d sent"
  have "keeps (\<lambda>db. sent (dd_world db)) (send_by t m)" if "dp_email d = Some t \<or> dp_calendar d = Some t" for t m
    using quiet that by (auto simp: moves_def send_by_run quiet_targets_def)
  moreover have "keeps (\<lambda>db. sent (dd_world db)) (update_target kind i what f)" for kind i what f
    by (auto simp: moves_def update_target_def)
  ultimately show "keeps (\<lambda>db. sent (dd_world db)) (deliver_rest d emails calendars err)"
    unfolding deliver_rest_def by (intro moving) simp_all
qed

text \<open>The dispatch of an effect is a run of transactions and steps of the transports.\<close>

lemma steps_of [moving]:
  "moves (dispatch_step d)\<^sup>*\<^sup>* (prepare_attempts d e)" "moves (dispatch_step d)\<^sup>*\<^sup>* (send_by t m)"
  "moves (dispatch_step d)\<^sup>*\<^sup>* (mark_webhook_delivered i status)"
  "moves (dispatch_step d)\<^sup>*\<^sup>* (mark_webhook_failed i status f (dp_max_attempts d))"
  "moves (dispatch_step d)\<^sup>*\<^sup>* (mark_target_delivered kind what i status)"
  "moves (dispatch_step d)\<^sup>*\<^sup>* (mark_target_failed kind what i status f)"
  by (auto simp: moves_def send_by_run intro!: r_into_rtranclp intro: dispatch_step.intros)

lemma deliveries_steps [moving]:
  "moves (dispatch_step d)\<^sup>*\<^sup>* (deliver_webhooks d t as err)"
  "moves (dispatch_step d)\<^sup>*\<^sup>* (deliver_targets kind what prepare' t' bs err)"
proof -
  show "moves (dispatch_step d)\<^sup>*\<^sup>* (deliver_webhooks d t as err)"
  proof (induction as arbitrary: err)
    case (Cons a as)
    show ?case unfolding deliver_webhooks.simps by (intro moving Cons)
  qed (simp add: moves_basic preorder_rels)
  show "moves (dispatch_step d)\<^sup>*\<^sup>* (deliver_targets kind what prepare' t' bs err)"
  proof (induction bs arbitrary: err)
    case (Cons a as)
    show ?case unfolding deliver_targets.simps by (intro moving Cons)
  qed (simp add: moves_basic preorder_rels)
qed

lemma dispatch_effect_steps: "(dispatch_step d)\<^sup>*\<^sup>* db (snd (dispatch_effect d e db))"
proof -
  have "moves (dispatch_step d)\<^sup>*\<^sup>* (dispatch_effect d e)"
    unfolding dispatch_effect_run deliver_rest_def by (intro moving)
  then show ?thesis by (simp add: moves_def)
qed

section \<open>What is sent\<close>

definition sent_ok :: "('w \<Rightarrow> webhook_attempt list) \<Rightarrow> 'w dispatch_db \<Rightarrow> bool" where
  "sent_ok sent db \<longleftrightarrow> set (sent (dd_world db)) \<subseteq> wa_attempt ` set (dd_webhook_attempts db) \<and>
     (\<forall>w \<in> set (dd_webhook_attempts db).
        int (length (filter (\<lambda>a. at_id a = attempt_id w) (sent (dd_world db)))) = wa_count w)"

lemma count_distinct:
  "distinct (map f xs) \<Longrightarrow> length (filter (\<lambda>x. f x = y) xs) = (if y \<in> f ` set xs then 1 else 0)"
  by (induction xs) auto

lemma tried_sent_ok:
  assumes "sent_ok sent db" and tried: "tried (at_id ` set as) db db'"
    and sent: "sent (dd_world db') = sent (dd_world db) @ as" and as: "distinct (map at_id as)"
    "set as \<subseteq> wa_attempt ` set (dd_webhook_attempts db)"
  shows "sent_ok sent db'"
proof -
  have "int (length (filter (\<lambda>a. at_id a = attempt_id w') (sent (dd_world db')))) = wa_count w'"
    if w': "w' \<in> set (dd_webhook_attempts db')" for w'
  proof -
    obtain w where w: "w \<in> set (dd_webhook_attempts db)" "tried_row (at_id ` set as) w w'"
      using tried_rows(1) [OF tried w'] by blast
    then have "attempt_id w' = attempt_id w"
        "wa_count w' = wa_count w + (if attempt_id w \<in> at_id ` set as then 1 else 0)"
      by (auto simp: tried_row_def attempt_id_def)
    moreover have "int (length (filter (\<lambda>a. at_id a = attempt_id w) (sent (dd_world db)))) = wa_count w"
      using assms(1) w(1) by (simp add: sent_ok_def)
    ultimately show ?thesis by (simp add: sent count_distinct [OF as(1)])
  qed
  moreover have "wa_attempt ` set (dd_webhook_attempts db) \<subseteq> wa_attempt ` set (dd_webhook_attempts db')"
  proof (rule image_subsetI)
    fix w assume "w \<in> set (dd_webhook_attempts db)"
    from tried_rows(2) [OF tried this] obtain w' where "w' \<in> set (dd_webhook_attempts db')" "wa_attempt w' = wa_attempt w"
      by (auto simp: tried_row_def)
    then show "wa_attempt w \<in> wa_attempt ` set (dd_webhook_attempts db')" by (metis imageI)
  qed
  ultimately show ?thesis using assms(1) as(2) by (auto simp: sent_ok_def sent)
qed

lemma added_sent_ok:
  assumes ok: "webhooks_ok n db'" and sent: "sent_ok sent db" "dd_world db' = dd_world db"
    and rows: "dd_webhook_attempts db' = dd_webhook_attempts db @ new" "rows_for d e db new"
  shows "sent_ok sent db'"
proof -
  have "length (filter (\<lambda>a. at_id a = attempt_id w) (sent (dd_world db))) = 0" if "w \<in> set new" for w
  proof -
    have "at_id a \<noteq> attempt_id w" if a: "a \<in> set (sent (dd_world db))" for a
    proof -
      obtain v where "v \<in> set (dd_webhook_attempts db)" "attempt_id v = at_id a"
        using sent(1) a by (auto simp: sent_ok_def attempt_id_def)
      moreover have "attempt_id w \<notin> attempt_id ` set (dd_webhook_attempts db)"
        using ok \<open>w \<in> set new\<close> by (auto simp: webhooks_ok_def rows(1))
      ultimately show ?thesis by (metis imageI)
    qed
    then show ?thesis by simp
  qed
  then show ?thesis using sent rows by (auto simp: sent_ok_def rows_for_def)
qed

lemma dispatch_sent_ok:
  assumes ok: "webhooks_ok (attempt_limit d) db" and sent: "sent_ok sent db"
    and t: "dp_webhook d = Some t" "logs_calls t sent" "quiet_targets d sent"
  shows "sent_ok sent (snd (dispatch_effect d e db))"
proof (cases "effect_valid e")
  case True
  show ?thesis
  proof (cases "prepare_attempts d e db")
    case (Pair x db1)
    show ?thesis
    proof (cases x)
      case (Inl f)
      with Pair True have "snd (dispatch_effect d e db) = db1"
        by (simp add: dispatch_effect_run basic_handlers_run and_then_def check_def)
      moreover have "db1 = db" using Pair Inl by (auto simp: prepare_attempts_def prepare_attempts_via_def in_tx_def split: prod.splits sum.splits)
      ultimately show ?thesis using sent by simp
    next
      case (Inr p)
      obtain ws es cs where p: "p = (ws, es, cs)" by (cases p)
      note run = Pair [unfolded Inr p]
      obtain new where new: "webhooks_ok (attempt_limit d) db1" "dd_webhook_attempts db1 = dd_webhook_attempts db @ new"
          "rows_for d e db new" "ws = [] \<or> ws = pending_webhooks (qe_id e) db1"
        using prepare_attempts_ok [OF ok attempt_limit_pos run] by blast
      have sent1: "sent_ok sent db1"
        using added_sent_ok [OF new(1) sent _ new(2,3)] keepsD [OF prepare_attempts_keeps(2) run] by simp
      have ws: "distinct (map at_id ws)" "\<forall>a \<in> set ws. \<not> settled {at_id a} db1"
          "set ws \<subseteq> wa_attempt ` set (dd_webhook_attempts db1)"
        using new(4) pending_webhooks_ids(2,3) [OF new(1)] by (auto simp: pending_webhooks_def)
      obtain err db2 where loop: "deliver_webhooks d t ws None db1 = (Inr err, db2)" "tried (at_id ` set ws) db1 db2"
          "sent (dd_world db2) = sent (dd_world db1) @ ws"
        using deliver_webhooks_run [OF new(1) ws(1,2), of t None] t(2) by blast
      have "snd (dispatch_effect d e db) = snd (deliver_rest d es cs err db2)"
        using True run loop(1) t(1)
        by (cases ws) (auto simp: dispatch_effect_run and_then_def check_def demand_def return_ok_def)
      moreover have "webhook_part (snd (deliver_rest d es cs err db2)) = webhook_part db2"
          "sent (dd_world (snd (deliver_rest d es cs err db2))) = sent (dd_world db2)"
        by (rule keeps_at [OF deliver_rest_keeps(1)], rule keeps_at [OF deliver_rest_keeps(3) [OF t(3)]])
      ultimately show ?thesis
        using tried_sent_ok [OF sent1 loop(2,3) ws(1,3)] by (simp add: sent_ok_def webhook_part_def)
    qed
  qed
qed (simp add: dispatch_effect_run basic_handlers_run sent)

text \<open>A single dispatcher at work, with new subscriptions and other users of the database.\<close>

inductive serve_step :: "'w dispatcher \<Rightarrow> 'w dispatch_db \<Rightarrow> 'w dispatch_db \<Rightarrow> bool" for d where
  dispatch: "serve_step d db (snd (dispatch_effect d e db))"
| subscribe: "serve_step d db (snd (save_subscription s db))"
| outside: "dd_log db' = dd_log db \<Longrightarrow> dd_deliveries db' = dd_deliveries db \<Longrightarrow>
    dd_webhook_attempts db' = dd_webhook_attempts db \<Longrightarrow> dd_target_attempts db' = dd_target_attempts db \<Longrightarrow>
    dd_subscriptions db' = dd_subscriptions db \<Longrightarrow> dd_world db' = dd_world db \<Longrightarrow> serve_step d db db'"

lemma serve_steps: "serve_step d db db' \<Longrightarrow> (dispatch_step d)\<^sup>*\<^sup>* db db'"
  by (induction rule: serve_step.induct)
    (auto intro: dispatch_effect_steps r_into_rtranclp dispatch_step.intros)

text \<open>
  C17: what a dispatcher sends is what its table says. In any run of a dispatcher on tables that start
  empty, whatever the transports answer, the calls of the webhook transport for an attempt are as many as
  the attempt's count says, at most the limit, and each is a call with that attempt as recorded; there is
  no call for anything else.
\<close>
theorem sends_match_counts:
  assumes "dp_webhook d = Some t" "logs_calls t sent" "quiet_targets d sent"
    and "fresh_tables db" "sent (dd_world db) = []" and "(serve_step d)\<^sup>*\<^sup>* db db'"
  shows "set (sent (dd_world db')) \<subseteq> wa_attempt ` set (dd_webhook_attempts db') \<and>
    (\<forall>w \<in> set (dd_webhook_attempts db'). wa_count w \<le> attempt_limit d \<and>
      filter (\<lambda>a. at_id a = at_id (wa_attempt w)) (sent (dd_world db')) = replicate (nat (wa_count w)) (wa_attempt w))"
proof -
  have "sent_ok sent db' \<and> webhooks_ok (attempt_limit d) db'"
    using assms(6)
  proof (induction rule: rtranclp_induct)
    case base
    with assms(4,5) show ?case by (simp add: sent_ok_def fresh_tables_ok) (simp add: fresh_tables_def)
  next
    case (step db1 db2)
    have "sent_ok sent db2" using step.hyps(2) step.IH
    proof (cases rule: serve_step.cases)
      case (dispatch e)
      with step.IH dispatch_sent_ok [OF _ _ assms(1-3)] show ?thesis by simp
    qed (auto simp: sent_ok_def save_subscription_def Let_def)
    moreover have "webhooks_ok (attempt_limit d) db2"
      using dispatch_steps_ok [OF serve_steps [OF step.hyps(2)]] step.IH by blast
    ultimately show ?case ..
  qed
  then have sent: "sent_ok sent db'" and ok: "webhooks_ok (attempt_limit d) db'" by blast+
  have "filter (\<lambda>a. at_id a = at_id (wa_attempt w)) (sent (dd_world db')) = replicate (nat (wa_count w)) (wa_attempt w)"
    if w: "w \<in> set (dd_webhook_attempts db')" for w
  proof -
    let ?calls = "filter (\<lambda>a. at_id a = at_id (wa_attempt w)) (sent (dd_world db'))"
    have "a = wa_attempt w" if "a \<in> set ?calls" for a
      using that sent same_attempt [OF ok _ w] by (fastforce simp: sent_ok_def attempt_id_def)
    moreover have "int (length ?calls) = wa_count w" using sent w by (simp add: sent_ok_def attempt_id_def)
    ultimately show ?thesis using replicate_length_same [of ?calls "wa_attempt w"] by (metis nat_int)
  qed
  moreover have "wa_count w \<le> attempt_limit d" if "w \<in> set (dd_webhook_attempts db')" for w
    using ok that by (simp add: webhooks_ok_def attempt_ok_def)
  ultimately show ?thesis using sent by (simp add: sent_ok_def)
qed

end
