(* ===== verification/DispatcherEnd.thy ===== *)
theory DispatcherEnd
  imports DispatcherProps
begin

text \<open>
  The retries of a webhook effect end: each dispatch lowers the tries that its pending attempts have
  left, and the last one settles it.
\<close>

section \<open>A prepared effect\<close>

definition prepared :: "queued_effect \<Rightarrow> 'w dispatch_db \<Rightarrow> bool" where
  "prepared e db \<longleftrightarrow> list_ex (\<lambda>l. dl_effect l = qe_id e) (dd_log db) \<and>
     (\<exists>w \<in> set (dd_webhook_attempts db). at_effect (wa_attempt w) = qe_id e)"

text \<open>The number of tries that every pending attempt of an effect has behind it.\<close>

definition tries_done :: "int \<Rightarrow> queued_effect \<Rightarrow> 'w dispatch_db \<Rightarrow> bool" where
  "tries_done k e db \<longleftrightarrow> (\<forall>w \<in> set (dd_webhook_attempts db).
     at_effect (wa_attempt w) = qe_id e \<and> webhook_pending w \<longrightarrow> k \<le> wa_count w)"

lemma prepare_stable:
  assumes ok: "webhooks_ok n db" and e: "prepared e db" "webhook_trigger (qe_name e) \<noteq> None"
  shows "prepare_attempts d e db = (Inr (pending_webhooks (qe_id e) db, [], []), db)"
proof -
  obtain w where w: "w \<in> set (dd_webhook_attempts db)" "at_effect (wa_attempt w) = qe_id e"
    using e(1) by (auto simp: prepared_def)
  with ok obtain v where v: "v \<in> set (dd_deliveries db WebhookDelivery)" "dv_id v = at_delivery (wa_attempt w)"
      "dv_effect v = qe_id e"
    unfolding webhooks_ok_def delivery_ok_def by metis
  have "distinct (map dv_effect (dd_deliveries db WebhookDelivery))" using ok by (simp add: webhooks_ok_def)
  from find_distinct_key [OF this v(1)] v(3) have row: "row_of_effect (qe_id e) (dd_deliveries db WebhookDelivery) = Some v"
    by (simp add: row_of_effect_def)
  have "list_ex (\<lambda>u. at_delivery (wa_attempt u) = dv_id v) (dd_webhook_attempts db)"
    using w v(2) by (auto simp: list_ex_iff)
  then have "prepare_webhook_attempts d e db = (Inr (pending_webhooks (qe_id e) db), db)"
    using e(2) row by (auto simp: prepare_webhook_attempts_def delivery_of_def read_delivery_def reading_def and_then_def return_ok_def)
  moreover have "record_dispatch e db = (Inr (), db)" using e(1) by (simp add: record_dispatch_def prepared_def)
  ultimately show ?thesis using kinds_apart [OF e(2)]
    by (simp add: prepare_attempts_def prepare_attempts_via_def in_tx_def and_then_def return_ok_def prepare_email_attempts_def prepare_calendar_attempts_def)
qed

text \<open>One more dispatch of a prepared effect.\<close>

lemma dispatch_prepared:
  assumes ok: "webhooks_ok (attempt_limit d) db" and e: "prepared e db" "webhook_trigger (qe_name e) \<noteq> None" "effect_valid e"
    and t: "dp_webhook d = Some t"
  obtains err db' where "dispatch_effect d e db = (case err of None \<Rightarrow> Inr () | Some f \<Rightarrow> Inl f, db')"
    "webhooks_ok (attempt_limit d) db'" "prepared e db'" "tried (effect_ids (qe_id e) db) db db'"
    "err = None \<longleftrightarrow> settled (effect_ids (qe_id e) db) db'"
proof -
  let ?ws = "pending_webhooks (qe_id e) db"
  note ids = pending_webhooks_ids [OF ok, of "qe_id e"]
  obtain err db' where loop: "deliver_webhooks d t ?ws None db = (Inr err, db')" "tried (effect_ids (qe_id e) db) db db'"
      "webhooks_ok (attempt_limit d) db'" "err = None \<longleftrightarrow> settled (effect_ids (qe_id e) db) db'"
    using deliver_webhooks_run [OF ok ids(2,3), of t None] unfolding ids(1) by blast
  have rest: "deliver_rest d [] [] err db' = (case err of None \<Rightarrow> Inr () | Some f \<Rightarrow> Inl f, db')"
    by (cases err) (simp_all add: deliver_rest_def and_then_def return_ok_def fail_with_def)
  have "(if ?ws = [] then return_ok None
      else and_then (demand (dp_webhook d) (DispatchError ''webhook dispatch requires a transport''))
        (\<lambda>transport. deliver_webhooks d transport ?ws None)) db = (Inr err, db')"
    using loop(1) t by (cases ?ws) (simp_all add: basic_handlers_run)
  then have "dispatch_effect d e db = (case err of None \<Rightarrow> Inr () | Some f \<Rightarrow> Inl f, db')"
    using e(3) prepare_stable [OF ok e(1,2)] rest
    by (simp add: dispatch_effect_run and_then_def check_def)
  moreover have "prepared e db'"
    using e(1) tried_rows(2) [OF loop(2)] loop(2) unfolding prepared_def tried_def tried_row_def by metis
  ultimately show thesis using loop by (intro that)
qed

lemma tries_step:
  assumes "tries_done k e db" and "tried (effect_ids (qe_id e) db) db db'"
  shows "tries_done (k + 1) e db'"
  unfolding tries_done_def
proof (intro ballI impI)
  fix w' assume w': "w' \<in> set (dd_webhook_attempts db')" "at_effect (wa_attempt w') = qe_id e \<and> webhook_pending w'"
  from tried_rows(1) [OF assms(2) w'(1)] obtain w where
    w: "w \<in> set (dd_webhook_attempts db)" "tried_row (effect_ids (qe_id e) db) w w'" by blast
  then have "attempt_id w \<in> effect_ids (qe_id e) db"
    using w'(2) by (auto simp: tried_row_def effect_ids_def split: if_splits)
  with w w'(2) assms(1) show "k + 1 \<le> wa_count w'" by (auto simp: tried_row_def tries_done_def)
qed

lemma tries_end:
  assumes "webhooks_ok n db'" and "tries_done n e db'" and "tried (effect_ids (qe_id e) db) db db'"
  shows "settled (effect_ids (qe_id e) db) db'"
  unfolding settled_def
proof (intro ballI impI notI)
  fix w' assume w': "w' \<in> set (dd_webhook_attempts db')" "attempt_id w' \<in> effect_ids (qe_id e) db" "webhook_pending w'"
  from tried_rows(1) [OF assms(3) w'(1)] obtain w where
    w: "w \<in> set (dd_webhook_attempts db)" "tried_row (effect_ids (qe_id e) db) w w'" by blast
  from w'(2) obtain v where v: "v \<in> set (dd_webhook_attempts db)" "attempt_id v = attempt_id w'" "at_effect (wa_attempt v) = qe_id e"
    by (auto simp: effect_ids_def)
  from tried_rows(2) [OF assms(3) v(1)] obtain v' where
    v': "v' \<in> set (dd_webhook_attempts db')" "wa_attempt v' = wa_attempt v" by (auto simp: tried_row_def)
  have "attempt_id v' = attempt_id w'" using v(2) unfolding attempt_id_def v'(2) .
  then have "v' = w'" by (intro same_attempt [OF assms(1) v'(1) w'(1)] disjI1)
  with v'(2) v(3) have "at_effect (wa_attempt w') = qe_id e" by simp
  with w'(1,3) assms(2) have "n \<le> wa_count w'" by (simp add: tries_done_def)
  moreover have "attempt_ok n w'" using assms(1) w'(1) by (simp add: webhooks_ok_def)
  ultimately show False using w'(3) by (simp add: attempt_ok_def)
qed

abbreviation again :: "'w dispatcher \<Rightarrow> queued_effect \<Rightarrow> 'w dispatch_db \<Rightarrow> 'w dispatch_db" where
  "again d e db \<equiv> snd (dispatch_effect d e db)"

lemma prepared_settles:
  assumes "webhooks_ok (attempt_limit d) db" and "prepared e db" and "tries_done k e db" and "k < attempt_limit d"
    and e: "webhook_trigger (qe_name e) \<noteq> None" "effect_valid e" and t: "dp_webhook d = Some t"
  shows "\<exists>n < nat (attempt_limit d - k). fst (dispatch_effect d e ((again d e ^^ n) db)) = Inr ()"
  using assms(1-4)
proof (induction "nat (attempt_limit d - k)" arbitrary: k db)
  case (Suc m)
  obtain err db' where run: "dispatch_effect d e db = (case err of None \<Rightarrow> Inr () | Some f \<Rightarrow> Inl f, db')"
      "webhooks_ok (attempt_limit d) db'" "prepared e db'" "tried (effect_ids (qe_id e) db) db db'"
      "err = None \<longleftrightarrow> settled (effect_ids (qe_id e) db) db'"
    using dispatch_prepared [OF Suc.prems(1,2) e t] .
  note tries = tries_step [OF Suc.prems(3) run(4)]
  show ?case
  proof (cases "err = None")
    case True
    with run(1) Suc.prems(4) show ?thesis by (intro exI [of _ 0]) simp
  next
    case False
    have "k + 1 < attempt_limit d"
    proof (rule ccontr)
      assume "\<not> k + 1 < attempt_limit d"
      with Suc.prems(4) have "k + 1 = attempt_limit d" by simp
      with tries_end [OF run(2) _ run(4)] tries run(5) False show False by simp
    qed
    moreover have "m = nat (attempt_limit d - (k + 1))" using Suc.hyps(2) by simp
    ultimately obtain n where "n < m" "fst (dispatch_effect d e ((again d e ^^ n) db')) = Inr ()"
      using Suc.hyps(1) [OF _ run(2,3) tries] by blast
    with run(1) Suc.hyps(2) show ?thesis by (intro exI [of _ "Suc n"]) (simp add: funpow_swap1 del: funpow.simps(2) add: funpow_Suc_right)
  qed
qed simp

section \<open>The first dispatch\<close>

lemma record_webhook_attempts_log: "dd_log (snd (record_webhook_attempts e r as s)) = dd_log s"
  by (induction as arbitrary: s) simp_all

lemma first_dispatch:
  assumes ok: "webhooks_ok (attempt_limit d) db" and e: "webhook_trigger (qe_name e) \<noteq> None" "effect_valid e"
    and run: "prepare_attempts d e db = (Inr p, db1)"
  shows "dispatch_effect d e db = (Inr (), db1) \<or>
    webhooks_ok (attempt_limit d) db1 \<and> prepared e db1 \<and> dispatch_effect d e db = dispatch_effect d e db1"
proof -
  obtain ws es cs where p: "p = (ws, es, cs)" by (cases p)
  note ok1 = prepare_attempts_ok [OF ok attempt_limit_pos run [unfolded p]]
  obtain db2 db3 where db2: "record_dispatch e db = (Inr (), db2)" "prepare_webhook_attempts d e db2 = (Inr ws, db3)"
      "es = []" "cs = []" "db1 = db3"
  proof -
    have "prepare_email_attempts d e = return_ok []" "prepare_calendar_attempts d e = return_ok []"
      using kinds_apart [OF e(1)] by (simp_all add: prepare_email_attempts_def prepare_calendar_attempts_def)
    then have "and_then (record_dispatch e) (\<lambda>_. and_then (prepare_webhook_attempts d e) (\<lambda>ws. return_ok (ws, [], []))) db =
        (Inr (ws, es, cs), db1)"
      using run [unfolded p] by (auto simp: prepare_attempts_def prepare_attempts_via_def in_tx_def and_then_def return_ok_def split: prod.splits sum.splits)
    then show thesis by (auto simp: handler_ok intro: that)
  qed
  have logged: "list_ex (\<lambda>l. dl_effect l = qe_id e) (dd_log db2)"
    using db2(1) by (auto simp: record_dispatch_def split: if_splits)
  have upsert: "keeps dd_log (upsert_delivery WebhookDelivery e r)" for r
    by (auto simp: moves_def upsert_delivery_def Let_def split: option.split)
  have "keeps dd_log (prepare_webhook_attempts d e)"
    by (intro prepare_webhooks_keep upsert) (simp add: moves_def record_webhook_attempts_log)
  from keepsD [OF this db2(2)] logged db2(5) have logged1: "list_ex (\<lambda>l. dl_effect l = qe_id e) (dd_log db1)" by simp
  show ?thesis
  proof (cases "ws = []")
    case True
    with run e(2) p db2(3,4) have "dispatch_effect d e db = (Inr (), db1)"
      by (simp add: dispatch_effect_run and_then_def check_def return_ok_def deliver_rest_def)
    then show ?thesis ..
  next
    case False
    with ok1 have ws: "ws = pending_webhooks (qe_id e) db1" by blast
    have "\<exists>w \<in> set (dd_webhook_attempts db1). at_effect (wa_attempt w) = qe_id e"
    proof -
      obtain a where "a \<in> set ws" using False by (cases ws) auto
      then show ?thesis unfolding ws by (auto simp: pending_webhooks_def)
    qed
    with logged1 have "prepared e db1" by (simp add: prepared_def)
    with prepare_stable [OF ok1 [THEN conjunct1] this e(1), of d] run p db2(3,4) ws ok1 e(2)
    show ?thesis by (simp add: dispatch_effect_run and_then_def check_def)
  qed
qed

text \<open>
  C9: the retries of a webhook end. On any state that the dispatchers can reach from empty tables, once a
  webhook effect can be prepared (its booking is there and the signing secrets of its subscribers are
  known), dispatching it again and again, whatever the subscribers' servers answer, succeeds at the latest
  with the dispatch whose number is the limit of attempts: then each of its attempts is delivered or dead.
\<close>
theorem webhook_retries_end:
  assumes "fresh_tables db0" and "(dispatch_step d)\<^sup>*\<^sup>* db0 db"
    and "webhook_trigger (qe_name e) \<noteq> None" and "effect_valid e" and "dp_webhook d = Some t"
    and "prepare_attempts d e db = (Inr p, db1)"
  shows "\<exists>n < nat (attempt_limit d). fst (dispatch_effect d e ((again d e ^^ n) db)) = Inr ()"
proof -
  have ok: "webhooks_ok (attempt_limit d) db" using dispatch_steps_ok [OF assms(2) fresh_tables_ok [OF assms(1)]] .
  from first_dispatch [OF ok assms(3,4,6)] show ?thesis
  proof (elim disjE conjE)
    assume "dispatch_effect d e db = (Inr (), db1)"
    with attempt_limit_pos [of d] show ?thesis by (intro exI [of _ 0]) simp
  next
    assume first: "webhooks_ok (attempt_limit d) db1" "prepared e db1" "dispatch_effect d e db = dispatch_effect d e db1"
    have "tries_done 0 e db1" using first(1) by (simp add: tries_done_def webhooks_ok_def attempt_ok_def)
    from prepared_settles [OF first(1,2) this attempt_limit_pos assms(3-5)] obtain n where
      n: "n < nat (attempt_limit d)" "fst (dispatch_effect d e ((again d e ^^ n) db1)) = Inr ()" by auto
    have "fst (dispatch_effect d e ((again d e ^^ n) db)) = Inr ()"
      using n(2) first(3) by (cases n) (simp_all add: funpow_Suc_right del: funpow.simps(2))
    with n(1) show ?thesis by blast
  qed
qed

end
