(* ===== verification/Workers.thy ===== *)
theory Workers
  imports DispatcherProps
begin

text \<open>
  The queue of side effects: several workers never hold the same effect, and what a run of a worker
  leaves in the queue.
\<close>

section \<open>Claims\<close>

abbreviation effect_ids_of :: "side_effect_row list \<Rightarrow> int list" where
  "effect_ids_of ws \<equiv> map ew_id ws"

text \<open>The ids of the effects are distinct and below the next one.\<close>

definition queue_ok :: "'z booking_db_scheme \<Rightarrow> bool" where
  "queue_ok db \<longleftrightarrow> distinct (effect_ids_of (bd_effects db)) \<and> (\<forall>i \<in> set (effect_ids_of (bd_effects db)). i < bd_next_effect db)"

lemma queue_ok_ids:
  "effect_ids_of (bd_effects t) = effect_ids_of (bd_effects s) \<Longrightarrow> bd_next_effect t = bd_next_effect s \<Longrightarrow> queue_ok s \<Longrightarrow> queue_ok t"
  by (simp add: queue_ok_def)

text \<open>A claimed row, and the claim of the rows with the ids \<open>I\<close>.\<close>

definition claim_rows :: "int \<Rightarrow> int set \<Rightarrow> side_effect_row list \<Rightarrow> side_effect_row list" where
  "claim_rows now I ws = map (\<lambda>w. if ew_id w \<in> I then claim_row now w else w) ws"

lemma scan_ids: "scan_effects float ws = Inr es \<Longrightarrow> map qe_id es = effect_ids_of ws"
  by (induction ws arbitrary: es) (auto split: sum.splits)

lemma claim_run:
  assumes "claim_planned_effects float limit db = (Inr es, db')" and ok: "queue_ok db"
  shows "db' = db\<lparr>bd_effects := claim_rows (bd_now db) (set (map qe_id es)) (bd_effects db)\<rparr>"
    and "distinct (map qe_id es)" and "length es \<le> claim_limit limit"
    and "set (map qe_id es) \<subseteq> ew_id ` {w \<in> set (bd_effects db). claimable (bd_now db) w}"
proof -
  define cs where "cs = take (claim_limit limit) (sort_by claim_order (filter (claimable (bd_now db)) (bd_effects db)))"
  have scan: "scan_effects float (map (claim_row (bd_now db)) cs) = Inr es"
    and db': "db' = db\<lparr>bd_effects := claim_rows (bd_now db) (set (effect_ids_of cs)) (bd_effects db)\<rparr>"
    using assms(1) by (auto simp: claim_planned_effects_def cs_def claim_rows_def Let_def split: sum.splits)
  have ids: "map qe_id es = effect_ids_of cs" using scan_ids [OF scan] by (simp add: claim_row_def comp_def)
  show "db' = db\<lparr>bd_effects := claim_rows (bd_now db) (set (map qe_id es)) (bd_effects db)\<rparr>" by (simp only: db' ids)
  have "distinct (map ew_id (sort_by claim_order (filter (claimable (bd_now db)) (bd_effects db))))"
    using ok by (simp add: queue_ok_def distinct_map_filter)
  then show "distinct (map qe_id es)" unfolding ids cs_def by (simp add: take_map [symmetric] distinct_take)
  have "length es = length cs" using ids by (metis length_map)
  then show "length es \<le> claim_limit limit" by (simp add: cs_def)
  have "set cs \<subseteq> {w \<in> set (bd_effects db). claimable (bd_now db) w}"
    using set_take_subset unfolding cs_def by fastforce
  then show "set (map qe_id es) \<subseteq> ew_id ` {w \<in> set (bd_effects db). claimable (bd_now db) w}"
    unfolding ids by auto
qed

section \<open>Several workers\<close>

text \<open>
  Workers, numbered, with the effects each holds: a worker claims, marks an effect that it holds, or is
  lost with what it holds; the time passes and the booking store plans effects.
\<close>

inductive crew_step ::
    "(string \<Rightarrow> bool) \<Rightarrow> booking_db \<times> (nat \<Rightarrow> int list) \<Rightarrow> booking_db \<times> (nat \<Rightarrow> int list) \<Rightarrow> bool" for float where
  claim: "claim_planned_effects float limit db = (Inr es, db') \<Longrightarrow>
    crew_step float (db, hs) (db', hs(k := hs k @ map qe_id es))"
| delivered: "i \<in> set (hs k) \<Longrightarrow> mark_effect_delivered i db = (Inr (), db') \<Longrightarrow>
    crew_step float (db, hs) (db', hs(k := removeAll i (hs k)))"
| failed: "i \<in> set (hs k) \<Longrightarrow> mark_effect_failed i db = (Inr (), db') \<Longrightarrow>
    crew_step float (db, hs) (db', hs(k := removeAll i (hs k)))"
| lost: "crew_step float (db, hs) (db, hs(k := []))"
| tick: "crew_step float (db, hs) (db\<lparr>bd_now := now\<rparr>, hs)"
| plan: "crew_step float (db, hs) (insert_effect e db, hs)"

definition crew_ok :: "booking_db \<times> (nat \<Rightarrow> int list) \<Rightarrow> bool" where
  "crew_ok s \<longleftrightarrow> (case s of (db, hs) \<Rightarrow> queue_ok db \<and> (\<forall>k. distinct (hs k)) \<and>
     (\<forall>k l. k \<noteq> l \<longrightarrow> set (hs k) \<inter> set (hs l) = {}) \<and>
     (\<forall>k. \<forall>i \<in> set (hs k). \<exists>w \<in> set (bd_effects db). ew_id w = i \<and> ew_status w = ''processing''))"

lemma claim_row_simps [simp]: "ew_id (claim_row now w) = ew_id w" "ew_status (claim_row now w) = ''processing''"
  by (simp_all add: claim_row_def)

lemma claim_rows_ids [simp]: "effect_ids_of (claim_rows now I ws) = effect_ids_of ws"
  by (simp add: claim_rows_def comp_def if_distrib cong: if_cong)

lemma the_effect:
  assumes "queue_ok db" "v \<in> set (bd_effects db)" "w \<in> set (bd_effects db)" "ew_id v = ew_id w"
  shows "v = w"
  using assms by (auto simp: queue_ok_def distinct_map dest: inj_onD)

text \<open>A mark changes one row that is being processed.\<close>

lemma update_processing_run:
  assumes "update_processing i failure f db = (Inr (), db')"
  shows "db' = db\<lparr>bd_effects := map (\<lambda>w. if ew_id w = i \<and> ew_status w = ''processing'' then f w else w) (bd_effects db)\<rparr>"
  using assms by (simp add: update_processing_def split: if_splits)

lemma update_processing_rows:
  assumes run: "update_processing i failure f db = (Inr (), db')" and f: "\<And>w. ew_id (f w) = ew_id w"
    and ok: "queue_ok db"
  shows "queue_ok db'" and "w \<in> set (bd_effects db) \<Longrightarrow> ew_id w \<noteq> i \<Longrightarrow> w \<in> set (bd_effects db')"
proof -
  let ?f = "\<lambda>w. if ew_id w = i \<and> ew_status w = ''processing'' then f w else w"
  have effects: "bd_effects db' = map ?f (bd_effects db)" "bd_next_effect db' = bd_next_effect db"
    unfolding update_processing_run [OF run] by simp_all
  have "effect_ids_of (map ?f ws) = effect_ids_of ws" for ws by (induction ws) (simp_all add: f)
  with effects ok show "queue_ok db'" by (intro queue_ok_ids [of db' db]) simp_all
  assume "w \<in> set (bd_effects db)" "ew_id w \<noteq> i"
  then have "w = ?f w" "w \<in> set (bd_effects db)" by simp_all
  then show "w \<in> set (bd_effects db')" unfolding effects(1) set_map by (rule image_eqI)
qed

lemma crew_marked:
  assumes ok: "crew_ok (db, hs)" and run: "update_processing i failure f db = (Inr (), db')" and f: "\<And>w. ew_id (f w) = ew_id w"
    and i: "i \<in> set (hs k)"
  shows "crew_ok (db', hs(k := removeAll i (hs k)))"
proof -
  note rows = update_processing_rows [OF run f]
  have other: "j \<noteq> i" if "j \<in> set ((hs(k := removeAll i (hs k))) l)" for j l
    using ok i that by (cases "l = k") (auto simp: crew_ok_def disjoint_iff)
  have held: "\<exists>w \<in> set (bd_effects db'). ew_id w = j \<and> ew_status w = ''processing''"
    if "j \<in> set ((hs(k := removeAll i (hs k))) l)" for j l
  proof -
    have "j \<in> set (hs l)" using that by (auto split: if_splits)
    with ok obtain w where w: "w \<in> set (bd_effects db)" "ew_id w = j" "ew_status w = ''processing''"
      unfolding crew_ok_def by blast
    with rows(2) [of w] other [OF that] ok show ?thesis by (auto simp: crew_ok_def)
  qed
  then show ?thesis using ok rows(1) unfolding crew_ok_def
    by (simp add: disjoint_iff distinct_removeAll)
qed

lemma crew_claimed:
  assumes ok: "crew_ok (db, hs)" and run: "claim_planned_effects float limit db = (Inr es, db')"
  shows "crew_ok (db', hs(k := hs k @ map qe_id es))"
proof -
  have q: "queue_ok db" using ok by (simp add: crew_ok_def)
  note claim = claim_run [OF run q]
  have effects: "bd_effects db' = claim_rows (bd_now db) (set (map qe_id es)) (bd_effects db)"
      "bd_next_effect db' = bd_next_effect db"
    unfolding claim(1) by simp_all
  have "queue_ok db'" using queue_ok_ids [OF _ effects(2) q] by (simp add: effects(1))
  moreover have new: "i \<notin> set (hs l)" if i: "i \<in> set (map qe_id es)" for i l
  proof
    assume "i \<in> set (hs l)"
    with ok obtain v where v: "v \<in> set (bd_effects db)" "ew_id v = i" "ew_status v = ''processing''"
      unfolding crew_ok_def by blast
    from claim(4) i obtain w where w: "w \<in> set (bd_effects db)" "ew_id w = i" "claimable (bd_now db) w" by auto
    with the_effect [OF q v(1) w(1)] v show False by (simp add: claimable_def)
  qed
  moreover have "\<exists>w \<in> set (bd_effects db'). ew_id w = i \<and> ew_status w = ''processing''"
    if i: "i \<in> set (hs l) \<union> set (map qe_id es)" for i l
  proof -
    obtain w where w: "w \<in> set (bd_effects db)" "ew_id w = i" "ew_status w = ''processing'' \<or> i \<in> set (map qe_id es)"
      using i ok claim(4) unfolding crew_ok_def by blast
    let ?w = "if ew_id w \<in> set (map qe_id es) then claim_row (bd_now db) w else w"
    have "?w \<in> set (bd_effects db')" using w(1) unfolding effects claim_rows_def by auto
    with w show ?thesis by (intro bexI [of _ ?w]) auto
  qed
  note held = this
  have "set ((hs(k := hs k @ map qe_id es)) l) \<subseteq> set (hs l) \<union> set (map qe_id es)" for l by simp
  with held have "\<forall>l. \<forall>i \<in> set ((hs(k := hs k @ map qe_id es)) l). \<exists>w \<in> set (bd_effects db'). ew_id w = i \<and> ew_status w = ''processing''"
    by blast
  moreover have "distinct ((hs(k := hs k @ map qe_id es)) l)" for l
    using ok claim(2) new by (auto simp: crew_ok_def)
  moreover have "set ((hs(k := hs k @ map qe_id es)) l) \<inter> set ((hs(k := hs k @ map qe_id es)) m) = {}" if "l \<noteq> m" for l m
    using ok new that by (auto simp: crew_ok_def disjoint_iff)
  ultimately show ?thesis unfolding crew_ok_def by blast
qed

lemma crew_ok_mono:
  assumes ok: "crew_ok (db, hs)" and "queue_ok db'" and rows: "set (bd_effects db) \<subseteq> set (bd_effects db')"
    and hs: "\<And>l. set (hs' l) \<subseteq> set (hs l)" "\<And>l. distinct (hs' l)"
  shows "crew_ok (db', hs')"
proof -
  have "set (hs' k) \<inter> set (hs' l) = {}" if "k \<noteq> l" for k l
  proof -
    have "set (hs k) \<inter> set (hs l) = {}" using ok that by (simp add: crew_ok_def)
    with hs(1) show ?thesis by blast
  qed
  moreover have "\<exists>w \<in> set (bd_effects db'). ew_id w = i \<and> ew_status w = ''processing''" if "i \<in> set (hs' k)" for i k
  proof -
    from that hs(1) have "i \<in> set (hs k)" by blast
    with ok obtain w where "w \<in> set (bd_effects db)" "ew_id w = i \<and> ew_status w = ''processing''"
      unfolding crew_ok_def by blast
    with rows show ?thesis by blast
  qed
  ultimately show ?thesis using assms(2) hs(2) by (simp add: crew_ok_def)
qed

lemma crew_step_ok: "crew_step float s t \<Longrightarrow> crew_ok s \<Longrightarrow> crew_ok t"
proof (induction rule: crew_step.induct)
  case (claim limit db es db' hs k)
  show ?case by (rule crew_claimed [OF claim(2,1)])
next
  case (delivered i hs k db db')
  show ?case by (rule crew_marked [OF delivered(3) delivered(2) [unfolded mark_effect_delivered_def reading_def] _ delivered(1)]) simp
next
  case (failed i hs k db db')
  show ?case by (rule crew_marked [OF failed(3) failed(2) [unfolded mark_effect_failed_def reading_def] _ failed(1)]) simp
next
  case (lost db hs k)
  then show ?case by (intro crew_ok_mono [OF lost]) (simp_all add: crew_ok_def)
next
  case (tick db hs now)
  then show ?case by (simp add: crew_ok_def queue_ok_def)
next
  case (plan db hs e)
  have "queue_ok (insert_effect e db)" "set (bd_effects db) \<subseteq> set (bd_effects (insert_effect e db))"
    using plan by (auto simp: crew_ok_def queue_ok_def insert_effect_def)
  with plan show ?case by (intro crew_ok_mono [OF plan]) (simp_all add: crew_ok_def)
qed

text \<open>
  C10: no side effect is dispatched by two workers at once. Whatever workers claim and mark, also when some
  are lost with what they hold, from an empty queue: an effect that one worker holds is held by no other
  and held once, and its row is being processed, so that no claim returns it before the worker has marked
  it.
\<close>
theorem claims_exclusive:
  assumes "bd_effects db = []" and "(crew_step float)\<^sup>*\<^sup>* (db, \<lambda>_. []) (db', hs)" and "i \<in> set (hs k)"
    and "claim_planned_effects float limit db' = (Inr es, db'')"
  shows "(\<forall>l. l \<noteq> k \<longrightarrow> i \<notin> set (hs l)) \<and> distinct (hs k) \<and>
    (\<exists>w \<in> set (bd_effects db'). ew_id w = i \<and> ew_status w = ''processing'') \<and> i \<notin> set (map qe_id es)"
proof -
  have "crew_ok (db', hs)"
    using assms(2)
  proof (induction "(db', hs)" arbitrary: db' hs rule: rtranclp_induct)
    case base
    with assms(1) show ?case by (simp add: crew_ok_def queue_ok_def)
  next
    case (step s)
    then show ?case by (cases s) (auto intro: crew_step_ok)
  qed
  then have ok: "queue_ok db'" "distinct (hs k)" "\<And>l. l \<noteq> k \<Longrightarrow> set (hs k) \<inter> set (hs l) = {}"
      "\<exists>w \<in> set (bd_effects db'). ew_id w = i \<and> ew_status w = ''processing''"
    using assms(3) by (auto simp: crew_ok_def)
  have "i \<notin> set (map qe_id es)"
  proof
    assume "i \<in> set (map qe_id es)"
    with claim_run(4) [OF assms(4) ok(1)] obtain v where v: "v \<in> set (bd_effects db')" "ew_id v = i" "claimable (bd_now db') v"
      by auto
    from ok(4) obtain w where w: "w \<in> set (bd_effects db')" "ew_id w = i" "ew_status w = ''processing''" by blast
    with the_effect [OF ok(1) v(1) w(1)] v show False by (simp add: claimable_def)
  qed
  with ok assms(3) show ?thesis by blast
qed

section \<open>The run of a worker\<close>

lemma dispatch_keeps_bookings: "booking_part (snd (dispatch_effect d e db)) = booking_part db"
proof -
  have send: "keeps booking_part (send_by t m)" for t m
    by (simp add: moves_def send_by_run booking_part_def booking_db.truncate_def)
  have marks: "keeps booking_part (mark_webhook_delivered i status)"
      "keeps booking_part (mark_webhook_failed i status f (dp_max_attempts (d :: 'a dispatcher)))" for i status f
    unfolding moves_def mark_webhook_delivered_run mark_webhook_failed_run
    by (auto simp: booking_part_def booking_db.truncate_def split: option.split)
  have "keeps booking_part (deliver_webhooks d t as err)" for t as err
  proof (induction as arbitrary: err)
    case (Cons a as)
    show ?case unfolding deliver_webhooks.simps by (intro moving send marks Cons)
  qed (simp add: moves_basic preorder_rels)
  then have "keeps booking_part (dispatch_effect d e)"
    unfolding dispatch_effect_run by (intro moving deliver_rest_keeps)
  then show ?thesis by (rule keeps_at)
qed

text \<open>How a worker leaves the row of an effect that it claimed at a time.\<close>

definition worked_row :: "int \<Rightarrow> side_effect_row \<Rightarrow> side_effect_row \<Rightarrow> bool" where
  "worked_row now w w' \<longleftrightarrow> ew_id w' = ew_id w \<and> ew_attempts w' = ew_attempts w + 1 \<and> ew_locked_at w' = None \<and>
     (ew_status w' = ''delivered'' \<and> ew_delivered_at w' = Some now \<or>
      ew_status w' = ''failed'' \<and> ew_next_attempt_at w' = now + retry_delay (ew_attempts w + 1))"

definition marked_row :: "int \<Rightarrow> side_effect_row \<Rightarrow> side_effect_row \<Rightarrow> bool" where
  "marked_row now w w' \<longleftrightarrow> ew_id w' = ew_id w \<and> ew_attempts w' = ew_attempts w \<and> ew_locked_at w' = None \<and>
     (ew_status w' = ''delivered'' \<and> ew_delivered_at w' = Some now \<or>
      ew_status w' = ''failed'' \<and> ew_next_attempt_at w' = now + retry_delay (ew_attempts w))"

definition marked_rows :: "int \<Rightarrow> int set \<Rightarrow> side_effect_row list \<Rightarrow> side_effect_row list \<Rightarrow> bool" where
  "marked_rows now I ws ws' \<longleftrightarrow> list_all2 (\<lambda>w w'. if ew_id w \<in> I then marked_row now w w' else w' = w) ws ws'"

lemma marked_rows_trans:
  assumes "marked_rows now I us vs" and "marked_rows now J vs ws" and "I \<inter> J = {}"
  shows "marked_rows now (I \<union> J) us ws"
  unfolding marked_rows_def
proof (rule list_all2_trans [OF _ assms(1,2) [unfolded marked_rows_def]], goal_cases)
  case (1 u v w)
  then have "ew_id v = ew_id u" by (auto simp: marked_row_def split: if_splits)
  with 1 assms(3) show ?case by (auto split: if_splits)
qed

lemma effect_marked:
  assumes "update_processing i failure f db = (Inr (), db')" and ok: "queue_ok db"
    and w: "w \<in> set (bd_effects db)" "ew_id w = i" "ew_status w = ''processing''"
    and f: "\<And>v. marked_row (bd_now db) v (f v)"
  shows "marked_rows (bd_now db) {i} (bd_effects db) (bd_effects db')" "queue_ok db'" "bd_now db' = bd_now db"
    "v \<in> set (bd_effects db) \<Longrightarrow> ew_id v \<noteq> i \<Longrightarrow> v \<in> set (bd_effects db')"
proof -
  have ids: "ew_id (f v) = ew_id v" for v using f by (simp add: marked_row_def)
  note rows = update_processing_rows [OF assms(1) ids ok]
  show "queue_ok db'" "v \<in> set (bd_effects db) \<Longrightarrow> ew_id v \<noteq> i \<Longrightarrow> v \<in> set (bd_effects db')" by (rule rows; assumption)+
  show "bd_now db' = bd_now db" unfolding update_processing_run [OF assms(1)] by simp
  have "v = w" if "v \<in> set (bd_effects db)" "ew_id v = i" for v using the_effect [OF ok that(1) w(1)] that(2) w(2) by simp
  then have row: "if ew_id v \<in> {i} then marked_row (bd_now db) v (if ew_id v = i \<and> ew_status v = ''processing'' then f v else v)
      else (if ew_id v = i \<and> ew_status v = ''processing'' then f v else v) = v" if "v \<in> set (bd_effects db)" for v
    using that w(3) f by (cases "ew_id v = i") auto
  have effects: "bd_effects db' = map (\<lambda>v. if ew_id v = i \<and> ew_status v = ''processing'' then f v else v) (bd_effects db)"
    unfolding update_processing_run [OF assms(1)] by simp
  show "marked_rows (bd_now db) {i} (bd_effects db) (bd_effects db')"
    unfolding effects marked_rows_def list_all2_map2 by (rule list.rel_refl_strong) (rule row)
qed

lemma processing_marked:
  assumes ok: "queue_ok db" and w: "w \<in> set (bd_effects db)" "ew_id w = i" "ew_status w = ''processing''"
    and mark: "mark = mark_effect_delivered \<or> mark = mark_effect_failed"
  obtains db' where "mark i db = (Inr (), db')" "marked_rows (bd_now db) {i} (bd_effects db) (bd_effects db')" "queue_ok db'"
    "bd_now db' = bd_now db" "\<And>v. v \<in> set (bd_effects db) \<Longrightarrow> ew_id v \<noteq> i \<Longrightarrow> v \<in> set (bd_effects db')"
proof -
  obtain failure f where f: "mark i db = update_processing i failure f db" "\<And>v. marked_row (bd_now db) v (f v)"
    using mark
  proof
    assume "mark = mark_effect_delivered"
    then show thesis by (intro that [of "''mark planned side effect delivered: side effect was not processing''"
          "\<lambda>w. w\<lparr>ew_status := ''delivered'', ew_delivered_at := Some (bd_now db), ew_locked_at := None, ew_last_error := None\<rparr>"])
        (simp_all add: mark_effect_delivered_def reading_def marked_row_def)
  next
    assume "mark = mark_effect_failed"
    then show thesis by (intro that [of "''mark planned side effect failed: side effect was not processing''"
          "\<lambda>w. w\<lparr>ew_status := ''failed'', ew_locked_at := None, ew_last_error := Some ''dispatch failed'',
             ew_next_attempt_at := bd_now db + retry_delay (ew_attempts w)\<rparr>"])
        (simp_all add: mark_effect_failed_def reading_def marked_row_def)
  qed
  have "list_ex (\<lambda>w. ew_id w = i \<and> ew_status w = ''processing'') (bd_effects db)" using w by (auto simp: list_ex_iff)
  then obtain db' where "update_processing i failure f db = (Inr (), db')" by (simp add: update_processing_def)
  note m = effect_marked [OF this ok w f(2)]
  show thesis by (rule that [of db'], simp add: f(1) \<open>update_processing i failure f db = (Inr (), db')\<close>) (rule m; assumption?)+
qed

lemma booking_part_eqD:
  assumes "booking_part t = booking_part s"
  shows "bd_effects t = bd_effects s" "bd_next_effect t = bd_next_effect s" "bd_now t = bd_now s"
  using assms by (simp_all add: booking_part_def booking_db.truncate_def)

lemma work_off_run:
  assumes "queue_ok db" and "distinct (map qe_id es)"
    and "\<forall>i \<in> set (map qe_id es). \<exists>w \<in> set (bd_effects db). ew_id w = i \<and> ew_status w = ''processing''"
  shows "\<exists>result' db'. work_off (pg_effect_queue float) (dispatch_effect d) es result db = ((result', None), db') \<and>
    marked_rows (bd_now db) (set (map qe_id es)) (bd_effects db) (bd_effects db') \<and>
    wr_claimed result' = wr_claimed result \<and>
    wr_delivered result' + wr_failed result' = wr_delivered result + wr_failed result + length es"
  using assms
proof (induction es arbitrary: db result)
  case Nil
  then show ?case by (simp add: marked_rows_def list_all2_refl)
next
  case (Cons e es)
  obtain x db1 where run: "dispatch_effect d e db = (x, db1)" by fastforce
  have part: "booking_part db1 = booking_part db" using dispatch_keeps_bookings [of d e db] run by simp
  note same = booking_part_eqD [OF part]
  have ok1: "queue_ok db1" using Cons.prems(1) by (simp add: queue_ok_def same)
  obtain w where w: "w \<in> set (bd_effects db1)" "ew_id w = qe_id e" "ew_status w = ''processing''"
    using Cons.prems(3) same(1) by auto
  define mark :: "int \<Rightarrow> 'a dispatch_db \<Rightarrow> (booking_error + unit) \<times> 'a dispatch_db"
    where "mark = (if isl x then mark_effect_failed else mark_effect_delivered)"
  obtain db2 where db2: "mark (qe_id e) db1 = (Inr (), db2)" "marked_rows (bd_now db1) {qe_id e} (bd_effects db1) (bd_effects db2)"
      "queue_ok db2" "bd_now db2 = bd_now db1" "\<And>v. v \<in> set (bd_effects db1) \<Longrightarrow> ew_id v \<noteq> qe_id e \<Longrightarrow> v \<in> set (bd_effects db2)"
    using processing_marked [OF ok1 w, of mark] unfolding mark_def by metis
  define r where "r = (if isl x then result\<lparr>wr_failed := wr_failed result + 1\<rparr> else result\<lparr>wr_delivered := wr_delivered result + 1\<rparr>)"
  have step: "work_off (pg_effect_queue float) (dispatch_effect d) (e # es) result db =
      work_off (pg_effect_queue float) (dispatch_effect d) es r db2"
    using run db2(1) by (cases x) (simp_all add: mark_def r_def pg_effect_queue_def)
  have "\<exists>v \<in> set (bd_effects db2). ew_id v = i \<and> ew_status v = ''processing''" if i: "i \<in> set (map qe_id es)" for i
  proof -
    obtain v where "v \<in> set (bd_effects db1)" "ew_id v = i" "ew_status v = ''processing''"
      using Cons.prems(3) same(1) i by auto
    moreover have "qe_id e \<notin> set (map qe_id es)" using Cons.prems(2) by simp
    with i have "i \<noteq> qe_id e" by metis
    ultimately show ?thesis using db2(5) by blast
  qed
  with Cons.IH [OF db2(3), of r] Cons.prems(2) obtain result' db' where rest:
      "work_off (pg_effect_queue float) (dispatch_effect d) es r db2 = ((result', None), db')"
      "marked_rows (bd_now db2) (set (map qe_id es)) (bd_effects db2) (bd_effects db')"
      "wr_claimed result' = wr_claimed r" "wr_delivered result' + wr_failed result' = wr_delivered r + wr_failed r + length es"
    by auto
  have "marked_rows (bd_now db) ({qe_id e} \<union> set (map qe_id es)) (bd_effects db) (bd_effects db')"
  proof (rule marked_rows_trans)
    show "marked_rows (bd_now db) {qe_id e} (bd_effects db) (bd_effects db2)" using db2(2) by (simp add: same)
    show "marked_rows (bd_now db) (set (map qe_id es)) (bd_effects db2) (bd_effects db')" using rest(2) db2(4) by (simp add: same)
    show "{qe_id e} \<inter> set (map qe_id es) = {}" using Cons.prems(2) by auto
  qed
  moreover have "wr_claimed r = wr_claimed result"
      "wr_delivered r + wr_failed r = wr_delivered result + wr_failed result + 1"
    by (simp_all add: r_def)
  ultimately show ?case unfolding step rest(1) using rest(3,4)
    by (intro exI [of _ result'] exI [of _ db']) simp
qed

text \<open>
  C18: a run of the worker leaves every effect it claims delivered, or failed with its next try in 5 to 60
  seconds, and no other effect changed. The only error it can end with is the claim's, which changes
  nothing; otherwise its result counts each claimed effect once, as delivered or as failed, and it claims
  at most its limit (25 where the limit is not positive).
\<close>
theorem worker_settles_claims:
  assumes ok: "queue_ok db" and run: "run_worker float d limit db = ((result, err), db')"
  shows "(\<exists>e. err = Some (ClaimError e) \<and> db' = db \<and> wr_claimed result = 0) \<or>
    err = None \<and> wr_claimed result = wr_delivered result + wr_failed result \<and>
    wr_claimed result \<le> (if limit \<le> 0 then 25 else nat limit) \<and>
    (\<exists>claimed. card claimed = wr_claimed result \<and>
      claimed \<subseteq> ew_id ` {w \<in> set (bd_effects db). claimable (bd_now db) w} \<and>
      list_all2 (\<lambda>w w'. if ew_id w \<in> claimed then worked_row (bd_now db) w w' else w' = w) (bd_effects db) (bd_effects db'))"
proof -
  let ?limit = "if limit \<le> 0 then 25 else limit"
  let ?zero = "\<lparr>wr_claimed = 0, wr_delivered = 0, wr_failed = 0\<rparr>"
  show ?thesis
  proof (cases "claim_planned_effects float ?limit db")
    case (Pair x db1)
    show ?thesis
    proof (cases x)
      case (Inl e)
      with Pair have "db1 = db" by (auto simp: claim_planned_effects_def Let_def split: sum.splits)
      moreover have "result = ?zero" "err = Some (ClaimError e)" "db' = db1"
        using run Pair Inl by (auto simp: run_worker_def run_once_def pg_effect_queue_def Let_def)
      ultimately show ?thesis by (intro disjI1) simp
    next
      case (Inr es)
      note claim = claim_run [OF Pair [unfolded Inr] ok]
      let ?I = "set (map qe_id es)"
      have effects: "bd_effects db1 = claim_rows (bd_now db) ?I (bd_effects db)" "bd_now db1 = bd_now db"
          "bd_next_effect db1 = bd_next_effect db"
        unfolding claim(1) by simp_all
      have ok1: "queue_ok db1" using queue_ok_ids [OF _ effects(3) ok] by (simp add: effects(1))
      have "\<exists>w \<in> set (bd_effects db1). ew_id w = i \<and> ew_status w = ''processing''" if "i \<in> ?I" for i
      proof -
        obtain w where "w \<in> set (bd_effects db)" "ew_id w = i" using claim(4) \<open>i \<in> ?I\<close> by blast
        with \<open>i \<in> ?I\<close> show ?thesis
          unfolding effects(1) claim_rows_def by (intro bexI [of _ "claim_row (bd_now db) w"]) (auto intro: rev_image_eqI)
      qed
      from work_off_run [OF ok1 claim(2), of float d "?zero\<lparr>wr_claimed := length es\<rparr>"] this
      have off: "work_off (pg_effect_queue float) (dispatch_effect d) es (?zero\<lparr>wr_claimed := length es\<rparr>) db1 = ((result, None), db') \<and> err = None"
          and marked: "marked_rows (bd_now db) ?I (bd_effects db1) (bd_effects db')"
          and counts: "wr_claimed result = length es" "wr_delivered result + wr_failed result = length es"
        using run Pair Inr effects(2) by (auto simp: run_worker_def run_once_def pg_effect_queue_def Let_def)
      have rows: "list_all2 (\<lambda>w w'. if ew_id w \<in> ?I then worked_row (bd_now db) w w' else w' = w) (bd_effects db) (bd_effects db')"
        using marked unfolding marked_rows_def effects(1) claim_rows_def list_all2_map1
        by (rule list_all2_mono) (auto simp: marked_row_def worked_row_def claim_row_def split: if_splits)
      have "card ?I = wr_claimed result" using claim(2) counts(1) by (metis distinct_card length_map)
      moreover have "wr_claimed result \<le> (if limit \<le> 0 then 25 else nat limit)"
        using claim(3) counts(1) by (simp add: claim_limit_def split: if_splits)
      ultimately show ?thesis using off counts rows claim(4) by (intro disjI2 conjI exI [of _ ?I]) simp_all
    qed
  qed
qed

end
