(* ===== verification/BookingCache.thy ===== *)
theory BookingCache
  imports BookingProps BookingRepo
begin

text \<open>
  What the booking store relies on at its repository, as a locale, and what follows under that
  contract: the cache of the store cannot be observed. Two stores with the same repository and
  database, but any caches that agree with it, answer every operation alike.
\<close>

section \<open>What a repository keeps of a booking\<close>

text \<open>The owner and the hosts of a booking have no columns.\<close>

definition persisted :: "booking \<Rightarrow> booking" where
  "persisted b = b\<lparr>b_attendees := Some (case b_attendees b of None \<Rightarrow> [] | Some as \<Rightarrow> as),
     b_responses := Some (object_or_empty (b_responses b)),
     b_metadata := Some (object_or_empty (b_metadata b)), b_owner := 0, b_hosts := None\<rparr>"

text \<open>A booking whose slices and maps are not nil, over maps that satisfy \<open>ok\<close>.\<close>

definition filled :: "(json_map \<Rightarrow> bool) \<Rightarrow> booking \<Rightarrow> bool" where
  "filled ok b \<longleftrightarrow> b_uid b \<noteq> [] \<and> b_attendees b \<noteq> None \<and>
     (\<exists>m. b_responses b = Some m \<and> ok m) \<and> (\<exists>m. b_metadata b = Some m \<and> ok m)"

lemma persisted_idem [simp]: "persisted (persisted b) = persisted b"
  by (simp add: persisted_def object_or_empty_def)

lemma persisted_filled: "filled ok b \<Longrightarrow> persisted b = b\<lparr>b_owner := 0, b_hosts := None\<rparr>"
  by (cases b) (auto simp: persisted_def filled_def object_or_empty_def)

lemma persisted_eq_iff:
  assumes "filled ok b" and "filled ok c"
  shows "persisted b = persisted c \<longleftrightarrow>
    b\<lparr>b_owner := 0, b_hosts := None\<rparr> = c\<lparr>b_owner := 0, b_hosts := None\<rparr>"
  using assms by (simp only: persisted_filled)

lemma persisted_fields:
  "b_uid (persisted b) = b_uid b" "b_status (persisted b) = b_status b"
  "b_event_type_id (persisted b) = b_event_type_id b" "snapshot_of (persisted b) = snapshot_of b"
  by (simp_all add: persisted_def snapshot_of_def)

lemma same_persisted:
  assumes "persisted b = persisted c"
  shows "b_uid b = b_uid c" "b_status b = b_status c" "b_event_type_id b = b_event_type_id c"
    "snapshot_of b = snapshot_of c"
  using assms by (metis persisted_fields)+

text \<open>An operation makes of two bookings with the same columns two bookings with the same columns.\<close>

definition overrides_only :: "booking \<Rightarrow> bool" where
  "overrides_only ov \<longleftrightarrow> b_attendees ov = None \<and> b_responses ov = None \<and> b_metadata ov = None"

lemma persisted_owner [simp]: "persisted (b\<lparr>b_owner := i, b_hosts := hs\<rparr>) = persisted b"
  by (simp add: persisted_def)

lemma same_persisted_owner:
  assumes "filled ok b" and "filled ok c" and "persisted b = persisted c"
  shows "c = b\<lparr>b_owner := b_owner c, b_hosts := b_hosts c\<rparr>"
  using assms(3) unfolding persisted_eq_iff [OF assms(1,2)] by (cases b, cases c) simp

lemma merge_owner:
  "merge_booking (b\<lparr>b_owner := i, b_hosts := hs\<rparr>) ov =
     (merge_booking b ov)\<lparr>b_owner := override_int i (b_owner ov), b_hosts := override_ref hs (b_hosts ov)\<rparr>"
  by (simp add: merge_booking_def)

lemma merge_base_owner:
  "merge_booking base (ov\<lparr>b_owner := i, b_hosts := hs\<rparr>) =
     (merge_booking base ov)\<lparr>b_owner := override_int (b_owner base) i, b_hosts := override_ref (b_hosts base) hs\<rparr>"
  by (simp add: merge_booking_def)

text \<open>The last steps of \<open>fixtureBooking\<close>.\<close>

definition completed_booking :: "booking \<Rightarrow> booking" where
  "completed_booking m =
     (let merged = (if b_selected_calendar m = []
            then m\<lparr>b_selected_calendar := selected_calendar_fixture\<rparr> else m);
          merged = (if b_destination_calendar merged = []
            then merged\<lparr>b_destination_calendar := destination_calendar_fixture\<rparr> else merged)
      in if b_external_event merged = []
         then merged\<lparr>b_external_event := fixture_external_event (b_uid merged)\<rparr> else merged)"

lemma fixture_is_completed: "fixture_booking rid ov = completed_booking (merge_booking (fixture_base rid) ov)"
  by (simp only: fixture_booking_def completed_booking_def Let_def)

lemma completed_owner:
  "completed_booking (m\<lparr>b_owner := i, b_hosts := hs\<rparr>) = (completed_booking m)\<lparr>b_owner := i, b_hosts := hs\<rparr>"
  by (cases "b_selected_calendar m = []"; cases "b_destination_calendar m = []"; cases "b_external_event m = []")
    (simp_all add: completed_booking_def)

lemma fixture_booking_owner:
  "\<exists>j ks. fixture_booking rid (b\<lparr>b_owner := i, b_hosts := hs\<rparr>) = (fixture_booking rid b)\<lparr>b_owner := j, b_hosts := ks\<rparr>"
  unfolding fixture_is_completed merge_base_owner completed_owner by blast

lemma fixture_merge_same:
  assumes b: "filled ok b" and c: "filled ok c" and same: "persisted b = persisted c" and ov: "overrides_only ov"
  shows "persisted (fixture_booking rid (merge_booking b ov)) = persisted (fixture_booking rid (merge_booking c ov))"
    and "filled ok (fixture_booking rid (merge_booking b ov))"
proof -
  obtain i hs where c_eq: "c = b\<lparr>b_owner := i, b_hosts := hs\<rparr>"
    using same_persisted_owner [OF b c same] by blast
  obtain j ks where "fixture_booking rid (merge_booking c ov) =
      (fixture_booking rid (merge_booking b ov))\<lparr>b_owner := j, b_hosts := ks\<rparr>"
    using fixture_booking_owner unfolding c_eq merge_owner by blast
  then show "persisted (fixture_booking rid (merge_booking b ov)) = persisted (fixture_booking rid (merge_booking c ov))"
    by simp
  show "filled ok (fixture_booking rid (merge_booking b ov))"
    using b ov by (auto simp: filled_def overrides_only_def override_text_def)
qed

lemma relabelled_same:
  assumes "filled ok b" and "filled ok c" and "persisted b = persisted c"
  shows "persisted (relabelled rid b st at) = persisted (relabelled rid c st at)" and "filled ok (relabelled rid b st at)"
  using fixture_merge_same [OF assms] by (simp_all add: relabelled_def overrides_only_def)

lemma moved_same:
  assumes "filled ok b" and "filled ok c" and "persisted b = persisted c"
  shows "persisted (moved rid b start e) = persisted (moved rid c start e)" and "filled ok (moved rid b start e)"
  using fixture_merge_same [OF assms] by (simp_all add: moved_def overrides_only_def)

lemma time_zone_same:
  assumes "filled ok b" and "filled ok c" and "persisted b = persisted c"
  shows "booking_time_zone b = booking_time_zone c"
proof -
  have "b_attendees b = b_attendees c"
    using assms(3) unfolding persisted_eq_iff [OF assms(1,2)] by (cases b, cases c, simp)
  then show ?thesis by (simp add: booking_time_zone_def)
qed

section \<open>The four changes of a booking\<close>

text \<open>What the lifecycle operations share: the lookup, a decision on the booking found, the save.\<close>

definition change_booking ::
    "string \<Rightarrow> string \<Rightarrow>
     ((slot_availability_request \<Rightarrow> booking_error + bool) \<Rightarrow> side_effect_port \<Rightarrow> booking \<Rightarrow>
       booking_error + booking list \<times> planned_side_effect list \<times> 'x) \<Rightarrow>
     'r booking_store \<Rightarrow> (booking_error + 'x option) \<times> 'r booking_store" where
  "change_booking rid uid decide s =
     (case find_booking rid uid s of
        (Inl e, s) \<Rightarrow> (Inl e, s)
      | (Inr None, s) \<Rightarrow> (Inr None, s)
      | (Inr (Some b), s) \<Rightarrow>
          (case decide (bs_slots s) (bs_effects s) b of
             Inl e \<Rightarrow> (Inl e, s)
           | Inr (bs, effects, x) \<Rightarrow>
               (case save_bookings effects bs s of
                  (Some e, s) \<Rightarrow> (Inl e, s)
                | (None, s) \<Rightarrow>
                    (Inr (Some x), s\<lparr>bs_bookings := fold (\<lambda>b m. m(b_uid b \<mapsto> b)) (tl bs)
                       ((bs_bookings s)(uid \<mapsto> hd bs))\<rparr>))))"

lemma change_branches:
  "find_booking rid uid s = (Inl e, t) \<Longrightarrow> change_booking rid uid decide s = (Inl e, t)"
  "find_booking rid uid s = (Inr None, t) \<Longrightarrow> change_booking rid uid decide s = (Inr None, t)"
  "find_booking rid uid s = (Inr (Some b), t) \<Longrightarrow> decide (bs_slots t) (bs_effects t) b = Inl e \<Longrightarrow>
     change_booking rid uid decide s = (Inl e, t)"
  "find_booking rid uid s = (Inr (Some b), t) \<Longrightarrow> decide (bs_slots t) (bs_effects t) b = Inr (bs, effects, x) \<Longrightarrow>
     save_bookings effects bs t = (Some e, u) \<Longrightarrow> change_booking rid uid decide s = (Inl e, u)"
  "find_booking rid uid s = (Inr (Some b), t) \<Longrightarrow> decide (bs_slots t) (bs_effects t) b = Inr (bs, effects, x) \<Longrightarrow>
     save_bookings effects bs t = (None, u) \<Longrightarrow> change_booking rid uid decide s = (Inr (Some x),
       u\<lparr>bs_bookings := fold (\<lambda>b m. m(b_uid b \<mapsto> b)) (tl bs) ((bs_bookings u)(uid \<mapsto> hd bs))\<rparr>)"
  by (simp_all add: change_booking_def)

definition relabel ::
    "string \<Rightarrow> string \<Rightarrow> string \<Rightarrow>
     (side_effect_snapshot \<Rightarrow> booking_error + planned_side_effect list) \<Rightarrow>
     booking \<Rightarrow> booking_error + booking list \<times> planned_side_effect list \<times> lifecycle_result" where
  "relabel rid st at plan b =
     (let changed = relabelled rid b st at
      in case plan (snapshot_of changed) of
           Inl e \<Rightarrow> Inl e
         | Inr effects \<Rightarrow>
             Inr ([changed], effects, \<lparr>lr_booking = changed, lr_side_effects = side_effect_names effects\<rparr>))"

lemma cancel_is_change:
  "cancel_booking rid uid req = change_booking rid uid (\<lambda>_ port.
     relabel rid ''cancelled'' ''2026-01-01T00:05:00.000Z'' (\<lambda>sn. pl_cancelled port sn (ca_reason req)))"
  by (rule ext) (simp add: cancel_booking_def change_booking_def relabel_def relabelled_def Let_def
      split: prod.split sum.split option.split)

lemma confirm_is_change:
  "confirm_booking rid uid = change_booking rid uid (\<lambda>_ port b.
     if \<not> confirmable_status (b_status b)
     then Inl (BookingInvalid ''INVALID_BOOKING_STATUS'' ''Booking is not confirmable'')
     else relabel rid ''accepted'' ''2026-01-01T00:15:00.000Z'' (pl_confirmed port) b)"
  by (rule ext) (simp add: confirm_booking_def change_booking_def relabel_def relabelled_def Let_def
      split: prod.split sum.split option.split)

lemma decline_is_change:
  "decline_booking rid uid req = change_booking rid uid (\<lambda>_ port b.
     if \<not> confirmable_status (b_status b)
     then Inl (BookingInvalid ''INVALID_BOOKING_STATUS'' ''Booking is not declinable'')
     else relabel rid ''rejected'' ''2026-01-01T00:20:00.000Z'' (\<lambda>sn. pl_declined port sn (dr_reason req)) b)"
  by (rule ext) (simp add: decline_booking_def change_booking_def relabel_def relabelled_def Let_def
      split: prod.split sum.split option.split)

definition move ::
    "string \<Rightarrow> reschedule_request \<Rightarrow> (slot_availability_request \<Rightarrow> booking_error + bool) \<Rightarrow> side_effect_port \<Rightarrow>
     booking \<Rightarrow> booking_error + booking list \<times> planned_side_effect list \<times> reschedule_result" where
  "move rid req slots port b =
     (case validate_reschedule req of
        Some e \<Rightarrow> Inl e
      | None \<Rightarrow>
          let old = relabelled rid b ''cancelled'' ''2026-01-01T00:10:00.000Z'';
              start = (if rr_start req = [] then ''2026-05-02T15:00:00.000Z'' else rr_start req)
          in case slots \<lparr>sa_request_id = rid,
                sa_event_type_id = (if b_event_type_id b = 0 then booking_fixture_event_type_id else b_event_type_id b),
                sa_start = start, sa_time_zone = booking_time_zone b\<rparr> of
               Inl e \<Rightarrow> Inl e
             | Inr free \<Rightarrow>
                 if \<not> free then Inl (BookingInvalid ''SLOT_UNAVAILABLE'' ''Requested slot is unavailable'')
                 else (case end_for_start start of
                    Inl e \<Rightarrow> Inl e
                  | Inr end_at \<Rightarrow>
                      let new = moved rid b start end_at
                      in case pl_rescheduled port (snapshot_of old) (snapshot_of new) (rr_reason req) of
                           Inl e \<Rightarrow> Inl e
                         | Inr effects \<Rightarrow> Inr ([old, new], effects,
                             \<lparr>rs_old = old, rs_new = new, rs_side_effects = side_effect_names effects\<rparr>)))"

lemma reschedule_is_change: "reschedule_booking rid uid req = change_booking rid uid (move rid req)"
proof (rule ext)
  fix s
  let ?start = "if rr_start req = [] then ''2026-05-02T15:00:00.000Z'' else rr_start req"
  obtain r t where found: "find_booking rid uid s = (r, t)" by fastforce
  show "reschedule_booking rid uid req s = change_booking rid uid (move rid req) s"
  proof (cases "\<exists>b. r = Inr (Some b) \<and> validate_reschedule req = None")
    case False
    with found show ?thesis
      by (cases r) (auto simp: reschedule_booking_def change_booking_def move_def split: option.split)
  next
    case True
    then obtain b where b: "r = Inr (Some b)" and valid: "validate_reschedule req = None" by blast
    define free where "free = bs_slots t \<lparr>sa_request_id = rid,
      sa_event_type_id = (if b_event_type_id b = 0 then booking_fixture_event_type_id else b_event_type_id b),
      sa_start = ?start, sa_time_zone = booking_time_zone b\<rparr>"
    show ?thesis
    proof (cases "free = Inr True")
      case False
      with found b valid show ?thesis
        by (cases free) (simp_all add: reschedule_booking_def change_booking_def move_def Let_def free_def)
    next
      case True
      with found b valid show ?thesis
        unfolding free_def reschedule_booking_def change_booking_def move_def
          relabelled_def [symmetric] moved_def [symmetric]
        by (cases "end_for_start ?start") (simp_all add: Let_def split: sum.split prod.split option.split)
    qed
  qed
qed

section \<open>Results up to owner and hosts\<close>

datatype booking_outcome =
    OutCreated "booking_error + booking \<times> bool"
  | OutRead "booking_error + booking option"
  | OutChanged "booking_error + lifecycle_result option"
  | OutMoved "booking_error + reschedule_result option"

fun call_booking :: "platform \<Rightarrow> booking_op \<Rightarrow> 'r booking_store \<Rightarrow> booking_outcome \<times> 'r booking_store" where
  "call_booking pf (OpCreate rid req) s = apfst OutCreated (create_booking pf rid req s)"
| "call_booking pf (OpRead rid uid) s = apfst OutRead (read_booking rid uid s)"
| "call_booking pf (OpCancel rid uid req) s = apfst OutChanged (cancel_booking rid uid req s)"
| "call_booking pf (OpReschedule rid uid req) s = apfst OutMoved (reschedule_booking rid uid req s)"
| "call_booking pf (OpConfirm rid uid) s = apfst OutChanged (confirm_booking rid uid s)"
| "call_booking pf (OpDecline rid uid req) s = apfst OutChanged (decline_booking rid uid req s)"

definition persisted_change :: "lifecycle_result \<Rightarrow> lifecycle_result" where
  "persisted_change r = r\<lparr>lr_booking := persisted (lr_booking r)\<rparr>"

definition persisted_move :: "reschedule_result \<Rightarrow> reschedule_result" where
  "persisted_move r = r\<lparr>rs_old := persisted (rs_old r), rs_new := persisted (rs_new r)\<rparr>"

fun persisted_outcome :: "booking_outcome \<Rightarrow> booking_outcome" where
  "persisted_outcome (OutCreated r) = OutCreated (map_sum id (apfst persisted) r)"
| "persisted_outcome (OutRead r) = OutRead (map_sum id (map_option persisted) r)"
| "persisted_outcome (OutChanged r) = OutChanged (map_sum id (map_option persisted_change) r)"
| "persisted_outcome (OutMoved r) = OutMoved (map_sum id (map_option persisted_move) r)"

text \<open>Requests whose maps satisfy \<open>good\<close>.\<close>

fun op_maps_ok :: "(json_map \<Rightarrow> bool) \<Rightarrow> booking_op \<Rightarrow> bool" where
  "op_maps_ok good (OpCreate rid req) \<longleftrightarrow>
     good (object_or_empty (cr_responses req)) \<and> good (object_or_empty (cr_metadata req))"
| "op_maps_ok good _ \<longleftrightarrow> True"

text \<open>The outcomes of calls one after the other.\<close>

fun call_bookings :: "platform \<Rightarrow> booking_op list \<Rightarrow> 'r booking_store \<Rightarrow> booking_outcome list \<times> 'r booking_store" where
  "call_bookings pf [] s = ([], s)"
| "call_bookings pf (op # ops) s =
     (case call_booking pf op s of (r, s) \<Rightarrow> (case call_bookings pf ops s of (rs, s) \<Rightarrow> (r # rs, s)))"

section \<open>Decisions that look at the columns only\<close>

definition decides_alike ::
    "(json_map \<Rightarrow> bool) \<Rightarrow>
     ((slot_availability_request \<Rightarrow> booking_error + bool) \<Rightarrow> side_effect_port \<Rightarrow> booking \<Rightarrow>
       booking_error + booking list \<times> planned_side_effect list \<times> 'x) \<Rightarrow> ('x \<Rightarrow> 'x) \<Rightarrow> bool" where
  "decides_alike good decide norm \<longleftrightarrow>
     (\<forall>slots port b c. filled good b \<longrightarrow> filled good c \<longrightarrow> persisted b = persisted c \<longrightarrow>
        (case (decide slots port b, decide slots port c) of
           (Inl e, Inl f) \<Rightarrow> e = f
         | (Inr (bs, es, x), Inr (cs, fs, y)) \<Rightarrow>
             map persisted bs = map persisted cs \<and> es = fs \<and> norm x = norm y \<and>
             bs \<noteq> [] \<and> b_uid (hd bs) = b_uid b \<and>
             (\<forall>d \<in> set bs. filled good d) \<and> (\<forall>d \<in> set cs. filled good d)
         | _ \<Rightarrow> False))"

lemma relabel_alike: "decides_alike good (\<lambda>_ port. relabel rid st at (plan port)) persisted_change"
  unfolding decides_alike_def
proof (intro allI impI)
  fix slots :: "slot_availability_request \<Rightarrow> booking_error + bool" and port :: side_effect_port and b c
  assume b: "filled good b" and c: "filled good c" and same: "persisted b = persisted c"
  note changed = relabelled_same [OF b c same] relabelled_same(2) [OF c b same [symmetric]]
  have "b_uid (relabelled rid b st at) = b_uid b" using b by (simp add: relabelled_def filled_def)
  with changed same_persisted(4) [OF changed(1)]
  show "case (relabel rid st at (plan port) b, relabel rid st at (plan port) c) of
           (Inl e, Inl f) \<Rightarrow> e = f
         | (Inr (bs, es, x), Inr (cs, fs, y)) \<Rightarrow>
             map persisted bs = map persisted cs \<and> es = fs \<and> persisted_change x = persisted_change y \<and>
             bs \<noteq> [] \<and> b_uid (hd bs) = b_uid b \<and>
             (\<forall>d \<in> set bs. filled good d) \<and> (\<forall>d \<in> set cs. filled good d)
         | _ \<Rightarrow> False"
    by (cases "plan port (snapshot_of (relabelled rid c st at))")
      (simp_all add: relabel_def persisted_change_def Let_def)
qed

lemma guarded_alike:
  assumes "decides_alike good decide norm"
  shows "decides_alike good (\<lambda>slots port b. if P (b_status b) then Inl e else decide slots port b) norm"
  unfolding decides_alike_def
proof (intro allI impI)
  fix slots :: "slot_availability_request \<Rightarrow> booking_error + bool" and port :: side_effect_port and b c
  assume same: "filled good b" "filled good c" "persisted b = persisted c"
  note alike = assms [unfolded decides_alike_def, rule_format, OF same, of slots port]
  from alike same_persisted(2) [OF same(3)]
  show "case (if P (b_status b) then Inl e else decide slots port b, if P (b_status c) then Inl e else decide slots port c) of
           (Inl e, Inl f) \<Rightarrow> e = f
         | (Inr (bs, es, x), Inr (cs, fs, y)) \<Rightarrow>
             map persisted bs = map persisted cs \<and> es = fs \<and> norm x = norm y \<and>
             bs \<noteq> [] \<and> b_uid (hd bs) = b_uid b \<and>
             (\<forall>d \<in> set bs. filled good d) \<and> (\<forall>d \<in> set cs. filled good d)
         | _ \<Rightarrow> False"
    by (cases "P (b_status c)") simp_all
qed

lemma move_alike: "decides_alike good (move rid req) persisted_move"
  unfolding decides_alike_def
proof (intro allI impI)
  fix slots :: "slot_availability_request \<Rightarrow> booking_error + bool" and port :: side_effect_port and b c
  assume b: "filled good b" and c: "filled good c" and same: "persisted b = persisted c"
  let ?start = "if rr_start req = [] then ''2026-05-02T15:00:00.000Z'' else rr_start req"
  note old = relabelled_same [OF b c same] relabelled_same(2) [OF c b same [symmetric]]
  note new = moved_same [OF b c same] moved_same(2) [OF c b same [symmetric]]
  have uid: "b_uid (relabelled rid b st at) = b_uid b" for st at
    using b by (simp add: relabelled_def filled_def)
  note same_parts = same_persisted(3) [OF same] time_zone_same [OF b c same]
    same_persisted(4) [OF old(1)] same_persisted(4) [OF new(1)]
  define ev where "ev = (if b_event_type_id c = 0 then booking_fixture_event_type_id else b_event_type_id c)"
  define st where "st = ?start"
  define asked where "asked = slots \<lparr>sa_request_id = rid, sa_event_type_id = ev, sa_start = st,
    sa_time_zone = booking_time_zone c\<rparr>"
  define plan where "plan d e = pl_rescheduled port (snapshot_of (relabelled rid d ''cancelled'' ''2026-01-01T00:10:00.000Z''))
    (snapshot_of (moved rid d st e)) (rr_reason req)" for d e
  have plan_same: "plan b e = plan c e" for e by (simp add: plan_def same_parts)
  have result: "move rid req slots port d =
      (case validate_reschedule req of Some e \<Rightarrow> Inl e
       | None \<Rightarrow> (case asked of Inl e \<Rightarrow> Inl e
         | Inr free \<Rightarrow> if \<not> free then Inl (BookingInvalid ''SLOT_UNAVAILABLE'' ''Requested slot is unavailable'')
             else (case end_for_start st of Inl e \<Rightarrow> Inl e
              | Inr e \<Rightarrow> (case plan d e of Inl f \<Rightarrow> Inl f
                | Inr es \<Rightarrow> Inr ([relabelled rid d ''cancelled'' ''2026-01-01T00:10:00.000Z'', moved rid d st e], es,
                    \<lparr>rs_old = relabelled rid d ''cancelled'' ''2026-01-01T00:10:00.000Z'', rs_new = moved rid d st e,
                     rs_side_effects = side_effect_names es\<rparr>)))))"
    if "d = b \<or> d = c" for d
  proof -
    have "b_event_type_id d = b_event_type_id c" "booking_time_zone d = booking_time_zone c"
      using that same_parts by auto
    then show ?thesis
      unfolding move_def Let_def asked_def ev_def [symmetric] st_def [symmetric] plan_def by (simp only: ev_def)
  qed
  show "case (move rid req slots port b, move rid req slots port c) of
           (Inl e, Inl f) \<Rightarrow> e = f
         | (Inr (bs, es, x), Inr (cs, fs, y)) \<Rightarrow>
             map persisted bs = map persisted cs \<and> es = fs \<and> persisted_move x = persisted_move y \<and>
             bs \<noteq> [] \<and> b_uid (hd bs) = b_uid b \<and>
             (\<forall>d \<in> set bs. filled good d) \<and> (\<forall>d \<in> set cs. filled good d)
         | _ \<Rightarrow> False"
    unfolding result [OF disjI1 [OF refl]] result [OF disjI2 [OF refl]] plan_same
    by (cases "validate_reschedule req"; cases asked; cases "end_for_start st"; cases "plan c (projr (end_for_start st))")
      (simp_all add: persisted_move_def old new uid)
qed

section \<open>The contract and its client\<close>

text \<open>A cache that agrees with the rows.\<close>

definition cached :: "(json_map \<Rightarrow> bool) \<Rightarrow> (string \<Rightarrow> booking option) \<Rightarrow> (string \<Rightarrow> booking option) \<Rightarrow> bool" where
  "cached good cache rows \<longleftrightarrow> (\<forall>uid b. cache uid = Some b \<longrightarrow>
     filled good b \<and> b_uid b = uid \<and> rows uid = Some (persisted b))"

lemma cachedD: "cached good cache rows \<Longrightarrow> cache uid = Some b \<Longrightarrow>
    filled good b \<and> b_uid b = uid \<and> rows uid = Some (persisted b)"
  unfolding cached_def by blast

lemma cached_empty [simp]: "cached good Map.empty rows"
  by (simp add: cached_def)

lemma cached_put:
  "cached good cache rows \<Longrightarrow> filled good b \<Longrightarrow> cached good (cache(b_uid b \<mapsto> b)) (rows(b_uid b \<mapsto> persisted b))"
  unfolding cached_def by (metis fun_upd_apply option.inject)

lemma cached_known:
  "cached good cache rows \<Longrightarrow> filled good b \<Longrightarrow> rows (b_uid b) = Some (persisted b) \<Longrightarrow>
     cached good (cache(b_uid b \<mapsto> b)) rows"
  unfolding cached_def by (metis fun_upd_apply option.inject)

lemma cached_fold:
  assumes "\<forall>d \<in> set bs. filled good d" and "cached good cache rows"
  shows "cached good (fold (\<lambda>b m. m(b_uid b \<mapsto> b)) bs cache) (fold (\<lambda>b m. m(b_uid b \<mapsto> persisted b)) bs rows)"
  using assms by (induction bs arbitrary: cache rows) (simp_all add: cached_put)

locale booking_backend =
  fixes repo :: "'r booking_repository"
    and ok :: "'r \<Rightarrow> bool"
    and row :: "'r \<Rightarrow> string \<Rightarrow> booking option"
    and key_uid :: "'r \<Rightarrow> string \<Rightarrow> string option"
    and good :: "json_map \<Rightarrow> bool"
  assumes read: "ok db \<Longrightarrow> br_read_by_uid repo uid db = Inr (row db uid)"
    and read_key: "ok db \<Longrightarrow> br_read_by_key repo key db =
      Inr (case key_uid db key of None \<Rightarrow> None | Some uid \<Rightarrow> row db uid)"
    and row_ok: "ok db \<Longrightarrow> row db uid = Some b \<Longrightarrow> filled good b \<and> b_uid b = uid \<and> persisted b = b"
    and key_ok: "ok db \<Longrightarrow> key_uid db key = Some uid \<Longrightarrow> row db uid \<noteq> None"
    and save: "ok db \<Longrightarrow> \<forall>b \<in> set bs. filled good b \<Longrightarrow> br_save repo effects bs db = (r, db') \<Longrightarrow>
      (if r = None then ok db' \<and> key_uid db' = key_uid db \<and>
          row db' = fold (\<lambda>b m. m(b_uid b \<mapsto> persisted b)) bs (row db)
       else db' = db)"
    and save_columns: "map persisted bs = map persisted cs \<Longrightarrow> \<forall>b \<in> set bs. filled good b \<Longrightarrow>
      \<forall>b \<in> set cs. filled good b \<Longrightarrow> br_save repo effects bs db = br_save repo effects cs db"
    and create_new: "ok db \<Longrightarrow> filled good b \<Longrightarrow> key = [] \<or> key_uid db key = None \<Longrightarrow>
      br_save_created repo b key effects db = (q, db') \<Longrightarrow>
      (case q of Inl e \<Rightarrow> db' = db
       | Inr (c, duplicate) \<Rightarrow> c = b \<and> \<not> duplicate \<and> ok db' \<and> row db' = (row db)(b_uid b \<mapsto> persisted b) \<and>
           key_uid db' = (if key = [] then key_uid db else (key_uid db)(key \<mapsto> b_uid b)))"
    and good_fixture: "good [(''name'', JStr n), (''email'', JStr e)]" "good [(''fixture'', JStr f)]" "good []"
begin

text \<open>The cache holds what the repository holds.\<close>

definition coherent :: "'r booking_store \<Rightarrow> bool" where
  "coherent s \<longleftrightarrow> bs_repo s = Some repo \<and> ok (bs_db s) \<and> cached good (bs_bookings s) (row (bs_db s)) \<and>
     (\<forall>key uid. bs_idempotency s key = Some uid \<longrightarrow> key_uid (bs_db s) key = Some uid)"

definition agree :: "'r booking_store \<Rightarrow> 'r booking_store \<Rightarrow> bool" where
  "agree s t \<longleftrightarrow> coherent s \<and> coherent t \<and> bs_db s = bs_db t \<and> bs_slots s = bs_slots t \<and>
     bs_effects s = bs_effects t"

lemma coherent_empty: "ok db \<Longrightarrow> coherent (new_booking_store pf (Some repo) slot_port effect_port db)"
  by (simp add: coherent_def new_booking_store_def)

lemma fixture_filled:
  assumes "fixture_by_uid rid uid = Some b"
  shows "filled good b \<and> b_uid b = uid"
proof -
  consider "uid = primary_fixture_uid" "b = fixture_booking rid zero_booking"
    | "uid \<noteq> []" "b = pending_fixture_booking rid uid"
    using assms unfolding fixture_by_uid_def by (metis list.distinct(1) option.distinct(1) option.inject)
  then show ?thesis
  proof cases
    case 1
    then show ?thesis by (simp add: filled_def good_fixture)
  next
    case 2
    then show ?thesis by (simp add: filled_def pending_fixture_booking_def good_fixture)
  qed
qed

text \<open>A lookup answers from the database, whatever is cached.\<close>

definition looked_up :: "string \<Rightarrow> string \<Rightarrow> 'r \<Rightarrow> (booking_error + booking option) \<times> 'r" where
  "looked_up rid uid db =
     (case row db uid of
        Some b \<Rightarrow> (Inr (Some b), db)
      | None \<Rightarrow>
          (case fixture_by_uid rid uid of
             None \<Rightarrow> (Inr None, db)
           | Some b \<Rightarrow> (case br_save_created repo b [] [] db of
                 (Inl e, db') \<Rightarrow> (Inl e, db') | (Inr _, db') \<Rightarrow> (Inr (Some (persisted b)), db'))))"

lemma find_coherent:
  assumes "coherent s" and "find_booking rid uid s = (r, t)"
  shows "looked_up rid uid (bs_db s) = (map_sum id (map_option persisted) r, bs_db t)"
    and "coherent t \<and> bs_slots t = bs_slots s \<and> bs_effects t = bs_effects s"
    and "r = Inr (Some b) \<Longrightarrow> filled good b \<and> b_uid b = uid \<and> row (bs_db t) uid = Some (persisted b)"
proof -
  have c: "bs_repo s = Some repo" "ok (bs_db s)" "br_read_by_uid repo uid (bs_db s) = Inr (row (bs_db s) uid)"
    using assms(1) read by (auto simp: coherent_def)
  have "looked_up rid uid (bs_db s) = (map_sum id (map_option persisted) r, bs_db t) \<and>
      coherent t \<and> bs_slots t = bs_slots s \<and> bs_effects t = bs_effects s \<and>
      (\<forall>b. r = Inr (Some b) \<longrightarrow> filled good b \<and> b_uid b = uid \<and> row (bs_db t) uid = Some (persisted b))"
  proof (cases "bs_bookings s uid")
    case (Some b)
    with assms(2) have t: "r = Inr (Some b)" "t = s" by (simp_all add: find_booking_def)
    have "filled good b \<and> b_uid b = uid \<and> row (bs_db s) uid = Some (persisted b)"
      using assms(1) cachedD [of good "bs_bookings s" "row (bs_db s)" uid b] Some by (simp add: coherent_def)
    with t assms(1) show ?thesis by (simp add: looked_up_def)
  next
    case uncached: None
    show ?thesis
    proof (cases "row (bs_db s) uid")
      case (Some b)
      note b = row_ok [OF c(2) Some]
      have t: "r = Inr (Some b)" "t = put_booking b s"
        using assms(2) uncached Some c by (auto simp: find_booking_def)
      have "coherent t"
        using assms(1) b Some cached_known [of good "bs_bookings s" "row (bs_db s)" b]
        unfolding t coherent_def by (simp add: put_booking_def)
      with b Some t show ?thesis by (auto simp: looked_up_def put_booking_def)
    next
      case unknown: None
      show ?thesis
      proof (cases "fixture_by_uid rid uid")
        case None
        with assms(2) uncached unknown c have "r = Inr None" "t = s" by (simp_all add: find_booking_def)
        with assms(1) unknown None show ?thesis by (simp add: looked_up_def)
      next
        case (Some b)
        note b = fixture_filled [OF Some]
        obtain q db' where q: "br_save_created repo b [] [] (bs_db s) = (q, db')" by fastforce
        note new = create_new [OF c(2) conjunct1 [OF b] _ q]
        show ?thesis
        proof (cases q)
          case (Inl e)
          with assms uncached unknown c Some q new show ?thesis
            by (auto simp: find_booking_def looked_up_def)
        next
          case (Inr cd)
          then have t: "r = Inr (Some b)" "t = put_booking b (s\<lparr>bs_db := db'\<rparr>)"
            using assms(2) uncached unknown c Some q by (auto simp: find_booking_def)
          have db': "ok db'" "row db' = (row (bs_db s))(uid \<mapsto> persisted b)" "key_uid db' = key_uid (bs_db s)"
            using new Inr b by (auto split: prod.splits)
          have "coherent t"
            using assms(1) b db' cached_put [of good "bs_bookings s" "row (bs_db s)" b]
            unfolding t coherent_def by (simp add: put_booking_def)
          with t b db' Inr Some unknown q show ?thesis by (auto simp: looked_up_def put_booking_def)
        qed
      qed
    qed
  qed
  then show "looked_up rid uid (bs_db s) = (map_sum id (map_option persisted) r, bs_db t)"
    and "coherent t \<and> bs_slots t = bs_slots s \<and> bs_effects t = bs_effects s"
    and "r = Inr (Some b) \<Longrightarrow> filled good b \<and> b_uid b = uid \<and> row (bs_db t) uid = Some (persisted b)"
    by blast+
qed

lemma find_agree:
  assumes "agree s t" and "find_booking rid uid s = (r, s')" and "find_booking rid uid t = (q, t')"
  shows "agree s' t' \<and> map_sum id (map_option persisted) r = map_sum id (map_option persisted) q"
proof -
  have c: "coherent s" "coherent t" "bs_db s = bs_db t" using assms(1) by (simp_all add: agree_def)
  have "(map_sum id (map_option persisted) r, bs_db s') = (map_sum id (map_option persisted) q, bs_db t')"
    using find_coherent(1) [OF c(1) assms(2)] find_coherent(1) [OF c(2) assms(3)] c(3) by simp
  with find_coherent(2) [OF c(1) assms(2)] find_coherent(2) [OF c(2) assms(3)] assms(1)
  show ?thesis by (simp add: agree_def)
qed

lemma save_coherent:
  assumes s: "coherent s" and good: "\<forall>d \<in> set bs. filled good d" and bs: "bs \<noteq> []" "b_uid (hd bs) = uid"
    and saved: "save_bookings effects bs s = (None, t)"
  shows "coherent (t\<lparr>bs_bookings := fold (\<lambda>b m. m(b_uid b \<mapsto> b)) (tl bs) ((bs_bookings t)(uid \<mapsto> hd bs))\<rparr>)"
proof -
  have repo: "bs_repo s = Some repo" and ok: "ok (bs_db s)" using s by (simp_all add: coherent_def)
  obtain r db' where r: "br_save repo effects bs (bs_db s) = (r, db')" by fastforce
  then have t: "t = s\<lparr>bs_db := db'\<rparr>" "r = None" using saved repo by (simp_all add: save_bookings_def)
  note laws = save [OF ok good r]
  have fold_eq: "fold (\<lambda>b m. m(b_uid b \<mapsto> b)) (tl bs) ((bs_bookings t)(uid \<mapsto> hd bs)) =
      fold (\<lambda>b m. m(b_uid b \<mapsto> b)) bs (bs_bookings s)"
    using bs t by (cases bs) simp_all
  have "cached good (bs_bookings s) (row (bs_db s))" using s by (simp add: coherent_def)
  from cached_fold [OF good this] laws s show ?thesis
    unfolding fold_eq by (simp add: coherent_def t)
qed

lemma change_found_agree:
  assumes agree: "agree s t" and alike: "decides_alike good decide norm"
    and run: "change_booking rid uid decide s = (r, s')" "change_booking rid uid decide t = (q, t')"
    and s1: "find_booking rid uid s = (Inr (Some b), s1)" and t1: "find_booking rid uid t = (Inr (Some c), t1)"
    and found: "agree s1 t1" and same: "persisted b = persisted c"
  shows "agree s' t' \<and> map_sum id (map_option norm) r = map_sum id (map_option norm) q"
proof -
  have coherent: "coherent s1" "coherent t1" using found by (simp_all add: agree_def)
  then have "bs_repo s1 = Some repo" "bs_repo t1 = Some repo" by (simp_all add: coherent_def)
  with found coherent have ports: "bs_slots s1 = bs_slots t1" "bs_effects s1 = bs_effects t1"
      "bs_db s1 = bs_db t1" "bs_repo s1 = Some repo" "bs_repo t1 = Some repo" "coherent s1" "coherent t1"
    by (simp_all add: agree_def)
  have good: "filled good b" "filled good c" "b_uid b = uid" "b_uid c = uid"
    using find_coherent(3) [OF _ s1 refl] find_coherent(3) [OF _ t1 refl] agree by (simp_all add: agree_def)
  note decided = alike [unfolded decides_alike_def, rule_format, OF good(1,2) same, of "bs_slots t1" "bs_effects t1"]
  show ?thesis
  proof (cases "decide (bs_slots t1) (bs_effects t1) b")
    case (Inl e)
    with decided have e: "decide (bs_slots t1) (bs_effects t1) c = Inl e"
      by (cases "decide (bs_slots t1) (bs_effects t1) c") auto
    have "r = Inl e" "s' = s1" "q = Inl e" "t' = t1"
      using run change_branches(3) [OF s1, of decide e] change_branches(3) [OF t1, of decide, OF e] Inl ports by simp_all
    with found show ?thesis by simp
  next
    case (Inr d)
    obtain bs es x where d: "decide (bs_slots t1) (bs_effects t1) b = Inr (bs, es, x)" using Inr by (cases d) auto
    obtain cs fs y where e: "decide (bs_slots t1) (bs_effects t1) c = Inr (cs, fs, y)"
      using decided d by (cases "decide (bs_slots t1) (bs_effects t1) c") auto
    have cols: "map persisted bs = map persisted cs" "norm x = norm y" "bs \<noteq> []" "b_uid (hd bs) = uid"
        "\<forall>d \<in> set bs. filled good d" "\<forall>d \<in> set cs. filled good d" and fs: "fs = es"
      using decided good unfolding d e by simp_all
    have "cs \<noteq> []" using cols(1,3) by auto
    moreover have "b_uid (hd bs) = b_uid (hd cs)"
      using cols(1,3) \<open>cs \<noteq> []\<close> same_persisted(1) by (metis list.map_sel(1))
    ultimately have cs: "cs \<noteq> []" "b_uid (hd cs) = uid" using cols(4) by simp_all
    obtain u db' where u: "br_save repo es bs (bs_db t1) = (u, db')" by fastforce
    then have v: "br_save repo es cs (bs_db t1) = (u, db')"
      using save_columns [OF cols(1,5,6)] by simp
    have s2: "save_bookings es bs s1 = (u, s1\<lparr>bs_db := db'\<rparr>)" and t2: "save_bookings es cs t1 = (u, t1\<lparr>bs_db := db'\<rparr>)"
      using u v ports by (simp_all add: save_bookings_def)
    note d = d [folded ports(1,2)] and e = e [unfolded fs]
    show ?thesis
    proof (cases u)
      case (Some err)
      have "db' = bs_db t1" using save [OF _ cols(5) u] ports Some by (simp add: coherent_def)
      moreover have "r = Inl err" "s' = s1\<lparr>bs_db := db'\<rparr>" "q = Inl err" "t' = t1\<lparr>bs_db := db'\<rparr>"
        using run change_branches(4) [OF s1, of decide, OF d s2 [unfolded Some]] change_branches(4) [OF t1, of decide, OF e t2 [unfolded Some]] by simp_all
      ultimately show ?thesis using found ports by (simp add: agree_def coherent_def)
    next
      case None
      note s3 = change_branches(5) [OF s1, of decide, OF d s2 [unfolded None]] and t3 = change_branches(5) [OF t1, of decide, OF e t2 [unfolded None]]
      have "r = Inr (Some x)" "q = Inr (Some y)" using run s3 t3 by simp_all
      moreover have "coherent s'" "coherent t'"
        using save_coherent [OF ports(6) cols(5,3,4) s2 [unfolded None]] save_coherent [OF ports(7) cols(6) cs t2 [unfolded None]]
          run s3 t3 by simp_all
      moreover have "bs_db s' = db'" "bs_db t' = db'" "bs_slots s' = bs_slots t'" "bs_effects s' = bs_effects t'"
        using run s3 t3 ports by auto
      ultimately show ?thesis using cols(2) by (simp add: agree_def)
    qed
  qed
qed

lemma change_agree:
  assumes agree: "agree s t" and alike: "decides_alike good decide norm"
    and run: "change_booking rid uid decide s = (r, s')" "change_booking rid uid decide t = (q, t')"
  shows "agree s' t' \<and> map_sum id (map_option norm) r = map_sum id (map_option norm) q"
proof -
  obtain r1 s1 where s1: "find_booking rid uid s = (r1, s1)" by fastforce
  obtain q1 t1 where t1: "find_booking rid uid t = (q1, t1)" by fastforce
  note found = find_agree [OF agree s1 t1]
  show ?thesis
  proof (cases "\<exists>b. r1 = Inr (Some b)")
    case False
    with found have same: "q1 = r1" by (cases r1; cases q1) auto
    with False found run s1 t1 show ?thesis
      by (cases r1) (auto simp: change_branches)
  next
    case True
    then obtain b where b: "r1 = Inr (Some b)" by blast
    with found have "map_sum id (map_option persisted) q1 = Inr (Some (persisted b))" by simp
    then obtain c where c: "q1 = Inr (Some c)" and same: "persisted b = persisted c"
      by (cases q1) (auto simp: map_option_eq_Some)
    from change_found_agree [OF agree alike run s1 [unfolded b] t1 [unfolded c] conjunct1 [OF found] same]
    show ?thesis .
  qed
qed

lemma replay_coherent:
  assumes s: "coherent s" and run: "replay_created key s = (r, t)"
  shows "coherent t \<and> bs_db t = bs_db s \<and> bs_slots t = bs_slots s \<and> bs_effects t = bs_effects s"
    and "case if key = [] then None else key_uid (bs_db s) key of
        None \<Rightarrow> r = Inr None \<and> t = s
      | Some uid \<Rightarrow> (\<exists>b. r = Inr (Some b) \<and> row (bs_db s) uid = Some (persisted b))"
proof -
  have c: "bs_repo s = Some repo" "ok (bs_db s)" "cached good (bs_bookings s) (row (bs_db s))"
      "\<And>uid. bs_idempotency s key = Some uid \<Longrightarrow> key_uid (bs_db s) key = Some uid"
    using s by (simp_all add: coherent_def)
  have "(coherent t \<and> bs_db t = bs_db s \<and> bs_slots t = bs_slots s \<and> bs_effects t = bs_effects s) \<and>
      (case if key = [] then None else key_uid (bs_db s) key of
        None \<Rightarrow> r = Inr None \<and> t = s
      | Some uid \<Rightarrow> (\<exists>b. r = Inr (Some b) \<and> row (bs_db s) uid = Some (persisted b)))"
  proof (cases "key = [] \<or> cached_replay key s \<noteq> None")
    case True
    then show ?thesis
    proof (cases "key = []")
      case False
      with True obtain b uid where b: "bs_idempotency s key = Some uid" "bs_bookings s uid = Some b"
          "cached_replay key s = Some b"
        by (auto simp: cached_replay_def split: option.splits)
      with run False have "r = Inr (Some b)" "t = s" by (simp_all add: replay_created_def)
      with s c(4) [OF b(1)] cachedD [OF c(3) b(2)] False show ?thesis by simp
    qed (use run s in \<open>simp add: replay_created_def\<close>)
  next
    case False
    show ?thesis
    proof (cases "key_uid (bs_db s) key")
      case None
      with False run c read_key [OF c(2), of key] s show ?thesis by (simp add: replay_created_def)
    next
      case (Some uid)
      then obtain b where b: "row (bs_db s) uid = Some b" using key_ok [OF c(2)] by blast
      note facts = row_ok [OF c(2) b]
      have t: "r = Inr (Some b)" "t = remember_key key (b_uid b) (put_booking b s)"
        using False run c read_key [OF c(2), of key] Some b by (simp_all add: replay_created_def)
      have "cached good ((bs_bookings s)(b_uid b \<mapsto> b)) (row (bs_db s))"
        using cached_known [OF c(3), of b] facts b by auto
      with s facts Some False have "coherent t"
        unfolding t coherent_def by (simp add: remember_key_def put_booking_def)
      with t b facts Some False show ?thesis by (simp add: remember_key_def put_booking_def)
    qed
  qed
  then show "coherent t \<and> bs_db t = bs_db s \<and> bs_slots t = bs_slots s \<and> bs_effects t = bs_effects s"
    and "case if key = [] then None else key_uid (bs_db s) key of
        None \<Rightarrow> r = Inr None \<and> t = s
      | Some uid \<Rightarrow> (\<exists>b. r = Inr (Some b) \<and> row (bs_db s) uid = Some (persisted b))"
    by blast+
qed

lemma prepared_filled:
  assumes "prepare_created pf slots rid req = Inr b" and "op_maps_ok good (OpCreate rid req)"
  shows "filled good b"
  using assms
  by (auto simp: prepare_created_def Let_def filled_def object_or_empty_def split: option.splits sum.splits if_splits)

lemma create_coherent:
  assumes s: "coherent s" and key: "cr_idempotency_key req = [] \<or> key_uid (bs_db s) (cr_idempotency_key req) = None"
    and maps: "op_maps_ok good (OpCreate rid req)" and run: "create_booking pf rid req s = (r, t)"
  shows "coherent t \<and> bs_slots t = bs_slots s \<and> bs_effects t = bs_effects s"
    and "(r, bs_db t) = (case prepare_created pf (bs_slots s) rid req of
        Inl e \<Rightarrow> (Inl e, bs_db s)
      | Inr b \<Rightarrow> br_save_created repo b (cr_idempotency_key req) [] (bs_db s))"
proof -
  let ?key = "cr_idempotency_key req"
  have c: "bs_repo s = Some repo" "ok (bs_db s)" "cached good (bs_bookings s) (row (bs_db s))"
    using s by (simp_all add: coherent_def)
  obtain r1 s1 where "replay_created ?key s = (r1, s1)" by fastforce
  with replay_coherent(2) [OF s this] key have replay: "replay_created ?key s = (Inr None, s)"
    by (auto split: if_splits)
  have "(coherent t \<and> bs_slots t = bs_slots s \<and> bs_effects t = bs_effects s) \<and>
    (r, bs_db t) = (case prepare_created pf (bs_slots s) rid req of
        Inl e \<Rightarrow> (Inl e, bs_db s)
      | Inr b \<Rightarrow> br_save_created repo b ?key [] (bs_db s))"
  proof (cases "prepare_created pf (bs_slots s) rid req")
    case (Inl e)
    with run replay s show ?thesis by (simp add: create_booking_def)
  next
    case (Inr b)
    note b = prepared_filled [OF Inr maps]
    obtain q db where q: "br_save_created repo b ?key [] (bs_db s) = (q, db)" by fastforce
    note new = create_new [OF c(2) b key q]
    show ?thesis
    proof (cases q)
      case (Inl e)
      with new have "db = bs_db s" by simp
      with run replay Inr q c Inl s show ?thesis by (auto simp: create_booking_def coherent_def)
    next
      case (Inr p)
      with new have db: "q = Inr (b, False)" "ok db" "row db = (row (bs_db s))(b_uid b \<mapsto> persisted b)"
          "key_uid db = (if ?key = [] then key_uid (bs_db s) else (key_uid (bs_db s))(?key \<mapsto> b_uid b))"
        by (auto split: prod.splits)
      have t: "r = Inr (b, False)" "t = remember_key ?key (b_uid b) (put_booking b (s\<lparr>bs_db := db\<rparr>))"
        using run replay \<open>prepare_created pf (bs_slots s) rid req = Inr b\<close> q c db(1)
        by (simp_all add: create_booking_def)
      have "cached good ((bs_bookings s)(b_uid b \<mapsto> b)) (row db)" using cached_put [OF c(3) b] db(3) by simp
      then have "coherent t"
        using s db unfolding t coherent_def by (auto simp: remember_key_def put_booking_def)
      with t q db(1) \<open>prepare_created pf (bs_slots s) rid req = Inr b\<close> show ?thesis
        by (auto simp: remember_key_def put_booking_def)
    qed
  qed
  then show "coherent t \<and> bs_slots t = bs_slots s \<and> bs_effects t = bs_effects s"
    and "(r, bs_db t) = (case prepare_created pf (bs_slots s) rid req of
        Inl e \<Rightarrow> (Inl e, bs_db s)
      | Inr b \<Rightarrow> br_save_created repo b (cr_idempotency_key req) [] (bs_db s))"
    by blast+
qed

lemma create_agree:
  assumes agree: "agree s t" and maps: "op_maps_ok good (OpCreate rid req)"
    and run: "create_booking pf rid req s = (r, s')" "create_booking pf rid req t = (q, t')"
  shows "agree s' t' \<and> map_sum id (apfst persisted) r = map_sum id (apfst persisted) q"
proof -
  let ?key = "cr_idempotency_key req"
  have c: "coherent s" "coherent t" "bs_db s = bs_db t" "bs_slots s = bs_slots t" "bs_effects s = bs_effects t"
    using agree by (simp_all add: agree_def)
  show ?thesis
  proof (cases "if ?key = [] then None else key_uid (bs_db t) ?key")
    case None
    then have key: "?key = [] \<or> key_uid (bs_db t) ?key = None" by (auto split: if_splits)
    have "(r, bs_db s') = (q, bs_db t')"
      using create_coherent(2) [OF c(1) _ maps run(1)] create_coherent(2) [OF c(2) key maps run(2)] key
      unfolding c(3,4) by simp
    with create_coherent(1) [OF c(1) _ maps run(1)] create_coherent(1) [OF c(2) key maps run(2)] key c
    show ?thesis by (simp add: agree_def)
  next
    case (Some uid)
    obtain rs s1 where s1: "replay_created ?key s = (rs, s1)" by fastforce
    obtain rt t1 where t1: "replay_created ?key t = (rt, t1)" by fastforce
    obtain b where b: "rs = Inr (Some b)" "row (bs_db t) uid = Some (persisted b)"
      using replay_coherent(2) [OF c(1) s1] Some unfolding c(3) by auto
    obtain d where d: "rt = Inr (Some d)" "row (bs_db t) uid = Some (persisted d)"
      using replay_coherent(2) [OF c(2) t1] Some by auto
    have "r = Inr (b, True)" "s' = s1" "q = Inr (d, True)" "t' = t1"
      using run s1 t1 b d by (simp_all add: create_booking_def)
    with replay_coherent(1) [OF c(1) s1] replay_coherent(1) [OF c(2) t1] b d c show ?thesis
      by (simp add: agree_def)
  qed
qed

lemma call_agree:
  assumes agree: "agree s t" and maps: "op_maps_ok good op"
    and run: "call_booking pf op s = (r, s')" "call_booking pf op t = (q, t')"
  shows "agree s' t' \<and> persisted_outcome r = persisted_outcome q"
proof -
  note guarded = guarded_alike [OF relabel_alike, where P = "\<lambda>st. \<not> confirmable_status st"]
  show ?thesis
  proof (cases op)
    case (OpCreate rid req)
    with run maps create_agree [OF agree, of rid req pf] show ?thesis
      by (cases "create_booking pf rid req s"; cases "create_booking pf rid req t") auto
  next
    case (OpRead rid uid)
    with run find_agree [OF agree, of rid uid] show ?thesis
      by (cases "find_booking rid uid s"; cases "find_booking rid uid t") (auto simp: read_booking_def)
  next
    case (OpCancel rid uid req)
    obtain x s1 where x: "cancel_booking rid uid req s = (x, s1)" by fastforce
    obtain y t1 where y: "cancel_booking rid uid req t = (y, t1)" by fastforce
    from change_agree [OF agree relabel_alike x [unfolded cancel_is_change] y [unfolded cancel_is_change]] run x y OpCancel
    show ?thesis by auto
  next
    case (OpReschedule rid uid req)
    obtain x s1 where x: "reschedule_booking rid uid req s = (x, s1)" by fastforce
    obtain y t1 where y: "reschedule_booking rid uid req t = (y, t1)" by fastforce
    from change_agree [OF agree move_alike x [unfolded reschedule_is_change] y [unfolded reschedule_is_change]] run x y OpReschedule
    show ?thesis by auto
  next
    case (OpConfirm rid uid)
    obtain x s1 where x: "confirm_booking rid uid s = (x, s1)" by fastforce
    obtain y t1 where y: "confirm_booking rid uid t = (y, t1)" by fastforce
    from change_agree [OF agree guarded x [unfolded confirm_is_change] y [unfolded confirm_is_change]] run x y OpConfirm
    show ?thesis by auto
  next
    case (OpDecline rid uid req)
    obtain x s1 where x: "decline_booking rid uid req s = (x, s1)" by fastforce
    obtain y t1 where y: "decline_booking rid uid req t = (y, t1)" by fastforce
    from change_agree [OF agree guarded x [unfolded decline_is_change] y [unfolded decline_is_change]] run x y OpDecline
    show ?thesis by auto
  qed
qed

text \<open>Two stores that agree cannot be told apart by any calls.\<close>

lemma calls_agree:
  assumes "agree s t" and "\<forall>op \<in> set ops. op_maps_ok good op"
  shows "map persisted_outcome (fst (call_bookings pf ops s)) = map persisted_outcome (fst (call_bookings pf ops t)) \<and>
    agree (snd (call_bookings pf ops s)) (snd (call_bookings pf ops t))"
  using assms
proof (induction ops arbitrary: s t)
  case (Cons op ops)
  obtain r s1 where s1: "call_booking pf op s = (r, s1)" by fastforce
  obtain q t1 where t1: "call_booking pf op t = (q, t1)" by fastforce
  have "agree s1 t1 \<and> persisted_outcome r = persisted_outcome q"
    using call_agree [OF Cons.prems(1) _ s1 t1] Cons.prems(2) by simp
  with Cons.IH [of s1 t1] Cons.prems(2) s1 t1 show ?case by (simp add: split_beta)
qed simp

end

end
