(* ===== verification/BookingTables.thy ===== *)
theory BookingTables
  imports BookingCache
begin

text \<open>
  The Postgres repository of bookings keeps the contract of the booking store: what its statements
  leave in the tables, and the interpretation of the store's interface on it. From this, a restart of
  the server cannot be observed.
\<close>

section \<open>Decoded maps\<close>

text \<open>A map as \<open>encoding/json\<close> decodes it: distinct keys and values that decode to themselves.\<close>

definition clean_map :: "(string \<Rightarrow> bool) \<Rightarrow> json_map \<Rightarrow> bool" where
  "clean_map float m \<longleftrightarrow> distinct (map fst m) \<and> (\<forall>(k, v) \<in> set m. any_value float v = Some v)"

lemma update_new: "k \<notin> fst ` set m \<Longrightarrow> AList.update k v m = m @ [(k, v)]"
  by (induction m) auto

lemma any_members_clean:
  assumes "distinct (map fst (acc @ m))" and "\<forall>(k, v) \<in> set m. any_value float v = Some v"
  shows "any_members float m acc = Some (acc @ m)"
  using assms
proof (induction m arbitrary: acc)
  case (Cons p m)
  obtain k v where p: "p = (k, v)" by fastforce
  with Cons.prems have "k \<notin> fst ` set acc" by auto
  then have new: "gm_put k v acc = acc @ [(k, v)]" by (rule update_new)
  with Cons.prems p have "any_members float m (acc @ [(k, v)]) = Some ((acc @ [(k, v)]) @ m)"
    by (intro Cons.IH) auto
  with Cons.prems p new show ?case by simp
qed simp

lemma decode_clean: "clean_map float m \<Longrightarrow> any_members float m [] = Some m"
  using any_members_clean [of "[]" m float] by (simp add: clean_map_def)

lemma decode_object_clean: "clean_map float m \<Longrightarrow> decode_object float (JObj m) label = Inr (Some m)"
  by (simp add: decode_object_def decode_clean)

lemma set_update: "set (AList.update k v m) \<subseteq> insert (k, v) (set m)"
  by (induction m) auto

lemma clean_put: "clean_map float m \<Longrightarrow> any_value float v = Some v \<Longrightarrow> clean_map float (gm_put k v m)"
  using set_update [of k v m] unfolding clean_map_def by fastforce

text \<open>What is decoded decodes to itself.\<close>

lemma decoded_clean:
  "any_value float v = Some w \<Longrightarrow> any_value float w = Some w"
  "any_members float ms acc = Some r \<Longrightarrow> clean_map float acc \<Longrightarrow> clean_map float r"
  "any_items float vs = Some ws \<Longrightarrow> any_items float ws = Some ws"
proof (induction float v and float ms acc and float vs arbitrary: w and r and ws
    rule: any_value_any_members_any_items.induct)
  case (1 float ms)
  then obtain r where r: "any_members float ms [] = Some r" "w = JObj r" by auto
  with 1 have "clean_map float r" by (simp add: clean_map_def)
  with r show ?case by (simp add: decode_clean)
next
  case (6 float k v ms acc)
  then show ?case by (auto simp: clean_put split: option.splits)
qed (auto split: option.splits if_splits)

section \<open>Consistent tables\<close>

definition clean_row :: "(string \<Rightarrow> bool) \<Rightarrow> booking_row \<Rightarrow> bool" where
  "clean_row float w \<longleftrightarrow> bw_uid w \<noteq> [] \<and> (\<exists>m. bw_responses w = JObj m \<and> clean_map float m) \<and>
     (\<exists>m. bw_metadata w = JObj m \<and> clean_map float m)"

definition clean_payload :: "(string \<Rightarrow> bool) \<Rightarrow> string \<Rightarrow> json \<Rightarrow> bool" where
  "clean_payload float uid raw \<longleftrightarrow> (\<exists>b. decode_booking float raw = Inr b \<and> filled (clean_map float) b \<and>
     b_uid b = uid \<and> persisted b = b)"

text \<open>
  Primary keys are unique, rows decode, a payload without a row decodes to a booking that has its
  columns, and an idempotency key refers to a booking.
\<close>

definition rows_ok :: "(string \<Rightarrow> bool) \<Rightarrow> 'z booking_db_scheme \<Rightarrow> bool" where
  "rows_ok float db \<longleftrightarrow> (\<forall>w \<in> set (bd_bookings db). clean_row float w) \<and>
     (\<forall>uid raw. gm_get (bd_fixtures db) uid = Some raw \<longrightarrow>
        uid \<in> bw_uid ` set (bd_bookings db) \<or> clean_payload float uid raw) \<and>
     (\<forall>key uid. gm_get (bd_keys db) key = Some uid \<longrightarrow> uid \<noteq> [] \<and>
        (uid \<in> bw_uid ` set (bd_bookings db) \<or> gm_get (bd_fixtures db) uid \<noteq> None))"

definition pg_row :: "(string \<Rightarrow> bool) \<Rightarrow> 'z booking_db_scheme \<Rightarrow> string \<Rightarrow> booking option" where
  "pg_row float db uid = (case pg_read_by_uid float uid db of Inl e \<Rightarrow> None | Inr b \<Rightarrow> b)"

abbreviation row_with :: "string \<Rightarrow> booking_row list \<Rightarrow> booking_row option" where
  "row_with uid ws \<equiv> find (\<lambda>w. bw_uid w = uid) ws"

lemma row_with_None: "row_with uid ws = None \<longleftrightarrow> uid \<notin> bw_uid ` set ws"
  by (auto simp: find_None_iff)

lemma read_row:
  assumes "rows_ok float db" and "row_with uid (bd_bookings db) = Some w"
  obtains r m where "bw_responses w = JObj r" "clean_map float r" "bw_metadata w = JObj m" "clean_map float m"
    "bw_uid w = uid" "uid \<noteq> []"
    "pg_read_by_uid float uid db =
       Inr (Some (row_booking w (Some r) (Some m) (attendees_of uid (bd_attendees db))))"
proof -
  have "w \<in> set (bd_bookings db)" "bw_uid w = uid" using find_Some_in [OF assms(2)] by auto
  with assms(1) obtain r m where "bw_responses w = JObj r" "clean_map float r" "bw_metadata w = JObj m"
      "clean_map float m" "bw_uid w \<noteq> []"
    by (auto simp: rows_ok_def clean_row_def)
  with assms(2) \<open>bw_uid w = uid\<close> show thesis
    by (intro that [of r m]) (simp_all add: pg_read_by_uid_def read_structured_booking_def decode_object_clean)
qed

lemma read_payload:
  assumes "uid \<notin> bw_uid ` set (bd_bookings db)"
  shows "pg_read_by_uid float uid db = read_fixture_booking float uid db"
  using assms row_with_None [of uid "bd_bookings db"] by (simp add: pg_read_by_uid_def read_structured_booking_def)

lemma read_ok:
  assumes "rows_ok float db"
  shows "pg_read_by_uid float uid db = Inr (pg_row float db uid)"
    and "pg_row float db uid = Some b \<Longrightarrow> filled (clean_map float) b \<and> b_uid b = uid \<and> persisted b = b"
    and "uid \<in> bw_uid ` set (bd_bookings db) \<or> gm_get (bd_fixtures db) uid \<noteq> None \<Longrightarrow> pg_row float db uid \<noteq> None"
proof -
  have "pg_read_by_uid float uid db = Inr (pg_row float db uid) \<and>
     (\<forall>b. pg_row float db uid = Some b \<longrightarrow> filled (clean_map float) b \<and> b_uid b = uid \<and> persisted b = b) \<and>
     (uid \<in> bw_uid ` set (bd_bookings db) \<or> gm_get (bd_fixtures db) uid \<noteq> None \<longrightarrow> pg_row float db uid \<noteq> None)"
  proof (cases "row_with uid (bd_bookings db)")
    case (Some w)
    from read_row [OF assms this] obtain r m where "clean_map float r" "clean_map float m" "bw_uid w = uid" "uid \<noteq> []"
      "pg_read_by_uid float uid db = Inr (Some (row_booking w (Some r) (Some m) (attendees_of uid (bd_attendees db))))" .
    then show ?thesis
      by (simp add: pg_row_def filled_def persisted_def row_booking_def object_or_empty_def)
  next
    case None
    then have new: "uid \<notin> bw_uid ` set (bd_bookings db)" by (simp add: row_with_None)
    show ?thesis
    proof (cases "gm_get (bd_fixtures db) uid")
      case None
      with new show ?thesis by (simp add: pg_row_def read_payload read_fixture_booking_def)
    next
      case (Some raw)
      with assms new have "clean_payload float uid raw" unfolding rows_ok_def by blast
      with new Some show ?thesis
        by (auto simp: pg_row_def read_payload read_fixture_booking_def clean_payload_def)
    qed
  qed
  then show "pg_read_by_uid float uid db = Inr (pg_row float db uid)"
    and "pg_row float db uid = Some b \<Longrightarrow> filled (clean_map float) b \<and> b_uid b = uid \<and> persisted b = b"
    and "uid \<in> bw_uid ` set (bd_bookings db) \<or> gm_get (bd_fixtures db) uid \<noteq> None \<Longrightarrow> pg_row float db uid \<noteq> None"
    by blast+
qed

section \<open>Saving one booking\<close>

lemma row_with_upsert:
  "row_with uid (upsert_booking_row w ws) = (if uid = bw_uid w then Some w else row_with uid ws)"
  by (induction ws) auto

lemma set_upsert_row: "set (upsert_booking_row w ws) \<subseteq> insert w (set ws)" "bw_uid ` set (upsert_booking_row w ws) = insert (bw_uid w) (bw_uid ` set ws)"
  by (induction ws) auto

lemma sort_by_id: "sorted_wrt le xs \<Longrightarrow> sort_by le xs = xs"
proof (induction xs)
  case (Cons x xs)
  then show ?case by (cases xs) auto
qed simp

lemma attendee_rows_sorted:
  "sorted_wrt (\<lambda>l r. aw_position l \<le> aw_position r) (attendee_rows uid i as)"
  "\<forall>w \<in> set (attendee_rows uid i as). i \<le> aw_position w \<and> aw_booking_uid w = uid"
  by (induction as arbitrary: i) force+

lemma attendees_of_saved:
  "attendees_of uid (filter (\<lambda>w. aw_booking_uid w \<noteq> v) rows @ attendee_rows v 0 as) =
     (if uid = v then as else attendees_of uid rows)"
proof (cases "uid = v")
  case True
  have "filter (\<lambda>w. aw_booking_uid w = v) (filter (\<lambda>w. aw_booking_uid w \<noteq> v) rows @ attendee_rows v 0 as) =
      attendee_rows v 0 as"
    using attendee_rows_sorted(2) [of v 0 as] by (simp add: filter_id_conv)
  moreover have "map aw_attendee (attendee_rows v i as) = as" for i by (induction as arbitrary: i) auto
  ultimately show ?thesis using True by (simp add: attendees_of_def sort_by_id attendee_rows_sorted(1))
next
  case False
  have "filter (\<lambda>w. aw_booking_uid w = uid) (attendee_rows v 0 as) = []"
    using attendee_rows_sorted(2) [of v 0 as] False by (auto simp: filter_empty_conv)
  moreover have "filter (\<lambda>w. aw_booking_uid w = uid) (filter (\<lambda>w. aw_booking_uid w \<noteq> v) rows) =
      filter (\<lambda>w. aw_booking_uid w = uid) rows"
    using False by (auto intro: filter_cong)
  ultimately show ?thesis using False by (simp add: attendees_of_def)
qed

lemma saved_fields:
  "bd_bookings (save_booking_row b db) = upsert_booking_row (booking_row_of b) (bd_bookings db)"
  "bd_attendees (save_booking_row b db) = filter (\<lambda>w. aw_booking_uid w \<noteq> b_uid b) (bd_attendees db) @
     attendee_rows (b_uid b) 0 (case b_attendees b of None \<Rightarrow> [] | Some as \<Rightarrow> as)"
  "bd_fixtures (save_booking_row b db) = gm_put (b_uid b) (booking_json b) (bd_fixtures db)"
  "bd_keys (save_booking_row b db) = bd_keys db"
  "bw_uid (booking_row_of b) = b_uid b"
  by (simp_all add: save_booking_row_def save_fixture_booking_def save_structured_booking_def booking_row_of_def Let_def)

lemma booking_row_clean: "filled (clean_map float) b \<Longrightarrow> clean_row float (booking_row_of b)"
  by (auto simp: clean_row_def filled_def booking_row_of_def object_or_empty_def)

lemma save_row_ok:
  assumes ok: "rows_ok float db" and b: "filled (clean_map float) b"
  shows "rows_ok float (save_booking_row b db)"
proof -
  have uids: "bw_uid ` set (bd_bookings (save_booking_row b db)) = insert (b_uid b) (bw_uid ` set (bd_bookings db))"
    by (simp add: saved_fields set_upsert_row(2))
  have "\<forall>w \<in> set (bd_bookings (save_booking_row b db)). clean_row float w"
    using ok booking_row_clean [OF b] set_upsert_row(1) by (fastforce simp: rows_ok_def saved_fields)
  then show ?thesis using ok uids by (auto simp: rows_ok_def saved_fields)
qed

lemma save_row_read:
  assumes ok: "rows_ok float db" and b: "filled (clean_map float) b"
  shows "pg_row float (save_booking_row b db) = (pg_row float db)(b_uid b \<mapsto> persisted b)"
proof
  fix uid
  let ?db = "save_booking_row b db"
  note ok' = save_row_ok [OF ok b]
  show "pg_row float ?db uid = ((pg_row float db)(b_uid b \<mapsto> persisted b)) uid"
  proof (cases "uid = b_uid b")
    case True
    have row: "row_with uid (bd_bookings ?db) = Some (booking_row_of b)"
      using True by (simp add: saved_fields row_with_upsert)
    have "attendees_of uid (bd_attendees ?db) = (case b_attendees b of None \<Rightarrow> [] | Some as \<Rightarrow> as)"
      using True by (simp add: saved_fields attendees_of_saved)
    moreover obtain r m where "bw_responses (booking_row_of b) = JObj r" "bw_metadata (booking_row_of b) = JObj m"
        "pg_read_by_uid float uid ?db =
           Inr (Some (row_booking (booking_row_of b) (Some r) (Some m) (attendees_of uid (bd_attendees ?db))))"
      using read_row [OF ok' row] by metis
    ultimately show ?thesis using True
      by (simp add: pg_row_def booking_row_of_def row_booking_def persisted_def)
  next
    case False
    have same: "row_with uid (bd_bookings ?db) = row_with uid (bd_bookings db)"
        "attendees_of uid (bd_attendees ?db) = attendees_of uid (bd_attendees db)"
        "gm_get (bd_fixtures ?db) uid = gm_get (bd_fixtures db) uid"
      using False by (simp_all add: saved_fields row_with_upsert attendees_of_saved)
    have "pg_read_by_uid float uid ?db = pg_read_by_uid float uid db"
      unfolding pg_read_by_uid_def read_structured_booking_def read_fixture_booking_def same ..
    with False show ?thesis by (simp add: pg_row_def)
  qed
qed

section \<open>The encoded booking\<close>

text \<open>What a 64-bit integer of Go holds.\<close>

definition int64 :: "int \<Rightarrow> bool" where
  "int64 n \<longleftrightarrow> - (2 ^ 63) \<le> n \<and> n < 2 ^ 63"

lemma attendee_roundtrip:
  assumes "int64 (att_id a)"
  shows "decode_struct False stored_attendee_fields (attendee_json a) zero_attendee = Some a"
  using assms by (cases "att_id a = 0")
    (simp_all add: int64_def attendee_json_def stored_attendee_fields_def string_field_def int_field_def zero_attendee_def)

lemma attendees_roundtrip:
  assumes "\<forall>a \<in> set as. int64 (att_id a)"
  shows "decode_items (\<lambda>w. decode_struct False stored_attendee_fields w zero_attendee) (map attendee_json as) = Some as"
  using assms by (induction as) (simp_all add: attendee_roundtrip)

lemma decode_map_clean:
  "clean_map float m \<Longrightarrow> decode_map float (json_object (Some m)) None = Some (Some m)"
  "decode_map float (json_object None) old = Some None"
  by (simp_all add: json_object_def decode_clean)

lemma payload_round_trip:
  assumes ints: "int64 (b_id b)" "int64 (b_event_type_id b)" "\<forall>as. b_attendees b = Some as \<longrightarrow> (\<forall>a \<in> set as. int64 (att_id a))"
    and maps: "\<forall>m. b_responses b = Some m \<or> b_metadata b = Some m \<longrightarrow> clean_map float m"
  shows "decode_booking float (booking_json b) = Inr (b\<lparr>b_selected_calendar := [], b_destination_calendar := [],
    b_external_event := [], b_owner := 0, b_hosts := None\<rparr>)"
proof -
  have as: "decode_slice (\<lambda>w. decode_struct False stored_attendee_fields w zero_attendee)
      (json_list attendee_json (b_attendees b)) = Some (b_attendees b)"
    using ints(3) attendees_roundtrip by (cases "b_attendees b") (simp_all add: json_list_def)
  have ms: "decode_map float (json_object (b_responses b)) None = Some (b_responses b)"
      "decode_map float (json_object (b_metadata b)) None = Some (b_metadata b)"
    using maps by (cases "b_responses b"; cases "b_metadata b"; simp add: decode_map_clean)+
  show ?thesis
    using ints(1,2) as ms by (simp add: decode_booking_def booking_json_def booking_fields_def string_field_def int_field_def
        int64_def zero_booking_def)
qed

definition booking_ints :: "booking \<Rightarrow> bool" where
  "booking_ints b \<longleftrightarrow> int64 (b_id b) \<and> int64 (b_event_type_id b) \<and>
     (\<forall>as. b_attendees b = Some as \<longrightarrow> (\<forall>a \<in> set as. int64 (att_id a)))"

text \<open>
  C12: a saved booking reads back. Reading the uid from the tables into which the booking was saved gives
  the booking with all its columns, whatever was stored under the uid before, and no other booking is
  changed; and the JSON payload stored beside the row decodes to the booking without the fields that the
  JSON form leaves out (the calendar references, the owner and the hosts).
\<close>
theorem saved_booking_reads_back:
  assumes "rows_ok float db" and "filled (clean_map float) b" and "booking_ints b"
  shows "pg_read_by_uid float (b_uid b) (save_booking_row b db) = Inr (Some (persisted b)) \<and>
    (\<forall>uid. uid \<noteq> b_uid b \<longrightarrow>
       pg_read_by_uid float uid (save_booking_row b db) = pg_read_by_uid float uid db) \<and>
    gm_get (bd_fixtures (save_booking_row b db)) (b_uid b) = Some (booking_json b) \<and>
    decode_booking float (booking_json b) = Inr (b\<lparr>b_selected_calendar := [], b_destination_calendar := [],
      b_external_event := [], b_owner := 0, b_hosts := None\<rparr>)"
proof -
  note ok' = save_row_ok [OF assms(1,2)]
  have "decode_booking float (booking_json b) = Inr (b\<lparr>b_selected_calendar := [], b_destination_calendar := [],
      b_external_event := [], b_owner := 0, b_hosts := None\<rparr>)"
    using assms(2,3) by (intro payload_round_trip) (auto simp: booking_ints_def filled_def)
  then show ?thesis
    by (simp add: read_ok(1) [OF ok'] read_ok(1) [OF assms(1)] save_row_read [OF assms(1,2)] saved_fields)
qed

section \<open>The interpretation\<close>

lemma save_effects_same:
  assumes "save_effects es db = Inr db'"
  shows "bd_bookings db' = bd_bookings db \<and> bd_attendees db' = bd_attendees db \<and> bd_fixtures db' = bd_fixtures db \<and>
    bd_keys db' = bd_keys db"
  using assms
proof (induction es arbitrary: db)
  case (Cons e es)
  from Cons.IH [of "insert_effect e db"] Cons.prems show ?case
    by (auto simp: insert_effect_def split: if_splits)
qed simp

lemma same_bookings:
  assumes same: "bd_bookings db' = bd_bookings db" "bd_attendees db' = bd_attendees db" "bd_fixtures db' = bd_fixtures db"
  shows "pg_row float db' = pg_row float db"
    and "bd_keys db' = bd_keys db \<Longrightarrow> rows_ok float db' \<longleftrightarrow> rows_ok float db"
proof -
  have "pg_read_by_uid float uid db' = pg_read_by_uid float uid db" for uid
    unfolding pg_read_by_uid_def read_structured_booking_def read_fixture_booking_def same ..
  then show "pg_row float db' = pg_row float db" by (simp add: fun_eq_iff pg_row_def)
  show "bd_keys db' = bd_keys db \<Longrightarrow> rows_ok float db' \<longleftrightarrow> rows_ok float db" unfolding rows_ok_def same by simp
qed

lemma save_rows:
  assumes "rows_ok float db" and "\<forall>b \<in> set bs. filled (clean_map float) b"
  shows "rows_ok float (fold save_booking_row bs db)"
    and "pg_row float (fold save_booking_row bs db) = fold (\<lambda>b m. m(b_uid b \<mapsto> persisted b)) bs (pg_row float db)"
    and "bd_keys (fold save_booking_row bs db) = bd_keys db"
  using assms by (induction bs arbitrary: db) (simp_all add: save_row_ok save_row_read saved_fields)

lemma save_row_owner: "save_booking_row (b\<lparr>b_owner := i, b_hosts := hs\<rparr>) db = save_booking_row b db"
  by (simp add: save_booking_row_def save_fixture_booking_def save_structured_booking_def booking_row_of_def
      booking_json_def)

lemma fold_save_columns:
  assumes "map persisted bs = map persisted cs" "\<forall>b \<in> set bs. filled ok b" "\<forall>b \<in> set cs. filled ok b"
  shows "fold save_booking_row bs db = fold save_booking_row cs db"
  using assms
proof (induction bs arbitrary: cs db)
  case (Cons b bs)
  then obtain c ds where cs: "cs = c # ds" "persisted b = persisted c" "map persisted bs = map persisted ds" by auto
  have "c = b\<lparr>b_owner := b_owner c, b_hosts := b_hosts c\<rparr>"
    using Cons.prems cs by (intro same_persisted_owner [of ok]) simp_all
  then have "save_booking_row c db = save_booking_row b db" using save_row_owner by metis
  with Cons.IH [OF cs(3)] Cons.prems show ?case by (simp add: cs(1))
qed simp

lemma any_text_clean [simp]: "clean_map float []" "clean_map float [(k, JStr s)]"
  "k \<noteq> l \<Longrightarrow> clean_map float [(k, JStr s), (l, JStr t)]"
  by (simp_all add: clean_map_def)

lemma pg_saved:
  assumes "rows_ok float db" and "\<forall>b \<in> set bs. filled (clean_map float) b" and "pg_save effects bs db = (r, db')"
  shows "if r = None then rows_ok float db' \<and> gm_get (bd_keys db') = gm_get (bd_keys db) \<and>
      pg_row float db' = fold (\<lambda>b m. m(b_uid b \<mapsto> persisted b)) bs (pg_row float db)
    else db' = db"
proof (cases "save_effects effects (fold save_booking_row bs db)")
  case (Inr saved)
  with assms(3) have r: "r = None" "db' = saved" by (simp_all add: pg_save_def)
  have same: "bd_bookings saved = bd_bookings (fold save_booking_row bs db)"
      "bd_attendees saved = bd_attendees (fold save_booking_row bs db)"
      "bd_fixtures saved = bd_fixtures (fold save_booking_row bs db)" "bd_keys saved = bd_keys (fold save_booking_row bs db)"
    using save_effects_same [OF Inr] by simp_all
  from save_rows [OF assms(1,2)] same_bookings(1) [OF same(1-3), of float] same_bookings(2) [OF same(1-4), of float] same(4) r
  show ?thesis by simp
qed (use assms(3) in \<open>auto simp: pg_save_def\<close>)

lemma pg_created:
  assumes ok: "rows_ok float db" and b: "filled (clean_map float) b" and key: "key = [] \<or> gm_get (bd_keys db) key = None"
    and run: "pg_save_created float b key effects db = (q, db')"
  shows "case q of Inl e \<Rightarrow> db' = db
    | Inr (c, duplicate) \<Rightarrow> c = b \<and> \<not> duplicate \<and> rows_ok float db' \<and>
        pg_row float db' = (pg_row float db)(b_uid b \<mapsto> persisted b) \<and>
        gm_get (bd_keys db') = (if key = [] then gm_get (bd_keys db) else (gm_get (bd_keys db))(key \<mapsto> b_uid b))"
proof (cases "save_effects effects (save_booking_row b db)")
  case (Inl e)
  with run key show ?thesis by (auto simp: pg_save_created_def)
next
  case (Inr saved)
  let ?db = "if key = [] then saved else saved\<lparr>bd_keys := gm_put key (b_uid b) (bd_keys saved)\<rparr>"
  have q: "q = Inr (b, False)" "db' = ?db" using run key Inr by (cases "key = []"; simp add: pg_save_created_def)+
  have same: "bd_bookings ?db = bd_bookings (save_booking_row b db)" "bd_attendees ?db = bd_attendees (save_booking_row b db)"
      "bd_fixtures ?db = bd_fixtures (save_booking_row b db)" "bd_keys saved = bd_keys db"
    using save_effects_same [OF Inr] by (simp_all add: saved_fields)
  have rows: "pg_row float ?db = (pg_row float db)(b_uid b \<mapsto> persisted b)"
    using same_bookings(1) [OF same(1-3)] save_row_read [OF ok b] by simp
  have "rows_ok float ?db"
    using save_row_ok [OF ok b] same b
    by (auto simp: rows_ok_def saved_fields filled_def set_upsert_row(2))
  with rows same(4) q show ?thesis by (auto simp: fun_eq_iff)
qed

interpretation pg: booking_backend "pg_booking_repository float" "rows_ok float" "pg_row float"
    "\<lambda>db. gm_get (bd_keys db)" "clean_map float" for float
proof (unfold_locales, goal_cases)
  case (1 db uid)
  then show ?case by (simp add: pg_booking_repository_def read_ok(1))
next
  case (2 db key)
  then show ?case by (simp add: pg_booking_repository_def pg_read_by_key_def read_ok(1) split: option.split)
next
  case (3 db uid b)
  then show ?case by (rule read_ok(2))
next
  case (4 db key uid)
  then have "uid \<in> bw_uid ` set (bd_bookings db) \<or> gm_get (bd_fixtures db) uid \<noteq> None"
    unfolding rows_ok_def by blast
  with 4(1) show ?case by (rule read_ok(3))
next
  case (5 db bs effects r db')
  then show ?case using pg_saved [of float db bs effects r db'] by (simp add: pg_booking_repository_def)
next
  case (6 bs cs effects db)
  then have "fold save_booking_row bs db = fold save_booking_row cs db" by (rule fold_save_columns)
  then show ?case by (simp add: pg_booking_repository_def pg_save_def)
next
  case (7 db b key effects q db')
  then show ?case using pg_created [of float db b key effects q db'] by (simp add: pg_booking_repository_def)
qed simp_all

section \<open>Runs, and the restart of a server\<close>

inductive pg_reach :: "(string \<Rightarrow> bool) \<Rightarrow> platform \<Rightarrow> 'z booking_db_scheme booking_store \<Rightarrow> bool" for float pf where
  start: "rows_ok float db \<Longrightarrow>
    pg_reach float pf (new_booking_store pf (Some (pg_booking_repository float)) slot_port effect_port db)"
| call: "pg_reach float pf s \<Longrightarrow> op_maps_ok (clean_map float) op \<Longrightarrow> pg_reach float pf (snd (call_booking pf op s))"
| tick: "pg_reach float pf s \<Longrightarrow> pg_reach float pf (s\<lparr>bs_db := (bs_db s)\<lparr>bd_now := now\<rparr>\<rparr>)"

lemma pg_reach_coherent: "pg_reach float pf s \<Longrightarrow> pg.coherent float s"
proof (induction rule: pg_reach.induct)
  case (start db slot_port effect_port)
  then show ?case by (rule pg.coherent_empty)
next
  case (call s op)
  then have "pg.agree float s s" by (simp add: pg.agree_def)
  from pg.call_agree [OF this call(2)] show ?case
    by (metis pg.agree_def prod.collapse)
next
  case (tick s now)
  then show ?case using same_bookings [of "(bs_db s)\<lparr>bd_now := now\<rparr>" "bs_db s" float] by (simp add: pg.coherent_def)
qed

text \<open>A new process over the same database, with the same ports.\<close>

definition restarted :: "'r booking_store \<Rightarrow> 'r booking_store" where
  "restarted s = s\<lparr>bs_bookings := Map.empty, bs_idempotency := Map.empty\<rparr>"

text \<open>
  C2: over the Postgres repository a restart of the server cannot be observed. In any store reached by
  any operations from consistent tables, every further sequence of operations has the outcomes, errors
  included, that it has in a new store over the same database, whose cache is empty; and it leaves the
  same database. The outcomes are compared without the owner and the hosts of a booking, which have no
  columns. (The maps of a create request are maps as \<open>encoding/json\<close> decodes them.)
\<close>
theorem restart_unobservable:
  assumes "pg_reach float pf s" and "\<forall>op \<in> set ops. op_maps_ok (clean_map float) op"
  shows "map persisted_outcome (fst (call_bookings pf ops (restarted s))) =
      map persisted_outcome (fst (call_bookings pf ops s)) \<and>
    bs_db (snd (call_bookings pf ops (restarted s))) = bs_db (snd (call_bookings pf ops s))"
proof -
  have s: "pg.coherent float s" by (rule pg_reach_coherent [OF assms(1)])
  then have "pg.coherent float (restarted s)" by (simp add: pg.coherent_def restarted_def)
  with s have "pg.agree float (restarted s) s" by (simp add: pg.agree_def restarted_def)
  from pg.calls_agree [OF this assms(2)] show ?thesis by (simp add: pg.agree_def)
qed

end
