(* ===== verification/BookingDemo.thy ===== *)
theory BookingDemo
  imports BookingTables
begin

text \<open>Concrete runs of the booking store over its Postgres repository.\<close>

definition empty_tables :: booking_db where
  "empty_tables = \<lparr>bd_now = 0, bd_bookings = [], bd_attendees = [], bd_fixtures = [], bd_keys = [],
     bd_effects = [], bd_next_effect = 1\<rparr>"

definition all_floats :: "string \<Rightarrow> bool" where
  "all_floats = (\<lambda>_. True)"

lemma empty_tables_ok: "rows_ok all_floats empty_tables"
  by (simp add: rows_ok_def empty_tables_def)

lemma demo_booking_stored: "filled (clean_map all_floats) demo_booking" "booking_ints demo_booking"
  by (simp_all add: demo_booking_def filled_def booking_ints_def int64_def zero_booking_def fixture_attendee_def
      override_text_def fixture_is_completed completed_booking_def fixture_base_def merge_booking_def
      override_int_def)

lemma saved_booking_reads_back_witness:
  "rows_ok all_floats empty_tables \<and> filled (clean_map all_floats) demo_booking \<and> booking_ints demo_booking \<and>
   pg_read_by_uid all_floats (b_uid demo_booking) (save_booking_row demo_booking empty_tables) =
     Inr (Some (persisted demo_booking)) \<and>
   pg_read_by_uid all_floats ''other'' (save_booking_row demo_booking empty_tables) = Inr None"
  using saved_booking_reads_back [OF empty_tables_ok demo_booking_stored] empty_tables_ok demo_booking_stored
  by (auto simp: demo_booking_def override_text_def zero_booking_def pg_read_by_uid_def read_structured_booking_def
      read_fixture_booking_def empty_tables_def)

definition demo_over_tables :: "booking_db booking_store" where
  "demo_over_tables = snd (call_booking demo_platform (OpCreate ''req-2'' demo_request)
     (new_booking_store demo_platform (Some (pg_booking_repository all_floats)) None None empty_tables))"

definition demo_calls :: "booking_op list" where
  "demo_calls = [OpCreate ''req-3'' demo_request, OpRead ''req-4'' primary_fixture_uid,
     OpConfirm ''req-5'' pending_confirm_fixture_uid]"

lemma restart_unobservable_witness:
  "pg_reach all_floats demo_platform demo_over_tables \<and>
   map persisted_outcome (fst (call_bookings demo_platform demo_calls (restarted demo_over_tables))) =
     map persisted_outcome (fst (call_bookings demo_platform demo_calls demo_over_tables)) \<and>
   bs_db (snd (call_bookings demo_platform demo_calls (restarted demo_over_tables))) =
     bs_db (snd (call_bookings demo_platform demo_calls demo_over_tables))"
proof -
  have reach: "pg_reach all_floats demo_platform demo_over_tables"
    unfolding demo_over_tables_def
    by (intro pg_reach.intros empty_tables_ok) (simp add: demo_request_def object_or_empty_def)
  moreover have "\<forall>op \<in> set demo_calls. op_maps_ok (clean_map all_floats) op"
    by (simp add: demo_calls_def demo_request_def object_or_empty_def)
  ultimately show ?thesis using restart_unobservable [OF reach] by blast
qed

end
