(* ===== verification/DispatcherDemo.thy ===== *)
theory DispatcherDemo
  imports DispatcherEnd Workers BookingDemo
begin

text \<open>Concrete runs of the dispatcher: a subscriber that never answers, and one that does.\<close>

definition demo_effect :: queued_effect where
  "demo_effect = \<lparr>qe_id = 7, qe_name = side_effect_string SideEffectWebhookBookingCancelled, qe_booking_uid = ''b'',
     qe_request_id = ''r'', qe_payload = None, qe_attempts = 1, qe_status = ''processing''\<rparr>"

definition demo_effect_row :: side_effect_row where
  "demo_effect_row = \<lparr>ew_id = 7, ew_booking_uid = ''b'', ew_name = side_effect_string SideEffectWebhookBookingCancelled,
     ew_request_id = ''r'', ew_payload = JObj [], ew_status = ''processing'', ew_attempts = 1, ew_locked_at = Some 0,
     ew_delivered_at = None, ew_last_error = None, ew_next_attempt_at = 0, ew_created_at = 0\<rparr>"

definition demo_stored :: booking where
  "demo_stored = zero_booking\<lparr>b_uid := ''b'', b_attendees := Some [], b_responses := Some [], b_metadata := Some []\<rparr>"

text \<open>The world is the list of the calls.\<close>

definition demo_tables :: "webhook_attempt list dispatch_db" where
  "demo_tables = \<lparr>bd_now = 5, bd_bookings = [booking_row_of demo_stored], bd_attendees = [], bd_fixtures = [],
     bd_keys = [], bd_effects = [demo_effect_row], bd_next_effect = 8, dd_log = [], dd_deliveries = (\<lambda>_. []),
     dd_webhook_attempts = [], dd_target_attempts = (\<lambda>_. []), dd_subscriptions = [], dd_world = []\<rparr>"

definition demo_subscription :: webhook_subscription where
  "demo_subscription = \<lparr>ws_id = 0, ws_url = ''u'', ws_trigger = ''BOOKING_CANCELLED'', ws_signing_key = ''k'', ws_active = True\<rparr>"

definition answering :: "int \<Rightarrow> (webhook_attempt, webhook_attempt list) transport" where
  "answering status a sent = (\<lparr>do_status = status,
     do_failure = (if status = 200 then None else Some (StatusFailure status))\<rparr>, sent @ [a])"

definition demo_dispatcher :: "int \<Rightarrow> int \<Rightarrow> webhook_attempt list dispatcher" where
  "demo_dispatcher status n = new_dispatcher (Some (pg_read_by_uid all_floats)) (Some read_subscriptions)
     (Some (resolve_fixture_secret [''k'' \<mapsto> ''s''])) (Some (answering status)) (Some n) None None [] None None []
     (\<lambda>body secret. secret) (\<lambda>body. body)"

definition demo_subscribed :: "webhook_attempt list dispatch_db" where
  "demo_subscribed = snd (save_subscription demo_subscription demo_tables)"

lemma demo_fresh: "fresh_tables demo_tables"
  by (simp add: fresh_tables_def demo_tables_def)

lemma demo_subscribe: "serve_step d demo_tables demo_subscribed" "(dispatch_step d)\<^sup>*\<^sup>* demo_tables demo_subscribed"
  unfolding demo_subscribed_def by (auto intro: serve_step.intros dispatch_step.intros)

text \<open>The only try of an attempt fails.\<close>

definition demo_dead :: "webhook_attempt list dispatch_db" where
  "demo_dead = snd (dispatch_effect (demo_dispatcher 500 1) demo_effect demo_subscribed)"

definition demo_dead_row :: webhook_attempt_row where
  "demo_dead_row = hd (dd_webhook_attempts demo_dead)"

lemma demo_dead_reached: "(dispatch_step (demo_dispatcher 500 1))\<^sup>*\<^sup>* demo_tables demo_dead"
  unfolding demo_dead_def by (rule rtranclp_trans [OF demo_subscribe(2) dispatch_effect_steps])

lemma demo_dead_rows: "demo_dead_row \<in> set (dd_webhook_attempts demo_dead)" "wa_dead_at demo_dead_row = Some 5"
proof -
  have "map wa_dead_at (dd_webhook_attempts demo_dead) = [Some 5]"
    unfolding demo_dead_def by code_simp
  then show "demo_dead_row \<in> set (dd_webhook_attempts demo_dead)" "wa_dead_at demo_dead_row = Some 5"
    unfolding demo_dead_row_def by (cases "dd_webhook_attempts demo_dead"; simp)+
qed

lemma webhook_attempts_bounded_witness:
  "fresh_tables demo_tables \<and> (dispatch_step (demo_dispatcher 500 1))\<^sup>*\<^sup>* demo_tables demo_dead \<and>
   demo_dead_row \<in> set (dd_webhook_attempts demo_dead) \<and> wa_dead_at demo_dead_row = Some 5 \<and>
   wa_count demo_dead_row = attempt_limit (demo_dispatcher 500 1) \<and> wa_delivered_at demo_dead_row = None"
  using webhook_attempts_bounded [OF demo_fresh demo_dead_reached demo_dead_rows(1)] demo_fresh demo_dead_reached
    demo_dead_rows by simp

text \<open>The effect is dispatched again, after the subscription was saved again.\<close>

definition demo_later :: "webhook_attempt list dispatch_db" where
  "demo_later = snd (dispatch_effect (demo_dispatcher 500 1) demo_effect (snd (save_subscription demo_subscription demo_dead)))"

text \<open>A preparation that reads the subscriptions when the dead letter is there, and commits later.\<close>

definition demo_after :: "webhook_attempt list dispatch_db" where
  "demo_after = (let d = demo_dispatcher 500 1; d' = reading_from demo_tables demo_dead d
     in snd (prepare_attempts_via d' d' d' demo_effect demo_later))"

lemma settled_attempts_final_witness:
  "(dispatch_step (demo_dispatcher 500 1))\<^sup>*\<^sup>* demo_dead demo_later \<and> \<not> webhook_pending demo_dead_row \<and>
   demo_dead_row \<in> set (dd_webhook_attempts demo_later) \<and>
   at_subscriber (wa_attempt (hd (dd_webhook_attempts demo_after))) = 1 \<and>
   hd (dd_webhook_attempts demo_after) \<in> set (dd_webhook_attempts demo_later)"
proof -
  have run: "(dispatch_step (demo_dispatcher 500 1))\<^sup>*\<^sup>* demo_dead demo_later"
    unfolding demo_later_def
    by (rule rtranclp_trans [OF r_into_rtranclp [where r = "dispatch_step (demo_dispatcher 500 1)", OF dispatch_step.subscribe]
        dispatch_effect_steps])
  have pending: "\<not> webhook_pending demo_dead_row" by (simp add: webhook_pending_def demo_dead_rows(2))
  note final = settled_attempts_final [OF demo_fresh demo_dead_reached rtranclp.rtrancl_refl run demo_dead_rows(1) pending]
  have reads: "dp_subscriptions (demo_dispatcher 500 1) = Some read_subscriptions"
    by (simp add: demo_dispatcher_def new_dispatcher_def)
  have rows: "map (\<lambda>w. at_subscriber (wa_attempt w)) (dd_webhook_attempts demo_after) = [1]"
    "map (\<lambda>w. at_subscriber (wa_attempt w)) (dd_webhook_attempts demo_dead) = [1]"
    unfolding demo_after_def demo_later_def demo_dead_def by code_simp+
  then have v: "hd (dd_webhook_attempts demo_after) \<in> set (dd_webhook_attempts demo_after)"
      "at_subscriber (wa_attempt (hd (dd_webhook_attempts demo_after))) = 1"
    by (cases "dd_webhook_attempts demo_after"; simp)+
  have one: "at_subscriber (wa_attempt demo_dead_row) = 1"
    using rows(2) unfolding demo_dead_row_def by (cases "dd_webhook_attempts demo_dead"; simp)
  have "hd (dd_webhook_attempts demo_after) \<in> set (dd_webhook_attempts demo_later)"
    using final [THEN conjunct2, rule_format, OF conjI conjI] demo_dead_rows(2) reads v one
    unfolding demo_after_def Let_def by auto
  with run pending v(2) final [THEN conjunct1] show ?thesis by blast
qed

text \<open>
  The subscriptions are not read in the transaction: a second effect of the booking comes to the queue, and
  the preparation that had read the subscriber as active, before the dead letter was committed, adds an
  attempt for the disabled subscriber.
\<close>

definition demo_stale :: "webhook_attempt list dispatch_db" where
  "demo_stale = (let d = reading_from demo_tables demo_subscribed (demo_dispatcher 500 1)
     in snd (prepare_attempts_via d d d (demo_effect\<lparr>qe_id := 8\<rparr>)
          (demo_dead\<lparr>bd_effects := [demo_effect_row, demo_effect_row\<lparr>ew_id := 8\<rparr>]\<rparr>)))"

lemma stale_preparation_adds:
  "map (\<lambda>w. (at_effect (wa_attempt w), at_subscriber (wa_attempt w))) (dd_webhook_attempts demo_stale) = [(7, 1), (8, 1)] \<and>
   map (\<lambda>w. wa_dead_at w) (dd_webhook_attempts demo_stale) = [Some 5, None] \<and>
   map (\<lambda>s. (ws_id (su_subscription s), ws_active (su_subscription s))) (dd_subscriptions demo_stale) = [(1, False)]"
proof -
  have "map (\<lambda>w. (at_effect (wa_attempt w), at_subscriber (wa_attempt w))) (dd_webhook_attempts demo_stale) = [(7, 1), (8, 1)]"
    "map (\<lambda>w. wa_dead_at w) (dd_webhook_attempts demo_stale) = [Some 5, None]"
    "map (\<lambda>s. (ws_id (su_subscription s), ws_active (su_subscription s))) (dd_subscriptions demo_stale) = [(1, False)]"
    unfolding demo_stale_def demo_dead_def by code_simp+
  then show ?thesis by blast
qed

text \<open>Two tries of an attempt that both fail.\<close>

definition demo_twice :: "webhook_attempt list dispatch_db" where
  "demo_twice = (again (demo_dispatcher 500 2) demo_effect ^^ 2) demo_subscribed"

lemma demo_log: "logs_calls (answering status) (\<lambda>w. w)" "quiet_targets (demo_dispatcher status n) (\<lambda>w. w)"
  "dp_webhook (demo_dispatcher status n) = Some (answering status)"
  by (simp_all add: logs_calls_def answering_def quiet_targets_def demo_dispatcher_def new_dispatcher_def)

lemma sends_match_counts_witness:
  "map at_url (dd_world demo_twice) = [''u'', ''u''] \<and>
   filter (\<lambda>a. at_id a = at_id (wa_attempt (hd (dd_webhook_attempts demo_twice)))) (dd_world demo_twice) =
     replicate 2 (wa_attempt (hd (dd_webhook_attempts demo_twice)))"
proof -
  have run: "(serve_step (demo_dispatcher 500 2))\<^sup>*\<^sup>* demo_tables demo_twice"
    unfolding demo_twice_def numeral_2_eq_2 funpow.simps comp_def id_apply
    by (rule rtranclp.rtrancl_into_rtrancl [OF rtranclp.rtrancl_into_rtrancl [OF r_into_rtranclp [of "serve_step (demo_dispatcher 500 2)",
        OF demo_subscribe(1)] serve_step.dispatch] serve_step.dispatch])
  have rows: "map wa_count (dd_webhook_attempts demo_twice) = [2]" "map at_url (dd_world demo_twice) = [''u'', ''u'']"
    unfolding demo_twice_def by code_simp+
  then have "hd (dd_webhook_attempts demo_twice) \<in> set (dd_webhook_attempts demo_twice)"
      "wa_count (hd (dd_webhook_attempts demo_twice)) = 2"
    by (cases "dd_webhook_attempts demo_twice"; simp)+
  moreover have "dd_world demo_tables = []" by (simp add: demo_tables_def)
  ultimately show ?thesis
    using sends_match_counts [OF demo_log(3,1,2) demo_fresh _ run] rows(2) by simp
qed

lemma webhook_retries_end_witness:
  "webhook_trigger (qe_name demo_effect) = Some ''BOOKING_CANCELLED'' \<and> effect_valid demo_effect \<and>
   fst (dispatch_effect (demo_dispatcher 500 2) demo_effect demo_subscribed) = Inl (DeliveryError (StatusFailure 500)) \<and>
   (\<exists>n < nat (attempt_limit (demo_dispatcher 500 2)).
      fst (dispatch_effect (demo_dispatcher 500 2) demo_effect ((again (demo_dispatcher 500 2) demo_effect ^^ n) demo_subscribed)) = Inr ())"
proof -
  have e: "webhook_trigger (qe_name demo_effect) = Some ''BOOKING_CANCELLED''" "effect_valid demo_effect"
    by (simp_all add: demo_effect_def webhook_trigger_def effect_valid_def)
  have "\<not> isl (fst (prepare_attempts (demo_dispatcher 500 2) demo_effect demo_subscribed))" by code_simp
  then obtain p db1 where "prepare_attempts (demo_dispatcher 500 2) demo_effect demo_subscribed = (Inr p, db1)"
    by (metis sum.collapse(2) prod.collapse)
  from webhook_retries_end [OF demo_fresh demo_subscribe(2) _ e(2) demo_log(3) this] e
  have "\<exists>n < nat (attempt_limit (demo_dispatcher 500 2)).
      fst (dispatch_effect (demo_dispatcher 500 2) demo_effect ((again (demo_dispatcher 500 2) demo_effect ^^ n) demo_subscribed)) = Inr ()"
    by simp
  moreover have "fst (dispatch_effect (demo_dispatcher 500 2) demo_effect demo_subscribed) = Inl (DeliveryError (StatusFailure 500))"
    by code_simp
  ultimately show ?thesis using e by blast
qed

text \<open>A worker takes a planned effect.\<close>

definition planned_tables :: "webhook_attempt list dispatch_db" where
  "planned_tables = demo_subscribed\<lparr>bd_effects := [demo_effect_row\<lparr>ew_status := ''planned'', ew_attempts := 0\<rparr>]\<rparr>"

lemma worker_settles_claims_witness:
  "queue_ok planned_tables \<and>
   map ew_status (bd_effects (snd (run_worker all_floats (demo_dispatcher 500 2) 0 planned_tables))) = [''failed''] \<and>
   snd (fst (run_worker all_floats (demo_dispatcher 500 2) 0 planned_tables)) = None \<and>
   wr_claimed (fst (fst (run_worker all_floats (demo_dispatcher 500 2) 0 planned_tables))) = 1"
proof -
  obtain result err db' where run: "run_worker all_floats (demo_dispatcher 500 2) 0 planned_tables = ((result, err), db')"
    by (metis prod.collapse)
  have ok: "queue_ok planned_tables"
    by (simp add: queue_ok_def planned_tables_def demo_subscribed_def demo_tables_def demo_effect_row_def
        save_subscription_def demo_subscription_def Let_def)
  have "map ew_status (bd_effects (snd (run_worker all_floats (demo_dispatcher 500 2) 0 planned_tables))) = [''failed'']"
      "wr_claimed (fst (fst (run_worker all_floats (demo_dispatcher 500 2) 0 planned_tables))) = 1"
    by code_simp+
  with worker_settles_claims [OF ok run] ok run show ?thesis by auto
qed

text \<open>Two workers: the second finds nothing to claim.\<close>

definition planned_queue :: booking_db where
  "planned_queue = empty_tables\<lparr>bd_effects := [], bd_next_effect := 7\<rparr>"

definition planned_one :: planned_side_effect where
  "planned_one = \<lparr>pe_name = SideEffectEmailCancelled, pe_booking_uid = ''b'', pe_request_id = ''r'', pe_payload = []\<rparr>"

lemma claims_exclusive_witness:
  "bd_effects planned_queue = [] \<and>
   (\<exists>db hs es db'. (crew_step all_floats)\<^sup>*\<^sup>* (planned_queue, \<lambda>_. []) (db, hs) \<and> hs 0 = [7] \<and>
     claim_planned_effects all_floats 25 db = (Inr es, db') \<and> 7 \<notin> set (map qe_id es) \<and> 7 \<notin> set (hs 1))"
proof -
  let ?db1 = "insert_effect planned_one planned_queue"
  have "map_sum (\<lambda>_. ()) (map qe_id) (fst (claim_planned_effects all_floats 25 ?db1)) = Inr [7]"
      "\<not> isl (fst (claim_planned_effects all_floats 25 (snd (claim_planned_effects all_floats 25 ?db1))))"
    by code_simp+
  then obtain es db2 fs db3 where claims: "claim_planned_effects all_floats 25 ?db1 = (Inr es, db2)" "map qe_id es = [7]"
      "claim_planned_effects all_floats 25 db2 = (Inr fs, db3)"
    by (cases "claim_planned_effects all_floats 25 ?db1"; cases "fst (claim_planned_effects all_floats 25 ?db1)";
        cases "claim_planned_effects all_floats 25 (snd (claim_planned_effects all_floats 25 ?db1))";
        cases "fst (claim_planned_effects all_floats 25 (snd (claim_planned_effects all_floats 25 ?db1)))") auto
  let ?hs = "(\<lambda>_. [])(0 := [] @ map qe_id es)"
  have run: "(crew_step all_floats)\<^sup>*\<^sup>* (planned_queue, \<lambda>_. []) (db2, ?hs)"
    by (rule rtranclp.rtrancl_into_rtrancl [OF r_into_rtranclp [of "crew_step all_floats", OF crew_step.plan]
        crew_step.claim [OF claims(1)]])
  have empty: "bd_effects planned_queue = []" by (simp add: planned_queue_def)
  from claims_exclusive [OF empty run _ claims(3), of 7 0] claims empty run show ?thesis
    by (intro conjI exI [of _ db2] exI [of _ ?hs] exI [of _ fs] exI [of _ db3]) auto
qed

end
