(* ===== verification/Envelopes.thy ===== *)
theory Envelopes
  imports Dispatcher BookingTables
begin

text \<open>The adapters receive the envelope that was stored: its JSON value decodes to it.\<close>

section \<open>Emails\<close>

lemma recipient_decodes:
  "decode_struct False recipient_fields (person_json (mr_name r) (mr_email r) (mr_time_zone r))
     \<lparr>mr_name = [], mr_email = [], mr_time_zone = []\<rparr> = Some r"
  by (simp add: recipient_fields_def person_json_def string_field_def)

lemma recipients_decode:
  "decode_items (\<lambda>w. decode_struct False recipient_fields w \<lparr>mr_name = [], mr_email = [], mr_time_zone = []\<rparr>)
     (map (\<lambda>r. person_json (mr_name r) (mr_email r) (mr_time_zone r)) rs) = Some rs"
  by (induction rs) (simp_all add: recipient_decodes)

lemma mail_decodes:
  assumes "int64 (ml_event_type_id (mv_payload e))" and "ml_recipients (mv_payload e) \<noteq> Some []"
  shows "decode_struct False mail_fields (mail_json e) zero_mail = Some e"
proof (cases "ml_recipients (mv_payload e)")
  case None
  with assms show ?thesis
    by (cases "ml_title (mv_payload e) = []"; cases "ml_cancellation (mv_payload e) = []"; cases "ml_reschedule_uid (mv_payload e) = []";
        cases "ml_reschedule_reason (mv_payload e) = []"; cases "ml_rejection (mv_payload e) = []")
     (simp_all add: mail_json_def mail_fields_def mail_payload_fields_def zero_mail_def string_field_def int_field_def
      int64_def optional_text_def optional_list_def Let_def)
next
  case (Some rs)
  with assms show ?thesis
    by (cases "ml_title (mv_payload e) = []"; cases "ml_cancellation (mv_payload e) = []"; cases "ml_reschedule_uid (mv_payload e) = []";
        cases "ml_reschedule_reason (mv_payload e) = []"; cases "ml_rejection (mv_payload e) = []")
     (simp_all add: mail_json_def mail_fields_def mail_payload_fields_def zero_mail_def string_field_def int_field_def
      int64_def optional_text_def optional_list_def Let_def recipients_decode)
qed

section \<open>Calendar changes\<close>

lemma calendar_decodes:
  assumes "int64 (kp_event_type_id (ke_payload e))"
  shows "decode_struct False calendar_fields (calendar_json e) zero_calendar = Some e"
  using assms
  by (cases "kp_selected (ke_payload e) = []"; cases "kp_destination (ke_payload e) = []";
      cases "kp_external (ke_payload e) = []"; cases "kp_reschedule_uid (ke_payload e) = []";
      cases "kp_previous (ke_payload e) = []")
    (simp_all add: calendar_json_def calendar_fields_def calendar_payload_fields_def zero_calendar_def string_field_def
      int_field_def int64_def optional_text_def Let_def)

text \<open>
  C27: the provider adapters receive the envelopes that were built. For the email and the calendar side
  effects of a booking whose event type id is a 64-bit integer, the body stored for an attempt decodes to
  the envelope of the booking, so the adapter is called with exactly that envelope; what it prepares is
  addressed to the attempt's URL, and an error of the adapter is the error of the dispatch.
\<close>
theorem adapters_receive_envelopes:
  assumes "int64 (b_event_type_id b)"
    and "mail_envelope_for e b = Some mail" and "dp_email_provider d = Some email" and "tt_body a = mail_json mail"
    and "calendar_envelope_for e' b = Some change" and "dp_calendar_provider d = Some calendar"
    and "tt_body a' = calendar_json change"
  shows "prepare_email_dispatch d a = (case email mail of
      Inl f \<Rightarrow> Inl (DispatchError ''prepare email provider dispatch'')
    | Inr p \<Rightarrow> Inr (addressed a ''X-Cal-Email-Action'' p)) \<and>
    prepare_calendar_dispatch d a' = (case calendar change of
      Inl f \<Rightarrow> Inl (DispatchError ''prepare calendar provider dispatch'')
    | Inr p \<Rightarrow> Inr (addressed a' ''X-Cal-Calendar-Action'' p))"
proof -
  have "int64 (ml_event_type_id (mv_payload mail))" "ml_recipients (mv_payload mail) \<noteq> Some []"
    using assms(1,2) by (auto simp: mail_envelope_for_def mail_recipients_def split: option.splits if_splits)
  moreover have "int64 (kp_event_type_id (ke_payload change))"
    using assms(1,5) by (auto simp: calendar_envelope_for_def Let_def split: option.splits)
  ultimately show ?thesis
    using assms by (simp add: prepare_email_dispatch_def mail_decodes prepare_calendar_dispatch_def calendar_decodes)
qed

definition sample_effect :: "side_effect_name \<Rightarrow> queued_effect" where
  "sample_effect name = \<lparr>qe_id = 1, qe_name = side_effect_string name, qe_booking_uid = ''b'', qe_request_id = ''r'',
     qe_payload = None, qe_attempts = 1, qe_status = ''processing''\<rparr>"

definition sample_attempt :: "json \<Rightarrow> target_attempt" where
  "sample_attempt body = \<lparr>tt_id = 1, tt_delivery = 1, tt_effect = 1, tt_url = ''u'', tt_action = ''BOOKING_CANCELLED'',
     tt_content_type = ''application/json'', tt_body = body\<rparr>"

definition sample_dispatcher :: "unit dispatcher" where
  "sample_dispatcher = new_dispatcher None None None None None None None ''u'' None None ''u'' (\<lambda>body secret. secret) (\<lambda>body. body)"

lemma adapters_receive_envelopes_witness:
  "int64 (b_event_type_id zero_booking) \<and> dp_email_provider sample_dispatcher = Some resend_fixture_provider \<and>
   dp_calendar_provider sample_dispatcher = Some google_fixture_provider \<and>
   prepare_email_dispatch sample_dispatcher
     (sample_attempt (mail_json (the (mail_envelope_for (sample_effect SideEffectEmailCancelled) zero_booking)))) =
     Inl (DispatchError ''prepare email provider dispatch'') \<and>
   prepare_calendar_dispatch sample_dispatcher
     (sample_attempt (calendar_json (the (calendar_envelope_for (sample_effect SideEffectCalendarCancelled) zero_booking)))) =
     Inl (DispatchError ''prepare calendar provider dispatch'')"
proof -
  have b: "int64 (b_event_type_id zero_booking)" by (simp add: int64_def zero_booking_def)
  have d: "dp_email_provider sample_dispatcher = Some resend_fixture_provider"
      "dp_calendar_provider sample_dispatcher = Some google_fixture_provider"
    by (simp_all add: sample_dispatcher_def new_dispatcher_def)
  obtain mail change where made: "mail_envelope_for (sample_effect SideEffectEmailCancelled) zero_booking = Some mail"
      "calendar_envelope_for (sample_effect SideEffectCalendarCancelled) zero_booking = Some change"
    by (simp add: mail_envelope_for_def email_action_def calendar_envelope_for_def calendar_action_def sample_effect_def Let_def)
  have "resend_fixture_provider mail = Inl ''email provider dispatch requires booking uid and request id''"
      "google_fixture_provider change = Inl ''calendar provider dispatch requires an event id and request id''"
    using made by (auto simp: mail_envelope_for_def email_action_def calendar_envelope_for_def calendar_action_def
        sample_effect_def zero_booking_def resend_fixture_provider_def resend_request_def google_fixture_provider_def
        google_request_def google_event_id_def payload_string_def Let_def)
  with adapters_receive_envelopes [OF b made(1) d(1), of "sample_attempt (mail_json mail)", OF _ made(2) d(2),
      of "sample_attempt (calendar_json change)"] b d made
  show ?thesis by (simp add: sample_attempt_def)
qed

end
