(* ===== verification/AppsRepo.thy ===== *)
theory AppsRepo
  imports AppsProgress Postgres
begin

text \<open>
  The Postgres repository of the app installs (\<open>internal/apps/postgres_repository.go\<close>): the tables of
  the migrations \<open>0023\<close> to \<open>0032\<close> with their keys, references and checks, and the methods of the
  repository as handlers over them. A statement fails by violating a constraint only; \<open>integer\<close>
  parameters out of range fail it too. Texts are taken to be storable (valid UTF-8 without NUL) and are
  ordered byte by byte. A method that draws a random
  reference takes it from \<open>pd_entropy\<close>.
\<close>

section \<open>The tables\<close>

text \<open>Times are instants in nanoseconds.\<close>

record catalog_row =
  cg_slug :: string
  cg_category :: string
  cg_provider :: string
  cg_name :: string
  cg_description :: string
  cg_auth_type :: string
  cg_capabilities :: "string list"
  cg_created_at :: int
  cg_updated_at :: int

record intent_row =
  iw_ref :: string
  iw_user :: int
  iw_app :: string
  iw_status :: string
  iw_created_at :: int
  iw_updated_at :: int

record session_row =
  hw_ref :: string
  hw_intent :: string
  hw_user :: int
  hw_expires_at :: int
  hw_consumed_at :: "int option"
  hw_created_at :: int
  hw_updated_at :: int

record preview_row =
  vw_ref :: string
  vw_state :: string
  vw_intent :: string
  vw_user :: int
  vw_app :: string
  vw_provider :: string
  vw_auth_type :: string
  vw_scopes :: "string list"
  vw_status :: string
  vw_requested_at :: int
  vw_created_at :: int
  vw_updated_at :: int

record preflight_row =
  lw_ref :: string
  lw_state :: string
  lw_intent :: string
  lw_user :: int
  lw_app :: string
  lw_provider :: string
  lw_callback_status :: string
  lw_status :: string
  lw_received_at :: int
  lw_created_at :: int
  lw_updated_at :: int

record exchange_row =
  gw_ref :: string
  gw_preflight :: string
  gw_state :: string
  gw_intent :: string
  gw_user :: int
  gw_app :: string
  gw_provider :: string
  gw_status :: string
  gw_mode :: string
  gw_recorded_at :: int
  gw_created_at :: int
  gw_updated_at :: int

record completion_row =
  mw_ref :: string
  mw_exchange :: string
  mw_intent :: string
  mw_user :: int
  mw_app :: string
  mw_provider :: string
  mw_status :: string
  mw_mode :: string
  mw_completed_at :: int
  mw_created_at :: int
  mw_updated_at :: int

record installation_row =
  nw_ref :: string
  nw_completion :: string
  nw_intent :: string
  nw_user :: int
  nw_app :: string
  nw_provider :: string
  nw_status :: string
  nw_mode :: string
  nw_activated_at :: int
  nw_created_at :: int
  nw_updated_at :: int

text \<open>The database at one instant, the time of \<open>now()\<close>.\<close>

record apps_db =
  pd_now :: int
  pd_entropy :: entropy
  pd_catalog :: "catalog_row list"
  pd_intents :: "intent_row list"
  pd_sessions :: "session_row list"
  pd_previews :: "preview_row list"
  pd_preflights :: "preflight_row list"
  pd_exchanges :: "exchange_row list"
  pd_completions :: "completion_row list"
  pd_installations :: "installation_row list"

type_synonym 'a apps_tx = "(apps_db, apps_error, 'a) handler"

definition require_none_tx :: "apps_error option \<Rightarrow> unit apps_tx" where
  "require_none_tx err db = (case err of None \<Rightarrow> (Inr (), db) | Some e \<Rightarrow> (Inl e, db))"

section \<open>Scanning\<close>

definition apps_wire_time :: "int \<Rightarrow> string" where
  "apps_wire_time i = wire_format \<lparr>inst = i, zone = 0\<rparr>"

definition scan_app :: "catalog_row \<Rightarrow> app_metadata" where
  "scan_app w = \<lparr>am_slug = cg_slug w, am_category = cg_category w, am_provider = cg_provider w,
     am_name = cg_name w, am_description = cg_description w, am_auth_type = cg_auth_type w,
     am_capabilities = cg_capabilities w, am_created_at = apps_wire_time (cg_created_at w),
     am_updated_at = apps_wire_time (cg_updated_at w)\<rparr>"

definition scan_intent :: "intent_row \<Rightarrow> install_intent" where
  "scan_intent w = \<lparr>ii_ref = iw_ref w, ii_user = iw_user w, ii_app = iw_app w, ii_status = iw_status w,
     ii_created_at = apps_wire_time (iw_created_at w), ii_updated_at = apps_wire_time (iw_updated_at w)\<rparr>"

definition scan_session :: "session_row \<Rightarrow> auth_session" where
  "scan_session w = \<lparr>xs_ref = hw_ref w, xs_intent = hw_intent w, xs_user = hw_user w,
     xs_expires_at = apps_wire_time (hw_expires_at w),
     xs_consumed_at = (case hw_consumed_at w of None \<Rightarrow> [] | Some i \<Rightarrow> apps_wire_time i),
     xs_created_at = apps_wire_time (hw_created_at w), xs_updated_at = apps_wire_time (hw_updated_at w)\<rparr>"

text \<open>A preview joined with its session, which has the expiry.\<close>

definition scan_preview :: "preview_row \<Rightarrow> int \<Rightarrow> auth_preview" where
  "scan_preview w expires_at = \<lparr>pv_ref = vw_ref w, pv_intent = vw_intent w, pv_app = vw_app w,
     pv_provider = vw_provider w, pv_auth_type = vw_auth_type w, pv_scopes = vw_scopes w,
     pv_state_ref = vw_state w, pv_endpoint = vw_provider w @ ''.authorization.preview'',
     pv_status = vw_status w, pv_expires_at = apps_wire_time expires_at,
     pv_requested_at = apps_wire_time (vw_requested_at w), pv_created_at = apps_wire_time (vw_created_at w),
     pv_updated_at = apps_wire_time (vw_updated_at w), pv_user = vw_user w\<rparr>"

definition scan_preflight :: "preflight_row \<Rightarrow> callback_preflight" where
  "scan_preflight w = \<lparr>cp_ref = lw_ref w, cp_intent = lw_intent w, cp_app = lw_app w,
     cp_provider = lw_provider w, cp_state_ref = lw_state w, cp_callback_status = lw_callback_status w,
     cp_status = lw_status w, cp_received_at = apps_wire_time (lw_received_at w),
     cp_created_at = apps_wire_time (lw_created_at w), cp_updated_at = apps_wire_time (lw_updated_at w),
     cp_user = lw_user w\<rparr>"

definition scan_exchange :: "exchange_row \<Rightarrow> provider_exchange" where
  "scan_exchange w = \<lparr>px_ref = gw_ref w, px_intent = gw_intent w, px_app = gw_app w,
     px_provider = gw_provider w, px_state_ref = gw_state w, px_preflight = gw_preflight w,
     px_status = gw_status w, px_mode = gw_mode w, px_recorded_at = apps_wire_time (gw_recorded_at w),
     px_created_at = apps_wire_time (gw_created_at w), px_updated_at = apps_wire_time (gw_updated_at w),
     px_user = gw_user w\<rparr>"

definition scan_completion :: "completion_row \<Rightarrow> install_completion" where
  "scan_completion w = \<lparr>ic_ref = mw_ref w, ic_intent = mw_intent w, ic_app = mw_app w,
     ic_provider = mw_provider w, ic_exchange = mw_exchange w, ic_status = mw_status w, ic_mode = mw_mode w,
     ic_completed_at = apps_wire_time (mw_completed_at w), ic_created_at = apps_wire_time (mw_created_at w),
     ic_updated_at = apps_wire_time (mw_updated_at w), ic_user = mw_user w\<rparr>"

text \<open>An installation joined with its app.\<close>

definition scan_installation :: "installation_row \<Rightarrow> catalog_row \<Rightarrow> app_installation" where
  "scan_installation w c = \<lparr>ai_ref = nw_ref w, ai_intent = nw_intent w, ai_completion = nw_completion w,
     ai_app = nw_app w, ai_name = cg_name c, ai_category = cg_category c, ai_provider = nw_provider w,
     ai_auth_type = cg_auth_type c, ai_capabilities = cg_capabilities c, ai_status = nw_status w,
     ai_mode = nw_mode w, ai_activated_at = apps_wire_time (nw_activated_at w),
     ai_created_at = apps_wire_time (nw_created_at w), ai_updated_at = apps_wire_time (nw_updated_at w),
     ai_user = nw_user w\<rparr>"

section \<open>Queries\<close>

definition catalog_entry :: "string \<Rightarrow> apps_db \<Rightarrow> catalog_row option" where
  "catalog_entry slug db = find (\<lambda>c. cg_slug c = slug) (pd_catalog db)"

definition joined_installations :: "(installation_row \<Rightarrow> bool) \<Rightarrow> apps_db \<Rightarrow> (installation_row \<times> catalog_row) list" where
  "joined_installations P db =
     concat (map (\<lambda>w. case catalog_entry (nw_app w) db of None \<Rightarrow> [] | Some c \<Rightarrow> [(w, c)])
       (filter P (pd_installations db)))"

text \<open>\<open>order by ... limit 1\<close>.\<close>

definition first_by :: "('a \<Rightarrow> 'a \<Rightarrow> bool) \<Rightarrow> 'a list \<Rightarrow> 'a option" where
  "first_by le xs = (case sort_by le xs of [] \<Rightarrow> None | x # _ \<Rightarrow> Some x)"

definition latest_first :: "('a \<Rightarrow> int) \<Rightarrow> ('a \<Rightarrow> string) \<Rightarrow> 'a \<Rightarrow> 'a \<Rightarrow> bool" where
  "latest_first at ref l r \<longleftrightarrow> at r < at l \<or> (at l = at r \<and> ref r \<le> ref l)"

definition sql_read_catalog :: "app_metadata list apps_tx" where
  "sql_read_catalog db =
     (Inr (map scan_app (sort_by (\<lambda>l r. cg_slug l \<le> cg_slug r) (pd_catalog db))), db)"

definition sql_read_intents :: "int \<Rightarrow> install_intent list apps_tx" where
  "sql_read_intents user =
     and_then (check (\<not> user \<le> 0) ErrInvalidInstallIntent) (\<lambda>_.
     and_then (check (fits_int4 user) (ErrAppsUpstream ''read app install intents'')) (\<lambda>_.
     reading (\<lambda>db. return_ok (map scan_intent
       (sort_by (\<lambda>l r. iw_created_at l < iw_created_at r \<or> (iw_created_at l = iw_created_at r \<and> iw_ref l \<le> iw_ref r))
         (filter (\<lambda>w. iw_user w = user) (pd_intents db)))))))"

definition sql_read_installations :: "int \<Rightarrow> app_installation list apps_tx" where
  "sql_read_installations user =
     and_then (check (\<not> user \<le> 0) ErrInvalidAppInstallation) (\<lambda>_.
     and_then (check (fits_int4 user) (ErrAppsUpstream ''read app installations'')) (\<lambda>_.
     reading (\<lambda>db. return_ok (map (\<lambda>(w, c). scan_installation w c)
       (sort_by (\<lambda>(l, _) (r, _). nw_activated_at r < nw_activated_at l \<or>
          (nw_activated_at l = nw_activated_at r \<and> nw_ref l \<le> nw_ref r))
         (joined_installations (\<lambda>w. nw_user w = user) db))))))"

definition sql_latest_session :: "int \<Rightarrow> string \<Rightarrow> apps_db \<Rightarrow> auth_session option" where
  "sql_latest_session user ref db = map_option scan_session (first_by (latest_first hw_created_at hw_ref)
     (filter (\<lambda>w. hw_intent w = ref \<and> hw_user w = user) (pd_sessions db)))"

definition sql_latest_preview :: "int \<Rightarrow> string \<Rightarrow> apps_db \<Rightarrow> auth_preview option" where
  "sql_latest_preview user ref db = map_option (\<lambda>(w, s). scan_preview w (hw_expires_at s))
     (first_by (\<lambda>(l, _) (r, _). latest_first vw_requested_at vw_ref l r)
       (concat (map (\<lambda>w. case find (\<lambda>s. hw_ref s = vw_state w) (pd_sessions db) of
            None \<Rightarrow> [] | Some s \<Rightarrow> [(w, s)])
          (filter (\<lambda>w. vw_intent w = ref \<and> vw_user w = user) (pd_previews db)))))"

definition sql_latest_preflight :: "int \<Rightarrow> string \<Rightarrow> apps_db \<Rightarrow> callback_preflight option" where
  "sql_latest_preflight user ref db = map_option scan_preflight (first_by (latest_first lw_received_at lw_ref)
     (filter (\<lambda>w. lw_intent w = ref \<and> lw_user w = user) (pd_preflights db)))"

definition sql_latest_exchange :: "int \<Rightarrow> string \<Rightarrow> apps_db \<Rightarrow> provider_exchange option" where
  "sql_latest_exchange user ref db = map_option scan_exchange (first_by (latest_first gw_recorded_at gw_ref)
     (filter (\<lambda>w. gw_intent w = ref \<and> gw_user w = user) (pd_exchanges db)))"

definition sql_latest_completion :: "int \<Rightarrow> string \<Rightarrow> apps_db \<Rightarrow> install_completion option" where
  "sql_latest_completion user ref db = map_option scan_completion (first_by (latest_first mw_completed_at mw_ref)
     (filter (\<lambda>w. mw_intent w = ref \<and> mw_user w = user) (pd_completions db)))"

definition sql_latest_installation :: "int \<Rightarrow> string \<Rightarrow> apps_db \<Rightarrow> app_installation option" where
  "sql_latest_installation user ref db = map_option (\<lambda>(w, c). scan_installation w c)
     (first_by (\<lambda>(l, _) (r, _). latest_first nw_activated_at nw_ref l r)
       (joined_installations (\<lambda>w. nw_intent w = ref \<and> nw_user w = user) db))"

text \<open>The intent joined with its app; of the app only three columns are read.\<close>

definition progress_app :: "string \<Rightarrow> catalog_row \<Rightarrow> app_metadata" where
  "progress_app slug c = \<lparr>am_slug = slug, am_category = [], am_provider = cg_provider c, am_name = cg_name c,
     am_description = [], am_auth_type = cg_auth_type c, am_capabilities = [], am_created_at = [],
     am_updated_at = []\<rparr>"

definition joined_intent :: "int \<Rightarrow> string \<Rightarrow> apps_db \<Rightarrow> (intent_row \<times> catalog_row) option" where
  "joined_intent user ref db =
     Option.bind (find (\<lambda>w. iw_ref w = ref \<and> iw_user w = user) (pd_intents db)) (\<lambda>w.
       map_option (Pair w) (catalog_entry (iw_app w) db))"

definition sql_read_progress :: "int \<Rightarrow> string \<Rightarrow> gotime \<Rightarrow> app_install_progress apps_tx" where
  "sql_read_progress user ref observed_at =
     and_then (check (\<not> (user \<le> 0 \<or> blank ref)) ErrInvalidInstallIntent) (\<lambda>_.
     and_then (check (fits_int4 user) (ErrAppsUpstream ''read app install progress intent'')) (\<lambda>_.
     reading (\<lambda>db.
     and_then (demand (joined_intent user ref db) ErrInstallIntentNotFound) (\<lambda>(w, c).
     return_ok (new_app_install_progress (scan_intent w) (progress_app (iw_app w) c)
       (sql_latest_session user ref db) (sql_latest_preview user ref db) (sql_latest_preflight user ref db)
       (sql_latest_exchange user ref db) (sql_latest_completion user ref db)
       (sql_latest_installation user ref db) observed_at)))))"

definition sql_read_preflight :: "int \<Rightarrow> string \<Rightarrow> string \<Rightarrow> string \<Rightarrow> callback_preflight apps_tx" where
  "sql_read_preflight user ref state_ref preflight_ref =
     and_then (check (\<not> (user \<le> 0 \<or> blank ref \<or> blank state_ref \<or> blank preflight_ref))
       ErrInvalidExternalAuthCallbackPreflight) (\<lambda>_.
     and_then (check (fits_int4 user) (ErrAppsUpstream ''read external auth callback preflight'')) (\<lambda>_.
     reading (\<lambda>db.
     and_then (demand (find (\<lambda>w. lw_ref w = preflight_ref \<and> lw_state w = state_ref \<and> lw_intent w = ref \<and>
         lw_user w = user) (pd_preflights db)) ErrExternalAuthCallbackPreflightNotFound) (\<lambda>w.
     return_ok (scan_preflight w)))))"

definition sql_read_preflight_by_state :: "string \<Rightarrow> callback_preflight apps_tx" where
  "sql_read_preflight_by_state state_ref =
     and_then (check (\<not> blank state_ref) ErrInvalidExternalAuthCallbackPreflight) (\<lambda>_.
     reading (\<lambda>db.
     and_then (demand (find (\<lambda>w. lw_state w = state_ref) (pd_preflights db))
       ErrExternalAuthCallbackPreflightNotFound) (\<lambda>w.
     return_ok (scan_preflight w))))"

definition sql_read_exchange_by_preflight :: "int \<Rightarrow> string \<Rightarrow> string \<Rightarrow> provider_exchange apps_tx" where
  "sql_read_exchange_by_preflight user ref preflight_ref =
     and_then (check (\<not> (user \<le> 0 \<or> blank ref \<or> blank preflight_ref))
       ErrInvalidExternalAuthProviderExchange) (\<lambda>_.
     and_then (check (fits_int4 user)
       (ErrAppsUpstream ''read external auth provider exchange by preflight'')) (\<lambda>_.
     reading (\<lambda>db.
     and_then (demand (find (\<lambda>w. gw_preflight w = preflight_ref \<and> gw_intent w = ref \<and> gw_user w = user)
         (pd_exchanges db)) ErrExternalAuthProviderExchangeNotFound) (\<lambda>w.
     return_ok (scan_exchange w)))))"

end
