(* ===== verification/AppsWrites.thy ===== *)
theory AppsWrites
  imports AppsRepo
begin

text \<open>
  The statements of \<open>internal/apps/postgres_repository.go\<close> that change the tables of \<open>AppsRepo\<close>. The four
  methods that begin a transaction keep nothing of it when they return an error. Each method is one step:
  what it writes it has locked with \<open>for update\<close>, or writes in one statement; a read that follows an
  update without effect only chooses the error.
\<close>

section \<open>Catalog and intents\<close>

fun upsert_catalog :: "int \<Rightarrow> app_metadata \<Rightarrow> catalog_row list \<Rightarrow> catalog_row list" where
  "upsert_catalog now app [] =
     [\<lparr>cg_slug = am_slug app, cg_category = am_category app, cg_provider = am_provider app,
       cg_name = am_name app, cg_description = am_description app, cg_auth_type = am_auth_type app,
       cg_capabilities = am_capabilities app, cg_created_at = now, cg_updated_at = now\<rparr>]"
| "upsert_catalog now app (w # ws) =
     (if cg_slug w = am_slug app
      then w\<lparr>cg_category := am_category app, cg_provider := am_provider app, cg_name := am_name app,
          cg_description := am_description app, cg_auth_type := am_auth_type app,
          cg_capabilities := am_capabilities app, cg_updated_at := now\<rparr> # ws
      else w # upsert_catalog now app ws)"

definition sql_save_metadata :: "app_metadata \<Rightarrow> app_metadata apps_tx" where
  "sql_save_metadata app =
     and_then (require_none_tx (validate_app_metadata app)) (\<lambda>_.
     reading (\<lambda>db.
     and_then (check (\<not> list_ex (\<lambda>w. cg_provider w = am_provider app \<and> cg_slug w \<noteq> am_slug app) (pd_catalog db))
       (ErrAppsUpstream ''save app metadata'')) (\<lambda>_.
     and_then (\<lambda>db. (Inr (), db\<lparr>pd_catalog := upsert_catalog (pd_now db) app (pd_catalog db)\<rparr>)) (\<lambda>_.
     and_then sql_read_catalog (\<lambda>items.
     demand (find (\<lambda>item. am_slug item = am_slug app) items)
       (ErrAppsUpstream ''saved app metadata was not found''))))))"

definition sql_save_intent :: "install_intent \<Rightarrow> install_intent apps_tx" where
  "sql_save_intent intent =
     and_then (require_none_tx (validate_install_intent intent)) (\<lambda>_.
     reading (\<lambda>db.
     and_then (check (fits_int4 (ii_user intent) \<and>
         \<not> list_ex (\<lambda>w. iw_ref w = ii_ref intent) (pd_intents db) \<and> catalog_entry (ii_app intent) db \<noteq> None)
       (ErrAppsUpstream ''save app install intent'')) (\<lambda>_ db.
     let w = \<lparr>iw_ref = ii_ref intent, iw_user = ii_user intent, iw_app = ii_app intent,
           iw_status = ii_status intent, iw_created_at = pd_now db, iw_updated_at = pd_now db\<rparr>
     in (Inr (scan_intent w), db\<lparr>pd_intents := pd_intents db @ [w]\<rparr>))))"

definition find_intent :: "int \<Rightarrow> string \<Rightarrow> apps_db \<Rightarrow> intent_row option" where
  "find_intent user ref db = find (\<lambda>w. iw_ref w = ref \<and> iw_user w = user) (pd_intents db)"

definition set_intent_status :: "int \<Rightarrow> string \<Rightarrow> string \<Rightarrow> int \<Rightarrow> apps_db \<Rightarrow> apps_db" where
  "set_intent_status user ref status at db =
     db\<lparr>pd_intents := map (\<lambda>w. if iw_ref w = ref \<and> iw_user w = user
        then w\<lparr>iw_status := status, iw_updated_at := at\<rparr> else w) (pd_intents db)\<rparr>"

definition sql_mark_intent :: "int \<Rightarrow> string \<Rightarrow> install_intent apps_tx" where
  "sql_mark_intent user ref =
     and_then (check (\<not> (user \<le> 0 \<or> ref = [])) ErrInvalidInstallIntent) (\<lambda>_.
     and_then (check (fits_int4 user) (ErrAppsUpstream ''mark app install intent external auth'')) (\<lambda>_ db.
     case find_intent user ref db of
       None \<Rightarrow> (Inl ErrInstallIntentNotFound, db)
     | Some w \<Rightarrow>
         if iw_status w = st_pending \<or> iw_status w = st_requires_auth
         then (Inr (scan_intent (w\<lparr>iw_status := st_requires_auth, iw_updated_at := pd_now db\<rparr>)),
               set_intent_status user ref st_requires_auth (pd_now db) db)
         else if iw_status w = st_installed \<or> iw_status w = st_blocked then (Inl ErrInstallIntentNotReady, db)
         else (Inl ErrInstallIntentNotFound, db)))"

section \<open>Handoff sessions and previews\<close>

definition sql_save_session :: "auth_session \<Rightarrow> auth_session apps_tx" where
  "sql_save_session session =
     and_then (check (\<not> (blank (xs_ref session) \<or> blank (xs_intent session) \<or> xs_user session \<le> 0 \<or>
       blank (xs_expires_at session))) ErrInvalidInstallIntent) (\<lambda>_.
     and_then (demand (parse_wire (xs_expires_at session)) ErrInvalidInstallIntent) (\<lambda>expires_at.
     reading (\<lambda>db.
     and_then (check (fits_int4 (xs_user session) \<and>
         \<not> list_ex (\<lambda>w. hw_ref w = xs_ref session) (pd_sessions db) \<and>
         list_ex (\<lambda>i. iw_ref i = xs_intent session) (pd_intents db))
       (ErrAppsUpstream ''save external auth handoff session'')) (\<lambda>_ db.
     let w = \<lparr>hw_ref = xs_ref session, hw_intent = xs_intent session, hw_user = xs_user session,
           hw_expires_at = pg_instant expires_at, hw_consumed_at = None, hw_created_at = pd_now db,
           hw_updated_at = pd_now db\<rparr>
     in (Inr (scan_session w), db\<lparr>pd_sessions := pd_sessions db @ [w]\<rparr>)))))"

definition find_session :: "int \<Rightarrow> string \<Rightarrow> string \<Rightarrow> apps_db \<Rightarrow> session_row option" where
  "find_session user ref state_ref db =
     find (\<lambda>w. hw_ref w = state_ref \<and> hw_intent w = ref \<and> hw_user w = user) (pd_sessions db)"

definition set_session_consumed :: "int \<Rightarrow> string \<Rightarrow> string \<Rightarrow> int \<Rightarrow> apps_db \<Rightarrow> apps_db" where
  "set_session_consumed user ref state_ref at db =
     db\<lparr>pd_sessions := map (\<lambda>w. if hw_ref w = state_ref \<and> hw_intent w = ref \<and> hw_user w = user
        then w\<lparr>hw_consumed_at := Some at, hw_updated_at := pd_now db\<rparr> else w) (pd_sessions db)\<rparr>"

text \<open>The update of a session that is neither consumed nor expired, and why it may miss.\<close>

definition consume_session_row :: "string \<Rightarrow> int \<Rightarrow> string \<Rightarrow> string \<Rightarrow> gotime \<Rightarrow> session_row apps_tx" where
  "consume_session_row label user ref state_ref at db =
     (case find_session user ref state_ref db of
        None \<Rightarrow> (Inl ErrExternalAuthSessionNotFound, db)
      | Some w \<Rightarrow>
          if hw_consumed_at w = None \<and> pg_instant at < hw_expires_at w
          then (Inr (w\<lparr>hw_consumed_at := Some (pg_instant at), hw_updated_at := pd_now db\<rparr>),
                set_session_consumed user ref state_ref (pg_instant at) db)
          else if xs_consumed_at (scan_session w) \<noteq> [] then (Inl ErrExternalAuthSessionConsumed, db)
          else (case parse_wire (xs_expires_at (scan_session w)) of
              None \<Rightarrow> (Inl (ErrAppsUpstream label), db)
            | Some expires_at \<Rightarrow>
                if \<not> after expires_at at then (Inl ErrExternalAuthSessionExpired, db)
                else (Inl ErrExternalAuthSessionNotFound, db)))"

definition sql_consume_session :: "int \<Rightarrow> string \<Rightarrow> string \<Rightarrow> gotime \<Rightarrow> auth_session apps_tx" where
  "sql_consume_session user ref state_ref consumed_at =
     and_then (check (\<not> (user \<le> 0 \<or> blank ref \<or> blank state_ref)) ErrInvalidInstallIntent) (\<lambda>_.
     and_then (check (fits_int4 user) (ErrAppsUpstream ''consume external auth handoff session'')) (\<lambda>_.
     and_then (consume_session_row ''parse external auth handoff session expiry'' user ref state_ref (utc consumed_at)) (\<lambda>w.
     return_ok (scan_session w))))"

definition insert_preview :: "auth_preview \<Rightarrow> gotime \<Rightarrow> auth_preview apps_tx" where
  "insert_preview preview requested_at db =
     (if list_ex (\<lambda>w. vw_state w = pv_state_ref preview) (pd_previews db)
      then (Inl ErrExternalAuthSessionConsumed, db)
      else if list_ex (\<lambda>w. vw_ref w = pv_ref preview) (pd_previews db) \<or>
        \<not> list_ex (\<lambda>i. iw_ref i = pv_intent preview) (pd_intents db)
      then (Inl (ErrAppsUpstream ''save external auth authorization preview''), db)
      else (Inr (preview\<lparr>pv_created_at := apps_wire_time (pd_now db), pv_updated_at := apps_wire_time (pd_now db)\<rparr>),
        db\<lparr>pd_previews := pd_previews db @
          [\<lparr>vw_ref = pv_ref preview, vw_state = pv_state_ref preview, vw_intent = pv_intent preview,
            vw_user = pv_user preview, vw_app = pv_app preview, vw_provider = pv_provider preview,
            vw_auth_type = pv_auth_type preview, vw_scopes = pv_scopes preview, vw_status = pv_status preview,
            vw_requested_at = pg_instant requested_at, vw_created_at = pd_now db, vw_updated_at = pd_now db\<rparr>]\<rparr>))"

definition sql_save_preview ::
    "install_intent \<Rightarrow> app_metadata \<Rightarrow> string \<Rightarrow> gotime \<Rightarrow> auth_preview apps_tx" where
  "sql_save_preview intent app state_ref requested_at = with_tx
     (and_then (check (\<not> (ii_user intent \<le> 0 \<or> blank (ii_ref intent) \<or> blank (ii_app intent) \<or>
        blank (am_provider app) \<or> blank (am_auth_type app) \<or> blank state_ref)) ErrInvalidInstallIntent) (\<lambda>_.
      and_then (check (fits_int4 (ii_user intent))
        (ErrAppsUpstream ''consume external auth authorization preview session'')) (\<lambda>_.
      and_then (consume_session_row ''parse external auth authorization preview expiry''
        (ii_user intent) (ii_ref intent) state_ref (utc requested_at)) (\<lambda>w.
      reading (\<lambda>db.
      insert_preview (new_auth_preview intent app (scan_session w) (utc requested_at) (pd_entropy db))
        (utc requested_at))))))"

section \<open>Callback preflights\<close>

definition preflight_row_of :: "callback_preflight \<Rightarrow> gotime \<Rightarrow> int \<Rightarrow> preflight_row" where
  "preflight_row_of p at now =
     \<lparr>lw_ref = cp_ref p, lw_state = cp_state_ref p, lw_intent = cp_intent p, lw_user = cp_user p,
     lw_app = cp_app p, lw_provider = cp_provider p, lw_callback_status = cp_callback_status p,
     lw_status = cp_status p, lw_received_at = pg_instant at, lw_created_at = now,
     lw_updated_at = now\<rparr>"

definition insert_preflight :: "callback_preflight \<Rightarrow> gotime \<Rightarrow> callback_preflight apps_tx" where
  "insert_preflight p received_at db =
     (if list_ex (\<lambda>w. lw_state w = cp_state_ref p) (pd_preflights db)
      then (Inl ErrExternalAuthCallbackPreflightConsumed, db)
      else if list_ex (\<lambda>w. lw_ref w = cp_ref p) (pd_preflights db) \<or>
        \<not> list_ex (\<lambda>i. iw_ref i = cp_intent p) (pd_intents db)
      then (Inl (ErrAppsUpstream ''save external auth callback preflight''), db)
      else let w = preflight_row_of p received_at (pd_now db)
        in (Inr (scan_preflight w), db\<lparr>pd_preflights := pd_preflights db @ [w]\<rparr>))"

definition sql_save_preflight :: "callback_preflight \<Rightarrow> gotime \<Rightarrow> callback_preflight apps_tx" where
  "sql_save_preflight p received_at = with_tx
     (and_then (check (\<not> (blank (cp_ref p) \<or> blank (cp_intent p) \<or> blank (cp_state_ref p) \<or> blank (cp_app p) \<or>
        blank (cp_provider p) \<or> cp_user p \<le> 0 \<or> \<not> is_valid_callback_status (cp_callback_status p)))
        ErrInvalidExternalAuthCallbackPreflight) (\<lambda>_.
      and_then (check (fits_int4 (cp_user p))
        (ErrAppsUpstream ''read external auth callback preflight session'')) (\<lambda>_.
      reading (\<lambda>db.
      and_then (demand (find_session (cp_user p) (cp_intent p) (cp_state_ref p) db)
        ErrExternalAuthSessionNotFound) (\<lambda>session.
      and_then (demand (parse_wire (xs_expires_at (scan_session session)))
        (ErrAppsUpstream ''parse external auth callback preflight expiry'')) (\<lambda>expires_at.
      and_then (check (after expires_at (utc received_at)) ErrExternalAuthSessionExpired) (\<lambda>_.
      and_then (insert_preflight p (utc received_at)) (\<lambda>saved db.
      (Inr saved,
       if hw_consumed_at session = None
       then set_session_consumed (cp_user p) (cp_intent p) (cp_state_ref p) (pg_instant (utc received_at)) db
       else db)))))))))"

section \<open>Provider exchanges\<close>

definition exchange_row_of :: "provider_exchange \<Rightarrow> gotime \<Rightarrow> int \<Rightarrow> exchange_row" where
  "exchange_row_of x at now =
     \<lparr>gw_ref = px_ref x, gw_preflight = px_preflight x, gw_state = px_state_ref x,
     gw_intent = px_intent x, gw_user = px_user x, gw_app = px_app x, gw_provider = px_provider x,
     gw_status = px_status x, gw_mode = px_mode x, gw_recorded_at = pg_instant at,
     gw_created_at = now, gw_updated_at = now\<rparr>"

definition insert_exchange :: "provider_exchange \<Rightarrow> gotime \<Rightarrow> provider_exchange apps_tx" where
  "insert_exchange x recorded_at db =
     (if list_ex (\<lambda>w. gw_preflight w = px_preflight x) (pd_exchanges db)
      then (Inl ErrExternalAuthProviderExchangeRecorded, db)
      else if list_ex (\<lambda>w. gw_ref w = px_ref x \<or> gw_state w = px_state_ref x) (pd_exchanges db)
      then (Inl (ErrAppsUpstream ''save external auth provider exchange''), db)
      else let w = exchange_row_of x recorded_at (pd_now db)
        in (Inr (scan_exchange w), db\<lparr>pd_exchanges := pd_exchanges db @ [w]\<rparr>))"

definition expected_exchange_status :: "string \<Rightarrow> string \<Rightarrow> string" where
  "expected_exchange_status mode callback_status =
     (if mode = mode_oauth then ex_ready else if callback_status = cb_denied then ex_blocked else ex_queued)"

definition sql_save_exchange :: "provider_exchange \<Rightarrow> gotime \<Rightarrow> provider_exchange apps_tx" where
  "sql_save_exchange x recorded_at = with_tx
     (and_then (check (\<not> (blank (px_ref x) \<or> blank (px_intent x) \<or> blank (px_state_ref x) \<or>
        blank (px_preflight x) \<or> blank (px_app x) \<or> blank (px_provider x) \<or> px_user x \<le> 0 \<or>
        \<not> is_valid_mode (px_mode x) \<or> (px_status x \<noteq> [] \<and> \<not> is_valid_exchange_status (px_status x))))
        ErrInvalidExternalAuthProviderExchange) (\<lambda>_.
      and_then (check (fits_int4 (px_user x))
        (ErrAppsUpstream ''read external auth provider exchange preflight'')) (\<lambda>_.
      reading (\<lambda>db.
      and_then (demand (find (\<lambda>w. lw_ref w = px_preflight x \<and> lw_state w = px_state_ref x \<and>
          lw_intent w = px_intent x \<and> lw_user w = px_user x) (pd_preflights db))
        ErrExternalAuthCallbackPreflightNotFound) (\<lambda>p.
      and_then (check (\<not> (lw_app p \<noteq> px_app x \<or> lw_provider p \<noteq> px_provider x))
        ErrInvalidExternalAuthProviderExchange) (\<lambda>_.
      and_then (check (\<not> (px_mode x = mode_oauth \<and> lw_callback_status p \<noteq> cb_authorized))
        ErrProviderOAuthExchangeDenied) (\<lambda>_.
      let expected = expected_exchange_status (px_mode x) (lw_callback_status p) in
      and_then (check (\<not> (px_status x \<noteq> [] \<and> px_status x \<noteq> expected)) ErrInvalidExternalAuthProviderExchange) (\<lambda>_.
      insert_exchange (x\<lparr>px_status := expected\<rparr>) (utc recorded_at)))))))))"

section \<open>Completions\<close>

definition completion_row_of :: "install_completion \<Rightarrow> gotime \<Rightarrow> int \<Rightarrow> completion_row" where
  "completion_row_of c at now =
     \<lparr>mw_ref = ic_ref c, mw_exchange = ic_exchange c, mw_intent = ic_intent c, mw_user = ic_user c,
     mw_app = ic_app c, mw_provider = ic_provider c, mw_status = ic_status c, mw_mode = ic_mode c,
     mw_completed_at = pg_instant at, mw_created_at = now, mw_updated_at = now\<rparr>"

definition insert_completion :: "install_completion \<Rightarrow> gotime \<Rightarrow> install_completion apps_tx" where
  "insert_completion c completed_at db =
     (if list_ex (\<lambda>w. mw_exchange w = ic_exchange c) (pd_completions db)
      then (Inl ErrAppInstallCompletionRecorded, db)
      else if list_ex (\<lambda>w. mw_ref w = ic_ref c \<or> mw_intent w = ic_intent c) (pd_completions db)
      then (Inl (ErrAppsUpstream ''save app install completion''), db)
      else let w = completion_row_of c completed_at (pd_now db)
        in (Inr (scan_completion w), db\<lparr>pd_completions := pd_completions db @ [w]\<rparr>))"

definition find_exchange_row :: "int \<Rightarrow> string \<Rightarrow> string \<Rightarrow> apps_db \<Rightarrow> (exchange_row \<times> intent_row) option" where
  "find_exchange_row user ref exchange_ref db =
     Option.bind (find (\<lambda>w. gw_ref w = exchange_ref \<and> gw_intent w = ref \<and> gw_user w = user) (pd_exchanges db)) (\<lambda>x.
       map_option (Pair x) (find (\<lambda>i. iw_ref i = gw_intent x) (pd_intents db)))"

definition sql_save_completion :: "install_completion \<Rightarrow> gotime \<Rightarrow> install_completion apps_tx" where
  "sql_save_completion c completed_at = with_tx
     (and_then (check (\<not> (blank (ic_ref c) \<or> blank (ic_intent c) \<or> blank (ic_exchange c) \<or> blank (ic_app c) \<or>
        blank (ic_provider c) \<or> ic_user c \<le> 0 \<or> (ic_mode c \<noteq> [] \<and> \<not> is_valid_mode (ic_mode c)) \<or>
        (ic_status c \<noteq> [] \<and> ic_status c \<noteq> st_installed \<and> ic_status c \<noteq> st_blocked)))
        ErrInvalidAppInstallCompletion) (\<lambda>_.
      and_then (check (fits_int4 (ic_user c))
        (ErrAppsUpstream ''read app install completion provider exchange'')) (\<lambda>_.
      reading (\<lambda>db.
      and_then (demand (find_exchange_row (ic_user c) (ic_intent c) (ic_exchange c) db)
        ErrExternalAuthProviderExchangeNotFound) (\<lambda>(x, i).
      and_then (check (\<not> (iw_app i \<noteq> ic_app c \<or> gw_provider x \<noteq> ic_provider c))
        ErrInvalidAppInstallCompletion) (\<lambda>_.
      and_then (check (\<not> list_ex (\<lambda>w. (mw_exchange w = ic_exchange c \<or>
          (mw_intent w = ic_intent c \<and> mw_user w = ic_user c)) \<and> mw_ref w \<noteq> []) (pd_completions db))
        ErrAppInstallCompletionRecorded) (\<lambda>_.
      and_then (check (iw_status i = st_requires_auth) ErrInstallIntentNotReady) (\<lambda>_.
      let status = (if gw_status x = ex_blocked then st_blocked else st_installed) in
      and_then (check (\<not> (ic_status c \<noteq> [] \<and> ic_status c \<noteq> status)) ErrInvalidAppInstallCompletion) (\<lambda>_.
      let mode = (if gw_mode x = mode_oauth then mode_oauth else mode_simulated) in
      and_then (check (\<not> (ic_mode c \<noteq> [] \<and> ic_mode c \<noteq> mode)) ErrInvalidAppInstallCompletion) (\<lambda>_.
      and_then (insert_completion (c\<lparr>ic_status := status, ic_mode := mode\<rparr>) (utc completed_at)) (\<lambda>saved db.
      (Inr saved, set_intent_status (ic_user c) (ic_intent c) status (pg_instant (utc completed_at)) db))))))))))))"

section \<open>Installations\<close>

definition installation_row_of :: "app_installation \<Rightarrow> gotime \<Rightarrow> int \<Rightarrow> installation_row" where
  "installation_row_of a at now =
     \<lparr>nw_ref = ai_ref a, nw_completion = ai_completion a, nw_intent = ai_intent a,
     nw_user = ai_user a, nw_app = ai_app a, nw_provider = ai_provider a, nw_status = ai_status a,
     nw_mode = ai_mode a, nw_activated_at = pg_instant at, nw_created_at = now,
     nw_updated_at = now\<rparr>"

definition insert_installation :: "app_installation \<Rightarrow> catalog_row \<Rightarrow> gotime \<Rightarrow> app_installation apps_tx" where
  "insert_installation a c activated_at db =
     (if ai_status a \<noteq> ''active'' then (Inl (ErrAppsUpstream ''save app installation''), db)
      else if list_ex (\<lambda>w. nw_completion w = ai_completion a) (pd_installations db)
      then (Inl ErrAppInstallationRecorded, db)
      else if list_ex (\<lambda>w. nw_ref w = ai_ref a \<or> nw_intent w = ai_intent a) (pd_installations db)
      then (Inl (ErrAppsUpstream ''save app installation''), db)
      else let w = installation_row_of a activated_at (pd_now db)
        in (Inr (scan_installation w c), db\<lparr>pd_installations := pd_installations db @ [w]\<rparr>))"

definition find_completion_row ::
    "int \<Rightarrow> string \<Rightarrow> string \<Rightarrow> apps_db \<Rightarrow> (completion_row \<times> intent_row \<times> catalog_row) option" where
  "find_completion_row user ref completion_ref db =
     Option.bind (find (\<lambda>w. mw_ref w = completion_ref \<and> mw_intent w = ref \<and> mw_user w = user)
       (pd_completions db)) (\<lambda>m.
     Option.bind (find (\<lambda>i. iw_ref i = mw_intent m) (pd_intents db)) (\<lambda>i.
     map_option (\<lambda>c. (m, i, c)) (catalog_entry (iw_app i) db)))"

definition sql_save_installation :: "app_installation \<Rightarrow> gotime \<Rightarrow> app_installation apps_tx" where
  "sql_save_installation a activated_at = with_tx
     (and_then (check (\<not> (blank (ai_ref a) \<or> blank (ai_intent a) \<or> blank (ai_completion a) \<or> blank (ai_app a) \<or>
        blank (ai_provider a) \<or> ai_user a \<le> 0 \<or> trim_space (ai_status a) \<noteq> ''active'' \<or>
        (ai_mode a \<noteq> [] \<and> \<not> is_valid_mode (ai_mode a)))) ErrInvalidAppInstallation) (\<lambda>_.
      and_then (check (fits_int4 (ai_user a)) (ErrAppsUpstream ''read app installation completion'')) (\<lambda>_.
      reading (\<lambda>db.
      and_then (demand (find_completion_row (ai_user a) (ai_intent a) (ai_completion a) db)
        ErrAppInstallCompletionNotFound) (\<lambda>(m, i, c).
      and_then (check (\<not> (iw_app i \<noteq> ai_app a \<or> cg_provider c \<noteq> ai_provider a)) ErrInvalidAppInstallation) (\<lambda>_.
      and_then (check (\<not> (iw_status i \<noteq> st_installed \<or> mw_status m \<noteq> st_installed))
        ErrAppInstallCompletionNotReady) (\<lambda>_.
      let mode = (if mw_mode m = mode_oauth then mode_oauth else mode_simulated) in
      and_then (check (\<not> (ai_mode a \<noteq> [] \<and> ai_mode a \<noteq> mode)) ErrInvalidAppInstallation) (\<lambda>_.
      and_then (check (\<not> list_ex (\<lambda>(w, c). nw_ref w \<noteq> [])
          (joined_installations (\<lambda>w. nw_completion w = ai_completion a \<or>
            (nw_intent w = ai_intent a \<and> nw_user w = ai_user a)) db)) ErrAppInstallationRecorded) (\<lambda>_.
      insert_installation (a\<lparr>ai_mode := mode\<rparr>) c (utc activated_at))))))))))"

section \<open>The repository\<close>

definition sql_apps_repository :: "apps_db apps_repository" where
  "sql_apps_repository =
     \<lparr>rp_read_catalog = sql_read_catalog, rp_read_intents = sql_read_intents,
      rp_read_installations = sql_read_installations, rp_read_progress = sql_read_progress,
      rp_read_preflight = sql_read_preflight, rp_read_preflight_by_state = sql_read_preflight_by_state,
      rp_read_exchange_by_preflight = sql_read_exchange_by_preflight, rp_save_metadata = sql_save_metadata,
      rp_save_intent = sql_save_intent, rp_mark_intent = sql_mark_intent, rp_save_session = sql_save_session,
      rp_consume_session = sql_consume_session, rp_save_preview = sql_save_preview,
      rp_save_preflight = sql_save_preflight, rp_save_exchange = sql_save_exchange,
      rp_save_completion = sql_save_completion, rp_save_installation = sql_save_installation\<rparr>"

end
