(* ===== verification/AppsTables.thy ===== *)
theory AppsTables
  imports AppsWrites
begin

text \<open>
  The invariant of the app-install tables under any sequence of the repository's statements, whoever
  calls them: the rows are keyed, and an installation has behind it one user's chain of completion,
  exchange, authorized callback and consumed handoff session.
\<close>

section \<open>Linked rows\<close>

definition preflight_row_ok :: "apps_db \<Rightarrow> preflight_row \<Rightarrow> bool" where
  "preflight_row_ok db p \<longleftrightarrow> is_valid_callback_status (lw_callback_status p) \<and>
     (\<exists>h \<in> set (pd_sessions db). hw_ref h = lw_state p \<and> hw_intent h = lw_intent p \<and> hw_user h = lw_user p \<and>
        hw_consumed_at h \<noteq> None)"

definition exchange_row_ok :: "apps_db \<Rightarrow> exchange_row \<Rightarrow> bool" where
  "exchange_row_ok db x \<longleftrightarrow> (\<exists>p \<in> set (pd_preflights db). lw_ref p = gw_preflight x \<and> lw_state p = gw_state x \<and>
     lw_intent p = gw_intent x \<and> lw_user p = gw_user x \<and>
     (gw_status x \<noteq> ex_blocked \<longrightarrow> lw_callback_status p = cb_authorized))"

definition completion_row_ok :: "apps_db \<Rightarrow> completion_row \<Rightarrow> bool" where
  "completion_row_ok db m \<longleftrightarrow> (\<exists>x \<in> set (pd_exchanges db). gw_ref x = mw_exchange m \<and> gw_intent x = mw_intent m \<and>
     gw_user x = mw_user m \<and> (mw_status m = st_installed \<longrightarrow> gw_status x \<noteq> ex_blocked))"

definition installation_row_ok :: "apps_db \<Rightarrow> installation_row \<Rightarrow> bool" where
  "installation_row_ok db n \<longleftrightarrow> nw_status n = ''active'' \<and>
     (\<exists>m \<in> set (pd_completions db). mw_ref m = nw_completion n \<and> mw_intent m = nw_intent n \<and>
        mw_user m = nw_user n \<and> mw_status m = st_installed) \<and>
     (\<exists>i \<in> set (pd_intents db). iw_ref i = nw_intent n \<and> iw_status i = st_installed)"

definition apps_keys_ok :: "apps_db \<Rightarrow> bool" where
  "apps_keys_ok db \<longleftrightarrow> distinct (map iw_ref (pd_intents db)) \<and> distinct (map hw_ref (pd_sessions db)) \<and>
     distinct (map lw_ref (pd_preflights db)) \<and> distinct (map lw_state (pd_preflights db)) \<and>
     distinct (map gw_ref (pd_exchanges db)) \<and> distinct (map gw_preflight (pd_exchanges db)) \<and>
     distinct (map mw_ref (pd_completions db)) \<and> distinct (map mw_intent (pd_completions db)) \<and>
     distinct (map nw_ref (pd_installations db)) \<and> distinct (map nw_intent (pd_installations db))"

definition apps_tables_ok :: "apps_db \<Rightarrow> bool" where
  "apps_tables_ok db \<longleftrightarrow> apps_keys_ok db \<and> list_all (preflight_row_ok db) (pd_preflights db) \<and>
     list_all (exchange_row_ok db) (pd_exchanges db) \<and> list_all (completion_row_ok db) (pd_completions db) \<and>
     list_all (installation_row_ok db) (pd_installations db)"

text \<open>How the tables change: rows are added; what the links rest on stays.\<close>

definition apps_tables_grow :: "apps_db \<Rightarrow> apps_db \<Rightarrow> bool" where
  "apps_tables_grow db db' \<longleftrightarrow>
     set (pd_preflights db) \<subseteq> set (pd_preflights db') \<and> set (pd_exchanges db) \<subseteq> set (pd_exchanges db') \<and>
     set (pd_completions db) \<subseteq> set (pd_completions db') \<and>
     (\<forall>h \<in> set (pd_sessions db). hw_consumed_at h \<noteq> None \<longrightarrow> (\<exists>h' \<in> set (pd_sessions db').
        hw_ref h' = hw_ref h \<and> hw_intent h' = hw_intent h \<and> hw_user h' = hw_user h \<and> hw_consumed_at h' \<noteq> None)) \<and>
     (\<forall>i \<in> set (pd_intents db). iw_status i = st_installed \<longrightarrow> (\<exists>i' \<in> set (pd_intents db').
        iw_ref i' = iw_ref i \<and> iw_status i' = st_installed))"

lemma rows_ok_mono:
  assumes "apps_tables_grow db db'"
  shows "preflight_row_ok db p \<Longrightarrow> preflight_row_ok db' p" "exchange_row_ok db x \<Longrightarrow> exchange_row_ok db' x"
    "completion_row_ok db m \<Longrightarrow> completion_row_ok db' m" "installation_row_ok db n \<Longrightarrow> installation_row_ok db' n"
proof -
  note g = assms [unfolded apps_tables_grow_def]
  show "preflight_row_ok db' p" if p: "preflight_row_ok db p"
  proof -
    from p obtain h where h: "h \<in> set (pd_sessions db)" "hw_ref h = lw_state p" "hw_intent h = lw_intent p"
      "hw_user h = lw_user p" "hw_consumed_at h \<noteq> None" unfolding preflight_row_ok_def by blast
    from g have "\<forall>h \<in> set (pd_sessions db). hw_consumed_at h \<noteq> None \<longrightarrow> (\<exists>h' \<in> set (pd_sessions db').
        hw_ref h' = hw_ref h \<and> hw_intent h' = hw_intent h \<and> hw_user h' = hw_user h \<and> hw_consumed_at h' \<noteq> None)"
      by blast
    from bspec [OF this h(1)] h(5) obtain h' where "h' \<in> set (pd_sessions db')" "hw_ref h' = hw_ref h"
      "hw_intent h' = hw_intent h" "hw_user h' = hw_user h" "hw_consumed_at h' \<noteq> None" by blast
    then have "h' \<in> set (pd_sessions db') \<and> hw_ref h' = lw_state p \<and> hw_intent h' = lw_intent p \<and>
      hw_user h' = lw_user p \<and> hw_consumed_at h' \<noteq> None" using h by simp
    with p show ?thesis unfolding preflight_row_ok_def by blast
  qed
  show "exchange_row_ok db' x" if "exchange_row_ok db x"
    using that g unfolding exchange_row_ok_def by blast
  show "completion_row_ok db' m" if "completion_row_ok db m"
    using that g unfolding completion_row_ok_def by blast
  show "installation_row_ok db' n" if n: "installation_row_ok db n"
  proof -
    from g have "\<forall>i \<in> set (pd_intents db). iw_status i = st_installed \<longrightarrow> (\<exists>i' \<in> set (pd_intents db').
        iw_ref i' = iw_ref i \<and> iw_status i' = st_installed)" "set (pd_completions db) \<subseteq> set (pd_completions db')"
      by blast+
    moreover from n obtain i m where i: "i \<in> set (pd_intents db)" "iw_ref i = nw_intent n" "iw_status i = st_installed"
      and m: "m \<in> set (pd_completions db)" "mw_ref m = nw_completion n" "mw_intent m = nw_intent n"
        "mw_user m = nw_user n" "mw_status m = st_installed"
      and a: "nw_status n = ''active''" unfolding installation_row_ok_def by blast
    ultimately obtain i' where "i' \<in> set (pd_intents db')" "iw_ref i' = iw_ref i" "iw_status i' = st_installed"
      by blast
    moreover have "m \<in> set (pd_completions db')" using g m(1) by blast
    ultimately show ?thesis using i m a unfolding installation_row_ok_def by force
  qed
qed

text \<open>The invariant after a change that adds at most the given rows.\<close>

lemma apps_tables_okI:
  assumes "apps_tables_ok db" "apps_tables_grow db db'" "apps_keys_ok db'"
    and "\<And>p. p \<in> set (pd_preflights db') \<Longrightarrow> p \<in> set (pd_preflights db) \<or> preflight_row_ok db' p"
    and "\<And>x. x \<in> set (pd_exchanges db') \<Longrightarrow> x \<in> set (pd_exchanges db) \<or> exchange_row_ok db' x"
    and "\<And>m. m \<in> set (pd_completions db') \<Longrightarrow> m \<in> set (pd_completions db) \<or> completion_row_ok db' m"
    and "\<And>n. n \<in> set (pd_installations db') \<Longrightarrow> n \<in> set (pd_installations db) \<or> installation_row_ok db' n"
  shows "apps_tables_ok db'"
  using assms rows_ok_mono [OF assms(2)] unfolding apps_tables_ok_def list_all_iff by blast

section \<open>Changes of one table\<close>

lemma map_update_keys:
  assumes "\<And>w. f (g w) = f w"
  shows "map f (map (\<lambda>w. if P w then g w else w) ws) = map f ws"
  using assms by simp

lemma set_intent_status_keys [simp]:
  "map iw_ref (pd_intents (set_intent_status user ref status at db)) = map iw_ref (pd_intents db)"
  by (simp add: set_intent_status_def)

lemma set_session_consumed_keys [simp]:
  "map hw_ref (pd_sessions (set_session_consumed user ref state_ref at db)) = map hw_ref (pd_sessions db)"
  by (simp add: set_session_consumed_def)

lemma set_intent_status_same [simp]:
  "pd_sessions (set_intent_status user ref status at db) = pd_sessions db"
  "pd_preflights (set_intent_status user ref status at db) = pd_preflights db"
  "pd_exchanges (set_intent_status user ref status at db) = pd_exchanges db"
  "pd_completions (set_intent_status user ref status at db) = pd_completions db"
  "pd_installations (set_intent_status user ref status at db) = pd_installations db"
  by (simp_all add: set_intent_status_def)

lemma set_session_consumed_same [simp]:
  "pd_intents (set_session_consumed user ref state_ref at db) = pd_intents db"
  "pd_preflights (set_session_consumed user ref state_ref at db) = pd_preflights db"
  "pd_exchanges (set_session_consumed user ref state_ref at db) = pd_exchanges db"
  "pd_completions (set_session_consumed user ref state_ref at db) = pd_completions db"
  "pd_installations (set_session_consumed user ref state_ref at db) = pd_installations db"
  by (simp_all add: set_session_consumed_def)

lemma apps_tables_grow_refl [simp]: "apps_tables_grow db db"
  unfolding apps_tables_grow_def by blast

lemma grow_session_consumed: "apps_tables_grow db (set_session_consumed user ref state_ref at db)"
proof -
  have "\<exists>h' \<in> set (pd_sessions (set_session_consumed user ref state_ref at db)). hw_ref h' = hw_ref h \<and>
      hw_intent h' = hw_intent h \<and> hw_user h' = hw_user h \<and> hw_consumed_at h' \<noteq> None"
    if "h \<in> set (pd_sessions db)" "hw_consumed_at h \<noteq> None" for h
    using that unfolding set_session_consumed_def
    by (intro bexI [of _ "if hw_ref h = state_ref \<and> hw_intent h = ref \<and> hw_user h = user
      then h\<lparr>hw_consumed_at := Some at, hw_updated_at := pd_now db\<rparr> else h"]) simp_all
  then show ?thesis unfolding apps_tables_grow_def set_session_consumed_same set_intent_status_same by blast
qed

text \<open>An intent that is not installed may get any status.\<close>

lemma grow_intent_status:
  assumes "\<And>i. i \<in> set (pd_intents db) \<Longrightarrow> iw_ref i = ref \<Longrightarrow> iw_user i = user \<Longrightarrow> iw_status i \<noteq> st_installed"
  shows "apps_tables_grow db (set_intent_status user ref status at db)"
proof -
  have "\<exists>i' \<in> set (pd_intents (set_intent_status user ref status at db)). iw_ref i' = iw_ref i \<and>
      iw_status i' = st_installed"
    if "i \<in> set (pd_intents db)" "iw_status i = st_installed" for i
    using that assms [OF that(1)] unfolding set_intent_status_def by (intro bexI [of _ i]) auto
  then show ?thesis unfolding apps_tables_grow_def set_session_consumed_same set_intent_status_same by blast
qed

lemma session_consumed_ok:
  assumes "apps_tables_ok db"
  shows "apps_tables_ok (set_session_consumed user ref state_ref at db)"
proof (rule apps_tables_okI [OF assms grow_session_consumed])
  show "apps_keys_ok (set_session_consumed user ref state_ref at db)"
    using assms by (simp add: apps_tables_ok_def apps_keys_ok_def)
qed simp_all

lemma intent_status_ok:
  assumes "apps_tables_ok db"
    and "\<And>i. i \<in> set (pd_intents db) \<Longrightarrow> iw_ref i = ref \<Longrightarrow> iw_user i = user \<Longrightarrow> iw_status i \<noteq> st_installed"
  shows "apps_tables_ok (set_intent_status user ref status at db)"
proof (rule apps_tables_okI [OF assms(1) grow_intent_status])
  show "apps_keys_ok (set_intent_status user ref status at db)"
    using assms(1) by (simp add: apps_tables_ok_def apps_keys_ok_def)
qed (use assms(2) in simp_all)

lemma same_flow_ok:
  assumes "apps_tables_ok db"
    and "pd_intents db' = pd_intents db" "pd_sessions db' = pd_sessions db" "pd_preflights db' = pd_preflights db"
      "pd_exchanges db' = pd_exchanges db" "pd_completions db' = pd_completions db"
      "pd_installations db' = pd_installations db"
  shows "apps_tables_ok db'"
  using assms unfolding apps_tables_ok_def apps_keys_ok_def preflight_row_ok_def [abs_def]
    exchange_row_ok_def [abs_def] completion_row_ok_def [abs_def] installation_row_ok_def [abs_def]
  by simp

section \<open>The statements keep the invariant\<close>

lemma found: "find P xs = Some x \<Longrightarrow> x \<in> set xs \<and> P x"
  by (auto simp: find_Some_iff)

lemma tx_ok:
  assumes "apps_tables_ok db" "\<And>x db'. h db = (Inr x, db') \<Longrightarrow> apps_tables_ok db'"
  shows "apps_tables_ok (snd (with_tx h db))"
proof (cases "h db")
  case (Pair r db')
  with assms show ?thesis by (cases r) (simp_all add: with_tx_def)
qed

lemma save_metadata_flow:
  "sql_save_metadata app db = (res, db') \<Longrightarrow> db' = db \<or> (\<exists>c. db' = db\<lparr>pd_catalog := c\<rparr>)"
  by (cases res) (auto simp: sql_save_metadata_def require_none_tx_def handler_ok handler_err reading_ok reading_err
      sql_read_catalog_def split: option.splits)

lemma save_metadata_ok: "apps_tables_ok db \<Longrightarrow> apps_tables_ok (snd (sql_save_metadata app db))"
proof -
  assume ok: "apps_tables_ok db"
  obtain res db' where r: "sql_save_metadata app db = (res, db')" by fastforce
  from save_metadata_flow [OF r] show ?thesis
    by (elim disjE exE) (simp_all add: r ok same_flow_ok [OF ok])
qed

lemma insert_intent_ok:
  assumes "apps_tables_ok db" "iw_ref w \<notin> iw_ref ` set (pd_intents db)"
  shows "apps_tables_ok (db\<lparr>pd_intents := pd_intents db @ [w]\<rparr>)"
proof (rule apps_tables_okI [OF assms(1)])
  show "apps_tables_grow db (db\<lparr>pd_intents := pd_intents db @ [w]\<rparr>)" by (auto simp: apps_tables_grow_def)
  show "apps_keys_ok (db\<lparr>pd_intents := pd_intents db @ [w]\<rparr>)"
    using assms by (auto simp: apps_tables_ok_def apps_keys_ok_def)
qed simp_all

lemma insert_session_ok:
  assumes "apps_tables_ok db" "hw_ref w \<notin> hw_ref ` set (pd_sessions db)"
  shows "apps_tables_ok (db\<lparr>pd_sessions := pd_sessions db @ [w]\<rparr>)"
proof (rule apps_tables_okI [OF assms(1)])
  show "apps_tables_grow db (db\<lparr>pd_sessions := pd_sessions db @ [w]\<rparr>)" by (auto simp: apps_tables_grow_def)
  show "apps_keys_ok (db\<lparr>pd_sessions := pd_sessions db @ [w]\<rparr>)"
    using assms by (auto simp: apps_tables_ok_def apps_keys_ok_def)
qed simp_all

lemma insert_preflight_ok:
  assumes "apps_tables_ok db" "lw_ref w \<notin> lw_ref ` set (pd_preflights db)"
    "lw_state w \<notin> lw_state ` set (pd_preflights db)" "preflight_row_ok db w"
  shows "apps_tables_ok (db\<lparr>pd_preflights := pd_preflights db @ [w]\<rparr>)"
proof -
  have g: "apps_tables_grow db (db\<lparr>pd_preflights := pd_preflights db @ [w]\<rparr>)"
    by (auto simp: apps_tables_grow_def)
  have keys: "apps_keys_ok (db\<lparr>pd_preflights := pd_preflights db @ [w]\<rparr>)"
    using assms by (auto simp: apps_tables_ok_def apps_keys_ok_def)
  show ?thesis
    by (rule apps_tables_okI [OF assms(1) g keys]) (use rows_ok_mono(1) [OF g assms(4)] in auto)
qed

lemma insert_exchange_ok:
  assumes "apps_tables_ok db" "gw_ref w \<notin> gw_ref ` set (pd_exchanges db)"
    "gw_preflight w \<notin> gw_preflight ` set (pd_exchanges db)" "exchange_row_ok db w"
  shows "apps_tables_ok (db\<lparr>pd_exchanges := pd_exchanges db @ [w]\<rparr>)"
proof -
  have g: "apps_tables_grow db (db\<lparr>pd_exchanges := pd_exchanges db @ [w]\<rparr>)"
    by (auto simp: apps_tables_grow_def)
  have keys: "apps_keys_ok (db\<lparr>pd_exchanges := pd_exchanges db @ [w]\<rparr>)"
    using assms by (auto simp: apps_tables_ok_def apps_keys_ok_def)
  show ?thesis
    by (rule apps_tables_okI [OF assms(1) g keys]) (use rows_ok_mono(2) [OF g assms(4)] in auto)
qed

lemma insert_completion_ok:
  assumes "apps_tables_ok db" "mw_ref w \<notin> mw_ref ` set (pd_completions db)"
    "mw_intent w \<notin> mw_intent ` set (pd_completions db)" "completion_row_ok db w"
  shows "apps_tables_ok (db\<lparr>pd_completions := pd_completions db @ [w]\<rparr>)"
proof -
  have g: "apps_tables_grow db (db\<lparr>pd_completions := pd_completions db @ [w]\<rparr>)"
    by (auto simp: apps_tables_grow_def)
  have keys: "apps_keys_ok (db\<lparr>pd_completions := pd_completions db @ [w]\<rparr>)"
    using assms by (auto simp: apps_tables_ok_def apps_keys_ok_def)
  show ?thesis
    by (rule apps_tables_okI [OF assms(1) g keys]) (use rows_ok_mono(3) [OF g assms(4)] in auto)
qed

lemma insert_installation_ok:
  assumes "apps_tables_ok db" "nw_ref w \<notin> nw_ref ` set (pd_installations db)"
    "nw_intent w \<notin> nw_intent ` set (pd_installations db)" "installation_row_ok db w"
  shows "apps_tables_ok (db\<lparr>pd_installations := pd_installations db @ [w]\<rparr>)"
proof -
  have g: "apps_tables_grow db (db\<lparr>pd_installations := pd_installations db @ [w]\<rparr>)"
    by (auto simp: apps_tables_grow_def)
  have keys: "apps_keys_ok (db\<lparr>pd_installations := pd_installations db @ [w]\<rparr>)"
    using assms by (auto simp: apps_tables_ok_def apps_keys_ok_def)
  show ?thesis
    by (rule apps_tables_okI [OF assms(1) g keys]) (use rows_ok_mono(4) [OF g assms(4)] in auto)
qed

text \<open>A statement outside a transaction changes nothing when it fails.\<close>

lemma save_intent_ok: "apps_tables_ok db \<Longrightarrow> apps_tables_ok (snd (sql_save_intent intent db))"
  by (cases "validate_install_intent intent")
    (auto simp: sql_save_intent_def require_none_tx_def and_then_def reading_def check_def Let_def list_ex_iff
      intro!: insert_intent_ok)

lemma mark_row_ok:
  assumes "apps_tables_ok db"
  shows "apps_tables_ok (snd (sql_mark_intent user ref db))"
proof (cases "find_intent user ref db")
  case None
  with assms show ?thesis by (simp add: sql_mark_intent_def and_then_def check_def)
next
  case (Some w)
  from found [OF Some [unfolded find_intent_def]] have w: "w \<in> set (pd_intents db)" "iw_ref w = ref" by blast+
  have same: "i = w" if "i \<in> set (pd_intents db)" "iw_ref i = ref" for i
    using assms that w unfolding apps_tables_ok_def apps_keys_ok_def by (auto simp: distinct_map inj_on_def)
  have "apps_tables_ok (set_intent_status user ref st_requires_auth (pd_now db) db)"
    if "iw_status w = st_pending \<or> iw_status w = st_requires_auth"
    using same that by (intro intent_status_ok [OF assms]) auto
  with Some assms show ?thesis by (auto simp: sql_mark_intent_def and_then_def check_def)
qed

lemma save_session_ok: "apps_tables_ok db \<Longrightarrow> apps_tables_ok (snd (sql_save_session session db))"
  by (cases "parse_wire (xs_expires_at session)")
    (auto simp: sql_save_session_def and_then_def reading_def check_def demand_def Let_def list_ex_iff
      intro!: insert_session_ok)

lemma consume_session_row_db:
  "consume_session_row label user ref state_ref at db = (res, db') \<Longrightarrow>
     db' = db \<or> (\<exists>n. db' = set_session_consumed user ref state_ref n db)"
  by (auto simp: consume_session_row_def Let_def split: option.splits if_splits)

lemma consume_row_ok:
  "apps_tables_ok db \<Longrightarrow> consume_session_row label user ref state_ref at db = (res, db') \<Longrightarrow> apps_tables_ok db'"
  by (auto dest!: consume_session_row_db intro: session_consumed_ok)

lemma save_consume_ok: "apps_tables_ok db \<Longrightarrow> apps_tables_ok (snd (sql_consume_session user ref state_ref at db))"
  by (cases "consume_session_row ''parse external auth handoff session expiry'' user ref state_ref (utc at) db")
    (auto simp: sql_consume_session_def and_then_def check_def return_ok_def intro: consume_row_ok split: sum.splits)

lemma insert_preview_db:
  "insert_preview preview at db = (Inr x, db') \<Longrightarrow> \<exists>ws. db' = db\<lparr>pd_previews := ws\<rparr>"
  by (auto simp: insert_preview_def split: if_splits)

lemma save_preview_ok:
  assumes "apps_tables_ok db"
  shows "apps_tables_ok (snd (sql_save_preview intent app state_ref at db))"
  unfolding sql_save_preview_def
proof (rule tx_ok [OF assms], goal_cases)
  case (1 x db')
  then obtain res db1 ws where "consume_session_row ''parse external auth authorization preview expiry''
      (ii_user intent) (ii_ref intent) state_ref (utc at) db = (res, db1)" "db' = db1\<lparr>pd_previews := ws\<rparr>"
    by (auto simp: handler_ok reading_ok dest!: insert_preview_db)
  then have "apps_tables_ok db1" using consume_row_ok [OF assms] by blast
  then show ?case by (rule same_flow_ok) (simp_all add: \<open>db' = db1\<lparr>pd_previews := ws\<rparr>\<close>)
qed

lemma find_session_found:
  "find_session user ref state_ref db = Some h \<Longrightarrow> h \<in> set (pd_sessions db) \<and> hw_ref h = state_ref \<and>
     hw_intent h = ref \<and> hw_user h = user"
  by (auto simp: find_session_def dest!: found)

lemma list_ex_key:
  "list_ex (\<lambda>w. f w = k) ws \<longleftrightarrow> k \<in> f ` set ws"
  "list_ex (\<lambda>w. f w = k \<or> g w = l) ws \<longleftrightarrow> k \<in> f ` set ws \<or> l \<in> g ` set ws"
  by (auto simp: list_ex_iff)

lemma insert_preflight_iff:
  "insert_preflight p at db = (Inr x, db') \<longleftrightarrow> cp_state_ref p \<notin> lw_state ` set (pd_preflights db) \<and>
     cp_ref p \<notin> lw_ref ` set (pd_preflights db) \<and> cp_intent p \<in> iw_ref ` set (pd_intents db) \<and>
     x = scan_preflight (preflight_row_of p at (pd_now db)) \<and>
     db' = db\<lparr>pd_preflights := pd_preflights db @ [preflight_row_of p at (pd_now db)]\<rparr>"
  by (auto simp: insert_preflight_def Let_def list_ex_key)

lemma preflight_row_of_simps [simp]:
  "lw_ref (preflight_row_of p at now) = cp_ref p" "lw_state (preflight_row_of p at now) = cp_state_ref p"
  "lw_intent (preflight_row_of p at now) = cp_intent p" "lw_user (preflight_row_of p at now) = cp_user p"
  "lw_callback_status (preflight_row_of p at now) = cp_callback_status p"
  by (simp_all add: preflight_row_of_def)

lemma consumed_session:
  assumes "h \<in> set (pd_sessions db)" "hw_ref h = state_ref" "hw_intent h = ref" "hw_user h = user"
  shows "\<exists>h' \<in> set (pd_sessions (set_session_consumed user ref state_ref at db)). hw_ref h' = state_ref \<and>
    hw_intent h' = ref \<and> hw_user h' = user \<and> hw_consumed_at h' \<noteq> None"
  using assms unfolding set_session_consumed_def
  by (intro bexI [of _ "h\<lparr>hw_consumed_at := Some at, hw_updated_at := pd_now db\<rparr>"]) (auto simp: image_iff)

lemma save_preflight_ok:
  assumes "apps_tables_ok db"
  shows "apps_tables_ok (snd (sql_save_preflight p at db))"
  unfolding sql_save_preflight_def
proof (rule tx_ok [OF assms], goal_cases)
  case (1 x db')
  then obtain h db1 where h: "find_session (cp_user p) (cp_intent p) (cp_state_ref p) db = Some h"
    and valid: "is_valid_callback_status (cp_callback_status p)"
    and ins: "insert_preflight p (utc at) db = (Inr x, db1)"
    and db': "db' = (if hw_consumed_at h = None
      then set_session_consumed (cp_user p) (cp_intent p) (cp_state_ref p) (pg_instant (utc at)) db1 else db1)"
    by (auto simp: handler_ok reading_ok)
  let ?w = "preflight_row_of p (utc at) (pd_now db)"
  note w = ins [unfolded insert_preflight_iff]
  then have db1: "db1 = db\<lparr>pd_preflights := pd_preflights db @ [?w]\<rparr>" by blast
  define db0 where "db0 = (if hw_consumed_at h = None
      then set_session_consumed (cp_user p) (cp_intent p) (cp_state_ref p) (pg_instant (utc at)) db else db)"
  have ok: "apps_tables_ok db0" using assms session_consumed_ok by (simp add: db0_def)
  have same: "pd_preflights db0 = pd_preflights db" by (simp add: db0_def)
  have "db' = db0\<lparr>pd_preflights := pd_preflights db0 @ [?w]\<rparr>"
    unfolding db' db1 db0_def by (simp add: set_session_consumed_def)
  moreover have "\<exists>h' \<in> set (pd_sessions db0). hw_ref h' = cp_state_ref p \<and> hw_intent h' = cp_intent p \<and>
      hw_user h' = cp_user p \<and> hw_consumed_at h' \<noteq> None"
    using find_session_found [OF h] consumed_session [of h db] unfolding db0_def by (cases "hw_consumed_at h") auto
  then have "preflight_row_ok db0 ?w" using valid by (simp add: preflight_row_ok_def)
  ultimately show ?case using insert_preflight_ok [OF ok, of ?w] w same by simp
qed


lemma insert_exchange_iff:
  "insert_exchange x at db = (Inr y, db') \<longleftrightarrow> px_preflight x \<notin> gw_preflight ` set (pd_exchanges db) \<and>
     px_ref x \<notin> gw_ref ` set (pd_exchanges db) \<and> px_state_ref x \<notin> gw_state ` set (pd_exchanges db) \<and>
     y = scan_exchange (exchange_row_of x at (pd_now db)) \<and>
     db' = db\<lparr>pd_exchanges := pd_exchanges db @ [exchange_row_of x at (pd_now db)]\<rparr>"
  by (auto simp: insert_exchange_def Let_def list_ex_key)

lemma exchange_row_of_simps [simp]:
  "gw_ref (exchange_row_of x at now) = px_ref x" "gw_preflight (exchange_row_of x at now) = px_preflight x"
  "gw_state (exchange_row_of x at now) = px_state_ref x" "gw_intent (exchange_row_of x at now) = px_intent x"
  "gw_user (exchange_row_of x at now) = px_user x" "gw_status (exchange_row_of x at now) = px_status x"
  by (simp_all add: exchange_row_of_def)

lemma expected_status_authorized:
  "is_valid_callback_status callback \<Longrightarrow> \<not> (mode = mode_oauth \<and> callback \<noteq> cb_authorized) \<Longrightarrow>
     expected_exchange_status mode callback \<noteq> ex_blocked \<Longrightarrow> callback = cb_authorized"
  by (auto simp: expected_exchange_status_def is_valid_callback_status_def split: if_splits)

lemma save_exchange_ok:
  assumes "apps_tables_ok db"
  shows "apps_tables_ok (snd (sql_save_exchange x at db))"
  unfolding sql_save_exchange_def
proof (rule tx_ok [OF assms], goal_cases)
  case (1 y db')
  then obtain p where p: "find (\<lambda>w. lw_ref w = px_preflight x \<and> lw_state w = px_state_ref x \<and>
      lw_intent w = px_intent x \<and> lw_user w = px_user x) (pd_preflights db) = Some p"
    and mode: "\<not> (px_mode x = mode_oauth \<and> lw_callback_status p \<noteq> cb_authorized)"
    and ins: "insert_exchange (x\<lparr>px_status := expected_exchange_status (px_mode x) (lw_callback_status p)\<rparr>) (utc at) db
      = (Inr y, db')"
    by (auto simp: handler_ok reading_ok Let_def)
  let ?x = "x\<lparr>px_status := expected_exchange_status (px_mode x) (lw_callback_status p)\<rparr>"
  note p = found [OF p]
  with assms have "is_valid_callback_status (lw_callback_status p)"
    by (auto simp: apps_tables_ok_def list_all_iff preflight_row_ok_def)
  from expected_status_authorized [OF this mode] p
  have "exchange_row_ok db (exchange_row_of ?x (utc at) (pd_now db))"
    unfolding exchange_row_ok_def by (intro bexI [of _ p]) auto
  with insert_exchange_ok [OF assms, of "exchange_row_of ?x (utc at) (pd_now db)"] ins [unfolded insert_exchange_iff]
  show ?case by simp
qed

lemma insert_completion_iff:
  "insert_completion c at db = (Inr y, db') \<longleftrightarrow> ic_exchange c \<notin> mw_exchange ` set (pd_completions db) \<and>
     ic_ref c \<notin> mw_ref ` set (pd_completions db) \<and> ic_intent c \<notin> mw_intent ` set (pd_completions db) \<and>
     y = scan_completion (completion_row_of c at (pd_now db)) \<and>
     db' = db\<lparr>pd_completions := pd_completions db @ [completion_row_of c at (pd_now db)]\<rparr>"
  by (auto simp: insert_completion_def Let_def list_ex_key)

lemma completion_row_of_simps [simp]:
  "mw_ref (completion_row_of c at now) = ic_ref c" "mw_exchange (completion_row_of c at now) = ic_exchange c"
  "mw_intent (completion_row_of c at now) = ic_intent c" "mw_user (completion_row_of c at now) = ic_user c"
  "mw_status (completion_row_of c at now) = ic_status c"
  by (simp_all add: completion_row_of_def)

lemma find_exchange_row_found:
  "find_exchange_row user ref exchange_ref db = Some (x, i) \<Longrightarrow> x \<in> set (pd_exchanges db) \<and>
     gw_ref x = exchange_ref \<and> gw_intent x = ref \<and> gw_user x = user \<and> i \<in> set (pd_intents db) \<and> iw_ref i = ref"
  by (auto simp: find_exchange_row_def bind_eq_Some_conv dest!: found)

lemma save_completion_ok:
  assumes "apps_tables_ok db"
  shows "apps_tables_ok (snd (sql_save_completion c at db))"
  unfolding sql_save_completion_def
proof (rule tx_ok [OF assms], goal_cases)
  case (1 y db')
  let ?c = "\<lambda>x mode. c\<lparr>ic_status := if gw_status x = ex_blocked then st_blocked else st_installed, ic_mode := mode\<rparr>"
  from 1 obtain x i mode db1 where x: "find_exchange_row (ic_user c) (ic_intent c) (ic_exchange c) db = Some (x, i)"
    and i: "iw_status i = st_requires_auth"
    and ins: "insert_completion (?c x mode) (utc at) db = (Inr y, db1)"
    and db': "db' = set_intent_status (ic_user c) (ic_intent c) (ic_status (?c x mode)) (pg_instant (utc at)) db1"
    by (auto simp: handler_ok reading_ok Let_def)
  note f = find_exchange_row_found [OF x]
  let ?w = "completion_row_of (?c x mode) (utc at) (pd_now db)"
  from f have "completion_row_ok db ?w" unfolding completion_row_ok_def by (intro bexI [of _ x]) auto
  with insert_completion_ok [OF assms, of ?w] ins [unfolded insert_completion_iff] have ok: "apps_tables_ok db1"
    and same: "pd_intents db1 = pd_intents db" by simp_all
  have "iw_status j \<noteq> st_installed" if "j \<in> set (pd_intents db1)" "iw_ref j = ic_intent c" for j
  proof -
    have "j = i" using assms that f unfolding same apps_tables_ok_def apps_keys_ok_def
      by (auto simp: distinct_map inj_on_def)
    with i show ?thesis by simp
  qed
  then show ?case unfolding db' by (intro intent_status_ok [OF ok]) blast
qed

lemma insert_installation_iff:
  "insert_installation a c at db = (Inr y, db') \<longleftrightarrow> ai_status a = ''active'' \<and>
     ai_completion a \<notin> nw_completion ` set (pd_installations db) \<and>
     ai_ref a \<notin> nw_ref ` set (pd_installations db) \<and> ai_intent a \<notin> nw_intent ` set (pd_installations db) \<and>
     y = scan_installation (installation_row_of a at (pd_now db)) c \<and>
     db' = db\<lparr>pd_installations := pd_installations db @ [installation_row_of a at (pd_now db)]\<rparr>"
  by (auto simp: insert_installation_def Let_def list_ex_key)

lemma installation_row_of_simps [simp]:
  "nw_ref (installation_row_of a at now) = ai_ref a" "nw_completion (installation_row_of a at now) = ai_completion a"
  "nw_intent (installation_row_of a at now) = ai_intent a" "nw_user (installation_row_of a at now) = ai_user a"
  "nw_status (installation_row_of a at now) = ai_status a"
  by (simp_all add: installation_row_of_def)

lemma find_completion_row_found:
  "find_completion_row user ref completion_ref db = Some (m, i, c) \<Longrightarrow> m \<in> set (pd_completions db) \<and>
     mw_ref m = completion_ref \<and> mw_intent m = ref \<and> mw_user m = user \<and> i \<in> set (pd_intents db) \<and> iw_ref i = ref"
  by (auto simp: find_completion_row_def bind_eq_Some_conv dest!: found)

lemma save_installation_ok:
  assumes "apps_tables_ok db"
  shows "apps_tables_ok (snd (sql_save_installation a at db))"
  unfolding sql_save_installation_def
proof (rule tx_ok [OF assms], goal_cases)
  case (1 y db')
  then obtain m i c mode where m: "find_completion_row (ai_user a) (ai_intent a) (ai_completion a) db = Some (m, i, c)"
    and status: "iw_status i = st_installed" "mw_status m = st_installed"
    and ins: "insert_installation (a\<lparr>ai_mode := mode\<rparr>) c (utc at) db = (Inr y, db')"
    by (auto simp: handler_ok reading_ok Let_def)
  note f = find_completion_row_found [OF m] and ins = ins [unfolded insert_installation_iff]
  let ?w = "installation_row_of (a\<lparr>ai_mode := mode\<rparr>) (utc at) (pd_now db)"
  have "installation_row_ok db ?w" using f status ins unfolding installation_row_ok_def by auto
  with insert_installation_ok [OF assms, of ?w] ins show ?case by simp
qed

section \<open>Any sequence of statements\<close>

datatype apps_statement =
    SaveMetadata app_metadata
  | SaveIntent install_intent
  | MarkIntent int string
  | SaveSession auth_session
  | ConsumeSession int string string gotime
  | SavePreview install_intent app_metadata string gotime
  | SavePreflight callback_preflight gotime
  | SaveExchange provider_exchange gotime
  | SaveCompletion install_completion gotime
  | SaveInstallation app_installation gotime

fun apply_statement :: "apps_statement \<Rightarrow> apps_db \<Rightarrow> apps_db" where
  "apply_statement (SaveMetadata app) db = snd (sql_save_metadata app db)"
| "apply_statement (SaveIntent intent) db = snd (sql_save_intent intent db)"
| "apply_statement (MarkIntent user ref) db = snd (sql_mark_intent user ref db)"
| "apply_statement (SaveSession session) db = snd (sql_save_session session db)"
| "apply_statement (ConsumeSession user ref state_ref at) db = snd (sql_consume_session user ref state_ref at db)"
| "apply_statement (SavePreview intent app state_ref at) db = snd (sql_save_preview intent app state_ref at db)"
| "apply_statement (SavePreflight p at) db = snd (sql_save_preflight p at db)"
| "apply_statement (SaveExchange x at) db = snd (sql_save_exchange x at db)"
| "apply_statement (SaveCompletion c at) db = snd (sql_save_completion c at db)"
| "apply_statement (SaveInstallation a at) db = snd (sql_save_installation a at db)"

definition empty_apps_db :: apps_db where
  "empty_apps_db = \<lparr>pd_now = 0, pd_entropy = RandBytes [], pd_catalog = [], pd_intents = [], pd_sessions = [],
     pd_previews = [], pd_preflights = [], pd_exchanges = [], pd_completions = [], pd_installations = []\<rparr>"

text \<open>Servers that share the tables run the statements in any order, with the clock and the random source.\<close>

inductive apps_db_reach :: "apps_db \<Rightarrow> bool" where
  start: "apps_db_reach empty_apps_db"
| statement: "apps_db_reach db \<Longrightarrow> apps_db_reach (apply_statement op db)"
| environment: "apps_db_reach db \<Longrightarrow> apps_db_reach (db\<lparr>pd_now := now, pd_entropy := e\<rparr>)"

lemma filter_key_single: "distinct (map f xs) \<Longrightarrow> x \<in> set xs \<Longrightarrow> filter (\<lambda>y. f y = f x) xs = [x]"
proof (induction xs)
  case (Cons y ys)
  show ?case
  proof (cases "x = y")
    case True
    with Cons.prems(1) show ?thesis by (auto simp: filter_empty_conv image_iff)
  next
    case False
    with Cons show ?thesis by auto
  qed
qed simp

lemma empty_apps_ok: "apps_tables_ok empty_apps_db"
  by (simp add: apps_tables_ok_def apps_keys_ok_def empty_apps_db_def)

lemmas statement_ok = save_metadata_ok save_intent_ok mark_row_ok save_session_ok save_consume_ok
  save_preview_ok save_preflight_ok save_exchange_ok save_completion_ok save_installation_ok

lemma apps_db_reach_ok: "apps_db_reach db \<Longrightarrow> apps_tables_ok db"
proof (induction rule: apps_db_reach.induct)
  case start
  show ?case by (rule empty_apps_ok)
next
  case (statement db op)
  then show ?case by (cases op) (simp_all add: statement_ok)
next
  case (environment db now e)
  show ?case using environment.IH by (rule same_flow_ok) simp_all
qed

text \<open>
  C7: Over Postgres, whatever servers share the tables and in whatever order they run the repository's
  statements: an installation is the only one of its intent, and behind it is a chain of one user and
  one intent, an installed completion of an exchange that is not blocked, an authorized callback and a
  consumed handoff session; and its intent is installed.
\<close>
theorem pg_installation_provenance:
  assumes "apps_db_reach db" and "n \<in> set (pd_installations db)"
  shows "(\<exists>m \<in> set (pd_completions db). \<exists>x \<in> set (pd_exchanges db). \<exists>p \<in> set (pd_preflights db).
      \<exists>h \<in> set (pd_sessions db).
        mw_ref m = nw_completion n \<and> gw_ref x = mw_exchange m \<and> lw_ref p = gw_preflight x \<and> hw_ref h = lw_state p \<and>
        {mw_user m, gw_user x, lw_user p, hw_user h} = {nw_user n} \<and>
        {mw_intent m, gw_intent x, lw_intent p, hw_intent h} = {nw_intent n} \<and>
        mw_status m = st_installed \<and> gw_status x \<noteq> ex_blocked \<and> lw_callback_status p = cb_authorized \<and>
        hw_consumed_at h \<noteq> None) \<and>
    (\<exists>i \<in> set (pd_intents db). iw_ref i = nw_intent n \<and> iw_status i = st_installed) \<and>
    filter (\<lambda>k. nw_intent k = nw_intent n) (pd_installations db) = [n]"
proof -
  have ok: "apps_tables_ok db" using assms(1) by (rule apps_db_reach_ok)
  then have rows: "\<forall>n \<in> set (pd_installations db). installation_row_ok db n"
    "\<forall>m \<in> set (pd_completions db). completion_row_ok db m" "\<forall>x \<in> set (pd_exchanges db). exchange_row_ok db x"
    "\<forall>p \<in> set (pd_preflights db). preflight_row_ok db p"
    by (simp_all add: apps_tables_ok_def list_all_iff)
  from rows(1) assms(2) obtain m where m: "m \<in> set (pd_completions db)" "mw_ref m = nw_completion n"
    "mw_intent m = nw_intent n" "mw_user m = nw_user n" "mw_status m = st_installed"
    unfolding installation_row_ok_def by blast
  from rows(2) m(1,5) obtain x where x: "x \<in> set (pd_exchanges db)" "gw_ref x = mw_exchange m"
    "gw_intent x = mw_intent m" "gw_user x = mw_user m" "gw_status x \<noteq> ex_blocked"
    unfolding completion_row_ok_def by blast
  from rows(3) x(1,5) obtain p where p: "p \<in> set (pd_preflights db)" "lw_ref p = gw_preflight x"
    "lw_intent p = gw_intent x" "lw_user p = gw_user x" "lw_callback_status p = cb_authorized"
    unfolding exchange_row_ok_def by blast
  from rows(4) p(1) obtain h where h: "h \<in> set (pd_sessions db)" "hw_ref h = lw_state p"
    "hw_intent h = lw_intent p" "hw_user h = lw_user p" "hw_consumed_at h \<noteq> None"
    unfolding preflight_row_ok_def by blast
  have chain: "\<exists>m \<in> set (pd_completions db). \<exists>x \<in> set (pd_exchanges db). \<exists>p \<in> set (pd_preflights db).
      \<exists>h \<in> set (pd_sessions db).
        mw_ref m = nw_completion n \<and> gw_ref x = mw_exchange m \<and> lw_ref p = gw_preflight x \<and> hw_ref h = lw_state p \<and>
        {mw_user m, gw_user x, lw_user p, hw_user h} = {nw_user n} \<and>
        {mw_intent m, gw_intent x, lw_intent p, hw_intent h} = {nw_intent n} \<and>
        mw_status m = st_installed \<and> gw_status x \<noteq> ex_blocked \<and> lw_callback_status p = cb_authorized \<and>
        hw_consumed_at h \<noteq> None"
    using m x p h by (intro bexI [OF _ m(1)] bexI [OF _ x(1)] bexI [OF _ p(1)] bexI [OF _ h(1)]) simp
  have "filter (\<lambda>k. nw_intent k = nw_intent n) (pd_installations db) = [n]"
    using ok by (intro filter_key_single assms(2)) (simp add: apps_tables_ok_def apps_keys_ok_def)
  with chain rows(1) assms(2) show ?thesis unfolding installation_row_ok_def by blast
qed

end
