(* ===== verification/AppsTablesDemo.thy ===== *)
theory AppsTablesDemo
  imports AppsTables
begin

text \<open>An install that is carried through over Postgres.\<close>

definition sql_later :: gotime where
  "sql_later = \<lparr>inst = 1777647660000000000, zone = 0\<rparr>"

definition sql_intent :: install_intent where
  "sql_intent = \<lparr>ii_ref = ''i'', ii_user = 7, ii_app = ''gc'', ii_status = st_pending,
     ii_created_at = [], ii_updated_at = []\<rparr>"

definition sql_session :: auth_session where
  "sql_session = \<lparr>xs_ref = ''h'', xs_intent = ''i'', xs_user = 7, xs_expires_at = ''2026-05-01T15:10:00.000Z'',
     xs_consumed_at = [], xs_created_at = [], xs_updated_at = []\<rparr>"

definition sql_preflight :: callback_preflight where
  "sql_preflight = \<lparr>cp_ref = ''p'', cp_intent = ''i'', cp_app = ''gc'',
     cp_provider = ''pv'', cp_state_ref = ''h'', cp_callback_status = cb_authorized,
     cp_status = ''accepted'', cp_received_at = [], cp_created_at = [], cp_updated_at = [], cp_user = 7\<rparr>"

definition sql_exchange :: provider_exchange where
  "sql_exchange = \<lparr>px_ref = ''x'', px_intent = ''i'', px_app = ''gc'',
     px_provider = ''pv'', px_state_ref = ''h'', px_preflight = ''p'', px_status = [],
     px_mode = mode_simulated, px_recorded_at = [], px_created_at = [], px_updated_at = [], px_user = 7\<rparr>"

definition sql_completion :: install_completion where
  "sql_completion = \<lparr>ic_ref = ''m'', ic_intent = ''i'', ic_app = ''gc'',
     ic_provider = ''pv'', ic_exchange = ''x'', ic_status = [], ic_mode = [],
     ic_completed_at = [], ic_created_at = [], ic_updated_at = [], ic_user = 7\<rparr>"

definition sql_installation :: app_installation where
  "sql_installation = \<lparr>ai_ref = ''n'', ai_intent = ''i'', ai_completion = ''m'', ai_app = ''gc'',
     ai_name = [], ai_category = [], ai_provider = ''pv'', ai_auth_type = [],
     ai_capabilities = [], ai_status = ''active'', ai_mode = [], ai_activated_at = [], ai_created_at = [],
     ai_updated_at = [], ai_user = 7\<rparr>"

definition sql_app :: app_metadata where
  "sql_app = \<lparr>am_slug = ''gc'', am_category = ''c'', am_provider = ''pv'', am_name = ''G'', am_description = ''d'',
     am_auth_type = ''o'', am_capabilities = [], am_created_at = [], am_updated_at = []\<rparr>"

text \<open>The tables after each statement.\<close>

definition sql_db1 :: apps_db where
  "sql_db1 = empty_apps_db\<lparr>pd_catalog := [\<lparr>cg_slug = ''gc'', cg_category = ''c'', cg_provider = ''pv'', cg_name = ''G'',
     cg_description = ''d'', cg_auth_type = ''o'', cg_capabilities = [], cg_created_at = 0, cg_updated_at = 0\<rparr>]\<rparr>"

definition sql_intent_row :: "string \<Rightarrow> int \<Rightarrow> intent_row" where
  "sql_intent_row status at = \<lparr>iw_ref = ''i'', iw_user = 7, iw_app = ''gc'', iw_status = status, iw_created_at = 0,
     iw_updated_at = at\<rparr>"

definition sql_session_row :: "int option \<Rightarrow> session_row" where
  "sql_session_row at = \<lparr>hw_ref = ''h'', hw_intent = ''i'', hw_user = 7, hw_expires_at = 1777648200000000000,
     hw_consumed_at = at, hw_created_at = 0, hw_updated_at = 0\<rparr>"

definition sql_db2 :: apps_db where
  "sql_db2 = sql_db1\<lparr>pd_intents := [sql_intent_row st_pending 0]\<rparr>"

definition sql_db3 :: apps_db where
  "sql_db3 = sql_db2\<lparr>pd_intents := [sql_intent_row st_requires_auth 0]\<rparr>"

definition sql_db4 :: apps_db where
  "sql_db4 = sql_db3\<lparr>pd_sessions := [sql_session_row None]\<rparr>"

definition sql_db5 :: apps_db where
  "sql_db5 = sql_db4\<lparr>pd_sessions := [sql_session_row (Some 1777647660000000000)],
     pd_preflights := [preflight_row_of sql_preflight sql_later 0]\<rparr>"

definition sql_db6 :: apps_db where
  "sql_db6 = sql_db5\<lparr>pd_exchanges := [exchange_row_of (sql_exchange\<lparr>px_status := ex_queued\<rparr>) sql_later 0]\<rparr>"

definition sql_db7 :: apps_db where
  "sql_db7 = sql_db6\<lparr>pd_completions := [completion_row_of
       (sql_completion\<lparr>ic_status := st_installed, ic_mode := mode_simulated\<rparr>) sql_later 0],
     pd_intents := [sql_intent_row st_installed 1777647660000000000]\<rparr>"

definition sql_db8 :: apps_db where
  "sql_db8 = sql_db7\<lparr>pd_installations :=
     [installation_row_of (sql_installation\<lparr>ai_mode := mode_simulated\<rparr>) sql_later 0]\<rparr>"

lemma sql_step1: "apply_statement (SaveMetadata sql_app) empty_apps_db = sql_db1"
  by (simp add: sql_save_metadata_def and_then_def require_none_tx_def validate_app_metadata_def sql_app_def
      reading_def check_def demand_def sql_read_catalog_def scan_app_def empty_apps_db_def sql_db1_def)
lemma sql_texts: "\<not> blank ''i''" "\<not> blank ''gc''" "\<not> blank ''m''" "\<not> blank ''x''" "\<not> blank ''pv''" "\<not> blank ''n''"
  "trim_space ''active'' = ''active''" "trim_space ''i'' \<noteq> []" "trim_space ''gc'' \<noteq> []" "utc sql_later = sql_later"
  "pg_instant sql_later = 1777647660000000000"
  by code_simp+

lemma sql_step2: "apply_statement (SaveIntent sql_intent) sql_db1 = sql_db2"
  by (simp add: sql_save_intent_def and_then_def require_none_tx_def validate_install_intent_def sql_intent_def
      reading_def check_def catalog_entry_def fits_int4_def is_valid_install_intent_status_def sql_intent_row_def
      empty_apps_db_def sql_db1_def sql_db2_def sql_texts Let_def)

lemmas sql_dbs = sql_db8_def sql_db7_def sql_db6_def sql_db5_def sql_db4_def sql_db3_def sql_db2_def sql_db1_def
  empty_apps_db_def sql_intent_row_def sql_exchange_def sql_completion_def sql_installation_def sql_preflight_def

lemmas sql_handlers = with_tx_def and_then_def reading_def check_def demand_def return_ok_def fail_with_def fits_int4_def
  Let_def catalog_entry_def

lemma sql_expiry: "parse_wire ''2026-05-01T15:10:00.000Z'' = Some \<lparr>inst = 1777648200000000000, zone = 0\<rparr>"
  "parse_wire (apps_wire_time 1777648200000000000) = Some \<lparr>inst = 1777648200000000000, zone = 0\<rparr>"
  "\<not> blank ''2026-05-01T15:10:00.000Z''" "after \<lparr>inst = 1777648200000000000, zone = 0\<rparr> sql_later"
  "pg_instant \<lparr>inst = 1777648200000000000, zone = 0\<rparr> = 1777648200000000000" "\<not> blank ''h''" "\<not> blank ''p''"
  by code_simp+

lemma sql_step3: "apply_statement (MarkIntent 7 ''i'') sql_db2 = sql_db3"
  by (simp add: sql_mark_intent_def sql_handlers find_intent_def set_intent_status_def sql_dbs)

lemma sql_step4: "apply_statement (SaveSession sql_session) sql_db3 = sql_db4"
  by (simp add: sql_save_session_def sql_session_def sql_session_row_def sql_handlers sql_texts sql_expiry sql_dbs)

lemma sql_step5: "apply_statement (SavePreflight sql_preflight sql_later) sql_db4 = sql_db5"
  by (simp add: sql_save_preflight_def sql_session_row_def sql_handlers find_session_def insert_preflight_def
      set_session_consumed_def is_valid_callback_status_def preflight_row_of_def scan_session_def sql_texts sql_expiry sql_dbs)

lemma sql_step6: "apply_statement (SaveExchange sql_exchange sql_later) sql_db5 = sql_db6"
  by (simp add: sql_save_exchange_def sql_handlers insert_exchange_def expected_exchange_status_def is_valid_mode_def
      preflight_row_of_def exchange_row_of_def sql_texts sql_expiry sql_dbs)

lemma sql_step7: "apply_statement (SaveCompletion sql_completion sql_later) sql_db6 = sql_db7"
  by (simp add: sql_save_completion_def sql_handlers find_exchange_row_def insert_completion_def
      exchange_row_of_def completion_row_of_def set_intent_status_def sql_texts sql_dbs)

lemma sql_step8: "apply_statement (SaveInstallation sql_installation sql_later) sql_db7 = sql_db8"
  by (simp add: sql_save_installation_def sql_handlers find_completion_row_def insert_installation_def
      joined_installations_def installation_row_of_def completion_row_of_def sql_texts sql_dbs)

lemma sql_db8_reach: "apps_db_reach sql_db8"
  by (fold sql_step8, rule statement, fold sql_step7, rule statement, fold sql_step6, rule statement,
      fold sql_step5, rule statement, fold sql_step4, rule statement, fold sql_step3, rule statement,
      fold sql_step2, rule statement, fold sql_step1, rule statement, rule start)

theorem pg_installation_provenance_witness:
  "\<exists>i \<in> set (pd_intents sql_db8). iw_ref i = ''i'' \<and> iw_status i = st_installed"
proof -
  have "installation_row_of (sql_installation\<lparr>ai_mode := mode_simulated\<rparr>) sql_later 0 \<in> set (pd_installations sql_db8)"
    by (simp add: sql_db8_def)
  from pg_installation_provenance [OF sql_db8_reach this] show ?thesis
    by (simp add: sql_installation_def)
qed

end
