(* ===== verification/Spec2Isabelle.thy ===== *)
theory Spec2Isabelle
  imports AuthTables SlotsTables Authz BookingProps ProviderInstall CalendarsDemo HttpDemo DispatcherDemo Envelopes AppsTablesDemo
begin

text \<open>
  A verification library for the booking backend under \<open>src/backend\<close>.

  The program. An HTTP server (\<open>internal/httpapi\<close>) authenticates each request with the auth service
  (\<open>internal/auth\<close>), asks the authorizer (\<open>internal/authz\<close>), and calls one store: bookings
  (\<open>internal/booking\<close>), app installs (\<open>internal/apps\<close>), credentials (\<open>internal/credentials\<close>) or
  calendars (\<open>internal/calendars\<close>); a booking asks the slot service (\<open>internal/slots\<close>) whether its
  slot is free and plans the side effects of its changes. A store keeps its state in maps under a
  mutex, or, when it is given one, in a Postgres repository with a cache in front. A worker
  (\<open>cmd/worker\<close>) claims the planned side effects and dispatches them as webhooks, emails and calendar
  calls, recording each attempt.

  \<^bold>\<open>How the code is modelled.\<close> A method that holds the store's mutex is one step: a function from the
  store to a result and the store after it, an error being a value (\<open>'e + 'a\<close>). Long methods are
  handlers of the small error monad of \<open>Prelude\<close>, so a guard and its early return stand where the
  code has them. Parameters of the model: the digest (SHA-256), each reading of the clock, the random
  source, time zone and address syntax, and the ports a store is built with (records of functions
  over an environment). A Go map that is only looked up is a partial function, one that is iterated
  over is an association list in any order. All loops of the program run over finite lists and are
  structural recursions; no fuel is used. The worker's loop over its ticks is not a function: its
  passes are the steps of a relation, and that the retries of an effect end is a theorem.

  \<^bold>\<open>The Postgres repositories.\<close> A repository is its tables and what its statements do under the keys,
  references and checks of the migrations. Assumed throughout: a statement fails by violating a
  constraint only (connection failures and context deadlines are left out), a transaction that fails
  leaves the tables alone, texts are storable (valid UTF-8 without NUL) and ordered byte by byte, and
  the values that a sequence skips are not observed. That an integer is in the range of its column is
  checked in the tables of \<open>auth\<close>, \<open>slots\<close> and \<open>apps\<close>; it is assumed of the user ids in the tables of
  \<open>credentials\<close> and \<open>calendars\<close>, and of the numbers of a booking. A method of a repository is one step
  when everything its transaction relies on is locked or written by it. The one that is not, the
  preparation of the attempts of an effect, reads subscriptions and bookings on other connections: \<open>prepare_attempts_via\<close>
  takes the tables of each of its reads apart, and \<open>dispatch_step\<close> lets the reads be stale.

  \<^bold>\<open>The theories.\<close>
  \<^item> \<open>Prelude\<close>: handlers, Go maps, the comparator sort, best-match loops. \<open>GoStrings\<close>, \<open>GoCivil\<close>,
    \<open>GoTime\<close>, \<open>GoMail\<close>, \<open>GoJson\<close>: what the program uses of \<open>strings\<close>, \<open>time\<close>, \<open>net/mail\<close> and
    \<open>encoding/json\<close>. \<open>Postgres\<close>: integer ranges, the microseconds of a timestamp, transactions.
  \<^item> \<open>Auth\<close>, \<open>AuthGrants\<close>: \<open>auth/service.go\<close>; one-time grants as a locale, interpreted on the
    authorization codes and the refresh tokens; scopes never grow, refresh tokens rotate. \<open>AuthRepo\<close>,
    \<open>AuthTables\<close>: \<open>auth/postgres_repository.go\<close> and the same locale on its tables.
  \<^item> \<open>Authz\<close>: \<open>authz/policy.go\<close>. \<open>Slots\<close>: \<open>slots/service.go\<close>, the busy filter and availability, which
    asks for the busy times of a slot's first microsecond. \<open>SlotsRepo\<close>, \<open>SlotsTables\<close>:
    \<open>slots/postgres_repository.go\<close>, and what is available over it.
  \<^item> \<open>BookingModel\<close>, \<open>BookingStore\<close>: \<open>booking/store.go\<close>, \<open>validation.go\<close>, \<open>availability.go\<close>,
    \<open>side_effects.go\<close>; \<open>BookingLifecycle\<close>, \<open>BookingProps\<close>: the invariant of all runs, the state
    machine of a booking, idempotent creation, ownership, effects saved with their booking.
  \<^item> \<open>BookingRepo\<close>: \<open>booking/postgres_repository.go\<close>, tables, JSON columns and the queue of effects;
    \<open>BookingCache\<close> (the contract of the repository as a locale), \<open>BookingTables\<close> (its interpretation):
    a saved booking reads back, a restart is not observed; \<open>BookingDemo\<close>: runs over the tables.
  \<^item> \<open>Deliveries\<close>, \<open>Dispatcher\<close>: the envelopes, transports, subscriptions and attempts of the side
    effects (\<open>booking/*_deliveries.go\<close>, \<open>*_dispatches.go\<close>, \<open>*_transport.go\<close>,
    \<open>postgres_side_effect_dispatcher*.go\<close>, \<open>postgres_webhook_subscriptions.go\<close>), the worker
    (\<open>side_effect_worker.go\<close>, \<open>cmd/worker\<close>). \<open>Attempts\<close>, \<open>AttemptRuns\<close>: what each transaction does and
    the steps of several dispatchers; \<open>DispatcherProps\<close>, \<open>DispatcherEnd\<close>: attempts are bounded, settled
    attempts are final, calls match counts, retries end; \<open>Workers\<close>: claims are exclusive, a run settles
    what it claimed; \<open>Envelopes\<close>: adapters receive what was stored; \<open>DispatcherDemo\<close>: runs, among them
    one with a stale read.
  \<^item> \<open>AppsModel\<close>, \<open>AppsStore\<close>, \<open>AppsProgress\<close>: \<open>apps/store.go\<close> and the fixture OAuth port;
    \<open>AppsFlow\<close>, \<open>AppsInvariant\<close>, \<open>AppsProps\<close>, \<open>AppsClient\<close>: where an installation comes from, what
    happens once, what is final, what a client reads; \<open>AppsProvider\<close>, \<open>ProviderInstall\<close>: the contract
    of the OAuth port and of the credential store as locales, and that an install can be completed.
    \<open>AppsRepo\<close>, \<open>AppsWrites\<close>: \<open>apps/postgres_repository.go\<close>; \<open>AppsTables\<close>: where an installation comes
    from over the tables, whatever servers share them; \<open>AppsTablesDemo\<close>: an install carried through.
  \<^item> \<open>Integrations\<close>, \<open>Credentials\<close>, \<open>CredentialsRepo\<close>: \<open>integrations/status.go\<close> and
    \<open>internal/credentials\<close>; \<open>CredentialsProps\<close>, \<open>CredentialsRefresh\<close>: keys stay unique, the
    transaction of the status refresh refines the refresh in memory up to the stamps of the rows.
  \<^item> \<open>Calendars\<close>, \<open>CalendarsRepo\<close>: \<open>internal/calendars\<close>; \<open>CalendarsClient\<close> (the contract of its
    repository as a locale), \<open>CalendarsTables\<close>, \<open>CalendarsBackend\<close> (the interpretation),
    \<open>CalendarsProps\<close>: the cache is what the tables hold, for every user but the fixture user, whose
    seeding departs from it (shown in \<open>CalendarsDemo\<close>); what a catalog sync does to any tables.
  \<^item> \<open>HttpModel\<close>, \<open>HttpHandlers\<close>, \<open>HttpBookings\<close>, \<open>HttpServer\<close>: \<open>internal/httpapi\<close>; \<open>HttpRules\<close>,
    \<open>HttpGates\<close>: shapes of responses, refused requests change nothing; \<open>HttpEffects\<close>,
    \<open>HttpIsolation\<close>, \<open>HttpProps\<close>: no request touches another user's records, and the grants of the
    auth service change only by the exchange of the grant that the request presents.
  \<^item> \<open>AppsDemo\<close>, \<open>CalendarsDemo\<close>, \<open>HttpDemo\<close>: concrete runs, which witness the properties of
    reachable states and show where the code departs from its intention.

  \<^bold>\<open>Not modelled.\<close> The AES sealing of provider tokens and its table (the secrets kept in memory are
  modelled), logging, configuration, the migration runner and the start-up glue of the commands.
\<close>

end
